(* ===== verification/Prelude.thy ===== *)
theory Prelude
  imports Complex_Main "HOL-Library.Sublist" "HOL-Library.Monad_Syntax"
begin

text \<open>
  What every component shares: text and number formatting of the Python standard library as the
  scripts use it, the option type as "the Python code raises", and the simp collections.

  Text is a list of bytes (the UTF-8 encoding of the Python string); the ASCII operations
  (lower, strip, split) act on the ASCII bytes. A partial computation is an option value:
  \<open>None\<close> means that the Python expression raises an exception that the code does not catch at
  that place (AttributeError, TypeError, ValueError, KeyError, OverflowError), or that a value
  lies outside the part of the standard library that is modelled. The monad syntax of
  HOL-Library then reads like the source.
\<close>

named_theorems str_simps \<open>unfolding rules of the text operations\<close>
named_theorems py_simps \<open>unfolding rules of the Python value operations\<close>

section \<open>Options as possibly raising computations\<close>

definition guard_opt :: "bool \<Rightarrow> 'a option \<Rightarrow> 'a option" where
  "guard_opt b m = (if b then m else None)"

lemma bind_Some_iff [simp]:
  "Option.bind m f = Some y \<longleftrightarrow> (\<exists>x. m = Some x \<and> f x = Some y)"
  by (cases m) auto

lemma those_Some_iff: "those xs = Some ys \<longleftrightarrow> map Some ys = xs"
  by (induction xs arbitrary: ys) (auto split: option.splits simp: Cons_eq_map_conv)

lemma those_map_Some: "those (map f xs) = Some ys \<longleftrightarrow> map f xs = map Some ys"
  by (auto simp: those_Some_iff)

lemma those_map_SomeD:
  assumes "those (map f xs) = Some ys" and "y \<in> set ys"
  shows "\<exists>x \<in> set xs. f x = Some y"
proof -
  from assms(1) have "map f xs = map Some ys" by (simp add: those_map_Some)
  with assms(2) have "Some y \<in> f ` set xs"
    by (metis image_eqI image_set list.set_map)
  then show ?thesis by auto
qed

text \<open>A comprehension whose condition may raise.\<close>

fun filter_opt :: "('a \<Rightarrow> bool option) \<Rightarrow> 'a list \<Rightarrow> 'a list option" where
  "filter_opt p [] = Some []"
| "filter_opt p (x # xs) =
     do { b \<leftarrow> p x; ys \<leftarrow> filter_opt p xs; Some (if b then x # ys else ys) }"

lemma filter_opt_Some: "filter_opt p xs = Some ys \<Longrightarrow> ys = filter (\<lambda>x. p x = Some True) xs \<and> (\<forall>x \<in> set xs. p x \<noteq> None)"
  by (induction xs arbitrary: ys) (auto split: bind_splits if_splits)

section \<open>ASCII text\<close>

abbreviation chr_in :: "nat \<Rightarrow> char \<Rightarrow> nat \<Rightarrow> bool" where
  "chr_in lo c hi \<equiv> lo \<le> (of_char c :: nat) \<and> (of_char c :: nat) \<le> hi"

definition is_digit :: "char \<Rightarrow> bool" where
  "is_digit c \<longleftrightarrow> chr_in 48 c 57"

definition is_lower :: "char \<Rightarrow> bool" where
  "is_lower c \<longleftrightarrow> chr_in 97 c 122"

definition is_upper :: "char \<Rightarrow> bool" where
  "is_upper c \<longleftrightarrow> chr_in 65 c 90"

definition is_ascii :: "char \<Rightarrow> bool" where
  "is_ascii c \<longleftrightarrow> (of_char c :: nat) < 128"

text \<open>\<open>str.isspace\<close> on ASCII: tab, newline, vertical tab, form feed, return, FS to US, space.\<close>

definition is_space :: "char \<Rightarrow> bool" where
  "is_space c \<longleftrightarrow> chr_in 9 c 13 \<or> chr_in 28 c 32"

definition lower_char :: "char \<Rightarrow> char" where
  "lower_char c = (if is_upper c then char_of (of_char c + 32 :: nat) else c)"

definition str_lower :: "string \<Rightarrow> string" where
  "str_lower s = map lower_char s"

definition lstrip :: "string \<Rightarrow> string" where
  "lstrip s = dropWhile is_space s"

definition rstrip :: "string \<Rightarrow> string" where
  "rstrip s = rev (dropWhile is_space (rev s))"

definition str_strip :: "string \<Rightarrow> string" where
  "str_strip s = rstrip (lstrip s)"

text \<open>\<open>str.rstrip(".")\<close> and \<open>str.strip("-")\<close>: all trailing (or surrounding) copies of one character.\<close>

definition rstrip_chr :: "char \<Rightarrow> string \<Rightarrow> string" where
  "rstrip_chr c s = rev (dropWhile (\<lambda>x. x = c) (rev s))"

definition strip_chr :: "char \<Rightarrow> string \<Rightarrow> string" where
  "strip_chr c s = rstrip_chr c (dropWhile (\<lambda>x. x = c) s)"

text \<open>\<open>str.split(c)\<close> for a one-character separator, and \<open>str.split()\<close> on whitespace.\<close>

fun split_on :: "(char \<Rightarrow> bool) \<Rightarrow> string \<Rightarrow> string list" where
  "split_on p [] = [[]]"
| "split_on p (c # cs) =
     (if p c then [] # split_on p cs
      else (case split_on p cs of [] \<Rightarrow> [[c]] | w # ws \<Rightarrow> (c # w) # ws))"

definition split_ws :: "string \<Rightarrow> string list" where
  "split_ws s = filter (\<lambda>w. w \<noteq> []) (split_on is_space s)"

text \<open>\<open>splitlines\<close> on the ASCII line boundaries; the blank lines are filtered out at once, so that a
  return and a newline may count as two boundaries.\<close>

definition is_linebreak :: "char \<Rightarrow> bool" where
  "is_linebreak c \<longleftrightarrow> chr_in 10 c 13 \<or> chr_in 28 c 30"

text \<open>\<open>sep.join(xs)\<close>.\<close>

fun str_join :: "string \<Rightarrow> string list \<Rightarrow> string" where
  "str_join sep [] = []"
| "str_join sep [x] = x"
| "str_join sep (x # y # ys) = x @ sep @ str_join sep (y # ys)"

text \<open>\<open>s[:n]\<close> counts characters: a byte 128 to 191 continues one.\<close>

fun take_chars :: "nat \<Rightarrow> string \<Rightarrow> string" where
  "take_chars n [] = []"
| "take_chars n (c # s) =
     (if chr_in 128 c 191 then c # take_chars n s
      else case n of 0 \<Rightarrow> [] | Suc k \<Rightarrow> c # take_chars k s)"

definition newline :: string where
  "newline = [CHR 10]"

definition em_dash :: string where
  "em_dash = [CHR 0xE2, CHR 0x80, CHR 0x94]"

lemma split_on_not_Nil [simp]: "split_on p s \<noteq> []"
  by (induction s) (auto split: list.splits)

lemma split_on_no_sep: "\<forall>w \<in> set (split_on p s). \<forall>c \<in> set w. \<not> p c"
  by (induction s) (auto split: list.splits)

section \<open>Python regular expressions of the form the scripts use\<close>

text \<open>
  \<open>lazy1 post s\<close> is the shortest non-empty match of \<open>(.+?)\<close> that is followed by \<open>post\<close>
  (a dot does not match a newline); \<open>search1 pre post\<close> is group 1 of
  \<open>re.search(pre + "(.+?)" + post)\<close>: the leftmost place where the whole pattern matches.
\<close>

fun lazy1 :: "string \<Rightarrow> string \<Rightarrow> string option" where
  "lazy1 post [] = None"
| "lazy1 post (c # s) =
     (if c = CHR 10 then None
      else if prefix post s then Some [c]
      else map_option (Cons c) (lazy1 post s))"

fun search1 :: "string \<Rightarrow> string \<Rightarrow> string \<Rightarrow> string option" where
  "search1 pre post [] = None"
| "search1 pre post (c # s) =
     (case (if prefix pre (c # s) then lazy1 post (drop (length pre) (c # s)) else None) of
        Some m \<Rightarrow> Some m
      | None \<Rightarrow> search1 pre post s)"

text \<open>\<open>re.findall\<close> for the same pattern: matches do not overlap, the scan resumes after each.\<close>

function findall1 :: "string \<Rightarrow> string \<Rightarrow> string \<Rightarrow> string list" where
  "findall1 pre post s =
     (case s of
        [] \<Rightarrow> []
      | c # t \<Rightarrow>
          (case (if prefix pre s then lazy1 post (drop (length pre) s) else None) of
             Some m \<Rightarrow> m # findall1 pre post (drop (max 1 (length pre + length m + length post)) s)
           | None \<Rightarrow> findall1 pre post t))"
  by pat_completeness auto
termination
  by (relation "measure (\<lambda>(pre, post, s). length s)") auto

declare findall1.simps [simp del]

lemma prefix_append_same [simp]: "prefix xs (xs @ ys)"
  by (simp add: prefix_def)

lemma lazy1_append:
  assumes "m \<noteq> []" and "CHR 10 \<notin> set m"
    and "\<And>u v. m = u @ v \<Longrightarrow> u \<noteq> [] \<Longrightarrow> v \<noteq> [] \<Longrightarrow> \<not> prefix post (v @ post @ rest)"
  shows "lazy1 post (m @ post @ rest) = Some m"
  using assms
proof (induction m)
  case Nil
  then show ?case by simp
next
  case (Cons c m)
  show ?case
  proof (cases "m = []")
    case True
    moreover have "c \<noteq> CHR 10" using Cons.prems(2) by auto
    ultimately show ?thesis by simp
  next
    case False
    have np: "\<not> prefix post (m @ post @ rest)"
      using Cons.prems(3) [of "[c]" m] False by simp
    have "lazy1 post (m @ post @ rest) = Some m"
    proof (rule Cons.IH)
      fix u v assume "m = u @ v" "u \<noteq> []" "v \<noteq> []"
      then show "\<not> prefix post (v @ post @ rest)"
        using Cons.prems(3) [of "c # u" v] by simp
    qed (use False Cons.prems in auto)
    moreover have "c \<noteq> CHR 10" using Cons.prems(2) by auto
    ultimately show ?thesis using np by simp
  qed
qed

lemma search1_prefix:
  assumes "lazy1 post s = Some m" and "pre \<noteq> []"
  shows "search1 pre post (pre @ s) = Some m"
proof (cases pre)
  case (Cons c p)
  then have "prefix pre (c # p @ s)" by simp
  with assms Cons show ?thesis by simp
qed (use assms in simp)

lemma search1_skip:
  assumes "\<not> prefix pre (c # s)"
  shows "search1 pre post (c # s) = search1 pre post s"
  using assms by simp

lemma lazy1_no_nl: "lazy1 post s = Some m \<Longrightarrow> m \<noteq> [] \<and> CHR 10 \<notin> set m"
  by (induction s arbitrary: m) (auto split: if_splits)

end
