(* ===== verification/PyNum.thy ===== *)
theory PyNum
  imports Prelude
begin

text \<open>
  Numbers as the Python code prints and reads them: decimal text of naturals and integers with its
  round trip, IEEE specials as an own type over exact rationals, the format codes \<open>.0f\<close> to
  \<open>.4f\<close>, \<open>round\<close> (half to even), and the conversions \<open>int(str)\<close> and \<open>float(str)\<close>.
  A finite float is an exact rational: the rounding of binary arithmetic is not modelled, the
  comparisons and the special values are.
\<close>

section \<open>Decimal digits\<close>

definition digit_char :: "int \<Rightarrow> char" where
  "digit_char d = char_of (48 + nat d)"

definition digit_val :: "char \<Rightarrow> int" where
  "digit_val c = int (of_char c) - 48"

text \<open>The decimal text of a natural number (an int that is not negative).\<close>

function show_nat :: "int \<Rightarrow> string" where
  "show_nat n = (if n < 10 then [digit_char n] else show_nat (n div 10) @ [digit_char (n mod 10)])"
  by pat_completeness auto
termination
  by (relation "measure nat") auto

declare show_nat.simps [simp del]

definition show_int :: "int \<Rightarrow> string" where
  "show_int i = (if i < 0 then ''-'' @ show_nat (- i) else show_nat i)"

definition digits_val :: "string \<Rightarrow> int" where
  "digits_val ds = foldl (\<lambda>n c. 10 * n + digit_val c) 0 ds"

lemma digit_val_char [simp]: "0 \<le> d \<Longrightarrow> d < 10 \<Longrightarrow> digit_val (digit_char d) = d"
  by (simp add: digit_val_def digit_char_def nat_mod_distrib [symmetric])

lemma is_digit_digit_char [simp]: "0 \<le> d \<Longrightarrow> d < 10 \<Longrightarrow> is_digit (digit_char d)"
  by (simp add: is_digit_def digit_char_def)

lemma digits_val_snoc [simp]:
  "digits_val (ds @ [c]) = 10 * digits_val ds + digit_val c"
  by (simp add: digits_val_def)

lemma digits_val_Nil [simp]: "digits_val [] = 0"
  by (simp add: digits_val_def)

lemma digits_val_single [simp]: "digits_val [c] = digit_val c"
  by (simp add: digits_val_def)

lemma digits_val_show_nat [simp]: "0 \<le> n \<Longrightarrow> digits_val (show_nat n) = n"
proof (induction n rule: show_nat.induct)
  case (1 n)
  then show ?case by (subst show_nat.simps) simp
qed

lemma show_nat_digits: "0 \<le> n \<Longrightarrow> c \<in> set (show_nat n) \<Longrightarrow> is_digit c"
proof (induction n rule: show_nat.induct)
  case (1 n)
  show ?case
  proof (cases "n < 10")
    case True
    with "1.prems" show ?thesis by (subst (asm) show_nat.simps) simp
  next
    case False
    with "1" show ?thesis by (subst (asm) show_nat.simps) auto
  qed
qed

lemma show_nat_not_Nil [simp]: "show_nat n \<noteq> []"
  by (subst show_nat.simps) simp

lemma show_nat_inject: "0 \<le> m \<Longrightarrow> 0 \<le> n \<Longrightarrow> show_nat m = show_nat n \<longleftrightarrow> m = n"
  by (metis digits_val_show_nat)

lemma digit_char_0 [simp]: "digit_char 0 = CHR ''0''"
  by code_simp

lemma digit_val_zero [simp]: "digit_val (CHR ''0'') = 0"
  by (simp add: digit_val_def)

lemma show_nat_hd_nonzero: "0 < n \<Longrightarrow> hd (show_nat n) \<noteq> CHR ''0''"
proof (induction n rule: show_nat.induct)
  case (1 n)
  show ?case
  proof (cases "n < 10")
    case True
    then have "digit_char n \<noteq> CHR ''0''"
      using "1.prems" digit_val_char [of n] by force
    with True show ?thesis by (subst show_nat.simps) simp
  next
    case False
    with "1" have "hd (show_nat (n div 10)) \<noteq> CHR ''0''" by simp
    with False show ?thesis by (subst show_nat.simps) simp
  qed
qed

lemma show_nat_0 [simp]: "show_nat 0 = ''0''"
  by (subst show_nat.simps) simp

lemma length_show_nat_le:
  assumes "0 \<le> n" and "n < 10 ^ k" and "0 < k"
  shows "length (show_nat n) \<le> k"
  using assms
proof (induction k arbitrary: n)
  case (Suc k)
  show ?case
  proof (cases "n < 10")
    case True
    then show ?thesis by (subst show_nat.simps) simp
  next
    case False
    with Suc.prems have "0 < k" by (cases k) auto
    moreover from Suc.prems have "n div 10 < 10 ^ k" by simp
    ultimately have "length (show_nat (n div 10)) \<le> k" using Suc.IH Suc.prems by simp
    with False show ?thesis by (subst show_nat.simps) simp
  qed
qed simp

text \<open>\<open>f"{n:0kd}"\<close>: the decimal text padded with zeros to at least k digits.\<close>

definition pad_nat :: "nat \<Rightarrow> int \<Rightarrow> string" where
  "pad_nat k n = replicate (k - length (show_nat n)) (CHR ''0'') @ show_nat n"

lemma digits_val_zeros [simp]:
  "digits_val (replicate k (CHR ''0'') @ ds) = digits_val ds"
  by (induction k) (simp_all add: digits_val_def)

lemma digits_val_pad [simp]: "0 \<le> n \<Longrightarrow> digits_val (pad_nat k n) = n"
  by (simp add: pad_nat_def)

lemma pad_nat_digits: "0 \<le> n \<Longrightarrow> c \<in> set (pad_nat k n) \<Longrightarrow> is_digit c"
  by (auto simp: pad_nat_def dest: show_nat_digits) (simp add: is_digit_def)

lemma length_pad_nat: "0 \<le> n \<Longrightarrow> n < 10 ^ k \<Longrightarrow> 0 < k \<Longrightarrow> length (pad_nat k n) = k"
  using length_show_nat_le [of n k] by (simp add: pad_nat_def)

lemma pad_nat_not_Nil [simp]: "pad_nat k n \<noteq> []"
  by (simp add: pad_nat_def)

text \<open>The text of a number holds digits, a point and a sign only.\<close>

lemma show_nat_all_digits: "c \<in> set (show_nat n) \<Longrightarrow> is_digit c"
proof (induction n rule: show_nat.induct)
  case (1 n)
  have dig: "is_digit (digit_char d)" if "d < 10" for d
    using that by (simp add: is_digit_def digit_char_def nat_less_iff)
  show ?case
  proof (cases "n < 10")
    case True
    with "1.prems" dig show ?thesis by (subst (asm) show_nat.simps) simp
  next
    case False
    with "1" dig show ?thesis by (subst (asm) show_nat.simps) auto
  qed
qed

definition num_char :: "char \<Rightarrow> bool" where
  "num_char c \<longleftrightarrow> is_digit c \<or> c = CHR ''-'' \<or> c = CHR ''.''"

lemma show_int_num_char: "c \<in> set (show_int i) \<Longrightarrow> num_char c"
  by (auto simp: show_int_def num_char_def dest: show_nat_all_digits split: if_splits)

section \<open>Floats\<close>

datatype flt = Fin rat | PInf | NInf | NaN

text \<open>The IEEE comparisons: every comparison with a NaN is false.\<close>

fun fle :: "flt \<Rightarrow> flt \<Rightarrow> bool" where
  "fle NaN y = False"
| "fle x NaN = False"
| "fle NInf y = True"
| "fle x PInf = True"
| "fle (Fin a) (Fin b) = (a \<le> b)"
| "fle x y = False"

fun flt_less :: "flt \<Rightarrow> flt \<Rightarrow> bool" where
  "flt_less NaN y = False"
| "flt_less x NaN = False"
| "flt_less NInf y = (y \<noteq> NInf)"
| "flt_less PInf y = False"
| "flt_less x PInf = True"
| "flt_less (Fin a) (Fin b) = (a < b)"
| "flt_less (Fin a) NInf = False"

fun fmul_int :: "rat \<Rightarrow> flt \<Rightarrow> flt" where
  "fmul_int k (Fin a) = Fin (k * a)"
| "fmul_int k NaN = NaN"
| "fmul_int k PInf = (if 0 < k then PInf else if k < 0 then NInf else NaN)"
| "fmul_int k NInf = (if 0 < k then NInf else if k < 0 then PInf else NaN)"

definition rnd_half_even :: "rat \<Rightarrow> int" where
  "rnd_half_even q =
     (let f = \<lfloor>q\<rfloor>; r = q - of_int f
      in if r < 1 / 2 then f else if 1 / 2 < r then f + 1 else if even f then f else f + 1)"

text \<open>Digits of a scaled natural with the decimal point put back in.\<close>

definition point_digits :: "nat \<Rightarrow> int \<Rightarrow> string" where
  "point_digits d n =
     (let s = pad_nat (d + 1) n; k = length s - d
      in if d = 0 then s else take k s @ ''.'' @ drop k s)"

definition fmt_rat :: "nat \<Rightarrow> rat \<Rightarrow> string" where
  "fmt_rat d q =
     (if q < 0 then ''-'' @ point_digits d (rnd_half_even (- q * 10 ^ d))
      else point_digits d (rnd_half_even (q * 10 ^ d)))"

fun fmt_fixed :: "nat \<Rightarrow> flt \<Rightarrow> string" where
  "fmt_fixed d (Fin q) = fmt_rat d q"
| "fmt_fixed d PInf = ''inf''"
| "fmt_fixed d NInf = ''-inf''"
| "fmt_fixed d NaN = ''nan''"

lemma point_digits_num_char: "c \<in> set (point_digits d n) \<Longrightarrow> num_char c"
proof -
  have "num_char c" if "c \<in> set (pad_nat k n)" for c k
    using that by (auto simp: pad_nat_def num_char_def is_digit_def dest: show_nat_all_digits)
  moreover assume "c \<in> set (point_digits d n)"
  ultimately show ?thesis
    by (auto simp: point_digits_def Let_def num_char_def dest: in_set_takeD in_set_dropD split: if_splits)
qed

lemma fmt_fixed_no:
  assumes "\<not> num_char c" and "c \<notin> set ''infa''"
  shows "c \<notin> set (fmt_fixed d f)"
proof -
  have "c \<noteq> CHR ''-''" using assms(1) by (auto simp: num_char_def)
  with assms show ?thesis
    by (cases f) (auto simp: fmt_rat_def dest: point_digits_num_char split: if_splits)
qed

text \<open>\<open>round(x, d)\<close>.\<close>

fun py_round :: "nat \<Rightarrow> flt \<Rightarrow> flt" where
  "py_round d (Fin q) = Fin (of_int (rnd_half_even (q * 10 ^ d)) / 10 ^ d)"
| "py_round d f = f"

text \<open>\<open>repr\<close> of a float: the shortest decimal expansion, up to 17 places, in fixed notation.\<close>

fun repr_places :: "nat \<Rightarrow> nat \<Rightarrow> rat \<Rightarrow> nat" where
  "repr_places 0 k q = k"
| "repr_places (Suc fuel) k q =
     (if q * 10 ^ k = of_int \<lfloor>q * 10 ^ k\<rfloor> then k else repr_places fuel (Suc k) q)"

definition rat_repr :: "rat \<Rightarrow> string" where
  "rat_repr q = fmt_rat (max 1 (repr_places 17 0 q)) q"

section \<open>Reading numbers\<close>

definition span_digits :: "string \<Rightarrow> string \<times> string" where
  "span_digits s = (takeWhile is_digit s, dropWhile is_digit s)"

lemma span_digits_append:
  assumes "\<forall>c \<in> set ds. is_digit c" and "rest = [] \<or> \<not> is_digit (hd rest)"
  shows "span_digits (ds @ rest) = (ds, rest)"
  using assms by (cases rest) (auto simp: span_digits_def takeWhile_append dropWhile_append)

fun split_sign :: "string \<Rightarrow> bool \<times> string" where
  "split_sign [] = (False, [])"
| "split_sign (c # s) =
     (if c = CHR ''-'' then (True, s) else if c = CHR ''+'' then (False, s) else (False, c # s))"

text \<open>\<open>int(text)\<close>: blanks around an optionally signed digit string (underscores not modelled).\<close>

definition int_of_str :: "string \<Rightarrow> int option" where
  "int_of_str s =
     (let (neg, ds) = split_sign (str_strip s)
      in if ds \<noteq> [] \<and> list_all is_digit ds
         then Some (if neg then - digits_val ds else digits_val ds)
         else None)"

text \<open>
  \<open>frac_exp neg ds s\<close> reads the optional fraction and exponent after the digits \<open>ds\<close>; the
  result is the value and the text left.
\<close>

definition rat_scale :: "bool \<Rightarrow> nat \<Rightarrow> rat \<Rightarrow> rat" where
  "rat_scale neg e q = (if neg then q / 10 ^ e else q * 10 ^ e)"

definition read_exp :: "rat \<Rightarrow> string \<Rightarrow> rat \<times> bool \<times> string" where
  "read_exp q s =
     (case s of
        [] \<Rightarrow> (q, False, s)
      | c # t \<Rightarrow>
          (let (neg, u) = split_sign t; (es, r) = span_digits u
           in if (c = CHR ''e'' \<or> c = CHR ''E'') \<and> es \<noteq> []
              then (rat_scale neg (nat (digits_val es)) q, True, r) else (q, False, s)))"

definition read_frac :: "int \<Rightarrow> string \<Rightarrow> rat \<times> bool \<times> string" where
  "read_frac n s =
     (case s of
        [] \<Rightarrow> (of_int n, False, s)
      | c # t \<Rightarrow>
          (let (fs, r) = span_digits t
           in if c = CHR ''.'' \<and> fs \<noteq> []
              then (of_int n + of_int (digits_val fs) / 10 ^ length fs, True, r)
              else (of_int n, False, s)))"

definition float_of_str :: "string \<Rightarrow> flt option" where
  "float_of_str s =
     (let (neg, u) = split_sign (str_strip s); w = str_lower u
      in if w = ''nan'' then Some NaN
         else if w = ''inf'' \<or> w = ''infinity'' then Some (if neg then NInf else PInf)
         else (let (ds, r) = span_digits u; (q, dot, r1) = read_frac (digits_val ds) r;
                   r2 = (if \<not> dot \<and> ds \<noteq> [] \<and> r1 \<noteq> [] \<and> hd r1 = CHR ''.'' then tl r1 else r1);
                   (q', _, r3) = read_exp q r2
               in if (ds \<noteq> [] \<or> dot) \<and> r3 = [] then Some (Fin (if neg then - q' else q'))
                  else None))"

end
