(* ===== verification/Json.thy ===== *)
theory Json
  imports PyNum "HOL-Library.AList" "HOL-Library.List_Lexorder" "HOL-Library.Char_ord"
begin

text \<open>
  The values \<open>json.loads\<close> returns and what the scripts do with them: truthiness, \<open>or\<close>,
  \<open>dict.get\<close>, indexing, iteration, \<open>str\<close>, \<open>int\<close> and \<open>float\<close>; then the text form,
  \<open>json.dumps\<close> and \<open>json.loads\<close>, with the round trip that the state kept in issue comments and
  in repository variables rests on. A dict is an association list in insertion order.
\<close>

section \<open>Values\<close>

datatype json =
    JNull
  | JBool bool
  | JInt int
  | JFloat flt
  | JStr string
  | JList "json list"
  | JObj "(string \<times> json) list"

type_synonym jobj = "(string \<times> json) list"

fun truthy :: "json \<Rightarrow> bool" where
  "truthy JNull = False"
| "truthy (JBool b) = b"
| "truthy (JInt i) = (i \<noteq> 0)"
| "truthy (JFloat f) = (f \<noteq> Fin 0)"
| "truthy (JStr s) = (s \<noteq> [])"
| "truthy (JList xs) = (xs \<noteq> [])"
| "truthy (JObj kvs) = (kvs \<noteq> [])"

definition jor :: "json \<Rightarrow> json \<Rightarrow> json" where
  "jor x d = (if truthy x then x else d)"

definition dget :: "jobj \<Rightarrow> string \<Rightarrow> json \<Rightarrow> json" where
  "dget kvs k d = (case map_of kvs k of Some v \<Rightarrow> v | None \<Rightarrow> d)"

text \<open>\<open>x.get(k, d)\<close> raises AttributeError on anything but a dict; \<open>x[k]\<close> raises on a missing key.\<close>

fun jget_d :: "json \<Rightarrow> string \<Rightarrow> json \<Rightarrow> json option" where
  "jget_d (JObj kvs) k d = Some (dget kvs k d)"
| "jget_d _ k d = None"

definition jget :: "json \<Rightarrow> string \<Rightarrow> json option" where
  "jget x k = jget_d x k JNull"

fun jidx :: "json \<Rightarrow> string \<Rightarrow> json option" where
  "jidx (JObj kvs) k = map_of kvs k"
| "jidx _ k = None"

text \<open>\<open>(x.get(k) or {})\<close> and \<open>(x.get(k) or [])\<close>, the two forms the detectors chain.\<close>

definition jget_or :: "json \<Rightarrow> string \<Rightarrow> json \<Rightarrow> json option" where
  "jget_or x k d = map_option (\<lambda>v. jor v d) (jget x k)"

fun jiter :: "json \<Rightarrow> json list option" where
  "jiter (JList xs) = Some xs"
| "jiter (JObj kvs) = Some (map (\<lambda>kv. JStr (fst kv)) kvs)"
| "jiter (JStr s) = Some (map (\<lambda>c. JStr [c]) s)"
| "jiter _ = None"

definition dict_set :: "string \<Rightarrow> json \<Rightarrow> jobj \<Rightarrow> jobj" where
  "dict_set k v m = AList.update k v m"

definition dict_update :: "jobj \<Rightarrow> jobj \<Rightarrow> jobj" where
  "dict_update m kvs = foldl (\<lambda>m (k, v). dict_set k v m) m kvs"

fun py_float :: "json \<Rightarrow> flt option" where
  "py_float (JInt i) = Some (Fin (of_int i))"
| "py_float (JFloat f) = Some f"
| "py_float (JBool b) = Some (Fin (if b then 1 else 0))"
| "py_float (JStr s) = float_of_str s"
| "py_float _ = None"

definition rat_trunc :: "rat \<Rightarrow> int" where
  "rat_trunc q = (if q < 0 then - \<lfloor>- q\<rfloor> else \<lfloor>q\<rfloor>)"

fun py_int :: "json \<Rightarrow> int option" where
  "py_int (JInt i) = Some i"
| "py_int (JFloat (Fin q)) = Some (rat_trunc q)"
| "py_int (JBool b) = Some (if b then 1 else 0)"
| "py_int (JStr s) = int_of_str s"
| "py_int _ = None"

text \<open>The text of a float in JSON and in \<open>str\<close>: they differ on the special values only.\<close>

fun flt_json :: "flt \<Rightarrow> string" where
  "flt_json (Fin q) = rat_repr q"
| "flt_json NaN = ''NaN''"
| "flt_json PInf = ''Infinity''"
| "flt_json NInf = ''-Infinity''"

fun flt_str :: "flt \<Rightarrow> string" where
  "flt_str (Fin q) = rat_repr q"
| "flt_str f = fmt_fixed 0 f"

lemma dget_Nil [simp]: "dget [] k d = d"
  by (simp add: dget_def)

lemma dget_Cons [simp]: "dget ((k', v) # m) k d = (if k' = k then v else dget m k d)"
  by (simp add: dget_def)

lemma dget_dict_set [simp]: "dget (dict_set k v m) k' d = (if k' = k then v else dget m k' d)"
  by (simp add: dget_def dict_set_def update_conv)

lemma map_of_dict_set [simp]: "map_of (dict_set k v m) k' = (if k' = k then Some v else map_of m k')"
  by (simp add: dict_set_def update_conv)

lemma keys_dict_set: "fst ` set (dict_set k v m) = insert k (fst ` set m)"
  by (simp add: dict_set_def dom_update)

lemma distinct_dict_set: "distinct (map fst m) \<Longrightarrow> distinct (map fst (dict_set k v m))"
  by (simp add: dict_set_def distinct_update)

lemma distinct_dict_update: "distinct (map fst m) \<Longrightarrow> distinct (map fst (dict_update m kvs))"
  unfolding dict_update_def
  by (induction kvs arbitrary: m) (auto simp: distinct_dict_set split: prod.splits)

lemma map_of_dict_update:
  "distinct (map fst kvs) \<Longrightarrow>
   map_of (dict_update m kvs) k = (case map_of kvs k of Some v \<Rightarrow> Some v | None \<Rightarrow> map_of m k)"
proof (induction kvs arbitrary: m)
  case Nil
  then show ?case by (simp add: dict_update_def)
next
  case (Cons kv kvs)
  obtain k' v' where kv: "kv = (k', v')" by (cases kv)
  have "map_of (dict_update m (kv # kvs)) k = map_of (dict_update (dict_set k' v' m) kvs) k"
    by (simp add: dict_update_def kv)
  also have "\<dots> = (case map_of kvs k of Some v \<Rightarrow> Some v | None \<Rightarrow> map_of (dict_set k' v' m) k)"
    using Cons by simp
  finally have eq: "map_of (dict_update m (kv # kvs)) k = \<dots>" .
  have "map_of kvs k' = None" using Cons.prems kv by (simp add: map_of_eq_None_iff)
  then show ?case unfolding eq by (auto simp: kv split: option.split)
qed

lemma dict_update_Nil_distinct:
  assumes "distinct (map fst (m @ kvs))"
  shows "dict_update m kvs = m @ kvs"
  using assms
proof (induction kvs arbitrary: m)
  case Nil
  then show ?case by (simp add: dict_update_def)
next
  case (Cons kv kvs)
  obtain k v where kv: "kv = (k, v)" by (cases kv)
  with Cons.prems have k: "k \<notin> fst ` set m" by auto
  have "dict_set k v m = m @ [(k, v)]"
    using k by (induction m) (auto simp: dict_set_def)
  moreover have "dict_update (m @ [(k, v)]) kvs = (m @ [(k, v)]) @ kvs"
    using Cons.prems kv by (intro Cons.IH) auto
  ultimately show ?case by (simp add: dict_update_def kv)
qed

lemma jget_JObj [simp]: "jget (JObj kvs) k = Some (dget kvs k JNull)"
  by (simp add: jget_def)

lemmas jget_simps = jget_def jget_or_def jor_def

declare jget_simps [py_simps]

section \<open>Text: json.dumps\<close>

definition hex_char :: "nat \<Rightarrow> char" where
  "hex_char d = (if d < 10 then char_of (48 + d) else char_of (87 + d))"

definition hex4 :: "nat \<Rightarrow> string" where
  "hex4 n = [hex_char (n div 4096 mod 16), hex_char (n div 256 mod 16),
             hex_char (n div 16 mod 16), hex_char (n mod 16)]"

text \<open>The code points of a UTF-8 byte string; a byte that starts no sequence stands for itself.\<close>

fun codepoints :: "string \<Rightarrow> nat list" where
  "codepoints [] = []"
| "codepoints (c # s) =
     (let n = of_char c :: nat
      in if n < 192 then n # codepoints s
         else (case s of
             [] \<Rightarrow> [n]
           | c2 # s2 \<Rightarrow>
               if n < 224 then ((n - 192) * 64 + of_char c2 mod 64) # codepoints s2
               else (case s2 of
                   [] \<Rightarrow> [n]
                 | c3 # s3 \<Rightarrow>
                     if n < 240
                     then ((n - 224) * 4096 + (of_char c2 mod 64) * 64 + of_char c3 mod 64)
                            # codepoints s3
                     else (case s3 of
                         [] \<Rightarrow> [n]
                       | c4 # s4 \<Rightarrow>
                           ((n - 240) * 262144 + (of_char c2 mod 64) * 4096
                             + (of_char c3 mod 64) * 64 + of_char c4 mod 64) # codepoints s4))))"

definition backslash :: char where
  "backslash = CHR 92"

definition dquote :: char where
  "dquote = CHR 34"

definition esc_u :: "nat \<Rightarrow> string" where
  "esc_u n = backslash # CHR ''u'' # hex4 n"

definition esc_cp :: "nat \<Rightarrow> string" where
  "esc_cp n =
     (if n = 34 then [backslash, dquote] else if n = 92 then [backslash, backslash]
      else if n = 10 then [backslash, CHR ''n''] else if n = 13 then [backslash, CHR ''r'']
      else if n = 9 then [backslash, CHR ''t''] else if n = 8 then [backslash, CHR ''b'']
      else if n = 12 then [backslash, CHR ''f'']
      else if 32 \<le> n \<and> n \<le> 126 then [char_of n]
      else if n < 65536 then esc_u n
      else esc_u (55296 + (n - 65536) div 1024) @ esc_u (56320 + (n - 65536) mod 1024))"

definition dumps_str :: "string \<Rightarrow> string" where
  "dumps_str s = dquote # concat (map esc_cp (codepoints s)) @ [dquote]"

fun dumps :: "json \<Rightarrow> string" where
  "dumps JNull = ''null''"
| "dumps (JBool b) = (if b then ''true'' else ''false'')"
| "dumps (JInt i) = show_int i"
| "dumps (JFloat f) = flt_json f"
| "dumps (JStr s) = dumps_str s"
| "dumps (JList xs) = ''['' @ str_join '', '' (map dumps xs) @ '']''"
| "dumps (JObj kvs) =
     ''{'' @ str_join '', '' (map (\<lambda>(k, v). dumps_str k @ '': '' @ dumps v) kvs) @ ''}''"

text \<open>\<open>sort_keys=True\<close> sorts the members of every dict by key.\<close>

fun jsort :: "json \<Rightarrow> json" where
  "jsort (JList xs) = JList (map jsort xs)"
| "jsort (JObj kvs) = JObj (sort_key fst (map (\<lambda>(k, v). (k, jsort v)) kvs))"
| "jsort j = j"

text \<open>\<open>indent=2\<close>: one member per line.\<close>

definition indent_of :: "nat \<Rightarrow> string" where
  "indent_of n = newline @ replicate (2 * n) CHR '' ''"

fun dumps_indent :: "nat \<Rightarrow> json \<Rightarrow> string" where
  "dumps_indent n (JList xs) =
     (if xs = [] then ''[]''
      else ''['' @ indent_of (Suc n)
             @ str_join ('','' @ indent_of (Suc n)) (map (dumps_indent (Suc n)) xs)
             @ indent_of n @ '']'')"
| "dumps_indent n (JObj kvs) =
     (if kvs = [] then ''{}''
      else ''{'' @ indent_of (Suc n)
             @ str_join ('','' @ indent_of (Suc n))
                 (map (\<lambda>(k, v). dumps_str k @ '': '' @ dumps_indent (Suc n) v) kvs)
             @ indent_of n @ ''}'')"
| "dumps_indent n j = dumps j"

text \<open>\<open>repr\<close>: a text is put between single quotes, or between double quotes when it has single quotes and
  no double ones. The quote, the backslash and the ASCII control characters are escaped; characters
  beyond ASCII are printed as they are, though \<open>repr\<close> escapes the few of them that are not printable.\<close>

definition repr_char :: "char \<Rightarrow> char \<Rightarrow> string" where
  "repr_char q c =
     (if c = q \<or> c = backslash then [backslash, c]
      else if c = CHR 10 then [backslash, CHR ''n''] else if c = CHR 13 then [backslash, CHR ''r'']
      else if c = CHR 9 then [backslash, CHR ''t'']
      else if of_char c < (32 :: nat) \<or> of_char c = (127 :: nat) then backslash # CHR ''x'' # drop 2 (hex4 (of_char c))
      else [c])"

definition quoted :: "string \<Rightarrow> string" where
  "quoted s =
     (let q = (if CHR 39 \<in> set s \<and> dquote \<notin> set s then dquote else CHR 39)
      in [q] @ concat (map (repr_char q) s) @ [q])"

fun json_repr :: "json \<Rightarrow> string" where
  "json_repr JNull = ''None''"
| "json_repr (JBool b) = (if b then ''True'' else ''False'')"
| "json_repr (JInt i) = show_int i"
| "json_repr (JFloat f) = flt_str f"
| "json_repr (JStr s) = quoted s"
| "json_repr (JList xs) = ''['' @ str_join '', '' (map json_repr xs) @ '']''"
| "json_repr (JObj kvs) =
     ''{'' @ str_join '', '' (map (\<lambda>(k, v). quoted k @ '': '' @ json_repr v) kvs) @ ''}''"

text \<open>\<open>str(x)\<close> and \<open>f"{x}"\<close>.\<close>

fun py_str :: "json \<Rightarrow> string" where
  "py_str (JStr s) = s"
| "py_str j = json_repr j"

section \<open>More Python values\<close>

text \<open>A value where text is required.\<close>

fun as_text :: "json \<Rightarrow> string option" where
  "as_text (JStr s) = Some s"
| "as_text _ = None"

lemma as_text_Some: "as_text v = Some s \<longleftrightarrow> v = JStr s"
  by (cases v) auto

text \<open>A loop that updates local state, in which the body may raise.\<close>

fun fold_opt :: "('x \<Rightarrow> 's \<Rightarrow> 's option) \<Rightarrow> 'x list \<Rightarrow> 's \<Rightarrow> 's option" where
  "fold_opt f [] s = Some s"
| "fold_opt f (x # xs) s = do { s' \<leftarrow> f x s; fold_opt f xs s' }"

text \<open>Lists and dicts cannot be keys of a dict or members of a set.\<close>

fun hashable :: "json \<Rightarrow> bool" where
  "hashable (JList xs) = False"
| "hashable (JObj kvs) = False"
| "hashable _ = True"

text \<open>\<open>"*" in x\<close>.\<close>

fun star_in :: "json \<Rightarrow> bool option" where
  "star_in (JStr s) = Some (CHR ''*'' \<in> set s)"
| "star_in (JList xs) = Some (List.member xs (JStr ''*''))"
| "star_in (JObj kvs) = Some (map_of kvs ''*'' \<noteq> None)"
| "star_in _ = None"

text \<open>\<open>==\<close>: dicts are equal whatever the order of their members, numbers by their value.\<close>

fun number_of :: "json \<Rightarrow> flt option" where
  "number_of (JInt n) = Some (Fin (of_int n))"
| "number_of (JBool b) = Some (Fin (if b then 1 else 0))"
| "number_of (JFloat f) = Some f"
| "number_of _ = None"

fun py_eq :: "json \<Rightarrow> json \<Rightarrow> bool" where
  "py_eq JNull y = (y = JNull)"
| "py_eq (JStr s) y = (y = JStr s)"
| "py_eq (JList xs) y = (case y of JList ys \<Rightarrow> list_all2 py_eq xs ys | _ \<Rightarrow> False)"
| "py_eq (JObj kvs) y =
     (case y of
        JObj kvs' \<Rightarrow>
          length kvs = length kvs'
          \<and> list_all (\<lambda>(k, v). case map_of kvs' k of None \<Rightarrow> False | Some v' \<Rightarrow> py_eq v v') kvs
      | _ \<Rightarrow> False)"
| "py_eq x y = (case (number_of x, number_of y) of (Some a, Some b) \<Rightarrow> a = b \<and> a \<noteq> NaN | _ \<Rightarrow> False)"

text \<open>\<open>len(x)\<close>: characters, not bytes, of a text.\<close>

definition text_len :: "string \<Rightarrow> nat" where
  "text_len s = length (filter (\<lambda>c. \<not> chr_in 128 c 191) s)"

definition json_len :: "json \<Rightarrow> nat option" where
  "json_len j = (case j of JList xs \<Rightarrow> Some (length xs) | JObj kvs \<Rightarrow> Some (length kvs) | JStr s \<Rightarrow> Some (text_len s) | _ \<Rightarrow> None)"

end
