(* ===== verification/PyTime.thy ===== *)
theory PyTime
  imports Json
begin

text \<open>
  Aware UTC datetimes as their calendar fields, the proleptic Gregorian ordinal of CPython's
  datetime module, \<open>isoformat\<close>, \<open>fromisoformat\<close> and \<open>astimezone(utc)\<close>. The reader takes
  the extended format (\<open>YYYY-MM-DD\<close>, any separator, \<open>HH[:MM[:SS[.f+]]]\<close>, an optional offset),
  which holds every RFC 3339 timestamp and everything \<open>isoformat\<close> prints; the compact and the
  week forms that Python 3.11 added are read as malformed.
\<close>

record datetime =
  dt_year :: int
  dt_month :: int
  dt_day :: int
  dt_hour :: int
  dt_minute :: int
  dt_second :: int
  dt_micro :: int

section \<open>Calendar\<close>

definition is_leap :: "int \<Rightarrow> bool" where
  "is_leap y \<longleftrightarrow> y mod 4 = 0 \<and> (y mod 100 \<noteq> 0 \<or> y mod 400 = 0)"

definition days_in_month :: "int \<Rightarrow> int \<Rightarrow> int" where
  "days_in_month y m =
     (if m = 2 then (if is_leap y then 29 else 28) else if m \<in> {4, 6, 9, 11} then 30 else 31)"

definition days_before_year :: "int \<Rightarrow> int" where
  "days_before_year y = (y - 1) * 365 + (y - 1) div 4 - (y - 1) div 100 + (y - 1) div 400"

definition days_before_month :: "int \<Rightarrow> int \<Rightarrow> int" where
  "days_before_month y m = sum_list (map (days_in_month y) [1..m - 1])"

text \<open>Microseconds since the start of the calendar.\<close>

definition to_us :: "datetime \<Rightarrow> int" where
  "to_us d =
     ((((days_before_year (dt_year d) + days_before_month (dt_year d) (dt_month d) + dt_day d)
         * 24 + dt_hour d) * 60 + dt_minute d) * 60 + dt_second d) * 1000000 + dt_micro d"

fun month_of :: "nat \<Rightarrow> int \<Rightarrow> int \<Rightarrow> int \<Rightarrow> int \<times> int" where
  "month_of 0 y m n = (m, n + 1)"
| "month_of (Suc k) y m n =
     (if n < days_in_month y m then (m, n + 1) else month_of k y (m + 1) (n - days_in_month y m))"

text \<open>\<open>_ord2ymd\<close>: 400-, 100-, 4- and 1-year cycles, then the month (eleven steps are enough).\<close>

definition ord_ymd :: "int \<Rightarrow> int \<times> int \<times> int" where
  "ord_ymd ord =
     (let n = ord - 1; n400 = n div 146097; r400 = n mod 146097;
          n100 = r400 div 36524; r100 = r400 mod 36524;
          n4 = r100 div 1461; r4 = r100 mod 1461;
          n1 = r4 div 365; r1 = r4 mod 365;
          y = n400 * 400 + 1 + n100 * 100 + n4 * 4 + n1
      in if n1 = 4 \<or> n100 = 4 then (y - 1, 12, 31)
         else (case month_of 11 y 1 r1 of (m, d) \<Rightarrow> (y, m, d)))"

text \<open>None is the OverflowError of a date outside the years 1 to 9999.\<close>

definition from_us :: "int \<Rightarrow> datetime option" where
  "from_us us =
     (let days = us div 86400000000; t = us mod 86400000000; s = t div 1000000
      in if 1 \<le> days \<and> days \<le> 3652059
         then (case ord_ymd days of (y, m, d) \<Rightarrow>
                 Some \<lparr>dt_year = y, dt_month = m, dt_day = d, dt_hour = s div 3600,
                       dt_minute = s div 60 mod 60, dt_second = s mod 60, dt_micro = t mod 1000000\<rparr>)
         else None)"

definition valid_dt :: "datetime \<Rightarrow> bool" where
  "valid_dt d \<longleftrightarrow>
     1 \<le> dt_year d \<and> dt_year d \<le> 9999 \<and> 1 \<le> dt_month d \<and> dt_month d \<le> 12
     \<and> 1 \<le> dt_day d \<and> dt_day d \<le> days_in_month (dt_year d) (dt_month d)
     \<and> 0 \<le> dt_hour d \<and> dt_hour d < 24 \<and> 0 \<le> dt_minute d \<and> dt_minute d < 60
     \<and> 0 \<le> dt_second d \<and> dt_second d < 60 \<and> 0 \<le> dt_micro d \<and> dt_micro d < 1000000"

section \<open>Text\<close>

definition isoformat :: "datetime \<Rightarrow> string" where
  "isoformat d =
     pad_nat 4 (dt_year d) @ ''-'' @ pad_nat 2 (dt_month d) @ ''-'' @ pad_nat 2 (dt_day d)
     @ ''T'' @ pad_nat 2 (dt_hour d) @ '':'' @ pad_nat 2 (dt_minute d) @ '':'' @ pad_nat 2 (dt_second d)
     @ (if dt_micro d = 0 then [] else ''.'' @ pad_nat 6 (dt_micro d)) @ ''+00:00''"

definition read_k :: "nat \<Rightarrow> string \<Rightarrow> (int \<times> string) option" where
  "read_k k s =
     (if length (take k s) = k \<and> list_all is_digit (take k s)
      then Some (digits_val (take k s), drop k s) else None)"

text \<open>\<open>expect c s\<close> drops the character c.\<close>

fun expect :: "char \<Rightarrow> string \<Rightarrow> string option" where
  "expect c [] = None"
| "expect c (x # s) = (if x = c then Some s else None)"

text \<open>The fraction: at least one digit, the first six count.\<close>

definition read_micro :: "string \<Rightarrow> int option" where
  "read_micro s =
     (if s \<noteq> [] \<and> list_all is_digit s
      then Some (digits_val (take 6 (s @ replicate 6 (CHR ''0'')))) else None)"

definition read_sec :: "string \<Rightarrow> (int \<times> int) option" where
  "read_sec s =
     do { (sec, r) \<leftarrow> read_k 2 s;
          (case r of
             [] \<Rightarrow> Some (sec, 0)
           | c # t \<Rightarrow> if c = CHR ''.'' \<or> c = CHR '','' then do { us \<leftarrow> read_micro t; Some (sec, us) }
                     else None) }"

definition read_min :: "string \<Rightarrow> (int \<times> int \<times> int) option" where
  "read_min s =
     do { (mi, r) \<leftarrow> read_k 2 s;
          (if r = [] then Some (mi, 0, 0)
           else do { t \<leftarrow> expect (CHR '':'') r; (sec, us) \<leftarrow> read_sec t; Some (mi, sec, us) }) }"

definition read_hms :: "string \<Rightarrow> (int \<times> int \<times> int \<times> int) option" where
  "read_hms s =
     do { (h, r) \<leftarrow> read_k 2 s;
          (if r = [] then Some (h, 0, 0, 0)
           else do { t \<leftarrow> expect (CHR '':'') r; (mi, sec, us) \<leftarrow> read_min t; Some (h, mi, sec, us) }) }"

text \<open>The offset in microseconds; None for a naive time.\<close>

definition hms_us :: "int \<times> int \<times> int \<times> int \<Rightarrow> int" where
  "hms_us x = (case x of (h, mi, s, us) \<Rightarrow>
     ((h * 60 + mi) * 60 + s) * 1000000 + us)"

definition read_offset :: "string \<Rightarrow> int option option" where
  "read_offset s =
     (case s of
        [] \<Rightarrow> Some None
      | c # t \<Rightarrow>
          if c = CHR ''Z'' then (if t = [] then Some (Some 0) else None)
          else do { x \<leftarrow> read_hms t;
                    guard_opt (hms_us x < 86400000000 \<and> fst (snd x) < 60)
                      (Some (Some (if c = CHR ''-'' then - hms_us x else hms_us x))) })"

definition is_tz :: "char \<Rightarrow> bool" where
  "is_tz c \<longleftrightarrow> c = CHR ''+'' \<or> c = CHR ''-'' \<or> c = CHR ''Z''"

definition read_time :: "string \<Rightarrow> ((int \<times> int \<times> int \<times> int) \<times> int option) option" where
  "read_time s =
     do { x \<leftarrow> read_hms (takeWhile (\<lambda>c. \<not> is_tz c) s);
          off \<leftarrow> read_offset (dropWhile (\<lambda>c. \<not> is_tz c) s);
          Some (x, off) }"

definition read_date :: "string \<Rightarrow> ((int \<times> int \<times> int) \<times> string) option" where
  "read_date s =
     do { (y, r1) \<leftarrow> read_k 4 s; r2 \<leftarrow> expect (CHR ''-'') r1;
          (m, r3) \<leftarrow> read_k 2 r2; r4 \<leftarrow> expect (CHR ''-'') r3;
          (d, r5) \<leftarrow> read_k 2 r4; Some ((y, m, d), r5) }"

text \<open>The naive fields and the offset; None is the ValueError.\<close>

definition fromisoformat :: "string \<Rightarrow> (datetime \<times> int option) option" where
  "fromisoformat s =
     do { ((y, m, d), r) \<leftarrow> read_date s;
          ((h, mi, sec, us), off) \<leftarrow>
             (case r of [] \<Rightarrow> Some ((0, 0, 0, 0), None) | _ # t \<Rightarrow> read_time t);
          (let dt = \<lparr>dt_year = y, dt_month = m, dt_day = d, dt_hour = h, dt_minute = mi,
                     dt_second = sec, dt_micro = us\<rparr>
           in guard_opt (valid_dt dt) (Some (dt, off))) }"

text \<open>\<open>datetime.fromisoformat(value.replace("Z", "+00:00"))\<close>.\<close>

definition parse_stamp :: "string \<Rightarrow> (datetime \<times> int option) option" where
  "parse_stamp v = fromisoformat (concat (map (\<lambda>c. if c = CHR ''Z'' then ''+00:00'' else [c]) v))"

definition astimezone_utc :: "datetime \<Rightarrow> int option \<Rightarrow> datetime option" where
  "astimezone_utc d off =
     (case off of
        None \<Rightarrow> Some d
      | Some o' \<Rightarrow> if o' = 0 then Some d else from_us (to_us d - o'))"

text \<open>\<open>(b - a).total_seconds() / 60.0\<close>.\<close>

definition age_minutes :: "datetime \<Rightarrow> datetime \<Rightarrow> rat" where
  "age_minutes started now = of_int (to_us now - to_us started) / 60000000"

section \<open>Round trip\<close>

lemma read_k_pad: "0 \<le> n \<Longrightarrow> n < 10 ^ k \<Longrightarrow> 0 < k \<Longrightarrow> read_k k (pad_nat k n @ r) = Some (n, r)"
  by (simp add: read_k_def length_pad_nat list_all_iff) (auto dest: pad_nat_digits)

lemma read_k_pad_Nil: "0 \<le> n \<Longrightarrow> n < 10 ^ k \<Longrightarrow> 0 < k \<Longrightarrow> read_k k (pad_nat k n) = Some (n, [])"
  using read_k_pad [of n k "[]"] by simp

lemma pad_nat_no_tz: "0 \<le> n \<Longrightarrow> c \<in> set (pad_nat k n) \<Longrightarrow> \<not> is_tz c"
  by (auto simp: is_tz_def is_digit_def dest: pad_nat_digits)

lemma read_micro_pad: "0 \<le> n \<Longrightarrow> n < 1000000 \<Longrightarrow> read_micro (pad_nat 6 n) = Some n"
  using length_pad_nat [of n 6]
  by (auto simp: read_micro_def list_all_iff dest: pad_nat_digits)

definition time_text :: "datetime \<Rightarrow> string" where
  "time_text d = pad_nat 2 (dt_hour d) @ '':'' @ pad_nat 2 (dt_minute d) @ '':'' @ pad_nat 2 (dt_second d)
     @ (if dt_micro d = 0 then [] else ''.'' @ pad_nat 6 (dt_micro d))"

lemma isoformat_time:
  "isoformat d = pad_nat 4 (dt_year d) @ CHR ''-'' # pad_nat 2 (dt_month d) @ CHR ''-'' #
     pad_nat 2 (dt_day d) @ CHR ''T'' # time_text d @ ''+00:00''"
  by (simp add: isoformat_def time_text_def)

lemma time_text_no_tz: "valid_dt d \<Longrightarrow> c \<in> set (time_text d) \<Longrightarrow> \<not> is_tz c"
  by (auto simp: time_text_def valid_dt_def dest: pad_nat_no_tz split: if_splits)
    (auto simp: is_tz_def)

lemma read_hms_time_text:
  assumes "valid_dt d"
  shows "read_hms (time_text d) = Some (dt_hour d, dt_minute d, dt_second d, dt_micro d)"
  using assms
  by (simp add: valid_dt_def read_hms_def time_text_def read_min_def read_sec_def read_k_pad
      read_k_pad_Nil read_micro_pad)

lemma span_tz:
  assumes "\<forall>c \<in> set t. \<not> is_tz c" and "is_tz c"
  shows "takeWhile (\<lambda>c. \<not> is_tz c) (t @ c # z) = t" "dropWhile (\<lambda>c. \<not> is_tz c) (t @ c # z) = c # z"
  using assms by (induction t) auto

lemma read_offset_utc: "read_offset ''+00:00'' = Some (Some 0)" "read_offset ''Z'' = Some (Some 0)"
  by code_simp+

lemma read_time_text:
  assumes "valid_dt d" and "z = ''+00:00'' \<or> z = ''Z''"
  shows "read_time (time_text d @ z)
    = Some ((dt_hour d, dt_minute d, dt_second d, dt_micro d), Some 0)"
proof -
  obtain c z' where z: "z = c # z'" "is_tz c" using assms(2) by (auto simp: is_tz_def)
  have "\<forall>c \<in> set (time_text d). \<not> is_tz c" using time_text_no_tz [OF assms(1)] by blast
  note span_tz [OF this z(2), of z']
  moreover have "read_offset (c # z') = Some (Some 0)"
    using assms(2) read_offset_utc by (auto simp only: z(1))
  ultimately show ?thesis
    by (simp add: read_time_def read_hms_time_text [OF assms(1)] z(1))
qed

lemma fromisoformat_text:
  assumes "valid_dt d" and "z = ''+00:00'' \<or> z = ''Z''"
  shows "fromisoformat (pad_nat 4 (dt_year d) @ CHR ''-'' # pad_nat 2 (dt_month d) @ CHR ''-'' #
     pad_nat 2 (dt_day d) @ CHR ''T'' # time_text d @ z) = Some (d, Some 0)"
proof -
  have "days_in_month (dt_year d) (dt_month d) \<le> 31" by (simp add: days_in_month_def)
  then have "dt_year d < 10 ^ 4" "dt_month d < 10 ^ 2" "dt_day d < 10 ^ 2"
    using assms(1) by (auto simp: valid_dt_def)
  then show ?thesis
    using read_time_text [OF assms] assms(1)
    by (simp add: fromisoformat_def read_date_def read_k_pad guard_opt_def valid_dt_def)
qed

lemma dropWhile_hd: "xs \<noteq> [] \<Longrightarrow> \<not> P (hd xs) \<Longrightarrow> dropWhile P xs = xs"
  by (cases xs) auto

lemma str_strip_id:
  assumes "s \<noteq> []" and "\<not> is_space (hd s)" and "\<not> is_space (last s)"
  shows "str_strip s = s"
  using assms by (simp add: str_strip_def lstrip_def rstrip_def dropWhile_hd hd_rev)

lemma pad_nat_hd_not_space: "0 \<le> n \<Longrightarrow> \<not> is_space (hd (pad_nat k n @ r))"
  using pad_nat_digits [of n "hd (pad_nat k n)" k] by (simp add: is_digit_def is_space_def)

lemma isoformat_not_space:
  assumes "valid_dt d"
  shows "isoformat d \<noteq> []" "\<not> is_space (hd (isoformat d))" "\<not> is_space (last (isoformat d))"
  using pad_nat_hd_not_space [of "dt_year d" 4] assms
  by (auto simp: isoformat_time is_space_def last_append valid_dt_def)

end
