(* ===== verification/Watchdog_Detect.thy ===== *)
theory Watchdog_Detect
  imports PyTime
begin

text \<open>
  The detections of scripts-tools/deployment_watchdog.py: pure functions from the parsed cluster
  state, the parsed thresholds and the current time to a list of findings. A result None means
  that the Python function raises (a value that is no dict where one is read, a threshold that is
  no number). The warnings printed for timestamps that cannot be read are not modelled.
\<close>

section \<open>Configuration and time helpers\<close>

text \<open>\<open>parse_k8s_time\<close>: None for anything but a readable timestamp; the outer None is the
  OverflowError of a time zone conversion at the edge of the calendar.\<close>

definition parse_k8s_time :: "json \<Rightarrow> datetime option option" where
  "parse_k8s_time v =
     (case v of
        JStr s \<Rightarrow>
          (if s = [] then Some None
           else (let t = str_strip s;
                     t' = (if t \<noteq> [] \<and> last t = CHR ''Z'' then butlast t @ ''+00:00'' else t)
                 in case fromisoformat t' of
                      None \<Rightarrow> Some None
                    | Some (d, off) \<Rightarrow> map_option Some (astimezone_utc d off)))
      | _ \<Rightarrow> Some None)"

definition fmt_age :: "rat \<Rightarrow> string" where
  "fmt_age minutes =
     (if minutes < 90 then fmt_rat 0 minutes @ ''m''
      else let hours = minutes / 60
           in if hours < 48 then fmt_rat 1 hours @ ''h'' else fmt_rat 1 (hours / 24) @ ''d'')"

text \<open>A timestamp that \<open>isoformat\<close> printed is read back, with either spelling of UTC.\<close>

lemma parse_k8s_time_isoformat:
  assumes "valid_dt d"
  shows "parse_k8s_time (JStr (isoformat d)) = Some (Some d)"
proof -
  have "last (isoformat d) = CHR ''0''" by (simp add: isoformat_time last_append)
  moreover have "fromisoformat (isoformat d) = Some (d, Some 0)"
    using fromisoformat_text [OF assms, of "''+00:00''"] by (simp add: isoformat_time)
  ultimately show ?thesis
    using isoformat_not_space [OF assms]
    by (simp add: parse_k8s_time_def str_strip_id astimezone_utc_def)
qed

section \<open>Findings\<close>

abbreviation KIND_ARGO :: string where
  "KIND_ARGO \<equiv> ''stuck-argo-op''"
abbreviation KIND_CRASHLOOP :: string where
  "KIND_CRASHLOOP \<equiv> ''chronic-crashloop''"
abbreviation KIND_CREATING :: string where
  "KIND_CREATING \<equiv> ''stuck-containercreating''"
abbreviation KIND_PVC :: string where
  "KIND_PVC \<equiv> ''pvc-nearing-full''"
abbreviation KIND_DARK_NODE :: string where
  "KIND_DARK_NODE \<equiv> ''dark-node''"

record finding =
  f_kind :: string
  f_subject :: string
  f_summary :: string
  f_facts :: jobj

definition f_key :: "finding \<Rightarrow> string" where
  "f_key f = f_kind f @ '':'' @ f_subject f"

definition key_marker :: "string \<Rightarrow> string" where
  "key_marker k = ''<!-- watchdog-key: '' @ k @ '' -->''"

definition f_marker :: "finding \<Rightarrow> string" where
  "f_marker f = key_marker (f_key f)"

definition f_title :: "string \<Rightarrow> finding \<Rightarrow> string" where
  "f_title pre f = pre @ '' '' @ f_kind f @ '': '' @ f_subject f"

text \<open>\<open>config.get(section, {})\<close> and the \<open>enabled\<close> test every detection starts with: the body runs
  on the section when it is enabled, otherwise nothing is found.\<close>

definition when_enabled :: "json \<Rightarrow> string \<Rightarrow> (json \<Rightarrow> finding list option) \<Rightarrow> finding list option" where
  "when_enabled config section body =
     do { cfg \<leftarrow> jget_d config section (JObj []);
          en \<leftarrow> jget_d cfg ''enabled'' (JBool True);
          (if truthy en then body cfg else Some []) }"

definition float_opt :: "json \<Rightarrow> string \<Rightarrow> json \<Rightarrow> flt option" where
  "float_opt cfg k d = do { v \<leftarrow> jget_d cfg k d; py_float v }"

definition int_opt :: "json \<Rightarrow> string \<Rightarrow> json \<Rightarrow> int option" where
  "int_opt cfg k d = do { v \<leftarrow> jget_d cfg k d; py_int v }"

text \<open>\<open>set(cfg.get(k) or [])\<close>, and the items of a Kubernetes list object.\<close>

definition list_opt :: "json \<Rightarrow> string \<Rightarrow> json list option" where
  "list_opt cfg k = do { v \<leftarrow> jget_or cfg k (JList []); jiter v }"

definition items_of :: "json \<Rightarrow> json list option" where
  "items_of x = do { v \<leftarrow> jget_d x ''items'' (JList []); jiter (jor v (JList [])) }"

definition collect :: "('a \<Rightarrow> finding list option) \<Rightarrow> 'a list \<Rightarrow> finding list option" where
  "collect f xs = map_option concat (those (map f xs))"

section \<open>Stuck Argo operations\<close>

definition argo_summary :: "string \<Rightarrow> rat \<Rightarrow> flt \<Rightarrow> string" where
  "argo_summary name minutes threshold =
     ''Argo operation on `'' @ name @ ''` has been phase=Running for '' @ fmt_age minutes
     @ '' (threshold '' @ fmt_fixed 0 threshold @ ''m) '' @ em_dash
     @ '' every other sync of this app is queued behind it.''"

definition argo_report :: "json \<Rightarrow> json \<Rightarrow> json \<Rightarrow> json \<Rightarrow> flt \<Rightarrow> rat \<Rightarrow> finding option" where
  "argo_report meta status state name threshold minutes =
     do { phase \<leftarrow> jget state ''phase'';
          startedAt \<leftarrow> jget state ''startedAt'';
          operation \<leftarrow> jget_or state ''operation'' (JObj []);
          sync \<leftarrow> jget_or operation ''sync'' (JObj []);
          rev1 \<leftarrow> jget sync ''revision'';
          revision \<leftarrow> (if truthy rev1 then Some rev1
                       else do { sr \<leftarrow> jget_or state ''syncResult'' (JObj []); jget sr ''revision'' });
          ns \<leftarrow> jget meta ''namespace'';
          message \<leftarrow> jget state ''message'';
          syn \<leftarrow> jget_or status ''sync'' (JObj []);
          sync_status \<leftarrow> jget syn ''status'';
          hea \<leftarrow> jget_or status ''health'' (JObj []);
          health_status \<leftarrow> jget hea ''status'';
          Some \<lparr>f_kind = KIND_ARGO, f_subject = py_str name,
                f_summary = argo_summary (py_str name) minutes threshold,
                f_facts = [
                  (''application'', name), (''namespace'', ns), (''phase'', phase),
                  (''startedAt'', startedAt),
                  (''running_minutes'', JFloat (py_round 1 (Fin minutes))),
                  (''threshold_minutes'', JFloat threshold),
                  (''message'', message), (''revision'', revision),
                  (''sync_status'', sync_status), (''health_status'', health_status)]\<rparr> }"

text \<open>The report of an operation that started at the given time, when it is past the threshold.\<close>

definition if_older :: "flt \<Rightarrow> datetime \<Rightarrow> datetime option \<Rightarrow> (rat \<Rightarrow> finding option) \<Rightarrow> finding list option" where
  "if_older threshold now since report =
     (case since of
        None \<Rightarrow> Some []
      | Some started \<Rightarrow>
          (let minutes = age_minutes started now
           in if fle (Fin minutes) threshold then Some []
              else map_option (\<lambda>f. [f]) (report minutes)))"

definition argo_finding :: "flt \<Rightarrow> datetime \<Rightarrow> json \<Rightarrow> finding list option" where
  "argo_finding threshold now app =
     do { meta \<leftarrow> jget_or app ''metadata'' (JObj []);
          name \<leftarrow> jget_or meta ''name'' (JStr ''<unnamed>'');
          status \<leftarrow> jget_or app ''status'' (JObj []);
          state \<leftarrow> jget_or status ''operationState'' (JObj []);
          phase \<leftarrow> jget state ''phase'';
          (if phase \<noteq> JStr ''Running'' then Some []
           else do { startedAt \<leftarrow> jget state ''startedAt'';
                     since \<leftarrow> parse_k8s_time startedAt;
                     if_older threshold now since (argo_report meta status state name threshold) }) }"

definition detect_stuck_argo_ops :: "json \<Rightarrow> json \<Rightarrow> datetime \<Rightarrow> finding list option" where
  "detect_stuck_argo_ops applications config now =
     when_enabled config ''argo_stuck_op'' (\<lambda>cfg.
       do { threshold \<leftarrow> float_opt cfg ''running_minutes'' (JInt 45);
            apps \<leftarrow> items_of applications;
            collect (argo_finding threshold now) apps })"

section \<open>Dark nodes\<close>

text \<open>The first element whose member k is v.\<close>

fun find_by :: "string \<Rightarrow> json \<Rightarrow> json list \<Rightarrow> json option option" where
  "find_by k v [] = Some None"
| "find_by k v (x # xs) =
     do { t \<leftarrow> jget x k; (if t = v then Some (Some x) else find_by k v xs) }"

definition node_condition :: "json \<Rightarrow> string \<Rightarrow> json option option" where
  "node_condition node cond_type =
     do { status \<leftarrow> jget_or node ''status'' (JObj []);
          conds \<leftarrow> list_opt status ''conditions'';
          find_by ''type'' (JStr cond_type) conds }"

definition node_address :: "json \<Rightarrow> string \<Rightarrow> json option" where
  "node_address node addr_type =
     do { status \<leftarrow> jget_or node ''status'' (JObj []);
          addrs \<leftarrow> list_opt status ''addresses'';
          a \<leftarrow> find_by ''type'' (JStr addr_type) addrs;
          (case a of None \<Rightarrow> Some JNull | Some x \<Rightarrow> jget x ''address'') }"

text \<open>\<open>key in x\<close> for a dict, a list or a string.\<close>

fun jin :: "string \<Rightarrow> json \<Rightarrow> bool option" where
  "jin k (JObj kvs) = Some (k \<in> fst ` set kvs)"
| "jin k (JList xs) = Some (JStr k \<in> set xs)"
| "jin k (JStr s) = Some (sublist k s)"
| "jin k _ = None"

abbreviation CP_LABEL :: string where
  "CP_LABEL \<equiv> ''node-role.kubernetes.io/control-plane''"

definition node_labels :: "json \<Rightarrow> json option" where
  "node_labels node =
     do { meta \<leftarrow> jget_or node ''metadata'' (JObj []); jget_or meta ''labels'' (JObj []) }"

definition status_is :: "json option \<Rightarrow> string \<Rightarrow> bool option" where
  "status_is cond v =
     (case cond of
        None \<Rightarrow> Some False
      | Some c \<Rightarrow> do { s \<leftarrow> jget c ''status''; Some (s = JStr v) })"

definition is_ready_cp :: "json \<Rightarrow> bool option" where
  "is_ready_cp node =
     do { labels \<leftarrow> node_labels node;
          ready \<leftarrow> node_condition node ''Ready'';
          cp \<leftarrow> jin CP_LABEL labels;
          (if cp then status_is ready ''True'' else Some False) }"

definition dark_next_step :: string where
  "dark_next_step =
     ''Decide whether a restart is safe (e.g. NOT the last Ready control-plane/etcd-voter node ''
     @ em_dash @ '' see other_ready_control_plane_nodes above). If safe, dispatch ''
     @ ''contabo-instance-reboot.yml with node_name and external_ip set (it resolves the Contabo ''
     @ ''instanceId by matching ipConfig.v4.ip and calls the restart action). See ''
     @ ''docs/runbooks/dark-node-reboot.md.''"

definition dark_report :: "json \<Rightarrow> json \<Rightarrow> json \<Rightarrow> int \<Rightarrow> flt \<Rightarrow> rat \<Rightarrow> finding option" where
  "dark_report node name ready cp_ready threshold minutes =
     do { labels \<leftarrow> node_labels node;
          is_cp \<leftarrow> jin CP_LABEL labels;
          ev \<leftarrow> node_condition node ''EtcdIsVoter'';
          voter \<leftarrow> status_is ev ''True'';
          since \<leftarrow> jget ready ''lastTransitionTime'';
          internal \<leftarrow> node_address node ''InternalIP'';
          external \<leftarrow> node_address node ''ExternalIP'';
          Some \<lparr>f_kind = KIND_DARK_NODE, f_subject = py_str name,
                f_summary =
                  ''Node `'' @ py_str name @ ''` has had Ready=Unknown (kubelet stopped posting status) ''
                  @ ''for '' @ fmt_age minutes @ '' (threshold '' @ fmt_fixed 0 threshold @ ''m).'',
                f_facts = [
                  (''node'', name), (''unknown_since'', since),
                  (''unknown_minutes'', JFloat (py_round 1 (Fin minutes))),
                  (''threshold_minutes'', JFloat threshold),
                  (''internal_ip'', internal), (''external_ip'', external),
                  (''is_control_plane'', JBool is_cp),
                  (''is_etcd_voter'', JBool voter),
                  (''other_ready_control_plane_nodes'', JInt cp_ready),
                  (''next_step'', JStr dark_next_step)]\<rparr> }"

definition dark_since :: "json \<Rightarrow> datetime option option" where
  "dark_since ready =
     do { ltt \<leftarrow> jget ready ''lastTransitionTime'';
          since \<leftarrow> parse_k8s_time ltt;
          (case since of
             Some s \<Rightarrow> Some (Some s)
           | None \<Rightarrow> do { lht \<leftarrow> jget ready ''lastHeartbeatTime''; parse_k8s_time lht }) }"

definition dark_finding :: "flt \<Rightarrow> json list \<Rightarrow> int \<Rightarrow> datetime \<Rightarrow> json \<Rightarrow> finding list option" where
  "dark_finding threshold ignore cp_ready now node =
     do { meta \<leftarrow> jget_or node ''metadata'' (JObj []);
          name \<leftarrow> jget_or meta ''name'' (JStr ''<unnamed>'');
          (if name \<in> set ignore then Some []
           else do { rc \<leftarrow> node_condition node ''Ready'';
             (case rc of
                None \<Rightarrow> Some []
              | Some ready \<Rightarrow>
                  do { unknown \<leftarrow> status_is (Some ready) ''Unknown'';
                    (if \<not> unknown then Some []
                     else do { since \<leftarrow> dark_since ready;
                               if_older threshold now since
                                 (dark_report node name ready cp_ready threshold) }) }) }) }"

definition detect_dark_nodes :: "json \<Rightarrow> json \<Rightarrow> datetime \<Rightarrow> finding list option" where
  "detect_dark_nodes nodes config now =
     when_enabled config ''dark_node'' (\<lambda>cfg.
       do { threshold \<leftarrow> float_opt cfg ''unknown_minutes'' (JInt 30);
            ignore \<leftarrow> list_opt cfg ''ignore_nodes'';
            items \<leftarrow> items_of nodes;
            flags \<leftarrow> those (map is_ready_cp items);
            collect (dark_finding threshold ignore (int (length (filter id flags))) now) items })"

definition currently_unknown_node_names :: "json \<Rightarrow> json list option" where
  "currently_unknown_node_names nodes =
     do { items \<leftarrow> items_of nodes;
          map_option concat (those (map (\<lambda>node.
            do { meta \<leftarrow> jget_or node ''metadata'' (JObj []);
                 name \<leftarrow> jget meta ''name'';
                 ready \<leftarrow> node_condition node ''Ready'';
                 unknown \<leftarrow> (if truthy name then status_is ready ''Unknown'' else Some False);
                 Some (if unknown then [name] else []) }) items)) }"

section \<open>Pods\<close>

definition container_statuses :: "json \<Rightarrow> json list option" where
  "container_statuses pod =
     do { status \<leftarrow> jget_or pod ''status'' (JObj []);
          a \<leftarrow> list_opt status ''containerStatuses'';
          b \<leftarrow> list_opt status ''initContainerStatuses'';
          Some (a @ b) }"

definition pod_subject :: "json \<Rightarrow> string option" where
  "pod_subject pod =
     do { meta \<leftarrow> jget_or pod ''metadata'' (JObj []);
          ns \<leftarrow> jget_d meta ''namespace'' (JStr ''default'');
          name \<leftarrow> jget_d meta ''name'' (JStr ''<unnamed>'');
          Some (py_str ns @ ''/'' @ py_str name) }"

text \<open>
  \<open>strip_suffix ok lo hi s\<close> is \<open>re.sub(r"-[class]{lo,hi}$", "", s)\<close> for a class without the hyphen;
  the dollar also matches before a final newline.
\<close>

definition strip_suffix :: "(char \<Rightarrow> bool) \<Rightarrow> nat \<Rightarrow> nat \<Rightarrow> string \<Rightarrow> string" where
  "strip_suffix ok lo hi s =
     (let nl = (s \<noteq> [] \<and> last s = CHR 10);
          r = rev (if nl then butlast s else s);
          run = takeWhile ok r; rest = dropWhile ok r
      in if lo \<le> length run \<and> length run \<le> hi \<and> rest \<noteq> [] \<and> hd rest = CHR ''-''
         then rev (tl rest) @ (if nl then newline else []) else s)"

definition strip_template_hash :: "string \<Rightarrow> string" where
  "strip_template_hash = strip_suffix (\<lambda>c. is_lower c \<or> is_digit c) 5 10"

definition strip_epoch :: "string \<Rightarrow> string" where
  "strip_epoch = strip_suffix is_digit 6 11"

text \<open>The loop over the owners returns at the first one it knows; None in the second component of
  the result means that it ran to the end.\<close>

fun owner_name :: "json list \<Rightarrow> string option option" where
  "owner_name [] = Some None"
| "owner_name (owner # owners) =
     do { kind \<leftarrow> jget owner ''kind'';
          oname \<leftarrow> jget owner ''name'';
          (if \<not> truthy oname then owner_name owners
           else (let o' = py_str oname
                 in if kind = JStr ''ReplicaSet''
                    then Some (Some (if strip_template_hash o' = [] then o' else strip_template_hash o'))
                    else if kind = JStr ''Job''
                    then Some (Some (if strip_epoch o' = [] then o' else strip_epoch o'))
                    else if kind = JStr ''StatefulSet'' \<or> kind = JStr ''DaemonSet'' then Some (Some o')
                    else owner_name owners)) }"

definition stable_workload_name :: "json \<Rightarrow> string option" where
  "stable_workload_name pod =
     do { meta \<leftarrow> jget_or pod ''metadata'' (JObj []);
          name \<leftarrow> jget_or meta ''name'' (JStr ''<unnamed>'');
          owners \<leftarrow> list_opt meta ''ownerReferences'';
          found \<leftarrow> owner_name owners;
          (case found of
             Some w \<Rightarrow> Some w
           | None \<Rightarrow> (let stripped = strip_epoch (strip_template_hash (py_str name))
                     in Some (if stripped = [] then py_str name else stripped))) }"

definition stable_pod_subject :: "json \<Rightarrow> string option" where
  "stable_pod_subject pod =
     do { meta \<leftarrow> jget_or pod ''metadata'' (JObj []);
          ns \<leftarrow> jget_d meta ''namespace'' (JStr ''default'');
          w \<leftarrow> stable_workload_name pod;
          Some (py_str ns @ ''/'' @ w) }"

definition pod_start :: "json \<Rightarrow> datetime option option" where
  "pod_start pod =
     do { status \<leftarrow> jget_or pod ''status'' (JObj []);
          st \<leftarrow> jget status ''startTime'';
          a \<leftarrow> parse_k8s_time st;
          (case a of
             Some d \<Rightarrow> Some (Some d)
           | None \<Rightarrow> do { meta \<leftarrow> jget_or pod ''metadata'' (JObj []);
                        ct \<leftarrow> jget meta ''creationTimestamp'';
                        parse_k8s_time ct }) }"

definition waiting_of :: "json \<Rightarrow> json option" where
  "waiting_of cs = do { st \<leftarrow> jget_or cs ''state'' (JObj []); jget_or st ''waiting'' (JObj []) }"

end
