(* ===== verification/Watchdog_Pods.thy ===== *)
theory Watchdog_Pods
  imports Watchdog_Detect
begin

text \<open>
  The pod and volume detections of scripts-tools/deployment_watchdog.py: chronic crash loops,
  pods stuck in ContainerCreating, volumes above the alarm ratio.
\<close>

section \<open>Chronic crash loops\<close>

definition crash_minutes :: "json \<Rightarrow> datetime \<Rightarrow> bool \<Rightarrow> rat option option" where
  "crash_minutes pod now look =
     (if look
      then do { st \<leftarrow> pod_start pod; Some (map_option (\<lambda>s. age_minutes s now) st) }
      else Some None)"

definition crash_triggers :: "int \<Rightarrow> int \<Rightarrow> rat option \<Rightarrow> flt \<Rightarrow> string list" where
  "crash_triggers restarts max_restarts minutes max_minutes =
     (if max_restarts < restarts
      then [''restartCount '' @ show_int restarts @ '' > '' @ show_int max_restarts] else [])
     @ (case minutes of
          Some m \<Rightarrow> (if flt_less max_minutes (Fin m)
                    then [''CrashLoopBackOff for '' @ fmt_age m @ '' > '' @ fmt_fixed 0 max_minutes @ ''m'']
                    else [])
        | None \<Rightarrow> [])"

definition crash_report ::
  "int \<Rightarrow> flt \<Rightarrow> json \<Rightarrow> json \<Rightarrow> int \<Rightarrow> rat option \<Rightarrow> finding option" where
  "crash_report max_restarts max_minutes pod cs restarts minutes =
     do { meta \<leftarrow> jget_or pod ''metadata'' (JObj []);
          waiting \<leftarrow> waiting_of cs;
          reason \<leftarrow> jget waiting ''reason'';
          rdy \<leftarrow> jget cs ''ready'';
          lst \<leftarrow> jget_or cs ''lastState'' (JObj []);
          terminated \<leftarrow> jget_or lst ''terminated'' (JObj []);
          subj \<leftarrow> stable_pod_subject pod;
          cname_d \<leftarrow> jget_d cs ''name'' (JStr ''<container>'');
          cname \<leftarrow> jget cs ''name'';
          psub \<leftarrow> pod_subject pod;
          ns \<leftarrow> jget meta ''namespace'';
          pname \<leftarrow> jget meta ''name'';
          exit_code \<leftarrow> jget terminated ''exitCode'';
          treason \<leftarrow> jget terminated ''reason'';
          finished \<leftarrow> jget terminated ''finishedAt'';
          wmessage \<leftarrow> jget waiting ''message'';
          Some \<lparr>f_kind = KIND_CRASHLOOP, f_subject = subj @ '':'' @ py_str cname_d,
                f_summary =
                  ''`'' @ psub @ ''` container `'' @ py_str cname @ ''` is in a chronic crash loop (''
                  @ str_join ''; '' (crash_triggers restarts max_restarts minutes max_minutes) @ '').'',
                f_facts = [
                  (''namespace'', ns), (''pod'', pname), (''container'', cname),
                  (''restartCount'', JInt restarts), (''waiting_reason'', reason),
                  (''ready'', JBool (truthy rdy)),
                  (''crashloop_minutes'',
                    (case minutes of None \<Rightarrow> JNull | Some m \<Rightarrow> JFloat (py_round 1 (Fin m)))),
                  (''threshold_restarts'', JInt max_restarts),
                  (''threshold_minutes'', JFloat max_minutes),
                  (''last_exit_code'', exit_code), (''last_terminated_reason'', treason),
                  (''last_terminated_at'', finished), (''waiting_message'', wmessage)]\<rparr> }"

definition crash_finding ::
  "int \<Rightarrow> flt \<Rightarrow> datetime \<Rightarrow> json \<Rightarrow> json \<Rightarrow> finding list option" where
  "crash_finding max_restarts max_minutes now pod cs =
     do { rc \<leftarrow> jget_or cs ''restartCount'' (JInt 0);
          restarts \<leftarrow> py_int rc;
          waiting \<leftarrow> waiting_of cs;
          reason \<leftarrow> jget waiting ''reason'';
          rdy \<leftarrow> jget cs ''ready'';
          minutes \<leftarrow> crash_minutes pod now (reason = JStr ''CrashLoopBackOff'' \<and> \<not> truthy rdy);
          (let by_restarts = max_restarts < restarts;
               by_duration = (case minutes of Some m \<Rightarrow> flt_less max_minutes (Fin m) | None \<Rightarrow> False)
           in if by_restarts \<or> by_duration
              then map_option (\<lambda>f. [f]) (crash_report max_restarts max_minutes pod cs restarts minutes)
              else Some []) }"

definition crash_findings ::
  "int \<Rightarrow> flt \<Rightarrow> json list \<Rightarrow> datetime \<Rightarrow> json \<Rightarrow> finding list option" where
  "crash_findings max_restarts max_minutes ignore now pod =
     do { meta \<leftarrow> jget_or pod ''metadata'' (JObj []);
          ns \<leftarrow> jget meta ''namespace'';
          (if ns \<in> set ignore then Some []
           else do { css \<leftarrow> container_statuses pod;
                     collect (crash_finding max_restarts max_minutes now pod) css }) }"

definition detect_chronic_crashloop :: "json \<Rightarrow> json \<Rightarrow> datetime \<Rightarrow> finding list option" where
  "detect_chronic_crashloop pods config now =
     when_enabled config ''crashloop'' (\<lambda>cfg.
       do { max_restarts \<leftarrow> int_opt cfg ''restart_count'' (JInt 50);
            max_minutes \<leftarrow> float_opt cfg ''crashloop_minutes'' (JInt 60);
            ignore \<leftarrow> list_opt cfg ''ignore_namespaces'';
            items \<leftarrow> items_of pods;
            collect (crash_findings max_restarts max_minutes ignore now) items })"

section \<open>Pods stuck in ContainerCreating\<close>

definition stuck_container :: "json list \<Rightarrow> json \<Rightarrow> (json \<times> json) list option" where
  "stuck_container reasons cs =
     do { rdy \<leftarrow> jget cs ''ready'';
          (if truthy rdy then Some []
           else do { waiting \<leftarrow> waiting_of cs;
                     reason \<leftarrow> jget waiting ''reason'';
                     Some (if reason \<in> set reasons then [(cs, waiting)] else []) }) }"

text \<open>\<open>next((w.get("message") for _, w in stuck if w.get("message")), None)\<close>.\<close>

fun first_message :: "(json \<times> json) list \<Rightarrow> json option" where
  "first_message [] = Some JNull"
| "first_message ((cs, w) # rest) =
     do { m \<leftarrow> jget w ''message''; (if truthy m then Some m else first_message rest) }"

definition creating_report ::
  "json \<Rightarrow> (json \<times> json) list \<Rightarrow> flt \<Rightarrow> rat \<Rightarrow> finding option" where
  "creating_report pod stuck threshold minutes =
     do { meta \<leftarrow> jget_or pod ''metadata'' (JObj []);
          reason \<leftarrow> (case stuck of [] \<Rightarrow> None | (cs0, w0) # _ \<Rightarrow> jget w0 ''reason'');
          message \<leftarrow> first_message stuck;
          subj \<leftarrow> stable_pod_subject pod;
          psub \<leftarrow> pod_subject pod;
          ns \<leftarrow> jget meta ''namespace'';
          pname \<leftarrow> jget meta ''name'';
          names \<leftarrow> those (map (\<lambda>(cs, w). jget cs ''name'') stuck);
          spec \<leftarrow> jget_or pod ''spec'' (JObj []);
          node \<leftarrow> jget spec ''nodeName'';
          Some \<lparr>f_kind = KIND_CREATING, f_subject = subj,
                f_summary =
                  ''`'' @ psub @ ''` has been '' @ py_str reason @ '' for ''
                  @ fmt_age minutes @ '' (threshold '' @ fmt_fixed 0 threshold @ ''m) ''
                  @ em_dash @ '' likely a stuck volume attach.'',
                f_facts = [
                  (''namespace'', ns), (''pod'', pname), (''containers'', JList names),
                  (''waiting_reason'', reason), (''waiting_message'', message),
                  (''pending_minutes'', JFloat (py_round 1 (Fin minutes))),
                  (''threshold_minutes'', JFloat threshold), (''node'', node)]\<rparr> }"

definition creating_finding ::
  "flt \<Rightarrow> json list \<Rightarrow> json list \<Rightarrow> datetime \<Rightarrow> json \<Rightarrow> finding list option" where
  "creating_finding threshold reasons ignore now pod =
     do { meta \<leftarrow> jget_or pod ''metadata'' (JObj []);
          ns \<leftarrow> jget meta ''namespace'';
          (if ns \<in> set ignore then Some []
           else do { css \<leftarrow> container_statuses pod;
                     stuck \<leftarrow> map_option concat (those (map (stuck_container reasons) css));
                     (if stuck = [] then Some []
                      else do { since \<leftarrow> pod_start pod;
                                if_older threshold now since (creating_report pod stuck threshold) }) }) }"

definition detect_stuck_container_creating :: "json \<Rightarrow> json \<Rightarrow> datetime \<Rightarrow> finding list option" where
  "detect_stuck_container_creating pods config now =
     when_enabled config ''container_creating'' (\<lambda>cfg.
       do { threshold \<leftarrow> float_opt cfg ''minutes'' (JInt 30);
            rs \<leftarrow> jget_or cfg ''reasons'' (JList [JStr ''ContainerCreating'', JStr ''PodInitializing'']);
            reasons \<leftarrow> jiter rs;
            ignore \<leftarrow> list_opt cfg ''ignore_namespaces'';
            items \<leftarrow> items_of pods;
            collect (creating_finding threshold reasons ignore now) items })"

section \<open>Volumes\<close>

text \<open>A number in arithmetic: a JSON int, float or bool; text raises TypeError.\<close>

fun arith_num :: "json \<Rightarrow> flt option" where
  "arith_num (JInt i) = Some (Fin (of_int i))"
| "arith_num (JFloat f) = Some f"
| "arith_num (JBool b) = Some (Fin (if b then 1 else 0))"
| "arith_num _ = None"

definition gib :: "json \<Rightarrow> string option" where
  "gib v = do { f \<leftarrow> arith_num v; Some (fmt_fixed 2 (fmul_int (1 / 1073741824) f)) }"

definition pvc_detail :: "json \<Rightarrow> json \<Rightarrow> string option" where
  "pvc_detail used capacity =
     (if truthy used \<and> truthy capacity
      then do { u \<leftarrow> gib used; c \<leftarrow> gib capacity; Some ('' ('' @ u @ '' GiB of '' @ c @ '' GiB)'') }
      else Some [])"

definition pvc_report :: "flt \<Rightarrow> json \<Rightarrow> flt \<Rightarrow> finding option" where
  "pvc_report limit record r =
     do { namespace \<leftarrow> jget_or record ''namespace'' (JStr ''?'');
          claim \<leftarrow> jget_or record ''claim'' (JStr ''?'');
          used \<leftarrow> jget record ''used_bytes'';
          capacity \<leftarrow> jget record ''capacity_bytes'';
          detail \<leftarrow> pvc_detail used capacity;
          source \<leftarrow> jget record ''source'';
          Some \<lparr>f_kind = KIND_PVC, f_subject = py_str namespace @ ''/'' @ py_str claim,
                f_summary =
                  ''PVC `'' @ py_str namespace @ ''/'' @ py_str claim @ ''` is ''
                  @ fmt_fixed 1 (fmul_int 100 r) @ ''% full'' @ detail
                  @ '' '' @ em_dash @ '' above the '' @ fmt_fixed 0 (fmul_int 100 limit) @ ''% alarm.'',
                f_facts = [
                  (''namespace'', namespace), (''persistentvolumeclaim'', claim),
                  (''used_ratio'', JFloat (py_round 4 r)), (''threshold_ratio'', JFloat limit),
                  (''used_bytes'', used), (''capacity_bytes'', capacity), (''source'', source)]\<rparr> }"

definition pvc_finding :: "flt \<Rightarrow> json \<Rightarrow> finding list option" where
  "pvc_finding limit record =
     do { ratio \<leftarrow> jget record ''ratio'';
          (if ratio = JNull then Some []
           else do { r \<leftarrow> py_float ratio;
                     (if fle r limit then Some []
                      else map_option (\<lambda>f. [f]) (pvc_report limit record r)) }) }"

definition detect_pvc_pressure :: "json list \<Rightarrow> json \<Rightarrow> finding list option" where
  "detect_pvc_pressure usage config =
     when_enabled config ''pvc_pressure'' (\<lambda>cfg.
       do { limit \<leftarrow> float_opt cfg ''used_ratio'' (JFloat (Fin (4 / 5)));
            collect (pvc_finding limit) usage })"

section \<open>What the detections return\<close>

lemma collect_Some:
  "collect f xs = Some fs \<longleftrightarrow> (\<exists>yss. map f xs = map Some yss \<and> fs = concat yss)"
  by (auto simp: collect_def those_map_Some)

lemma collect_SomeD:
  assumes "collect f xs = Some fs" and "x \<in> set fs"
  shows "\<exists>y \<in> set xs. \<exists>ys. f y = Some ys \<and> x \<in> set ys"
proof -
  from assms(1) obtain yss where m: "those (map f xs) = Some yss" and fs: "fs = concat yss"
    by (auto simp: collect_def)
  from assms(2) fs obtain ys where "ys \<in> set yss" "x \<in> set ys" by auto
  with those_map_SomeD [OF m] show ?thesis by blast
qed

lemma collect_SomeI:
  assumes "collect f xs = Some fs" and "y \<in> set xs" and "f y = Some ys"
  shows "set ys \<subseteq> set fs"
proof -
  from assms(1) obtain yss where m: "map f xs = map Some yss" and fs: "fs = concat yss"
    by (auto simp: collect_Some)
  from assms(2) have "f y \<in> f ` set xs" by simp
  then have "f y \<in> Some ` set yss" using m by (metis image_set)
  with assms(3) fs show ?thesis by auto
qed

text \<open>Each report carries the kind of its detection.\<close>

lemma argo_report_kind: "argo_report meta status state name t m = Some f \<Longrightarrow> f_kind f = KIND_ARGO"
  by (auto simp: argo_report_def)

lemma dark_report_kind: "dark_report node name ready n t m = Some f \<Longrightarrow> f_kind f = KIND_DARK_NODE"
  by (auto simp: dark_report_def)

lemma crash_report_kind: "crash_report mr mm pod cs r m = Some f \<Longrightarrow> f_kind f = KIND_CRASHLOOP"
  by (auto simp: crash_report_def)

lemma creating_report_kind: "creating_report pod stuck t m = Some f \<Longrightarrow> f_kind f = KIND_CREATING"
  by (auto simp: creating_report_def)

lemma pvc_report_kind: "pvc_report limit record r = Some f \<Longrightarrow> f_kind f = KIND_PVC"
  by (auto simp: pvc_report_def)

lemmas report_kinds =
  argo_report_kind dark_report_kind crash_report_kind creating_report_kind pvc_report_kind

lemma if_older_in:
  assumes "if_older t now since report = Some fs" and "f \<in> set fs"
  obtains started where "since = Some started" and "\<not> fle (Fin (age_minutes started now)) t"
    and "report (age_minutes started now) = Some f" and "fs = [f]"
  using assms by (auto simp: if_older_def Let_def split: option.splits if_splits)

lemma when_enabled_in:
  assumes "when_enabled config section body = Some fs" and "f \<in> set fs"
  obtains cfg where "jget_d config section (JObj []) = Some cfg" and "body cfg = Some fs"
  using assms by (auto simp: when_enabled_def split: if_splits)

lemma argo_finding_in:
  assumes "argo_finding t now app = Some fs" and "f \<in> set fs"
  shows "f_kind f = KIND_ARGO"
  using assms by (auto simp: argo_finding_def split: if_splits elim!: if_older_in dest: report_kinds)

lemma dark_finding_in:
  assumes "dark_finding t ig n now node = Some fs" and "f \<in> set fs"
  shows "f_kind f = KIND_DARK_NODE"
  using assms
  by (auto simp: dark_finding_def split: if_splits option.splits elim!: if_older_in dest: report_kinds)

lemma creating_finding_in:
  assumes "creating_finding t rs ig now pod = Some fs" and "f \<in> set fs"
  shows "f_kind f = KIND_CREATING"
  using assms by (auto simp: creating_finding_def split: if_splits elim!: if_older_in dest: report_kinds)

lemma crash_finding_in:
  assumes "crash_finding mr mm now pod cs = Some fs" and "f \<in> set fs"
  shows "f_kind f = KIND_CRASHLOOP"
  using assms by (auto simp: crash_finding_def Let_def split: if_splits dest: report_kinds)

lemma pvc_finding_in:
  assumes "pvc_finding limit record = Some fs" and "f \<in> set fs"
  shows "f_kind f = KIND_PVC"
  using assms by (auto simp: pvc_finding_def split: if_splits dest: report_kinds)

lemma crash_findings_in:
  assumes "crash_findings mr mm ig now pod = Some fs" and "f \<in> set fs"
  shows "f_kind f = KIND_CRASHLOOP"
  using assms
  by (auto simp: crash_findings_def split: if_splits dest!: collect_SomeD dest: crash_finding_in)

text \<open>Every detection tags its findings with its own kind.\<close>

lemma detect_kinds:
  shows "detect_stuck_argo_ops x config now = Some fs \<Longrightarrow> f \<in> set fs \<Longrightarrow> f_kind f = KIND_ARGO"
    and "detect_dark_nodes x config now = Some fs \<Longrightarrow> f \<in> set fs \<Longrightarrow> f_kind f = KIND_DARK_NODE"
    and "detect_chronic_crashloop x config now = Some fs \<Longrightarrow> f \<in> set fs \<Longrightarrow> f_kind f = KIND_CRASHLOOP"
    and "detect_stuck_container_creating x config now = Some fs \<Longrightarrow> f \<in> set fs \<Longrightarrow> f_kind f = KIND_CREATING"
    and "detect_pvc_pressure usage config = Some fs \<Longrightarrow> f \<in> set fs \<Longrightarrow> f_kind f = KIND_PVC"
  unfolding detect_stuck_argo_ops_def detect_dark_nodes_def detect_chronic_crashloop_def
    detect_stuck_container_creating_def detect_pvc_pressure_def
  by (erule when_enabled_in, assumption,
      auto dest!: collect_SomeD dest: argo_finding_in dark_finding_in crash_findings_in
        creating_finding_in pvc_finding_in)+

end
