(* ===== verification/JsonText.thy ===== *)
theory JsonText
  imports Json
begin

text \<open>
  \<open>json.loads\<close>: the decoder of the Python standard library, on bytes, and the round trip
  \<open>loads (dumps j) = Some j\<close> for the values the scripts persist: dicts with distinct ASCII keys over
  ASCII text, integers, booleans, nulls, lists. The decoder stops on malformed text with None
  (JSONDecodeError, a ValueError).
\<close>

section \<open>Scanners\<close>

fun skip_ws :: "string \<Rightarrow> string" where
  "skip_ws [] = []"
| "skip_ws (c # s) =
     (if c = CHR '' '' \<or> c = CHR 9 \<or> c = CHR 10 \<or> c = CHR 13 then skip_ws s else c # s)"

lemma length_skip_ws: "length (skip_ws s) \<le> length s"
  by (induction s) auto

definition hex_val :: "char \<Rightarrow> nat option" where
  "hex_val c =
     (if is_digit c then Some (of_char c - 48)
      else if chr_in 97 c 102 then Some (of_char c - 87)
      else if chr_in 65 c 70 then Some (of_char c - 55) else None)"

definition hex4_val :: "char \<Rightarrow> char \<Rightarrow> char \<Rightarrow> char \<Rightarrow> nat option" where
  "hex4_val a b c d =
     do { w \<leftarrow> hex_val a; x \<leftarrow> hex_val b; y \<leftarrow> hex_val c; z \<leftarrow> hex_val d;
          Some (w * 4096 + x * 256 + y * 16 + z) }"

text \<open>The UTF-8 encoding of a code point (a lone surrogate becomes its three-byte form).\<close>

definition utf8 :: "nat \<Rightarrow> string" where
  "utf8 n =
     (if n < 128 then [char_of n]
      else if n < 2048 then [char_of (192 + n div 64), char_of (128 + n mod 64)]
      else if n < 65536
        then [char_of (224 + n div 4096), char_of (128 + n div 64 mod 64), char_of (128 + n mod 64)]
      else [char_of (240 + n div 262144), char_of (128 + n div 4096 mod 64),
            char_of (128 + n div 64 mod 64), char_of (128 + n mod 64)])"

definition simple_esc :: "char \<Rightarrow> char option" where
  "simple_esc c =
     (if c = dquote \<or> c = backslash \<or> c = CHR ''/'' then Some c
      else if c = CHR ''n'' then Some (CHR 10) else if c = CHR ''r'' then Some (CHR 13)
      else if c = CHR ''t'' then Some (CHR 9) else if c = CHR ''b'' then Some (CHR 8)
      else if c = CHR ''f'' then Some (CHR 12) else None)"

text \<open>A high surrogate escape followed by a low one is one code point.\<close>

definition low_surrogate :: "string \<Rightarrow> (nat \<times> string) option" where
  "low_surrogate s =
     (case s of
        b # u # p # q # r # t # rest \<Rightarrow>
          (if b = backslash \<and> u = CHR ''u''
           then (case hex4_val p q r t of
                   Some n \<Rightarrow> (if 56320 \<le> n \<and> n \<le> 57343 then Some (n, rest) else None)
                 | None \<Rightarrow> None)
           else None)
      | _ \<Rightarrow> None)"

lemma length_low_surrogate: "low_surrogate s = Some (n, r) \<Longrightarrow> length r < length s"
  by (auto simp: low_surrogate_def split: list.splits if_splits option.splits)

definition scan_u :: "string \<Rightarrow> (string \<times> string) option" where
  "scan_u s =
     (case s of
        p # q # r # t # rest \<Rightarrow>
          (case hex4_val p q r t of
             None \<Rightarrow> None
           | Some n \<Rightarrow>
               (if 55296 \<le> n \<and> n \<le> 56319
                then (case low_surrogate rest of
                        Some (m, rest') \<Rightarrow>
                          Some (utf8 (65536 + (n - 55296) * 1024 + (m - 56320)), rest')
                      | None \<Rightarrow> Some (utf8 n, rest))
                else Some (utf8 n, rest)))
      | _ \<Rightarrow> None)"

lemma length_scan_u: "scan_u s = Some (u, r) \<Longrightarrow> length r < length s"
  by (auto simp: scan_u_def split: list.splits if_splits option.splits dest: length_low_surrogate)

text \<open>The characters after an opening quote, up to the closing one.\<close>

function scan_str :: "string \<Rightarrow> (string \<times> string) option" where
  "scan_str s =
     (case s of
        [] \<Rightarrow> None
      | c # t \<Rightarrow>
          if c = dquote then Some ([], t)
          else if c = backslash then
            (case t of
               [] \<Rightarrow> None
             | e # u \<Rightarrow>
                 if e = CHR ''u''
                 then (case scan_u u of
                         None \<Rightarrow> None
                       | Some (x, r) \<Rightarrow> map_option (\<lambda>(y, r'). (x @ y, r')) (scan_str r))
                 else (case simple_esc e of
                         None \<Rightarrow> None
                       | Some x \<Rightarrow> map_option (\<lambda>(y, r'). (x # y, r')) (scan_str u)))
          else if (of_char c :: nat) < 32 then None
          else map_option (\<lambda>(y, r'). (c # y, r')) (scan_str t))"
  by pat_completeness auto
termination
  by (relation "measure length") (auto dest: length_scan_u)

declare scan_str.simps [simp del]

text \<open>A number: an integer part without leading zeros, an optional fraction, an optional exponent.\<close>

definition scan_mag :: "bool \<Rightarrow> string \<Rightarrow> (json \<times> string) option" where
  "scan_mag neg s =
     (let (ds, r0) = (case s of
                        c # t \<Rightarrow> if c = CHR ''0'' then (''0'', t) else span_digits s
                      | [] \<Rightarrow> ([], s));
          (q, dot, r1) = read_frac (digits_val ds) r0;
          (q', ex, r2) = read_exp q r1
      in if ds = [] then None
         else if dot \<or> ex then Some (JFloat (Fin (if neg then - q' else q')), r2)
         else Some (JInt (if neg then - digits_val ds else digits_val ds), r2))"

definition scan_num :: "string \<Rightarrow> (json \<times> string) option" where
  "scan_num s =
     (case s of
        [] \<Rightarrow> None
      | c # t \<Rightarrow> if c = CHR ''-'' then scan_mag True t else scan_mag False s)"

definition scan_const :: "string \<Rightarrow> (json \<times> string) option" where
  "scan_const s =
     (if prefix ''null'' s then Some (JNull, drop 4 s)
      else if prefix ''true'' s then Some (JBool True, drop 4 s)
      else if prefix ''false'' s then Some (JBool False, drop 5 s)
      else if prefix ''NaN'' s then Some (JFloat NaN, drop 3 s)
      else if prefix ''Infinity'' s then Some (JFloat PInf, drop 8 s)
      else if prefix ''-Infinity'' s then Some (JFloat NInf, drop 9 s)
      else None)"

section \<open>The decoder\<close>

text \<open>
  The three functions call each other on text that gets shorter; the length tests before the
  recursive calls always hold (every scanner consumes text) and carry the termination proof.
\<close>

function (sequential) parse_val :: "string \<Rightarrow> (json \<times> string) option"
  and parse_elems :: "string \<Rightarrow> (json list \<times> string) option"
  and parse_members :: "string \<Rightarrow> (jobj \<times> string) option" where
  "parse_val [] = None"
| "parse_val (c # t) =
     (if c = dquote then map_option (\<lambda>(x, r). (JStr x, r)) (scan_str t)
      else if c = CHR ''{'' then
        (case skip_ws t of
           [] \<Rightarrow> None
         | d # u \<Rightarrow>
             if d = CHR ''}'' then Some (JObj [], u)
             else map_option (\<lambda>(kvs, r). (JObj (dict_update [] kvs), r)) (parse_members (d # u)))
      else if c = CHR ''['' then
        (case skip_ws t of
           [] \<Rightarrow> None
         | d # u \<Rightarrow>
             if d = CHR '']'' then Some (JList [], u)
             else map_option (\<lambda>(xs, r). (JList xs, r)) (parse_elems (d # u)))
      else (case scan_const (c # t) of Some x \<Rightarrow> Some x | None \<Rightarrow> scan_num (c # t)))"
| "parse_elems s =
     (case parse_val s of
        None \<Rightarrow> None
      | Some (v, r) \<Rightarrow>
          (case skip_ws r of
             [] \<Rightarrow> None
           | c # u \<Rightarrow>
               if c = CHR '']'' then Some ([v], u)
               else if c = CHR '','' \<and> length (skip_ws u) < length s
                 then map_option (\<lambda>(vs, r'). (v # vs, r')) (parse_elems (skip_ws u))
               else None))"
| "parse_members s =
     (case s of
        [] \<Rightarrow> None
      | q # t \<Rightarrow>
          if q \<noteq> dquote then None
          else (case scan_str t of
             None \<Rightarrow> None
           | Some (k, r) \<Rightarrow>
               (case skip_ws r of
                  [] \<Rightarrow> None
                | c # u \<Rightarrow>
                    if c = CHR '':'' \<and> length (skip_ws u) < length s
                    then (case parse_val (skip_ws u) of
                            None \<Rightarrow> None
                          | Some (v, r2) \<Rightarrow>
                              (case skip_ws r2 of
                                 [] \<Rightarrow> None
                               | d # w \<Rightarrow>
                                   if d = CHR ''}'' then Some ([(k, v)], w)
                                   else if d = CHR '','' \<and> length (skip_ws w) < length s
                                     then map_option (\<lambda>(kvs, r'). ((k, v) # kvs, r'))
                                            (parse_members (skip_ws w))
                                   else None))
                    else None)))"
  by pat_completeness auto
termination
proof (relation "measure (\<lambda>x. case x of Inl s \<Rightarrow> 2 * length s
    | Inr (Inl s) \<Rightarrow> 2 * length s + 1 | Inr (Inr s) \<Rightarrow> 2 * length s + 1)", goal_cases)
  case (2 c t d u)
  then show ?case using length_skip_ws [of t] by simp
next
  case (3 c t d u)
  then show ?case using length_skip_ws [of t] by simp
qed auto

declare parse_elems.simps [simp del] parse_members.simps [simp del] parse_val.simps(2) [simp del]

definition loads :: "string \<Rightarrow> json option" where
  "loads s =
     (case parse_val (skip_ws s) of
        Some (v, r) \<Rightarrow> (if skip_ws r = [] then Some v else None)
      | None \<Rightarrow> None)"

section \<open>Round trip\<close>

text \<open>The values whose text form is read back: the class the persisted states belong to.\<close>

definition ascii :: "string \<Rightarrow> bool" where
  "ascii s \<longleftrightarrow> list_all is_ascii s"

fun clean :: "json \<Rightarrow> bool" where
  "clean (JFloat f) = False"
| "clean (JStr s) = ascii s"
| "clean (JList xs) = list_all clean xs"
| "clean (JObj kvs) = (distinct (map fst kvs) \<and> list_all (\<lambda>(k, v). ascii k \<and> clean v) kvs)"
| "clean _ = True"

lemma codepoints_ascii: "ascii s \<Longrightarrow> codepoints s = map of_char s"
  by (induction s) (simp_all add: ascii_def is_ascii_def Let_def)

lemma hex_val_char: "d < 16 \<Longrightarrow> hex_val (hex_char d) = Some d"
  by (auto simp: hex_val_def hex_char_def is_digit_def)

lemma hex4_val_hex4_small:
  assumes "n < 128"
  shows "(case hex4 n of [a, b, c, d] \<Rightarrow> hex4_val a b c d | _ \<Rightarrow> None) = Some n"
proof -
  have "n div 16 < 16" using assms by simp
  with assms show ?thesis by (simp add: hex4_def hex4_val_def hex_val_char)
qed

lemma scan_u_hex4:
  assumes "n < 128"
  shows "scan_u (hex4 n @ r) = Some ([char_of n], r)"
  using hex4_val_hex4_small [OF assms] assms by (simp add: scan_u_def hex4_def utf8_def)

lemma scan_str_plain:
  assumes "32 \<le> (of_char c :: nat)" and "c \<noteq> dquote" and "c \<noteq> backslash"
  shows "scan_str (c # r) = map_option (\<lambda>(y, r'). (c # y, r')) (scan_str r)"
  using assms by (subst scan_str.simps) simp

lemma scan_str_simple:
  assumes "simple_esc e = Some c" and "e \<noteq> CHR ''u''"
  shows "scan_str (backslash # e # r) = map_option (\<lambda>(y, r'). (c # y, r')) (scan_str r)"
  using assms by (subst scan_str.simps) (simp add: backslash_def dquote_def)

lemma scan_str_esc_u:
  assumes "n < 128"
  shows "scan_str (esc_u n @ r) = map_option (\<lambda>(y, r'). (char_of n # y, r')) (scan_str r)"
  using scan_u_hex4 [OF assms]
  by (subst scan_str.simps) (simp add: esc_u_def backslash_def dquote_def)

lemma scan_str_esc_cp:
  assumes "n < 128"
  shows "scan_str (esc_cp n @ r) = map_option (\<lambda>(y, r'). (char_of n # y, r')) (scan_str r)"
proof (cases "n \<in> {34, 92, 10, 13, 9, 8, 12}")
  case True
  have "list_all (\<lambda>n. esc_cp n = [backslash, hd (tl (esc_cp n))] \<and> hd (tl (esc_cp n)) \<noteq> CHR ''u''
      \<and> simple_esc (hd (tl (esc_cp n))) = Some (char_of n)) [34, 92, 10, 13, 9, 8, 12]"
    by code_simp
  with True have "esc_cp n = [backslash, hd (tl (esc_cp n))]" and "hd (tl (esc_cp n)) \<noteq> CHR ''u''"
    and "simple_esc (hd (tl (esc_cp n))) = Some (char_of n)"
    by (auto simp only: list_all_iff set_simps)
  then show ?thesis
    by (metis append_Cons append_Nil scan_str_simple)
next
  case False
  show ?thesis
  proof (cases "32 \<le> n \<and> n \<le> 126")
    case True
    with False have e: "esc_cp n = [char_of n]" by (simp add: esc_cp_def)
    have d: "(of_char (char_of n :: char) :: nat) = n" using assms by simp
    have "(of_char dquote :: nat) = 34" "(of_char backslash :: nat) = 92"
      by (simp_all add: dquote_def backslash_def)
    with False d have "char_of n \<noteq> dquote" "char_of n \<noteq> backslash"
      by (metis insertI1 insertI2)+
    with True d e show ?thesis by (simp add: scan_str_plain)
  next
    case outside: False
    with False assms have "esc_cp n = esc_u n" unfolding esc_cp_def by auto
    with assms show ?thesis by (simp add: scan_str_esc_u)
  qed
qed

lemma scan_str_dumps:
  assumes "ascii s"
  shows "scan_str (concat (map esc_cp (codepoints s)) @ dquote # r) = Some (s, r)"
  unfolding codepoints_ascii [OF assms] using assms
proof (induction s)
  case Nil
  show ?case by (subst scan_str.simps) simp
next
  case (Cons c s)
  from Cons.prems have "(of_char c :: nat) < 128" and "ascii s"
    by (simp_all add: ascii_def is_ascii_def)
  with Cons.IH show ?case by (simp add: scan_str_esc_cp)
qed

text \<open>A value is followed by a comma, a closing bracket or nothing.\<close>

definition stops :: "string \<Rightarrow> bool" where
  "stops r \<longleftrightarrow> r = [] \<or> hd r \<in> {CHR '','', CHR '']'', CHR ''}''}"

lemma stops_simps [simp]:
  "stops []" "stops (CHR '','' # r)" "stops (CHR '']'' # r)" "stops (CHR ''}'' # r)"
  by (simp_all add: stops_def)

lemma stops_not_digit: "stops r \<Longrightarrow> r = [] \<or> \<not> is_digit (hd r)"
  by (auto simp: stops_def is_digit_def)

lemma read_frac_stop: "stops r \<Longrightarrow> read_frac n r = (of_int n, False, r)"
  by (cases r) (auto simp: read_frac_def stops_def split: prod.splits)

lemma read_exp_stop: "stops r \<Longrightarrow> read_exp q r = (q, False, r)"
  by (cases r) (auto simp: read_exp_def stops_def split: prod.splits)

lemma show_nat_Cons:
  assumes "0 \<le> n"
  obtains c cs where "show_nat n = c # cs" and "is_digit c"
proof (cases "show_nat n")
  case (Cons c cs)
  with show_nat_digits [OF assms, of c] that show ?thesis by simp
qed simp

lemma scan_mag_nat:
  assumes "0 \<le> n" and "stops r"
  shows "scan_mag neg (show_nat n @ r) = Some (JInt (if neg then - n else n), r)"
proof (cases "n = 0")
  case True
  with assms show ?thesis by (simp add: scan_mag_def read_frac_stop read_exp_stop)
next
  case False
  obtain c cs where c: "show_nat n = c # cs" "is_digit c" by (rule show_nat_Cons [OF assms(1)])
  from False c have "c \<noteq> CHR ''0''" using show_nat_hd_nonzero [of n] assms(1) by simp
  moreover have "span_digits (show_nat n @ r) = (show_nat n, r)"
    using assms stops_not_digit by (intro span_digits_append) (auto dest: show_nat_digits)
  ultimately show ?thesis
    using assms c digits_val_show_nat [of n]
    by (simp add: scan_mag_def read_frac_stop read_exp_stop)
qed

lemma scan_num_nat:
  assumes "0 \<le> n" and "stops r"
  shows "scan_num (show_nat n @ r) = Some (JInt n, r)"
proof -
  obtain c cs where c: "show_nat n = c # cs" "is_digit c" by (rule show_nat_Cons [OF assms(1)])
  from c have "c \<noteq> CHR ''-''" by (auto simp: is_digit_def)
  with c scan_mag_nat [OF assms, of False] show ?thesis by (simp add: scan_num_def)
qed

lemma scan_num_neg:
  "0 \<le> n \<Longrightarrow> stops r \<Longrightarrow> scan_num (CHR ''-'' # show_nat n @ r) = Some (JInt (- n), r)"
  by (simp add: scan_num_def scan_mag_nat)

lemma parse_val_num:
  assumes "c = CHR ''-'' \<or> is_digit c" and "scan_const (c # t) = None"
  shows "parse_val (c # t) = scan_num (c # t)"
proof -
  from assms(1) have "c \<noteq> dquote" "c \<noteq> CHR ''{''" "c \<noteq> CHR ''[''"
    by (auto simp: dquote_def is_digit_def)
  with assms(2) show ?thesis by (simp add: parse_val.simps(2))
qed

lemma digit_neq:
  assumes "is_digit c"
  shows "c \<noteq> CHR ''n''" "c \<noteq> CHR ''t''" "c \<noteq> CHR ''f''" "c \<noteq> CHR ''N''" "c \<noteq> CHR ''I''"
    "c \<noteq> CHR ''-''"
  using assms by (auto simp: is_digit_def)

lemma scan_const_digit: "is_digit c \<Longrightarrow> scan_const (c # t) = None"
  by (simp add: scan_const_def digit_neq not_sym)

lemma scan_const_neg: "is_digit c \<Longrightarrow> scan_const (CHR ''-'' # c # t) = None"
  by (simp add: scan_const_def digit_neq not_sym)

lemma parse_val_int:
  assumes "stops r"
  shows "parse_val (show_int i @ r) = Some (JInt i, r)"
proof (cases "i < 0")
  case True
  then have "0 \<le> - i" by simp
  then obtain c cs where c: "show_nat (- i) = c # cs" "is_digit c" by (rule show_nat_Cons)
  with True scan_num_neg [OF \<open>0 \<le> - i\<close> assms] show ?thesis
    by (simp add: show_int_def parse_val_num scan_const_neg)
next
  case False
  then have "0 \<le> i" by simp
  then obtain c cs where c: "show_nat i = c # cs" "is_digit c" by (rule show_nat_Cons)
  with False scan_num_nat [OF \<open>0 \<le> i\<close> assms] show ?thesis
    by (simp add: show_int_def parse_val_num scan_const_digit)
qed

text \<open>The text of a value is not empty, does not start with white space, and not with a bracket's end.\<close>

definition starts_val :: "string \<Rightarrow> bool" where
  "starts_val s \<longleftrightarrow> s \<noteq> [] \<and> hd s \<notin> {CHR '' '', CHR 9, CHR 10, CHR 13, CHR '']'', CHR ''}''}"

lemma starts_val_dumps_int: "starts_val (show_int i)"
proof (cases "i < 0")
  case False
  then have "0 \<le> i" by simp
  then obtain c cs where "show_nat i = c # cs" "is_digit c" by (rule show_nat_Cons)
  then show ?thesis using False by (auto simp: starts_val_def show_int_def is_digit_def)
qed (simp add: starts_val_def show_int_def)

lemma starts_val_dumps: "clean j \<Longrightarrow> starts_val (dumps j)"
  by (cases j) (auto simp: starts_val_dumps_int, auto simp: starts_val_def dumps_str_def dquote_def)

lemma skip_ws_starts: "starts_val s \<Longrightarrow> skip_ws (s @ r) = s @ r"
  by (cases s) (auto simp: starts_val_def)

lemma starts_val_append: "starts_val s \<Longrightarrow> starts_val (s @ r)"
  by (auto simp: starts_val_def)

text \<open>The members of a list and of a dict, given the round trip of each element.\<close>

lemma parse_elems_dumps:
  assumes "\<And>j r. j \<in> set (x # xs) \<Longrightarrow> stops r \<Longrightarrow> parse_val (dumps j @ r) = Some (j, r)"
    and "\<And>j. j \<in> set (x # xs) \<Longrightarrow> starts_val (dumps j)"
  shows "parse_elems (str_join '', '' (map dumps (x # xs)) @ '']'' @ r) = Some (x # xs, r)"
  using assms
proof (induction xs arbitrary: x)
  case Nil
  then have "parse_val (dumps x @ '']'' @ r) = Some (x, '']'' @ r)" by simp
  then show ?case by (simp add: parse_elems.simps)
next
  case (Cons y ys)
  define rest where "rest = str_join '', '' (map dumps (y # ys)) @ '']'' @ r"
  have v: "parse_val (dumps x @ '', '' @ rest) = Some (x, '', '' @ rest)"
    using Cons.prems(1) by simp
  have IH: "parse_elems rest = Some (y # ys, r)"
    unfolding rest_def by (rule Cons.IH) (use Cons.prems in auto)
  have "starts_val (dumps y)" using Cons.prems(2) by simp
  then have ws: "skip_ws rest = rest"
    by (cases ys) (auto simp: rest_def skip_ws_starts)
  have eq: "str_join '', '' (map dumps (x # y # ys)) @ '']'' @ r = dumps x @ '', '' @ rest"
    by (simp add: rest_def)
  show ?case
    unfolding eq by (subst parse_elems.simps) (simp add: v [simplified] ws IH)
qed

lemma parse_members_dumps:
  assumes "\<And>k j r. (k, j) \<in> set (kv # kvs) \<Longrightarrow> stops r \<Longrightarrow> parse_val (dumps j @ r) = Some (j, r)"
    and "\<And>k j. (k, j) \<in> set (kv # kvs) \<Longrightarrow> starts_val (dumps j) \<and> ascii k"
  shows "parse_members (str_join '', '' (map (\<lambda>(k, v). dumps_str k @ '': '' @ dumps v) (kv # kvs))
           @ ''}'' @ r) = Some (kv # kvs, r)"
  using assms
proof (induction kvs arbitrary: kv)
  case Nil
  obtain k v where kv: "kv = (k, v)" by (cases kv)
  from Nil have "parse_val (dumps v @ ''}'' @ r) = Some (v, ''}'' @ r)" and "starts_val (dumps v)"
    and "ascii k" by (auto simp: kv)
  then show ?case
    by (subst parse_members.simps) (simp add: kv dumps_str_def scan_str_dumps skip_ws_starts)
next
  case (Cons kv' kvs)
  obtain k v where kv: "kv = (k, v)" by (cases kv)
  define rest where "rest = str_join '', '' (map (\<lambda>(k, v). dumps_str k @ '': '' @ dumps v) (kv' # kvs))
      @ ''}'' @ r"
  have v: "parse_val (dumps v @ '', '' @ rest) = Some (v, '', '' @ rest)"
    and sv: "starts_val (dumps v)" and k: "ascii k"
    using Cons.prems(1) [of k v] Cons.prems(2) [of k v] by (auto simp: kv)
  have IH: "parse_members rest = Some (kv' # kvs, r)"
    unfolding rest_def
  proof (rule Cons.IH)
    show "parse_val (dumps j @ r) = Some (j, r)" if "(k, j) \<in> set (kv' # kvs)" "stops r" for k j r
      using Cons.prems(1) [of k j r] that by simp
    show "starts_val (dumps j) \<and> ascii k" if "(k, j) \<in> set (kv' # kvs)" for k j
      using Cons.prems(2) [of k j] that by simp
  qed
  have ws: "skip_ws rest = rest"
    by (cases kvs; cases kv') (auto simp: rest_def dumps_str_def dquote_def)
  have eq: "str_join '', '' (map (\<lambda>(k, v). dumps_str k @ '': '' @ dumps v) (kv # kv' # kvs)) @ ''}'' @ r
      = dquote # (concat (map esc_cp (codepoints k)) @ dquote # ('': '' @ dumps v @ '', '' @ rest))"
    by (simp add: kv dumps_str_def rest_def)
  have ws2: "skip_ws (dumps v @ '', '' @ rest) = dumps v @ '', '' @ rest"
    by (rule skip_ws_starts [OF sv])
  show ?case
    unfolding eq
    by (subst parse_members.simps)
      (simp add: kv scan_str_dumps [OF k] ws2 [simplified] v [simplified] ws IH)
qed

theorem parse_val_dumps: "clean j \<Longrightarrow> stops r \<Longrightarrow> parse_val (dumps j @ r) = Some (j, r)"
proof (induction j arbitrary: r)
  case JNull
  then show ?case by (simp add: parse_val.simps(2) scan_const_def dquote_def)
next
  case (JBool b)
  then show ?case by (simp add: parse_val.simps(2) scan_const_def dquote_def)
next
  case (JInt i)
  then show ?case by (simp add: parse_val_int)
next
  case (JFloat f)
  then show ?case by simp
next
  case (JStr s)
  then show ?case by (simp add: parse_val.simps(2) dumps_str_def scan_str_dumps)
next
  case (JList xs)
  show ?case
  proof (cases xs)
    case Nil
    then show ?thesis by (simp add: parse_val.simps(2) dquote_def)
  next
    case (Cons x ys)
    have "parse_elems (str_join '', '' (map dumps xs) @ '']'' @ r) = Some (xs, r)"
      unfolding Cons
    proof (rule parse_elems_dumps)
      show "parse_val (dumps j @ r) = Some (j, r)" if "j \<in> set (x # ys)" "stops r" for j r
        using JList that by (auto simp: Cons list_all_iff)
      show "starts_val (dumps j)" if "j \<in> set (x # ys)" for j
        using JList.prems that by (intro starts_val_dumps) (auto simp: Cons list_all_iff)
    qed
    moreover have "starts_val (str_join '', '' (map dumps xs))"
      using JList.prems starts_val_dumps [of x]
      by (cases ys) (auto simp: Cons starts_val_append)
    ultimately show ?thesis
      by (cases "str_join '', '' (map dumps xs)")
        (auto simp: parse_val.simps(2) dquote_def starts_val_def)
  qed
next
  case (JObj kvs)
  show ?case
  proof (cases kvs)
    case Nil
    then show ?thesis by (simp add: parse_val.simps(2) dquote_def dict_update_def)
  next
    case (Cons kv kvs')
    let ?txt = "str_join '', '' (map (\<lambda>(k, v). dumps_str k @ '': '' @ dumps v) kvs)"
    have "parse_members (?txt @ ''}'' @ r) = Some (kvs, r)"
      unfolding Cons
    proof (rule parse_members_dumps)
      show "parse_val (dumps j @ r) = Some (j, r)"
        if "(k, j) \<in> set (kv # kvs')" "stops r" for k j r
        using JObj.IH [of "(k, j)" j r] JObj.prems(1) that by (auto simp: Cons list_all_iff)
      show "starts_val (dumps j) \<and> ascii k" if "(k, j) \<in> set (kv # kvs')" for k j
        using JObj.prems(1) that by (auto simp: Cons list_all_iff intro!: starts_val_dumps)
    qed
    moreover obtain t where "?txt = dquote # t"
      by (cases kvs'; cases kv) (auto simp: Cons dumps_str_def)
    moreover have "dict_update [] kvs = kvs"
      using JObj.prems(1) dict_update_Nil_distinct [of "[]" kvs] by simp
    ultimately show ?thesis
      by (simp add: parse_val.simps(2) dquote_def)
  qed
qed

theorem loads_dumps: "clean j \<Longrightarrow> loads (dumps j) = Some j"
  using parse_val_dumps [of j "[]"] skip_ws_starts [OF starts_val_dumps, of j "[]"]
  by (simp add: loads_def)

end
