(* ===== verification/Watchdog_Issues.thy ===== *)
theory Watchdog_Issues
  imports Watchdog_Pods JsonText "HOL-Library.Product_Lexorder" "HOL-Library.Multiset"
begin

text \<open>
  How findings and GitHub issues are matched in scripts-tools/deployment_watchdog.py: the markers
  embedded in issue bodies and the regular expressions that read them back, the worst-first order,
  the split of findings into new ones and ones already filed, and the text of a filed issue. An
  issue or comment is the JSON object that \<open>gh\<close> returns for it.
\<close>

section \<open>Texts of issues and comments\<close>

text \<open>\<open>issue.get("body") or ""\<close> where a regular expression or \<open>in\<close> reads it next.\<close>

definition text_of :: "json \<Rightarrow> string \<Rightarrow> string option" where
  "text_of issue k = do { b \<leftarrow> jget_or issue k (JStr []); as_text b }"

definition instance_marker :: "string \<Rightarrow> string" where
  "instance_marker p = ''<!-- watchdog-instance: '' @ p @ '' -->''"

definition latest_instance_marker :: "string \<Rightarrow> string option" where
  "latest_instance_marker text =
     (let ms = findall1 ''<!-- watchdog-instance: '' '' -->'' text
      in if ms = [] then None else Some (last ms))"

definition argo_terminated_marker :: "string \<Rightarrow> json \<Rightarrow> string" where
  "argo_terminated_marker app started_at =
     ''<!-- argo-terminated: '' @ app @ ''@'' @ py_str started_at @ '' -->''"

text \<open>\<open>re.compile("<!-- watchdog-key: kind:(.+?) -->").search(body)\<close>, group 1.\<close>

definition key_subject :: "string \<Rightarrow> string \<Rightarrow> string option" where
  "key_subject kind body = search1 (''<!-- watchdog-key: '' @ kind @ '':'') '' -->'' body"

definition dark_node_name_from_issue :: "json \<Rightarrow> string option option" where
  "dark_node_name_from_issue issue =
     do { body \<leftarrow> text_of issue ''body''; Some (key_subject KIND_DARK_NODE body) }"

section \<open>Order and dedup\<close>

definition default_priority :: "json list" where
  "default_priority = map JStr [KIND_ARGO, KIND_DARK_NODE, KIND_PVC, KIND_CREATING, KIND_CRASHLOOP]"

fun index_of :: "'a list \<Rightarrow> 'a \<Rightarrow> nat" where
  "index_of [] x = 0"
| "index_of (y # ys) x = (if y = x then 0 else Suc (index_of ys x))"

definition rank :: "json list \<Rightarrow> finding \<Rightarrow> nat \<times> string" where
  "rank order f = (index_of order (JStr (f_kind f)), f_key f)"

definition prioritize :: "finding list \<Rightarrow> json \<Rightarrow> finding list option" where
  "prioritize findings priority =
     do { order \<leftarrow> (if truthy priority then jiter priority else Some default_priority);
          Some (sort_key (rank order) findings) }"

text \<open>Does an open issue track the finding: its marker in the body, or the exact title.\<close>

definition issue_matches :: "finding \<Rightarrow> string \<Rightarrow> json \<Rightarrow> bool option" where
  "issue_matches f pre issue =
     do { body \<leftarrow> text_of issue ''body'';
          (if sublist (f_marker f) body then Some True
           else do { t \<leftarrow> jget_or issue ''title'' (JStr []); Some (t = JStr (f_title pre f)) }) }"

fun find_issue :: "finding \<Rightarrow> string \<Rightarrow> json list \<Rightarrow> json option option" where
  "find_issue f pre [] = Some None"
| "find_issue f pre (i # is) =
     do { m \<leftarrow> issue_matches f pre i; (if m then Some (Some i) else find_issue f pre is) }"

fun filter_new_findings ::
  "finding list \<Rightarrow> json list \<Rightarrow> string \<Rightarrow> (finding list \<times> (finding \<times> json) list) option" where
  "filter_new_findings [] issues pre = Some ([], [])"
| "filter_new_findings (f # fs) issues pre =
     do { m \<leftarrow> find_issue f pre issues;
          (nw, dups) \<leftarrow> filter_new_findings fs issues pre;
          Some (case m of None \<Rightarrow> (f # nw, dups) | Some i \<Rightarrow> (nw, (f, i) # dups)) }"

section \<open>The text of an issue\<close>

definition INCIDENT_NOTE :: string where
  \<open>INCIDENT_NOTE =
     ''This watchdog exists because of the 2026-08-30..09-01 fleet-deployment freeze: ''
     @ ''a full Loki PVC crash-looped Loki 694 times, the permanently-unhealthy StatefulSet ''
     @ ''wedged one Argo sync operation in `phase=Running` for 37h, and every prod change ''
     @ ''queued silently behind it for 2d11h. Every component reported "running"; nothing alerted.''\<close>

definition churn_kind :: "string \<Rightarrow> bool" where
  "churn_kind k \<longleftrightarrow> k = KIND_CREATING \<or> k = KIND_CRASHLOOP"

definition fact :: "finding \<Rightarrow> string \<Rightarrow> json" where
  "fact f k = dget (f_facts f) k JNull"

definition facts_json :: "finding \<Rightarrow> string" where
  "facts_json f = dumps_indent 0 (jsort (JObj (f_facts f)))"

definition instance_lines :: "finding \<Rightarrow> string list" where
  "instance_lines f =
     (if churn_kind (f_kind f) \<and> truthy (fact f ''pod'')
      then [instance_marker (py_str (fact f ''pod''))] else [])"

definition action_lines :: "string list \<Rightarrow> string list" where
  "action_lines actions =
     (if actions \<noteq> []
      then [''### Automated action taken'', []] @ map (\<lambda>a. ''- '' @ a) actions @ [[]]
      else [''### Automated action taken'', [],
            ''- None. This watchdog is read-only against the cluster; prod is GitOps ''
            @ ''under Argo `selfHeal`, so any fix must land in git.'', []])"

definition issue_rest :: "finding \<Rightarrow> string \<Rightarrow> string \<Rightarrow> string list \<Rightarrow> string list" where
  "issue_rest f mention run_url actions =
     instance_lines f
     @ [[], mention @ '' the deployment-freeze watchdog detected **'' @ f_kind f @ ''**.'', [],
        f_summary f, [], ''### Diagnostics (verbatim from the cluster)'', [], ''```json'',
        facts_json f, ''```'', []]
     @ action_lines actions
     @ (if run_url \<noteq> [] then [''Watchdog run: '' @ run_url, []] else [])
     @ [''---'', [], INCIDENT_NOTE, [],
        ''Thresholds: `governance/watchdog-thresholds.json`. Detection: ''
        @ ''`scripts-tools/deployment_watchdog.py`. This issue is deduplicated on the ''
        @ ''`watchdog-key` marker above '' @ em_dash @ '' it will not be re-filed while it stays open, ''
        @ ''so close it once the condition is actually resolved.'']"

definition build_issue_body :: "finding \<Rightarrow> json \<Rightarrow> string \<Rightarrow> string list \<Rightarrow> string option" where
  "build_issue_body f config run_url actions =
     do { issues \<leftarrow> jget_or config ''issues'' (JObj []);
          mention \<leftarrow> jget_d issues ''mention'' (JStr ''@fuze'');
          Some (str_join newline (f_marker f # issue_rest f (py_str mention) run_url actions)) }"

section \<open>Properties\<close>

lemma str_join_Cons_Cons: "xs \<noteq> [] \<Longrightarrow> str_join sep (x # xs) = x @ sep @ str_join sep xs"
  by (cases xs) auto

lemma issue_rest_not_Nil [simp]: "issue_rest f m u as \<noteq> []"
  by (simp add: issue_rest_def)

lemma build_issue_body_marker:
  assumes "build_issue_body f config run_url actions = Some body"
  obtains rest where "body = f_marker f @ newline @ rest"
  using assms by (auto simp: build_issue_body_def str_join_Cons_Cons)

lemma issue_matches_own:
  assumes "jget_or issue ''body'' (JStr []) = Some (JStr body)" and "sublist (f_marker f) body"
  shows "issue_matches f pre issue = Some True"
  using assms by (simp add: issue_matches_def text_of_def)

lemma find_issue_append:
  assumes "issue_matches f pre i = Some True" and "find_issue f pre is = Some None"
  shows "find_issue f pre (is @ i # js) = Some (Some i)"
  using assms(2)
proof (induction "is")
  case Nil
  with assms(1) show ?case by simp
next
  case (Cons j js')
  then have "issue_matches f pre j = Some False" and "find_issue f pre js' = Some None"
    by (auto split: if_splits)
  with Cons.IH show ?case by simp
qed

lemma find_issue_in: "find_issue f pre is = Some (Some i) \<Longrightarrow> i \<in> set is \<and> issue_matches f pre i = Some True"
  by (induction "is") (auto split: if_splits)

lemma find_issue_None:
  "find_issue f pre is = Some None \<Longrightarrow> i \<in> set is \<Longrightarrow> issue_matches f pre i = Some False"
  by (induction "is") (auto split: if_splits)

text \<open>The split loses and duplicates nothing, and keeps the order on both sides.\<close>

lemma filter_new_partition:
  assumes "filter_new_findings fs issues pre = Some (nw, dups)"
  shows "nw = filter (\<lambda>f. find_issue f pre issues = Some None) fs
    \<and> map fst dups = filter (\<lambda>f. find_issue f pre issues \<noteq> Some None) fs
    \<and> (\<forall>(f, i) \<in> set dups. i \<in> set issues \<and> issue_matches f pre i = Some True)"
  using assms
proof (induction fs arbitrary: nw dups)
  case (Cons f fs)
  then obtain m nw' dups' where m: "find_issue f pre issues = Some m"
    and rest: "filter_new_findings fs issues pre = Some (nw', dups')"
    and eq: "(nw, dups) = (case m of None \<Rightarrow> (f # nw', dups') | Some i \<Rightarrow> (nw', (f, i) # dups'))"
    by auto
  show ?case
    using Cons.IH [OF rest] eq m by (cases m) (auto dest: find_issue_in)
qed simp

lemma filter_new_nothing_lost:
  assumes "filter_new_findings fs issues pre = Some (nw, dups)"
  shows "set fs = set nw \<union> fst ` set dups" and "set nw \<inter> fst ` set dups = {}"
    and "length fs = length nw + length dups"
proof -
  note p = filter_new_partition [OF assms]
  then have d: "fst ` set dups = set (filter (\<lambda>f. find_issue f pre issues \<noteq> Some None) fs)"
    by (metis set_map)
  show "set fs = set nw \<union> fst ` set dups" and "set nw \<inter> fst ` set dups = {}"
    using p d by auto
  have "length dups = length (filter (\<lambda>f. \<not> find_issue f pre issues = Some None) fs)"
    using p by (metis length_map)
  then show "length fs = length nw + length dups"
    using p sum_length_filter_compl [of "\<lambda>f. find_issue f pre issues = Some None" fs] by simp
qed

text \<open>Reading a key back from a body that starts with it.\<close>

definition plain_name :: "string \<Rightarrow> bool" where
  "plain_name s \<longleftrightarrow> s \<noteq> [] \<and> CHR 10 \<notin> set s \<and> CHR '' '' \<notin> set s"

lemma lazy1_plain:
  assumes "plain_name m"
  shows "lazy1 '' -->'' (m @ '' -->'' @ rest) = Some m"
proof (rule lazy1_append)
  fix u v assume "m = u @ v" "u \<noteq> []" "v \<noteq> []"
  with assms have "hd v \<noteq> CHR '' ''" by (cases v) (auto simp: plain_name_def)
  with \<open>v \<noteq> []\<close> show "\<not> prefix '' -->'' (v @ '' -->'' @ rest)" by (cases v) auto
qed (use assms in \<open>auto simp: plain_name_def\<close>)

lemma key_subject_marker:
  assumes "plain_name subj"
  shows "key_subject kind (key_marker (kind @ '':'' @ subj) @ rest) = Some subj"
proof -
  have "key_marker (kind @ '':'' @ subj) @ rest
      = (''<!-- watchdog-key: '' @ kind @ '':'') @ (subj @ '' -->'' @ rest)"
    by (simp add: key_marker_def)
  moreover have "search1 (''<!-- watchdog-key: '' @ kind @ '':'') '' -->''
      ((''<!-- watchdog-key: '' @ kind @ '':'') @ (subj @ '' -->'' @ rest)) = Some subj"
    by (rule search1_prefix) (simp_all only: lazy1_plain [OF assms], simp)
  ultimately show ?thesis by (simp only: key_subject_def)
qed

text \<open>Worst first: the result is a permutation sorted by rank.\<close>

lemma index_of_le: "index_of xs x \<le> length xs"
  by (induction xs) auto

lemma index_of_length: "x \<notin> set xs \<Longrightarrow> index_of xs x = length xs"
  by (induction xs) auto

lemma prioritize_perm:
  assumes "prioritize fs p = Some gs"
  shows "mset gs = mset fs"
  using assms by (auto simp: prioritize_def)

lemma prioritize_sorted:
  assumes "prioritize fs p = Some gs" and "\<not> truthy p"
  shows "sorted (map (rank default_priority) gs)"
  using assms by (auto simp: prioritize_def)

end
