(* ===== verification/Effects.thy ===== *)
theory Effects
  imports Json
begin

text \<open>
  The effects of the scripts. A script runs other programs (kubectl, gh) and writes text (its
  output, the step summary of the workflow); nothing else of the outside is visible to it. The
  outside is a parameter: it answers every process from the argument vector, the text handed over
  in a file, and everything that happened before. A computation maps that parameter and the trace
  of the events so far to a result or an exception and the longer trace.
\<close>

section \<open>Events, exceptions, computations\<close>

datatype exn =
    ClusterUnreachable string
  | UnsafeCommand string
  | GitHubError string
  | Uncaught

text \<open>The text of a caught exception, \<open>str(exc)\<close>.\<close>

fun exn_text :: "exn \<Rightarrow> string" where
  "exn_text (ClusterUnreachable s) = s"
| "exn_text (UnsafeCommand s) = s"
| "exn_text (GitHubError s) = s"
| "exn_text Uncaught = []"

text \<open>\<open>subprocess.run\<close>: the process ended with a code and its two outputs, or did not run to the
  end (OSError, TimeoutExpired, with the text of that exception).\<close>

datatype presult = Completed int string string | NotRun string

datatype event = Proc "string list" "string option" | Print string | Summary string

type_synonym env = "event list \<Rightarrow> string list \<Rightarrow> string option \<Rightarrow> presult"

type_synonym 'a io = "env \<Rightarrow> event list \<Rightarrow> (exn + 'a) \<times> event list"

definition ret :: "'a \<Rightarrow> 'a io" where
  "ret x = (\<lambda>env tr. (Inr x, tr))"

definition raise :: "exn \<Rightarrow> 'a io" where
  "raise e = (\<lambda>env tr. (Inl e, tr))"

definition bnd :: "'a io \<Rightarrow> ('a \<Rightarrow> 'b io) \<Rightarrow> 'b io" where
  "bnd m f = (\<lambda>env tr. case m env tr of (Inl e, tr') \<Rightarrow> (Inl e, tr') | (Inr x, tr') \<Rightarrow> f x env tr')"

definition seq :: "unit io \<Rightarrow> 'b io \<Rightarrow> 'b io" where
  "seq m n = bnd m (\<lambda>_. n)"

text \<open>An expression that may raise an exception nobody catches.\<close>

definition opt :: "'a option \<Rightarrow> 'a io" where
  "opt m = (case m of Some x \<Rightarrow> ret x | None \<Rightarrow> raise Uncaught)"

text \<open>\<open>try: m  except ...: h\<close>; the handler raises again what its clauses do not name.\<close>

definition handle :: "'a io \<Rightarrow> (exn \<Rightarrow> 'a io) \<Rightarrow> 'a io" where
  "handle m h = (\<lambda>env tr. case m env tr of (Inl e, tr') \<Rightarrow> h e env tr' | (Inr x, tr') \<Rightarrow> (Inr x, tr'))"

definition emit :: "event \<Rightarrow> unit io" where
  "emit ev = (\<lambda>env tr. (Inr (), tr @ [ev]))"

definition proc :: "string list \<Rightarrow> string option \<Rightarrow> presult io" where
  "proc argv body = (\<lambda>env tr. (Inr (env tr argv body), tr @ [Proc argv body]))"

text \<open>A for loop that updates local state.\<close>

fun each :: "('x \<Rightarrow> 's \<Rightarrow> 's io) \<Rightarrow> 'x list \<Rightarrow> 's \<Rightarrow> 's io" where
  "each f [] s = ret s"
| "each f (x # xs) s = bnd (f x s) (\<lambda>s'. each f xs s')"

lemma bnd_run:
  "m env tr = (Inr x, tr') \<Longrightarrow> bnd m f env tr = f x env tr'"
  "m env tr = (Inl e, tr') \<Longrightarrow> bnd m f env tr = (Inl e, tr')"
  by (simp_all add: bnd_def)

lemma bnd_ret [simp]: "bnd (ret x) f = f x"
  by (simp add: bnd_def ret_def)

lemma bnd_raise [simp]: "bnd (raise e) f = raise e"
  by (simp add: bnd_def raise_def)

lemma bnd_Inr_iff:
  "bnd m f env tr = (Inr y, tr') \<longleftrightarrow> (\<exists>x t. m env tr = (Inr x, t) \<and> f x env t = (Inr y, tr'))"
  by (auto simp: bnd_def split: prod.splits sum.splits)

lemma run_simps [simp]:
  "ret x env tr = (Inr x, tr)" "raise e env tr = (Inl e, tr)"
  "emit ev env tr = (Inr (), tr @ [ev])" "proc argv b env tr = (Inr (env tr argv b), tr @ [Proc argv b])"
  "opt (Some x) = ret x" "opt None = raise Uncaught"
  by (simp_all add: ret_def raise_def emit_def proc_def opt_def)

lemma handle_simps [simp]: "handle (ret x) h = ret x" "handle (raise e) h = h e"
  by (simp_all add: handle_def ret_def raise_def)

section \<open>What a computation can emit\<close>

text \<open>Every event a computation adds to the trace satisfies P, whatever the outside answers, and
  whether it returns or raises.\<close>

definition emits :: "(event \<Rightarrow> bool) \<Rightarrow> 'a io \<Rightarrow> bool" where
  "emits P m \<longleftrightarrow> (\<forall>env tr. \<exists>es. snd (m env tr) = tr @ es \<and> list_all P es)"

text \<open>The value of a computation that returns satisfies Q.\<close>

definition yields :: "('a \<Rightarrow> bool) \<Rightarrow> 'a io \<Rightarrow> bool" where
  "yields Q m \<longleftrightarrow> (\<forall>env tr x tr'. m env tr = (Inr x, tr') \<longrightarrow> Q x)"

named_theorems emits_rules \<open>what the combinators emit\<close>

lemma emits_ret [emits_rules]: "emits P (ret x)"
  and emits_raise [emits_rules]: "emits P (raise e)"
  and emits_opt [emits_rules]: "emits P (opt m)"
  and emits_emit [emits_rules]: "P ev \<Longrightarrow> emits P (emit ev)"
  and emits_proc [emits_rules]: "P (Proc argv body) \<Longrightarrow> emits P (proc argv body)"
  by (auto simp: emits_def opt_def split: option.splits)

lemma emits_bnd_yields:
  assumes "emits P m" and "yields Q m" and "\<And>x. Q x \<Longrightarrow> emits P (f x)"
  shows "emits P (bnd m f)"
  unfolding emits_def
proof (intro allI)
  fix env tr
  obtain r t where m: "m env tr = (r, t)" by fastforce
  from assms(1) m obtain es where es: "t = tr @ es" "list_all P es" unfolding emits_def by (metis snd_conv)
  show "\<exists>es. snd (bnd m f env tr) = tr @ es \<and> list_all P es"
  proof (cases r)
    case (Inl e)
    with m es show ?thesis by (simp add: bnd_def)
  next
    case (Inr x)
    then have "Q x" using assms(2) m by (auto simp: yields_def)
    from assms(3) [OF this] obtain es' where "snd (f x env t) = t @ es'" "list_all P es'"
      unfolding emits_def by blast
    with m es Inr show ?thesis by (auto simp: bnd_def)
  qed
qed

lemma emits_bnd [emits_rules]:
  assumes "emits P m" and "\<And>x. emits P (f x)"
  shows "emits P (bnd m f)"
  by (rule emits_bnd_yields [of _ _ "\<lambda>_. True"]) (use assms in \<open>simp_all add: yields_def\<close>)

lemma emits_seq [emits_rules]: "emits P m \<Longrightarrow> emits P n \<Longrightarrow> emits P (seq m n)"
  unfolding seq_def by (rule emits_bnd)

lemma emits_handle [emits_rules]:
  assumes "emits P m" and "\<And>e. emits P (h e)"
  shows "emits P (handle m h)"
  unfolding emits_def
proof (intro allI)
  fix env tr
  obtain r t where m: "m env tr = (r, t)" by fastforce
  from assms(1) m obtain es where es: "t = tr @ es" "list_all P es" unfolding emits_def by (metis snd_conv)
  show "\<exists>es. snd (handle m h env tr) = tr @ es \<and> list_all P es"
  proof (cases r)
    case (Inl e)
    from assms(2) [of e] obtain es' where "snd (h e env t) = t @ es'" "list_all P es'"
      unfolding emits_def by blast
    with m es Inl show ?thesis by (auto simp: handle_def)
  qed (use m es in \<open>simp add: handle_def\<close>)
qed

lemma emits_each [emits_rules]:
  assumes "\<And>x s. x \<in> set xs \<Longrightarrow> emits P (f x s)"
  shows "emits P (each f xs s)"
  using assms by (induction xs arbitrary: s) (auto intro!: emits_rules)

lemma emits_cases [emits_rules]:
  "(b \<Longrightarrow> emits P m) \<Longrightarrow> (\<not> b \<Longrightarrow> emits P n) \<Longrightarrow> emits P (if b then m else n)"
  "(\<And>x y. p = (x, y) \<Longrightarrow> emits P (g x y)) \<Longrightarrow> emits P (case p of (x, y) \<Rightarrow> g x y)"
  "(q = None \<Longrightarrow> emits P m) \<Longrightarrow> (\<And>x. q = Some x \<Longrightarrow> emits P (k x))
     \<Longrightarrow> emits P (case q of None \<Rightarrow> m | Some x \<Rightarrow> k x)"
  by (simp_all split: prod.splits option.splits)

lemma emits_exn_cases [emits_rules]:
  "(\<And>s. emits P (a s)) \<Longrightarrow> (\<And>s. emits P (b s)) \<Longrightarrow> (\<And>s. emits P (c s)) \<Longrightarrow> emits P d
     \<Longrightarrow> emits P (case e of ClusterUnreachable s \<Rightarrow> a s | UnsafeCommand s \<Rightarrow> b s | GitHubError s \<Rightarrow> c s
            | Uncaught \<Rightarrow> d)"
  by (cases e) auto

lemma emits_presult_cases [emits_rules]:
  "(\<And>i s t. emits P (a i s t)) \<Longrightarrow> (\<And>s. emits P (b s))
     \<Longrightarrow> emits P (case r of Completed i s t \<Rightarrow> a i s t | NotRun s \<Rightarrow> b s)"
  by (cases r) auto

lemma emits_mono: "emits P m \<Longrightarrow> (\<And>e. P e \<Longrightarrow> Q e) \<Longrightarrow> emits Q m"
  unfolding emits_def by (metis list.pred_mono_strong)

lemma emits_run:
  assumes "emits P m" and "m env tr = (r, tr')"
  shows "\<exists>es. tr' = tr @ es \<and> list_all P es"
  using assms unfolding emits_def by (metis snd_conv)

end
