(* ===== verification/Watchdog_Cluster.thy ===== *)
theory Watchdog_Cluster
  imports Watchdog_Issues Effects
begin

text \<open>
  Cluster access of scripts-tools/deployment_watchdog.py: the guard on kubectl arguments, the two
  ways to run kubectl, and the two sources of PVC usage (Prometheus through the API server's proxy,
  \<open>df\<close> in a pod when Prometheus is unusable). The time limits of the processes are part of the
  outside. The text of a JSON decode error is left out of the messages.
\<close>

section \<open>The guard\<close>

definition MUTATING_TOKENS :: "string list" where
  "MUTATING_TOKENS =
     [''exec'', ''attach'', ''cp'', ''port-forward'', ''proxy'', ''run'', ''delete'', ''apply'',
      ''edit'', ''patch'', ''replace'', ''scale'', ''rollout'', ''cordon'', ''drain'',
      ''annotate'', ''label'', ''set'', ''create'', ''taint'', ''uncordon'', ''debug'']"

text \<open>The pieces of \<open>re.split(r"[/,.]", s)\<close>.\<close>

definition token_pieces :: "string \<Rightarrow> string list" where
  "token_pieces = split_on (\<lambda>c. c = CHR ''/'' \<or> c = CHR '','' \<or> c = CHR ''.'')"

definition names_secret :: "string \<Rightarrow> bool" where
  "names_secret low \<longleftrightarrow> list_ex (\<lambda>p. p = ''secret'' \<or> p = ''secrets'') (token_pieces low)"

definition is_raw_flag :: "string \<Rightarrow> bool" where
  "is_raw_flag a \<longleftrightarrow> a = ''--raw'' \<or> prefix ''--raw='' a"

text \<open>\<open>raw[0].split("=", 1)[1]\<close>, or the argument after the flag.\<close>

definition raw_path :: "string list \<Rightarrow> string \<Rightarrow> string" where
  "raw_path args r =
     (if CHR ''='' \<in> set r then drop 1 (dropWhile (\<lambda>c. c \<noteq> CHR ''='') r)
      else (let i = index_of args r in if i + 1 < length args then args ! (i + 1) else []))"

text \<open>The guard's verdict: None, or the message of the exception.\<close>

fun unsafe_token :: "string list \<Rightarrow> string option" where
  "unsafe_token [] = None"
| "unsafe_token (token # ts) =
     (if List.member MUTATING_TOKENS (str_lower token)
      then Some (''refusing mutating/exec token: '' @ quoted token)
      else if names_secret (str_lower token)
      then Some ''refusing to read Secret objects: this job's log is public and retained''
      else unsafe_token ts)"

definition unsafe_raw :: "string list \<Rightarrow> string option" where
  "unsafe_raw args =
     (case filter is_raw_flag args of
        [] \<Rightarrow> None
      | r # _ \<Rightarrow>
          (if List.member args ''config''
           then Some ''refusing `config ... --raw`: it prints the runner's kubeconfig''
           else if \<not> prefix ''/api/v1/namespaces/'' (raw_path args r)
           then Some (''refusing --raw path outside the service proxy: '' @ quoted (raw_path args r))
           else None))"

definition assert_safe_kubectl :: "string list \<Rightarrow> unit io" where
  "assert_safe_kubectl args =
     (case unsafe_token args of
        Some m \<Rightarrow> raise (UnsafeCommand m)
      | None \<Rightarrow> (case unsafe_raw args of Some m \<Rightarrow> raise (UnsafeCommand m) | None \<Rightarrow> ret ()))"

section \<open>Running kubectl\<close>

definition kubectl :: "string list \<Rightarrow> string io" where
  "kubectl args =
     seq (assert_safe_kubectl args)
      (bnd (proc (''kubectl'' # args) None) (\<lambda>r.
        case r of
          NotRun exc \<Rightarrow>
            raise (ClusterUnreachable (''kubectl '' @ str_join '' '' args @ '' failed to run: '' @ exc))
        | Completed code out err \<Rightarrow>
            (if code \<noteq> 0
             then raise (ClusterUnreachable (''kubectl '' @ str_join '' '' args @ '' exited '' @ show_int code
                    @ '': '' @ take_chars 500 (str_strip err)))
             else ret out)))"

definition kubectl_json :: "string list \<Rightarrow> json io" where
  "kubectl_json args =
     bnd (kubectl args) (\<lambda>out. opt (loads (if out = [] then ''{}'' else out)))"

text \<open>The two patterns; the dollar of each also matches before a final newline.\<close>

definition before_nl :: "string \<Rightarrow> string" where
  "before_nl s = (if s \<noteq> [] \<and> last s = CHR 10 then butlast s else s)"

definition name_ok :: "string \<Rightarrow> bool" where
  "name_ok s =
     (case before_nl s of
        [] \<Rightarrow> False
      | c # t \<Rightarrow> (is_lower c \<or> is_digit c) \<and> length t \<le> 252
          \<and> list_all (\<lambda>c. is_lower c \<or> is_digit c \<or> c = CHR ''.'' \<or> c = CHR ''-'') t)"

definition path_ok :: "string \<Rightarrow> bool" where
  "path_ok s =
     (case before_nl s of
        [] \<Rightarrow> False
      | c # t \<Rightarrow> c = CHR ''/'' \<and>
          list_all (\<lambda>c. is_lower c \<or> is_upper c \<or> is_digit c \<or> c = CHR ''.'' \<or> c = CHR ''_''
            \<or> c = CHR ''/'' \<or> c = CHR ''-'') t)"

text \<open>\<open>if not RE.match(value or ""): raise\<close>, for a value that is text or falsy.\<close>

definition check_name :: "(string \<Rightarrow> bool) \<Rightarrow> string \<Rightarrow> json \<Rightarrow> string io" where
  "check_name ok msg v =
     bnd (opt (as_text (jor v (JStr []))))
       (\<lambda>s. if ok s then ret s else raise (UnsafeCommand (msg @ quoted s)))"

definition df_argv :: "string \<Rightarrow> string \<Rightarrow> string \<Rightarrow> string \<Rightarrow> string list" where
  "df_argv ns pod ct path =
     [''kubectl'', ''-n'', ns, ''exec'', pod, ''-c'', ct, ''--'', ''df'', ''-P'', ''-B1'', path]"

definition kubectl_exec_df :: "json \<Rightarrow> json \<Rightarrow> json \<Rightarrow> json \<Rightarrow> string io" where
  "kubectl_exec_df ns pod ct path =
     bnd (check_name name_ok ''refusing exec with suspicious name: '' ns) (\<lambda>n.
     bnd (check_name name_ok ''refusing exec with suspicious name: '' pod) (\<lambda>p.
     bnd (check_name name_ok ''refusing exec with suspicious name: '' ct) (\<lambda>c.
     bnd (check_name path_ok ''refusing exec with suspicious mount path: '' path) (\<lambda>m.
     bnd (proc (df_argv n p c m) None) (\<lambda>r.
        case r of
          NotRun exc \<Rightarrow>
            raise (ClusterUnreachable (''exec df on '' @ n @ ''/'' @ p @ '' failed: '' @ exc))
        | Completed code out err \<Rightarrow>
            (if code \<noteq> 0
             then raise (ClusterUnreachable (''exec df on '' @ n @ ''/'' @ p @ '' exited '' @ show_int code
                    @ '': '' @ take 300 (str_strip err)))
             else ret out))))))"

definition parse_df_output :: "string \<Rightarrow> (int \<times> int) option" where
  "parse_df_output text =
     (let lines = filter (\<lambda>ln. str_strip ln \<noteq> []) (split_on is_linebreak text)
      in if length lines < 2 then None
         else (let parts = split_ws (last lines)
               in if length parts < 4 then None
                  else do { capacity \<leftarrow> int_of_str (parts ! 1);
                            used \<leftarrow> int_of_str (parts ! 2);
                            Some (used, capacity) }))"

end
