(* ===== verification/Watchdog_Usage.thy ===== *)
theory Watchdog_Usage
  imports Watchdog_Cluster
begin

text \<open>
  The PVC usage sources of scripts-tools/deployment_watchdog.py: the Prometheus query and the
  reading of its answer, the \<open>df\<close> fallback over the pods that mount a volume, and the choice
  between the two. A usage record is the dict the script builds.
\<close>

section \<open>Loops and keys\<close>

type_synonym pvc_key = "json \<times> json"

definition pair_key :: "json \<Rightarrow> json \<Rightarrow> pvc_key option" where
  "pair_key ns claim = guard_opt (hashable ns \<and> hashable claim) (Some (ns, claim))"

section \<open>Reading the answer of Prometheus\<close>

text \<open>\<open>x[1]\<close> of a list or text.\<close>

fun second :: "json \<Rightarrow> json option" where
  "second (JList xs) = (if 2 \<le> length xs then Some (xs ! 1) else None)"
| "second (JStr s) = (if 2 \<le> length s then Some (JStr [s ! 1]) else None)"
| "second _ = None"

definition sample_record :: "string \<Rightarrow> json \<Rightarrow> json list option" where
  "sample_record value_key sample =
     do { metric \<leftarrow> jget_or sample ''metric'' (JObj []);
          pair \<leftarrow> jget_or sample ''value'' (JList [JNull, JNull]);
          v \<leftarrow> second pair;
          (case py_float v of
             None \<Rightarrow> Some []
           | Some parsed \<Rightarrow>
               do { ns \<leftarrow> jget metric ''namespace'';
                    claim \<leftarrow> jget metric ''persistentvolumeclaim'';
                    Some [JObj (dict_update [] [(''namespace'', ns), (''claim'', claim),
                            (value_key, JFloat parsed)])] }) }"

definition prometheus_result :: "json \<Rightarrow> json option" where
  "prometheus_result payload =
     do { d \<leftarrow> jget_or payload ''data'' (JObj []); jget_or d ''result'' (JList []) }"

definition prometheus_status :: "json \<Rightarrow> json option" where
  "prometheus_status payload = (case payload of JObj kvs \<Rightarrow> Some (dget kvs ''status'' JNull) | _ \<Rightarrow> None)"

definition prometheus_failed :: "json \<Rightarrow> string" where
  "prometheus_failed payload =
     ''prometheus query failed: status='' @
       (case prometheus_status payload of Some s \<Rightarrow> py_str s | None \<Rightarrow> json_repr payload)"

definition parse_prometheus_vector :: "json \<Rightarrow> string \<Rightarrow> json list io" where
  "parse_prometheus_vector payload value_key =
     (if prometheus_status payload \<noteq> Some (JStr ''success'')
      then raise (ClusterUnreachable (prometheus_failed payload))
      else bnd (opt (prometheus_result payload)) (\<lambda>result.
        if \<not> truthy result
        then raise (ClusterUnreachable
               (''prometheus returned zero kubelet_volume_stats samples '' @ em_dash
                @ '' cannot conclude that no volume is filling up''))
        else opt (do { samples \<leftarrow> jiter result;
                       map_option concat (those (map (sample_record value_key) samples)) })))"

section \<open>The usage table\<close>

definition rec_key :: "json \<Rightarrow> pvc_key option" where
  "rec_key r = do { ns \<leftarrow> jget r ''namespace''; claim \<leftarrow> jget r ''claim''; pair_key ns claim }"

type_synonym usage_index = "(pvc_key \<times> jobj) list"

definition put_ratio :: "json \<Rightarrow> usage_index \<Rightarrow> usage_index option" where
  "put_ratio r index =
     do { k \<leftarrow> rec_key r;
          ratio \<leftarrow> jget r ''ratio'';
          Some (AList.update k [(''namespace'', fst k), (''claim'', snd k), (''ratio'', ratio),
                  (''source'', JStr ''prometheus'')] index) }"

definition put_bytes :: "string \<Rightarrow> string \<Rightarrow> json \<Rightarrow> usage_index \<Rightarrow> usage_index option" where
  "put_bytes column from_key r index =
     do { k \<leftarrow> rec_key r;
          v \<leftarrow> jget r from_key;
          Some (case map_of index k of
                  None \<Rightarrow> index
                | Some entry \<Rightarrow> AList.update k (dict_set column v entry) index) }"

definition merge_usage :: "json list \<Rightarrow> json list \<Rightarrow> json list \<Rightarrow> json list option" where
  "merge_usage ratios used capacity =
     do { i1 \<leftarrow> fold_opt put_ratio ratios [];
          i2 \<leftarrow> fold_opt (put_bytes ''used_bytes'' ''used'') used i1;
          i3 \<leftarrow> fold_opt (put_bytes ''capacity_bytes'' ''capacity'') capacity i2;
          Some (map (\<lambda>(k, entry). JObj entry) i3) }"

section \<open>The query\<close>

text \<open>\<open>urllib.parse.quote\<close>.\<close>

definition hex_upper :: "nat \<Rightarrow> char" where
  "hex_upper d = (if d < 10 then char_of (48 + d) else char_of (55 + d))"

definition quote_char :: "char \<Rightarrow> string" where
  "quote_char c =
     (if is_lower c \<or> is_upper c \<or> is_digit c \<or> List.member ''_.-~/'' c then [c]
      else [CHR ''%'', hex_upper (of_char c div 16), hex_upper (of_char c mod 16)])"

definition url_quote :: "string \<Rightarrow> string" where
  "url_quote s = concat (map quote_char s)"

definition prometheus_path :: "json \<Rightarrow> json \<Rightarrow> string option" where
  "prometheus_path query config =
     do { cfg \<leftarrow> jget_d config ''pvc_pressure'' (JObj []);
          ns \<leftarrow> jget_d cfg ''prometheus_namespace'' (JStr ''fuzeinfra'');
          service \<leftarrow> jget_d cfg ''prometheus_service'' (JStr ''fuzeinfra-prometheus'');
          port \<leftarrow> jget_d cfg ''prometheus_port'' (JInt 9090);
          q \<leftarrow> as_text query;
          Some (''/api/v1/namespaces/'' @ py_str ns @ ''/services/'' @ py_str service @ '':'' @ py_str port
                @ ''/proxy'' @ ''/api/v1/query?query='' @ url_quote q) }"

definition prometheus_query :: "json \<Rightarrow> json \<Rightarrow> json io" where
  "prometheus_query query config =
     bnd (opt (prometheus_path query config)) (\<lambda>path.
     bnd (kubectl [''get'', ''--raw'', path]) (\<lambda>raw.
       case loads raw of
         Some j \<Rightarrow> ret j
       | None \<Rightarrow> raise (ClusterUnreachable ''prometheus returned non-JSON: '')))"

definition DEFAULT_QUERY :: string where
  "DEFAULT_QUERY = ''kubelet_volume_stats_used_bytes / kubelet_volume_stats_capacity_bytes''"

definition byte_columns :: "json \<Rightarrow> (json list \<times> json list) io" where
  "byte_columns config =
     handle
       (bnd (prometheus_query (JStr ''kubelet_volume_stats_used_bytes'') config) (\<lambda>p1.
        bnd (parse_prometheus_vector p1 ''used'') (\<lambda>used.
        bnd (prometheus_query (JStr ''kubelet_volume_stats_capacity_bytes'') config) (\<lambda>p2.
        bnd (parse_prometheus_vector p2 ''capacity'') (\<lambda>capacity. ret (used, capacity))))))
       (\<lambda>e. case e of
              ClusterUnreachable _ \<Rightarrow> ret ([], []) | UnsafeCommand s \<Rightarrow> raise (UnsafeCommand s)
            | GitHubError s \<Rightarrow> raise (GitHubError s) | Uncaught \<Rightarrow> raise Uncaught)"

definition pvc_usage_via_prometheus :: "json \<Rightarrow> json list io" where
  "pvc_usage_via_prometheus config =
     bnd (opt (do { cfg \<leftarrow> jget_d config ''pvc_pressure'' (JObj []);
                    jget_d cfg ''prometheus_query'' (JStr DEFAULT_QUERY) })) (\<lambda>query.
     bnd (prometheus_query query config) (\<lambda>payload.
     bnd (parse_prometheus_vector payload ''ratio'') (\<lambda>ratios.
     bnd (byte_columns config) (\<lambda>(used, capacity).
     opt (merge_usage ratios used capacity)))))"

section \<open>The df fallback\<close>

record mount_target =
  t_namespace :: json
  t_claim :: json
  t_pod :: json
  t_container :: json
  t_path :: json

type_synonym targets = "(pvc_key \<times> mount_target) list"

definition add_volume :: "json \<Rightarrow> (json \<times> json) list \<Rightarrow> (json \<times> json) list option" where
  "add_volume volume claims =
     do { pvc \<leftarrow> jget_or volume ''persistentVolumeClaim'' (JObj []);
          claim \<leftarrow> jget pvc ''claimName'';
          (if truthy claim
           then do { name \<leftarrow> jget volume ''name'';
                     guard_opt (hashable name) (Some (AList.update name claim claims)) }
           else Some claims) }"

text \<open>\<open>setdefault\<close>: the first pod, container and mount found for a volume stays.\<close>

definition add_mount ::
  "json \<Rightarrow> (json \<times> json) list \<Rightarrow> json \<Rightarrow> json \<Rightarrow> targets \<Rightarrow> targets option" where
  "add_mount meta claims container mount ts =
     do { name \<leftarrow> jget mount ''name'';
          claim \<leftarrow> guard_opt (hashable name) (Some (map_of claims name));
          (case claim of
             None \<Rightarrow> Some ts
           | Some c \<Rightarrow>
               do { ns \<leftarrow> jget meta ''namespace'';
                    k \<leftarrow> pair_key ns c;
                    pod \<leftarrow> jget meta ''name'';
                    ct \<leftarrow> jget container ''name'';
                    path \<leftarrow> jget mount ''mountPath'';
                    Some (if map_of ts k \<noteq> None then ts
                          else ts @ [(k, \<lparr>t_namespace = ns, t_claim = c, t_pod = pod,
                                          t_container = ct, t_path = path\<rparr>)]) }) }"

definition add_container :: "json \<Rightarrow> (json \<times> json) list \<Rightarrow> json \<Rightarrow> targets \<Rightarrow> targets option" where
  "add_container meta claims container ts =
     do { mounts \<leftarrow> list_opt container ''volumeMounts'';
          fold_opt (add_mount meta claims container) mounts ts }"

definition add_pod :: "json \<Rightarrow> targets \<Rightarrow> targets option" where
  "add_pod pod ts =
     do { meta \<leftarrow> jget_or pod ''metadata'' (JObj []);
          status \<leftarrow> jget_or pod ''status'' (JObj []);
          phase \<leftarrow> jget status ''phase'';
          (if phase \<noteq> JStr ''Running'' then Some ts
           else do { spec \<leftarrow> jget_or pod ''spec'' (JObj []);
                     volumes \<leftarrow> list_opt spec ''volumes'';
                     claims \<leftarrow> fold_opt add_volume volumes [];
                     (if claims = [] then Some ts
                      else do { containers \<leftarrow> list_opt spec ''containers'';
                                fold_opt (add_container meta claims) containers ts }) }) }"

definition pvc_mount_targets :: "json \<Rightarrow> mount_target list option" where
  "pvc_mount_targets pods =
     do { items \<leftarrow> items_of pods;
          ts \<leftarrow> fold_opt add_pod items [];
          Some (map snd ts) }"

text \<open>One target: its output, or the message that joins the errors.\<close>

definition df_of :: "mount_target \<Rightarrow> (string + string) io" where
  "df_of t =
     handle
       (bnd (kubectl_exec_df (t_namespace t) (t_pod t) (t_container t) (t_path t)) (\<lambda>out. ret (Inr out)))
       (\<lambda>e. case e of
              ClusterUnreachable m \<Rightarrow> ret (Inl m) | UnsafeCommand m \<Rightarrow> ret (Inl m)
            | GitHubError s \<Rightarrow> raise (GitHubError s) | Uncaught \<Rightarrow> raise Uncaught)"

definition df_record :: "mount_target \<Rightarrow> int \<Rightarrow> int \<Rightarrow> json" where
  "df_record t used capacity =
     JObj [(''namespace'', t_namespace t), (''claim'', t_claim t),
       (''ratio'', JFloat (Fin (of_int used / of_int capacity))), (''used_bytes'', JInt used),
       (''capacity_bytes'', JInt capacity), (''source'', JStr ''kubectl-exec-df'')]"

definition df_result :: "mount_target \<Rightarrow> string + string \<Rightarrow> json list \<times> string list \<Rightarrow> json list \<times> string list" where
  "df_result t out acc =
     (let (records, errors) = acc;
          who = py_str (t_namespace t) @ ''/'' @ py_str (t_pod t) @ '': ''
      in case out of
           Inl m \<Rightarrow> (records, errors @ [who @ m])
         | Inr text \<Rightarrow>
             (case parse_df_output text of
                None \<Rightarrow> (records, errors @ [who @ ''unparseable df output''])
              | Some (used, capacity) \<Rightarrow>
                  (if capacity \<le> 0 then (records, errors)
                   else (records @ [df_record t used capacity], errors))))"

definition df_target :: "mount_target \<Rightarrow> json list \<times> string list \<Rightarrow> (json list \<times> string list) io" where
  "df_target t acc = bnd (df_of t) (\<lambda>out. ret (df_result t out acc))"

definition pvc_usage_via_exec_df :: "json \<Rightarrow> json list io" where
  "pvc_usage_via_exec_df pods =
     bnd (opt (pvc_mount_targets pods)) (\<lambda>targets.
       if targets = []
       then raise (ClusterUnreachable
              (''prometheus unreachable and no running pod mounts any PVC '' @ em_dash
               @ '' no way to measure volume usage''))
       else bnd (each df_target targets ([], [])) (\<lambda>(records, errors).
         if records = []
         then raise (ClusterUnreachable
                (''prometheus unreachable and every df fallback failed: '' @ str_join ''; '' (take 5 errors)))
         else bnd (each (\<lambda>err _. emit (Print (''::warning::df fallback: '' @ err))) errors ())
                (\<lambda>_. ret records)))"

definition fallback_allowed :: "json \<Rightarrow> bool option" where
  "fallback_allowed config =
     do { cfg \<leftarrow> jget_or config ''pvc_pressure'' (JObj []);
          allow \<leftarrow> jget_d cfg ''allow_exec_df_fallback'' (JBool True);
          Some (truthy allow) }"

definition df_fallback :: "json \<Rightarrow> json \<Rightarrow> string \<Rightarrow> (json list \<times> string) io" where
  "df_fallback pods config prom_error =
     seq (emit (Print (''::warning::prometheus unusable ('' @ prom_error @ '') '' @ em_dash
            @ '' trying df fallback'')))
      (bnd (opt (fallback_allowed config)) (\<lambda>allow.
        if \<not> allow
        then raise (ClusterUnreachable (''prometheus unusable ('' @ prom_error
               @ '') and the df fallback is disabled in config''))
        else bnd (pvc_usage_via_exec_df pods) (\<lambda>records. ret (records, ''kubectl-exec-df''))))"

definition collect_pvc_usage :: "json \<Rightarrow> json \<Rightarrow> (json list \<times> string) io" where
  "collect_pvc_usage pods config =
     handle
       (bnd (pvc_usage_via_prometheus config) (\<lambda>usage. ret (usage, ''prometheus'')))
       (\<lambda>e. case e of
              ClusterUnreachable m \<Rightarrow> df_fallback pods config m
            | UnsafeCommand s \<Rightarrow> raise (UnsafeCommand s)
            | GitHubError s \<Rightarrow> raise (GitHubError s) | Uncaught \<Rightarrow> raise Uncaught)"

end
