(* ===== verification/Durable.thy ===== *)
theory Durable
  imports Prelude
begin

text \<open>
  State that outlives a run of a script only as text: in the comments of an issue, in a repository
  variable. A run loads the state, makes one step and saves the new state. The locales state what
  the text has to promise (the state that was saved last is the state that is loaded next) and what
  the step has to promise (it keeps the states that can be saved, and a step that is not saved does
  not change the state); the client lemma is that a sequence of runs through the text makes exactly
  the steps a machine with the state in memory makes.
\<close>

text \<open>A step answers with an output and the next state, or raises.\<close>

fun mem_run :: "('x \<Rightarrow> 's \<Rightarrow> ('o \<times> 's) option) \<Rightarrow> 's \<Rightarrow> 'x list \<Rightarrow> ('o list \<times> 's) option" where
  "mem_run step s [] = Some ([], s)"
| "mem_run step s (x # xs) =
     do { (o', s') \<leftarrow> step x s;
          (os, s'') \<leftarrow> mem_run step s' xs;
          Some (o' # os, s'') }"

text \<open>The same steps, with the state loaded before each one and saved after those that write.\<close>

fun medium_run ::
  "('m \<Rightarrow> 's option) \<Rightarrow> ('m \<Rightarrow> 'o \<Rightarrow> 's \<Rightarrow> 'm) \<Rightarrow> ('o \<Rightarrow> bool) \<Rightarrow> ('x \<Rightarrow> 's \<Rightarrow> ('o \<times> 's) option)
   \<Rightarrow> 'm \<Rightarrow> 'x list \<Rightarrow> ('o list \<times> 'm) option" where
  "medium_run load save writes step m [] = Some ([], m)"
| "medium_run load save writes step m (x # xs) =
     do { s \<leftarrow> load m;
          (o', s') \<leftarrow> step x s;
          (os, m') \<leftarrow> medium_run load save writes step (if writes o' then save m o' s' else m) xs;
          Some (o' # os, m') }"

locale durable_state =
  fixes load :: "'m \<Rightarrow> 's option"
    and save :: "'m \<Rightarrow> 'o \<Rightarrow> 's \<Rightarrow> 'm"
    and sound :: "'m \<Rightarrow> bool"
    and ok :: "'s \<Rightarrow> bool"
    and okout :: "'o \<Rightarrow> bool"
  assumes load_save: "sound m \<Longrightarrow> ok s \<Longrightarrow> okout a \<Longrightarrow> load (save m a s) = Some s"
    and sound_save: "sound m \<Longrightarrow> ok s \<Longrightarrow> okout a \<Longrightarrow> sound (save m a s)"
begin

lemma last_save_wins:
  assumes "sound m" and "ok s" and "okout a" and "ok s'" and "okout b"
  shows "load (save (save m a s) b s') = Some s'"
  using assms by (simp add: load_save sound_save)

end

locale durable_machine = durable_state load save sound ok okout
  for load :: "'m \<Rightarrow> 's option" and save :: "'m \<Rightarrow> 'o \<Rightarrow> 's \<Rightarrow> 'm"
    and sound :: "'m \<Rightarrow> bool" and ok :: "'s \<Rightarrow> bool" and okout :: "'o \<Rightarrow> bool" +
  fixes step :: "'x \<Rightarrow> 's \<Rightarrow> ('o \<times> 's) option"
    and writes :: "'o \<Rightarrow> bool"
    and okin :: "'x \<Rightarrow> bool"
  assumes step_ok: "ok s \<Longrightarrow> okin x \<Longrightarrow> step x s = Some (a, s') \<Longrightarrow> ok s' \<and> okout a"
    and quiet_step: "ok s \<Longrightarrow> okin x \<Longrightarrow> step x s = Some (a, s') \<Longrightarrow> \<not> writes a \<Longrightarrow> s' = s"
begin

lemma medium_run_mem_run:
  assumes "sound m" and "load m = Some s" and "ok s" and "\<forall>x \<in> set xs. okin x"
  shows "map_option fst (medium_run load save writes step m xs) = map_option fst (mem_run step s xs)"
  using assms
proof (induction xs arbitrary: m s)
  case Nil
  then show ?case by simp
next
  case (Cons x xs)
  show ?case
  proof (cases "step x s")
    case None
    with Cons.prems show ?thesis by simp
  next
    case (Some r)
    obtain a s' where r: "r = (a, s')" by (cases r)
    define m' where "m' = (if writes a then save m a s' else m)"
    have okx: "okin x" using Cons.prems by simp
    note st = Some [unfolded r]
    have "sound m' \<and> load m' = Some s' \<and> ok s'"
      using step_ok [OF Cons.prems(3) okx st] quiet_step [OF Cons.prems(3) okx st] Cons.prems(1,2)
      by (auto simp: m'_def load_save sound_save)
    then have IH: "map_option fst (medium_run load save writes step m' xs)
        = map_option fst (mem_run step s' xs)"
      using Cons by simp
    have "medium_run load save writes step m (x # xs)
        = map_option (\<lambda>(os, m''). (a # os, m'')) (medium_run load save writes step m' xs)"
      using Cons.prems(2) st
      by (cases "medium_run load save writes step m' xs") (auto simp: m'_def split: prod.splits)
    moreover have "mem_run step s (x # xs)
        = map_option (\<lambda>(os, s''). (a # os, s'')) (mem_run step s' xs)"
      using st by (cases "mem_run step s' xs") (auto split: prod.splits)
    ultimately show ?thesis
      using IH by (cases "medium_run load save writes step m' xs"; cases "mem_run step s' xs") auto
  qed
qed

lemma mem_run_ok:
  assumes "ok s" and "\<forall>x \<in> set xs. okin x" and "mem_run step s xs = Some (os, s')"
  shows "ok s' \<and> list_all okout os \<and> length os = length xs"
  using assms
proof (induction xs arbitrary: s os)
  case (Cons x xs)
  then obtain a s1 os' where "step x s = Some (a, s1)" "mem_run step s1 xs = Some (os', s')" "os = a # os'"
    by auto
  with Cons show ?case by (auto dest: step_ok)
qed simp

end

end
