(* ===== verification/Watchdog_Ladder.thy ===== *)
theory Watchdog_Ladder
  imports Watchdog_Issues Durable
begin

text \<open>
  The escalation ladder for dark nodes: the pure decision of \<open>decide_dark_node_escalation\<close> over the
  state kept in the comments of the tracked issue, and the reading and writing of that state.
\<close>

datatype action = NoAction | Reboot | Reinstall | RefuseQuorum | RefuseElastic

section \<open>The state in the comments\<close>

definition DEFAULT_DARK_STATE :: jobj where
  "DEFAULT_DARK_STATE =
     [(''reboot_attempts'', JInt 0), (''last_reboot_at'', JNull), (''escalated'', JBool False),
      (''escalated_at'', JNull), (''refused_reason'', JNull)]"

text \<open>\<open>re.search("<!-- dark-node-state: (\{.*?\}) -->", s, re.S)\<close>, group 1: the shortest text
  between the first opening brace after the tag and a closing brace before the end tag.\<close>

fun lazy0 :: "string \<Rightarrow> string \<Rightarrow> string option" where
  "lazy0 post [] = (if post = [] then Some [] else None)"
| "lazy0 post (c # s) =
     (if prefix post (c # s) then Some [] else map_option (Cons c) (lazy0 post s))"

fun search_state :: "string \<Rightarrow> string option" where
  "search_state [] = None"
| "search_state (c # s) =
     (case (if prefix ''<!-- dark-node-state: {'' (c # s)
            then lazy0 ''} -->'' (drop (length ''<!-- dark-node-state: {'') (c # s)) else None) of
        Some m \<Rightarrow> Some (''{'' @ m @ ''}'')
      | None \<Rightarrow> search_state s)"

text \<open>One comment folded in: only a marker whose text is a JSON dict changes the state.\<close>

definition apply_comment :: "jobj \<Rightarrow> json \<Rightarrow> jobj option" where
  "apply_comment state comment =
     do { body \<leftarrow> text_of comment ''body'';
          Some (case search_state body of
                  None \<Rightarrow> state
                | Some t \<Rightarrow> (case loads t of Some (JObj kvs) \<Rightarrow> dict_update state kvs | _ \<Rightarrow> state)) }"

fun fold_comments :: "jobj \<Rightarrow> json list \<Rightarrow> jobj option" where
  "fold_comments state [] = Some state"
| "fold_comments state (c # cs) = do { state' \<leftarrow> apply_comment state c; fold_comments state' cs }"

definition parse_dark_node_state :: "json list \<Rightarrow> jobj option" where
  "parse_dark_node_state comments = fold_comments DEFAULT_DARK_STATE comments"

definition render_dark_state_marker :: "jobj \<Rightarrow> string" where
  "render_dark_state_marker state = ''<!-- dark-node-state: '' @ dumps (jsort (JObj state)) @ '' -->''"

section \<open>The decision\<close>

type_synonym decision = "action \<times> jobj \<times> string"

definition elastic_reason :: string where
  "elastic_reason =
     ''auto-reinstall is scoped to control-plane/durable nodes only ''
     @ ''(elastic nodes have their own lifecycle)''"

definition quorum_reason :: "int \<Rightarrow> int \<Rightarrow> string" where
  "quorum_reason other_ready min_other_ready =
     ''refusing auto-reinstall: only '' @ show_int other_ready @ '' other ready control-plane ''
     @ ''node(s), need >= '' @ show_int min_other_ready @ '' for etcd quorum safety''"

text \<open>A refusal is reported once: the reason already on record makes it silent.\<close>

definition refuse :: "action \<Rightarrow> jobj \<Rightarrow> string \<Rightarrow> decision" where
  "refuse a state reason =
     (if dget state ''refused_reason'' JNull = JStr reason then (NoAction, state, reason)
      else (a, dict_set ''refused_reason'' (JStr reason) state, reason))"

text \<open>Minutes since the last reboot, when one is on record with a readable time.\<close>

definition since_reboot :: "jobj \<Rightarrow> datetime \<Rightarrow> rat option option" where
  "since_reboot state now =
     (let l = dget state ''last_reboot_at'' JNull
      in if truthy l
         then do { t \<leftarrow> parse_k8s_time l; Some (map_option (\<lambda>d. age_minutes d now) t) }
         else Some None)"

definition reboot_now :: "jobj \<Rightarrow> datetime \<Rightarrow> int \<Rightarrow> int \<Rightarrow> flt \<Rightarrow> decision" where
  "reboot_now state now attempts max_attempts dark_minutes =
     (Reboot,
      dict_set ''refused_reason'' JNull (dict_set ''last_reboot_at'' (JStr (isoformat now))
        (dict_set ''reboot_attempts'' (JInt (attempts + 1)) state)),
      ''reboot attempt '' @ show_int (attempts + 1) @ ''/'' @ show_int max_attempts
      @ '' (dark '' @ fmt_fixed 0 dark_minutes @ ''m)'')"

definition decide_reboot :: "jobj \<Rightarrow> json \<Rightarrow> datetime \<Rightarrow> int \<Rightarrow> int \<Rightarrow> flt \<Rightarrow> decision option" where
  "decide_reboot state cfg now attempts max_attempts dark_minutes =
     do { cooldown \<leftarrow> float_opt cfg ''reboot_cooldown_minutes'' (JInt 30);
          since \<leftarrow> since_reboot state now;
          Some (case since of
                  Some elapsed \<Rightarrow>
                    (if flt_less (Fin elapsed) cooldown
                     then (NoAction, state,
                           ''cooling down since reboot attempt '' @ show_int attempts
                           @ '' ('' @ fmt_rat 0 elapsed @ ''m of '' @ fmt_fixed 0 cooldown @ ''m)'')
                     else reboot_now state now attempts max_attempts dark_minutes)
                | None \<Rightarrow> reboot_now state now attempts max_attempts dark_minutes) }"

definition reinstall_now :: "jobj \<Rightarrow> datetime \<Rightarrow> int \<Rightarrow> flt \<Rightarrow> flt \<Rightarrow> decision" where
  "reinstall_now state now max_attempts dark_minutes escalate_after =
     (Reinstall,
      dict_set ''refused_reason'' JNull (dict_set ''escalated_at'' (JStr (isoformat now))
        (dict_set ''escalated'' (JBool True) state)),
      show_int max_attempts @ '' reboot attempts exhausted and node dark '' @ fmt_fixed 0 dark_minutes
      @ ''m (>= '' @ fmt_fixed 0 escalate_after @ ''m) '' @ em_dash @ '' escalating to reinstall'')"

definition decide_reinstall :: "finding \<Rightarrow> jobj \<Rightarrow> json \<Rightarrow> datetime \<Rightarrow> int \<Rightarrow> flt \<Rightarrow> decision option" where
  "decide_reinstall f state cfg now max_attempts dark_minutes =
     do { escalate_after \<leftarrow> float_opt cfg ''escalate_after_minutes'' (JInt 120);
          (if flt_less dark_minutes escalate_after
           then Some (NoAction, state,
                  show_int max_attempts @ '' reboot attempts exhausted; waiting for ''
                  @ ''escalate_after_minutes='' @ fmt_fixed 0 escalate_after
                  @ '' (dark '' @ fmt_fixed 0 dark_minutes @ ''m so far)'')
           else do { auto \<leftarrow> jget_d cfg ''auto_reinstall'' (JBool False);
             (if \<not> truthy auto
              then Some (NoAction, state,
                     show_int max_attempts @ '' reboot attempts exhausted but auto_reinstall disabled'')
              else if \<not> truthy (fact f ''is_control_plane'')
              then Some (refuse RefuseElastic state elastic_reason)
              else do {
                min_other \<leftarrow> int_opt cfg ''reinstall_min_other_ready_control_plane'' (JInt 2);
                other_ready \<leftarrow> py_int (dget (f_facts f) ''other_ready_control_plane_nodes'' (JInt 0));
                Some (if truthy (fact f ''is_etcd_voter'') \<and> other_ready < min_other
                      then refuse RefuseQuorum state (quorum_reason other_ready min_other)
                      else reinstall_now state now max_attempts dark_minutes escalate_after) }) }) }"

definition decide_dark_node_escalation ::
  "finding \<Rightarrow> jobj \<Rightarrow> json \<Rightarrow> datetime \<Rightarrow> decision option" where
  "decide_dark_node_escalation f state cfg now =
     do { enabled \<leftarrow> jget_d cfg ''enabled'' (JBool True);
          (if \<not> truthy enabled then Some (NoAction, state, ''dark_node detection disabled'')
           else if truthy (dget state ''escalated'' JNull)
           then Some (NoAction, state,
                  ''already escalated to reinstall; awaiting recovery or human follow-up'')
           else do { auto_restart \<leftarrow> jget_d cfg ''auto_restart'' (JBool False);
             (if \<not> truthy auto_restart then Some (NoAction, state, ''auto_restart disabled'')
              else do {
                dark_minutes \<leftarrow> py_float (dget (f_facts f) ''unknown_minutes'' (JInt 0));
                max_attempts \<leftarrow> int_opt cfg ''max_reboot_attempts'' (JInt 3);
                attempts \<leftarrow> py_int (dget state ''reboot_attempts'' (JInt 0));
                (if attempts < max_attempts
                 then decide_reboot state cfg now attempts max_attempts dark_minutes
                 else decide_reinstall f state cfg now max_attempts dark_minutes) }) }) }"

end
