(* ===== verification/Watchdog_Ladder_Spec.thy ===== *)
theory Watchdog_Ladder_Spec
  imports Watchdog_Ladder
begin

text \<open>
  What the escalation ladder promises, as a machine over typed states, and the refinement: on a
  readable configuration and finding the decision over the JSON state makes the step of the typed
  machine. The bounds, the spacing of reboots and the guards of the reinstall are proved on the
  typed machine and carried back to the decision, and through the durable-state locale to
  sequences of runs that keep the state in the comments of the issue.
\<close>

section \<open>The typed machine\<close>

record ladder =
  l_attempts :: int
  l_last :: "datetime option"
  l_escalated :: bool
  l_escalated_at :: "datetime option"
  l_refused :: "string option"

record ladder_cfg =
  lc_enabled :: bool
  lc_restart :: bool
  lc_max :: int
  lc_cooldown :: flt
  lc_after :: flt
  lc_reinstall :: bool
  lc_min_other :: int

record dark_obs =
  o_minutes :: flt
  o_cp :: bool
  o_voter :: bool
  o_other :: int
  o_now :: datetime

definition cooling :: "ladder_cfg \<Rightarrow> dark_obs \<Rightarrow> ladder \<Rightarrow> bool" where
  "cooling c ob l =
     (case l_last l of
        Some d \<Rightarrow> flt_less (Fin (age_minutes d (o_now ob))) (lc_cooldown c)
      | None \<Rightarrow> False)"

definition spec_refuse :: "action \<Rightarrow> string \<Rightarrow> ladder \<Rightarrow> action \<times> ladder" where
  "spec_refuse a reason l =
     (if l_refused l = Some reason then (NoAction, l) else (a, l\<lparr>l_refused := Some reason\<rparr>))"

definition ladder_spec :: "ladder_cfg \<Rightarrow> dark_obs \<Rightarrow> ladder \<Rightarrow> action \<times> ladder" where
  "ladder_spec c ob l =
     (if \<not> lc_enabled c \<or> l_escalated l \<or> \<not> lc_restart c then (NoAction, l)
      else if l_attempts l < lc_max c then
        (if cooling c ob l then (NoAction, l)
         else (Reboot, l\<lparr>l_attempts := l_attempts l + 1, l_last := Some (o_now ob), l_refused := None\<rparr>))
      else if flt_less (o_minutes ob) (lc_after c) \<or> \<not> lc_reinstall c then (NoAction, l)
      else if \<not> o_cp ob then spec_refuse RefuseElastic elastic_reason l
      else if o_voter ob \<and> o_other ob < lc_min_other c
        then spec_refuse RefuseQuorum (quorum_reason (o_other ob) (lc_min_other c)) l
      else (Reinstall, l\<lparr>l_escalated := True, l_escalated_at := Some (o_now ob), l_refused := None\<rparr>))"

fun spec_run :: "ladder_cfg \<Rightarrow> ladder \<Rightarrow> dark_obs list \<Rightarrow> action list \<times> ladder" where
  "spec_run c l [] = ([], l)"
| "spec_run c l (ob # obs) =
     (let (a, l1) = ladder_spec c ob l; (as, l2) = spec_run c l1 obs in (a # as, l2))"

definition init_ladder :: ladder where
  "init_ladder = \<lparr>l_attempts = 0, l_last = None, l_escalated = False, l_escalated_at = None,
                  l_refused = None\<rparr>"

abbreviation n_of :: "action \<Rightarrow> action list \<Rightarrow> nat" where
  "n_of a as \<equiv> length (filter (\<lambda>x. x = a) as)"

lemmas spec_defs = ladder_spec_def spec_refuse_def

text \<open>Each attempt counted is a reboot made, and the count never passes the maximum.\<close>

lemma spec_attempts:
  assumes "ladder_spec c ob l = (a, l')"
  shows "l_attempts l' = l_attempts l + (if a = Reboot then 1 else 0)"
    and "a = Reboot \<Longrightarrow> l_attempts l < lc_max c"
  using assms by (auto simp: spec_defs split: if_splits)

lemma spec_run_attempts:
  assumes "spec_run c l obs = (as, l')"
  shows "l_attempts l' = l_attempts l + int (n_of Reboot as)
    \<and> l_attempts l' \<le> max (l_attempts l) (lc_max c)"
  using assms
proof (induction obs arbitrary: l as l')
  case (Cons ob obs)
  obtain a l1 where st: "ladder_spec c ob l = (a, l1)" by fastforce
  obtain as1 l2 where r: "spec_run c l1 obs = (as1, l2)" by fastforce
  have as: "as = a # as1" and l2: "l' = l2" using Cons.prems st r by simp_all
  show ?case
    using spec_attempts [OF st] Cons.IH [OF r] as l2 by (auto split: if_splits)
qed simp

text \<open>Escalation is final.\<close>

lemma spec_escalated: "l_escalated l \<Longrightarrow> ladder_spec c ob l = (NoAction, l)"
  by (simp add: ladder_spec_def)

lemma spec_run_escalated:
  "l_escalated l \<Longrightarrow> spec_run c l obs = (replicate (length obs) NoAction, l)"
  by (induction obs) (simp_all add: spec_escalated)

lemma spec_reinstall:
  assumes "ladder_spec c ob l = (Reinstall, l')"
  shows "lc_max c \<le> l_attempts l" and "\<not> flt_less (o_minutes ob) (lc_after c)" and "lc_reinstall c"
    and "o_cp ob" and "o_voter ob \<longrightarrow> lc_min_other c \<le> o_other ob" and "l_escalated l'"
  using assms by (auto simp: spec_defs split: if_splits)

lemma spec_run_append:
  "spec_run c l (xs @ ys) =
     (let (as, l1) = spec_run c l xs; (bs, l2) = spec_run c l1 ys in (as @ bs, l2))"
  by (induction xs arbitrary: l) (simp_all add: Let_def split: prod.splits)

lemma length_spec_run: "length (fst (spec_run c l obs)) = length obs"
  by (induction obs arbitrary: l) (simp_all add: Let_def split: prod.splits, metis fst_conv)

lemma spec_run_reinstall_once:
  assumes "spec_run c l obs = (as, l')"
  shows "n_of Reinstall as \<le> 1"
  using assms
proof (induction obs arbitrary: l as l')
  case (Cons ob obs)
  obtain a l1 where st: "ladder_spec c ob l = (a, l1)" by fastforce
  obtain as1 l2 where r: "spec_run c l1 obs = (as1, l2)" by fastforce
  have as: "as = a # as1" and l2: "l' = l2" using Cons.prems st r by simp_all
  show ?case
  proof (cases "a = Reinstall")
    case True
    then have "l_escalated l1" using spec_reinstall(6) st by blast
    then have "as1 = replicate (length obs) NoAction" using r by (simp add: spec_run_escalated)
    then show ?thesis using as True by simp
  next
    case False
    with Cons.IH [OF r] as show ?thesis by simp
  qed
qed simp

text \<open>Reboots are spaced: the times at which reboots are made, with the one on record first.\<close>

fun reboot_times :: "dark_obs list \<Rightarrow> action list \<Rightarrow> datetime list" where
  "reboot_times (ob # obs) (a # as) = (if a = Reboot then [o_now ob] else []) @ reboot_times obs as"
| "reboot_times _ _ = []"

definition spaced :: "ladder_cfg \<Rightarrow> datetime \<Rightarrow> datetime \<Rightarrow> bool" where
  "spaced c d e \<longleftrightarrow> \<not> flt_less (Fin (age_minutes d e)) (lc_cooldown c)"

lemma spec_last:
  assumes "ladder_spec c ob l = (a, l')"
  shows "l_last l' = (if a = Reboot then Some (o_now ob) else l_last l)"
    and "a = Reboot \<Longrightarrow> l_last l = Some d \<Longrightarrow> spaced c d (o_now ob)"
  using assms by (auto simp: spec_defs cooling_def spaced_def split: if_splits)

lemma spec_run_spaced:
  assumes "spec_run c l obs = (as, l')"
  shows "successively (spaced c) (case_option [] (\<lambda>d. [d]) (l_last l) @ reboot_times obs as)"
  using assms
proof (induction obs arbitrary: l as l')
  case Nil
  then show ?case by (cases "l_last l") auto
next
  case (Cons ob obs)
  obtain a l1 where st: "ladder_spec c ob l = (a, l1)" by fastforce
  obtain as1 l2 where r: "spec_run c l1 obs = (as1, l2)" by fastforce
  have as: "as = a # as1" and l2: "l' = l2" using Cons.prems st r by simp_all
  note IH = Cons.IH [OF r] and la = spec_last [OF st]
  show ?case
  proof (cases "a = Reboot")
    case True
    with IH la have "successively (spaced c) (o_now ob # reboot_times obs as1)" by simp
    with True la(2) show ?thesis by (cases "l_last l") (auto simp: as)
  next
    case False
    with IH la show ?thesis by (simp add: as)
  qed
qed

text \<open>
  Progress: a node that stays dark, observed at times spaced by the cooldown, is rebooted at each
  observation until the attempts are used up.
\<close>

lemma spec_run_reboots:
  assumes "lc_enabled c" and "lc_restart c" and "\<not> l_escalated l"
    and "l_attempts l + int (length obs) \<le> lc_max c"
    and "successively (spaced c) (case_option [] (\<lambda>d. [d]) (l_last l) @ map o_now obs)"
  shows "\<exists>l'. spec_run c l obs = (replicate (length obs) Reboot, l') \<and> \<not> l_escalated l'
           \<and> l_attempts l' = l_attempts l + int (length obs)"
  using assms(3-5)
proof (induction obs arbitrary: l)
  case (Cons ob obs)
  let ?l1 = "l\<lparr>l_attempts := l_attempts l + 1, l_last := Some (o_now ob), l_refused := None\<rparr>"
  have "\<not> cooling c ob l"
    using Cons.prems(3) by (auto simp: cooling_def spaced_def split: option.splits)
  then have st: "ladder_spec c ob l = (Reboot, ?l1)"
    using assms(1,2) Cons.prems by (simp add: ladder_spec_def)
  have "successively (spaced c) (case_option [] (\<lambda>d. [d]) (l_last ?l1) @ map o_now obs)"
    using Cons.prems(3) by (cases "l_last l"; cases obs) auto
  then obtain l' where "spec_run c ?l1 obs = (replicate (length obs) Reboot, l')" "\<not> l_escalated l'"
      "l_attempts l' = l_attempts ?l1 + int (length obs)"
    using Cons.IH [of ?l1] Cons.prems by auto
  with st show ?case by auto
qed simp

text \<open>After the last attempt a control-plane node with quorum is reinstalled once it has been dark
  long enough.\<close>

lemma spec_reinstalls:
  assumes "lc_enabled c" and "lc_restart c" and "lc_reinstall c" and "\<not> l_escalated l"
    and "lc_max c \<le> l_attempts l" and "\<not> flt_less (o_minutes ob) (lc_after c)" and "o_cp ob"
    and "\<not> o_voter ob \<or> lc_min_other c \<le> o_other ob"
  shows "fst (ladder_spec c ob l) = Reinstall"
  using assms by (auto simp: ladder_spec_def)

section \<open>Refinement\<close>

definition enc_time :: "datetime option \<Rightarrow> json" where
  "enc_time t = (case t of None \<Rightarrow> JNull | Some d \<Rightarrow> JStr (isoformat d))"

definition enc_ladder :: "ladder \<Rightarrow> jobj" where
  "enc_ladder l =
     [(''reboot_attempts'', JInt (l_attempts l)), (''last_reboot_at'', enc_time (l_last l)),
      (''escalated'', JBool (l_escalated l)), (''escalated_at'', enc_time (l_escalated_at l)),
      (''refused_reason'', (case l_refused l of None \<Rightarrow> JNull | Some r \<Rightarrow> JStr r))]"

lemma enc_init_ladder: "enc_ladder init_ladder = DEFAULT_DARK_STATE"
  by (simp add: enc_ladder_def init_ladder_def DEFAULT_DARK_STATE_def enc_time_def)

definition opt_valid :: "datetime option \<Rightarrow> bool" where
  "opt_valid t = (case t of None \<Rightarrow> True | Some d \<Rightarrow> valid_dt d)"

text \<open>What the JSON text form asks of a state: valid times and a plain reason.\<close>

definition plain_reason :: "string \<Rightarrow> bool" where
  "plain_reason r \<longleftrightarrow> ascii r \<and> CHR ''}'' \<notin> set r"

definition ladder_ok :: "ladder \<Rightarrow> bool" where
  "ladder_ok l \<longleftrightarrow> opt_valid (l_last l) \<and> opt_valid (l_escalated_at l)
     \<and> (case l_refused l of None \<Rightarrow> True | Some r \<Rightarrow> plain_reason r)"

text \<open>Reading the configuration and the finding the way the decision reads them.\<close>

definition ladder_cfg_of :: "json \<Rightarrow> ladder_cfg option" where
  "ladder_cfg_of cfg =
     do { en \<leftarrow> jget_d cfg ''enabled'' (JBool True);
          ar \<leftarrow> jget_d cfg ''auto_restart'' (JBool False);
          m \<leftarrow> int_opt cfg ''max_reboot_attempts'' (JInt 3);
          cd \<leftarrow> float_opt cfg ''reboot_cooldown_minutes'' (JInt 30);
          ea \<leftarrow> float_opt cfg ''escalate_after_minutes'' (JInt 120);
          ri \<leftarrow> jget_d cfg ''auto_reinstall'' (JBool False);
          mo \<leftarrow> int_opt cfg ''reinstall_min_other_ready_control_plane'' (JInt 2);
          Some \<lparr>lc_enabled = truthy en, lc_restart = truthy ar, lc_max = m, lc_cooldown = cd,
                lc_after = ea, lc_reinstall = truthy ri, lc_min_other = mo\<rparr> }"

definition dark_obs_of :: "finding \<Rightarrow> datetime \<Rightarrow> dark_obs option" where
  "dark_obs_of f now =
     do { m \<leftarrow> py_float (dget (f_facts f) ''unknown_minutes'' (JInt 0));
          oth \<leftarrow> py_int (dget (f_facts f) ''other_ready_control_plane_nodes'' (JInt 0));
          Some \<lparr>o_minutes = m, o_cp = truthy (fact f ''is_control_plane''),
                o_voter = truthy (fact f ''is_etcd_voter''), o_other = oth, o_now = now\<rparr> }"

lemma enc_gets:
  "dget (enc_ladder l) ''reboot_attempts'' d = JInt (l_attempts l)"
  "dget (enc_ladder l) ''last_reboot_at'' d = enc_time (l_last l)"
  "dget (enc_ladder l) ''escalated'' d = JBool (l_escalated l)"
  "dget (enc_ladder l) ''refused_reason'' d = (case l_refused l of None \<Rightarrow> JNull | Some r \<Rightarrow> JStr r)"
  by (simp_all add: enc_ladder_def)

lemma enc_sets:
  "dict_set ''reboot_attempts'' (JInt n) (enc_ladder l) = enc_ladder (l\<lparr>l_attempts := n\<rparr>)"
  "dict_set ''last_reboot_at'' (JStr (isoformat t)) (enc_ladder l) = enc_ladder (l\<lparr>l_last := Some t\<rparr>)"
  "dict_set ''escalated'' (JBool b) (enc_ladder l) = enc_ladder (l\<lparr>l_escalated := b\<rparr>)"
  "dict_set ''escalated_at'' (JStr (isoformat t)) (enc_ladder l) = enc_ladder (l\<lparr>l_escalated_at := Some t\<rparr>)"
  "dict_set ''refused_reason'' JNull (enc_ladder l) = enc_ladder (l\<lparr>l_refused := None\<rparr>)"
  "dict_set ''refused_reason'' (JStr r) (enc_ladder l) = enc_ladder (l\<lparr>l_refused := Some r\<rparr>)"
  by (simp_all add: enc_ladder_def dict_set_def enc_time_def)

lemma since_reboot_enc:
  assumes "opt_valid (l_last l)"
  shows "since_reboot (enc_ladder l) now = Some (map_option (\<lambda>d. age_minutes d now) (l_last l))"
proof (cases "l_last l")
  case None
  then show ?thesis by (simp add: since_reboot_def enc_gets enc_time_def)
next
  case (Some d)
  then have "valid_dt d" using assms by (simp add: opt_valid_def)
  with Some show ?thesis
    by (simp add: since_reboot_def enc_gets enc_time_def isoformat_not_space parse_k8s_time_isoformat)
qed

lemma refuse_enc:
  "\<exists>msg. refuse a (enc_ladder l) r
      = (fst (spec_refuse a r l), enc_ladder (snd (spec_refuse a r l)), msg)"
  by (auto simp: refuse_def spec_refuse_def enc_gets enc_sets split: option.splits)

lemma decide_refines:
  assumes "ladder_cfg_of cfg = Some c" and "dark_obs_of f now = Some ob" and "opt_valid (l_last l)"
  shows "\<exists>msg. decide_dark_node_escalation f (enc_ladder l) cfg now
      = Some (fst (ladder_spec c ob l), enc_ladder (snd (ladder_spec c ob l)), msg)"
proof -
  from assms(1) obtain en ar ri where cfg:
    "jget_d cfg ''enabled'' (JBool True) = Some en" "jget_d cfg ''auto_restart'' (JBool False) = Some ar"
    "int_opt cfg ''max_reboot_attempts'' (JInt 3) = Some (lc_max c)"
    "float_opt cfg ''reboot_cooldown_minutes'' (JInt 30) = Some (lc_cooldown c)"
    "float_opt cfg ''escalate_after_minutes'' (JInt 120) = Some (lc_after c)"
    "jget_d cfg ''auto_reinstall'' (JBool False) = Some ri"
    "int_opt cfg ''reinstall_min_other_ready_control_plane'' (JInt 2) = Some (lc_min_other c)"
    "lc_enabled c = truthy en" "lc_restart c = truthy ar" "lc_reinstall c = truthy ri"
    by (auto simp: ladder_cfg_of_def)
  from assms(2) have ob:
    "py_float (dget (f_facts f) ''unknown_minutes'' (JInt 0)) = Some (o_minutes ob)"
    "py_int (dget (f_facts f) ''other_ready_control_plane_nodes'' (JInt 0)) = Some (o_other ob)"
    "truthy (fact f ''is_control_plane'') = o_cp ob" "truthy (fact f ''is_etcd_voter'') = o_voter ob"
    "o_now ob = now"
    by (auto simp: dark_obs_of_def)
  note env = cfg ob since_reboot_enc [OF assms(3)]
  have re: "\<exists>msg. decide_reboot (enc_ladder l) cfg now (l_attempts l) (lc_max c) dm
      = Some (if cooling c ob l then NoAction else Reboot,
              enc_ladder (if cooling c ob l then l
                else l\<lparr>l_attempts := l_attempts l + 1, l_last := Some now, l_refused := None\<rparr>), msg)" for dm
    by (auto simp: decide_reboot_def env reboot_now_def enc_sets cooling_def split: option.splits)
  show ?thesis
  proof (cases "lc_enabled c \<and> \<not> l_escalated l \<and> lc_restart c \<and> l_attempts l < lc_max c")
    case True
    with re [of "o_minutes ob"] show ?thesis
      by (auto simp: decide_dark_node_escalation_def env [simplified] enc_gets ladder_spec_def)
  next
    case False
    then show ?thesis
      using refuse_enc [of RefuseElastic l elastic_reason]
        refuse_enc [of RefuseQuorum l "quorum_reason (o_other ob) (lc_min_other c)"]
      by (auto simp: decide_dark_node_escalation_def decide_reinstall_def env enc_gets
          ladder_spec_def reinstall_now_def enc_sets)
  qed
qed

end
