(* ===== verification/Watchdog_Ladder_Durable.thy ===== *)
theory Watchdog_Ladder_Durable
  imports Watchdog_Ladder_Spec
begin

text \<open>
  The ladder's state in the issue thread. Every action of the watchdog on a dark node posts a
  comment that ends with the state marker; the next run folds the markers of the thread. The
  durable-state locale is interpreted on these two operations, and with the decision as the step:
  the runs that keep the state in the thread act exactly as a machine that remembers it.
\<close>

section \<open>The comment of an action\<close>

definition emoji_repeat :: string where
  "emoji_repeat = [CHR 0xF0, CHR 0x9F, CHR 0x94, CHR 0x81]"

definition emoji_siren :: string where
  "emoji_siren = [CHR 0xF0, CHR 0x9F, CHR 0x9A, CHR 0xA8]"

definition emoji_stop :: string where
  "emoji_stop = [CHR 0xE2, CHR 0x9B, CHR 0x94]"

fun action_body :: "action \<Rightarrow> string \<Rightarrow> string" where
  "action_body Reboot message = emoji_repeat @ '' '' @ message @ ''.''"
| "action_body Reinstall message =
     emoji_siren @ '' '' @ message @ ''. Dispatched `ca-reinstall-controlplane.yml`.''"
| "action_body _ message =
     emoji_stop @ '' '' @ message @ ''. Leaving this to a human '' @ em_dash
     @ '' see docs/runbooks/dark-node-reboot.md.''"

definition act_comment :: "action \<Rightarrow> string \<Rightarrow> jobj \<Rightarrow> string" where
  "act_comment a message state =
     action_body a message @ newline @ newline @ render_dark_state_marker state"

definition post_state :: "json list \<Rightarrow> action \<times> string \<Rightarrow> jobj \<Rightarrow> json list" where
  "post_state comments out state =
     comments @ [JObj [(''body'', JStr (act_comment (fst out) (snd out) state))]]"

definition ladder_step :: "json \<Rightarrow> finding \<times> datetime \<Rightarrow> jobj \<Rightarrow> ((action \<times> string) \<times> jobj) option" where
  "ladder_step cfg x state =
     map_option (\<lambda>(a, st, msg). ((a, msg), st)) (decide_dark_node_escalation (fst x) state cfg (snd x))"

definition acts :: "action \<times> string \<Rightarrow> bool" where
  "acts out \<longleftrightarrow> fst out \<noteq> NoAction"

section \<open>Reading the marker back\<close>

lemma lazy0_found:
  assumes "c \<notin> set m" and "post = c # p"
  shows "lazy0 post (m @ post @ rest) = Some m"
  using assms by (induction m) auto

lemma search_state_skip: "CHR ''<'' \<notin> set p \<Longrightarrow> search_state (p @ s) = search_state s"
  by (induction p) auto

lemma search_state_marker:
  assumes "CHR ''}'' \<notin> set m"
  shows "search_state (''<!-- dark-node-state: {'' @ m @ ''} -->'' @ rest) = Some (''{'' @ m @ ''}'')"
  using lazy0_found [OF assms, of "''} -->''" "'' -->''" rest] by simp

lemma hex_char_no_brace: "d < 16 \<Longrightarrow> CHR ''}'' \<noteq> hex_char d"
proof
  assume "d < 16" and "CHR ''}'' = hex_char d"
  then have "hex_val (CHR ''}'') = Some d" by (simp only: hex_val_char)
  moreover have "hex_val (CHR ''}'') = None" by code_simp
  ultimately show False by simp
qed

lemma hex4_no_brace: "CHR ''}'' \<notin> set (hex4 n)"
  using hex_char_no_brace by (simp add: hex4_def)

lemma esc_u_no_brace: "CHR ''}'' \<notin> set (esc_u n)"
  by (simp add: esc_u_def hex4_no_brace backslash_def)

lemma char_of_no_brace:
  assumes "n < (256 :: nat)" and "n \<noteq> 125"
  shows "CHR ''}'' \<noteq> char_of (n :: nat)"
proof
  assume "CHR ''}'' = char_of n"
  then have "(of_char (CHR ''}'') :: nat) = of_char (char_of n :: char)" by (simp only:)
  also have "\<dots> = n" using assms(1) by simp
  finally show False using assms(2) by simp
qed

lemma esc_cp_no_brace:
  assumes "n < 128" and "n \<noteq> 125"
  shows "CHR ''}'' \<notin> set (esc_cp n)"
  using assms char_of_no_brace [of n] esc_u_no_brace [of n]
  by (simp add: esc_cp_def backslash_def dquote_def)

lemma of_char_brace:
  assumes "(of_char c :: nat) = 125"
  shows "c = CHR ''}''"
proof -
  have "c = char_of (of_char c :: nat)" by (simp only: char_of_char)
  also have "\<dots> = char_of (125 :: nat)" by (simp only: assms)
  also have "\<dots> = CHR ''}''" by code_simp
  finally show ?thesis .
qed

lemma dumps_str_no_brace:
  assumes "plain_reason s"
  shows "CHR ''}'' \<notin> set (dumps_str s)"
proof -
  have as: "ascii s" using assms by (simp add: plain_reason_def)
  have "CHR ''}'' \<notin> set (esc_cp (of_char c))" if "c \<in> set s" for c
  proof (rule esc_cp_no_brace)
    show "(of_char c :: nat) < 128"
      using as that by (simp add: ascii_def is_ascii_def list_all_iff)
    show "(of_char c :: nat) \<noteq> 125"
      using of_char_brace assms that by (auto simp: plain_reason_def)
  qed
  then show ?thesis
    by (simp add: dumps_str_def dquote_def codepoints_ascii [OF as])
qed

section \<open>The text form of a state\<close>

lemma num_char_ascii: "num_char c \<Longrightarrow> is_ascii c \<and> c \<noteq> CHR ''}'' \<and> c \<noteq> CHR ''<''"
  by (auto simp: num_char_def is_digit_def is_ascii_def)

lemma show_int_plain: "ascii (show_int i) \<and> CHR ''}'' \<notin> set (show_int i) \<and> CHR ''<'' \<notin> set (show_int i)"
  using show_int_num_char num_char_ascii by (auto simp: ascii_def list_all_iff)

lemma quorum_reason_plain: "plain_reason (quorum_reason a b)"
  using show_int_plain [of a] show_int_plain [of b]
  by (simp add: plain_reason_def quorum_reason_def ascii_def is_ascii_def)

lemma elastic_reason_plain: "plain_reason elastic_reason"
  by (simp add: plain_reason_def elastic_reason_def ascii_def is_ascii_def)

lemma pad_nat_plain: "0 \<le> n \<Longrightarrow> ascii (pad_nat k n) \<and> CHR ''}'' \<notin> set (pad_nat k n)"
  by (auto simp: ascii_def list_all_iff is_ascii_def is_digit_def dest: pad_nat_digits)

lemma isoformat_plain:
  assumes "valid_dt d"
  shows "plain_reason (isoformat d)"
proof -
  have "0 \<le> dt_year d" "0 \<le> dt_month d" "0 \<le> dt_day d" "0 \<le> dt_hour d" "0 \<le> dt_minute d"
    "0 \<le> dt_second d" "0 \<le> dt_micro d"
    using assms by (simp_all add: valid_dt_def)
  note p = this [THEN pad_nat_plain]
  show ?thesis
    using p by (auto simp: plain_reason_def isoformat_def ascii_def is_ascii_def)
qed

text \<open>The members of a state in the order in which the marker has them.\<close>

definition sorted_ladder :: "ladder \<Rightarrow> jobj" where
  "sorted_ladder l =
     [(''escalated'', JBool (l_escalated l)), (''escalated_at'', enc_time (l_escalated_at l)),
      (''last_reboot_at'', enc_time (l_last l)), (''reboot_attempts'', JInt (l_attempts l)),
      (''refused_reason'', (case l_refused l of None \<Rightarrow> JNull | Some r \<Rightarrow> JStr r))]"

lemma jsort_enc_ladder: "jsort (JObj (enc_ladder l)) = JObj (sorted_ladder l)"
proof -
  have "jsort (enc_time t) = enc_time t" for t by (cases t) (simp_all add: enc_time_def)
  moreover have "jsort (case r of None \<Rightarrow> JNull | Some s \<Rightarrow> JStr s)
      = (case r of None \<Rightarrow> JNull | Some s \<Rightarrow> JStr s)" for r by (cases r) simp_all
  ultimately show ?thesis
    by (simp add: enc_ladder_def sorted_ladder_def sort_key_def less_char_def)
qed

lemma clean_sorted_ladder:
  assumes "ladder_ok l"
  shows "clean (JObj (sorted_ladder l))"
proof -
  have "clean (enc_time t)" if "opt_valid t" for t
    using that isoformat_plain by (cases t) (auto simp: enc_time_def opt_valid_def plain_reason_def)
  then have "clean (enc_time (l_last l))" "clean (enc_time (l_escalated_at l))"
    using assms by (simp_all add: ladder_ok_def)
  moreover have "clean (case l_refused l of None \<Rightarrow> JNull | Some r \<Rightarrow> JStr r)"
    using assms by (auto simp: ladder_ok_def plain_reason_def split: option.splits)
  ultimately show ?thesis
    by (simp add: sorted_ladder_def ascii_def is_ascii_def)
qed

lemma dumps_sorted_ladder:
  assumes "ladder_ok l"
  obtains m where "dumps (JObj (sorted_ladder l)) = ''{'' @ m @ ''}''" and "CHR ''}'' \<notin> set m"
proof -
  have t: "CHR ''}'' \<notin> set (dumps (enc_time t))" if "opt_valid t" for t
    using that isoformat_plain dumps_str_no_brace
    by (cases t) (auto simp: enc_time_def opt_valid_def)
  have tt: "CHR ''}'' \<notin> set (dumps (enc_time (l_last l)))"
    "CHR ''}'' \<notin> set (dumps (enc_time (l_escalated_at l)))"
    using t assms by (simp_all add: ladder_ok_def)
  have r: "CHR ''}'' \<notin> set (dumps (case l_refused l of None \<Rightarrow> JNull | Some r \<Rightarrow> JStr r))"
    using assms dumps_str_no_brace by (auto simp: ladder_ok_def split: option.splits)
  have k: "CHR ''}'' \<notin> set (dumps_str s)"
    if "s \<in> {''escalated'', ''escalated_at'', ''last_reboot_at'', ''reboot_attempts'', ''refused_reason''}" for s
    using that by (intro dumps_str_no_brace) (auto simp: plain_reason_def ascii_def is_ascii_def)
  define m where "m = str_join '', '' (map (\<lambda>(k, v). dumps_str k @ '': '' @ dumps v) (sorted_ladder l))"
  have "CHR ''}'' \<notin> set m"
    using tt r k show_int_plain [of "l_attempts l"] by (simp add: m_def sorted_ladder_def)
  moreover have "dumps (JObj (sorted_ladder l)) = ''{'' @ m @ ''}''" by (simp add: m_def)
  ultimately show ?thesis using that by blast
qed

section \<open>The state survives in the thread\<close>

text \<open>A thread whose markers the watchdog posted: its state has the members of the default state.\<close>

definition thread_sound :: "json list \<Rightarrow> bool" where
  "thread_sound comments \<longleftrightarrow>
     (case parse_dark_node_state comments of
        Some st \<Rightarrow> map fst st = map fst DEFAULT_DARK_STATE
      | None \<Rightarrow> False)"

definition ladder_state_ok :: "jobj \<Rightarrow> bool" where
  "ladder_state_ok st \<longleftrightarrow> (\<exists>l. ladder_ok l \<and> st = enc_ladder l)"

definition message_ok :: "action \<times> string \<Rightarrow> bool" where
  "message_ok out \<longleftrightarrow> CHR ''<'' \<notin> set (snd out)"

definition readable_input :: "json \<Rightarrow> finding \<times> datetime \<Rightarrow> bool" where
  "readable_input cfg x \<longleftrightarrow>
     ladder_cfg_of cfg \<noteq> None \<and> dark_obs_of (fst x) (snd x) \<noteq> None \<and> valid_dt (snd x)"

lemma fold_comments_append:
  "fold_comments st (cs @ ds) = Option.bind (fold_comments st cs) (\<lambda>st'. fold_comments st' ds)"
  by (induction cs arbitrary: st) (auto split: Option.bind_splits)

lemma action_body_no_tag:
  assumes "CHR ''<'' \<notin> set msg"
  shows "CHR ''<'' \<notin> set (action_body a msg @ newline @ newline)"
  using assms by (cases a) (simp_all add: emoji_repeat_def emoji_siren_def emoji_stop_def em_dash_def newline_def)

lemma search_state_comment:
  assumes "ladder_ok l" and "CHR ''<'' \<notin> set msg"
  shows "search_state (act_comment a msg (enc_ladder l)) = Some (dumps (JObj (sorted_ladder l)))"
proof -
  obtain m where m: "dumps (JObj (sorted_ladder l)) = ''{'' @ m @ ''}''" "CHR ''}'' \<notin> set m"
    using dumps_sorted_ladder [OF assms(1)] .
  define pre where "pre = action_body a msg @ newline @ newline"
  have eq: "act_comment a msg (enc_ladder l) = pre @ (''<!-- dark-node-state: {'' @ m @ ''} -->'' @ [])"
    unfolding act_comment_def render_dark_state_marker_def jsort_enc_ladder m(1) pre_def by simp
  have "CHR ''<'' \<notin> set pre" unfolding pre_def by (rule action_body_no_tag [OF assms(2)])
  from search_state_skip [OF this] show ?thesis
    unfolding eq m(1) search_state_marker [OF m(2), symmetric, of "[]"] .
qed

lemma dict_update_sorted:
  assumes "map fst st = map fst DEFAULT_DARK_STATE"
  shows "dict_update st (sorted_ladder l) = enc_ladder l"
proof -
  obtain a b c d e where "st = [(''reboot_attempts'', a), (''last_reboot_at'', b), (''escalated'', c),
      (''escalated_at'', d), (''refused_reason'', e)]"
    using assms by (auto simp: DEFAULT_DARK_STATE_def map_eq_Cons_conv)
  then show ?thesis
    by (simp add: sorted_ladder_def enc_ladder_def dict_update_def dict_set_def)
qed

lemma parse_post_state:
  assumes "thread_sound cs" and "ladder_ok l" and "CHR ''<'' \<notin> set msg"
  shows "parse_dark_node_state (post_state cs (a, msg) (enc_ladder l)) = Some (enc_ladder l)"
proof -
  obtain st where st: "fold_comments DEFAULT_DARK_STATE cs = Some st"
    "map fst st = map fst DEFAULT_DARK_STATE"
    using assms(1) by (auto simp: thread_sound_def parse_dark_node_state_def split: option.splits)
  have "truthy (JStr (act_comment a msg (enc_ladder l)))"
    by (cases a) (simp_all add: act_comment_def emoji_repeat_def emoji_siren_def emoji_stop_def)
  then have "apply_comment st (JObj [(''body'', JStr (act_comment a msg (enc_ladder l)))])
      = Some (enc_ladder l)"
    using search_state_comment [OF assms(2,3), of a] loads_dumps [OF clean_sorted_ladder [OF assms(2)]]
      dict_update_sorted [OF st(2), of l]
    by (simp add: apply_comment_def text_of_def jget_or_def jor_def del: dumps.simps)
  with st(1) show ?thesis
    by (simp add: parse_dark_node_state_def post_state_def fold_comments_append)
qed

lemma thread_sound_post:
  assumes "thread_sound cs" and "ladder_ok l" and "CHR ''<'' \<notin> set msg"
  shows "thread_sound (post_state cs (a, msg) (enc_ladder l))"
  using parse_post_state [OF assms] by (simp add: thread_sound_def enc_ladder_def DEFAULT_DARK_STATE_def)

section \<open>The decision is a machine whose state survives\<close>

lemma refuse_no_tag:
  assumes "refuse a st r = (b, st', msg)"
  shows "msg = r"
  using assms by (simp add: refuse_def split: if_splits)

lemma quorum_reason_no_tag: "CHR ''<'' \<notin> set (quorum_reason a b)"
  using show_int_plain [of a] show_int_plain [of b] by (simp add: quorum_reason_def)

lemma elastic_reason_no_tag: "CHR ''<'' \<notin> set elastic_reason"
  by (simp add: elastic_reason_def)

lemma fmt_fixed_no_tag: "CHR ''<'' \<notin> set (fmt_fixed d f)"
  by (rule fmt_fixed_no) (simp_all add: num_char_def is_digit_def)

lemma reboot_now_no_tag:
  assumes "reboot_now st now n m dm = (a, st', msg)"
  shows "CHR ''<'' \<notin> set msg"
  using assms show_int_plain [of "n + 1"] show_int_plain [of m] fmt_fixed_no_tag [of 0 dm]
  by (auto simp: reboot_now_def)

lemma reinstall_now_no_tag:
  assumes "reinstall_now st now m dm ea = (a, st', msg)"
  shows "CHR ''<'' \<notin> set msg"
  using assms show_int_plain [of m] fmt_fixed_no_tag [of 0 dm] fmt_fixed_no_tag [of 0 ea]
  by (auto simp: reinstall_now_def em_dash_def)

lemma fmt_rat_no_tag: "CHR ''<'' \<notin> set (fmt_rat d q)"
  using fmt_fixed_no_tag [of d "Fin q"] by simp

lemma decide_reboot_no_tag:
  assumes "decide_reboot st cfg now n m dm = Some (a, st', msg)"
  shows "CHR ''<'' \<notin> set msg"
  using assms show_int_plain [of n]
  by (auto simp: decide_reboot_def fmt_rat_no_tag fmt_fixed_no_tag dest: reboot_now_no_tag
      split: option.splits if_splits)

lemma decide_reinstall_no_tag:
  assumes "decide_reinstall f st cfg now m dm = Some (a, st', msg)"
  shows "CHR ''<'' \<notin> set msg"
  using assms show_int_plain [of m]
  by (auto simp: decide_reinstall_def fmt_fixed_no_tag elastic_reason_no_tag quorum_reason_no_tag
      dest: reinstall_now_no_tag refuse_no_tag split: if_splits)

lemma decide_no_tag:
  assumes "decide_dark_node_escalation f st cfg now = Some (a, st', msg)"
  shows "CHR ''<'' \<notin> set msg"
  using assms
  by (auto simp: decide_dark_node_escalation_def dest: decide_reboot_no_tag decide_reinstall_no_tag
      split: if_splits)

lemma ladder_spec_ok:
  assumes "ladder_ok l" and "valid_dt (o_now ob)"
  shows "ladder_ok (snd (ladder_spec c ob l))"
  using assms
  by (auto simp: ladder_spec_def spec_refuse_def ladder_ok_def opt_valid_def quorum_reason_plain
      elastic_reason_plain)

lemma ladder_spec_quiet: "fst (ladder_spec c ob l) = NoAction \<Longrightarrow> snd (ladder_spec c ob l) = l"
  by (auto simp: ladder_spec_def spec_refuse_def split: if_splits)

lemma ladder_step_refines:
  assumes "ladder_cfg_of cfg = Some c" and "dark_obs_of (fst x) (snd x) = Some ob" and "ladder_ok l"
  shows "\<exists>msg. ladder_step cfg x (enc_ladder l)
      = Some ((fst (ladder_spec c ob l), msg), enc_ladder (snd (ladder_spec c ob l)))
      \<and> message_ok (fst (ladder_spec c ob l), msg)"
proof -
  have "opt_valid (l_last l)" using assms(3) by (simp add: ladder_ok_def)
  from decide_refines [OF assms(1,2) this] obtain msg where
    "decide_dark_node_escalation (fst x) (enc_ladder l) cfg (snd x)
      = Some (fst (ladder_spec c ob l), enc_ladder (snd (ladder_spec c ob l)), msg)" ..
  then show ?thesis
    using decide_no_tag by (auto simp: ladder_step_def message_ok_def acts_def)
qed

lemma o_now_of: "dark_obs_of f now = Some ob \<Longrightarrow> o_now ob = now"
  by (auto simp: dark_obs_of_def)

lemma ladder_step_ok:
  assumes "ladder_state_ok st" and "readable_input cfg x" and "ladder_step cfg x st = Some (a, st')"
  shows "ladder_state_ok st' \<and> message_ok a \<and> (\<not> acts a \<longrightarrow> st' = st)"
proof -
  obtain l c ob where l: "ladder_ok l" "st = enc_ladder l" and c: "ladder_cfg_of cfg = Some c"
    and ob: "dark_obs_of (fst x) (snd x) = Some ob" and now: "valid_dt (o_now ob)"
    using assms(1,2) o_now_of by (auto simp: ladder_state_ok_def readable_input_def)
  from ladder_step_refines [OF c ob l(1)] assms(3) l(2)
  have a: "fst a = fst (ladder_spec c ob l)" "message_ok a"
    and st': "st' = enc_ladder (snd (ladder_spec c ob l))"
    by auto
  show ?thesis
    using a st' ladder_spec_ok [OF l(1) now] ladder_spec_quiet [of c ob l] l(2)
    by (auto simp: ladder_state_ok_def acts_def)
qed

lemma ladder_durable_state:
  assumes "thread_sound cs" and "ladder_state_ok st" and "message_ok a"
  shows "parse_dark_node_state (post_state cs a st) = Some st" "thread_sound (post_state cs a st)"
proof -
  obtain l where l: "ladder_ok l" "st = enc_ladder l" using assms(2) by (auto simp: ladder_state_ok_def)
  have m: "CHR ''<'' \<notin> set (snd a)" using assms(3) by (simp add: message_ok_def)
  show "parse_dark_node_state (post_state cs a st) = Some st" "thread_sound (post_state cs a st)"
    using parse_post_state [OF assms(1) l(1) m, of "fst a"]
      thread_sound_post [OF assms(1) l(1) m, of "fst a"] l(2) by simp_all
qed

interpretation ladder_thread: durable_state parse_dark_node_state post_state thread_sound
  ladder_state_ok message_ok
  by unfold_locales (simp_all add: ladder_durable_state)

interpretation ladder_machine: durable_machine parse_dark_node_state post_state thread_sound
  ladder_state_ok message_ok "ladder_step cfg" acts "readable_input cfg" for cfg
  by unfold_locales (blast dest: ladder_step_ok)+

section \<open>Runs that keep the state in the thread\<close>

text \<open>One run of the watchdog after the other on the same dark node: each loads the state from the
  thread, decides, and posts the comment of an action that acts.\<close>

abbreviation thread_runs ::
  "json \<Rightarrow> json list \<Rightarrow> (finding \<times> datetime) list \<Rightarrow> ((action \<times> string) list \<times> json list) option" where
  "thread_runs cfg \<equiv> medium_run parse_dark_node_state post_state acts (ladder_step cfg)"

definition obs_of :: "(finding \<times> datetime) list \<Rightarrow> dark_obs list" where
  "obs_of xs = map (\<lambda>x. the (dark_obs_of (fst x) (snd x))) xs"

lemma mem_run_refines:
  assumes "ladder_cfg_of cfg = Some c" and "ladder_ok l" and "\<forall>x \<in> set xs. readable_input cfg x"
  shows "\<exists>outs st. mem_run (ladder_step cfg) (enc_ladder l) xs = Some (outs, st)
    \<and> map fst outs = fst (spec_run c l (obs_of xs))"
  using assms(2,3)
proof (induction xs arbitrary: l)
  case Nil
  then show ?case by (simp add: obs_of_def)
next
  case (Cons x xs)
  then obtain ob where ob: "dark_obs_of (fst x) (snd x) = Some ob" and v: "valid_dt (o_now ob)"
    using o_now_of by (auto simp: readable_input_def)
  obtain a l1 where st: "ladder_spec c ob l = (a, l1)" by fastforce
  from ladder_step_refines [OF assms(1) ob Cons.prems(1)] st obtain msg where
    step: "ladder_step cfg x (enc_ladder l) = Some ((a, msg), enc_ladder l1)" by auto
  have "ladder_ok l1" using ladder_spec_ok [OF Cons.prems(1) v, of c] st by simp
  from Cons.IH [OF this] Cons.prems(2) obtain outs st' where
    "mem_run (ladder_step cfg) (enc_ladder l1) xs = Some (outs, st')"
    "map fst outs = fst (spec_run c l1 (obs_of xs))" by auto
  with step st ob show ?case by (auto simp: obs_of_def Let_def split: prod.splits)
qed

lemma thread_runs_refine:
  assumes "parse_dark_node_state cs = Some (enc_ladder l)" and "ladder_ok l"
    and "ladder_cfg_of cfg = Some c" and "\<forall>x \<in> set xs. readable_input cfg x"
  shows "\<exists>outs cs'. thread_runs cfg cs xs = Some (outs, cs')
    \<and> map fst outs = fst (spec_run c l (obs_of xs))"
proof -
  have "thread_sound cs"
    using assms(1) by (simp add: thread_sound_def enc_ladder_def DEFAULT_DARK_STATE_def)
  moreover have "ladder_state_ok (enc_ladder l)" using assms(2) by (auto simp: ladder_state_ok_def)
  ultimately have "map_option fst (thread_runs cfg cs xs)
      = map_option fst (mem_run (ladder_step cfg) (enc_ladder l) xs)"
    using assms(1,4) by (intro ladder_machine.medium_run_mem_run)
  with mem_run_refines [OF assms(3,2,4)] show ?thesis by (cases "thread_runs cfg cs xs") auto
qed

end
