(* ===== verification/Watchdog_Github.thy ===== *)
theory Watchdog_Github
  imports Watchdog_Cluster Watchdog_Ladder_Durable
begin

text \<open>
  The GitHub side of scripts-tools/deployment_watchdog.py: every call of the \<open>gh\<close> program, the
  three workflow dispatches, the comments (strict and best effort), and the closing of issues whose
  condition is gone. The text of an issue or comment is handed over in a temporary file; its path
  is a placeholder and its content is part of the event.
\<close>

section \<open>gh\<close>

definition tmp_path :: string where
  "tmp_path = ''/tmp/body.md''"

definition gh :: "string list \<Rightarrow> string option \<Rightarrow> string io" where
  "gh args body =
     bnd (proc (''gh'' # args) body) (\<lambda>r.
       case r of
         NotRun exc \<Rightarrow> raise (GitHubError (''gh '' @ str_join '' '' args @ '' failed to run: '' @ exc))
       | Completed code out err \<Rightarrow>
           (if code \<noteq> 0
            then raise (GitHubError (''gh '' @ str_join '' '' args @ '' exited '' @ show_int code @ '': ''
                   @ take_chars 400 (str_strip err)))
            else ret out))"

definition list_open_watchdog_issues :: "string \<Rightarrow> json \<Rightarrow> json io" where
  "list_open_watchdog_issues repo label =
     bnd (opt (as_text label)) (\<lambda>l.
     bnd (gh [''issue'', ''list'', ''--repo'', repo, ''--state'', ''open'', ''--label'', l,
              ''--limit'', ''100'', ''--json'', ''number,title,body,url''] None) (\<lambda>out.
     opt (loads (if out = [] then ''[]'' else out))))"

definition ensure_label :: "string \<Rightarrow> json \<Rightarrow> json \<Rightarrow> unit io" where
  "ensure_label repo label color =
     bnd (opt (as_text label)) (\<lambda>l.
     bnd (opt (as_text color)) (\<lambda>c.
     handle
       (bnd (gh [''label'', ''create'', l, ''--repo'', repo, ''--color'', c, ''--description'',
                 ''deployment-freeze watchdog''] None) (\<lambda>_. ret ()))
       (\<lambda>e. case e of
              GitHubError _ \<Rightarrow> ret () | ClusterUnreachable s \<Rightarrow> raise (ClusterUnreachable s)
            | UnsafeCommand s \<Rightarrow> raise (UnsafeCommand s) | Uncaught \<Rightarrow> raise Uncaught)))"

definition create_issue :: "string \<Rightarrow> json \<Rightarrow> string \<Rightarrow> string \<Rightarrow> string io" where
  "create_issue repo label title body =
     bnd (opt (as_text label)) (\<lambda>l.
     bnd (gh [''issue'', ''create'', ''--repo'', repo, ''--label'', l, ''--title'', title,
              ''--body-file'', tmp_path] (Some body)) (\<lambda>out. ret (str_strip out)))"

definition dispatch_terminate_op :: "string \<Rightarrow> json \<Rightarrow> string \<Rightarrow> json \<Rightarrow> unit io" where
  "dispatch_terminate_op repo workflow app ref =
     (if \<not> name_ok app
      then raise (UnsafeCommand (''refusing to dispatch terminate-op for app name '' @ quoted app))
      else bnd (opt (as_text workflow)) (\<lambda>w.
           bnd (opt (as_text ref)) (\<lambda>rf.
           bnd (gh [''workflow'', ''run'', w, ''--repo'', repo, ''--ref'', rf, ''-f'', ''app='' @ app] None)
             (\<lambda>_. ret ()))))"

definition dispatch_reboot :: "string \<Rightarrow> json \<Rightarrow> string \<Rightarrow> string \<Rightarrow> string \<Rightarrow> unit io" where
  "dispatch_reboot repo node external_ip reason issue_number =
     bnd (check_name name_ok ''refusing to dispatch reboot for node name '' node) (\<lambda>n.
     bnd (gh [''workflow'', ''run'', ''contabo-instance-reboot.yml'', ''--repo'', repo, ''--ref'', ''main'',
              ''-f'', ''node_name='' @ n, ''-f'', ''external_ip='' @ external_ip,
              ''-f'', ''reason='' @ reason, ''-f'', ''confirm=RESTART'',
              ''-f'', ''issue_number='' @ issue_number] None) (\<lambda>_. ret ()))"

definition dispatch_cp_reinstall :: "string \<Rightarrow> json \<Rightarrow> string \<Rightarrow> string \<Rightarrow> string \<Rightarrow> unit io" where
  "dispatch_cp_reinstall repo node external_ip template issue_number =
     bnd (check_name name_ok ''refusing to dispatch reinstall for node name '' node) (\<lambda>n.
     bnd (gh [''workflow'', ''run'', ''ca-reinstall-controlplane.yml'', ''--repo'', repo, ''--ref'', ''main'',
              ''-f'', ''node_name='' @ n, ''-f'', ''external_ip='' @ external_ip,
              ''-f'', ''template='' @ template, ''-f'', ''mode=reinstall'',
              ''-f'', ''confirm=REINSTALL-CONTROL-PLANE'',
              ''-f'', ''issue_number='' @ issue_number] None) (\<lambda>_. ret ()))"

definition list_issue_comments :: "string \<Rightarrow> json \<Rightarrow> json list io" where
  "list_issue_comments repo issue_number =
     bnd (gh [''issue'', ''view'', py_str issue_number, ''--repo'', repo, ''--json'', ''comments''] None) (\<lambda>out.
     opt (do { v \<leftarrow> loads (if out = [] then ''{}'' else out);
               cs \<leftarrow> jget_or v ''comments'' (JList []);
               jiter cs }))"

definition comment_issue :: "string \<Rightarrow> json \<Rightarrow> string \<Rightarrow> unit io" where
  "comment_issue repo issue_number body =
     bnd (gh [''issue'', ''comment'', py_str issue_number, ''--repo'', repo, ''--body-file'', tmp_path]
            (Some body)) (\<lambda>_. ret ())"

definition close_issue :: "string \<Rightarrow> json \<Rightarrow> unit io" where
  "close_issue repo issue_number =
     bnd (gh [''issue'', ''close'', py_str issue_number, ''--repo'', repo] None) (\<lambda>_. ret ())"

text \<open>\<open>except GitHubError as error: h\<close>.\<close>

definition on_github_error :: "'a io \<Rightarrow> (string \<Rightarrow> 'a io) \<Rightarrow> 'a io" where
  "on_github_error m h =
     handle m (\<lambda>e. case e of
         GitHubError s \<Rightarrow> h s | ClusterUnreachable s \<Rightarrow> raise (ClusterUnreachable s)
       | UnsafeCommand s \<Rightarrow> raise (UnsafeCommand s) | Uncaught \<Rightarrow> raise Uncaught)"

definition could_not_comment :: "json \<Rightarrow> string \<Rightarrow> event" where
  "could_not_comment issue_number err =
     Print (''::warning::watchdog could not comment on #'' @ py_str issue_number @ '': '' @ err)"

definition comment_best_effort :: "string \<Rightarrow> json \<Rightarrow> string \<Rightarrow> bool io" where
  "comment_best_effort repo issue_number body =
     on_github_error
       (seq (comment_issue repo issue_number body) (ret True))
       (\<lambda>err. seq (emit (could_not_comment issue_number err)) (ret False))"

definition COMMENT_CAP_MARKER :: string where
  "COMMENT_CAP_MARKER = ''Commenting is disabled on issues with more than''"

definition is_comment_cap_error :: "string \<Rightarrow> bool" where
  "is_comment_cap_error err \<longleftrightarrow> sublist COMMENT_CAP_MARKER err"

definition url_of :: "json \<Rightarrow> string option" where
  "url_of issue = map_option py_str (jget issue ''url'')"

definition rotate_capped_issue :: "string \<Rightarrow> json \<Rightarrow> string io" where
  "rotate_capped_issue repo issue =
     on_github_error
       (bnd (opt (jidx issue ''number'')) (\<lambda>number.
        seq (close_issue repo number)
        (bnd (opt (url_of issue)) (\<lambda>url.
         ret (''  - '' @ url @ '' reached GitHub's comment cap; closed so the next run ''
              @ ''files a fresh issue for this finding'')))))
       (\<lambda>err. bnd (opt (url_of issue)) (\<lambda>url.
         ret (''  - '' @ url @ '' is at GitHub's comment cap and could NOT be closed ''
              @ ''('' @ err @ ''); it needs closing by hand so findings can refile'')))"

section \<open>Closing what is resolved\<close>

definition emoji_check :: string where
  "emoji_check = [CHR 0xE2, CHR 0x9C, CHR 0x85]"

type_synonym open_lines = "json list \<times> string list"

text \<open>Comment (as a courtesy) and close; one line of the summary.\<close>

definition close_with :: "string \<Rightarrow> json \<Rightarrow> string \<Rightarrow> string \<Rightarrow> string io" where
  "close_with repo issue comment line =
     bnd (opt (jidx issue ''number'')) (\<lambda>number.
     bnd (comment_best_effort repo number comment) (\<lambda>_.
     seq (close_issue repo number)
     (bnd (opt (url_of issue)) (\<lambda>url. ret (line @ url)))))"

definition argo_closed_note :: "string \<Rightarrow> string" where
  "argo_closed_note app =
     emoji_check @ '' `'' @ app @ ''` no longer has an Argo operation stuck in `phase=Running` '' @ em_dash
     @ '' closing so the next wedge of this app files and acts as a fresh ''
     @ ''incident instead of deduplicating against this one.''"

definition close_argo_issue :: "string \<Rightarrow> string list \<Rightarrow> json \<Rightarrow> open_lines \<Rightarrow> open_lines io" where
  "close_argo_issue repo stuck_apps issue acc =
     bnd (opt (text_of issue ''body'')) (\<lambda>body.
       case key_subject KIND_ARGO body of
         None \<Rightarrow> ret (fst acc @ [issue], snd acc)
       | Some app \<Rightarrow>
           (if List.member stuck_apps app then ret (fst acc @ [issue], snd acc)
            else bnd (close_with repo issue (argo_closed_note app)
                       (''- `stuck-argo-op:'' @ app @ ''` '' @ em_dash @ '' no longer stuck, closed ''))
                     (\<lambda>line. ret (fst acc, snd acc @ [line]))))"

definition has_item_list :: "json \<Rightarrow> bool option" where
  "has_item_list applications =
     map_option (\<lambda>v. case v of JList _ \<Rightarrow> True | _ \<Rightarrow> False) (jget applications ''items'')"

definition close_resolved_argo_issues ::
  "string \<Rightarrow> json list \<Rightarrow> string list \<Rightarrow> json \<Rightarrow> open_lines io" where
  "close_resolved_argo_issues repo open_issues stuck_apps applications =
     bnd (opt (has_item_list applications)) (\<lambda>listed.
       if \<not> listed then ret (open_issues, [])
       else each (close_argo_issue repo stuck_apps) open_issues ([], []))"

definition finding_closed_note :: "string \<Rightarrow> string" where
  "finding_closed_note key =
     emoji_check @ '' `'' @ key @ ''` is no longer detected '' @ em_dash @ '' closing so the next occurrence ''
     @ ''of this workload's condition files (or updates) a fresh incident ''
     @ ''instead of deduplicating against this resolved one.''"

definition close_finding_issue ::
  "string \<Rightarrow> string \<Rightarrow> string list \<Rightarrow> json \<Rightarrow> open_lines \<Rightarrow> open_lines io" where
  "close_finding_issue repo kind active_keys issue acc =
     bnd (opt (text_of issue ''body'')) (\<lambda>body.
       case key_subject kind body of
         None \<Rightarrow> ret (fst acc @ [issue], snd acc)
       | Some subject \<Rightarrow>
           (let key = kind @ '':'' @ subject
            in if List.member active_keys key then ret (fst acc @ [issue], snd acc)
               else bnd (close_with repo issue (finding_closed_note key)
                          (''- `'' @ key @ ''` '' @ em_dash @ '' no longer detected, closed ''))
                        (\<lambda>line. ret (fst acc, snd acc @ [line]))))"

definition close_resolved_findings ::
  "string \<Rightarrow> json list \<Rightarrow> string \<Rightarrow> string list \<Rightarrow> open_lines io" where
  "close_resolved_findings repo open_issues kind active_keys =
     each (close_finding_issue repo kind active_keys) open_issues ([], [])"

end
