(* ===== verification/Watchdog_Main.thy ===== *)
theory Watchdog_Main
  imports Watchdog_Usage Watchdog_Github
begin

text \<open>
  A run of scripts-tools/deployment_watchdog.py: \<open>collect_cluster_state\<close>, \<open>main\<close> and \<open>run\<close>. The
  parsed configuration, the time and the command line are given; \<open>main\<close> is split at its phases
  (look, report, clean run, dry run, resolved issues, duplicates, recovery, ladder, filing).
\<close>

section \<open>Command line and configuration\<close>

record run_ctx =
  x_config :: json
  x_now :: datetime
  x_repo :: string
  x_run_url :: string
  x_dry_run :: bool
  x_summary :: bool   \<comment> \<open>GITHUB_STEP_SUMMARY is set\<close>

definition issues_cfg :: "run_ctx \<Rightarrow> json option" where
  "issues_cfg ctx = jget_or (x_config ctx) ''issues'' (JObj [])"

definition section_cfg :: "run_ctx \<Rightarrow> string \<Rightarrow> json option" where
  "section_cfg ctx name = jget_or (x_config ctx) name (JObj [])"

definition write_summary :: "run_ctx \<Rightarrow> string \<Rightarrow> unit io" where
  "write_summary ctx text = (if x_summary ctx then emit (Summary (text @ newline)) else ret ())"

definition finish :: "run_ctx \<Rightarrow> string list \<Rightarrow> unit io" where
  "finish ctx lines =
     seq (emit (Print (str_join newline lines))) (write_summary ctx (str_join newline lines))"

definition exit_code :: "run_ctx \<Rightarrow> int option" where
  "exit_code ctx =
     do { v \<leftarrow> jget_d (x_config ctx) ''fail_on_findings'' (JBool True); Some (if truthy v then 1 else 0) }"

section \<open>Look\<close>

definition collect_cluster_state :: "json \<Rightarrow> (json \<times> json \<times> json) io" where
  "collect_cluster_state config =
     bnd (opt (do { cfg \<leftarrow> jget_or config ''argo_stuck_op'' (JObj []);
                    ns \<leftarrow> jget_d cfg ''namespace'' (JStr ''argocd'');
                    as_text ns })) (\<lambda>argo_ns.
     bnd (kubectl_json [''-n'', argo_ns, ''get'', ''applications'', ''-o'', ''json'']) (\<lambda>applications.
     bnd (kubectl_json [''get'', ''pods'', ''-A'', ''-o'', ''json'']) (\<lambda>pods.
     bnd (kubectl_json [''get'', ''nodes'', ''-o'', ''json'']) (\<lambda>nodes.
     ret (applications, pods, nodes)))))"

definition state_findings :: "run_ctx \<Rightarrow> json \<times> json \<times> json \<Rightarrow> finding list option" where
  "state_findings ctx state =
     (let (applications, pods, nodes) = state; config = x_config ctx; now = x_now ctx
      in do { a \<leftarrow> detect_stuck_argo_ops applications config now;
              b \<leftarrow> detect_dark_nodes nodes config now;
              c \<leftarrow> detect_chronic_crashloop pods config now;
              d \<leftarrow> detect_stuck_container_creating pods config now;
              Some (a @ b @ c @ d) })"

definition count_items :: "json \<Rightarrow> string option" where
  "count_items x =
     do { v \<leftarrow> jget_or x ''items'' (JList []); xs \<leftarrow> jiter v; Some (show_int (int (length xs))) }"

definition head_lines ::
  "run_ctx \<Rightarrow> json \<times> json \<times> json \<Rightarrow> json list \<times> string \<Rightarrow> finding list \<Rightarrow> string list option" where
  "head_lines ctx state usage findings =
     (let (applications, pods, nodes) = state
      in do { na \<leftarrow> count_items applications;
              nn \<leftarrow> count_items nodes;
              np \<leftarrow> count_items pods;
              Some [''## Deployment-freeze watchdog'', [],
                    ''- checked at: `'' @ isoformat (x_now ctx) @ ''`'',
                    ''- Argo Applications scanned: '' @ na,
                    ''- nodes scanned: '' @ nn,
                    ''- pods scanned: '' @ np,
                    ''- PVC usage source: **'' @ snd usage @ ''** (''
                      @ show_int (int (length (fst usage))) @ '' volumes)'',
                    ''- findings: **'' @ show_int (int (length findings)) @ ''**'', []] })"

record looked =
  k_state :: "json \<times> json \<times> json"
  k_findings :: "finding list"
  k_lines :: "string list"

definition look :: "run_ctx \<Rightarrow> looked io" where
  "look ctx =
     bnd (collect_cluster_state (x_config ctx)) (\<lambda>state.
     bnd (opt (state_findings ctx state)) (\<lambda>fs.
     bnd (collect_pvc_usage (fst (snd state)) (x_config ctx)) (\<lambda>usage.
     bnd (opt (detect_pvc_pressure (fst usage) (x_config ctx))) (\<lambda>ps.
     bnd (opt (head_lines ctx state usage (fs @ ps))) (\<lambda>lines.
     seq (each (\<lambda>f _. emit (Print (''DETECTED '' @ f_key f @ '': '' @ f_summary f))) (fs @ ps) ())
     (ret \<lparr>k_state = state, k_findings = fs @ ps, k_lines = lines\<rparr>))))))"

section \<open>Resolved issues\<close>

text \<open>The open issues after the Argo issues and the issues of the two churning kinds whose condition
  is gone were closed, and the lines about them; \<open>keys kind\<close> are the keys still active.\<close>

definition label_of :: "run_ctx \<Rightarrow> json option" where
  "label_of ctx = do { cfg \<leftarrow> issues_cfg ctx; jget_d cfg ''label'' (JStr ''deploy-watchdog'') }"

definition prefix_of :: "run_ctx \<Rightarrow> string option" where
  "prefix_of ctx =
     do { cfg \<leftarrow> issues_cfg ctx; map_option py_str (jget_d cfg ''title_prefix'' (JStr ''[watchdog]'')) }"

definition active_keys :: "finding list \<Rightarrow> string \<Rightarrow> string list" where
  "active_keys fs kind = map f_key (filter (\<lambda>f. f_kind f = kind) fs)"

definition stuck_apps :: "finding list \<Rightarrow> string list" where
  "stuck_apps fs = map f_subject (filter (\<lambda>f. f_kind f = KIND_ARGO) fs)"

definition close_resolved :: "run_ctx \<Rightarrow> json \<Rightarrow> finding list \<Rightarrow> open_lines io" where
  "close_resolved ctx applications fs =
     bnd (opt (label_of ctx)) (\<lambda>label.
     bnd (list_open_watchdog_issues (x_repo ctx) label) (\<lambda>listed.
     bnd (opt (jiter listed)) (\<lambda>open0.
     bnd (close_resolved_argo_issues (x_repo ctx) open0 (stuck_apps fs) applications) (\<lambda>(open1, l1).
     bnd (close_resolved_findings (x_repo ctx) open1 KIND_CREATING (active_keys fs KIND_CREATING)) (\<lambda>(open2, l2).
     bnd (close_resolved_findings (x_repo ctx) open2 KIND_CRASHLOOP (active_keys fs KIND_CRASHLOOP)) (\<lambda>(open3, l3).
     ret (open3, l1 @ l2 @ l3)))))))"

section \<open>A clean run and a dry run\<close>

definition CLEAN_LINE :: string where
  "CLEAN_LINE =
     ''No stuck Argo operation, chronic crash loop, stuck ContainerCreating or PVC above threshold.''"

definition clean_run :: "run_ctx \<Rightarrow> looked \<Rightarrow> int io" where
  "clean_run ctx k =
     bnd (if x_repo ctx \<noteq> [] \<and> \<not> x_dry_run ctx
          then bnd (close_resolved ctx (fst (k_state k)) []) (\<lambda>(_, closed). ret closed)
          else ret []) (\<lambda>closed.
     seq (finish ctx (k_lines k @ [CLEAN_LINE] @ closed)) (ret 0))"

definition dry_lines :: "finding \<Rightarrow> string list" where
  "dry_lines f =
     [''- `'' @ f_key f @ ''` '' @ em_dash @ '' '' @ f_summary f, [], ''```json'', facts_json f, ''```'']"

definition dry_run :: "run_ctx \<Rightarrow> looked \<Rightarrow> int io" where
  "dry_run ctx k =
     seq (finish ctx (k_lines k @ [''### Dry run '' @ em_dash @ '' no issue filed, nothing dispatched'', []]
            @ concat (map dry_lines (k_findings k))))
      (opt (exit_code ctx))"

section \<open>Findings that are already tracked\<close>

definition tracked_line :: "finding \<times> json \<Rightarrow> string option" where
  "tracked_line d =
     do { url \<leftarrow> url_of (snd d);
          Some (''- `'' @ f_key (fst d) @ ''` '' @ em_dash @ '' already tracked by '' @ url @ '' (not re-filed)'') }"

definition instance_comment :: "finding \<Rightarrow> json \<Rightarrow> string" where
  "instance_comment f pod_name =
     emoji_repeat @ '' Still occurring on a new pod instance:'' @ newline @ newline
     @ ''```json'' @ newline @ facts_json f @ newline @ ''```'' @ newline @ newline
     @ instance_marker (py_str pod_name)"

definition seen_text :: "json \<Rightarrow> json list \<Rightarrow> string option" where
  "seen_text issue comments =
     do { body \<leftarrow> text_of issue ''body'';
          cs \<leftarrow> those (map (\<lambda>c. text_of c ''body'') comments);
          Some (body @ str_join newline cs) }"

definition updated_line :: "finding \<Rightarrow> string \<Rightarrow> json \<Rightarrow> string" where
  "updated_line f url pod_name =
     ''- `'' @ f_key f @ ''` '' @ em_dash @ '' updated '' @ url @ '' (instance `'' @ py_str pod_name @ ''`)''"

definition not_updated :: "run_ctx \<Rightarrow> finding \<Rightarrow> json \<Rightarrow> json \<Rightarrow> string \<Rightarrow> string list io" where
  "not_updated ctx f issue number err =
     bnd (opt (url_of issue)) (\<lambda>url.
     seq (emit (could_not_comment number err))
      (let line = ''- `'' @ f_key f @ ''` '' @ em_dash @ '' could not update '' @ url @ '': '' @ err
       in if is_comment_cap_error err
          then bnd (rotate_capped_issue (x_repo ctx) issue) (\<lambda>l. ret [line, l])
          else ret [line]))"

definition refresh_duplicate :: "run_ctx \<Rightarrow> finding \<times> json \<Rightarrow> string list \<Rightarrow> string list io" where
  "refresh_duplicate ctx d lines =
     (let f = fst d; issue = snd d; pod_name = fact f ''pod''
      in if \<not> churn_kind (f_kind f) \<or> \<not> truthy pod_name then ret lines
         else bnd (opt (jidx issue ''number'')) (\<lambda>number.
              bnd (list_issue_comments (x_repo ctx) number) (\<lambda>comments.
              bnd (opt (seen_text issue comments)) (\<lambda>seen.
                if map_option JStr (latest_instance_marker seen) = Some pod_name then ret lines
                else on_github_error
                  (seq (comment_issue (x_repo ctx) number (instance_comment f pod_name))
                    (bnd (opt (url_of issue)) (\<lambda>url. ret (lines @ [updated_line f url pod_name]))))
                  (\<lambda>err. bnd (not_updated ctx f issue number err) (\<lambda>ls. ret (lines @ ls)))))))"

section \<open>A stuck Argo operation that is already tracked\<close>

fun any_mentions :: "string \<Rightarrow> json list \<Rightarrow> bool option" where
  "any_mentions t [] = Some False"
| "any_mentions t (c # cs) =
     do { b \<leftarrow> text_of c ''body''; (if sublist t b then Some True else any_mentions t cs) }"

definition op_marker :: "finding \<Rightarrow> string" where
  "op_marker f = argo_terminated_marker (f_subject f) (fact f ''startedAt'')"

definition terminate_workflow :: "json \<Rightarrow> json option" where
  "terminate_workflow cfg = jget_d cfg ''auto_terminate_workflow'' (JStr ''argo-terminate-op.yml'')"

definition terminate_ref :: "json \<Rightarrow> json option" where
  "terminate_ref cfg = jget_d cfg ''auto_terminate_ref'' (JStr ''main'')"

definition wedged_comment :: "finding \<Rightarrow> json \<Rightarrow> string" where
  "wedged_comment f workflow =
     emoji_repeat @ '' Still wedged: '' @ f_summary f @ newline @ newline
     @ ''Dispatched `'' @ py_str workflow @ ''` with `app='' @ f_subject f @ ''` for this operation ''
     @ ''(startedAt `'' @ py_str (fact f ''startedAt'') @ ''`). Blocking resource: ''
     @ ''`'' @ py_str (fact f ''message'') @ ''`. If it re-wedges on the same resource, ''
     @ ''that resource can never become healthy '' @ em_dash @ '' terminating again will not help; ''
     @ ''fix or remove it in git.'' @ newline @ newline @ op_marker f"

definition dispatched_line :: "finding \<Rightarrow> json \<Rightarrow> string \<Rightarrow> string" where
  "dispatched_line f workflow url =
     ''- `'' @ f_key f @ ''` '' @ em_dash @ '' already tracked; dispatched `'' @ py_str workflow
     @ ''` ('' @ url @ '')''"

definition dispatch_for :: "run_ctx \<Rightarrow> json \<Rightarrow> finding \<Rightarrow> unit io" where
  "dispatch_for ctx cfg f =
     bnd (opt (terminate_workflow cfg)) (\<lambda>workflow.
     bnd (opt (terminate_ref cfg)) (\<lambda>rf.
     dispatch_terminate_op (x_repo ctx) workflow (f_subject f) rf))"

definition terminate_duplicate ::
  "run_ctx \<Rightarrow> json \<Rightarrow> finding \<times> json \<Rightarrow> string list \<Rightarrow> string list io" where
  "terminate_duplicate ctx cfg d lines =
     (let f = fst d; issue = snd d
      in if f_kind f \<noteq> KIND_ARGO then ret lines
         else bnd (opt (text_of issue ''body'')) (\<lambda>body.
           if sublist (op_marker f) body then ret lines
           else bnd (opt (jidx issue ''number'')) (\<lambda>number.
             bnd (list_issue_comments (x_repo ctx) number) (\<lambda>comments.
             bnd (opt (any_mentions (op_marker f) comments)) (\<lambda>already.
               if already then ret lines
               else seq (dispatch_for ctx cfg f)
                 (bnd (opt (terminate_workflow cfg)) (\<lambda>workflow.
                  seq (comment_issue (x_repo ctx) number (wedged_comment f workflow))
                  (bnd (opt (url_of issue)) (\<lambda>url.
                   ret (lines @ [dispatched_line f workflow url])))))))))) "

definition auto_terminate :: "json \<Rightarrow> bool option" where
  "auto_terminate cfg = map_option truthy (jget_d cfg ''auto_terminate'' (JBool True))"

definition terminate_duplicates ::
  "run_ctx \<Rightarrow> (finding \<times> json) list \<Rightarrow> string list \<Rightarrow> string list io" where
  "terminate_duplicates ctx duplicates lines =
     bnd (opt (section_cfg ctx ''argo_stuck_op'')) (\<lambda>cfg.
     bnd (opt (auto_terminate cfg)) (\<lambda>auto.
       if auto then each (terminate_duplicate ctx cfg) duplicates lines else ret lines))"

section \<open>Dark nodes: recovery and the ladder\<close>

definition recovered_note :: "string \<Rightarrow> string" where
  "recovered_note node_name =
     emoji_check @ '' Node `'' @ node_name @ ''` is no longer reporting `Ready=Unknown` '' @ em_dash
     @ '' closing.'' @ newline @ newline
     @ ''If this recovered on its own rather than via one of this watchdog's ''
     @ ''actions, it's worth a second look before treating the underlying cause ''
     @ ''as resolved.''"

definition close_recovered :: "run_ctx \<Rightarrow> json list \<Rightarrow> json \<Rightarrow> string list \<Rightarrow> string list io" where
  "close_recovered ctx still_unknown issue lines =
     bnd (opt (dark_node_name_from_issue issue)) (\<lambda>name.
       case name of
         None \<Rightarrow> ret lines
       | Some node_name \<Rightarrow>
           (if List.member still_unknown (JStr node_name) then ret lines
            else bnd (close_with (x_repo ctx) issue (recovered_note node_name)
                       (''- `dark-node:'' @ node_name @ ''` '' @ em_dash @ '' node recovered, closed ''))
                     (\<lambda>line. ret (lines @ [line]))))"

fun action_name :: "action \<Rightarrow> string" where
  "action_name NoAction = ''none''"
| "action_name Reboot = ''reboot''"
| "action_name Reinstall = ''reinstall''"
| "action_name RefuseQuorum = ''refuse-quorum''"
| "action_name RefuseElastic = ''refuse-elastic''"

definition reinstall_template :: "json \<Rightarrow> json option" where
  "reinstall_template cfg =
     jget_d cfg ''reinstall_template_cp''
       (JStr ''cluster-autoscaler/contabo-externalgrpc/deploy/cp-userdata-eth1-join.template'')"

text \<open>The dispatch an action makes; the refusals make none.\<close>

definition act_dispatch :: "run_ctx \<Rightarrow> json \<Rightarrow> finding \<Rightarrow> string \<Rightarrow> action \<Rightarrow> string \<Rightarrow> unit io" where
  "act_dispatch ctx template f issue_number a message =
     (let external_ip = py_str (jor (fact f ''external_ip'') (JStr []))
      in case a of
           Reboot \<Rightarrow>
             bnd (opt (jidx (JObj (f_facts f)) ''node'')) (\<lambda>node.
             dispatch_reboot (x_repo ctx) node external_ip
               (''auto-reboot ('' @ f_key f @ ''): '' @ message) issue_number)
         | Reinstall \<Rightarrow>
             bnd (opt (jidx (JObj (f_facts f)) ''node'')) (\<lambda>node.
             dispatch_cp_reinstall (x_repo ctx) node external_ip (py_str template) issue_number)
         | _ \<Rightarrow> ret ())"

definition acted_line :: "finding \<Rightarrow> action \<Rightarrow> string \<Rightarrow> string \<Rightarrow> string" where
  "acted_line f a message url =
     ''- `'' @ f_key f @ ''` '' @ em_dash @ '' '' @ action_name a @ '': '' @ message @ '' ('' @ url @ '')''"

text \<open>The section \<open>dark_node\<close> of the configuration and the template it names.\<close>

type_synonym dark_cfg = "json \<times> json"

definition act_on_dark_node ::
  "run_ctx \<Rightarrow> dark_cfg \<Rightarrow> finding \<Rightarrow> json \<Rightarrow> jobj \<Rightarrow> string \<Rightarrow> string list \<Rightarrow> string list io" where
  "act_on_dark_node ctx cfg f issue_number state url lines =
     bnd (opt (decide_dark_node_escalation f state (fst cfg) (x_now ctx))) (\<lambda>(a, new_state, message).
       if a = NoAction then ret lines
       else seq (act_dispatch ctx (snd cfg) f (py_str issue_number) a message)
            (seq (comment_issue (x_repo ctx) issue_number (act_comment a message new_state))
            (ret (lines @ [acted_line f a message url]))))"

definition escalate_duplicate :: "run_ctx \<Rightarrow> dark_cfg \<Rightarrow> finding \<times> json \<Rightarrow> string list \<Rightarrow> string list io" where
  "escalate_duplicate ctx cfg d lines =
     (let f = fst d; issue = snd d
      in if f_kind f \<noteq> KIND_DARK_NODE then ret lines
         else bnd (opt (jidx issue ''number'')) (\<lambda>number.
              bnd (list_issue_comments (x_repo ctx) number) (\<lambda>comments.
              bnd (opt (parse_dark_node_state comments)) (\<lambda>state.
              bnd (opt (jget_d issue ''url'' (JStr []))) (\<lambda>url.
              act_on_dark_node ctx cfg f number state (py_str url) lines)))))"

section \<open>Filing\<close>

text \<open>\<open>xs[:n]\<close>.\<close>

definition slice_to :: "int \<Rightarrow> 'a list \<Rightarrow> 'a list" where
  "slice_to n xs = (if 0 \<le> n then take (nat n) xs else take (length xs - nat (- n)) xs)"

text \<open>Which of the new findings are filed: Argo first and exempt from the ceiling of open issues,
  the rest into the slots that are left.\<close>

definition select_to_file :: "int \<Rightarrow> int \<Rightarrow> nat \<Rightarrow> finding list \<Rightarrow> finding list" where
  "select_to_file max_per_run max_open n_open ordered =
     (let argo_new = slice_to max_per_run (filter (\<lambda>f. f_kind f = KIND_ARGO) ordered);
          rest = filter (\<lambda>f. f_kind f \<noteq> KIND_ARGO) ordered;
          rest_slots = max 0 (min (max_per_run - int (length argo_new)) (max_open - int n_open))
      in argo_new @ slice_to rest_slots rest)"

definition overflow_of :: "finding list \<Rightarrow> finding list \<Rightarrow> finding list" where
  "overflow_of ordered to_file = filter (\<lambda>f. \<not> List.member to_file f) ordered"

definition overflow_lines :: "int \<Rightarrow> int \<Rightarrow> nat \<Rightarrow> finding list \<Rightarrow> string list" where
  "overflow_lines max_per_run max_open n_open overflow =
     (if overflow = [] then []
      else (''- '' @ show_int (int (length overflow)) @ '' further condition(s) detected but NOT filed this run ''
            @ ''(open='' @ show_int (int n_open) @ '', max_open='' @ show_int max_open @ '', max_per_run=''
            @ show_int max_per_run @ ''); they file once open issues are closed:'')
           # map (\<lambda>f. ''  - `'' @ f_key f @ ''` '' @ em_dash @ '' '' @ f_summary f) overflow)"

definition terminated_action :: "json \<Rightarrow> json \<Rightarrow> json \<Rightarrow> finding \<Rightarrow> string" where
  "terminated_action workflow cfg minutes f =
     ''Dispatched `'' @ py_str workflow @ ''` with `app='' @ f_subject f @ ''` '' @ em_dash
     @ '' the operation had already been Running past the '' @ py_str minutes
     @ ''m threshold. Terminating a stale op is ''
     @ ''safe and reversible: Argo re-syncs from git, which is the desired state. ''
     @ ''Nothing else was touched.'' @ newline @ newline @ op_marker f"

definition file_actions :: "run_ctx \<Rightarrow> json \<Rightarrow> finding \<Rightarrow> string list io" where
  "file_actions ctx cfg f =
     (if f_kind f \<noteq> KIND_ARGO then ret []
      else bnd (opt (auto_terminate cfg)) (\<lambda>auto.
        if \<not> auto then ret []
        else seq (dispatch_for ctx cfg f)
          (bnd (opt (terminate_workflow cfg)) (\<lambda>workflow.
           bnd (opt (jget_d cfg ''running_minutes'' (JInt 45))) (\<lambda>minutes.
           ret [terminated_action workflow cfg minutes f])))))"

text \<open>\<open>url.rstrip("/").rsplit("/", 1)[-1]\<close>, when it is a number.\<close>

definition issue_number_of :: "string \<Rightarrow> int option" where
  "issue_number_of url =
     (let n = last (split_on (\<lambda>c. c = CHR ''/'') (rstrip_chr (CHR ''/'') url))
      in if n \<noteq> [] \<and> list_all is_digit n then Some (digits_val n) else None)"

definition file_finding :: "run_ctx \<Rightarrow> json \<Rightarrow> dark_cfg \<Rightarrow> string list \<Rightarrow> finding \<Rightarrow> string list io" where
  "file_finding ctx argo_cfg dark_cfg lines f =
     bnd (file_actions ctx argo_cfg f) (\<lambda>actions.
     bnd (opt (label_of ctx)) (\<lambda>label.
     bnd (opt (prefix_of ctx)) (\<lambda>pre.
     bnd (opt (build_issue_body f (x_config ctx) (x_run_url ctx) actions)) (\<lambda>body.
     bnd (create_issue (x_repo ctx) label (f_title pre f) body) (\<lambda>url.
       let filed = lines @ [''- `'' @ f_key f @ ''` '' @ em_dash @ '' filed '' @ url]
                   @ map (\<lambda>a. ''  - '' @ a) actions
       in case (if f_kind f = KIND_DARK_NODE then issue_number_of url else None) of
            None \<Rightarrow> ret filed
          | Some n \<Rightarrow> act_on_dark_node ctx dark_cfg f (JInt n) DEFAULT_DARK_STATE url filed)))))"

definition file_new :: "run_ctx \<Rightarrow> dark_cfg \<Rightarrow> finding list \<Rightarrow> nat \<Rightarrow> string list \<Rightarrow> string list io" where
  "file_new ctx dark_cfg new n_open lines =
     bnd (opt (issues_cfg ctx)) (\<lambda>cfg.
     bnd (opt (int_opt cfg ''max_per_run'' (JInt 10))) (\<lambda>max_per_run.
     bnd (opt (int_opt cfg ''max_open'' (JInt 20))) (\<lambda>max_open.
     bnd (opt (do { p \<leftarrow> jget cfg ''priority''; prioritize new p })) (\<lambda>ordered.
       let to_file = select_to_file max_per_run max_open n_open ordered;
           lines1 = lines @ overflow_lines max_per_run max_open n_open (overflow_of ordered to_file)
       in seq (if to_file = [] then ret ()
               else bnd (opt (label_of ctx)) (\<lambda>label.
                    bnd (opt (jget_d cfg ''label_color'' (JStr ''B60205''))) (\<lambda>color.
                    ensure_label (x_repo ctx) label color)))
          (bnd (opt (section_cfg ctx ''argo_stuck_op'')) (\<lambda>argo_cfg.
           each (\<lambda>f ls. file_finding ctx argo_cfg dark_cfg ls f) to_file lines1))))))"

section \<open>The run\<close>

definition acting_run :: "run_ctx \<Rightarrow> looked \<Rightarrow> int io" where
  "acting_run ctx k =
     (let (applications, pods, nodes) = k_state k; fs = k_findings k
      in bnd (close_resolved ctx applications fs) (\<lambda>(open_issues, closed).
         bnd (opt (prefix_of ctx)) (\<lambda>pre.
         bnd (opt (filter_new_findings fs open_issues pre)) (\<lambda>(new, duplicates).
         bnd (opt (those (map tracked_line duplicates))) (\<lambda>tracked.
         bnd (each (refresh_duplicate ctx) duplicates (k_lines k @ closed @ tracked)) (\<lambda>lines1.
         bnd (terminate_duplicates ctx duplicates lines1) (\<lambda>lines2.
         bnd (opt (section_cfg ctx ''dark_node'')) (\<lambda>dark_cfg.
         bnd (opt (currently_unknown_node_names nodes)) (\<lambda>unknown.
         bnd (each (close_recovered ctx unknown) open_issues lines2) (\<lambda>lines3.
         bnd (opt (reinstall_template dark_cfg)) (\<lambda>template.
         bnd (each (escalate_duplicate ctx (dark_cfg, template)) duplicates lines3) (\<lambda>lines4.
         bnd (file_new ctx (dark_cfg, template) new (length open_issues) lines4) (\<lambda>lines5.
         seq (finish ctx lines5) (opt (exit_code ctx)))))))))))))))"

definition main :: "run_ctx \<Rightarrow> int io" where
  "main ctx =
     bnd (opt (do { label \<leftarrow> label_of ctx; prefix_of ctx })) (\<lambda>_.
     bnd (look ctx) (\<lambda>k.
       if k_findings k = [] then clean_run ctx k
       else if x_dry_run ctx then dry_run ctx k
       else if x_repo ctx = []
       then raise (GitHubError ''--repo (or GITHUB_REPOSITORY) is required to file issues'')
       else acting_run ctx k))"

definition failed_run :: "run_ctx \<Rightarrow> string \<Rightarrow> int io" where
  "failed_run ctx err =
     seq (emit (Print (''::error::deployment watchdog could not complete: '' @ err)))
     (seq (write_summary ctx (''## Deployment-freeze watchdog FAILED'' @ newline @ newline
             @ ''`'' @ err @ ''`'' @ newline))
     (ret 2))"

definition run :: "run_ctx \<Rightarrow> int io" where
  "run ctx =
     handle (main ctx)
       (\<lambda>e. case e of Uncaught \<Rightarrow> raise Uncaught | ClusterUnreachable s \<Rightarrow> failed_run ctx s
            | UnsafeCommand s \<Rightarrow> failed_run ctx s | GitHubError s \<Rightarrow> failed_run ctx s)"

section \<open>How many are filed\<close>

lemma length_slice_to: "0 \<le> n \<Longrightarrow> length (slice_to n xs) \<le> nat n"
  by (simp add: slice_to_def)

lemma length_select_to_file:
  assumes "0 \<le> m"
  shows "length (select_to_file m max_open n_open ordered) \<le> nat m"
proof -
  define argo where "argo = slice_to m (filter (\<lambda>f. f_kind f = KIND_ARGO) ordered)"
  define slots where "slots = max 0 (min (m - int (length argo)) (max_open - int n_open))"
  define rest where "rest = filter (\<lambda>f. f_kind f \<noteq> KIND_ARGO) ordered"
  have "length argo \<le> nat m" using assms length_slice_to by (simp add: argo_def)
  moreover have "nat slots \<le> nat m - length argo" using assms calculation by (simp add: slots_def)
  moreover have "length (slice_to slots rest) \<le> nat slots"
    by (rule length_slice_to) (simp add: slots_def)
  ultimately have "length argo + length (slice_to slots rest) \<le> nat m" by linarith
  then show ?thesis by (simp add: select_to_file_def argo_def slots_def rest_def Let_def)
qed

end
