(* ===== verification/Watchdog_Safety.thy ===== *)
theory Watchdog_Safety
  imports Watchdog_Main
begin

text \<open>
  What any run of the watchdog can do to the outside: the processes it starts and nothing else,
  whatever the cluster, Prometheus and GitHub answer, and whether the run returns or raises.
\<close>

section \<open>The allowed processes\<close>

text \<open>The four reads of the cluster, the df of a validated pod and mount, the reads and writes of
  issues, and the three workflow dispatches with a validated node or application name.\<close>

definition kube_read :: "string list \<Rightarrow> bool" where
  "kube_read args \<longleftrightarrow>
     (\<exists>ns. args = [''-n'', ns, ''get'', ''applications'', ''-o'', ''json''])
     \<or> args = [''get'', ''pods'', ''-A'', ''-o'', ''json''] \<or> args = [''get'', ''nodes'', ''-o'', ''json'']
     \<or> (\<exists>p. args = [''get'', ''--raw'', ''/api/v1/namespaces/'' @ p])"

definition df_call :: "string list \<Rightarrow> bool" where
  "df_call argv \<longleftrightarrow>
     (\<exists>ns pod ct path. argv = df_argv ns pod ct path \<and> name_ok ns \<and> name_ok pod \<and> name_ok ct \<and> path_ok path)"

definition issue_call :: "string list \<Rightarrow> bool" where
  "issue_call args \<longleftrightarrow>
     (\<exists>verb rest. args = ''issue'' # verb # rest \<and> verb \<in> {''list'', ''view'', ''create'', ''comment'', ''close''})
     \<or> (\<exists>rest. args = ''label'' # ''create'' # rest)"

definition node_dispatch :: "run_ctx \<Rightarrow> string \<Rightarrow> string list \<Rightarrow> bool" where
  "node_dispatch ctx workflow args \<longleftrightarrow>
     (\<exists>n rest. name_ok n \<and> args = [''workflow'', ''run'', workflow, ''--repo'', x_repo ctx, ''--ref'', ''main'',
        ''-f'', ''node_name='' @ n] @ rest)"

definition app_dispatch :: "run_ctx \<Rightarrow> string list \<Rightarrow> bool" where
  "app_dispatch ctx args \<longleftrightarrow>
     (\<exists>cfg w rf app. name_ok app \<and> section_cfg ctx ''argo_stuck_op'' = Some cfg
        \<and> terminate_workflow cfg = Some (JStr w) \<and> terminate_ref cfg = Some (JStr rf)
        \<and> args = [''workflow'', ''run'', w, ''--repo'', x_repo ctx, ''--ref'', rf, ''-f'', ''app='' @ app])"

definition gh_allowed :: "run_ctx \<Rightarrow> string list \<Rightarrow> bool" where
  "gh_allowed ctx args \<longleftrightarrow>
     issue_call args \<or> node_dispatch ctx ''contabo-instance-reboot.yml'' args
     \<or> node_dispatch ctx ''ca-reinstall-controlplane.yml'' args \<or> app_dispatch ctx args"

fun cluster_event :: "event \<Rightarrow> bool" where
  "cluster_event (Proc argv body) \<longleftrightarrow>
     body = None \<and> ((\<exists>args. argv = ''kubectl'' # args \<and> kube_read args) \<or> df_call argv)"
| "cluster_event (Print s) = True"
| "cluster_event (Summary s) = True"

fun allowed :: "run_ctx \<Rightarrow> event \<Rightarrow> bool" where
  "allowed ctx (Proc argv body) \<longleftrightarrow>
     cluster_event (Proc argv body) \<or> (\<exists>args. argv = ''gh'' # args \<and> gh_allowed ctx args)"
| "allowed ctx (Print s) = True"
| "allowed ctx (Summary s) = True"

lemma cluster_allowed: "cluster_event e \<Longrightarrow> allowed ctx e"
  by (cases e) auto

section \<open>Looking only reads the cluster\<close>

named_theorems cluster_emits \<open>operations that only read the cluster\<close>

lemma kubectl_emits:
  assumes "kube_read args"
  shows "emits cluster_event (kubectl args)"
  unfolding kubectl_def assert_safe_kubectl_def
  by (intro emits_rules) (use assms in auto)

lemma kubectl_json_emits:
  "kube_read args \<Longrightarrow> emits cluster_event (kubectl_json args)"
  unfolding kubectl_json_def by (intro emits_rules kubectl_emits)

lemma check_name_yields: "yields ok (check_name ok msg v)"
  by (auto simp: yields_def check_name_def bnd_Inr_iff split: if_splits)

lemma check_name_emits: "emits P (check_name ok msg v)"
  unfolding check_name_def by (intro emits_rules)

lemma kubectl_exec_df_emits [cluster_emits]: "emits cluster_event (kubectl_exec_df ns pod ct path)"
  unfolding kubectl_exec_df_def
  apply (rule emits_bnd_yields [OF check_name_emits check_name_yields])+
  apply (intro emits_rules)
  apply (auto simp: df_call_def)
  done

lemma prometheus_path_prefix: "prometheus_path q config = Some p \<Longrightarrow> \<exists>r. p = ''/api/v1/namespaces/'' @ r"
  by (auto simp: prometheus_path_def)

lemma opt_yields: "yields (\<lambda>x. m = Some x) (opt m)"
  by (auto simp: yields_def opt_def split: option.splits)

lemma prometheus_query_emits [cluster_emits]: "emits cluster_event (prometheus_query q config)"
  unfolding prometheus_query_def
  apply (rule emits_bnd_yields [OF emits_opt opt_yields])
  apply (drule prometheus_path_prefix)
  apply (intro emits_rules kubectl_emits)
  apply (auto simp: kube_read_def)
  done

lemma parse_prometheus_vector_emits: "emits P (parse_prometheus_vector j k)"
  unfolding parse_prometheus_vector_def by (intro emits_rules)

lemma pvc_usage_emits [cluster_emits]: "emits cluster_event (pvc_usage_via_prometheus config)"
  unfolding pvc_usage_via_prometheus_def byte_columns_def
  by (intro emits_rules cluster_emits parse_prometheus_vector_emits)

lemma df_target_emits [cluster_emits]: "emits cluster_event (df_target t acc)"
  unfolding df_target_def df_of_def by (intro emits_rules cluster_emits)

lemma exec_df_emits [cluster_emits]: "emits cluster_event (pvc_usage_via_exec_df pods)"
  unfolding pvc_usage_via_exec_df_def by (intro emits_rules cluster_emits) simp

lemma collect_pvc_usage_emits [cluster_emits]: "emits cluster_event (collect_pvc_usage pods config)"
  unfolding collect_pvc_usage_def df_fallback_def by (intro emits_rules cluster_emits) simp

lemma collect_cluster_state_emits [cluster_emits]: "emits cluster_event (collect_cluster_state config)"
  unfolding collect_cluster_state_def
  by (intro emits_rules kubectl_json_emits) (simp_all add: kube_read_def)

lemma look_emits [cluster_emits]: "emits cluster_event (look ctx)"
  unfolding look_def by (intro emits_rules cluster_emits) simp

lemma finish_emits:
  assumes "\<And>s. P (Print s)" and "\<And>s. P (Summary s)"
  shows "emits P (finish ctx lines)"
  unfolding finish_def write_summary_def by (intro emits_rules assms)

section \<open>Acting only calls gh, and only as allowed\<close>

fun creates :: "event \<Rightarrow> bool" where
  "creates (Proc argv body) \<longleftrightarrow> take 3 argv = [''gh'', ''issue'', ''create'']"
| "creates _ = False"

definition quiet :: "run_ctx \<Rightarrow> event \<Rightarrow> bool" where
  "quiet ctx e \<longleftrightarrow> allowed ctx e \<and> \<not> creates e"

named_theorems gh_emits \<open>operations on GitHub that create no issue\<close>

lemma gh_emits_of:
  assumes "gh_allowed ctx args" and "take 2 args \<noteq> [''issue'', ''create'']"
  shows "emits (quiet ctx) (gh args body)"
proof -
  have "quiet ctx (Proc (''gh'' # args) body)"
    using assms by (auto simp: quiet_def)
  then show ?thesis unfolding gh_def by (intro emits_rules)
qed

lemma issue_call_of:
  "verb \<in> {''list'', ''view'', ''create'', ''comment'', ''close''} \<Longrightarrow> gh_allowed ctx (''issue'' # verb # rest)"
  "gh_allowed ctx (''label'' # ''create'' # rest)"
  unfolding gh_allowed_def issue_call_def by blast+

lemma list_open_emits [gh_emits]: "emits (quiet ctx) (list_open_watchdog_issues repo label)"
  unfolding list_open_watchdog_issues_def by (intro emits_rules gh_emits_of issue_call_of) auto

lemma ensure_label_emits [gh_emits]: "emits (quiet ctx) (ensure_label repo label color)"
  unfolding ensure_label_def by (intro emits_rules gh_emits_of issue_call_of) auto

lemma list_comments_emits [gh_emits]: "emits (quiet ctx) (list_issue_comments repo n)"
  unfolding list_issue_comments_def by (intro emits_rules gh_emits_of issue_call_of) auto

lemma comment_issue_emits [gh_emits]: "emits (quiet ctx) (comment_issue repo n body)"
  unfolding comment_issue_def by (intro emits_rules gh_emits_of issue_call_of) auto

lemma close_issue_emits [gh_emits]: "emits (quiet ctx) (close_issue repo n)"
  unfolding close_issue_def by (intro emits_rules gh_emits_of issue_call_of) auto

lemma on_github_error_emits [gh_emits]:
  "emits P m \<Longrightarrow> (\<And>s. emits P (h s)) \<Longrightarrow> emits P (on_github_error m h)"
  unfolding on_github_error_def by (intro emits_rules)

lemma could_not_comment_quiet: "quiet ctx (could_not_comment n err)"
  by (simp add: could_not_comment_def quiet_def)

lemma comment_best_effort_emits [gh_emits]: "emits (quiet ctx) (comment_best_effort repo n body)"
  unfolding comment_best_effort_def by (intro emits_rules gh_emits could_not_comment_quiet)

lemma rotate_emits [gh_emits]: "emits (quiet ctx) (rotate_capped_issue repo issue)"
  unfolding rotate_capped_issue_def by (intro emits_rules gh_emits)

lemma close_with_emits [gh_emits]: "emits (quiet ctx) (close_with repo issue c l)"
  unfolding close_with_def by (intro emits_rules gh_emits)

lemma close_resolved_argo_emits [gh_emits]:
  "emits (quiet ctx) (close_resolved_argo_issues repo os apps applications)"
  unfolding close_resolved_argo_issues_def close_argo_issue_def by (intro emits_rules gh_emits)

lemma close_resolved_findings_emits [gh_emits]:
  "emits (quiet ctx) (close_resolved_findings repo os kind keys)"
  unfolding close_resolved_findings_def close_finding_issue_def Let_def by (intro emits_rules gh_emits)

lemma close_resolved_emits [gh_emits]: "emits (quiet ctx) (close_resolved ctx' applications fs)"
  unfolding close_resolved_def by (intro emits_rules gh_emits)

text \<open>The dispatches carry a validated name.\<close>

lemma dispatch_reboot_emits [gh_emits]:
  "emits (quiet ctx) (dispatch_reboot (x_repo ctx) node ip reason n)"
  unfolding dispatch_reboot_def
  apply (rule emits_bnd_yields [OF check_name_emits check_name_yields])
  apply (intro emits_rules gh_emits_of)
   apply (auto simp: gh_allowed_def node_dispatch_def)
  done

lemma dispatch_cp_reinstall_emits [gh_emits]:
  "emits (quiet ctx) (dispatch_cp_reinstall (x_repo ctx) node ip template n)"
  unfolding dispatch_cp_reinstall_def
  apply (rule emits_bnd_yields [OF check_name_emits check_name_yields])
  apply (intro emits_rules gh_emits_of)
   apply (auto simp: gh_allowed_def node_dispatch_def)
  done

lemma dispatch_for_emits:
  assumes "section_cfg ctx ''argo_stuck_op'' = Some cfg"
  shows "emits (quiet ctx) (dispatch_for ctx cfg f)"
  unfolding dispatch_for_def dispatch_terminate_op_def
  apply (rule emits_bnd_yields [OF emits_opt opt_yields])+
  apply (rule emits_cases(1), rule emits_raise)
  apply (rule emits_bnd_yields [OF emits_opt opt_yields])+
  apply (intro emits_rules gh_emits_of)
  using assms by (auto simp: gh_allowed_def app_dispatch_def as_text_Some)

lemma not_updated_emits [gh_emits]: "emits (quiet ctx) (not_updated ctx' f issue n err)"
  unfolding not_updated_def Let_def by (intro emits_rules gh_emits could_not_comment_quiet)

lemma refresh_duplicate_emits [gh_emits]: "emits (quiet ctx) (refresh_duplicate ctx' d lines)"
  unfolding refresh_duplicate_def Let_def by (intro emits_rules gh_emits)

lemma terminate_duplicate_emits:
  assumes "section_cfg ctx ''argo_stuck_op'' = Some cfg"
  shows "emits (quiet ctx) (terminate_duplicate ctx cfg d lines)"
  unfolding terminate_duplicate_def Let_def
  by (intro emits_rules gh_emits dispatch_for_emits assms)

lemma terminate_duplicates_emits [gh_emits]: "emits (quiet ctx) (terminate_duplicates ctx ds lines)"
  unfolding terminate_duplicates_def
  apply (rule emits_bnd_yields [OF emits_opt opt_yields])+
  apply (intro emits_rules terminate_duplicate_emits)
  apply assumption
  done

lemma close_recovered_emits [gh_emits]: "emits (quiet ctx) (close_recovered ctx' unknown issue lines)"
  unfolding close_recovered_def by (intro emits_rules gh_emits)

lemma act_dispatch_emits [gh_emits]: "emits (quiet ctx) (act_dispatch ctx template f n a msg)"
  by (cases a) (simp_all add: act_dispatch_def Let_def emits_rules gh_emits)

lemma act_on_dark_node_emits [gh_emits]: "emits (quiet ctx) (act_on_dark_node ctx cfg f n st url lines)"
  unfolding act_on_dark_node_def by (intro emits_rules gh_emits)

lemma escalate_duplicate_emits [gh_emits]: "emits (quiet ctx) (escalate_duplicate ctx cfg d lines)"
  unfolding escalate_duplicate_def Let_def by (intro emits_rules gh_emits)

lemma file_actions_emits:
  assumes "section_cfg ctx ''argo_stuck_op'' = Some cfg"
  shows "emits (quiet ctx) (file_actions ctx cfg f)"
  unfolding file_actions_def by (intro emits_rules gh_emits dispatch_for_emits assms)

lemma quiet_texts: "quiet ctx (Print s)" "quiet ctx (Summary s)"
  by (simp_all add: quiet_def)

lemma finish_quiet [gh_emits]: "emits (quiet ctx) (finish ctx' lines)"
  by (rule finish_emits) (simp_all add: quiet_texts)

lemma failed_run_quiet [gh_emits]: "emits (quiet ctx) (failed_run ctx' err)"
  unfolding failed_run_def write_summary_def by (intro emits_rules quiet_texts)

section \<open>Counting the issues a run files\<close>

definition count_le :: "(event \<Rightarrow> bool) \<Rightarrow> (event \<Rightarrow> bool) \<Rightarrow> nat \<Rightarrow> 'a io \<Rightarrow> bool" where
  "count_le A P n m \<longleftrightarrow>
     (\<forall>env tr. \<exists>es. snd (m env tr) = tr @ es \<and> list_all A es \<and> length (filter P es) \<le> n)"

lemma count_le_emits:
  assumes "emits Q m" and "\<And>e. Q e \<Longrightarrow> A e \<and> \<not> P e"
  shows "count_le A P 0 m"
  unfolding count_le_def
proof (intro allI)
  fix env tr
  obtain es where "snd (m env tr) = tr @ es" "list_all Q es" using assms(1) unfolding emits_def by blast
  moreover from this assms(2) have "list_all A es" "filter P es = []"
    by (auto simp: list_all_iff filter_empty_conv)
  ultimately show "\<exists>es. snd (m env tr) = tr @ es \<and> list_all A es \<and> length (filter P es) \<le> 0" by simp
qed

lemma count_le_bnd:
  assumes "count_le A P i m" and "\<And>x. count_le A P j (f x)"
  shows "count_le A P (i + j) (bnd m f)"
  unfolding count_le_def
proof (intro allI)
  fix env tr
  obtain r t where m: "m env tr = (r, t)" by fastforce
  obtain es where es: "t = tr @ es" "list_all A es" "length (filter P es) \<le> i"
    using assms(1) m unfolding count_le_def by (metis snd_conv)
  show "\<exists>es. snd (bnd m f env tr) = tr @ es \<and> list_all A es \<and> length (filter P es) \<le> i + j"
  proof (cases r)
    case (Inl e)
    with m es show ?thesis by (auto simp: bnd_def intro!: exI [of _ es])
  next
    case (Inr x)
    obtain es' where "snd (f x env t) = t @ es'" "list_all A es'" "length (filter P es') \<le> j"
      using assms(2) [of x] unfolding count_le_def by blast
    with m es Inr show ?thesis by (auto simp: bnd_def intro!: exI [of _ "es @ es'"])
  qed
qed

lemma count_le_mono: "count_le A P i m \<Longrightarrow> i \<le> j \<Longrightarrow> count_le A P j m"
  unfolding count_le_def by (meson le_trans)

lemma count_le_each:
  assumes "\<And>x s. x \<in> set xs \<Longrightarrow> count_le A P 1 (f x s)"
  shows "count_le A P (length xs) (each f xs s)"
  using assms
proof (induction xs arbitrary: s)
  case Nil
  show ?case by (auto simp: count_le_def)
next
  case (Cons x xs)
  have "count_le A P (1 + length xs) (bnd (f x s) (\<lambda>s'. each f xs s'))"
    by (rule count_le_bnd) (use Cons in auto)
  then show ?case by simp
qed

lemma count_le_run: "count_le A P n m \<Longrightarrow> m env tr = (r, tr')
  \<Longrightarrow> \<exists>es. tr' = tr @ es \<and> list_all A es \<and> length (filter P es) \<le> n"
  unfolding count_le_def by (metis snd_conv)

lemma count_le_opt:
  assumes "\<And>x. m = Some x \<Longrightarrow> count_le A P n (f x)"
  shows "count_le A P n (bnd (opt m) f)"
proof (cases m)
  case None
  then show ?thesis by (auto simp: count_le_def)
qed (use assms in simp)

abbreviation files_le :: "run_ctx \<Rightarrow> nat \<Rightarrow> 'a io \<Rightarrow> bool" where
  "files_le ctx \<equiv> count_le (allowed ctx) creates"

lemma files_le_quiet: "emits (quiet ctx) m \<Longrightarrow> files_le ctx 0 m"
  by (erule count_le_emits) (simp add: quiet_def)

text \<open>After a quiet step the count is that of the rest; before one, that of the start.\<close>

lemma files_le_after: "emits (quiet ctx) m \<Longrightarrow> (\<And>x. files_le ctx n (f x)) \<Longrightarrow> files_le ctx n (bnd m f)"
  using count_le_bnd [OF files_le_quiet, of ctx m n f] by simp

lemma files_le_before: "files_le ctx n m \<Longrightarrow> (\<And>x. emits (quiet ctx) (f x)) \<Longrightarrow> files_le ctx n (bnd m f)"
  using count_le_bnd [of "allowed ctx" creates n m 0 f] files_le_quiet by fastforce

lemma create_issue_files: "files_le ctx 1 (create_issue repo label title body)"
  unfolding create_issue_def
proof (rule files_le_after [OF emits_opt], rule files_le_before)
  fix l
  let ?args = "[''issue'', ''create'', ''--repo'', repo, ''--label'', l, ''--title'', title, ''--body-file'', tmp_path]"
  have ok: "allowed ctx (Proc (''gh'' # ?args) (Some body))" by (simp add: issue_call_of)
  show "files_le ctx 1 (gh ?args (Some body))"
    unfolding count_le_def gh_def bnd_def
    by (intro allI exI [of _ "[Proc (''gh'' # ?args) (Some body)]"])
      (simp add: ok del: allowed.simps split: presult.splits)
  show "emits (quiet ctx) (ret (str_strip out))" for out by (intro emits_rules)
qed

lemma file_finding_files:
  assumes "section_cfg ctx ''argo_stuck_op'' = Some cfg"
  shows "files_le ctx 1 (file_finding ctx cfg dark lines f)"
  unfolding file_finding_def Let_def
  apply (rule files_le_after [OF file_actions_emits [OF assms]])
  apply (rule files_le_after [OF emits_opt])+
  apply (rule files_le_before [OF create_issue_files])
  apply (intro emits_rules gh_emits)
  done

lemma file_new_files:
  assumes "issues_cfg ctx = Some cfg" and "int_opt cfg ''max_per_run'' (JInt 10) = Some m" and "0 \<le> m"
  shows "files_le ctx (nat m) (file_new ctx dark new n_open lines)"
  unfolding file_new_def assms(1) Let_def
  apply (simp only: run_simps bnd_ret assms(2))
  apply (rule files_le_after [OF emits_opt])+
  subgoal for max_open ordered
    unfolding seq_def
    apply (rule files_le_after)
     apply (intro emits_rules gh_emits)
    apply (rule count_le_opt)
     apply (rule count_le_mono [OF count_le_each])
     apply (erule file_finding_files)
    apply (rule length_select_to_file [OF assms(3)])
    done
  done

lemma files_le_handle:
  assumes "files_le ctx n m" and "\<And>e. emits (quiet ctx) (h e)"
  shows "files_le ctx n (handle m h)"
  unfolding count_le_def
proof (intro allI)
  fix env tr
  obtain r t where m: "m env tr = (r, t)" by fastforce
  obtain es where es: "t = tr @ es" "list_all (allowed ctx) es" "length (filter creates es) \<le> n"
    using assms(1) m unfolding count_le_def by (metis snd_conv)
  show "\<exists>es. snd (handle m h env tr) = tr @ es \<and> list_all (allowed ctx) es \<and> length (filter creates es) \<le> n"
  proof (cases r)
    case (Inl e)
    obtain es' where "snd (h e env t) = t @ es'" "list_all (allowed ctx) es'" "length (filter creates es') \<le> 0"
      using files_le_quiet [OF assms(2)] unfolding count_le_def by blast
    with m es Inl show ?thesis by (auto simp: handle_def intro!: exI [of _ "es @ es'"])
  next
    case (Inr x)
    with m es show ?thesis by (auto simp: handle_def intro!: exI [of _ es])
  qed
qed

lemma look_quiet [gh_emits]: "emits (quiet ctx) (look ctx')"
proof (rule emits_mono [OF look_emits])
  fix e assume "cluster_event e"
  then show "quiet ctx e"
    by (cases e) (auto simp: quiet_def df_call_def df_argv_def)
qed

lemma clean_run_quiet [gh_emits]: "emits (quiet ctx) (clean_run ctx' k)"
  unfolding clean_run_def by (intro emits_rules gh_emits)

lemma dry_run_quiet [gh_emits]: "emits (quiet ctx) (dry_run ctx' k)"
  unfolding dry_run_def by (intro emits_rules gh_emits)

lemma acting_run_files:
  assumes "\<And>dark new n_open lines. files_le ctx n (file_new ctx dark new n_open lines)"
  shows "files_le ctx n (acting_run ctx k)"
  unfolding acting_run_def Let_def
  apply (simp only: case_prod_unfold)
  apply (rule files_le_after, intro emits_rules gh_emits)+
  apply (rule files_le_before [OF assms])
  apply (intro emits_rules gh_emits)
  done

lemma main_files:
  assumes "\<And>dark new n_open lines. files_le ctx n (file_new ctx dark new n_open lines)"
  shows "files_le ctx n (main ctx)"
  unfolding main_def
  apply (rule files_le_after [OF emits_opt])
  apply (rule files_le_after [OF look_quiet])
  subgoal for u k
    using acting_run_files [OF assms, of k] files_le_quiet [OF clean_run_quiet, of ctx ctx k]
      files_le_quiet [OF dry_run_quiet, of ctx ctx k] files_le_quiet [OF emits_raise, of ctx]
    by (auto intro: count_le_mono)
  done

lemma run_files:
  assumes "\<And>dark new n_open lines. files_le ctx n (file_new ctx dark new n_open lines)"
  shows "files_le ctx n (run ctx)"
  unfolding run_def
  apply (rule files_le_handle [OF main_files [OF assms]])
  apply (intro emits_rules gh_emits)
  done

text \<open>Without any bound on their number the filed issues are still only what is allowed.\<close>

lemma quiet_allowed: "emits (quiet ctx) m \<Longrightarrow> emits (allowed ctx) m"
  by (erule emits_mono) (simp add: quiet_def)

lemma files_le_allowed: "files_le ctx n m \<Longrightarrow> emits (allowed ctx) m"
  unfolding count_le_def emits_def by blast

lemma file_new_allowed: "emits (allowed ctx) (file_new ctx dark new n_open lines)"
  unfolding file_new_def Let_def seq_def
  apply (rule emits_bnd, rule emits_opt)+
  apply (rule emits_bnd, rule quiet_allowed, intro emits_rules gh_emits)
  apply (rule emits_bnd_yields [OF emits_opt opt_yields])
  apply (rule emits_each)
  apply (erule file_finding_files [THEN files_le_allowed])
  done

lemma acting_run_allowed: "emits (allowed ctx) (acting_run ctx k)"
  unfolding acting_run_def Let_def
  apply (simp only: case_prod_unfold)
  apply (rule emits_bnd, rule quiet_allowed, intro emits_rules gh_emits)+
  apply (rule emits_bnd [OF file_new_allowed])
  apply (rule quiet_allowed, intro emits_rules gh_emits)
  done

lemma run_allowed: "emits (allowed ctx) (run ctx)"
  unfolding run_def main_def
  by (intro emits_rules acting_run_allowed quiet_allowed [OF look_quiet] quiet_allowed [OF clean_run_quiet]
      quiet_allowed [OF dry_run_quiet] quiet_allowed [OF failed_run_quiet])

end
