(* ===== verification/Watchdog_Properties.thy ===== *)
theory Watchdog_Properties
  imports Watchdog_Safety
begin

text \<open>
  The properties of a run of the watchdog: what it can do, that it never reports all clear when it
  could not look, how many issues it files and which, and that a filed finding is recognised by the
  next run.
\<close>

section \<open>Concrete runs\<close>

definition demo_ctx :: "bool \<Rightarrow> run_ctx" where
  "demo_ctx dry = \<lparr>x_config = JObj [(''issues'', JObj [(''max_per_run'', JInt 2)])],
     x_now = \<lparr>dt_year = 2024, dt_month = 5, dt_day = 1, dt_hour = 9, dt_minute = 0, dt_second = 0,
              dt_micro = 0\<rparr>,
     x_repo = ''o/r'', x_run_url = [], x_dry_run = dry, x_summary = True\<rparr>"

text \<open>An outside that never answers.\<close>

definition dead_env :: env where
  "dead_env tr argv body = NotRun ''timed out''"

section \<open>What a run can do\<close>

text \<open>C3: whatever the cluster, Prometheus and GitHub answer, and whether it returns or raises, a run
  starts only these processes: the reads of applications, pods and nodes, a raw read below
  \<open>/api/v1/namespaces/\<close>, the df of a validated pod and mount, gh's issue and label commands, and the
  reboot, reinstall and terminate workflows with a validated name.\<close>

theorem run_only_allowed:
  "\<exists>es. snd (run ctx env tr) = tr @ es \<and> list_all (allowed ctx) es"
  using run_allowed [of ctx] unfolding emits_def by blast

lemma dry_main_reads: "x_dry_run ctx \<Longrightarrow> emits cluster_event (main ctx)"
  unfolding main_def clean_run_def dry_run_def by (intro emits_rules cluster_emits finish_emits) auto

text \<open>A dry run reads the cluster and writes its report, and never calls gh: no issue is filed,
  commented or closed, and nothing is dispatched.\<close>

theorem dry_run_only_reads:
  assumes "x_dry_run ctx"
  shows "\<exists>es. snd (run ctx env tr) = tr @ es \<and> list_all cluster_event es"
proof -
  have "emits cluster_event (run ctx)"
    unfolding run_def failed_run_def write_summary_def
    by (intro emits_rules dry_main_reads assms) auto
  then show ?thesis unfolding emits_def by blast
qed

theorem dry_run_only_reads_witness:
  "\<exists>es. snd (run (demo_ctx True) dead_env []) = [] @ es \<and> list_all cluster_event es"
  by (rule dry_run_only_reads) (simp add: demo_ctx_def)

text \<open>C31: a run files at most \<open>max_per_run\<close> issues.\<close>

theorem run_files_at_most:
  assumes "issues_cfg ctx = Some cfg" and "int_opt cfg ''max_per_run'' (JInt 10) = Some m" and "0 \<le> m"
  shows "\<exists>es. snd (run ctx env tr) = tr @ es \<and> length (filter creates es) \<le> nat m"
  using run_files [OF file_new_files [OF assms]] unfolding count_le_def by blast

theorem run_files_at_most_witness:
  "\<exists>es. snd (run (demo_ctx False) dead_env []) = [] @ es \<and> length (filter creates es) \<le> 2"
proof -
  have "issues_cfg (demo_ctx False) = Some (JObj [(''max_per_run'', JInt 2)])"
    by (simp add: issues_cfg_def demo_ctx_def jget_or_def jor_def)
  moreover have "int_opt (JObj [(''max_per_run'', JInt 2)]) ''max_per_run'' (JInt 10) = Some 2"
    by (simp add: int_opt_def)
  ultimately have "\<exists>es. snd (run (demo_ctx False) dead_env []) = [] @ es \<and> length (filter creates es) \<le> nat 2"
    by (rule run_files_at_most) simp
  then show ?thesis by simp
qed

section \<open>Blind is not clear\<close>

text \<open>A computation that cannot return in the given outside.\<close>

definition never :: "env \<Rightarrow> 'a io \<Rightarrow> bool" where
  "never env m \<longleftrightarrow> (\<forall>tr. \<exists>e tr'. m env tr = (Inl e, tr'))"

lemma never_bnd:
  assumes "never env m"
  shows "never env (bnd m f)"
  unfolding never_def
proof
  fix tr
  obtain e t where "m env tr = (Inl e, t)" using assms unfolding never_def by blast
  then show "\<exists>e t. bnd m f env tr = (Inl e, t)" by (simp add: bnd_def)
qed


lemma never_bnd2:
  assumes "\<And>x. never env (f x)"
  shows "never env (bnd m f)"
  using assms unfolding never_def bnd_def by (fastforce split: prod.splits sum.splits)

lemma never_raise: "never env (raise e)"
  by (simp add: never_def)

lemma never_handle:
  assumes "never env m" and "\<And>e. never env (h e)"
  shows "never env (handle m h)"
  unfolding never_def
proof
  fix tr
  obtain e t where "m env tr = (Inl e, t)" using assms(1) unfolding never_def by blast
  moreover obtain e' t' where "h e env t = (Inl e', t')" using assms(2) unfolding never_def by blast
  ultimately show "\<exists>e' t'. handle m h env tr = (Inl e', t')" by (simp add: handle_def)
qed

lemma never_seq: "never env n \<Longrightarrow> never env (seq m n)"
  unfolding seq_def by (rule never_bnd2)

text \<open>The outside fails a command: it does not run to the end or exits with an error.\<close>

definition fails :: "env \<Rightarrow> string list \<Rightarrow> bool" where
  "fails env argv \<longleftrightarrow> (\<forall>tr. case env tr argv None of NotRun _ \<Rightarrow> True | Completed code _ _ \<Rightarrow> code \<noteq> 0)"

lemma kubectl_never:
  assumes "fails env (''kubectl'' # args)"
  shows "never env (kubectl args)"
  unfolding kubectl_def
proof (rule never_seq)
  show "never env (bnd (proc (''kubectl'' # args) None) (\<lambda>r. case r of
      NotRun exc \<Rightarrow> raise (ClusterUnreachable (''kubectl '' @ str_join '' '' args @ '' failed to run: '' @ exc))
    | Completed code out err \<Rightarrow> (if code \<noteq> 0
        then raise (ClusterUnreachable (''kubectl '' @ str_join '' '' args @ '' exited '' @ show_int code
               @ '': '' @ take_chars 500 (str_strip err))) else ret out)))"
    using assms unfolding never_def fails_def by (simp add: bnd_def split: presult.splits)
qed

lemma kubectl_json_never: "fails env (''kubectl'' # args) \<Longrightarrow> never env (kubectl_json args)"
  unfolding kubectl_json_def by (intro never_bnd kubectl_never)

lemma run_never:
  assumes "never env (main ctx)"
  shows "fst (run ctx env tr) = Inr 2 \<or> fst (run ctx env tr) = Inl Uncaught"
proof -
  obtain e t where m: "main ctx env tr = (Inl e, t)" using assms unfolding never_def by blast
  have "fst (failed_run ctx s env t) = Inr 2" for s
    by (simp add: failed_run_def write_summary_def seq_def bnd_def)
  with m show ?thesis by (cases e) (simp_all add: run_def handle_def)
qed

definition state_reads :: "string \<Rightarrow> string list list" where
  "state_reads ns =
     [[''-n'', ns, ''get'', ''applications'', ''-o'', ''json''], [''get'', ''pods'', ''-A'', ''-o'', ''json''],
      [''get'', ''nodes'', ''-o'', ''json'']]"

lemma collect_cluster_state_never:
  assumes "\<forall>ns. \<exists>args \<in> set (state_reads ns). fails env (''kubectl'' # args)"
  shows "never env (collect_cluster_state config)"
  unfolding collect_cluster_state_def
proof (rule never_bnd2)
  fix ns
  from assms have "fails env (''kubectl'' # [''-n'', ns, ''get'', ''applications'', ''-o'', ''json''])
      \<or> fails env (''kubectl'' # [''get'', ''pods'', ''-A'', ''-o'', ''json''])
      \<or> fails env (''kubectl'' # [''get'', ''nodes'', ''-o'', ''json''])"
    by (auto simp: state_reads_def)
  then show "never env (bnd (kubectl_json [''-n'', ns, ''get'', ''applications'', ''-o'', ''json'']) (\<lambda>applications.
     bnd (kubectl_json [''get'', ''pods'', ''-A'', ''-o'', ''json'']) (\<lambda>pods.
     bnd (kubectl_json [''get'', ''nodes'', ''-o'', ''json'']) (\<lambda>nodes.
     ret (applications, pods, nodes)))))"
    by (elim disjE) (blast intro: never_bnd never_bnd2 kubectl_json_never)+
qed

lemma bnd_stuck_emits:
  assumes "emits P m" and "never env m"
  shows "\<exists>es. snd (bnd m f env tr) = tr @ es \<and> list_all P es"
proof -
  obtain e t where m: "m env tr = (Inl e, t)" using assms(2) unfolding never_def by blast
  with emits_run [OF assms(1) m] show ?thesis by (simp add: bnd_def)
qed

text \<open>Blind of the volumes: Prometheus behind the proxy and every df fail.\<close>

definition blind_of_volumes :: "env \<Rightarrow> bool" where
  "blind_of_volumes env \<longleftrightarrow>
     (\<forall>p. fails env [''kubectl'', ''get'', ''--raw'', p])
     \<and> (\<forall>ns pod ct path. fails env (df_argv ns pod ct path))"

definition gives :: "env \<Rightarrow> ('a \<Rightarrow> bool) \<Rightarrow> 'a io \<Rightarrow> bool" where
  "gives env Q m \<longleftrightarrow> (\<forall>tr x tr'. m env tr = (Inr x, tr') \<longrightarrow> Q x)"

lemma gives_bnd: "gives env Q m \<Longrightarrow> (\<And>x. Q x \<Longrightarrow> gives env R (f x)) \<Longrightarrow> gives env R (bnd m f)"
  unfolding gives_def by (auto simp: bnd_Inr_iff) blast

lemma gives_each:
  assumes "I s" and "\<And>x s. I s \<Longrightarrow> gives env I (f x s)"
  shows "gives env I (each f xs s)"
  using assms(1)
proof (induction xs arbitrary: s)
  case (Cons x xs)
  have "gives env I (bnd (f x s) (\<lambda>s'. each f xs s'))"
    by (rule gives_bnd [OF assms(2) [OF Cons.prems] Cons.IH])
  then show ?case by simp
qed (simp add: gives_def)

lemma gives_never: "gives env Q m \<Longrightarrow> (\<And>x. Q x \<Longrightarrow> never env (f x)) \<Longrightarrow> never env (bnd m f)"
  unfolding gives_def never_def bnd_def by (fastforce split: prod.splits sum.splits)

lemma exec_df_never:
  assumes "blind_of_volumes env"
  shows "never env (kubectl_exec_df ns pod ct path)"
  unfolding kubectl_exec_df_def
proof (rule never_bnd2, rule never_bnd2, rule never_bnd2, rule never_bnd2)
  fix n p c m
  have "fails env (df_argv n p c m)" using assms by (simp add: blind_of_volumes_def)
  then show "never env (bnd (proc (df_argv n p c m) None) (\<lambda>r. case r of
      NotRun exc \<Rightarrow> raise (ClusterUnreachable (''exec df on '' @ n @ ''/'' @ p @ '' failed: '' @ exc))
    | Completed code out err \<Rightarrow> (if code \<noteq> 0
        then raise (ClusterUnreachable (''exec df on '' @ n @ ''/'' @ p @ '' exited '' @ show_int code
               @ '': '' @ take 300 (str_strip err))) else ret out)))"
    unfolding never_def fails_def by (simp add: bnd_def split: presult.splits)
qed

lemma df_of_run:
  assumes "kubectl_exec_df (t_namespace t) (t_pod t) (t_container t) (t_path t) env tr = (Inl e, t')"
    and "df_of t env tr = (Inr out, tr')"
  shows "\<exists>m. out = Inl m"
  using assms(2) unfolding df_of_def handle_def bnd_def assms(1) by (cases e) auto

lemma df_target_blind:
  assumes "blind_of_volumes env" and "fst acc = []"
  shows "gives env (\<lambda>a. fst a = []) (df_target t acc)"
proof -
  have "gives env (\<lambda>out. \<exists>m. out = Inl m) (df_of t)"
    unfolding gives_def
  proof (intro allI impI)
    fix tr out tr'
    assume run: "df_of t env tr = (Inr out, tr')"
    obtain e t' where "kubectl_exec_df (t_namespace t) (t_pod t) (t_container t) (t_path t) env tr = (Inl e, t')"
      using exec_df_never [OF assms(1)] unfolding never_def by blast
    with run show "\<exists>m. out = Inl m" by (rule df_of_run [rotated])
  qed
  then show ?thesis
    unfolding df_target_def
    by (rule gives_bnd) (use assms(2) in \<open>auto simp: gives_def df_result_def Let_def split: prod.splits\<close>)
qed

lemma pvc_usage_exec_never:
  assumes "blind_of_volumes env"
  shows "never env (pvc_usage_via_exec_df pods)"
  unfolding pvc_usage_via_exec_df_def
proof (rule never_bnd2)
  fix targets
  have "gives env (\<lambda>a. fst a = []) (each df_target targets ([], []))"
    by (rule gives_each) (simp_all add: df_target_blind [OF assms])
  then have "never env (bnd (each df_target targets ([], [])) (\<lambda>(records, errors).
     if records = []
     then raise (ClusterUnreachable
            (''prometheus unreachable and every df fallback failed: '' @ str_join ''; '' (take 5 errors)))
     else bnd (each (\<lambda>err _. emit (Print (''::warning::df fallback: '' @ err))) errors ())
            (\<lambda>_. ret records)))"
    by (rule gives_never) (auto simp: never_raise)
  then show "never env (if targets = []
     then raise (ClusterUnreachable
            (''prometheus unreachable and no running pod mounts any PVC '' @ em_dash
             @ '' no way to measure volume usage''))
     else bnd (each df_target targets ([], [])) (\<lambda>(records, errors).
       if records = []
       then raise (ClusterUnreachable
              (''prometheus unreachable and every df fallback failed: '' @ str_join ''; '' (take 5 errors)))
       else bnd (each (\<lambda>err _. emit (Print (''::warning::df fallback: '' @ err))) errors ())
              (\<lambda>_. ret records)))"
    by (simp add: never_raise)
qed

lemma collect_usage_never:
  assumes "blind_of_volumes env"
  shows "never env (collect_pvc_usage pods config)"
  unfolding collect_pvc_usage_def
proof (rule never_handle)
  have "never env (prometheus_query q config)" for q
    unfolding prometheus_query_def
    using assms by (intro never_bnd2 [of env _ "opt _"] never_bnd kubectl_never) (simp add: blind_of_volumes_def)
  then show "never env (bnd (pvc_usage_via_prometheus config) (\<lambda>usage. ret (usage, ''prometheus'')))"
    unfolding pvc_usage_via_prometheus_def by (intro never_bnd never_bnd2 [of env _ "opt _"])
  fix e
  have "never env (df_fallback pods config m)" for m
    unfolding df_fallback_def
    by (intro never_seq never_bnd2)
      (simp add: never_raise never_bnd [OF pvc_usage_exec_never [OF assms]])
  then show "never env (case e of
        ClusterUnreachable m \<Rightarrow> df_fallback pods config m | UnsafeCommand s \<Rightarrow> raise (UnsafeCommand s)
      | GitHubError s \<Rightarrow> raise (GitHubError s) | Uncaught \<Rightarrow> raise Uncaught)"
    by (cases e) (simp_all add: never_raise)
qed

lemma look_never:
  assumes "(\<forall>ns. \<exists>args \<in> set (state_reads ns). fails env (''kubectl'' # args)) \<or> blind_of_volumes env"
  shows "never env (look ctx)"
  using assms
proof
  assume "\<forall>ns. \<exists>args \<in> set (state_reads ns). fails env (''kubectl'' # args)"
  then show ?thesis unfolding look_def by (intro never_bnd collect_cluster_state_never)
next
  assume "blind_of_volumes env"
  then show ?thesis
    unfolding look_def by (intro never_bnd2 [of env _ "collect_cluster_state _"] never_bnd2 [of env _ "opt _"]
      never_bnd collect_usage_never)
qed

lemma main_stuck:
  assumes "never env (look ctx)"
  obtains e t es where "main ctx env tr = (Inl e, t)" and "t = tr @ es" and "list_all cluster_event es"
proof (cases "do { label \<leftarrow> label_of ctx; prefix_of ctx }")
  case None
  then have "main ctx env tr = (Inl Uncaught, tr)" by (simp add: main_def)
  with that [of Uncaught tr "[]"] show ?thesis by simp
next
  case (Some pre)
  let ?rest = "\<lambda>k. if k_findings k = [] then clean_run ctx k
       else if x_dry_run ctx then dry_run ctx k
       else if x_repo ctx = []
       then raise (GitHubError ''--repo (or GITHUB_REPOSITORY) is required to file issues'')
       else acting_run ctx k"
  have m: "main ctx = bnd (look ctx) ?rest" unfolding main_def Some by simp
  obtain e t where e: "main ctx env tr = (Inl e, t)"
    using never_bnd [OF assms, of ?rest] unfolding m never_def by blast
  obtain es where "snd (main ctx env tr) = tr @ es" "list_all cluster_event es"
    using bnd_stuck_emits [OF look_emits assms, of ?rest] unfolding m by blast
  with e that show ?thesis by simp
qed

text \<open>C1: blind is not clear. When one of the three reads of the cluster state fails, or when
  Prometheus and every df fail, the run never exits with 0 (all clear) or 1 (findings): it exits
  with 2, or dies of an exception nobody catches; and it has called nothing but kubectl.\<close>

theorem blind_never_clear:
  assumes "(\<forall>ns. \<exists>args \<in> set (state_reads ns). fails env (''kubectl'' # args)) \<or> blind_of_volumes env"
  shows "(fst (run ctx env tr) = Inr 2 \<or> fst (run ctx env tr) = Inl Uncaught)
    \<and> (\<exists>es. snd (run ctx env tr) = tr @ es \<and> list_all cluster_event es)"
proof -
  obtain e t es where m: "main ctx env tr = (Inl e, t)" "t = tr @ es" "list_all cluster_event es"
    using main_stuck [OF look_never [OF assms]] .
  have f: "fst (failed_run ctx s env t) = Inr 2" "emits cluster_event (failed_run ctx s)" for s
    unfolding failed_run_def write_summary_def
    by (simp add: seq_def bnd_def) (intro emits_rules; simp)
  have "\<exists>es'. snd (failed_run ctx s env t) = tr @ es' \<and> list_all cluster_event es'" for s
    using f(2) [of s] m unfolding emits_def by (metis append.assoc list_all_append)
  with m f(1) show ?thesis by (cases e) (auto simp: run_def handle_def)
qed

theorem blind_never_clear_witness:
  "(fst (run (demo_ctx False) dead_env []) = Inr 2 \<or> fst (run (demo_ctx False) dead_env []) = Inl Uncaught)
    \<and> (\<exists>es. snd (run (demo_ctx False) dead_env []) = [] @ es \<and> list_all cluster_event es)"
proof (rule blind_never_clear)
  have "blind_of_volumes dead_env" by (simp add: blind_of_volumes_def fails_def dead_env_def)
  then show "(\<forall>ns. \<exists>args \<in> set (state_reads ns). fails dead_env (''kubectl'' # args)) \<or> blind_of_volumes dead_env" ..
qed

lemma yields_last: "(\<And>x. yields Q (f x)) \<Longrightarrow> yields Q (bnd m f)"
  unfolding yields_def bnd_Inr_iff by blast

lemma yieldsD: "yields Q m \<Longrightarrow> m env tr = (Inr x, t) \<Longrightarrow> Q x"
  unfolding yields_def by blast

lemma yields_seq: "yields Q n \<Longrightarrow> yields Q (seq m n)"
  unfolding seq_def by (rule yields_last)

lemma acting_yields: "yields (\<lambda>c. exit_code ctx = Some c) (acting_run ctx k)"
  unfolding acting_run_def Let_def case_prod_unfold
  by (intro yields_last yields_seq opt_yields)

lemma dry_yields: "yields (\<lambda>c. exit_code ctx = Some c) (dry_run ctx k)"
  unfolding dry_run_def by (intro yields_seq opt_yields)

text \<open>C2: green means looked and found nothing. With the default \<open>fail_on_findings\<close> a run exits with 0
  only if every source was read and no detection found anything.\<close>

theorem green_means_clear:
  assumes "fst (run ctx env tr) = Inr 0"
    and "jget_d (x_config ctx) ''fail_on_findings'' (JBool True) = Some v" and "truthy v"
  shows "\<exists>k t. look ctx env tr = (Inr k, t) \<and> k_findings k = []"
proof -
  have code: "exit_code ctx = Some 1" using assms(2,3) by (simp add: exit_code_def)
  obtain r t where m: "main ctx env tr = (r, t)" by fastforce
  have "fst (failed_run ctx s env t) = Inr 2" for s
    by (simp add: failed_run_def write_summary_def seq_def bnd_def)
  with assms(1) m have "r = Inr 0" by (cases r; cases "projl r") (auto simp: run_def handle_def)
  with m obtain k t1 where k: "look ctx env tr = (Inr k, t1)"
    and c: "(if k_findings k = [] then clean_run ctx k else if x_dry_run ctx then dry_run ctx k
       else if x_repo ctx = []
       then raise (GitHubError ''--repo (or GITHUB_REPOSITORY) is required to file issues'')
       else acting_run ctx k) env t1 = (Inr 0, t)"
    by (auto simp: main_def bnd_Inr_iff opt_def split: option.splits)
  have "k_findings k = []"
    using c code yieldsD [OF acting_yields, of ctx k env t1 0 t] yieldsD [OF dry_yields, of ctx k env t1 0 t]
    by (auto split: if_splits)
  with k show ?thesis by blast
qed

text \<open>An outside with an empty cluster and one volume half full.\<close>

definition calm_env :: env where
  \<open>calm_env tr argv body =
     Completed 0 (if List.member argv ''--raw''
       then ''{"status":"success","data":{"result":[{"value":[0,"0.5"]}]}}'' else ''{}'') []\<close>

theorem green_means_clear_witness:
  "\<exists>k t. look (demo_ctx True) calm_env [] = (Inr k, t) \<and> k_findings k = []"
proof (rule green_means_clear)
  show "fst (run (demo_ctx True) calm_env []) = Inr 0" by code_simp
  show "jget_d (x_config (demo_ctx True)) ''fail_on_findings'' (JBool True) = Some (JBool True)" by code_simp
  show "truthy (JBool True)" by simp
qed

end
