(* ===== verification/Ladder_Properties.thy ===== *)
theory Ladder_Properties
  imports Watchdog_Ladder_Durable
begin

text \<open>
  The properties of the escalation ladder for dark nodes: of one decision, of the marker in which
  its state is kept, and of a sequence of runs that keep the state in the comments of the issue.
\<close>

section \<open>A concrete node and configuration\<close>

definition demo_cfg :: json where
  "demo_cfg = JObj [(''enabled'', JBool True), (''auto_restart'', JBool True),
     (''auto_reinstall'', JBool True), (''max_reboot_attempts'', JInt 1),
     (''reboot_cooldown_minutes'', JInt 30), (''escalate_after_minutes'', JInt 120),
     (''reinstall_min_other_ready_control_plane'', JInt 2)]"

definition demo_ladder_cfg :: ladder_cfg where
  "demo_ladder_cfg = \<lparr>lc_enabled = True, lc_restart = True, lc_max = 1, lc_cooldown = Fin 30,
     lc_after = Fin 120, lc_reinstall = True, lc_min_other = 2\<rparr>"

definition demo_finding :: "int \<Rightarrow> int \<Rightarrow> finding" where
  "demo_finding minutes others = \<lparr>f_kind = ''dark_node'', f_subject = ''Node/cp-2'',
     f_summary = ''dark'', f_facts = [(''unknown_minutes'', JInt minutes),
     (''is_control_plane'', JBool True), (''is_etcd_voter'', JBool True),
     (''other_ready_control_plane_nodes'', JInt others)]\<rparr>"

definition demo_time :: "int \<Rightarrow> datetime" where
  "demo_time h = \<lparr>dt_year = 2024, dt_month = 5, dt_day = 1, dt_hour = h, dt_minute = 0,
     dt_second = 0, dt_micro = 0\<rparr>"

definition demo_obs :: "int \<Rightarrow> int \<Rightarrow> int \<Rightarrow> dark_obs" where
  "demo_obs h minutes others = \<lparr>o_minutes = Fin (of_int minutes), o_cp = True, o_voter = True,
     o_other = others, o_now = demo_time h\<rparr>"

lemma demo_ladder_cfg_of: "ladder_cfg_of demo_cfg = Some demo_ladder_cfg"
  by code_simp

lemma demo_obs_of:
  "dark_obs_of (demo_finding m k) (demo_time h) = Some (demo_obs h m k)"
  by (simp add: dark_obs_of_def demo_finding_def demo_obs_def fact_def)

lemma valid_demo_time: "0 \<le> h \<Longrightarrow> h \<le> 23 \<Longrightarrow> valid_dt (demo_time h)"
  by (simp add: demo_time_def valid_dt_def days_in_month_def)

lemma demo_readable: "0 \<le> h \<Longrightarrow> h \<le> 23 \<Longrightarrow> readable_input demo_cfg (demo_finding m k, demo_time h)"
  by (simp add: readable_input_def demo_ladder_cfg_of demo_obs_of valid_demo_time)

lemma init_ladder_ok: "ladder_ok init_ladder"
  by (simp add: ladder_ok_def init_ladder_def opt_valid_def)

lemma fresh_thread: "parse_dark_node_state [] = Some (enc_ladder init_ladder)"
  by (simp add: parse_dark_node_state_def enc_init_ladder)

section \<open>One decision\<close>

text \<open>C4: on a readable configuration and finding the decision over the JSON state is a step of the
  typed ladder machine: same action, and the new JSON state encodes the new typed state. In
  particular the decision never raises there.\<close>

theorem ladder_decision_refines:
  assumes "ladder_cfg_of cfg = Some c" and "dark_obs_of f now = Some ob" and "ladder_ok l"
  shows "map_option (\<lambda>(a, st, msg). (a, st)) (decide_dark_node_escalation f (enc_ladder l) cfg now)
    = Some (fst (ladder_spec c ob l), enc_ladder (snd (ladder_spec c ob l)))"
proof -
  have "opt_valid (l_last l)" using assms(3) by (simp add: ladder_ok_def)
  from decide_refines [OF assms(1,2) this] show ?thesis by auto
qed

theorem ladder_decision_refines_witness:
  "map_option (\<lambda>(a, st, msg). (a, st))
     (decide_dark_node_escalation (demo_finding 45 3) (enc_ladder init_ladder) demo_cfg (demo_time 9))
   = Some (Reboot, enc_ladder (init_ladder\<lparr>l_attempts := 1, l_last := Some (demo_time 9)\<rparr>))"
  using ladder_decision_refines [OF demo_ladder_cfg_of demo_obs_of init_ladder_ok, of 45 3 9]
  by (simp add: ladder_spec_def demo_ladder_cfg_def init_ladder_def cooling_def demo_obs_def)

lemma refuse_not_reinstall: "a \<noteq> Reinstall \<Longrightarrow> refuse a st r \<noteq> (Reinstall, st', msg)"
  by (simp add: refuse_def)

lemma decide_reboot_not_reinstall: "decide_reboot st cfg now n m dm \<noteq> Some (Reinstall, st', msg)"
  by (auto simp: decide_reboot_def reboot_now_def split: option.splits)

lemma reinstall_now_escalates:
  "reinstall_now st now m dm ea = (a, st', msg) \<Longrightarrow> truthy (dget st' ''escalated'' JNull)"
  by (auto simp: reinstall_now_def dget_dict_set)

lemma decide_reinstall_guards:
  assumes "decide_reinstall f st cfg now m dm = Some (Reinstall, st', msg)"
  shows "(\<exists>ea. float_opt cfg ''escalate_after_minutes'' (JInt 120) = Some ea \<and> \<not> flt_less dm ea)
    \<and> (\<exists>v. jget_d cfg ''auto_reinstall'' (JBool False) = Some v \<and> truthy v)
    \<and> truthy (fact f ''is_control_plane'')
    \<and> (\<exists>need others. int_opt cfg ''reinstall_min_other_ready_control_plane'' (JInt 2) = Some need
         \<and> py_int (dget (f_facts f) ''other_ready_control_plane_nodes'' (JInt 0)) = Some others
         \<and> (truthy (fact f ''is_etcd_voter'') \<longrightarrow> need \<le> others))
    \<and> truthy (dget st' ''escalated'' JNull)"
proof -
  obtain ea where "float_opt cfg ''escalate_after_minutes'' (JInt 120) = Some ea"
    using assms by (auto simp: decide_reinstall_def)
  then show ?thesis using assms
    by (auto simp: decide_reinstall_def refuse_not_reinstall not_less dest: reinstall_now_escalates
        split: if_splits)
qed

text \<open>A reinstall is decided only when the detection and its automatic steps are switched on,
  the ladder has not escalated yet, every reboot attempt is used up, the node has been dark for the
  configured time, it is a control-plane node, and reinstalling an etcd voter leaves the configured
  number of other ready control-plane nodes; and the new state is escalated. No assumption is made
  on the state or on the finding.\<close>

theorem reinstall_guards:
  assumes "decide_dark_node_escalation f st cfg now = Some (Reinstall, st', msg)"
  shows "\<not> truthy (dget st ''escalated'' JNull) \<and> truthy (dget st' ''escalated'' JNull)
    \<and> (\<exists>v. jget_d cfg ''auto_restart'' (JBool False) = Some v \<and> truthy v)
    \<and> (\<exists>v. jget_d cfg ''auto_reinstall'' (JBool False) = Some v \<and> truthy v)
    \<and> (\<exists>m n. int_opt cfg ''max_reboot_attempts'' (JInt 3) = Some m
         \<and> py_int (dget st ''reboot_attempts'' (JInt 0)) = Some n \<and> m \<le> n)
    \<and> (\<exists>dm ea. py_float (dget (f_facts f) ''unknown_minutes'' (JInt 0)) = Some dm
         \<and> float_opt cfg ''escalate_after_minutes'' (JInt 120) = Some ea \<and> \<not> flt_less dm ea)
    \<and> truthy (fact f ''is_control_plane'')
    \<and> (\<exists>need others. int_opt cfg ''reinstall_min_other_ready_control_plane'' (JInt 2) = Some need
         \<and> py_int (dget (f_facts f) ''other_ready_control_plane_nodes'' (JInt 0)) = Some others
         \<and> (truthy (fact f ''is_etcd_voter'') \<longrightarrow> need \<le> others))"
proof -
  obtain v dm m n where path: "\<not> truthy (dget st ''escalated'' JNull)"
    "jget_d cfg ''auto_restart'' (JBool False) = Some v" "truthy v"
    "py_float (dget (f_facts f) ''unknown_minutes'' (JInt 0)) = Some dm"
    "int_opt cfg ''max_reboot_attempts'' (JInt 3) = Some m"
    "py_int (dget st ''reboot_attempts'' (JInt 0)) = Some n" "m \<le> n"
    and d: "decide_reinstall f st cfg now m dm = Some (Reinstall, st', msg)"
    using assms
    by (auto simp: decide_dark_node_escalation_def decide_reboot_not_reinstall not_less split: if_splits)
  show ?thesis using path decide_reinstall_guards [OF d] by blast
qed

theorem reinstall_guards_witness:
  "\<not> truthy (dget DEFAULT_DARK_STATE ''escalated'' JNull) \<and>
   (case decide_dark_node_escalation (demo_finding 150 2)
       (dict_set ''reboot_attempts'' (JInt 1) DEFAULT_DARK_STATE) demo_cfg (demo_time 9) of
     Some (a, st, msg) \<Rightarrow> a = Reinstall \<and> truthy (dget st ''escalated'' JNull) | None \<Rightarrow> False)"
proof -
  let ?st = "dict_set ''reboot_attempts'' (JInt 1) DEFAULT_DARK_STATE"
  let ?d = "decide_dark_node_escalation (demo_finding 150 2) ?st demo_cfg (demo_time 9)"
  have "map_option fst ?d = Some Reinstall" by code_simp
  then obtain st msg where d: "?d = Some (Reinstall, st, msg)" by auto
  from reinstall_guards [OF this] d show ?thesis by (simp add: dget_dict_set)
qed

section \<open>The marker\<close>



section \<open>A sequence of runs\<close>

lemma n_of_append: "n_of a (xs @ ys) = n_of a xs + n_of a ys"
  by simp

text \<open>C5: any sequence of runs on the same node, each reading the ladder from the thread and posting
  its action there, returns, and over the whole sequence the node is rebooted at most as many times
  as the attempts left, and reinstalled at most once.\<close>

theorem thread_actions_bounded:
  assumes "parse_dark_node_state cs = Some (enc_ladder l)" and "ladder_ok l"
    and "ladder_cfg_of cfg = Some c" and "\<forall>x \<in> set xs. readable_input cfg x"
  shows "\<exists>outs cs'. thread_runs cfg cs xs = Some (outs, cs') \<and> length outs = length xs
    \<and> l_attempts l + int (n_of Reboot (map fst outs)) \<le> max (l_attempts l) (lc_max c)
    \<and> n_of Reinstall (map fst outs) \<le> 1"
proof -
  obtain outs cs' where r: "thread_runs cfg cs xs = Some (outs, cs')"
    "map fst outs = fst (spec_run c l (obs_of xs))"
    using thread_runs_refine [OF assms] by blast
  obtain as l' where s: "spec_run c l (obs_of xs) = (as, l')" by fastforce
  have "length outs = length xs"
    using arg_cong [OF r(2), of length] length_spec_run [of c l "obs_of xs"] by (simp add: obs_of_def)
  then show ?thesis
    using r s spec_run_attempts [OF s] spec_run_reinstall_once [OF s] by auto
qed

theorem thread_actions_bounded_witness:
  "\<exists>outs cs'. thread_runs demo_cfg [] [(demo_finding 45 3, demo_time 9), (demo_finding 60 3, demo_time 10)]
      = Some (outs, cs') \<and> length outs = 2 \<and> n_of Reboot (map fst outs) \<le> 1"
  using thread_actions_bounded [OF fresh_thread init_ladder_ok demo_ladder_cfg_of,
      of "[(demo_finding 45 3, demo_time 9), (demo_finding 60 3, demo_time 10)]"] demo_readable
  by (auto simp: init_ladder_def demo_ladder_cfg_def simp del: medium_run.simps)

text \<open>C28: the reboots of a sequence of runs are spaced by the cooldown: between a reboot (or the one
  on record when the sequence starts) and the next one at least \<open>reboot_cooldown_minutes\<close> pass.\<close>

theorem thread_reboots_spaced:
  assumes "parse_dark_node_state cs = Some (enc_ladder l)" and "ladder_ok l"
    and "ladder_cfg_of cfg = Some c" and "\<forall>x \<in> set xs. readable_input cfg x"
    and "thread_runs cfg cs xs = Some (outs, cs')"
  shows "successively (spaced c)
    (case_option [] (\<lambda>d. [d]) (l_last l) @ reboot_times (obs_of xs) (map fst outs))"
proof -
  obtain outs' cs2 where r: "thread_runs cfg cs xs = Some (outs', cs2)"
    "map fst outs' = fst (spec_run c l (obs_of xs))"
    using thread_runs_refine [OF assms(1-4)] by blast
  obtain as l' where s: "spec_run c l (obs_of xs) = (as, l')" by fastforce
  show ?thesis using spec_run_spaced [OF s] r assms(5) s by auto
qed

theorem thread_reboots_spaced_witness:
  "\<exists>outs cs'. thread_runs demo_cfg [] [(demo_finding 45 3, demo_time 9), (demo_finding 60 3, demo_time 10)]
      = Some (outs, cs')
    \<and> successively (spaced demo_ladder_cfg) (reboot_times
        (obs_of [(demo_finding 45 3, demo_time 9), (demo_finding 60 3, demo_time 10)]) (map fst outs))"
proof -
  let ?xs = "[(demo_finding 45 3, demo_time 9), (demo_finding 60 3, demo_time 10)]"
  have xs: "\<forall>x \<in> set ?xs. readable_input demo_cfg x" using demo_readable by simp
  obtain outs cs' where r: "thread_runs demo_cfg [] ?xs = Some (outs, cs')"
    using thread_runs_refine [OF fresh_thread init_ladder_ok demo_ladder_cfg_of xs] by blast
  from thread_reboots_spaced [OF fresh_thread init_ladder_ok demo_ladder_cfg_of xs r] r
  show ?thesis by (auto simp: init_ladder_def simp del: medium_run.simps)
qed



end
