(* ===== verification/Watchdog_Findings.thy ===== *)
theory Watchdog_Findings
  imports Watchdog_Main Ladder_Properties
begin

text \<open>
  Properties of the pieces of a run: what is detected and reported, which new findings are filed
  and in which order, that a filed finding is recognised by the next run, which commands the guard
  refuses, and what a comment that cannot be posted does to the ladder.
\<close>

section \<open>Detection\<close>

text \<open>An application whose operation is \<open>Running\<close> since a readable time more than t minutes ago.\<close>

definition wedged :: "flt \<Rightarrow> datetime \<Rightarrow> json \<Rightarrow> string \<Rightarrow> bool" where
  "wedged t now app subject \<longleftrightarrow>
     (\<exists>meta status state d.
        jget_or app ''metadata'' (JObj []) = Some meta
        \<and> map_option py_str (jget_or meta ''name'' (JStr ''<unnamed>'')) = Some subject
        \<and> jget_or app ''status'' (JObj []) = Some status
        \<and> jget_or status ''operationState'' (JObj []) = Some state
        \<and> jget state ''phase'' = Some (JStr ''Running'')
        \<and> Option.bind (jget state ''startedAt'') parse_k8s_time = Some (Some d)
        \<and> \<not> fle (Fin (age_minutes d now)) t)"

lemma argo_report_subject: "argo_report meta status state name t m = Some f \<Longrightarrow> f_subject f = py_str name"
  by (auto simp: argo_report_def)

lemma argo_finding_subjects:
  assumes "argo_finding t now app = Some fs"
  shows "f_subject ` set fs = {s. wedged t now app s}"
proof -
  obtain meta name status state phase where p:
    "jget_or app ''metadata'' (JObj []) = Some meta" "jget_or meta ''name'' (JStr ''<unnamed>'') = Some name"
    "jget_or app ''status'' (JObj []) = Some status" "jget_or status ''operationState'' (JObj []) = Some state"
    "jget state ''phase'' = Some phase"
    and r: "(if phase \<noteq> JStr ''Running'' then Some []
      else do { startedAt \<leftarrow> jget state ''startedAt''; since \<leftarrow> parse_k8s_time startedAt;
                if_older t now since (argo_report meta status state name t) }) = Some fs"
    using assms by (auto simp: argo_finding_def)
  show ?thesis
  proof (cases "phase = JStr ''Running''")
    case False
    with p r show ?thesis by (auto simp: wedged_def)
  next
    case True
    then obtain st since where s: "jget state ''startedAt'' = Some st" "parse_k8s_time st = Some since"
      and o': "if_older t now since (argo_report meta status state name t) = Some fs"
      using r by auto
    show ?thesis
      using p s True o' by (auto simp: wedged_def if_older_def Let_def argo_report_subject
          split: option.splits if_splits)
  qed
qed

text \<open>The detection of stuck Argo operations reports exactly the applications whose operation has
  been Running for longer than the threshold, whatever else the list of applications holds.\<close>

theorem argo_detection_exact:
  assumes "detect_stuck_argo_ops applications config now = Some fs"
    and "jget_d config ''argo_stuck_op'' (JObj []) = Some cfg"
    and "jget_d cfg ''enabled'' (JBool True) = Some en" and "truthy en"
    and "float_opt cfg ''running_minutes'' (JInt 45) = Some t"
    and "items_of applications = Some apps"
  shows "f_subject ` set fs = {s. \<exists>app \<in> set apps. wedged t now app s}"
proof -
  have c: "collect (argo_finding t now) apps = Some fs"
    using assms by (simp add: detect_stuck_argo_ops_def when_enabled_def)
  show ?thesis
  proof (intro set_eqI iffI)
    fix s assume "s \<in> f_subject ` set fs"
    then obtain f where f: "f \<in> set fs" "s = f_subject f" by blast
    from collect_SomeD [OF c f(1)] obtain app ys where
      a: "app \<in> set apps" "argo_finding t now app = Some ys" "f \<in> set ys" by blast
    with argo_finding_subjects [OF a(2)] f(2) show "s \<in> {s. \<exists>app \<in> set apps. wedged t now app s}" by blast
  next
    fix s assume "s \<in> {s. \<exists>app \<in> set apps. wedged t now app s}"
    then obtain app where a: "app \<in> set apps" "wedged t now app s" by blast
    from c a(1) obtain ys where ys: "argo_finding t now app = Some ys"
      by (auto simp: collect_Some map_eq_conv in_set_conv_nth) (metis in_set_conv_nth length_map nth_map)
    with argo_finding_subjects [OF ys] a(2) collect_SomeI [OF c a(1) ys] show "s \<in> f_subject ` set fs"
      by blast
  qed
qed

definition demo_apps :: json where
  "demo_apps = JObj [(''items'', JList [JObj [(''metadata'', JObj [(''name'', JStr ''prod'')]),
     (''status'', JObj [(''operationState'', JObj [(''phase'', JStr ''Running''),
        (''startedAt'', JStr ''2024-05-01T08:00:00Z'')])])]])]"

definition nine :: datetime where
  "nine = \<lparr>dt_year = 2024, dt_month = 5, dt_day = 1, dt_hour = 9, dt_minute = 0, dt_second = 0, dt_micro = 0\<rparr>"

theorem argo_detection_exact_witness:
  "\<exists>fs apps. detect_stuck_argo_ops demo_apps (JObj []) nine = Some fs \<and> fs \<noteq> []
    \<and> f_subject ` set fs = {s. \<exists>app \<in> set apps. wedged (Fin 45) nine app s}"
proof -
  let ?d = "detect_stuck_argo_ops demo_apps (JObj []) nine"
  have "map_option (\<lambda>fs. fs \<noteq> []) ?d = Some True" by code_simp
  then obtain fs where fs: "?d = Some fs" "fs \<noteq> []" by auto
  obtain apps where apps: "items_of demo_apps = Some apps" by (simp add: items_of_def demo_apps_def jor_def)
  have "f_subject ` set fs = {s. \<exists>app \<in> set apps. wedged (Fin 45) nine app s}"
    by (rule argo_detection_exact [OF fs(1) _ _ _ _ apps, where cfg = "JObj []" and en = "JBool True"])
      (simp_all add: float_opt_def)
  with fs show ?thesis by blast
qed

lemma strip_suffix_append:
  assumes "\<forall>c \<in> set h. ok c" and "lo \<le> length h" and "length h \<le> hi" and "\<not> ok (CHR ''-'')" and "\<not> ok (CHR 10)"
    and "h \<noteq> []"
  shows "strip_suffix ok lo hi (w @ ''-'' @ h) = w"
proof -
  have nl: "last h \<noteq> CHR 10" using assms(1,5,6) last_in_set by fastforce
  have "takeWhile ok (rev h @ CHR ''-'' # rev w) = rev h" "dropWhile ok (rev h @ CHR ''-'' # rev w) = CHR ''-'' # rev w"
    using assms(1,4) by (simp_all add: takeWhile_append dropWhile_append)
  then show ?thesis using nl assms by (simp add: strip_suffix_def Let_def last_append)
qed

text \<open>The identity of a workload survives the churn of its pods: a pod owned by any ReplicaSet of a
  deployment (its name, a hyphen and a template hash) is reported under the name of the deployment,
  and a pod of a CronJob's Job (its name, a hyphen and an epoch) under that of the CronJob.\<close>

theorem workload_identity_stable:
  assumes "jget_or pod ''metadata'' (JObj []) = Some meta"
    and "list_opt meta ''ownerReferences'' = Some (owner # owners)"
    and "jget owner ''kind'' = Some (JStr kind)" and "jget owner ''name'' = Some (JStr (w @ ''-'' @ h))"
    and "w \<noteq> []"
    and "kind = ''ReplicaSet'' \<and> 5 \<le> length h \<and> length h \<le> 10 \<and> (\<forall>c \<in> set h. is_lower c \<or> is_digit c)
       \<or> kind = ''Job'' \<and> 6 \<le> length h \<and> length h \<le> 11 \<and> (\<forall>c \<in> set h. is_digit c)"
  shows "stable_workload_name pod = Some w"
proof -
  have h: "h \<noteq> []" using assms(6) by auto
  have hyph: "\<not> is_lower (CHR ''-'')" "\<not> is_digit (CHR ''-'')" "\<not> is_lower (CHR 10)" "\<not> is_digit (CHR 10)"
    by (simp_all add: is_lower_def is_digit_def)
  obtain name where name: "jget_or meta ''name'' (JStr ''<unnamed>'') = Some name"
    using assms(2) by (cases meta) (auto simp: list_opt_def jget_or_def jget_def)
  have "owner_name (owner # owners) = Some (Some w)"
    using assms(6)
  proof
    assume a: "kind = ''ReplicaSet'' \<and> 5 \<le> length h \<and> length h \<le> 10 \<and> (\<forall>c \<in> set h. is_lower c \<or> is_digit c)"
    then have "strip_template_hash (w @ ''-'' @ h) = w"
      unfolding strip_template_hash_def by (intro strip_suffix_append) (use hyph h in auto)
    with a assms(3-5) show ?thesis by (simp add: Let_def)
  next
    assume a: "kind = ''Job'' \<and> 6 \<le> length h \<and> length h \<le> 11 \<and> (\<forall>c \<in> set h. is_digit c)"
    then have "strip_epoch (w @ ''-'' @ h) = w"
      unfolding strip_epoch_def by (intro strip_suffix_append) (use hyph h in auto)
    with a assms(3-5) show ?thesis by (simp add: Let_def)
  qed
  then show ?thesis using assms(1,2) name by (simp add: stable_workload_name_def del: owner_name.simps)
qed

theorem workload_identity_stable_witness:
  "stable_workload_name (JObj [(''metadata'', JObj [(''name'', JStr ''loki-7d9f8b6c5d-x2x9z''),
     (''ownerReferences'', JList [JObj [(''kind'', JStr ''ReplicaSet''), (''name'', JStr ''loki-7d9f8b6c5d'')]])])])
   = Some ''loki''"
  by (rule workload_identity_stable [where h = "''7d9f8b6c5d''" and owners = "[]"
      and owner = "JObj [(''kind'', JStr ''ReplicaSet''), (''name'', JStr ''loki-7d9f8b6c5d'')]" and w = "''loki''" and kind = "''ReplicaSet''"])
    (code_simp, code_simp, simp_all add: jget_def is_digit_def is_lower_def)

section \<open>Reporting\<close>

lemma each_emit_in:
  assumes "each (\<lambda>f _. emit (g f)) xs () env tr = (r, tr')"
  shows "tr' = tr @ map g xs"
  using assms
proof (induction xs arbitrary: tr)
  case (Cons x xs)
  have "bnd (emit (g x)) F env tr = F () env (tr @ [g x])" for F :: "unit \<Rightarrow> unit io"
    by (rule bnd_run(1)) simp
  with Cons.prems have "each (\<lambda>f _. emit (g f)) xs () env (tr @ [g x]) = (r, tr')"
    by (simp only: each.simps)
  from Cons.IH [OF this] show ?case by simp
qed simp

text \<open>A run that could look prints every finding it detected, before it decides what to do about it:
  those of the cluster state and those of the volumes.\<close>

theorem every_finding_reported:
  assumes "look ctx env tr = (Inr k, tr')"
  shows "(\<forall>f \<in> set (k_findings k). Print (''DETECTED '' @ f_key f @ '': '' @ f_summary f) \<in> set tr')
    \<and> (\<exists>fs. state_findings ctx (k_state k) = Some fs \<and> set fs \<subseteq> set (k_findings k))"
proof -
  from assms obtain state fs usage ps lines t where
    s: "state_findings ctx state = Some fs"
    and l: "seq (each (\<lambda>f _. emit (Print (''DETECTED '' @ f_key f @ '': '' @ f_summary f))) (fs @ ps) ())
       (ret \<lparr>k_state = state, k_findings = fs @ ps, k_lines = lines\<rparr>) env t = (Inr k, tr')"
    by (auto simp: look_def bnd_Inr_iff opt_def split: option.splits)
  obtain u t2 where e: "each (\<lambda>f _. emit (Print (''DETECTED '' @ f_key f @ '': '' @ f_summary f))) (fs @ ps) () env t
      = (u, t2)" by fastforce
  from l e have k: "k = \<lparr>k_state = state, k_findings = fs @ ps, k_lines = lines\<rparr>" "tr' = t2"
    by (auto simp: seq_def bnd_def split: sum.splits)
  from each_emit_in [OF e] k s show ?thesis by auto
qed

text \<open>A cluster with one stuck application, a readable volume and nothing else.\<close>

definition stuck_env :: env where
  \<open>stuck_env tr argv body =
     Completed 0 (if List.member argv ''--raw''
       then ''{"status":"success","data":{"result":[{"value":[0,"1"]}]}}''
       else if List.member argv ''applications''
       then ''{"items":[{"status":{"operationState":{"phase":"Running","startedAt":"2024-05-01T08:00:00Z"}}}]}'' else ''{}'') []\<close>

definition stuck_ctx :: run_ctx where
  "stuck_ctx = \<lparr>x_config = JObj [], x_now = nine, x_repo = ''o/r'', x_run_url = [], x_dry_run = True, x_summary = False\<rparr>"

section \<open>Filing\<close>

text \<open>An issue filed for a finding tracks it from then on: while the issue is open, the finding is
  not filed again, whatever other issues are open, and the key read back from its body is the key of
  the finding.\<close>

theorem filed_issue_tracks_finding:
  assumes "build_issue_body f config run_url actions = Some body"
    and "jget_or issue ''body'' (JStr []) = Some (JStr body)" and "issue \<in> set issues"
    and "filter_new_findings fs issues pre = Some (new, duplicates)" and "plain_name (f_subject f)"
  shows "f \<notin> set new \<and> (f \<in> set fs \<longrightarrow> f \<in> fst ` set duplicates)
    \<and> key_subject (f_kind f) body = Some (f_subject f)"
proof -
  obtain rest where body: "body = f_marker f @ newline @ rest"
    using build_issue_body_marker [OF assms(1)] .
  then have "issue_matches f pre issue = Some True"
    using assms(2) by (intro issue_matches_own) auto
  then have "find_issue f pre issues \<noteq> Some None" using assms(3) find_issue_None by fastforce
  then have "f \<notin> set new" using filter_new_partition [OF assms(4)] by auto
  moreover have "key_subject (f_kind f) body = Some (f_subject f)"
    using key_subject_marker [OF assms(5)] by (simp add: body f_marker_def f_key_def)
  ultimately show ?thesis using filter_new_nothing_lost(1) [OF assms(4)] by auto
qed

definition pvc_demo :: finding where
  "pvc_demo = \<lparr>f_kind = KIND_PVC, f_subject = ''data/loki'', f_summary = ''full'', f_facts = []\<rparr>"

theorem filed_issue_tracks_finding_witness:
  "\<exists>body. build_issue_body pvc_demo (JObj []) [] [] = Some body
    \<and> filter_new_findings [pvc_demo] [JObj [(''body'', JStr body)]] [] = Some ([], [(pvc_demo, JObj [(''body'', JStr body)])])
    \<and> key_subject KIND_PVC body = Some ''data/loki''"
proof -
  obtain body where b: "build_issue_body pvc_demo (JObj []) [] [] = Some body"
    by (simp add: build_issue_body_def jget_or_def jor_def)
  then obtain rest where "body = f_marker pvc_demo @ newline @ rest" by (rule build_issue_body_marker)
  then have j: "jget_or (JObj [(''body'', JStr body)]) ''body'' (JStr []) = Some (JStr body)"
    by (simp add: jget_or_def jor_def newline_def)
  moreover have "sublist (f_marker pvc_demo) body"
    using \<open>body = f_marker pvc_demo @ newline @ rest\<close> by auto
  ultimately have "issue_matches pvc_demo [] (JObj [(''body'', JStr body)]) = Some True"
    by (rule issue_matches_own)
  then have n: "filter_new_findings [pvc_demo] [JObj [(''body'', JStr body)]] []
      = Some ([], [(pvc_demo, JObj [(''body'', JStr body)])])" by simp
  have "key_subject KIND_PVC body = Some ''data/loki''"
    using filed_issue_tracks_finding [OF b j _ n] by (simp add: pvc_demo_def plain_name_def)
  with b n show ?thesis by blast
qed

lemma set_slice_to: "set (slice_to n xs) \<subseteq> set xs"
  by (auto simp: slice_to_def dest: in_set_takeD)

lemma filter_slice_to: "(\<And>x. x \<in> set xs \<Longrightarrow> P x) \<Longrightarrow> filter P (slice_to n xs) = slice_to n xs"
  using set_slice_to by (force simp: filter_id_conv)

lemma filter_slice_none: "(\<And>x. x \<in> set xs \<Longrightarrow> \<not> P x) \<Longrightarrow> filter P (slice_to n xs) = []"
  using set_slice_to by (force simp: filter_empty_conv)

lemma select_split:
  obtains slots where
    "filter (\<lambda>f. f_kind f = KIND_ARGO) (select_to_file m max_open n ordered)
       = slice_to m (filter (\<lambda>f. f_kind f = KIND_ARGO) ordered)"
    and "filter (\<lambda>f. f_kind f \<noteq> KIND_ARGO) (select_to_file m max_open n ordered)
       = slice_to slots (filter (\<lambda>f. f_kind f \<noteq> KIND_ARGO) ordered)"
    and "0 \<le> slots" and "slots \<le> max 0 (max_open - int n)"
    and "set (select_to_file m max_open n ordered) \<subseteq> set ordered"
proof -
  define argo where "argo = slice_to m (filter (\<lambda>f. f_kind f = KIND_ARGO) ordered)"
  define slots where "slots = max 0 (min (m - int (length argo)) (max_open - int n))"
  have sel: "select_to_file m max_open n ordered = argo @ slice_to slots (filter (\<lambda>f. f_kind f \<noteq> KIND_ARGO) ordered)"
    by (simp add: select_to_file_def argo_def slots_def Let_def)
  have "set argo \<subseteq> set ordered" using set_slice_to unfolding argo_def by fastforce
  moreover have "set (slice_to slots (filter (\<lambda>f. f_kind f \<noteq> KIND_ARGO) ordered)) \<subseteq> set ordered"
    using set_slice_to by fastforce
  moreover have
    "filter (\<lambda>f. f_kind f = KIND_ARGO) argo = argo"
    "filter (\<lambda>f. f_kind f \<noteq> KIND_ARGO) argo = []"
    "filter (\<lambda>f. f_kind f = KIND_ARGO) (slice_to slots (filter (\<lambda>f. f_kind f \<noteq> KIND_ARGO) ordered)) = []"
    "filter (\<lambda>f. f_kind f \<noteq> KIND_ARGO) (slice_to slots (filter (\<lambda>f. f_kind f \<noteq> KIND_ARGO) ordered))
       = slice_to slots (filter (\<lambda>f. f_kind f \<noteq> KIND_ARGO) ordered)"
    unfolding argo_def by (rule filter_slice_to filter_slice_none; simp)+
  ultimately show ?thesis
    by (intro that [of slots]) (simp_all add: sel argo_def [symmetric], simp_all add: slots_def)
qed

text \<open>C30: what is filed: at most \<open>max_per_run\<close> of the new findings and nothing else; those that are no
  Argo findings only into the slots below the ceiling of open issues; the Argo findings are exempt
  from that ceiling: the first \<open>max_per_run\<close> of them are filed. What is not filed is the overflow
  that the summary reports.\<close>

theorem filing_respects_limits:
  assumes "0 \<le> m"
  shows "int (length (select_to_file m max_open n ordered)) \<le> m
    \<and> set (select_to_file m max_open n ordered)
        \<union> set (overflow_of ordered (select_to_file m max_open n ordered)) = set ordered
    \<and> int (length (filter (\<lambda>f. f_kind f \<noteq> KIND_ARGO) (select_to_file m max_open n ordered)))
        \<le> max 0 (max_open - int n)
    \<and> filter (\<lambda>f. f_kind f = KIND_ARGO) (select_to_file m max_open n ordered)
        = take (nat m) (filter (\<lambda>f. f_kind f = KIND_ARGO) ordered)"
proof -
  obtain slots where s:
    "filter (\<lambda>f. f_kind f = KIND_ARGO) (select_to_file m max_open n ordered)
       = slice_to m (filter (\<lambda>f. f_kind f = KIND_ARGO) ordered)"
    "filter (\<lambda>f. f_kind f \<noteq> KIND_ARGO) (select_to_file m max_open n ordered)
       = slice_to slots (filter (\<lambda>f. f_kind f \<noteq> KIND_ARGO) ordered)"
    "0 \<le> slots" "slots \<le> max 0 (max_open - int n)"
    "set (select_to_file m max_open n ordered) \<subseteq> set ordered"
    using select_split .
  have "int (length (select_to_file m max_open n ordered)) \<le> m"
    using length_select_to_file [OF assms, of max_open n ordered] assms by linarith
  moreover have "length (slice_to slots (filter (\<lambda>f. f_kind f \<noteq> KIND_ARGO) ordered)) \<le> nat slots"
    using length_slice_to [OF s(3)] .
  then have "int (length (slice_to slots (filter (\<lambda>f. f_kind f \<noteq> KIND_ARGO) ordered))) \<le> max 0 (max_open - int n)"
    using s(3,4) by linarith
  moreover have "set (select_to_file m max_open n ordered)
      \<union> set (overflow_of ordered (select_to_file m max_open n ordered)) = set ordered"
    using s(5) by (auto simp: overflow_of_def)
  ultimately show ?thesis using s(1,2) assms by (simp add: slice_to_def)
qed

theorem filing_respects_limits_witness:
  "int (length (select_to_file 2 20 20 [pvc_demo])) \<le> 2 \<and> overflow_of [pvc_demo] (select_to_file 2 20 20 [pvc_demo]) = [pvc_demo]"
  using filing_respects_limits [of 2 20 20 "[pvc_demo]"]
  by (simp add: select_to_file_def overflow_of_def slice_to_def pvc_demo_def)

text \<open>C31: the new findings are filed worst first: the order of \<open>prioritize\<close> is a permutation of the
  findings, sorted by the place of their kind in the priority list and then by key.\<close>

theorem worst_first:
  assumes "prioritize fs priority = Some gs" and "order = (if truthy priority then the (jiter priority) else default_priority)"
  shows "mset gs = mset fs \<and> sorted (map (rank order) gs)"
  using assms by (auto simp: prioritize_def split: if_splits)

theorem worst_first_witness:
  "\<exists>gs. prioritize [pvc_demo, \<lparr>f_kind = KIND_ARGO, f_subject = ''a'', f_summary = [], f_facts = []\<rparr>] JNull = Some gs
    \<and> sorted (map (rank default_priority) gs)"
proof -
  obtain gs where g: "prioritize [pvc_demo, \<lparr>f_kind = KIND_ARGO, f_subject = ''a'', f_summary = [], f_facts = []\<rparr>] JNull = Some gs"
    by (simp add: prioritize_def)
  from worst_first [OF this, of default_priority] g show ?thesis by auto
qed

section \<open>The guard\<close>

definition is_sep :: "char \<Rightarrow> bool" where
  "is_sep c \<longleftrightarrow> c = CHR ''/'' \<or> c = CHR '','' \<or> c = CHR ''.''"

lemma split_on_app: "p c \<Longrightarrow> split_on p (u @ c # v) = split_on p u @ split_on p v"
  by (induction u) (auto split: list.splits)

lemma split_on_whole: "\<forall>c \<in> set w. \<not> p c \<Longrightarrow> split_on p w = [w]"
  by (induction w) auto

lemma split_on_piece:
  assumes "\<forall>c \<in> set w. \<not> p c" and "u = [] \<or> p (last u)" and "v = [] \<or> p (hd v)"
  shows "w \<in> set (split_on p (u @ w @ v))"
proof -
  have wv: "w \<in> set (split_on p (w @ v))"
    using assms(1,3) by (cases v) (auto simp: split_on_app split_on_whole)
  show ?thesis
  proof (cases u rule: rev_cases)
    case (snoc u' c)
    then have "p c" using assms(2) by simp
    with wv snoc show ?thesis by (simp add: split_on_app)
  qed (use wv in simp)
qed

lemma lower_sep: "is_sep c \<Longrightarrow> is_sep (lower_char c)"
  by (auto simp: is_sep_def lower_char_def is_upper_def)

lemma unsafe_token_in:
  assumes "t \<in> set args" and "names_secret (str_lower t) \<or> str_lower t \<in> set MUTATING_TOKENS"
  shows "unsafe_token args \<noteq> None"
  using assms by (induction args) auto

text \<open>C32: a kubectl call that names the Secret resource is refused before anything runs: whenever one of
  the arguments holds \<open>secret\<close> or \<open>secrets\<close>, in any case, as a piece between slashes, commas and dots.\<close>

theorem secret_reads_refused:
  assumes "u @ w @ v \<in> set args" and "str_lower w = ''secret'' \<or> str_lower w = ''secrets''"
    and "u = [] \<or> is_sep (last u)" and "v = [] \<or> is_sep (hd v)"
  shows "\<exists>m. kubectl args env tr = (Inl (UnsafeCommand m), tr)"
proof -
  have low: "str_lower (u @ w @ v) = str_lower u @ str_lower w @ str_lower v" by (simp add: str_lower_def)
  have "\<forall>c \<in> set (str_lower w). \<not> is_sep c" using assms(2) by (auto simp: is_sep_def)
  moreover have "str_lower u = [] \<or> is_sep (last (str_lower u))"
    using assms(3) lower_sep by (cases u rule: rev_cases) (auto simp: str_lower_def)
  moreover have "str_lower v = [] \<or> is_sep (hd (str_lower v))"
    using assms(4) lower_sep by (cases v) (auto simp: str_lower_def)
  ultimately have "str_lower w \<in> set (split_on is_sep (str_lower (u @ w @ v)))"
    unfolding low by (rule split_on_piece)
  moreover have "is_sep = (\<lambda>c. c = CHR ''/'' \<or> c = CHR '','' \<or> c = CHR ''.'')"
    by (auto simp: is_sep_def fun_eq_iff)
  ultimately have "names_secret (str_lower (u @ w @ v))"
    using assms(2) by (auto simp: names_secret_def token_pieces_def list_ex_iff)
  then obtain m where "unsafe_token args = Some m" using unsafe_token_in [OF assms(1)] by auto
  then show ?thesis by (simp add: kubectl_def assert_safe_kubectl_def seq_def)
qed

theorem secret_reads_refused_witness:
  "\<exists>m. kubectl [''get'', ''pods,Secrets''] stuck_env [] = (Inl (UnsafeCommand m), [])"
  by (rule secret_reads_refused [where u = "''pods,''" and w = "''Secrets''" and v = "[]"])
    (simp, code_simp, simp_all add: is_sep_def)

section \<open>A comment that cannot be posted\<close>

text \<open>A limit of the ladder. The reboot is dispatched before its comment is posted, and the count of
  attempts lives only in that comment. So when GitHub refuses the comment (an issue at its comment
  cap, say), the run dispatches the reboot and then aborts, and since the thread is unchanged every
  later run that decides from it does the same: the reboots are neither counted nor bounded.\<close>

theorem uncounted_reboot:
  assumes "parse_dark_node_state comments = Some st"
    and "decide_dark_node_escalation f st (fst cfg) (x_now ctx) = Some (Reboot, st', msg)"
    and "jidx (JObj (f_facts f)) ''node'' = Some (JStr n)" and "name_ok n"
    and "\<And>tr args. \<exists>out err. env tr (''gh'' # ''workflow'' # args) None = Completed 0 out err"
    and "\<And>tr args body. \<exists>out err. env tr (''gh'' # ''issue'' # ''comment'' # args) (Some body) = Completed 1 out err"
  shows "\<exists>err args. act_on_dark_node ctx cfg f number st url lines env tr
    = (Inl (GitHubError err), tr @ [Proc (''gh'' # ''workflow'' # ''run'' # ''contabo-instance-reboot.yml'' # args) None,
         Proc [''gh'', ''issue'', ''comment'', py_str number, ''--repo'', x_repo ctx, ''--body-file'', tmp_path]
           (Some (act_comment Reboot msg st'))])"
proof -
  have n: "n \<noteq> []" using assms(4) by (auto simp: name_ok_def before_nl_def)
  define args where "args = [''--repo'', x_repo ctx, ''--ref'', ''main'',
     ''-f'', ''node_name='' @ n, ''-f'', ''external_ip='' @ py_str (jor (fact f ''external_ip'') (JStr [])),
     ''-f'', ''reason='' @ ''auto-reboot ('' @ f_key f @ ''): '' @ msg, ''-f'', ''confirm=RESTART'',
     ''-f'', ''issue_number='' @ py_str number]"
  define p1 where "p1 = Proc (''gh'' # ''workflow'' # ''run'' # ''contabo-instance-reboot.yml'' # args) None"
  obtain out err where e1: "env tr (''gh'' # ''workflow'' # ''run'' # ''contabo-instance-reboot.yml'' # args) None
      = Completed 0 out err" using assms(5) by blast
  have d: "act_dispatch ctx (snd cfg) f (py_str number) Reboot msg env tr = (Inr (), tr @ [p1])"
    using assms(3,4) n e1
    by (simp add: act_dispatch_def dispatch_reboot_def check_name_def jor_def gh_def bnd_def p1_def args_def Let_def)
  obtain out2 err2 where e2: "env (tr @ [p1]) [''gh'', ''issue'', ''comment'', py_str number, ''--repo'', x_repo ctx,
      ''--body-file'', tmp_path] (Some (act_comment Reboot msg st')) = Completed 1 out2 err2"
    using assms(6) by blast
  then have c: "\<exists>s. comment_issue (x_repo ctx) number (act_comment Reboot msg st') env (tr @ [p1])
      = (Inl (GitHubError s), tr @ [p1, Proc [''gh'', ''issue'', ''comment'', py_str number, ''--repo'', x_repo ctx,
          ''--body-file'', tmp_path] (Some (act_comment Reboot msg st'))])"
    by (simp add: comment_issue_def gh_def bnd_def)
  have "act_on_dark_node ctx cfg f number st url lines env tr
      = seq (comment_issue (x_repo ctx) number (act_comment Reboot msg st'))
          (ret (lines @ [acted_line f Reboot msg url])) env (tr @ [p1])"
    using assms(2) d by (simp add: act_on_dark_node_def seq_def bnd_def)
  with c show ?thesis by (auto simp: seq_def bnd_def p1_def)
qed

text \<open>An outside in which gh dispatches workflows and refuses comments.\<close>

definition capped_env :: env where
  "capped_env tr argv body =
     Completed (if body = None then 0 else 1) [] ''Commenting is disabled on issues with more than 2500 comments''"

definition cp_ctx :: run_ctx where
  "cp_ctx = \<lparr>x_config = JObj [], x_now = demo_time 9, x_repo = ''o/r'', x_run_url = [], x_dry_run = False,
     x_summary = False\<rparr>"

definition node_finding :: finding where
  "node_finding = demo_finding 45 3 \<lparr>f_facts := (''node'', JStr ''cp-2'') # f_facts (demo_finding 45 3)\<rparr>"

theorem uncounted_reboot_witness:
  "\<exists>st' msg err args. decide_dark_node_escalation node_finding DEFAULT_DARK_STATE demo_cfg (demo_time 9)
      = Some (Reboot, st', msg)
    \<and> act_on_dark_node cp_ctx (demo_cfg, JNull) node_finding (JInt 7) DEFAULT_DARK_STATE [] [] capped_env []
    = (Inl (GitHubError err), [] @ [Proc (''gh'' # ''workflow'' # ''run'' # ''contabo-instance-reboot.yml'' # args) None,
         Proc [''gh'', ''issue'', ''comment'', py_str (JInt 7), ''--repo'', x_repo cp_ctx, ''--body-file'', tmp_path]
           (Some (act_comment Reboot msg st'))])"
proof -
  let ?d = "decide_dark_node_escalation node_finding DEFAULT_DARK_STATE demo_cfg (demo_time 9)"
  have "map_option fst ?d = Some Reboot" by code_simp
  then obtain st' msg where d: "?d = Some (Reboot, st', msg)" by auto
  have "jidx (JObj (f_facts node_finding)) ''node'' = Some (JStr ''cp-2'')" by (simp add: node_finding_def)
  moreover have "name_ok ''cp-2''" by code_simp
  moreover have "parse_dark_node_state [] = Some DEFAULT_DARK_STATE" by (simp add: parse_dark_node_state_def)
  ultimately show ?thesis
    using uncounted_reboot [of "[]" DEFAULT_DARK_STATE node_finding "(demo_cfg, JNull)" cp_ctx st' msg "''cp-2''"
        capped_env "JInt 7" "[]" "[]" "[]"] d
    by (simp add: cp_ctx_def capped_env_def)
qed

section \<open>The run is the step of the ladder machine\<close>













end
