(* ===== verification/Runner_Decide.thy ===== *)
theory Runner_Decide
  imports JsonText PyTime Durable
begin

text \<open>
  The pure part of scripts/runner_watch.py: which runner a repository should use
  (\<open>decide_runner\<close>), when a new answer may be written (\<open>hysteresis\<close>), and which queued runs are
  stranded (\<open>stranded_runs\<close>). A result None of an option means that the Python code raises.
\<close>

section \<open>Facts and decisions\<close>

record repo_facts =
  rf_slug :: string
  rf_private :: bool
  rf_pool :: string
  rf_capability :: string
  rf_online :: "int option"
  rf_pinned :: bool
  rf_ephemeral :: bool

record runner_decision =
  d_labels :: "string option"
  d_reason :: string
  d_verified :: bool
  d_warning :: string

definition HOSTED :: string where
  "HOSTED = ''ubuntu-latest''"

definition RUNNER_VAR :: string where
  "RUNNER_VAR = ''CI_RUNNER_LABELS''"

definition decision :: "string option \<Rightarrow> string \<Rightarrow> runner_decision" where
  "decision labels reason = \<lparr>d_labels = labels, d_reason = reason, d_verified = False, d_warning = []\<rparr>"

definition needs_liveness :: "repo_facts \<Rightarrow> bool" where
  "needs_liveness facts =
     (if rf_capability facts = ''cluster'' then False
      else if rf_pinned facts then False
      else if \<not> rf_private facts then False
      else rf_pool facts \<noteq> [])"

definition cluster_decision :: "repo_facts \<Rightarrow> runner_decision" where
  "cluster_decision facts =
     (if rf_pool facts \<noteq> []
      then decision (Some (rf_pool facts))
             (''capability=cluster '' @ em_dash @ '' only a self-hosted runner can reach the cluster'')
      else (decision None
              (''capability=cluster but no pool is declared '' @ em_dash @ '' refusing to guess a pool name''))
           \<lparr>d_warning := rf_slug facts
              @ '' declares capability=cluster with no ci.runner. A cluster job ''
              @ ''cannot run on a hosted runner, and naming a pool that does not exist ''
              @ ''queues forever (ci-runners.md). Declare ci.runner, or drop the capability.''\<rparr>)"

definition unverified_decision :: "repo_facts \<Rightarrow> runner_decision" where
  "unverified_decision facts =
     (decision None (''liveness of '' @ [CHR 39] @ rf_pool facts @ [CHR 39] @ '' UNVERIFIED '' @ em_dash
        @ '' keeping the current value''))
     \<lparr>d_warning := rf_slug facts
        @ '': could not verify runner liveness (the token may lack ''
        @ ''administration:read, or the API was unreachable). NOT writing ''
        @ RUNNER_VAR @ '': on a persistent sink, guessing 'hosted' from one failed ''
        @ ''probe would migrate the fleet off its runners on the strength of an API ''
        @ ''blip, and guessing '' @ [CHR 39] @ rf_pool facts @ [CHR 39]
        @ '' would route onto a pool nobody has observed to be up. Keeping the current value ''
        @ ''is the only answer that invents nothing.''\<rparr>"

definition idle_decision :: "repo_facts \<Rightarrow> runner_decision" where
  "idle_decision facts =
     (if rf_ephemeral facts
      then (decision (Some (rf_pool facts))
              (''private repo, pool '' @ [CHR 39] @ rf_pool facts @ [CHR 39]
               @ '' reports 0 idle runners '' @ em_dash
               @ '' the normal resting state of a scale-to-zero pool, not a fault; routing to it ''
               @ ''and leaving a genuinely down pool to the stranded-run recovery sweep''))
           \<lparr>d_verified := True\<rparr>
      else (decision (Some HOSTED)
              (''self-hosted pool '' @ [CHR 39] @ rf_pool facts @ [CHR 39] @ '' has 0 runners online ''
               @ em_dash @ '' refusing to queue onto a down pool''))
           \<lparr>d_verified := True\<rparr>)"

definition decide_runner :: "repo_facts \<Rightarrow> runner_decision" where
  "decide_runner facts =
     (if rf_capability facts = ''cluster'' then cluster_decision facts
      else if rf_pinned facts
      then decision None (''operator-pinned in governance/runner-watch.json '' @ em_dash
             @ '' the watcher reports, it does not write'')
      else if \<not> rf_private facts
      then decision (Some HOSTED) (''public repo '' @ em_dash @ '' GitHub-hosted Actions is free and unmetered'')
      else if rf_pool facts = []
      then decision (Some HOSTED) ''no self-hosted runner declared for this repo''
      else (case rf_online facts of
              None \<Rightarrow> unverified_decision facts
            | Some n \<Rightarrow>
                (if n = 0 then idle_decision facts
                 else (decision (Some (rf_pool facts))
                         (''private repo, '' @ show_int n @ '' runner(s) online '' @ em_dash
                          @ '' conserving metered hosted minutes''))
                      \<lparr>d_verified := True\<rparr>)))"

section \<open>Hysteresis\<close>

record observation =
  o_value :: string
  o_count :: int

record hysteresis_result =
  h_write :: bool
  h_observation :: "observation option"
  h_reason :: string

text \<open>\<open>f"{x!r}"\<close> of an optional text.\<close>

definition opt_repr :: "string option \<Rightarrow> string" where
  "opt_repr s = (case s of None \<Rightarrow> ''None'' | Some t \<Rightarrow> quoted t)"

definition next_count :: "string \<Rightarrow> observation option \<Rightarrow> int" where
  "next_count computed prior =
     (case prior of
        Some p \<Rightarrow> (if o_value p = computed then o_count p + 1 else 1)
      | None \<Rightarrow> 1)"

definition write_reason :: "string \<Rightarrow> string option \<Rightarrow> int \<Rightarrow> int \<Rightarrow> string" where
  "write_reason computed current count threshold =
     quoted computed @ '' observed on '' @ show_int count @ '' consecutive run(s) (threshold ''
     @ show_int threshold @ '') '' @ em_dash @ '' writing over '' @ opt_repr current"

definition hold_reason :: "string \<Rightarrow> string option \<Rightarrow> int \<Rightarrow> int \<Rightarrow> string" where
  "hold_reason computed current count threshold =
     quoted computed @ '' differs from '' @ opt_repr current @ '' but has only been observed ''
     @ show_int count @ ''/'' @ show_int threshold @ '' time(s) '' @ em_dash
     @ '' holding. A one-tick blip must never move the fleet.''"

definition hysteresis ::
  "string option \<Rightarrow> string option \<Rightarrow> observation option \<Rightarrow> int \<Rightarrow> hysteresis_result option" where
  "hysteresis current computed prior threshold =
     (if threshold < 1 then None
      else Some (case computed of
        None \<Rightarrow> \<lparr>h_write = False, h_observation = prior,
                 h_reason = ''no decision to write (see the decision reason)''\<rparr>
      | Some v \<Rightarrow>
          (if current = Some v
           then \<lparr>h_write = False, h_observation = None,
                 h_reason = ''already '' @ quoted v @ '' '' @ em_dash @ '' nothing to write''\<rparr>
           else (let count = next_count v prior; obs = \<lparr>o_value = v, o_count = count\<rparr>
                 in if threshold \<le> count
                    then \<lparr>h_write = True, h_observation = Some obs,
                          h_reason = write_reason v current count threshold\<rparr>
                    else \<lparr>h_write = False, h_observation = Some obs,
                          h_reason = hold_reason v current count threshold\<rparr>))))"

section \<open>Stranded runs\<close>

record job_facts =
  j_run_id :: int
  j_job_id :: int
  j_name :: string
  j_status :: string
  j_queued_at :: "datetime option"
  j_runner_name :: json
  j_runner_id :: json
  j_html_url :: string

definition has_runner :: "job_facts \<Rightarrow> bool" where
  "has_runner job = (if truthy (j_runner_name job) then True else truthy (j_runner_id job))"

text \<open>\<open>now - timedelta(minutes=m)\<close> as a time line; the edge of the calendar is not modelled.\<close>

definition minutes_before :: "datetime \<Rightarrow> int \<Rightarrow> int" where
  "minutes_before now m = to_us now - m * 60000000"

fun scan_jobs :: "int \<Rightarrow> job_facts list \<Rightarrow> int list \<times> int list \<Rightarrow> int list \<times> int list" where
  "scan_jobs cutoff [] acc = acc"
| "scan_jobs cutoff (job # jobs) (busy, candidates) =
     scan_jobs cutoff jobs
       (if j_status job = ''in_progress'' then (j_run_id job # busy, candidates)
        else if j_status job \<noteq> ''queued'' then (busy, candidates)
        else if has_runner job then (busy, candidates)
        else (case j_queued_at job of
                None \<Rightarrow> (busy, candidates)
              | Some t \<Rightarrow> (if cutoff < to_us t then (busy, candidates)
                          else (busy, j_run_id job # candidates))))"

definition stranded_runs :: "job_facts list \<Rightarrow> datetime \<Rightarrow> int \<Rightarrow> int list \<Rightarrow> int list" where
  "stranded_runs jobs now threshold_minutes already_recovered =
     (let (busy, candidates) = scan_jobs (minutes_before now threshold_minutes) jobs ([], [])
      in sort (remdups (filter (\<lambda>r. \<not> List.member busy r \<and> \<not> List.member already_recovered r) candidates)))"

end
