(* ===== verification/Runner_State.thy ===== *)
theory Runner_State
  imports Runner_Decide
begin

text \<open>
  The durable state of scripts/runner_watch.py, kept as JSON text in two repository variables: the
  hysteresis counters and the ledger of recovered runs; the fleet list and the policy file. The
  durable-state locale is interpreted on the counters in Runner_Durable.
\<close>

section \<open>Times\<close>

definition parse_ts :: "json \<Rightarrow> datetime option option" where
  "parse_ts v =
     (case v of
        JStr s \<Rightarrow>
          (if s = [] then Some None
           else (let t = str_strip s;
                     t' = (if t \<noteq> [] \<and> last t = CHR ''Z'' then butlast t @ ''+00:00'' else t)
                 in case fromisoformat t' of
                      None \<Rightarrow> Some None
                    | Some (d, off) \<Rightarrow> map_option Some (astimezone_utc d off)))
      | _ \<Rightarrow> Some None)"

text \<open>\<open>now.isoformat().replace("+00:00", "Z")\<close> of a UTC time.\<close>

definition iso_z :: "datetime \<Rightarrow> string" where
  "iso_z d = take (length (isoformat d) - 6) (isoformat d) @ ''Z''"

section \<open>Hysteresis counters\<close>

type_synonym counters = "(string \<times> observation) list"

text \<open>\<open>isinstance(count, int)\<close> also holds of the booleans.\<close>

fun int_value :: "json \<Rightarrow> int option" where
  "int_value (JInt i) = Some i"
| "int_value (JBool b) = Some (if b then 1 else 0)"
| "int_value _ = None"

definition load_entry :: "json \<Rightarrow> observation option" where
  "load_entry entry =
     (case entry of
        JObj kvs \<Rightarrow>
          (case (dget kvs ''value'' JNull, int_value (dget kvs ''count'' JNull)) of
             (JStr v, Some n) \<Rightarrow> (if 0 < n then Some \<lparr>o_value = v, o_count = n\<rparr> else None)
           | _ \<Rightarrow> None)
      | _ \<Rightarrow> None)"

fun load_entries :: "jobj \<Rightarrow> counters" where
  "load_entries [] = []"
| "load_entries ((slug, entry) # kvs) =
     (case load_entry entry of
        Some o' \<Rightarrow> (slug, o') # load_entries kvs
      | None \<Rightarrow> load_entries kvs)"

text \<open>The value of member k of the JSON object in the text, when it is an object itself.\<close>

definition object_member :: "string option \<Rightarrow> string \<Rightarrow> jobj option" where
  "object_member raw k =
     (case raw of
        None \<Rightarrow> None
      | Some t \<Rightarrow>
          (if t = [] then None
           else (case loads t of
                   Some (JObj kvs) \<Rightarrow> (case dget kvs k JNull of JObj m \<Rightarrow> Some m | _ \<Rightarrow> None)
                 | _ \<Rightarrow> None)))"

definition load_state :: "string option \<Rightarrow> counters" where
  "load_state raw = (case object_member raw ''observations'' of None \<Rightarrow> [] | Some m \<Rightarrow> load_entries m)"

definition entry_json :: "observation \<Rightarrow> json" where
  "entry_json o' = JObj [(''value'', JStr (o_value o')), (''count'', JInt (o_count o'))]"

definition dump_state :: "counters \<Rightarrow> string" where
  "dump_state observations =
     dumps (jsort (JObj [(''version'', JInt 1),
       (''observations'', JObj (map (\<lambda>(slug, o'). (slug, entry_json o')) (sort_key fst observations)))]))"

section \<open>The ledger of recovered runs\<close>

type_synonym ledger = "(int \<times> string) list"

definition RECOVERED_TTL_DAYS :: int where
  "RECOVERED_TTL_DAYS = 30"

text \<open>None: the OverflowError of a time zone conversion at the edge of the calendar.\<close>

definition keep_entry :: "datetime \<Rightarrow> string \<Rightarrow> json \<Rightarrow> (int \<times> string) option option" where
  "keep_entry now key when =
     (case int_of_str key of
        None \<Rightarrow> Some None
      | Some run_id \<Rightarrow>
          (case when of
             JStr w \<Rightarrow>
               do { ts \<leftarrow> parse_ts when;
                    Some (case ts of
                            None \<Rightarrow> Some (run_id, w)
                          | Some d \<Rightarrow>
                              (if to_us d < minutes_before now (RECOVERED_TTL_DAYS * 1440) then None
                               else Some (run_id, w))) }
           | _ \<Rightarrow> Some None))"

fun load_ledger :: "datetime \<Rightarrow> jobj \<Rightarrow> ledger \<Rightarrow> ledger option" where
  "load_ledger now [] out = Some out"
| "load_ledger now ((key, when) # kvs) out =
     do { e \<leftarrow> keep_entry now key when;
          load_ledger now kvs (case e of None \<Rightarrow> out | Some (r, w) \<Rightarrow> AList.update r w out) }"

definition load_recovered :: "string option \<Rightarrow> datetime \<Rightarrow> ledger option" where
  "load_recovered raw now =
     (case object_member raw ''recovered'' of None \<Rightarrow> Some [] | Some m \<Rightarrow> load_ledger now m [])"

definition dump_recovered :: "ledger \<Rightarrow> string" where
  "dump_recovered recovered =
     dumps (jsort (JObj [(''version'', JInt 1),
       (''recovered'', JObj (map (\<lambda>(r, w). (show_int r, JStr w)) (sort_key fst recovered)))]))"

section \<open>Fleet and policy\<close>

definition fleet_repos :: "json \<Rightarrow> string list option" where
  "fleet_repos data =
     do { owner \<leftarrow> jget_d data ''owner'' (JStr []);
          ex \<leftarrow> jget_d data ''excluded'' (JObj []);
          excluded \<leftarrow> jiter ex;
          rs \<leftarrow> jget_d data ''repos'' (JList []);
          repos \<leftarrow> jiter rs;
          guard_opt (list_all hashable excluded \<and> list_all hashable repos)
            (Some (map (\<lambda>n. py_str owner @ ''/'' @ py_str n)
              (filter (\<lambda>n. \<not> List.member excluded n) repos))) }"

record policy =
  p_pinned :: "(string \<times> string) list"
  p_capability :: "(string \<times> string) list"
  p_hysteresis :: int
  p_stranded :: int
  p_ephemeral :: bool

definition default_policy :: policy where
  "default_policy = \<lparr>p_pinned = [], p_capability = [], p_hysteresis = 2, p_stranded = 20, p_ephemeral = True\<rparr>"

definition text_items :: "json \<Rightarrow> string \<Rightarrow> (string \<times> string) list option" where
  "text_items data k =
     do { v \<leftarrow> jget_or data k (JObj []);
          (case v of JObj kvs \<Rightarrow> Some (map (\<lambda>(k, w). (k, py_str w)) kvs) | _ \<Rightarrow> None) }"

text \<open>The argument is the parsed policy file, None when there is none.\<close>

definition load_policy :: "json option \<Rightarrow> policy option" where
  "load_policy file =
     (case file of
        None \<Rightarrow> Some default_policy
      | Some data \<Rightarrow>
          do { pinned \<leftarrow> text_items data ''pinned'';
               capability \<leftarrow> text_items data ''capability'';
               hv \<leftarrow> jget_d data ''hysteresis'' (JInt 2);
               h \<leftarrow> py_int hv;
               sv \<leftarrow> jget_d data ''stranded_minutes'' (JInt 20);
               s \<leftarrow> py_int sv;
               e \<leftarrow> jget_d data ''ephemeral_pools'' (JBool True);
               Some \<lparr>p_pinned = pinned, p_capability = capability, p_hysteresis = h, p_stranded = s,
                     p_ephemeral = truthy e\<rparr> })"

end
