(* ===== verification/Encoding.thy ===== *)
theory Encoding
  imports Prelude
begin

text \<open>
  base64 and UTF-8 of the Python standard library, on bytes.
\<close>

section \<open>base64\<close>

definition b64_val :: "char \<Rightarrow> nat option" where
  "b64_val c =
     (let n = of_char c :: nat
      in if is_upper c then Some (n - 65) else if is_lower c then Some (n - 71)
         else if is_digit c then Some (n + 4)
         else if c = CHR ''+'' then Some 62 else if c = CHR ''/'' then Some 63 else None)"

text \<open>The decoder of binascii: other characters are skipped, padding that completes a group ends the
  input; q counts the characters of the open group, l holds the bits left over.\<close>

fun b64 :: "nat \<Rightarrow> nat \<Rightarrow> nat \<Rightarrow> string \<Rightarrow> string option" where
  "b64 q l pads [] = (if q = 0 then Some [] else None)"
| "b64 q l pads (c # s) =
     (if c = CHR ''=''
      then (if 2 \<le> q then (if 4 \<le> q + (pads + 1) then Some [] else b64 q l (pads + 1) s) else b64 q l pads s)
      else (case b64_val c of
              None \<Rightarrow> b64 q l pads s
            | Some v \<Rightarrow>
                (if q = 0 then b64 1 v 0 s
                 else if q = 1 then map_option (Cons (char_of (l * 4 + v div 16))) (b64 2 (v mod 16) 0 s)
                 else if q = 2 then map_option (Cons (char_of (l * 16 + v div 4))) (b64 3 (v mod 4) 0 s)
                 else map_option (Cons (char_of (l * 64 + v))) (b64 0 0 0 s))))"

definition b64decode :: "string \<Rightarrow> string option" where
  "b64decode s = b64 0 0 0 s"

text \<open>Strict UTF-8: the length of a sequence and the range of its second byte.\<close>

definition cont :: "nat \<Rightarrow> bool" where
  "cont b \<longleftrightarrow> 128 \<le> b \<and> b < 192"

fun utf8_ok :: "nat list \<Rightarrow> bool" where
  "utf8_ok [] = True"
| "utf8_ok (a # s) =
     (if a < 128 then utf8_ok s
      else if 194 \<le> a \<and> a < 224 then (case s of b # t \<Rightarrow> cont b \<and> utf8_ok t | _ \<Rightarrow> False)
      else if 224 \<le> a \<and> a < 240
      then (case s of
              b # c # t \<Rightarrow> cont b \<and> cont c \<and> (a = 224 \<longrightarrow> 160 \<le> b) \<and> (a = 237 \<longrightarrow> b < 160) \<and> utf8_ok t
            | _ \<Rightarrow> False)
      else if 240 \<le> a \<and> a < 245
      then (case s of
              b # c # d # t \<Rightarrow> cont b \<and> cont c \<and> cont d \<and> (a = 240 \<longrightarrow> 144 \<le> b) \<and> (a = 244 \<longrightarrow> b < 144)
                \<and> utf8_ok t
            | _ \<Rightarrow> False)
      else False)"

text \<open>\<open>decode("utf-8", errors="replace")\<close>: the longest start of a sequence that does not go on becomes one
  replacement character. A lead byte determines the ranges of the bytes that follow it.\<close>

definition tail_ranges :: "nat \<Rightarrow> (nat \<times> nat) list option" where
  "tail_ranges a =
     (let c = (128, 191)
      in if a < 128 then Some []
         else if 194 \<le> a \<and> a < 224 then Some [c]
         else if a = 224 then Some [(160, 191), c]
         else if a = 237 then Some [(128, 159), c]
         else if 224 < a \<and> a < 240 then Some [c, c]
         else if a = 240 then Some [(144, 191), c, c]
         else if 240 < a \<and> a < 244 then Some [c, c, c]
         else if a = 244 then Some [(128, 143), c, c]
         else None)"

fun matched :: "(nat \<times> nat) list \<Rightarrow> string \<Rightarrow> nat" where
  "matched ((lo, hi) # rs) (c # s) = (if chr_in lo c hi then Suc (matched rs s) else 0)"
| "matched rs s = 0"

definition replacement :: string where
  "replacement = [CHR 0xEF, CHR 0xBF, CHR 0xBD]"

function decode_replace :: "string \<Rightarrow> string" where
  "decode_replace s =
     (case s of
        [] \<Rightarrow> []
      | c # t \<Rightarrow>
          (case tail_ranges (of_char c) of
             None \<Rightarrow> replacement @ decode_replace t
           | Some rs \<Rightarrow>
               (let n = matched rs t
                in (if n = length rs then c # take n t else replacement) @ decode_replace (drop n t))))"
  by pat_completeness auto
termination
  by (relation "measure length") auto

declare decode_replace.simps [simp del]

end
