(* ===== verification/Runner_Main.thy ===== *)
theory Runner_Main
  imports Runner_State Effects Encoding
begin

text \<open>
  The network layer and the two drivers of scripts/runner_watch.py. \<open>GhError\<close> is the exception
  \<open>GitHubError\<close> of the effects theory (the gh program failed). The second argument of a process is
  here the token that overrides the ambient credential for that one call.
\<close>

section \<open>gh\<close>

definition gh_call :: "string list \<Rightarrow> string option \<Rightarrow> string io" where
  "gh_call args token =
     bnd (proc (''gh'' # args) (if token = Some [] then None else token)) (\<lambda>r.
       case r of
         NotRun exc \<Rightarrow> raise Uncaught
       | Completed code out err \<Rightarrow>
           (if code \<noteq> 0
            then raise (GitHubError (''gh '' @ str_join '' '' args @ '' failed ('' @ show_int code @ ''): ''
                   @ str_strip err))
            else ret out))"

text \<open>\<open>json.loads\<close> raises a ValueError, which some callers catch: None.\<close>

definition gh_text_json :: "string \<Rightarrow> json option" where
  "gh_text_json out = (if str_strip out = [] then Some JNull else loads out)"

definition gh_json :: "string list \<Rightarrow> json io" where
  "gh_json args = bnd (gh_call args None) (\<lambda>out. opt (gh_text_json out))"

definition on_gh_error :: "'a io \<Rightarrow> (string \<Rightarrow> 'a io) \<Rightarrow> 'a io" where
  "on_gh_error m h =
     handle m (\<lambda>e. case e of
         GitHubError s \<Rightarrow> h s | ClusterUnreachable s \<Rightarrow> raise (ClusterUnreachable s)
       | UnsafeCommand s \<Rightarrow> raise (UnsafeCommand s) | Uncaught \<Rightarrow> raise Uncaught)"

section \<open>Probing a repository\<close>

text \<open>The declared pool in the manifest. The outer None is an AttributeError, which the caller does not
  catch; the inner None a ValueError or TypeError, which it does.\<close>

definition manifest_pool :: "string \<Rightarrow> string option option" where
  "manifest_pool raw =
     (case b64decode (str_strip raw) of
        None \<Rightarrow> Some None
      | Some bytes \<Rightarrow>
          (if \<not> utf8_ok (map of_char bytes) then Some None
           else (case loads bytes of
                   None \<Rightarrow> Some None
                 | Some manifest \<Rightarrow>
                     do { ci \<leftarrow> jget_or manifest ''ci'' (JObj []);
                          r \<leftarrow> jget_or ci ''runner'' (JStr []);
                          Some (Some (py_str r)) })))"

definition declared_pool :: "string \<Rightarrow> string io" where
  "declared_pool slug =
     on_gh_error
       (bnd (gh_call [''api'', ''repos/'' @ slug @ ''/contents/.fuze/manifest.json'', ''--jq'', ''.content''] None)
         (\<lambda>raw. bnd (opt (manifest_pool raw)) (\<lambda>p. ret (case p of None \<Rightarrow> [] | Some s \<Rightarrow> s))))
       (\<lambda>_. ret [])"

text \<open>The number of online runners in the answer; None when the answer does not say.\<close>

definition online_count :: "string \<Rightarrow> int option" where
  "online_count out =
     (case gh_text_json out of
        Some (JInt n) \<Rightarrow> Some n
      | Some (JBool b) \<Rightarrow> Some (if b then 1 else 0)
      | Some (JList xs) \<Rightarrow> map_option sum_list (those (map py_int xs))
      | _ \<Rightarrow> None)"

definition runners_args :: "string \<Rightarrow> string list" where
  \<open>runners_args slug =
     [''api'', ''repos/'' @ slug @ ''/actions/runners'', ''--paginate'', ''--jq'',
      ''[.runners[]? | select(.status=="online")] | length'']\<close>

definition probe_liveness :: "string \<Rightarrow> string option \<Rightarrow> int option io" where
  "probe_liveness slug token =
     on_gh_error (bnd (gh_call (runners_args slug) token) (\<lambda>out. ret (online_count out))) (\<lambda>_. ret None)"

definition probe_private :: "string \<Rightarrow> bool io" where
  "probe_private slug =
     bnd (gh_json [''api'', ''repos/'' @ slug, ''--jq'', ''{private: .private, default_branch: .default_branch}''])
       (\<lambda>meta. opt (map_option truthy (jget (jor meta (JObj [])) ''private'')))"

definition probe_repo :: "string \<Rightarrow> string option \<Rightarrow> repo_facts io" where
  "probe_repo slug token =
     bnd (probe_private slug) (\<lambda>private.
     bnd (declared_pool slug) (\<lambda>pool.
     bnd (probe_liveness slug token) (\<lambda>online.
     ret \<lparr>rf_slug = slug, rf_private = private, rf_pool = pool, rf_capability = [], rf_online = online,
          rf_pinned = False, rf_ephemeral = True\<rparr>)))"

section \<open>Variables\<close>

definition var_path :: "string \<Rightarrow> string \<Rightarrow> string" where
  "var_path slug name = ''repos/'' @ slug @ ''/actions/variables/'' @ name"

definition read_variable :: "string \<Rightarrow> string \<Rightarrow> string option io" where
  "read_variable slug name =
     on_gh_error
       (bnd (gh_json [''api'', var_path slug name]) (\<lambda>data.
          ret (case data of JObj kvs \<Rightarrow> as_text (dget kvs ''value'' JNull) | _ \<Rightarrow> None)))
       (\<lambda>_. ret None)"

definition patch_args :: "string \<Rightarrow> string \<Rightarrow> string \<Rightarrow> string list" where
  "patch_args slug name val =
     [''api'', ''--method'', ''PATCH'', var_path slug name, ''-f'', ''name='' @ name, ''-f'', ''value='' @ val]"

definition post_args :: "string \<Rightarrow> string \<Rightarrow> string \<Rightarrow> string list" where
  "post_args slug name val =
     [''api'', ''--method'', ''POST'', ''repos/'' @ slug @ ''/actions/variables'', ''-f'', ''name='' @ name,
      ''-f'', ''value='' @ val]"

definition write_variable :: "string \<Rightarrow> string \<Rightarrow> string \<Rightarrow> unit io" where
  "write_variable slug name val =
     on_gh_error
       (bnd (gh_call (patch_args slug name val) None) (\<lambda>_. ret ()))
       (\<lambda>_. bnd (gh_call (post_args slug name val) None) (\<lambda>_. ret ()))"

section \<open>Queued jobs\<close>

definition job_of :: "int \<Rightarrow> json \<Rightarrow> json \<Rightarrow> job_facts option" where
  "job_of run_id run job =
     do { idv \<leftarrow> jget_or job ''id'' (JInt 0);
          job_id \<leftarrow> py_int idv;
          name \<leftarrow> jget_or job ''name'' (JStr []);
          status \<leftarrow> jget_or job ''status'' (JStr []);
          created \<leftarrow> jget job ''created_at'';
          stamp \<leftarrow> (if truthy created then Some created else jget job ''started_at'');
          queued_at \<leftarrow> parse_ts stamp;
          rname \<leftarrow> jget job ''runner_name'';
          rid \<leftarrow> jget job ''runner_id'';
          url \<leftarrow> jget_or job ''html_url'' (JStr []);
          run_url \<leftarrow> jget_or run ''html_url'' (JStr []);
          Some \<lparr>j_run_id = run_id, j_job_id = job_id, j_name = py_str name, j_status = py_str status,
                j_queued_at = queued_at, j_runner_name = jor rname JNull, j_runner_id = jor rid JNull,
                j_html_url = py_str (jor url run_url)\<rparr> }"

definition run_jobs :: "string \<Rightarrow> json \<Rightarrow> job_facts list \<Rightarrow> job_facts list io" where
  "run_jobs slug run out =
     bnd (opt (do { v \<leftarrow> jidx run ''id''; py_int v })) (\<lambda>run_id.
     bnd (gh_json [''api'', ''repos/'' @ slug @ ''/actions/runs/'' @ show_int run_id @ ''/jobs?per_page=100'',
           ''--paginate'', ''--jq'',
           ''[.jobs[]? | {id, name, status, started_at, created_at, runner_name, runner_id, html_url}]'']) (\<lambda>v.
     bnd (opt (do { jobs \<leftarrow> jiter (jor v (JList [])); those (map (job_of run_id run) jobs) })) (\<lambda>js.
     ret (out @ js))))"

definition queued_jobs :: "string \<Rightarrow> job_facts list io" where
  "queued_jobs slug =
     bnd (gh_json [''api'', ''repos/'' @ slug @ ''/actions/runs?status=queued&per_page=100'',
           ''--jq'', ''[.workflow_runs[]? | {id, html_url, name}]'']) (\<lambda>v.
     bnd (opt (jiter (jor v (JList [])))) (\<lambda>runs.
     each (run_jobs slug) runs []))"

section \<open>Job A: decide\<close>

definition STATE_VAR_DECIDE :: string where
  "STATE_VAR_DECIDE = ''CI_RUNNER_WATCH_STATE''"

definition STATE_VAR_RECOVER :: string where
  "STATE_VAR_RECOVER = ''CI_RUNNER_RECOVERY_STATE''"

record decide_acc =
  a_state :: counters
  a_warnings :: int
  a_writes :: int
  a_needed :: int
  a_blind :: int

definition warning :: "string \<Rightarrow> event" where
  "warning s = Print (''::warning title=runner-watch::'' @ s)"

definition notice :: "string \<Rightarrow> event" where
  "notice s = Print (''::notice title=runner-watch::'' @ s)"

text \<open>The probe, None when the repository is unreachable.\<close>

definition try_probe :: "string \<Rightarrow> string option \<Rightarrow> repo_facts option io" where
  "try_probe slug token =
     on_gh_error (bnd (probe_repo slug token) (\<lambda>f. ret (Some f)))
       (\<lambda>exc. seq (emit (warning (slug @ '': unreachable ('' @ exc @ ''). Left untouched '' @ em_dash
                    @ '' an unreachable repo is never treated as compliant.'')))
              (ret None))"

definition with_policy :: "policy \<Rightarrow> string \<Rightarrow> repo_facts \<Rightarrow> repo_facts" where
  "with_policy pol slug facts =
     facts\<lparr>rf_capability := (case map_of (p_capability pol) slug of None \<Rightarrow> [] | Some c \<Rightarrow> c),
           rf_pinned := map_of (p_pinned pol) slug \<noteq> None, rf_ephemeral := p_ephemeral pol\<rparr>"

definition count_liveness :: "repo_facts \<Rightarrow> decide_acc \<Rightarrow> decide_acc" where
  "count_liveness facts acc =
     (if needs_liveness facts
      then acc\<lparr>a_needed := a_needed acc + 1,
               a_blind := a_blind acc + (if rf_online facts = None then 1 else 0)\<rparr>
      else acc)"

definition online_text :: "int option \<Rightarrow> string" where
  "online_text n = (case n of None \<Rightarrow> ''None'' | Some i \<Rightarrow> show_int i)"

definition decide_line :: "repo_facts \<Rightarrow> string option \<Rightarrow> runner_decision \<Rightarrow> hysteresis_result \<Rightarrow> string" where
  "decide_line facts current d r =
     rf_slug facts @ '': online='' @ online_text (rf_online facts) @ '' pool='' @ quoted (rf_pool facts)
     @ '' current='' @ opt_repr current @ '' computed='' @ opt_repr (d_labels d)
     @ '' ('' @ d_reason d @ '') -> '' @ h_reason r"

definition remember :: "string \<Rightarrow> observation option \<Rightarrow> counters \<Rightarrow> counters" where
  "remember slug ob st = (case ob of None \<Rightarrow> AList.delete slug st | Some o' \<Rightarrow> AList.update slug o' st)"

definition publish ::
  "bool \<Rightarrow> string \<Rightarrow> runner_decision \<Rightarrow> hysteresis_result \<Rightarrow> decide_acc \<Rightarrow> decide_acc io" where
  "publish apply slug d r acc =
     (case d_labels d of
        None \<Rightarrow> ret acc
      | Some labels \<Rightarrow>
          (if \<not> h_write r then ret acc
           else if apply
           then seq (write_variable slug RUNNER_VAR labels)
                (seq (emit (notice (slug @ '': '' @ RUNNER_VAR @ ''='' @ labels @ '' ('' @ d_reason d @ '')'')))
                (ret (acc\<lparr>a_state := AList.delete slug (a_state acc), a_writes := a_writes acc + 1\<rparr>)))
           else seq (emit (notice (slug @ '': WOULD set '' @ RUNNER_VAR @ ''='' @ labels @ '' ('' @ d_reason d
                       @ '') '' @ em_dash @ '' check mode, nothing written'')))
                (ret (acc\<lparr>a_writes := a_writes acc + 1\<rparr>))))"

definition decide_slug ::
  "policy \<Rightarrow> bool \<Rightarrow> string option \<Rightarrow> string \<Rightarrow> decide_acc \<Rightarrow> decide_acc io" where
  "decide_slug pol apply token slug acc =
     bnd (try_probe slug token) (\<lambda>probe.
       case probe of
         None \<Rightarrow> ret (acc\<lparr>a_warnings := a_warnings acc + 1\<rparr>)
       | Some probed \<Rightarrow>
           (let facts = with_policy pol slug probed; acc1 = count_liveness facts acc; d = decide_runner facts
            in bnd (read_variable slug RUNNER_VAR) (\<lambda>current.
               bnd (opt (hysteresis current (d_labels d) (map_of (a_state acc1) slug) (p_hysteresis pol))) (\<lambda>r.
               bnd (if d_warning d \<noteq> []
                    then seq (emit (warning (d_warning d))) (ret (acc1\<lparr>a_warnings := a_warnings acc1 + 1\<rparr>))
                    else ret acc1) (\<lambda>acc2.
               seq (emit (Print (decide_line facts current d r)))
               (publish apply slug d r (acc2\<lparr>a_state := remember slug (h_observation r) (a_state acc2)\<rparr>)))))))"

definition decide_summary :: "nat \<Rightarrow> decide_acc \<Rightarrow> string" where
  "decide_summary n acc =
     newline @ ''decide: '' @ show_int (int n) @ '' repo(s), '' @ show_int (a_writes acc) @ '' write(s), ''
     @ show_int (a_warnings acc) @ '' warning(s), '' @ show_int (a_blind acc) @ ''/''
     @ show_int (a_needed acc) @ '' liveness probe(s) unverified''"

definition blindness_error :: "int \<Rightarrow> string" where
  "blindness_error needed =
     ''::error title=runner-watch::Liveness could not be verified for ANY of the ''
     @ show_int needed @ '' repo(s) whose decision depends on it. That is not a ''
     @ ''transient probe failure, it is a missing grant: the fuze-agent App needs ''
     @ ''`administration: read` to read repos/<slug>/actions/runners. Nothing was ''
     @ ''written and nothing could have been. Failing rather than reporting a ''
     @ ''green run that looked at the whole fleet and saw none of it.''"

definition run_decide ::
  "string list \<Rightarrow> policy \<Rightarrow> bool \<Rightarrow> string \<Rightarrow> string option \<Rightarrow> int io" where
  "run_decide slugs pol apply hub token =
     bnd (read_variable hub STATE_VAR_DECIDE) (\<lambda>raw.
     bnd (each (decide_slug pol apply token) slugs
            \<lparr>a_state = load_state raw, a_warnings = 0, a_writes = 0, a_needed = 0, a_blind = 0\<rparr>) (\<lambda>acc.
     seq (if apply then write_variable hub STATE_VAR_DECIDE (dump_state (a_state acc)) else ret ())
     (seq (emit (Print (decide_summary (length slugs) acc)))
     (if a_needed acc \<noteq> 0 \<and> a_blind acc = a_needed acc
      then seq (emit (Print (blindness_error (a_needed acc)))) (ret 1)
      else ret 0))))"

section \<open>Job B: recover\<close>

definition cancel_args :: "int \<Rightarrow> string \<Rightarrow> string list" where
  "cancel_args run_id slug = [''run'', ''cancel'', show_int run_id, ''-R'', slug]"

definition rerun_args :: "int \<Rightarrow> string \<Rightarrow> string list" where
  "rerun_args run_id slug = [''run'', ''rerun'', show_int run_id, ''-R'', slug]"

definition recover_why :: "policy \<Rightarrow> string" where
  "recover_why pol =
     ''queued > '' @ show_int (p_stranded pol) @ ''m with NO runner assigned '' @ em_dash
     @ '' re-dispatching so it picks up the current '' @ RUNNER_VAR"

definition run_url :: "string \<Rightarrow> job_facts list \<Rightarrow> int \<Rightarrow> string" where
  "run_url slug jobs run_id =
     (let u = (case List.find (\<lambda>j. j_run_id j = run_id) jobs of None \<Rightarrow> [] | Some j \<Rightarrow> j_html_url j)
      in if u = [] then ''https://github.com/'' @ slug @ ''/actions/runs/'' @ show_int run_id else u)"

type_synonym recover_acc = "ledger \<times> int"

text \<open>The rerun after a successful cancel; the ledger already has the run.\<close>

definition rerun :: "policy \<Rightarrow> string \<Rightarrow> string \<Rightarrow> int \<Rightarrow> unit io" where
  "rerun pol slug url run_id =
     on_gh_error
       (bnd (gh_call (rerun_args run_id slug) None) (\<lambda>_.
        emit (notice (slug @ '' run '' @ show_int run_id @ '': cancelled and re-dispatched '' @ em_dash @ '' ''
                @ recover_why pol @ '' ('' @ url @ '')''))))
       (\<lambda>exc. emit (warning (slug @ '' run '' @ show_int run_id @ '': cancelled but rerun failed ('' @ exc
                @ ''). Recovery attempt consumed; this run will NOT be touched again '' @ em_dash @ '' '' @ url)))"

text \<open>Whether the cancel succeeded.\<close>

definition cancel :: "string \<Rightarrow> string \<Rightarrow> int \<Rightarrow> bool io" where
  "cancel slug url run_id =
     on_gh_error
       (bnd (gh_call (cancel_args run_id slug) None) (\<lambda>_. ret True))
       (\<lambda>exc. seq (emit (warning (slug @ '' run '' @ show_int run_id @ '': cancel failed ('' @ exc @ '') ''
                    @ em_dash @ '' '' @ url))) (ret False))"

definition recover_run ::
  "policy \<Rightarrow> bool \<Rightarrow> datetime \<Rightarrow> string \<Rightarrow> job_facts list \<Rightarrow> int \<Rightarrow> recover_acc \<Rightarrow> recover_acc io" where
  "recover_run pol apply now slug jobs run_id acc =
     (let url = run_url slug jobs run_id
      in if \<not> apply
         then seq (emit (notice (slug @ '' run '' @ show_int run_id @ '': WOULD cancel+rerun '' @ em_dash @ '' ''
                     @ recover_why pol @ '' ('' @ url @ '')'')))
              (ret (fst acc, snd acc + 1))
         else bnd (cancel slug url run_id) (\<lambda>cancelled.
              if \<not> cancelled then ret acc
              else seq (rerun pol slug url run_id)
                   (ret (AList.update run_id (iso_z now) (fst acc), snd acc + 1))))"

definition recover_slug ::
  "policy \<Rightarrow> bool \<Rightarrow> datetime \<Rightarrow> string \<Rightarrow> recover_acc \<Rightarrow> recover_acc io" where
  "recover_slug pol apply now slug acc =
     bnd (on_gh_error (bnd (queued_jobs slug) (\<lambda>js. ret (Some js)))
            (\<lambda>exc. seq (emit (warning (slug @ '': could not list queued runs ('' @ exc @ '')''))) (ret None))) (\<lambda>listed.
       case listed of
         None \<Rightarrow> ret acc
       | Some jobs \<Rightarrow>
           each (recover_run pol apply now slug jobs)
             (stranded_runs jobs now (p_stranded pol) (map fst (fst acc))) acc)"

definition run_recover :: "string list \<Rightarrow> policy \<Rightarrow> bool \<Rightarrow> string \<Rightarrow> datetime \<Rightarrow> int io" where
  "run_recover slugs pol apply hub now =
     bnd (read_variable hub STATE_VAR_RECOVER) (\<lambda>raw.
     bnd (opt (load_recovered raw now)) (\<lambda>recovered.
     bnd (each (recover_slug pol apply now) slugs (recovered, 0)) (\<lambda>acc.
     seq (if apply then write_variable hub STATE_VAR_RECOVER (dump_recovered (fst acc)) else ret ())
     (seq (emit (Print (newline @ ''recover: '' @ show_int (snd acc) @ '' run(s) acted on across ''
             @ show_int (int (length slugs)) @ '' repo(s)'')))
     (ret 0)))))"

section \<open>The command line\<close>

record watch_args =
  w_decide :: bool
  w_apply :: bool
  w_repos :: string
  w_hub :: string
  w_stranded :: "int option"
  w_token :: "string option"
  w_policy :: "json option"   \<comment> \<open>the parsed policy file, if there is one\<close>
  w_fleet :: "json option"    \<comment> \<open>the parsed fleet file\<close>
  w_now :: datetime

definition policy_of :: "watch_args \<Rightarrow> policy option" where
  "policy_of w =
     do { pol \<leftarrow> load_policy (w_policy w);
          Some (case w_stranded w of None \<Rightarrow> pol | Some m \<Rightarrow> pol\<lparr>p_stranded := m\<rparr>) }"

definition slugs_of :: "watch_args \<Rightarrow> string list option" where
  "slugs_of w =
     (if str_strip (w_repos w) \<noteq> []
      then Some (filter (\<lambda>s. s \<noteq> []) (map str_strip (split_on (\<lambda>c. c = CHR '','') (w_repos w))))
      else do { data \<leftarrow> w_fleet w; fleet_repos data })"

definition watch_main :: "watch_args \<Rightarrow> int io" where
  "watch_main w =
     bnd (opt (load_policy (w_policy w))) (\<lambda>_.
       if (case w_stranded w of Some m \<Rightarrow> m < 1 | None \<Rightarrow> False)
       then seq (emit (Print (''error: --stranded-minutes must be >= 1: a threshold of 0 would make every ''
                  @ ''freshly-queued job a cancellation candidate''))) (ret 2)
       else bnd (opt (policy_of w)) (\<lambda>pol.
            bnd (opt (slugs_of w)) (\<lambda>slugs.
              if w_decide w then run_decide slugs pol (w_apply w) (w_hub w) (w_token w)
              else run_recover slugs pol (w_apply w) (w_hub w) (w_now w))))"

end
