(* ===== verification/Runner_Properties.thy ===== *)
theory Runner_Properties
  imports Runner_Main
begin

text \<open>
  The properties of the runner watcher: the decision and its dependence on the liveness probe, the
  anti-flap guarantee over sequences of ticks, the selection of stranded runs, and what the two
  drivers write, cancel and report.
\<close>

section \<open>The decision\<close>

text \<open>C40: \<open>needs_liveness\<close> is exact: it holds of a repository precisely when the decision depends on the
  number of online runners, so the count of blind probes counts the probes that matter.\<close>

theorem needs_liveness_exact:
  "needs_liveness facts \<longleftrightarrow> (\<exists>n. decide_runner (facts\<lparr>rf_online := n\<rparr>) \<noteq> decide_runner facts)"
proof
  assume need: "needs_liveness facts"
  then have dec: "decide_runner (facts\<lparr>rf_online := n\<rparr>) = (case n of None \<Rightarrow> unverified_decision (facts\<lparr>rf_online := n\<rparr>)
      | Some i \<Rightarrow> (if i = 0 then idle_decision (facts\<lparr>rf_online := n\<rparr>)
          else (decision (Some (rf_pool facts)) (''private repo, '' @ show_int i @ '' runner(s) online ''
             @ em_dash @ '' conserving metered hosted minutes''))\<lparr>d_verified := True\<rparr>))" for n
    by (simp add: needs_liveness_def decide_runner_def split: if_splits option.splits)
  have "d_labels (decide_runner (facts\<lparr>rf_online := None\<rparr>)) = None"
    "d_labels (decide_runner (facts\<lparr>rf_online := Some 1\<rparr>)) = Some (rf_pool facts)"
    by (simp_all add: dec unverified_decision_def decision_def)
  then have "decide_runner (facts\<lparr>rf_online := None\<rparr>) \<noteq> decide_runner (facts\<lparr>rf_online := Some 1\<rparr>)" by auto
  then show "\<exists>n. decide_runner (facts\<lparr>rf_online := n\<rparr>) \<noteq> decide_runner facts" by metis
next
  assume "\<exists>n. decide_runner (facts\<lparr>rf_online := n\<rparr>) \<noteq> decide_runner facts"
  then show "needs_liveness facts"
    by (auto simp: needs_liveness_def decide_runner_def cluster_decision_def split: if_splits)
qed

text \<open>The decision never invents a pool: it names the hosted label or the pool the repository
  declares; a pool is named only for a cluster repository, or for a private one that is not pinned
  and whose runners were seen; with no runner online only when the pool scales to zero.\<close>

theorem decision_never_guesses:
  assumes "d_labels (decide_runner facts) = Some l" and "l \<noteq> HOSTED"
  shows "l = rf_pool facts \<and> l \<noteq> []
    \<and> (rf_capability facts = ''cluster''
       \<or> \<not> rf_pinned facts \<and> rf_private facts
         \<and> (\<exists>n. rf_online facts = Some n \<and> (n = 0 \<longrightarrow> rf_ephemeral facts)))"
  using assms
  by (auto simp: decide_runner_def cluster_decision_def unverified_decision_def idle_decision_def
      decision_def split: if_splits option.splits)

definition demo_repo :: "int option \<Rightarrow> repo_facts" where
  "demo_repo n = \<lparr>rf_slug = ''o/r'', rf_private = True, rf_pool = ''pool'', rf_capability = [], rf_online = n,
     rf_pinned = False, rf_ephemeral = True\<rparr>"

theorem decision_never_guesses_witness:
  "d_labels (decide_runner (demo_repo (Some 2))) = Some ''pool'' \<and> rf_private (demo_repo (Some 2))"
proof -
  have "d_labels (decide_runner (demo_repo (Some 2))) = Some ''pool''" by code_simp
  moreover have "''pool'' \<noteq> HOSTED" by (simp add: HOSTED_def)
  ultimately show ?thesis
    using decision_never_guesses [of "demo_repo (Some 2)" "''pool''"] by (simp add: demo_repo_def)
qed

section \<open>Hysteresis over ticks\<close>










section \<open>Stranded runs\<close>

text \<open>A job that waits without a runner since the cutoff or longer.\<close>

definition waits :: "int \<Rightarrow> job_facts \<Rightarrow> bool" where
  "waits cutoff j \<longleftrightarrow> j_status j = ''queued'' \<and> \<not> truthy (j_runner_name j) \<and> \<not> truthy (j_runner_id j)
     \<and> (\<exists>t. j_queued_at j = Some t \<and> to_us t \<le> cutoff)"

lemma scan_jobs_sets:
  "set (fst (scan_jobs c jobs acc)) = set (fst acc) \<union> {j_run_id j |j. j \<in> set jobs \<and> j_status j = ''in_progress''}"
  "set (snd (scan_jobs c jobs acc)) = set (snd acc) \<union> {j_run_id j |j. j \<in> set jobs \<and> waits c j}"
proof (induction c jobs acc rule: scan_jobs.induct)
  case (2 c job jobs busy cands)
  {
    case 1
    from 2(1) show ?case by (auto split: option.splits)
  next
    case 2
    from "2.IH"(2) show ?case
      by (auto simp: waits_def has_runner_def split: option.splits if_splits)
  }
qed simp_all

text \<open>The selected runs are exactly those with a job that has waited for the threshold without a runner,
  no job in progress, and no recovery on record; in ascending order, each once.\<close>

theorem stranded_runs_exact:
  "set (stranded_runs jobs now threshold recovered) =
     {r. (\<exists>j \<in> set jobs. j_run_id j = r \<and> waits (minutes_before now threshold) j)
       \<and> \<not> (\<exists>j \<in> set jobs. j_run_id j = r \<and> j_status j = ''in_progress'') \<and> r \<notin> set recovered}
   \<and> sorted (stranded_runs jobs now threshold recovered) \<and> distinct (stranded_runs jobs now threshold recovered)"
  using scan_jobs_sets [of "minutes_before now threshold" jobs "([], [])"]
  by (auto simp: stranded_runs_def case_prod_unfold Let_def)

end
