(* ===== verification/Runner_Durable.thy ===== *)
theory Runner_Durable
  imports Runner_State "HOL-Library.Multiset"
begin

text \<open>
  The watcher's state survives in its repository variables: what was dumped is what is loaded next.
  The durable-state locale is interpreted on the variable of the hysteresis counters; the ledger of
  recovered runs is kept up to its order, and the entries younger than the limit are never lost.
\<close>

section \<open>Hysteresis counters\<close>

text \<open>The states that are kept: ASCII text, positive counts, one entry per repository, in key order.\<close>

definition counters_ok :: "counters \<Rightarrow> bool" where
  "counters_ok st \<longleftrightarrow> sorted (map fst st) \<and> distinct (map fst st)
     \<and> list_all (\<lambda>(slug, o'). ascii slug \<and> ascii (o_value o') \<and> 0 < o_count o') st"

definition sorted_entry :: "observation \<Rightarrow> json" where
  "sorted_entry o' = JObj [(''count'', JInt (o_count o')), (''value'', JStr (o_value o'))]"

lemma jsort_entry: "jsort (entry_json o') = sorted_entry o'"
  by (simp add: entry_json_def sorted_entry_def sort_key_def less_char_def)

lemma jsort_version:
  assumes "k \<le> ''version''" and "k \<noteq> ''version''"
  shows "jsort (JObj [(''version'', JInt 1), (k, j)]) = JObj [(k, jsort j), (''version'', JInt 1)]"
  using assms by (simp add: sort_key_def)

lemma load_entry_sorted: "0 < o_count o' \<Longrightarrow> load_entry (sorted_entry o') = Some o'"
  by (simp add: load_entry_def sorted_entry_def)

lemma load_entries_map:
  "list_all (\<lambda>(slug, o'). 0 < o_count o') st
    \<Longrightarrow> load_entries (map (\<lambda>(slug, o'). (slug, sorted_entry o')) st) = st"
  by (induction st) (auto simp: load_entry_sorted)

lemma map_fst_pairs: "map fst (map (\<lambda>(k, v). (k, g v)) xs) = map fst xs"
  by (induction xs) auto

lemma dumps_not_Nil: "dumps (JObj kvs) \<noteq> []"
  by simp

lemma object_member_dumps:
  assumes "clean (JObj kvs)" and "dget kvs k JNull = JObj m"
  shows "object_member (Some (dumps (JObj kvs))) k = Some m"
  using assms loads_dumps [OF assms(1)] by (simp add: object_member_def del: dumps.simps clean.simps) simp

lemma load_state_dump:
  assumes "counters_ok st"
  shows "load_state (Some (dump_state st)) = st"
proof -
  let ?m = "map (\<lambda>(slug, o'). (slug, sorted_entry o')) st"
  have s: "sort_key fst st = st" using assms by (simp add: counters_ok_def sort_key_id_if_sorted)
  have m: "map fst ?m = map fst st" by (rule map_fst_pairs)
  have "map (\<lambda>(k, v). (k, jsort v)) (map (\<lambda>(slug, o'). (slug, entry_json o')) st) = ?m"
    by (induction st) (auto simp: jsort_entry)
  moreover have "sort_key fst ?m = ?m" using assms by (intro sort_key_id_if_sorted) (simp only: m counters_ok_def)
  ultimately have j: "jsort (JObj (map (\<lambda>(slug, o'). (slug, entry_json o')) st)) = JObj ?m"
    by (simp only: jsort.simps)
  have le: "''observations'' \<le> ''version''" by code_simp
  have d: "dump_state st = dumps (JObj [(''observations'', JObj ?m), (''version'', JInt 1)])"
    unfolding dump_state_def s using jsort_version [OF le, of "JObj (map (\<lambda>(slug, o'). (slug, entry_json o')) st)"] j
    by simp
  have "list_all (\<lambda>(k, v). ascii k \<and> clean v) ?m"
    using assms by (auto simp: counters_ok_def list_all_iff sorted_entry_def ascii_def is_ascii_def)
  moreover have "distinct (map fst ?m)" using assms by (simp only: m counters_ok_def)
  ultimately have "clean (JObj [(''observations'', JObj ?m), (''version'', JInt 1)])"
    by (simp add: ascii_def is_ascii_def)
  then have "object_member (Some (dump_state st)) ''observations'' = Some ?m"
    unfolding d by (rule object_member_dumps) simp
  moreover have "load_entries ?m = st"
    using assms by (intro load_entries_map) (auto simp: counters_ok_def list_all_iff)
  ultimately show ?thesis by (simp add: load_state_def)
qed

interpretation counters_variable: durable_state "\<lambda>raw. Some (load_state raw)"
  "\<lambda>raw u st. Some (dump_state st)" "\<lambda>raw. True" counters_ok "\<lambda>u. True"
  by unfold_locales (simp_all add: load_state_dump)

section \<open>The ledger of recovered runs\<close>

lemma iso_z_text:
  assumes "valid_dt d"
  shows "iso_z d \<noteq> []" "\<not> is_space (hd (iso_z d))" "last (iso_z d) = CHR ''Z''"
    "butlast (iso_z d) @ ''+00:00'' = isoformat d"
proof -
  define body where "body = pad_nat 4 (dt_year d) @ CHR ''-'' # pad_nat 2 (dt_month d) @ CHR ''-'' #
     pad_nat 2 (dt_day d) @ CHR ''T'' # time_text d"
  have i: "isoformat d = body @ ''+00:00''" by (simp add: body_def isoformat_time)
  then have z: "iso_z d = body @ ''Z''" by (simp add: iso_z_def)
  have "body \<noteq> []" by (simp add: body_def)
  then have "hd (iso_z d) = hd (isoformat d)" by (simp add: z i)
  with isoformat_not_space [OF assms] show "\<not> is_space (hd (iso_z d))" by simp
  show "iso_z d \<noteq> []" "last (iso_z d) = CHR ''Z''" "butlast (iso_z d) @ ''+00:00'' = isoformat d"
    by (simp_all add: z i)
qed

lemma parse_ts_iso_z:
  assumes "valid_dt d"
  shows "parse_ts (JStr (iso_z d)) = Some (Some d)"
proof -
  note t = iso_z_text [OF assms]
  have "str_strip (iso_z d) = iso_z d"
    using t by (intro str_strip_id) (auto simp: is_space_def)
  moreover have "fromisoformat (isoformat d) = Some (d, Some 0)"
    using fromisoformat_text [OF assms, of "''+00:00''"] by (simp add: isoformat_time)
  ultimately show ?thesis
    using t by (simp add: parse_ts_def Let_def astimezone_utc_def)
qed

lemma int_of_str_show_int: "int_of_str (show_int r) = Some r"
proof -
  have dig: "is_digit c" if "c \<in> set (show_nat n)" for c n using show_nat_all_digits that .
  have nonsp: "\<not> is_space c" if "c \<in> set (show_int r)" for c
    using show_int_num_char [OF that] by (auto simp: num_char_def is_digit_def is_space_def)
  have ne: "show_int r \<noteq> []" by (simp add: show_int_def)
  have "str_strip (show_int r) = show_int r"
    using ne nonsp by (intro str_strip_id) auto
  moreover have "split_sign (show_nat n) = (False, show_nat n)" for n
    using dig [of "hd (show_nat n)" n] by (cases "show_nat n") (auto simp: is_digit_def)
  ultimately show ?thesis
    using dig by (auto simp: int_of_str_def show_int_def list_all_iff digits_val_show_nat Let_def)
qed

definition expired :: "datetime \<Rightarrow> string \<Rightarrow> bool" where
  "expired now w \<longleftrightarrow>
     (case parse_ts (JStr w) of
        Some (Some d) \<Rightarrow> to_us d < minutes_before now (RECOVERED_TTL_DAYS * 1440)
      | _ \<Rightarrow> False)"

text \<open>The ledgers the watcher writes: one entry per run, stamped with a time it printed.\<close>

definition ledger_ok :: "ledger \<Rightarrow> bool" where
  "ledger_ok L \<longleftrightarrow> distinct (map fst L) \<and> (\<forall>(r, w) \<in> set L. \<exists>d. valid_dt d \<and> w = iso_z d)"

lemma load_ledger_map:
  assumes "distinct (map fst L)" and "\<forall>(r, w) \<in> set L. \<exists>d. valid_dt d \<and> w = iso_z d"
  shows "\<exists>L'. load_ledger now (map (\<lambda>(r, w). (show_int r, JStr w)) L) out = Some L'
    \<and> (\<forall>r. map_of L' r = (case map_of L r of
             Some w \<Rightarrow> (if expired now w then map_of out r else Some w) | None \<Rightarrow> map_of out r))"
  using assms
proof (induction L arbitrary: out)
  case (Cons e L)
  obtain r w where e: "e = (r, w)" by (cases e)
  with Cons.prems obtain d where d: "valid_dt d" "w = iso_z d" by auto
  let ?out = "if expired now w then out else AList.update r w out"
  have "keep_entry now (show_int r) (JStr w) = Some (if expired now w then None else Some (r, w))"
    using parse_ts_iso_z [OF d(1)] by (simp add: keep_entry_def int_of_str_show_int d(2) expired_def)
  then have step: "load_ledger now (map (\<lambda>(r, w). (show_int r, JStr w)) (e # L)) out
      = load_ledger now (map (\<lambda>(r, w). (show_int r, JStr w)) L) ?out"
    by (simp add: e)
  have "distinct (map fst L)" "\<forall>(r, w) \<in> set L. \<exists>d. valid_dt d \<and> w = iso_z d" using Cons.prems by auto
  from Cons.IH [OF this, of ?out] obtain L' where L':
    "load_ledger now (map (\<lambda>(r, w). (show_int r, JStr w)) L) ?out = Some L'"
    "\<forall>r. map_of L' r = (case map_of L r of
        Some w \<Rightarrow> (if expired now w then map_of ?out r else Some w) | None \<Rightarrow> map_of ?out r)" by blast
  have "map_of L r = None" using Cons.prems(1) e by (simp add: map_of_eq_None_iff)
  have m: "map_of ?out r' = (if r' = r \<and> \<not> expired now w then Some w else map_of out r')" for r'
    by (simp add: update_conv')
  have "map_of L' r' = (case map_of (e # L) r' of
      Some w \<Rightarrow> (if expired now w then map_of out r' else Some w) | None \<Rightarrow> map_of out r')" for r'
    using \<open>map_of L r = None\<close> unfolding L'(2) [rule_format] m
    by (cases "map_of L r'") (auto simp: e)
  with L'(1) show ?case unfolding step by blast
qed simp

lemma pad_nat_ascii:
  assumes "0 \<le> n" and "c \<in> set (pad_nat k n)"
  shows "is_ascii c"
  using pad_nat_digits [OF assms] by (simp add: is_digit_def is_ascii_def)

lemma isoformat_ascii:
  assumes "valid_dt d" and "c \<in> set (isoformat d)"
  shows "is_ascii c"
proof -
  have "0 \<le> dt_year d" "0 \<le> dt_month d" "0 \<le> dt_day d" "0 \<le> dt_hour d" "0 \<le> dt_minute d"
    "0 \<le> dt_second d" "0 \<le> dt_micro d"
    using assms(1) by (simp_all add: valid_dt_def)
  note p = this [THEN pad_nat_ascii]
  have "is_ascii (CHR ''-'')" "is_ascii (CHR ''T'')" "is_ascii (CHR '':'')" "is_ascii (CHR ''+'')"
    "is_ascii (CHR ''0'')" "is_ascii (CHR ''.'')" by (simp_all add: is_ascii_def)
  with assms(2) show ?thesis by (auto simp: isoformat_def intro: p split: if_splits)
qed

lemma ascii_iso_z: "valid_dt d \<Longrightarrow> ascii (iso_z d)"
proof -
  assume v: "valid_dt d"
  have "set (iso_z d) \<subseteq> set (isoformat d) \<union> {CHR ''Z''}"
    by (auto simp: iso_z_def dest: in_set_takeD)
  moreover have "is_ascii c" if "c \<in> set (isoformat d)" for c using isoformat_ascii [OF v that] .
  ultimately show "ascii (iso_z d)" by (auto simp: ascii_def list_all_iff is_ascii_def)
qed

lemma show_int_ascii: "ascii (show_int r)"
proof -
  have "is_ascii c" if "c \<in> set (show_int r)" for c
    using show_int_num_char [OF that] by (auto simp: num_char_def is_digit_def is_ascii_def)
  then show ?thesis by (simp add: ascii_def list_all_iff)
qed

lemma show_int_inj: "show_int r = show_int s \<Longrightarrow> r = s"
  using int_of_str_show_int by (metis option.inject)

lemma load_recovered_dump:
  assumes "ledger_ok L"
  shows "\<exists>L'. load_recovered (Some (dump_recovered L)) now = Some L'
    \<and> (\<forall>r. map_of L' r = (case map_of L r of
             Some w \<Rightarrow> (if expired now w then None else Some w) | None \<Rightarrow> None))"
proof -
  define enc where "enc = (\<lambda>(r :: int, w). (show_int r, JStr w))"
  define K where "K = sort_key (\<lambda>(r :: int, w :: string). show_int r) (sort_key fst L)"
  have jm: "map (\<lambda>(k, v). (k, jsort v)) (map enc xs) = map enc xs" for xs
    by (induction xs) (auto simp: enc_def)
  have ins: "insort_key fst (enc x) (map enc xs) = map enc (insort_key (\<lambda>(r, w). show_int r) x xs)" for x xs
    by (induction xs; cases x) (auto simp: enc_def)
  have "sort_key fst (map enc xs) = map enc (sort_key (\<lambda>(r, w). show_int r) xs)" for xs
    by (induction xs) (simp_all add: ins)
  then have j: "jsort (JObj (map enc (sort_key fst L))) = JObj (map enc K)"
    by (simp only: jsort.simps jm K_def)
  have le: "''recovered'' \<le> ''version''" by code_simp
  have d: "dump_recovered L = dumps (JObj [(''recovered'', JObj (map enc K)), (''version'', JInt 1)])"
    unfolding dump_recovered_def enc_def [symmetric] using jsort_version [OF le] j by simp
  have mK: "mset K = mset L" by (simp add: K_def)
  then have setK: "set K = set L" by (metis set_mset_mset)
  have dK: "distinct (map fst K)"
    using assms mK by (metis (no_types) ledger_ok_def mset_eq_imp_distinct_iff mset_map)
  have "map fst (map enc K) = map show_int (map fst K)" by (induction K) (auto simp: enc_def)
  then have "distinct (map fst (map enc K))"
    using dK by (simp only: distinct_map) (auto intro!: inj_onI dest: show_int_inj)
  moreover have "list_all (\<lambda>(k, v). ascii k \<and> clean v) (map enc K)"
    using assms by (auto simp: list_all_iff enc_def setK ledger_ok_def show_int_ascii ascii_iso_z)
  ultimately have "clean (JObj [(''recovered'', JObj (map enc K)), (''version'', JInt 1)])"
    by (simp add: ascii_def is_ascii_def)
  then have "object_member (Some (dump_recovered L)) ''recovered'' = Some (map enc K)"
    unfolding d by (rule object_member_dumps) simp
  then have "load_recovered (Some (dump_recovered L)) now = load_ledger now (map enc K) []"
    by (simp add: load_recovered_def)
  moreover have "map_of K = map_of L"
    using dK assms mK by (intro map_of_eqI) (auto simp: ledger_ok_def setK map_of_eq_Some_iff)
  ultimately show ?thesis
    using load_ledger_map [OF dK, of now "[]"] assms setK
    by (simp add: ledger_ok_def enc_def cong: option.case_cong if_cong)
qed

end
