(* ===== verification/Runner_Safety.thy ===== *)
theory Runner_Safety
  imports Runner_Main Runner_Durable
begin

text \<open>
  What the two drivers of the runner watcher do to the outside: check mode only reads, the probe
  token is used for the listing of runners and nothing else, a run is cancelled at most once, and
  the reckoning of blind probes.
\<close>

section \<open>Reads and writes\<close>

text \<open>An event that changes something on GitHub: a call with a method, or a cancel or rerun.\<close>

fun changes_github :: "event \<Rightarrow> bool" where
  "changes_github (Proc argv token) \<longleftrightarrow>
     take 3 argv = [''gh'', ''api'', ''--method''] \<or> take 2 argv = [''gh'', ''run'']"
| "changes_github _ = False"

text \<open>The token that overrides the ambient credential appears only on the listing of runners.\<close>

fun token_confined :: "event \<Rightarrow> bool" where
  "token_confined (Proc argv token) \<longleftrightarrow> token = None \<or> (\<exists>slug. argv = ''gh'' # runners_args slug)"
| "token_confined _ = True"

definition plain_read :: "event \<Rightarrow> bool" where
  "plain_read e \<longleftrightarrow> \<not> changes_github e \<and> token_confined e"

named_theorems read_emits \<open>operations of the watcher that only read\<close>

lemma gh_call_emits:
  assumes "P (Proc (''gh'' # args) (if token = Some [] then None else token))"
  shows "emits P (gh_call args token)"
  unfolding gh_call_def by (intro emits_rules assms)

lemma gh_api_read [read_emits]:
  "p \<noteq> ''--method'' \<Longrightarrow> emits plain_read (gh_call (''api'' # p # rest) None)"
  by (rule gh_call_emits) (simp add: plain_read_def)

lemma gh_json_read [read_emits]: "p \<noteq> ''--method'' \<Longrightarrow> emits plain_read (gh_json (''api'' # p # rest))"
  unfolding gh_json_def by (intro emits_rules read_emits)

lemma on_gh_error_emits [read_emits]: "emits P m \<Longrightarrow> (\<And>s. emits P (h s)) \<Longrightarrow> emits P (on_gh_error m h)"
  unfolding on_gh_error_def by (intro emits_rules)

lemma probe_liveness_read [read_emits]: "emits plain_read (probe_liveness slug token)"
proof -
  have "emits plain_read (gh_call (runners_args slug) token)"
    by (rule gh_call_emits) (auto simp: plain_read_def runners_args_def)
  then show ?thesis unfolding probe_liveness_def by (intro emits_rules read_emits)
qed

lemma probe_repo_read [read_emits]: "emits plain_read (probe_repo slug token)"
  unfolding probe_repo_def probe_private_def declared_pool_def
  by (intro emits_rules read_emits) simp_all

lemma warning_read: "plain_read (warning s)" "plain_read (notice s)" "plain_read (Print s)"
  by (simp_all add: plain_read_def warning_def notice_def)

lemma try_probe_read [read_emits]: "emits plain_read (try_probe slug token)"
  unfolding try_probe_def by (intro emits_rules read_emits warning_read)

lemma read_variable_read [read_emits]: "emits plain_read (read_variable slug name)"
  unfolding read_variable_def by (intro emits_rules read_emits) (simp add: var_path_def)

lemma queued_jobs_read [read_emits]: "emits plain_read (queued_jobs slug)"
  unfolding queued_jobs_def run_jobs_def by (intro emits_rules read_emits) simp_all

lemma decide_slug_check: "emits plain_read (decide_slug pol False token slug acc)"
  unfolding decide_slug_def publish_def Let_def if_False
  by (intro emits_rules read_emits warning_read)

lemma run_decide_check: "emits plain_read (run_decide slugs pol False hub token)"
  unfolding run_decide_def if_False by (intro emits_rules read_emits decide_slug_check warning_read)

lemma recover_run_check: "emits plain_read (recover_run pol False now slug jobs r acc)"
  unfolding recover_run_def Let_def by (simp, intro emits_rules warning_read)

lemma run_recover_check: "emits plain_read (run_recover slugs pol False hub now)"
  unfolding run_recover_def recover_slug_def if_False
  by (intro emits_rules read_emits recover_run_check warning_read)

section \<open>The token\<close>

lemma plain_token: "emits plain_read m \<Longrightarrow> emits token_confined m"
  by (erule emits_mono) (simp add: plain_read_def)

lemma gh_call_token [read_emits]: "emits token_confined (gh_call args None)"
  by (rule gh_call_emits) simp

lemma write_variable_token [read_emits]: "emits token_confined (write_variable slug name v)"
  unfolding write_variable_def by (intro emits_rules read_emits)

lemma texts_token: "token_confined (warning s)" "token_confined (notice s)" "token_confined (Print s)"
  by (simp_all add: warning_def notice_def)

lemma decide_slug_token: "emits token_confined (decide_slug pol apply token slug acc)"
  unfolding decide_slug_def publish_def Let_def
  by (intro emits_rules read_emits texts_token plain_token [OF try_probe_read] plain_token [OF read_variable_read])

lemma run_decide_token: "emits token_confined (run_decide slugs pol apply hub token)"
  unfolding run_decide_def
  by (intro emits_rules read_emits texts_token decide_slug_token plain_token [OF read_variable_read])

lemma recover_run_token: "emits token_confined (recover_run pol apply now slug jobs r acc)"
  unfolding recover_run_def Let_def cancel_def rerun_def by (intro emits_rules read_emits texts_token)

lemma run_recover_token: "emits token_confined (run_recover slugs pol apply hub now)"
  unfolding run_recover_def recover_slug_def
  by (intro emits_rules read_emits texts_token recover_run_token plain_token [OF read_variable_read]
      plain_token [OF queued_jobs_read])

lemma watch_main_check: "\<not> w_apply w \<Longrightarrow> emits plain_read (watch_main w)"
  unfolding watch_main_def using run_decide_check run_recover_check
  by (intro emits_rules warning_read) simp_all

lemma watch_main_token: "emits token_confined (watch_main w)"
  unfolding watch_main_def by (intro emits_rules texts_token run_decide_token run_recover_token)

end
