(* ===== verification/Runner_Recovery.thy ===== *)
theory Runner_Recovery
  imports Runner_Safety
begin

text \<open>
  The cap on recoveries: within a run of the recovery sweep every run id is cancelled successfully
  at most once, never when the ledger has it, and the ledger at the end has exactly the ids it had
  and those cancelled. The successful cancels are read off the trace and the outside's answers.
\<close>

section \<open>Counting successful cancels\<close>

fun is_hit :: "env \<Rightarrow> int \<Rightarrow> event list \<Rightarrow> event \<Rightarrow> bool" where
  "is_hit env r tr (Proc argv token) \<longleftrightarrow>
     take 4 argv = [''gh'', ''run'', ''cancel'', show_int r]
     \<and> (case env tr argv token of Completed code out err \<Rightarrow> code = 0 | NotRun exc \<Rightarrow> False)"
| "is_hit env r tr _ = False"

fun hits :: "env \<Rightarrow> int \<Rightarrow> event list \<Rightarrow> event list \<Rightarrow> nat" where
  "hits env r tr [] = 0"
| "hits env r tr (e # es) = (if is_hit env r tr e then 1 else 0) + hits env r (tr @ [e]) es"

lemma hits_append: "hits env r tr (es @ es') = hits env r tr es + hits env r (tr @ es) es'"
  by (induction es arbitrary: tr) simp_all

fun no_cancel :: "event \<Rightarrow> bool" where
  "no_cancel (Proc argv token) \<longleftrightarrow> take 3 argv \<noteq> [''gh'', ''run'', ''cancel'']"
| "no_cancel _ = True"

lemma hits_none: "list_all no_cancel es \<Longrightarrow> hits env r tr es = 0"
proof (induction es arbitrary: tr)
  case (Cons e es)
  have "\<not> is_hit env r tr e"
  proof (cases e)
    case (Proc argv token)
    show ?thesis
    proof
      assume "is_hit env r tr e"
      then have t: "take 4 argv = [''gh'', ''run'', ''cancel'', show_int r]" by (simp add: Proc)
      have "take 3 argv = take 3 (take 4 argv)" by (simp add: min_def)
      also have "\<dots> = [''gh'', ''run'', ''cancel'']" unfolding t by simp
      finally show False using Cons.prems by (simp add: Proc)
    qed
  qed simp_all
  with Cons show ?case by simp
qed simp

definition ids :: "recover_acc \<Rightarrow> int set" where
  "ids acc = fst ` set (fst acc)"

text \<open>One piece of the sweep that may cancel the runs in R, starting from a ledger.\<close>

definition sweeps :: "env \<Rightarrow> int set \<Rightarrow> recover_acc \<Rightarrow> recover_acc io \<Rightarrow> bool" where
  "sweeps env R acc m \<longleftrightarrow>
     (\<forall>tr x tr'. m env tr = (x, tr') \<longrightarrow>
        (\<exists>es. tr' = tr @ es
          \<and> (\<forall>r. hits env r tr es \<le> 1 \<and> (r \<in> ids acc \<longrightarrow> hits env r tr es = 0))
          \<and> (\<forall>acc'. x = Inr acc' \<longrightarrow>
               (\<forall>r. r \<in> ids acc' \<longleftrightarrow> r \<in> ids acc \<or> hits env r tr es = 1) \<and> ids acc' \<subseteq> ids acc \<union> R)))"

lemma sweepsD:
  assumes "sweeps env R acc m" and "m env tr = (x, tr')"
  obtains es where "tr' = tr @ es" and "\<And>r. hits env r tr es \<le> 1"
    and "\<And>r. r \<in> ids acc \<Longrightarrow> hits env r tr es = 0"
    and "\<And>acc' r. x = Inr acc' \<Longrightarrow> r \<in> ids acc' \<longleftrightarrow> r \<in> ids acc \<or> hits env r tr es = 1"
    and "\<And>acc'. x = Inr acc' \<Longrightarrow> ids acc' \<subseteq> ids acc \<union> R"
proof -
  from assms(1) [unfolded sweeps_def, rule_format, OF assms(2)] obtain es where
    "tr' = tr @ es" "\<forall>r. hits env r tr es \<le> 1 \<and> (r \<in> ids acc \<longrightarrow> hits env r tr es = 0)"
    "\<forall>acc'. x = Inr acc' \<longrightarrow>
       (\<forall>r. r \<in> ids acc' \<longleftrightarrow> r \<in> ids acc \<or> hits env r tr es = 1) \<and> ids acc' \<subseteq> ids acc \<union> R" by blast
  then show thesis by (intro that) simp_all
qed

lemma sweeps_ret: "sweeps env R acc (ret acc')" if "fst acc' = fst acc"
  using that by (cases acc') (auto simp: sweeps_def ids_def)

text \<open>First a part that cancels nothing.\<close>

lemma sweeps_after:
  assumes "emits no_cancel m" and "\<And>x. sweeps env R acc (f x)"
  shows "sweeps env R acc (bnd m f)"
  unfolding sweeps_def
proof (intro allI impI)
  fix tr x tr'
  assume run: "bnd m f env tr = (x, tr')"
  obtain y t where m: "m env tr = (y, t)" by fastforce
  obtain es where es: "t = tr @ es" "list_all no_cancel es" using emits_run [OF assms(1) m] by blast
  note h0 = hits_none [OF es(2)]
  show "\<exists>es. tr' = tr @ es
          \<and> (\<forall>r. hits env r tr es \<le> 1 \<and> (r \<in> ids acc \<longrightarrow> hits env r tr es = 0))
          \<and> (\<forall>acc'. x = Inr acc' \<longrightarrow>
               (\<forall>r. r \<in> ids acc' \<longleftrightarrow> r \<in> ids acc \<or> hits env r tr es = 1) \<and> ids acc' \<subseteq> ids acc \<union> R)"
  proof (cases y)
    case (Inl e)
    with m run es h0 show ?thesis by (intro exI [of _ es]) (auto simp: bnd_def)
  next
    case (Inr z)
    then have "f z env t = (x, tr')" using m run by (simp add: bnd_def)
    from sweepsD [OF assms(2) this] obtain es' where es': "tr' = t @ es'" "\<And>r. hits env r t es' \<le> 1"
      "\<And>r. r \<in> ids acc \<Longrightarrow> hits env r t es' = 0"
      "\<And>acc' r. x = Inr acc' \<Longrightarrow> r \<in> ids acc' \<longleftrightarrow> r \<in> ids acc \<or> hits env r t es' = 1"
      "\<And>acc'. x = Inr acc' \<Longrightarrow> ids acc' \<subseteq> ids acc \<union> R" by metis
    have "hits env r tr (es @ es') = hits env r t es'" for r by (simp add: hits_append h0 es(1))
    with es' es(1) show ?thesis by (intro exI [of _ "es @ es'"]) simp
  qed
qed

lemma sweeps_bnd:
  assumes "sweeps env R acc m" and "\<And>acc'. ids acc' \<subseteq> ids acc \<union> R \<Longrightarrow> ids acc \<subseteq> ids acc' \<Longrightarrow> sweeps env S acc' (f acc')"
  shows "sweeps env (R \<union> S) acc (bnd m f)"
  unfolding sweeps_def
proof (intro allI impI)
  fix tr x tr'
  assume run: "bnd m f env tr = (x, tr')"
  obtain y t where m: "m env tr = (y, t)" by fastforce
  from sweepsD [OF assms(1) m] obtain es where es: "t = tr @ es" "\<And>r. hits env r tr es \<le> 1"
    "\<And>r. r \<in> ids acc \<Longrightarrow> hits env r tr es = 0"
    "\<And>acc' r. y = Inr acc' \<Longrightarrow> r \<in> ids acc' \<longleftrightarrow> r \<in> ids acc \<or> hits env r tr es = 1"
    "\<And>acc'. y = Inr acc' \<Longrightarrow> ids acc' \<subseteq> ids acc \<union> R" by metis
  show "\<exists>es. tr' = tr @ es
          \<and> (\<forall>r. hits env r tr es \<le> 1 \<and> (r \<in> ids acc \<longrightarrow> hits env r tr es = 0))
          \<and> (\<forall>acc'. x = Inr acc' \<longrightarrow>
               (\<forall>r. r \<in> ids acc' \<longleftrightarrow> r \<in> ids acc \<or> hits env r tr es = 1) \<and> ids acc' \<subseteq> ids acc \<union> (R \<union> S))"
  proof (cases y)
    case (Inl e)
    with m run es show ?thesis by (intro exI [of _ es]) (auto simp: bnd_def)
  next
    case (Inr a1)
    then have f: "f a1 env t = (x, tr')" using m run by (simp add: bnd_def)
    have "ids acc \<subseteq> ids a1" using es(4) [OF Inr] by (intro subsetI) blast
    with es(5) [OF Inr] have s: "sweeps env S a1 (f a1)" by (intro assms(2))
    from sweepsD [OF s f] obtain es' where es': "tr' = t @ es'" "\<And>r. hits env r t es' \<le> 1"
      "\<And>r. r \<in> ids a1 \<Longrightarrow> hits env r t es' = 0"
      "\<And>acc' r. x = Inr acc' \<Longrightarrow> r \<in> ids acc' \<longleftrightarrow> r \<in> ids a1 \<or> hits env r t es' = 1"
      "\<And>acc'. x = Inr acc' \<Longrightarrow> ids acc' \<subseteq> ids a1 \<union> S" by metis
    have split: "hits env r tr (es @ es') = hits env r tr es + hits env r t es'" for r
      by (simp add: hits_append es(1))
    have excl: "hits env r tr es = 0 \<or> hits env r t es' = 0" for r
      using es(2) [of r] es(4) [OF Inr, of r] es'(3) [of r] by (cases "hits env r tr es = 0") (auto simp: le_Suc_eq)
    have a: "hits env r tr (es @ es') \<le> 1" for r
      using excl [of r] es(2) [of r] es'(2) [of r] by (auto simp: split)
    have b: "hits env r tr (es @ es') = 0" if "r \<in> ids acc" for r
      using that es(3,4) es'(3) Inr by (auto simp: split)
    have c: "r \<in> ids acc' \<longleftrightarrow> r \<in> ids acc \<or> hits env r tr (es @ es') = 1" if "x = Inr acc'" for acc' r
      using that es(4) [OF Inr, of r] es'(4) [OF that, of r] excl [of r] by (auto simp: split)
    have d: "ids acc' \<subseteq> ids acc \<union> (R \<union> S)" if "x = Inr acc'" for acc'
      using es(5) [OF Inr] es'(5) [OF that] by auto
    show ?thesis using es(1) es'(1) a b c d by (intro exI [of _ "es @ es'"]) simp
  qed
qed

lemma sweeps_mono:
  assumes "sweeps env R acc m" and "R \<subseteq> S"
  shows "sweeps env S acc m"
  unfolding sweeps_def
proof (intro allI impI)
  fix tr x tr'
  assume "m env tr = (x, tr')"
  from sweepsD [OF assms(1) this] obtain es where es: "tr' = tr @ es" "\<And>r. hits env r tr es \<le> 1"
    "\<And>r. r \<in> ids acc \<Longrightarrow> hits env r tr es = 0"
    "\<And>acc' r. x = Inr acc' \<Longrightarrow> r \<in> ids acc' \<longleftrightarrow> r \<in> ids acc \<or> hits env r tr es = 1"
    "\<And>acc'. x = Inr acc' \<Longrightarrow> ids acc' \<subseteq> ids acc \<union> R" by metis
  have "ids acc' \<subseteq> ids acc \<union> S" if "x = Inr acc'" for acc' using es(5) [OF that] assms(2) by auto
  with es(1-4) show "\<exists>es. tr' = tr @ es
          \<and> (\<forall>r. hits env r tr es \<le> 1 \<and> (r \<in> ids acc \<longrightarrow> hits env r tr es = 0))
          \<and> (\<forall>acc'. x = Inr acc' \<longrightarrow>
               (\<forall>r. r \<in> ids acc' \<longleftrightarrow> r \<in> ids acc \<or> hits env r tr es = 1) \<and> ids acc' \<subseteq> ids acc \<union> S)"
    by (intro exI [of _ es]) simp
qed

lemma sweeps_each:
  assumes "\<And>x acc'. x \<in> set xs \<Longrightarrow> sweeps env (R x) acc' (f x acc')"
  shows "sweeps env (\<Union>x \<in> set xs. R x) acc (each f xs acc)"
  using assms
proof (induction xs arbitrary: acc)
  case Nil
  show ?case unfolding each.simps by (rule sweeps_ret) simp
next
  case (Cons x xs)
  have "sweeps env (R x \<union> (\<Union>x \<in> set xs. R x)) acc (bnd (f x acc) (\<lambda>s'. each f xs s'))"
    using Cons by (intro sweeps_bnd) auto
  then show ?case by simp
qed

text \<open>The runs of one repository: distinct ids that the ledger does not have.\<close>

lemma sweeps_targets:
  assumes "\<And>r acc'. r \<notin> ids acc' \<Longrightarrow> sweeps env {r} acc' (f r acc')"
    and "distinct rs" and "set rs \<inter> ids acc = {}"
  shows "sweeps env (set rs) acc (each f rs acc)"
  using assms(2,3)
proof (induction rs arbitrary: acc)
  case Nil
  show ?case unfolding each.simps by (rule sweeps_ret) simp
next
  case (Cons r rs)
  have "sweeps env ({r} \<union> set rs) acc (bnd (f r acc) (\<lambda>s'. each f rs s'))"
  proof (rule sweeps_bnd)
    show "sweeps env {r} acc (f r acc)" using Cons.prems by (intro assms(1)) auto
    fix acc' assume "ids acc' \<subseteq> ids acc \<union> {r}"
    with Cons.prems show "sweeps env (set rs) acc' (each f rs acc')" by (intro Cons.IH) auto
  qed
  then show ?case by simp
qed

section \<open>The sweep\<close>

lemma plain_no_cancel: "emits plain_read m \<Longrightarrow> emits no_cancel m"
proof (erule emits_mono)
  fix e assume p: "plain_read e"
  show "no_cancel e"
  proof (cases e)
    case (Proc argv token)
    have "take 3 argv \<noteq> [''gh'', ''run'', ''cancel'']"
    proof
      assume t: "take 3 argv = [''gh'', ''run'', ''cancel'']"
      have "take 2 argv = take 2 (take 3 argv)" by (simp add: min_def)
      also have "\<dots> = [''gh'', ''run'']" unfolding t by simp
      finally show False using p by (simp add: Proc plain_read_def)
    qed
    then show ?thesis by (simp add: Proc)
  qed simp_all
qed

lemma rerun_no_cancel: "emits no_cancel (rerun pol slug url r)"
  unfolding rerun_def
  by (intro emits_rules read_emits gh_call_emits) (simp_all add: rerun_args_def warning_def notice_def)

lemma cancel_run:
  assumes "cancel slug url r env tr = (x, tr')"
  shows "\<exists>es. tr' = tr @ es \<and> (\<forall>r'. hits env r' tr es = (if r' = r \<and> x = Inr True then 1 else 0))"
proof -
  define p where "p = Proc (''gh'' # cancel_args r slug) None"
  show ?thesis
  proof (cases "env tr (''gh'' # cancel_args r slug) None")
    case (NotRun exc)
    then have "x = Inl Uncaught \<and> tr' = tr @ [p]"
      using assms by (simp add: cancel_def on_gh_error_def handle_def gh_call_def bnd_def p_def)
    with NotRun show ?thesis by (intro exI [of _ "[p]"]) (simp add: p_def)
  next
    case (Completed code out err)
    show ?thesis
    proof (cases "code = 0")
      case True
      with Completed have "x = Inr True \<and> tr' = tr @ [p]"
        using assms by (simp add: cancel_def on_gh_error_def handle_def gh_call_def bnd_def p_def)
      moreover have "is_hit env r' tr p \<longleftrightarrow> r' = r" for r'
        using Completed True show_int_inj by (auto simp: p_def cancel_args_def)
      ultimately show ?thesis by (intro exI [of _ "[p]"]) simp
    next
      case False
      with Completed have "\<exists>s. x = Inr False \<and> tr' = tr @ [p, Print s]"
        using assms by (auto simp: cancel_def on_gh_error_def handle_def gh_call_def bnd_def seq_def p_def warning_def)
      then obtain s where "x = Inr False" "tr' = tr @ [p, Print s]" by blast
      with Completed False show ?thesis by (intro exI [of _ "[p, Print s]"]) (simp add: p_def)
    qed
  qed
qed

lemma recover_run_sweeps:
  assumes "r \<notin> ids acc"
  shows "sweeps env {r} acc (recover_run pol apply now slug jobs r acc)"
proof (cases "apply")
  case False
  define url where "url = run_url slug jobs r"
  have "recover_run pol False now slug jobs r acc
      = bnd (emit (notice (slug @ '' run '' @ show_int r @ '': WOULD cancel+rerun '' @ em_dash @ '' ''
          @ recover_why pol @ '' ('' @ url @ '')''))) (\<lambda>_. ret (fst acc, snd acc + 1))"
    by (simp only: recover_run_def Let_def seq_def url_def if_True not_False_eq_True)
  moreover have "sweeps env {r} acc (bnd (emit (notice s)) (\<lambda>_. ret (fst acc, snd acc + 1)))" for s
    by (rule sweeps_after, rule emits_emit) (auto simp: notice_def sweeps_def ids_def)
  ultimately show ?thesis using False by simp
next
  case True
  define url where "url = run_url slug jobs r"
  define next_acc where "next_acc = (AList.update r (iso_z now) (fst acc), snd acc + 1)"
  have rr: "recover_run pol apply now slug jobs r acc
      = bnd (cancel slug url r) (\<lambda>cancelled. if \<not> cancelled then ret acc
          else seq (rerun pol slug url r) (ret next_acc))"
    using True by (simp only: recover_run_def Let_def url_def next_acc_def not_True_eq_False if_False)
  have keys: "ids next_acc = insert r (ids acc)"
    by (simp add: next_acc_def ids_def dom_update)
  show ?thesis unfolding sweeps_def rr
  proof (intro allI impI)
    fix tr x tr'
    assume run: "bnd (cancel slug url r) (\<lambda>cancelled. if \<not> cancelled then ret acc
        else seq (rerun pol slug url r) (ret next_acc)) env tr = (x, tr')"
    obtain y t where c: "cancel slug url r env tr = (y, t)" by fastforce
    from cancel_run [OF c] obtain es where es: "t = tr @ es"
      "\<forall>r'. hits env r' tr es = (if r' = r \<and> y = Inr True then 1 else 0)" by blast
    show "\<exists>es. tr' = tr @ es
        \<and> (\<forall>r'. hits env r' tr es \<le> 1 \<and> (r' \<in> ids acc \<longrightarrow> hits env r' tr es = 0))
        \<and> (\<forall>acc'. x = Inr acc' \<longrightarrow>
             (\<forall>r'. r' \<in> ids acc' \<longleftrightarrow> r' \<in> ids acc \<or> hits env r' tr es = 1) \<and> ids acc' \<subseteq> ids acc \<union> {r})"
    proof (cases "y = Inr True")
      case True
      obtain z t2 where z: "rerun pol slug url r env t = (z, t2)" by fastforce
      obtain es2 where es2: "t2 = t @ es2" "list_all no_cancel es2" using emits_run [OF rerun_no_cancel z] by blast
      have h: "hits env r' tr (es @ es2) = (if r' = r then 1 else 0)" for r'
        using es(2) True hits_none [OF es2(2)] by (simp add: hits_append)
      have "tr' = t2 \<and> (\<forall>acc'. x = Inr acc' \<longrightarrow> acc' = next_acc)"
        using run c z True by (cases z) (auto simp: bnd_def seq_def)
      with es es2 h keys assms show ?thesis by (intro exI [of _ "es @ es2"]) auto
    next
      case False
      then have h: "hits env r' tr es = 0" for r' using es(2) by simp
      have "tr' = t \<and> (\<forall>acc'. x = Inr acc' \<longrightarrow> acc' = acc)"
        using run c False by (cases y) (auto simp: bnd_def)
      with es h show ?thesis by (intro exI [of _ es]) auto
    qed
  qed
qed

lemma recover_slug_sweeps: "sweeps env UNIV acc (recover_slug pol apply now slug acc)"
  unfolding recover_slug_def
proof (rule sweeps_after)
  have "emits plain_read (on_gh_error (bnd (queued_jobs slug) (\<lambda>js. ret (Some js)))
      (\<lambda>exc. seq (emit (warning (slug @ '': could not list queued runs ('' @ exc @ '')''))) (ret None)))"
    by (intro emits_rules read_emits warning_read)
  then show "emits no_cancel (on_gh_error (bnd (queued_jobs slug) (\<lambda>js. ret (Some js)))
      (\<lambda>exc. seq (emit (warning (slug @ '': could not list queued runs ('' @ exc @ '')''))) (ret None)))"
    by (rule plain_no_cancel)
  fix listed
  show "sweeps env UNIV acc (case listed of None \<Rightarrow> ret acc
       | Some jobs \<Rightarrow> each (recover_run pol apply now slug jobs)
             (stranded_runs jobs now (p_stranded pol) (map fst (fst acc))) acc)"
  proof (cases listed)
    case None
    then show ?thesis by (simp only: option.case) (rule sweeps_ret, rule refl)
  next
    case (Some jobs)
    let ?rs = "stranded_runs jobs now (p_stranded pol) (map fst (fst acc))"
    have "distinct ?rs" "set ?rs \<inter> ids acc = {}"
      by (auto simp: stranded_runs_def ids_def case_prod_unfold Let_def)
    then have "sweeps env (set ?rs) acc (each (recover_run pol apply now slug jobs) ?rs acc)"
      by (intro sweeps_targets recover_run_sweeps)
    then show ?thesis using Some by (simp only: option.case) (rule sweeps_mono, simp_all)
  qed
qed

lemma recover_loop_sweeps: "sweeps env UNIV acc (each (recover_slug pol apply now) slugs acc)"
  using sweeps_each [of slugs env "\<lambda>_. UNIV" "recover_slug pol apply now" acc] recover_slug_sweeps sweeps_mono
  by blast

end
