(* ===== verification/Runner_Fleet.thy ===== *)
theory Runner_Fleet
  imports Runner_Recovery
begin

text \<open>
  The properties of the two drivers of the runner watcher as a whole: what check mode does, where
  the probe token goes, how often a run is cancelled, what is saved when a sweep is cut short, and
  what a fleet nobody could see is reported as.
\<close>

section \<open>Check mode and the token\<close>

lemma emits_trace: "emits P m \<Longrightarrow> list_all P (snd (m env []))"
  unfolding emits_def by (metis append_Nil)

text \<open>Without --apply the watcher changes nothing on GitHub: no API call with a method, no cancel, no
  rerun, whatever the outside answers and wherever the run ends.\<close>

theorem check_mode_only_reads:
  assumes "\<not> w_apply w"
  shows "list_all (\<lambda>e. \<not> changes_github e) (snd (watch_main w env []))"
  using emits_trace [OF watch_main_check [OF assms], of env]
  by (simp add: list_all_iff plain_read_def)

definition idle_env :: env where
  "idle_env tr argv token = Completed 0 ''[]'' []"

definition demo_now :: datetime where
  "demo_now = \<lparr>dt_year = 2026, dt_month = 9, dt_day = 1, dt_hour = 12, dt_minute = 0, dt_second = 0, dt_micro = 0\<rparr>"

definition demo_args :: "bool \<Rightarrow> bool \<Rightarrow> watch_args" where
  "demo_args decide apply' = \<lparr>w_decide = decide, w_apply = apply', w_repos = ''o/r'', w_hub = ''o/hub'',
     w_stranded = None, w_token = Some ''t'', w_policy = None, w_fleet = None, w_now = demo_now\<rparr>"

theorem check_mode_only_reads_witness:
  "list_all (\<lambda>e. \<not> changes_github e) (snd (watch_main (demo_args False False) idle_env []))"
  by (rule check_mode_only_reads) (simp add: demo_args_def)

text \<open>The optional probe token is handed to the listing of runners and to no other call.\<close>

theorem probe_token_confined: "list_all token_confined (snd (watch_main w env []))"
  by (rule emits_trace [OF watch_main_token])

section \<open>One sweep cancels a run at most once\<close>

lemma read_variable_split:
  assumes "bnd (read_variable hub name) f env [] = (x, tr)"
  obtains (failed) "\<And>r. hits env r [] tr = 0" and "\<And>y. x \<noteq> Inr y"
    | (read) raw t where "read_variable hub name env [] = (Inr raw, t)" and "f raw env t = (x, tr)"
        and "\<And>r. hits env r [] t = 0"
proof -
  obtain y t where m: "read_variable hub name env [] = (y, t)" by fastforce
  have h: "hits env r [] t = 0" for r
    using emits_run [OF plain_no_cancel [OF read_variable_read] m] by (auto intro: hits_none)
  show thesis
  proof (cases y)
    case (Inl e)
    with m assms h show thesis by (intro failed) (auto simp: bnd_def)
  next
    case (Inr raw)
    with m assms h show thesis by (intro read) (auto simp: bnd_def)
  qed
qed

text \<open>After the loop: the save and the summary.\<close>

definition recover_end :: "bool \<Rightarrow> string \<Rightarrow> nat \<Rightarrow> recover_acc \<Rightarrow> int io" where
  "recover_end apply' hub n acc =
     seq (if apply' then write_variable hub STATE_VAR_RECOVER (dump_recovered (fst acc)) else ret ())
     (seq (emit (Print (newline @ ''recover: '' @ show_int (snd acc) @ '' run(s) acted on across ''
             @ show_int (int n) @ '' repo(s)'')))
     (ret 0))"

lemma run_recover_eq:
  "run_recover slugs pol apply' hub now =
     bnd (read_variable hub STATE_VAR_RECOVER) (\<lambda>raw.
     bnd (opt (load_recovered raw now)) (\<lambda>recovered.
     bnd (each (recover_slug pol apply' now) slugs (recovered, 0)) (recover_end apply' hub (length slugs))))"
  unfolding run_recover_def recover_end_def [abs_def] by (rule refl)

lemma recover_end_no_cancel: "emits no_cancel (recover_end apply' hub n acc)"
  unfolding recover_end_def write_variable_def patch_args_def post_args_def
  by (intro emits_rules read_emits gh_call_emits) simp_all

text \<open>A sweep, taken apart: the ledger it read, the loop over the repositories, the end.\<close>

lemma recover_parts:
  assumes "run_recover slugs pol apply' hub now env [] = (x, tr)"
  shows "hits env r [] tr \<le> 1
    \<and> (\<forall>raw t L. read_variable hub STATE_VAR_RECOVER env [] = (Inr raw, t) \<longrightarrow> load_recovered raw now = Some L
         \<longrightarrow> r \<in> fst ` set L \<longrightarrow> hits env r [] tr = 0)
    \<and> (\<forall>c. x = Inr c \<longrightarrow> (\<exists>raw L t1 acc t2. read_variable hub STATE_VAR_RECOVER env [] = (Inr raw, t1)
         \<and> load_recovered raw now = Some L
         \<and> each (recover_slug pol apply' now) slugs (L, 0) env t1 = (Inr acc, t2)
         \<and> (hits env r [] tr = 1 \<longrightarrow> r \<notin> fst ` set L \<and> r \<in> ids acc)
         \<and> recover_end apply' hub (length slugs) acc env t2 = (Inr c, tr)))"
  using assms [unfolded run_recover_eq]
proof (cases rule: read_variable_split)
  case failed
  then show ?thesis by auto
next
  case (read raw t)
  let ?loop = "\<lambda>L. each (recover_slug pol apply' now) slugs (L, 0)"
  let ?last = "recover_end apply' hub (length slugs)"
  show ?thesis
  proof (cases "load_recovered raw now")
    case None
    with read show ?thesis by auto
  next
    case (Some L)
    obtain y t2 where loop: "?loop L env t = (y, t2)" by fastforce
    have i: "ids (L, 0) = fst ` set L" by (simp add: ids_def)
    from sweepsD [OF recover_loop_sweeps loop] obtain es where es: "t2 = t @ es" "hits env r t es \<le> 1"
      "r \<in> fst ` set L \<Longrightarrow> hits env r t es = 0"
      "\<And>acc. y = Inr acc \<Longrightarrow> r \<in> ids acc \<longleftrightarrow> r \<in> fst ` set L \<or> hits env r t es = 1"
      unfolding i by metis
    have run: "bnd (?loop L) ?last env t = (x, tr)" using read(2) Some by simp
    have "\<exists>es2. tr = t2 @ es2 \<and> list_all no_cancel es2 \<and> (\<forall>c. x = Inr c \<longrightarrow> (\<exists>acc. y = Inr acc))"
    proof (cases y)
      case (Inl e)
      with run loop show ?thesis by (auto simp: bnd_def)
    next
      case (Inr acc)
      with run loop have "?last acc env t2 = (x, tr)" by (simp add: bnd_def)
      from emits_run [OF recover_end_no_cancel this]
      obtain es2 where "tr = t2 @ es2 \<and> list_all no_cancel es2" ..
      with Inr show ?thesis by (intro exI [of _ es2]) simp
    qed
    then obtain es2 where es2: "tr = t2 @ es2" "list_all no_cancel es2" "\<forall>c. x = Inr c \<longrightarrow> (\<exists>acc. y = Inr acc)"
      by blast
    have h: "hits env r [] tr = hits env r t es"
      using read(3) [of r] hits_none [OF es2(2)] by (simp add: es2(1) es(1) hits_append)
    have last: "\<exists>acc. y = Inr acc \<and> ?last acc env t2 = (Inr c, tr)" if "x = Inr c" for c
      using es2(3) that run loop by (auto simp: bnd_def)
    have b: "hits env r [] tr = 0" if "read_variable hub STATE_VAR_RECOVER env [] = (Inr raw', t')"
      "load_recovered raw' now = Some L'" "r \<in> fst ` set L'" for raw' t' L'
      using that read(1) Some es(3) h by simp
    have c: "\<exists>raw L t1 acc t2. read_variable hub STATE_VAR_RECOVER env [] = (Inr raw, t1)
         \<and> load_recovered raw now = Some L \<and> ?loop L env t1 = (Inr acc, t2)
         \<and> (hits env r [] tr = 1 \<longrightarrow> r \<notin> fst ` set L \<and> r \<in> ids acc)
         \<and> ?last acc env t2 = (Inr c, tr)" if "x = Inr c" for c
    proof -
      from last [OF that] obtain acc where acc: "y = Inr acc" "?last acc env t2 = (Inr c, tr)" by blast
      have loop': "?loop L env t = (Inr acc, t2)" using loop acc(1) by simp
      have new: "hits env r [] tr = 1 \<longrightarrow> r \<notin> fst ` set L \<and> r \<in> ids acc"
        using es(3) es(4) [OF acc(1)] h by (cases "r \<in> fst ` set L") simp_all
      show ?thesis
        by (rule exI [of _ raw], rule exI [of _ L], rule exI [of _ t], rule exI [of _ acc], rule exI [of _ t2],
            intro conjI read(1) Some loop' new acc(2))
    qed
    have "hits env r [] tr \<le> 1" using es(2) h by simp
    with b c show ?thesis by (intro conjI allI impI)
  qed
qed

text \<open>Whatever the outside answers and wherever the sweep ends, no run is cancelled successfully twice
  in it, and none that the ledger it read has a recovery of.\<close>

theorem recovered_at_most_once:
  assumes "run_recover slugs pol apply' hub now env [] = (x, tr)"
  shows "hits env r [] tr \<le> 1
    \<and> (\<forall>raw t L. read_variable hub STATE_VAR_RECOVER env [] = (Inr raw, t) \<longrightarrow> load_recovered raw now = Some L
         \<longrightarrow> r \<in> fst ` set L \<longrightarrow> hits env r [] tr = 0)"
  using recover_parts [OF assms, of r] by (elim conjE) (intro conjI)

section \<open>Sweep after sweep\<close>

text \<open>The value a trace leaves in a variable: the last one handed to gh.\<close>

fun written :: "string \<Rightarrow> string \<Rightarrow> event \<Rightarrow> string option" where
  "written hub name (Proc argv token) =
     (case drop 8 argv of
        [] \<Rightarrow> None
      | w # _ \<Rightarrow>
          (let v = drop 6 w
           in if argv = ''gh'' # patch_args hub name v \<or> argv = ''gh'' # post_args hub name v then Some v else None))"
| "written hub name _ = None"

definition saved_value :: "string \<Rightarrow> string \<Rightarrow> event list \<Rightarrow> string option" where
  "saved_value hub name tr = 
     (let vs = List.map_filter (written hub name) tr in if vs = [] then None else Some (last vs))"

text \<open>A chain of completed sweeps in apply mode: each one reads what the one before it saved. A sweep is
  given by the outside it met, its clock, the repositories, and the trace it left.\<close>

record sweep_run =
  s_env :: env
  s_now :: datetime
  s_slugs :: "string list"
  s_trace :: "event list"

inductive chain :: "policy \<Rightarrow> string \<Rightarrow> string option \<Rightarrow> sweep_run list \<Rightarrow> bool" for pol hub where
  chain_Nil: "chain pol hub v []"
| chain_Cons: "read_variable hub STATE_VAR_RECOVER (s_env s) [] = (Inr v, t)
    \<Longrightarrow> run_recover (s_slugs s) pol True hub (s_now s) (s_env s) [] = (Inr c, s_trace s)
    \<Longrightarrow> chain pol hub (saved_value hub STATE_VAR_RECOVER (s_trace s)) ss
    \<Longrightarrow> chain pol hub v (s # ss)"

inductive_cases chain_ConsE: "chain pol hub v (s # ss)"



lemma yields_bnd: "(\<And>x. yields Q (f x)) \<Longrightarrow> yields Q (bnd m f)"
  unfolding yields_def bnd_Inr_iff by blast























section \<open>A sweep cut short\<close>

text \<open>A write of the variable that gh accepted, read off the trace and the answers.\<close>

fun accepted :: "env \<Rightarrow> event list \<Rightarrow> event \<Rightarrow> bool" where
  "accepted env tr (Proc argv token) =
     (case env tr argv token of Completed code out err \<Rightarrow> code = 0 | NotRun exc \<Rightarrow> False)"
| "accepted env tr _ = False"

fun saves :: "env \<Rightarrow> string \<Rightarrow> string \<Rightarrow> event list \<Rightarrow> event list \<Rightarrow> bool" where
  "saves env hub name tr [] = False"
| "saves env hub name tr (e # es) =
     (written hub name e \<noteq> None \<and> accepted env tr e \<or> saves env hub name (tr @ [e]) es)"

lemma saves_append: "saves env hub name tr (es @ es') \<longleftrightarrow> saves env hub name tr es \<or> saves env hub name (tr @ es) es'"
  by (induction es arbitrary: tr) simp_all

definition no_save :: "string \<Rightarrow> string \<Rightarrow> event \<Rightarrow> bool" where
  "no_save hub name e \<longleftrightarrow> written hub name e = None"

lemma no_save_saves: "list_all (no_save hub name) es \<Longrightarrow> \<not> saves env hub name tr es"
  by (induction es arbitrary: tr) (simp_all add: no_save_def)

lemma method_no_save: "take 3 argv \<noteq> [''gh'', ''api'', ''--method''] \<Longrightarrow> no_save hub name (Proc argv token)"
  by (auto simp: no_save_def patch_args_def post_args_def Let_def split: list.splits)

lemma plain_no_save: "emits plain_read m \<Longrightarrow> emits (no_save hub name) m"
proof (erule emits_mono)
  fix e assume "plain_read e"
  then show "no_save hub name e"
    by (cases e) (auto simp: plain_read_def intro!: method_no_save, simp_all add: no_save_def)
qed

lemma gh_run_no_save: "emits (no_save hub name) (gh_call (''run'' # args) token)"
  by (intro gh_call_emits method_no_save) simp

lemma texts_no_save: "no_save hub name (warning s)" "no_save hub name (notice s)" "no_save hub name (Print s)"
  by (simp_all add: no_save_def warning_def notice_def)

lemma recover_loop_no_save: "emits (no_save hub name) (each (recover_slug pol apply' now) slugs acc)"
  unfolding recover_slug_def recover_run_def Let_def cancel_def rerun_def cancel_args_def rerun_args_def
  by (intro emits_rules read_emits texts_no_save gh_run_no_save plain_no_save [OF queued_jobs_read])

lemma write_variable_fails:
  assumes "write_variable hub name v env t = (Inl e, t')"
  shows "\<exists>es. t' = t @ es \<and> \<not> saves env hub name t es"
proof -
  let ?patch = "Proc (''gh'' # patch_args hub name v) None" and ?post = "Proc (''gh'' # post_args hub name v) None"
  have "t' = t @ [?patch] \<and> \<not> accepted env t ?patch
      \<or> t' = t @ [?patch, ?post] \<and> \<not> accepted env t ?patch \<and> \<not> accepted env (t @ [?patch]) ?post"
    using assms
    by (auto simp: write_variable_def on_gh_error_def handle_def gh_call_def bnd_def
        split: presult.splits if_splits)
  then show ?thesis by (elim disjE conjE) (intro exI conjI, assumption, simp)+
qed

lemma recover_end_fails:
  assumes "recover_end apply' hub n acc env t = (Inl e, tr)"
  shows "\<exists>es. tr = t @ es \<and> \<not> saves env hub STATE_VAR_RECOVER t es"
proof (cases "apply'")
  case True
  with assms write_variable_fails show ?thesis
    by (auto simp: recover_end_def seq_def bnd_def split: prod.splits sum.splits)
next
  case False
  with assms show ?thesis by (simp add: recover_end_def seq_def bnd_def)
qed

text \<open>The ledger is written at the very end only. A sweep that is cut short by an exception (a probe that
  times out, a malformed answer, a refused write) has saved nothing, whatever it cancelled before.\<close>

theorem aborted_sweep_saves_nothing:
  assumes "run_recover slugs pol apply' hub now env [] = (Inl e, tr)"
  shows "\<not> saves env hub STATE_VAR_RECOVER [] tr"
proof -
  let ?loop = "\<lambda>L. each (recover_slug pol apply' now) slugs (L, 0)" and ?P = "no_save hub STATE_VAR_RECOVER"
  let ?head = "bnd (read_variable hub STATE_VAR_RECOVER) (\<lambda>raw. bnd (opt (load_recovered raw now)) ?loop)"
  have assoc: "run_recover slugs pol apply' hub now = bnd ?head (recover_end apply' hub (length slugs))"
    unfolding run_recover_eq by (auto simp: bnd_def fun_eq_iff split: prod.splits sum.splits)
  obtain y t where h: "?head env [] = (y, t)" by fastforce
  have "emits ?P ?head"
    by (intro emits_rules recover_loop_no_save plain_no_save [OF read_variable_read])
  from emits_run [OF this h] have 0: "\<not> saves env hub STATE_VAR_RECOVER [] t"
    by (auto dest: no_save_saves)
  show ?thesis
  proof (cases y)
    case (Inl e')
    with assms h 0 show ?thesis unfolding assoc by (simp add: bnd_def)
  next
    case (Inr acc)
    with assms h have "recover_end apply' hub (length slugs) acc env t = (Inl e, tr)"
      unfolding assoc by (simp add: bnd_def)
    from recover_end_fails [OF this] 0 show ?thesis by (auto simp: saves_append)
  qed
qed

section \<open>A fleet nobody could see\<close>

text \<open>Every listing of runners fails.\<close>

definition listing_fails :: "env \<Rightarrow> bool" where
  "listing_fails env \<longleftrightarrow>
     (\<forall>tr slug token. \<exists>code out err. env tr (''gh'' # runners_args slug) token = Completed code out err \<and> code \<noteq> 0)"

text \<open>A private repository with a declared pool, neither pinned nor bound to the cluster.\<close>

definition liveness_matters :: "env \<Rightarrow> policy \<Rightarrow> string \<Rightarrow> bool" where
  "liveness_matters env pol slug \<longleftrightarrow>
     map_of (p_capability pol) slug \<noteq> Some ''cluster'' \<and> map_of (p_pinned pol) slug = None
     \<and> (\<forall>tr. fst (probe_private slug env tr) = Inr True)
     \<and> (\<forall>tr. \<exists>p. fst (declared_pool slug env tr) = Inr p \<and> p \<noteq> [])"

lemma probe_liveness_blind:
  assumes "listing_fails env"
  shows "fst (probe_liveness slug token env tr) = Inr None"
proof -
  obtain code out err where "env tr (''gh'' # runners_args slug) (if token = Some [] then None else token)
      = Completed code out err" "code \<noteq> 0"
    using assms unfolding listing_fails_def by blast
  then show ?thesis by (simp add: probe_liveness_def on_gh_error_def handle_def gh_call_def bnd_def)
qed

lemma try_probe_blind:
  assumes "listing_fails env" and "try_probe slug token env tr = (Inr (Some f), t)"
  shows "rf_online f = None"
  using assms(2) probe_liveness_blind [OF assms(1), of slug token]
  by (auto simp: try_probe_def on_gh_error_def handle_def bnd_Inr_iff seq_def probe_repo_def
      split: prod.splits sum.splits exn.splits) (metis fst_conv Inr_inject)

lemma try_probe_seen:
  assumes "liveness_matters env pol slug" and "try_probe slug token env tr = (Inr q, t)" and "listing_fails env"
  shows "\<exists>f. q = Some f \<and> rf_private f \<and> rf_pool f \<noteq> []"
proof -
  obtain t1 where p: "probe_private slug env tr = (Inr True, t1)"
    using assms(1) unfolding liveness_matters_def by (metis prod.collapse)
  obtain d t2 where d: "declared_pool slug env t1 = (Inr d, t2)" "d \<noteq> []"
    using assms(1) unfolding liveness_matters_def by (metis prod.collapse)
  obtain t3 where l: "probe_liveness slug token env t2 = (Inr None, t3)"
    using probe_liveness_blind [OF assms(3)] by (metis prod.collapse)
  have "\<exists>f. probe_repo slug token env tr = (Inr f, t3) \<and> rf_private f \<and> rf_pool f \<noteq> []"
    using d(2) by (simp add: probe_repo_def bnd_run(1) [where m = "probe_private slug", OF p]
        bnd_run(1) [where m = "declared_pool slug", OF d(1)] bnd_run(1) [where m = "probe_liveness slug token", OF l])
  then obtain f where f: "probe_repo slug token env tr = (Inr f, t3)" "rf_private f" "rf_pool f \<noteq> []" by blast
  have "try_probe slug token env tr = (Inr (Some f), t3)"
    by (simp add: try_probe_def on_gh_error_def handle_def bnd_run(1) [where m = "probe_repo slug token", OF f(1)])
  with assms(2) f show ?thesis by auto
qed

definition same_counts :: "decide_acc \<Rightarrow> decide_acc \<Rightarrow> bool" where
  "same_counts a b \<longleftrightarrow> a_needed b = a_needed a \<and> a_blind b = a_blind a"

lemma publish_counts: "yields (same_counts acc) (publish apply' slug d r acc)"
  by (auto simp: yields_def publish_def seq_def bnd_Inr_iff same_counts_def split: option.splits if_splits)

lemma yields_bnd_via: "yields R m \<Longrightarrow> (\<And>x. R x \<Longrightarrow> yields Q (f x)) \<Longrightarrow> yields Q (bnd m f)"
  unfolding yields_def bnd_Inr_iff by blast

lemma same_counts_trans: "same_counts a b \<Longrightarrow> yields (same_counts b) m \<Longrightarrow> yields (same_counts a) m"
  by (simp add: yields_def same_counts_def)

lemma after_probe_counts:
  "yields (same_counts a) (bnd (read_variable slug RUNNER_VAR) (\<lambda>current. bnd (opt (hyst current)) (\<lambda>r.
     bnd (if b then seq (emit ev) (ret (a\<lparr>a_warnings := w\<rparr>)) else ret a) (\<lambda>acc2.
     seq (emit (line current r)) (publish apply' slug d r (acc2\<lparr>a_state := st r acc2\<rparr>))))))"
  unfolding seq_def
proof (rule yields_bnd, rule yields_bnd, rule yields_bnd_via [where R = "same_counts a"])
  show "yields (same_counts a) (if b then bnd (emit ev) (\<lambda>_. ret (a\<lparr>a_warnings := w\<rparr>)) else ret a)"
    by (auto simp: yields_def bnd_Inr_iff same_counts_def)
  fix current r acc2
  assume "same_counts a acc2"
  then have "same_counts a (acc2\<lparr>a_state := st r acc2\<rparr>)" by (simp add: same_counts_def)
  from same_counts_trans [OF this publish_counts]
  show "yields (same_counts a) (bnd (emit (line current r)) (\<lambda>_. publish apply' slug d r (acc2\<lparr>a_state := st r acc2\<rparr>)))"
    by (intro yields_bnd)
qed

lemma decide_slug_counts:
  assumes "decide_slug pol apply' token slug acc env tr = (Inr acc', tr')"
  obtains (unreachable) t where "try_probe slug token env tr = (Inr None, t)" and "same_counts acc acc'"
    | (probed) f t where "try_probe slug token env tr = (Inr (Some f), t)"
        and "same_counts (count_liveness (with_policy pol slug f) acc) acc'"
proof -
  obtain q t where q: "try_probe slug token env tr = (Inr q, t)"
    using assms by (auto simp: decide_slug_def bnd_Inr_iff)
  show thesis
  proof (cases q)
    case None
    with q assms show thesis by (intro unreachable) (auto simp: decide_slug_def bnd_def same_counts_def)
  next
    case (Some f)
    note ran = assms [unfolded decide_slug_def bnd_run(1) [where m = "try_probe slug token", OF q] Some option.case Let_def]
    have "same_counts (count_liveness (with_policy pol slug f) acc) acc'"
      by (rule after_probe_counts [unfolded yields_def, rule_format, OF ran])
    with q Some show thesis by (intro probed) simp_all
  qed
qed

lemma decide_slug_blind:
  assumes "listing_fails env" and "decide_slug pol apply' token slug acc env tr = (Inr acc', tr')"
    and "a_blind acc = a_needed acc"
  shows "a_blind acc' = a_needed acc' \<and> a_needed acc \<le> a_needed acc'
    \<and> (liveness_matters env pol slug \<longrightarrow> a_needed acc < a_needed acc')"
  using assms(2)
proof (cases rule: decide_slug_counts)
  case (unreachable t)
  then show ?thesis
    using assms(3) try_probe_seen [OF _ unreachable(1) assms(1)] by (auto simp: same_counts_def)
next
  case (probed f t)
  have o: "rf_online f = None" by (rule try_probe_blind [OF assms(1) probed(1)])
  have "needs_liveness (with_policy pol slug f)" if "liveness_matters env pol slug"
    using try_probe_seen [OF that probed(1) assms(1)] that
    by (auto simp: needs_liveness_def with_policy_def liveness_matters_def split: option.splits)
  with probed(2) o assms(3) show ?thesis
    by (auto simp: same_counts_def count_liveness_def with_policy_def)
qed

lemma decide_loop_blind:
  assumes "listing_fails env" and "each (decide_slug pol apply' token) slugs acc env tr = (Inr acc', tr')"
    and "a_blind acc = a_needed acc"
  shows "a_blind acc' = a_needed acc' \<and> a_needed acc \<le> a_needed acc'
    \<and> ((\<exists>slug \<in> set slugs. liveness_matters env pol slug) \<longrightarrow> a_needed acc < a_needed acc')"
  using assms(2,3)
proof (induction slugs arbitrary: acc tr)
  case Nil
  then show ?case by simp
next
  case (Cons slug slugs)
  then obtain acc1 t1 where 1: "decide_slug pol apply' token slug acc env tr = (Inr acc1, t1)"
    and 2: "each (decide_slug pol apply' token) slugs acc1 env t1 = (Inr acc', tr')"
    by (auto simp: bnd_Inr_iff)
  note d = decide_slug_blind [OF assms(1) 1 Cons.prems(2)]
  with Cons.IH [OF 2] show ?case by auto
qed

text \<open>C32: a decide run to which no pool was visible is never green: if every listing of runners fails and
  some repository's decision depends on one, a run that ends reports failure.\<close>

theorem blind_fleet_fails:
  assumes "listing_fails env" and "slug \<in> set slugs" and "liveness_matters env pol slug"
    and "run_decide slugs pol apply' hub token env [] = (Inr c, tr)"
  shows "c = 1"
proof -
  obtain raw acc t1 t2 where loop: "each (decide_slug pol apply' token) slugs
      \<lparr>a_state = load_state raw, a_warnings = 0, a_writes = 0, a_needed = 0, a_blind = 0\<rparr> env t1 = (Inr acc, t2)"
    and fin: "\<exists>t3. (if a_needed acc \<noteq> 0 \<and> a_blind acc = a_needed acc
        then bnd (emit (Print (blindness_error (a_needed acc)))) (\<lambda>_. ret 1) else ret 0) env t3 = (Inr c, tr)"
    using assms(4) unfolding run_decide_def seq_def bnd_Inr_iff by blast
  have "a_blind acc = a_needed acc \<and> 0 < a_needed acc"
    using decide_loop_blind [OF assms(1) loop] assms(2,3) by auto
  with fin show ?thesis by (auto simp: bnd_Inr_iff)
qed

text \<open>The listing needs a permission the token does not have.\<close>

definition demo_blind :: env where
  \<open>demo_blind tr argv token =
     (if argv = ''gh'' # runners_args ''o/r'' then Completed 1 [] ''403''
      else if take 2 argv = [''gh'', ''api''] \<and> argv ! 2 = ''repos/o/r''
      then Completed 0 ''{"private": true, "default_branch": "main"}'' []
      else if argv ! 2 = ''repos/o/r/contents/.fuze/manifest.json''
      then Completed 0 ''eyJjaSI6eyJydW5uZXIiOiJwIn19'' []
      else Completed 1 [] ''404'')\<close>

lemma demo_blind_facts:
  "fst (probe_private ''o/r'' demo_blind tr) = Inr True"
  "fst (declared_pool ''o/r'' demo_blind tr) = Inr ''p''"
  "fst (run_decide [''o/r''] default_policy False ''o/hub'' None demo_blind []) = Inr 1"
  by code_simp+

theorem blind_fleet_fails_witness:
  "\<exists>c tr. run_decide [''o/r''] default_policy False ''o/hub'' None demo_blind [] = (Inr c, tr) \<and> c = 1"
proof -
  obtain c tr where run: "run_decide [''o/r''] default_policy False ''o/hub'' None demo_blind [] = (Inr c, tr)"
    using demo_blind_facts(3) by (metis prod.collapse)
  have "\<exists>code out err. demo_blind tr (''gh'' # runners_args slug) token = Completed code out err \<and> code \<noteq> 0"
    for tr slug token
    by (auto simp: demo_blind_def runners_args_def)
  then have "listing_fails demo_blind" by (simp add: listing_fails_def)
  moreover have "liveness_matters demo_blind default_policy ''o/r''"
    using demo_blind_facts by (simp add: liveness_matters_def default_policy_def)
  ultimately show ?thesis using blind_fleet_fails [OF _ _ _ run] run by auto
qed

end
