(* ===== verification/Hostname_Models.thy ===== *)
theory Hostname_Models
  imports JsonText PyTime
begin

text \<open>
  services/custom-hostname-api: the effects of the service (HTTP calls to the Kubernetes and the
  Cloudflare API, the state file of the stub, the clock, random identifiers), its errors
  (app/errors.py), the data of the contract (app/models.py) and the record of a provider
  (app/providers/base.py).

  The outside is a parameter: it answers every HTTP call from the calls made before it. A
  computation maps the outside and the world to a value or a fault and the next world. Requests
  are handled one after the other; the interleaving of concurrent requests is not modelled.
\<close>

section \<open>Effects\<close>

text \<open>An \<open>ApiError\<close> with status, code, message and detail; any other exception (a 500); a loop that has
  not ended within its fuel.\<close>

datatype fault = ApiError int string string "string option" | Crash | Unfinished

datatype call =
    Kube string string "json option"                         \<comment> \<open>method, path, body\<close>
  | Cloud string string "(string \<times> string) list" "json option" \<comment> \<open>method, path, query, body\<close>

text \<open>\<open>httpx.HTTPError\<close> with its text, or a response with status and text.\<close>

datatype reply = Unreachable string | Reply int string

record outside =
  o_http :: "call list \<Rightarrow> call \<Rightarrow> reply"
  o_clock :: "nat \<Rightarrow> datetime"
  o_uuid :: "nat \<Rightarrow> string"

text \<open>The world: the calls so far, the stub's state file (None: missing or not JSON; the text of the
  file is not modelled) and how often the clock or the generator of identifiers was asked.\<close>

record world =
  w_calls :: "call list"
  w_file :: "json option"
  w_asked :: nat

type_synonym 'a act = "outside \<Rightarrow> world \<Rightarrow> (fault + 'a) \<times> world"

definition done_with :: "'a \<Rightarrow> 'a act" where
  "done_with x = (\<lambda>out w. (Inr x, w))"

definition fail_with :: "fault \<Rightarrow> 'a act" where
  "fail_with e = (\<lambda>out w. (Inl e, w))"

definition andthen :: "'a act \<Rightarrow> ('a \<Rightarrow> 'b act) \<Rightarrow> 'b act" where
  "andthen m f = (\<lambda>out w. case m out w of (Inl e, w') \<Rightarrow> (Inl e, w') | (Inr x, w') \<Rightarrow> f x out w')"

definition or_crash :: "'a option \<Rightarrow> 'a act" where
  "or_crash x = (case x of None \<Rightarrow> fail_with Crash | Some y \<Rightarrow> done_with y)"

definition ask :: "call \<Rightarrow> reply act" where
  "ask c = (\<lambda>out w. (Inr (o_http out (w_calls w) c), w\<lparr>w_calls := w_calls w @ [c]\<rparr>))"

definition utc_now :: "datetime act" where
  "utc_now = (\<lambda>out w. (Inr (o_clock out (w_asked w)), w\<lparr>w_asked := w_asked w + 1\<rparr>))"

definition uuid4 :: "string act" where
  "uuid4 = (\<lambda>out w. (Inr (o_uuid out (w_asked w)), w\<lparr>w_asked := w_asked w + 1\<rparr>))"

text \<open>\<open>try: m  except Exception as exc\<close>.\<close>

definition attempt :: "'a act \<Rightarrow> (fault + 'a) act" where
  "attempt m = (\<lambda>out w. case m out w of (r, w') \<Rightarrow> (Inr r, w'))"

lemma act_runs [simp]:
  "done_with x out w = (Inr x, w)" "fail_with e out w = (Inl e, w)"
  "or_crash (Some y) = done_with y" "or_crash None = fail_with Crash"
  "ask c out w = (Inr (o_http out (w_calls w) c), w\<lparr>w_calls := w_calls w @ [c]\<rparr>)"
  "utc_now out w = (Inr (o_clock out (w_asked w)), w\<lparr>w_asked := w_asked w + 1\<rparr>)"
  "uuid4 out w = (Inr (o_uuid out (w_asked w)), w\<lparr>w_asked := w_asked w + 1\<rparr>)"
  by (simp_all add: done_with_def fail_with_def or_crash_def ask_def utc_now_def uuid4_def)

lemma andthen_run [simp]: "andthen m f out w =
    (case m out w of (Inl e, w') \<Rightarrow> (Inl e, w') | (Inr x, w') \<Rightarrow> f x out w')"
  by (simp add: andthen_def)

lemma andthen_Inr: "andthen m f out w = (Inr y, w') \<longleftrightarrow> (\<exists>x w1. m out w = (Inr x, w1) \<and> f x out w1 = (Inr y, w'))"
  by (auto split: prod.splits sum.splits)

section \<open>Errors\<close>

definition unauthorized :: fault where
  "unauthorized = ApiError 401 ''unauthorized'' ''Missing or invalid bearer token.'' None"

definition forbidden :: "string \<Rightarrow> string option \<Rightarrow> fault" where
  "forbidden message detail = ApiError 403 ''forbidden'' message detail"

definition not_found :: "string \<Rightarrow> fault" where
  "not_found message = ApiError 404 ''not_found'' message None"

definition validation_error :: "string \<Rightarrow> string option \<Rightarrow> fault" where
  "validation_error message detail = ApiError 422 ''validation_error'' message detail"

definition upstream_error :: "string \<Rightarrow> string option \<Rightarrow> fault" where
  "upstream_error message detail = ApiError 502 ''upstream_error'' message detail"

definition quota_exceeded :: "string \<Rightarrow> string option \<Rightarrow> fault" where
  "quota_exceeded message detail = ApiError 429 ''quota_exceeded'' message detail"

section \<open>The contract\<close>

datatype dns_status = DnsPending | DnsActive | DnsMoved | DnsBlocked | DnsError

datatype tls_status =
    TlsPendingValidation | TlsPendingIssuance | TlsPendingDeployment | TlsActive | TlsExpired | TlsFailed

fun tls_value :: "tls_status \<Rightarrow> string" where
  "tls_value TlsPendingValidation = ''pending_validation''"
| "tls_value TlsPendingIssuance = ''pending_issuance''"
| "tls_value TlsPendingDeployment = ''pending_deployment''"
| "tls_value TlsActive = ''active''"
| "tls_value TlsExpired = ''expired''"
| "tls_value TlsFailed = ''failed''"

text \<open>\<open>TlsStatus(s)\<close> raises ValueError on any other text.\<close>

definition tls_of :: "string \<Rightarrow> tls_status option" where
  "tls_of s = List.find (\<lambda>t. tls_value t = s)
     [TlsPendingValidation, TlsPendingIssuance, TlsPendingDeployment, TlsActive, TlsExpired, TlsFailed]"

datatype verification_method = Txt | Cname

datatype verification_purpose = Ownership | CertificateProof | RoutingRecord

datatype provider_name = CloudflareForSaas | Stub

record verification_record =
  vr_method :: verification_method
  vr_record :: string
  vr_value :: string
  vr_purpose :: verification_purpose

record verification =
  v_method :: verification_method
  v_record :: string
  v_value :: string
  v_records :: "verification_record list"

text \<open>A datetime with its offset, as \<open>fromisoformat\<close> returns it.\<close>

type_synonym stamp = "datetime \<times> int option"

record certificate =
  c_issuer :: json
  c_not_before :: "stamp option"
  c_not_after :: "stamp option"
  c_serial :: json

text \<open>A field of type \<open>str | None\<close>.\<close>

definition text_or_null :: "json \<Rightarrow> json option" where
  "text_or_null v = (case v of JNull \<Rightarrow> Some v | JStr _ \<Rightarrow> Some v | _ \<Rightarrow> None)"

record provider_info =
  pi_name :: provider_name
  pi_id :: json
  pi_status :: string
  pi_ssl_status :: string

record provider_record =
  pr_domain :: string
  pr_dns :: dns_status
  pr_tls :: tls_status
  pr_verification :: verification
  pr_provider :: provider_info
  pr_certificate :: "certificate option"
  pr_error :: "string option"
  pr_created :: "stamp option"
  pr_updated :: "stamp option"

record routing =
  rt_cname_target :: string
  rt_ingress_ready :: bool
  rt_ingress_name :: "string option"

record custom_hostname =
  ch_domain :: string
  ch_profile :: string
  ch_active :: bool
  ch_dns :: dns_status
  ch_tls :: tls_status
  ch_verification :: verification
  ch_routing :: routing
  ch_certificate :: "certificate option"
  ch_error :: "string option"
  ch_provider :: provider_info
  ch_created :: stamp
  ch_updated :: "stamp option"

text \<open>\<open>HostnameProvider\<close>: the operations of a provider.\<close>

record provider =
  pv_create :: "string \<Rightarrow> (provider_record \<times> bool) act"
  pv_get :: "string \<Rightarrow> provider_record option act"
  pv_delete :: "string \<Rightarrow> unit act"
  pv_list :: "provider_record list act"
  pv_health :: "(bool \<times> string option) act"

section \<open>Domains\<close>

definition label_char :: "char \<Rightarrow> bool" where
  "label_char c \<longleftrightarrow> is_upper c \<or> is_lower c \<or> is_digit c \<or> c = CHR ''-''"

definition label_ok :: "string \<Rightarrow> bool" where
  "label_ok l \<longleftrightarrow> l \<noteq> [] \<and> length l \<le> 63 \<and> list_all label_char l \<and> hd l \<noteq> CHR ''-'' \<and> last l \<noteq> CHR ''-''"

text \<open>\<open>DOMAIN_RE.match\<close>: at least two labels; \<open>$\<close> also matches before a final newline.\<close>

definition domain_re :: "string \<Rightarrow> bool" where
  "domain_re s =
     (let body = (if s \<noteq> [] \<and> last s = CHR 10 then butlast s else s);
          labels = split_on (\<lambda>c. c = CHR ''.'') body
      in 2 \<le> length labels \<and> list_all label_ok labels)"

definition canonical :: "string \<Rightarrow> string" where
  "canonical s = str_lower (rstrip_chr CHR ''.'' (str_strip s))"

text \<open>\<open>CreateCustomHostnameRequest\<close>: the length limits apply to the domain as sent, then the validator.
  None is a validation error of the request (422).\<close>

definition normalize :: "string \<Rightarrow> string option" where
  "normalize s =
     (if length (codepoints s) < 4 \<or> 253 < length (codepoints s) then None
      else if domain_re (canonical s) then Some (canonical s) else None)"

definition create_request :: "json \<Rightarrow> (string \<times> string option) option" where
  "create_request body =
     (case body of
        JObj kvs \<Rightarrow>
          (if \<not> list_all (\<lambda>(k, v). k = ''domain'' \<or> k = ''profile'') kvs then None
           else do { d \<leftarrow> as_text (dget kvs ''domain'' JNull);
                     domain \<leftarrow> normalize d;
                     (case dget kvs ''profile'' JNull of
                        JNull \<Rightarrow> Some (domain, None)
                      | JStr p \<Rightarrow> Some (domain, Some p)
                      | _ \<Rightarrow> None) })
      | _ \<Rightarrow> None)"

end
