(* ===== verification/Hostname_Config.thy ===== *)
theory Hostname_Config
  imports Hostname_Models
begin

text \<open>
  app/config.py and app/auth.py: the settings and route profiles read from the environment, and
  the resolution of a bearer token to the one profile it grants. The environment, the file system
  and the YAML parser are parameters; None is an exception that stops the start of the service.
\<close>

section \<open>Settings\<close>

record route_profile =
  rp_name :: string
  rp_namespace :: string
  rp_service :: string
  rp_port :: int
  rp_paths :: "string list"
  rp_ingress_class :: string
  rp_token :: string

definition has_token :: "route_profile \<Rightarrow> bool" where
  "has_token p \<longleftrightarrow> rp_token p \<noteq> []"

record settings =
  st_provider :: string
  st_cf_token :: string
  st_cf_zone :: string
  st_cf_base :: string
  st_managed_zone :: string
  st_reserved_zones :: "string list"
  st_cname_target :: string
  st_max_hostnames :: int
  st_routing_enabled :: bool
  st_kube_api :: string
  st_timeout :: flt
  st_activate_after :: flt
  st_stub_path :: string
  st_profiles :: "route_profile list"

text \<open>Constant-time comparison is comparison.\<close>

definition profile_for_token :: "settings \<Rightarrow> string \<Rightarrow> route_profile option" where
  "profile_for_token settings token =
     List.find (\<lambda>p. rp_token p \<noteq> [] \<and> rp_token p = token) (st_profiles settings)"

section \<open>The environment\<close>

type_synonym getenv = "string \<Rightarrow> string option"

definition env_or :: "getenv \<Rightarrow> string \<Rightarrow> string \<Rightarrow> string" where
  "env_or env name d = (case env name of None \<Rightarrow> d | Some v \<Rightarrow> v)"

definition env_bool :: "getenv \<Rightarrow> string \<Rightarrow> bool \<Rightarrow> bool" where
  "env_bool env name d =
     (case env name of None \<Rightarrow> d
      | Some raw \<Rightarrow> List.member [''1'', ''true'', ''yes'', ''on''] (str_lower (str_strip raw)))"

definition upper_char :: "char \<Rightarrow> char" where
  "upper_char c = (if is_lower c then char_of (of_char c - 32 :: nat) else c)"

definition default_token_env :: "string \<Rightarrow> string" where
  "default_token_env name =
     ''CONSUMER_TOKEN_'' @ map (\<lambda>c. if c = CHR ''-'' then CHR ''_'' else c) (map upper_char name)"

text \<open>One entry of the profiles; an \<open>int\<close> that cannot be read and a missing name raise.\<close>

definition load_profile :: "getenv \<Rightarrow> json \<Rightarrow> route_profile option" where
  "load_profile env entry =
     do { name \<leftarrow> jidx entry ''name'';
          te \<leftarrow> jget_or entry ''tokenEnv'' (JStr (default_token_env (py_str name)));
          token_env \<leftarrow> as_text te;
          pv \<leftarrow> jget_or entry ''paths'' (JList [JStr ''/'']);
          paths \<leftarrow> jiter pv;
          ns \<leftarrow> jget_d entry ''namespace'' (JStr []);
          svc \<leftarrow> jget_d entry ''service'' (JStr []);
          prt \<leftarrow> jget_d entry ''port'' (JInt 80);
          port \<leftarrow> py_int prt;
          ic \<leftarrow> jget_d entry ''ingressClass'' (JStr ''traefik'');
          Some \<lparr>rp_name = py_str name, rp_namespace = py_str ns, rp_service = py_str svc, rp_port = port,
                rp_paths = map py_str paths, rp_ingress_class = py_str ic,
                rp_token = str_strip (env_or env token_env [])\<rparr> }"

definition load_profiles ::
  "getenv \<Rightarrow> (string \<Rightarrow> string option) \<Rightarrow> (string \<Rightarrow> json option) \<Rightarrow> route_profile list option" where
  "load_profiles env file yaml =
     (let raw0 = str_strip (env_or env ''ROUTE_PROFILES'' []);
          path = str_strip (env_or env ''ROUTE_PROFILES_FILE'' []);
          raw = (if raw0 = [] \<and> path \<noteq> [] then (case file path of None \<Rightarrow> raw0 | Some t \<Rightarrow> t) else raw0)
      in if raw = [] then Some []
         else do { parsed0 \<leftarrow> yaml raw;
                   parsed \<leftarrow> (case parsed0 of JObj kvs \<Rightarrow> Some (dget kvs ''profiles'' (JList [])) | j \<Rightarrow> Some j);
                   (case parsed of JList xs \<Rightarrow> those (map (load_profile env) xs) | _ \<Rightarrow> None) })"

definition csv :: "getenv \<Rightarrow> string \<Rightarrow> string list" where
  "csv env name =
     (let raw = str_strip (env_or env name [])
      in if raw = [] then []
         else map (\<lambda>part. str_lower (str_strip part))
                (filter (\<lambda>part. str_strip part \<noteq> []) (split_on (\<lambda>c. c = CHR '','') raw)))"

definition env_int :: "getenv \<Rightarrow> string \<Rightarrow> int \<Rightarrow> int option" where
  "env_int env name d = (case env name of None \<Rightarrow> Some d | Some v \<Rightarrow> int_of_str v)"

definition env_float :: "getenv \<Rightarrow> string \<Rightarrow> flt \<Rightarrow> flt option" where
  "env_float env name d = (case env name of None \<Rightarrow> Some d | Some v \<Rightarrow> float_of_str v)"

definition load_settings ::
  "getenv \<Rightarrow> (string \<Rightarrow> string option) \<Rightarrow> (string \<Rightarrow> json option) \<Rightarrow> settings option" where
  "load_settings env file yaml =
     (let prov = str_lower (str_strip (env_or env ''PROVIDER'' ''stub''));
          token = str_strip (env_or env ''CLOUDFLARE_API_TOKEN'' []);
          zone = str_strip (env_or env ''CLOUDFLARE_ZONE_ID'' [])
      in if prov \<noteq> ''cloudflare'' \<and> prov \<noteq> ''stub'' then None
         else do { n \<leftarrow> env_int env ''MAX_CUSTOM_HOSTNAMES'' 100;
                   timeout \<leftarrow> env_float env ''REQUEST_TIMEOUT_SECONDS'' (Fin 15);
                   after \<leftarrow> env_float env ''STUB_ACTIVATE_AFTER_SECONDS'' (Fin 20);
                   profiles \<leftarrow> load_profiles env file yaml;
                   guard_opt (\<not> (prov = ''cloudflare'' \<and> (token = [] \<or> zone = [])))
                     (Some \<lparr>st_provider = prov, st_cf_token = token, st_cf_zone = zone,
                        st_cf_base = rstrip_chr CHR ''/'' (env_or env ''CLOUDFLARE_API_BASE''
                           ''https://api.cloudflare.com/client/v4''),
                        st_managed_zone = str_lower (str_strip (env_or env ''MANAGED_ZONE'' ''fuzefront.com'')),
                        st_reserved_zones = csv env ''RESERVED_ZONES'',
                        st_cname_target = str_strip (env_or env ''CNAME_TARGET'' ''connect.fuzefront.com''),
                        st_max_hostnames = n,
                        st_routing_enabled = env_bool env ''ROUTING_ENABLED'' True,
                        st_kube_api = rstrip_chr CHR ''/'' (env_or env ''KUBERNETES_API''
                           ''https://kubernetes.default.svc''),
                        st_timeout = timeout, st_activate_after = after,
                        st_stub_path = env_or env ''STUB_STATE_PATH'' ''/tmp/custom-hostnames-stub.json'',
                        st_profiles = profiles\<rparr>) })"

text \<open>The line of the log that describes the settings; it names no secret.\<close>

definition describe_profile :: "route_profile \<Rightarrow> json" where
  "describe_profile p =
     JObj [(''name'', JStr (rp_name p)), (''namespace'', JStr (rp_namespace p)),
           (''service'', JStr (rp_service p)), (''port'', JInt (rp_port p)),
           (''token_configured'', JBool (has_token p))]"

definition describe :: "settings \<Rightarrow> string" where
  "describe s =
     dumps (jsort (JObj [(''provider'', JStr (st_provider s)), (''managed_zone'', JStr (st_managed_zone s)),
       (''cname_target'', JStr (st_cname_target s)), (''routing_enabled'', JBool (st_routing_enabled s)),
       (''max_custom_hostnames'', JInt (st_max_hostnames s)),
       (''profiles'', JList (map describe_profile (st_profiles s)))]))"

section \<open>Authentication\<close>

text \<open>\<open>header.partition(" ")\<close>, then the scheme and a token that is not blank.\<close>

definition bearer :: "string \<Rightarrow> string option" where
  "bearer header =
     (let scheme = takeWhile (\<lambda>c. c \<noteq> CHR '' '') header;
          token = drop 1 (dropWhile (\<lambda>c. c \<noteq> CHR '' '') header)
      in if str_lower scheme \<noteq> ''bearer'' \<or> str_strip token = [] then None else Some (str_strip token))"

definition caller_profile :: "settings \<Rightarrow> string \<Rightarrow> fault + route_profile" where
  "caller_profile settings header =
     (case bearer header of
        None \<Rightarrow> Inl unauthorized
      | Some token \<Rightarrow>
          (case profile_for_token settings token of None \<Rightarrow> Inl unauthorized | Some p \<Rightarrow> Inr p))"

definition resolve_profile :: "string option \<Rightarrow> route_profile \<Rightarrow> fault + route_profile" where
  "resolve_profile requested granted =
     (if requested = None \<or> requested = Some (rp_name granted) then Inr granted
      else Inl (forbidden
             (''Token does not grant route profile '' @ quoted (the requested) @ ''.'')
             (Some (''This token is scoped to '' @ quoted (rp_name granted) @ ''.''))))"

end
