(* ===== verification/Sha256.thy ===== *)
theory Sha256
  imports Prelude "HOL-Library.Word"
begin

text \<open>
  \<open>hashlib.sha256(data).hexdigest()\<close> as FIPS 180-4 defines it: 32-bit words that wrap around, the
  padding of the message, the schedule of a block and the 64 rounds.
\<close>

unbundle bit_operations_syntax

type_synonym w32 = "32 word"

definition rotr :: "nat \<Rightarrow> w32 \<Rightarrow> w32" where
  "rotr n x = (drop_bit n x) OR (push_bit (32 - n) x)"

text \<open>The constants are the first 32 bits of the fractional parts of roots of small primes. The root is
  found bit by bit: the largest x with \<open>x ^ k \<le> n\<close> that \<open>b\<close> more bits can reach.\<close>

fun root_bits :: "nat \<Rightarrow> int \<Rightarrow> nat \<Rightarrow> int \<Rightarrow> int" where
  "root_bits k n 0 x = x"
| "root_bits k n (Suc b) x = root_bits k n b (if (x + 2 ^ b) ^ k \<le> n then x + 2 ^ b else x)"

definition root_fraction :: "nat \<Rightarrow> int \<Rightarrow> w32" where
  "root_fraction k p = of_int (root_bits k (p * 2 ^ (32 * k)) 40 0)"

definition is_prime :: "int \<Rightarrow> bool" where
  "is_prime p \<longleftrightarrow> list_all (\<lambda>d. p mod d \<noteq> 0) [2..p - 1]"

definition round_constants :: "w32 list" where
  "round_constants = map (root_fraction 3) (filter is_prime [2..311])"

definition initial_hash :: "w32 list" where
  "initial_hash = map (root_fraction 2) [2, 3, 5, 7, 11, 13, 17, 19]"

text \<open>The message, a 1 bit, zeros, and the length in bits in eight bytes: a multiple of 64 bytes.\<close>

definition be_bytes :: "nat \<Rightarrow> nat \<Rightarrow> nat list" where
  "be_bytes k n = map (\<lambda>i. n div 256 ^ (k - 1 - i) mod 256) [0..<k]"

definition padded :: "nat list \<Rightarrow> nat list" where
  "padded msg =
     (let n = length msg; z = (119 - n mod 64) mod 64
      in msg @ [128] @ replicate z 0 @ be_bytes 8 (8 * n))"

fun be_words :: "nat list \<Rightarrow> w32 list" where
  "be_words (a # b # c # d # bs) = of_nat (((a * 256 + b) * 256 + c) * 256 + d) # be_words bs"
| "be_words _ = []"

text \<open>The schedule, newest word first: each further word from those 2, 7, 15 and 16 back.\<close>

fun extend :: "nat \<Rightarrow> w32 list \<Rightarrow> w32 list" where
  "extend 0 ws = ws"
| "extend (Suc k) ws =
     (let a = ws ! 14; b = ws ! 1;
          s0 = rotr 7 a XOR rotr 18 a XOR drop_bit 3 a;
          s1 = rotr 17 b XOR rotr 19 b XOR drop_bit 10 b
      in extend k ((ws ! 15 + s0 + ws ! 6 + s1) # ws))"

definition schedule :: "w32 list \<Rightarrow> w32 list" where
  "schedule block = rev (extend 48 (rev block))"

primrec rounds :: "(w32 \<times> w32) list \<Rightarrow> w32 list \<Rightarrow> w32 list" where
  "rounds [] hs = hs"
| "rounds (kw # kws) hs =
     (case hs of
        [a, b, c, d, e, f, g, h] \<Rightarrow>
          (let s1 = rotr 6 e XOR rotr 11 e XOR rotr 25 e;
               ch = (e AND f) XOR (NOT e AND g);
               t1 = h + s1 + ch + fst kw + snd kw;
               s0 = rotr 2 a XOR rotr 13 a XOR rotr 22 a;
               maj = (a AND b) XOR (a AND c) XOR (b AND c)
           in rounds kws [t1 + (s0 + maj), a, b, c, d + t1, e, f, g])
      | _ \<Rightarrow> hs)"

definition compress :: "w32 list \<Rightarrow> w32 list \<Rightarrow> w32 list" where
  "compress hs block = map2 (+) hs (rounds (zip round_constants (schedule block)) hs)"

fun blocks :: "nat \<Rightarrow> w32 list \<Rightarrow> w32 list list" where
  "blocks 0 ws = []"
| "blocks (Suc n) ws = take 16 ws # blocks n (drop 16 ws)"

definition sha256_words :: "string \<Rightarrow> w32 list" where
  "sha256_words s =
     (let ws = be_words (padded (map of_char s))
      in foldl compress initial_hash (blocks (length ws div 16) ws))"

definition hex_digit :: "nat \<Rightarrow> char" where
  "hex_digit d = (if d < 10 then char_of (48 + d) else char_of (87 + d))"

definition hex8 :: "w32 \<Rightarrow> string" where
  "hex8 w = map (\<lambda>i. hex_digit (unat w div 16 ^ (7 - i) mod 16)) [0..<8]"

definition sha256_hex :: "string \<Rightarrow> string" where
  "sha256_hex s = concat (map hex8 (sha256_words s))"

section \<open>Shape of the digest\<close>

lemma length_rounds [simp]: "length (rounds kws hs) = length hs"
  by (induction kws arbitrary: hs) (auto simp: Let_def split: list.split)

lemma length_foldl_compress: "length (foldl compress hs bs) = length hs"
  by (induction bs arbitrary: hs) (simp_all add: compress_def)

lemma length_sha256_words: "length (sha256_words s) = 8"
  by (simp add: sha256_words_def Let_def length_foldl_compress initial_hash_def)

lemma length_sha256_hex: "length (sha256_hex s) = 64"
proof -
  have "length (concat (map hex8 ws)) = 8 * length ws" for ws
    by (induction ws) (simp_all add: hex8_def)
  then show ?thesis by (simp add: sha256_hex_def length_sha256_words)
qed

lemma hex_digit_char: "d < 16 \<Longrightarrow> is_digit (hex_digit d) \<or> is_lower (hex_digit d)"
  by (auto simp: hex_digit_def is_digit_def is_lower_def)

lemma sha256_hex_chars:
  assumes "c \<in> set (sha256_hex s)"
  shows "is_digit c \<or> is_lower c"
proof -
  obtain d where "c = hex_digit (d mod 16)" using assms by (auto simp: sha256_hex_def hex8_def)
  then show ?thesis using hex_digit_char [of "d mod 16"] by simp
qed

end
