(* ===== verification/Hostname_Routing.thy ===== *)
theory Hostname_Routing
  imports Hostname_Config Sha256
begin

text \<open>
  app/routing.py: the name and the content of the Ingress that routes a custom hostname, and the
  three calls to the Kubernetes API that create or replace, look up and delete it.
\<close>

section \<open>The name\<close>

text \<open>\<open>_UNSAFE.sub("-", s)\<close> replaces characters, so the bytes that continue a character are dropped.\<close>

definition safe_char :: "char \<Rightarrow> bool" where
  "safe_char c \<longleftrightarrow> is_lower c \<or> is_digit c \<or> c = CHR ''-''"

definition unsafe_sub :: "string \<Rightarrow> string" where
  "unsafe_sub s =
     map (\<lambda>c. if safe_char c then c else CHR ''-'') (filter (\<lambda>c. \<not> chr_in 128 c 191) s)"

definition ingress_slug :: "string \<Rightarrow> string" where
  "ingress_slug domain =
     (let slug = strip_chr CHR ''-'' (unsafe_sub (str_lower domain))
      in if 40 < length slug then strip_chr CHR ''-'' (take 40 slug) else slug)"

definition ingress_name :: "string \<Rightarrow> string" where
  "ingress_name domain =
     ''custom-domain-'' @ ingress_slug domain @ ''-'' @ take 8 (sha256_hex (str_lower domain))"

section \<open>The Ingress\<close>

definition MANAGED_BY :: string where
  "MANAGED_BY = ''fuzeinfra-custom-hostname-api''"

definition ROUTER_PRIORITY :: int where
  "ROUTER_PRIORITY = 1000"

definition ingress_path :: "route_profile \<Rightarrow> string \<Rightarrow> json" where
  "ingress_path profile path =
     JObj [(''path'', JStr path), (''pathType'', JStr ''Prefix''),
       (''backend'', JObj [(''service'', JObj [(''name'', JStr (rp_service profile)),
          (''port'', JObj [(''number'', JInt (rp_port profile))])])])]"

definition ingress_metadata :: "string \<Rightarrow> route_profile \<Rightarrow> jobj" where
  "ingress_metadata domain profile =
     [(''name'', JStr (ingress_name domain)),
      (''namespace'', JStr (rp_namespace profile)),
      (''labels'', JObj [(''app.kubernetes.io/managed-by'', JStr MANAGED_BY),
         (''fuzeinfra.io/custom-hostname-profile'', JStr (rp_name profile))]),
      (''annotations'', JObj [
         (''traefik.ingress.kubernetes.io/router.priority'', JStr (show_int ROUTER_PRIORITY)),
         (''fuzeinfra.io/custom-hostname'', JStr domain),
         (''fuzeinfra.io/managed-note'', JStr (''Created at runtime by the FuzeInfra custom hostname API. ''
            @ ''Intentionally carries no Argo CD tracking metadata so ''
            @ ''selfHeal/prune leave it alone. Do not adopt into a chart.''))])]"

definition build_ingress :: "string \<Rightarrow> route_profile \<Rightarrow> jobj \<Rightarrow> json" where
  "build_ingress domain profile metadata =
     JObj [(''apiVersion'', JStr ''networking.k8s.io/v1''),
       (''kind'', JStr ''Ingress''),
       (''metadata'', JObj metadata),
       (''spec'', JObj [(''ingressClassName'', JStr (rp_ingress_class profile)),
          (''rules'', JList [JObj [(''host'', JStr domain),
             (''http'', JObj [(''paths'', JList (map (ingress_path profile) (rp_paths profile)))])]])])]"

section \<open>The Kubernetes client\<close>

definition kube_path :: "string \<Rightarrow> string \<Rightarrow> string" where
  "kube_path namespace name =
     (let base = ''/apis/networking.k8s.io/v1/namespaces/'' @ namespace @ ''/ingresses''
      in if name \<noteq> [] then base @ ''/'' @ name else base)"

definition kube_request :: "string \<Rightarrow> string \<Rightarrow> json option \<Rightarrow> (int \<times> string) act" where
  "kube_request verb path body =
     andthen (ask (Kube verb path body)) (\<lambda>r.
       case r of
         Unreachable exc \<Rightarrow> fail_with (upstream_error ''Kubernetes API is unreachable.'' (Some exc))
       | Reply status text' \<Rightarrow> done_with (status, text'))"

text \<open>\<open>f"HTTP {response.status_code}: {response.text[:400]}"\<close>.\<close>

definition http_detail :: "int \<times> string \<Rightarrow> string" where
  "http_detail r = ''HTTP '' @ show_int (fst r) @ '': '' @ take_chars 400 (snd r)"

definition resource_version :: "string \<Rightarrow> json option" where
  "resource_version body =
     do { j \<leftarrow> loads body; meta \<leftarrow> jget_d j ''metadata'' (JObj []); jget meta ''resourceVersion'' }"

definition replace_ingress :: "string \<Rightarrow> route_profile \<Rightarrow> bool act" where
  "replace_ingress domain profile =
     (let path = kube_path (rp_namespace profile) (ingress_name domain)
      in andthen (kube_request ''GET'' path None) (\<lambda>current.
           if fst current \<noteq> 200
           then fail_with (upstream_error ''Routing Ingress exists but could not be read.''
                  (Some (http_detail current)))
           else andthen (or_crash (resource_version (snd current))) (\<lambda>version.
                andthen (kube_request ''PUT'' path (Some (build_ingress domain profile
                    (dict_set ''resourceVersion'' version (ingress_metadata domain profile))))) (\<lambda>replaced.
                  if fst replaced \<noteq> 200 \<and> fst replaced \<noteq> 201
                  then fail_with (upstream_error ''Could not update the routing Ingress.''
                         (Some (http_detail replaced)))
                  else done_with True))))"

definition ensure :: "settings \<Rightarrow> string \<Rightarrow> route_profile \<Rightarrow> bool act" where
  "ensure s domain profile =
     (if \<not> st_routing_enabled s then done_with False
      else andthen (kube_request ''POST'' (kube_path (rp_namespace profile) [])
               (Some (build_ingress domain profile (ingress_metadata domain profile)))) (\<lambda>response.
             if fst response = 200 \<or> fst response = 201 then done_with True
             else if fst response \<noteq> 409
             then fail_with (upstream_error ''Could not create the routing Ingress.''
                    (Some (http_detail response)))
             else replace_ingress domain profile))"

definition ingress_exists :: "settings \<Rightarrow> string \<Rightarrow> route_profile \<Rightarrow> bool act" where
  "ingress_exists s domain profile =
     (if \<not> st_routing_enabled s then done_with False
      else andthen (kube_request ''GET'' (kube_path (rp_namespace profile) (ingress_name domain)) None)
             (\<lambda>response. done_with (fst response = 200)))"

definition remove_ingress :: "settings \<Rightarrow> string \<Rightarrow> route_profile \<Rightarrow> unit act" where
  "remove_ingress s domain profile =
     (if \<not> st_routing_enabled s then done_with ()
      else andthen (kube_request ''DELETE'' (kube_path (rp_namespace profile) (ingress_name domain)) None)
             (\<lambda>response.
               if fst response \<noteq> 200 \<and> fst response \<noteq> 202 \<and> fst response \<noteq> 404
               then fail_with (upstream_error ''Could not delete the routing Ingress.''
                      (Some (http_detail response)))
               else done_with ()))"

text \<open>\<open>str(getattr(exc, "detail", exc))\<close>: the body of an ApiError, a dict. The text of any other exception is
  not modelled.\<close>

definition fault_text :: "fault \<Rightarrow> string" where
  "fault_text e =
     (case e of Crash \<Rightarrow> [] | Unfinished \<Rightarrow> []
      | ApiError status code message detail \<Rightarrow>
          py_str (JObj [(''error'', JStr code), (''message'', JStr message),
            (''detail'', case detail of None \<Rightarrow> JNull | Some d \<Rightarrow> JStr d)]))"

definition router_health :: "settings \<Rightarrow> (bool \<times> string option) act" where
  "router_health s =
     (if \<not> st_routing_enabled s then done_with (True, Some (''routing disabled '' @ em_dash @ '' Cloudflare-only mode''))
      else andthen (attempt (kube_request ''GET'' ''/apis/networking.k8s.io/v1'' None)) (\<lambda>r.
        case r of
          Inl e \<Rightarrow> done_with (False, Some (fault_text e))
        | Inr response \<Rightarrow>
            (if fst response \<noteq> 200
             then done_with (False, Some (''Kubernetes API returned HTTP '' @ show_int (fst response)))
             else done_with (True, None))))"

section \<open>The shape of the name\<close>

lemma strip_chr_sub: "set (strip_chr c s) \<subseteq> set s"
  unfolding strip_chr_def rstrip_chr_def by (metis set_dropWhileD set_rev subsetI)

lemma length_strip_chr: "length (strip_chr c s) \<le> length s"
  unfolding strip_chr_def rstrip_chr_def length_rev
  using length_dropWhile_le [of "\<lambda>x. x = c" "rev (dropWhile (\<lambda>x. x = c) s)"]
    length_dropWhile_le [of "\<lambda>x. x = c" s] by simp

lemma slug_chars: "c \<in> set (ingress_slug domain) \<Longrightarrow> safe_char c"
proof -
  assume c: "c \<in> set (ingress_slug domain)"
  have "set (ingress_slug domain) \<subseteq> set (unsafe_sub (str_lower domain))"
    using strip_chr_sub set_take_subset unfolding ingress_slug_def Let_def by (smt (verit) order_trans)
  with c show "safe_char c" by (auto simp: unsafe_sub_def safe_char_def split: if_splits)
qed

lemma length_slug: "length (ingress_slug domain) \<le> 40"
proof (cases "40 < length (strip_chr CHR ''-'' (unsafe_sub (str_lower domain)))")
  case True
  have "length (strip_chr CHR ''-'' (take 40 t)) \<le> 40" for t
    using length_strip_chr [of "CHR ''-''" "take 40 t"] by simp
  with True show ?thesis by (simp add: ingress_slug_def Let_def)
qed (simp add: ingress_slug_def Let_def)

lemma length_digest: "length (take 8 (sha256_hex s)) = 8"
  by (simp add: length_sha256_hex)

end
