(* ===== verification/Hostname_Stub.thy ===== *)
theory Hostname_Stub
  imports Hostname_Config
begin

text \<open>
  app/providers/stub.py: the provider for development. Its state is a dict of entries in a JSON
  file; the lifecycle of an entry is computed from its age when it is read.
\<close>

section \<open>The state file\<close>

text \<open>A file that is missing or not JSON reads as an empty dict; a file that holds something else than a
  dict makes the operations raise.\<close>

definition read_state :: "jobj act" where
  "read_state = (\<lambda>out w.
     case w_file w of
       None \<Rightarrow> (Inr [], w)
     | Some (JObj kvs) \<Rightarrow> (Inr kvs, w)
     | Some j \<Rightarrow> (Inl Crash, w))"

text \<open>\<open>json.dumps(..., sort_keys=True)\<close>: the next read sees the members in key order.\<close>

definition write_state :: "jobj \<Rightarrow> unit act" where
  "write_state st = (\<lambda>out w. (Inr (), w\<lparr>w_file := Some (jsort (JObj st))\<rparr>))"

section \<open>The lifecycle\<close>

text \<open>\<open>max(seconds, 0.001)\<close>; the comparison of an age with a fraction of it is on exact numbers.\<close>

definition window_of :: "settings \<Rightarrow> flt" where
  "window_of s = (if flt_less (st_activate_after s) (Fin (1 / 1000)) then Fin (1 / 1000) else st_activate_after s)"

definition reached :: "rat \<Rightarrow> flt \<Rightarrow> rat \<Rightarrow> bool" where
  "reached elapsed window part =
     (case window of Fin w \<Rightarrow> w * part \<le> elapsed | NInf \<Rightarrow> True | PInf \<Rightarrow> False | NaN \<Rightarrow> False)"

definition aged_status :: "rat \<Rightarrow> flt \<Rightarrow> tls_status" where
  "aged_status elapsed window =
     (if reached elapsed window 1 then TlsActive
      else if reached elapsed window (66 / 100) then TlsPendingDeployment
      else if reached elapsed window (33 / 100) then TlsPendingIssuance
      else TlsPendingValidation)"

text \<open>An entry, read: the text members, and the creation time, which must be an aware datetime.\<close>

record stub_entry =
  se_id :: json
  se_domain :: string
  se_ownership :: string
  se_dcv :: string
  se_created :: datetime
  se_offset :: int
  se_forced :: "tls_status option"

definition text_at :: "json \<Rightarrow> string \<Rightarrow> string option" where
  "text_at entry k = Option.bind (jidx entry k) as_text"

definition read_entry :: "json \<Rightarrow> stub_entry option" where
  "read_entry entry =
     do { created \<leftarrow> text_at entry ''created_at'';
          (dt, off) \<leftarrow> fromisoformat created;
          off \<leftarrow> off;
          fv \<leftarrow> jget entry ''forced_status'';
          forced \<leftarrow> (if truthy fv then map_option Some (Option.bind (as_text fv) tls_of) else Some None);
          domain \<leftarrow> text_at entry ''domain'';
          ownership \<leftarrow> text_at entry ''ownership_token'';
          dcv \<leftarrow> text_at entry ''dcv_token'';
          i0 \<leftarrow> jidx entry ''id''; idv \<leftarrow> text_or_null i0;
          Some \<lparr>se_id = idv, se_domain = domain, se_ownership = ownership, se_dcv = dcv, se_created = dt,
                se_offset = off, se_forced = forced\<rparr> }"

definition stub_records :: "settings \<Rightarrow> stub_entry \<Rightarrow> verification_record list" where
  "stub_records s e =
     [\<lparr>vr_method = Txt, vr_record = ''_cf-custom-hostname.'' @ se_domain e, vr_value = se_ownership e,
       vr_purpose = Ownership\<rparr>,
      \<lparr>vr_method = Txt, vr_record = ''_acme-challenge.'' @ se_domain e, vr_value = se_dcv e,
       vr_purpose = CertificateProof\<rparr>,
      \<lparr>vr_method = Cname, vr_record = se_domain e, vr_value = st_cname_target s,
       vr_purpose = RoutingRecord\<rparr>]"

definition verification_of :: "verification_record list \<Rightarrow> verification" where
  "verification_of rs =
     \<lparr>v_method = vr_method (hd rs), v_record = vr_record (hd rs), v_value = vr_value (hd rs), v_records = rs\<rparr>"

text \<open>90 days later; None is the OverflowError at the end of the calendar.\<close>

definition add_days :: "int \<Rightarrow> datetime \<Rightarrow> datetime option" where
  "add_days n d = from_us (to_us d + n * 86400000000)"

definition stub_certificate :: "stub_entry \<Rightarrow> certificate option" where
  "stub_certificate e =
     map_option (\<lambda>after.
       \<lparr>c_issuer = JStr ''CN=FuzeInfra Local Stub CA,O=FuzeInfra'',
        c_not_before = Some (se_created e, Some (se_offset e)),
        c_not_after = Some (after, Some (se_offset e)),
        c_serial = JStr (take 16 (filter (\<lambda>c. c \<noteq> CHR ''-'') (se_ownership e)))\<rparr>)
       (add_days 90 (se_created e))"

definition stub_tls :: "settings \<Rightarrow> stub_entry \<Rightarrow> datetime \<Rightarrow> tls_status" where
  "stub_tls s e now =
     (case se_forced e of
        Some t \<Rightarrow> t
      | None \<Rightarrow>
          aged_status (of_int (to_us now - (to_us (se_created e) - se_offset e)) / 1000000) (window_of s))"

definition stub_record :: "settings \<Rightarrow> stub_entry \<Rightarrow> datetime \<Rightarrow> datetime \<Rightarrow> provider_record option" where
  "stub_record s e now later =
     (let tls = stub_tls s e now;
          dns = (if tls = TlsActive then DnsActive else DnsPending)
      in do { cert \<leftarrow> (if tls = TlsActive then map_option Some (stub_certificate e) else Some None);
              Some \<lparr>pr_domain = se_domain e, pr_dns = dns, pr_tls = tls,
                pr_verification = verification_of (stub_records s e),
                pr_provider = \<lparr>pi_name = Stub, pi_id = se_id e,
                   pi_status = (if dns = DnsActive then ''active'' else ''pending''),
                   pi_ssl_status = tls_value tls\<rparr>,
                pr_certificate = cert, pr_error = None,
                pr_created = Some (se_created e, Some (se_offset e)),
                pr_updated = Some (later, Some 0)\<rparr> })"

definition to_record :: "settings \<Rightarrow> json \<Rightarrow> provider_record act" where
  "to_record s entry =
     andthen utc_now (\<lambda>now. andthen utc_now (\<lambda>later.
       or_crash (Option.bind (read_entry entry) (\<lambda>e. stub_record s e now later))))"

section \<open>The operations\<close>

definition new_entry :: "string \<Rightarrow> string \<Rightarrow> string \<Rightarrow> string \<Rightarrow> datetime \<Rightarrow> json" where
  "new_entry domain i token dcv now =
     JObj [(''id'', JStr i), (''domain'', JStr domain), (''ownership_token'', JStr token),
           (''dcv_token'', JStr (filter (\<lambda>c. c \<noteq> CHR ''-'') dcv)), (''created_at'', JStr (isoformat now))]"

definition stub_create :: "settings \<Rightarrow> string \<Rightarrow> (provider_record \<times> bool) act" where
  "stub_create s domain =
     andthen read_state (\<lambda>st.
       case map_of st domain of
         Some entry \<Rightarrow> andthen (to_record s entry) (\<lambda>r. done_with (r, False))
       | None \<Rightarrow>
           andthen uuid4 (\<lambda>i. andthen uuid4 (\<lambda>token. andthen uuid4 (\<lambda>dcv. andthen utc_now (\<lambda>now.
             (let entry = new_entry domain i token dcv now
              in andthen (write_state (dict_set domain entry st)) (\<lambda>_.
                 andthen (to_record s entry) (\<lambda>r. done_with (r, True)))))))))"

definition stub_get :: "settings \<Rightarrow> string \<Rightarrow> provider_record option act" where
  "stub_get s domain =
     andthen read_state (\<lambda>st.
       case map_of st domain of
         None \<Rightarrow> done_with None
       | Some entry \<Rightarrow>
           (if truthy entry then andthen (to_record s entry) (\<lambda>r. done_with (Some r)) else done_with None))"

definition stub_delete :: "string \<Rightarrow> unit act" where
  "stub_delete domain =
     andthen read_state (\<lambda>st.
       if dget st domain JNull \<noteq> JNull then write_state (AList.delete domain st) else done_with ())"

fun records_of :: "settings \<Rightarrow> json list \<Rightarrow> provider_record list act" where
  "records_of s [] = done_with []"
| "records_of s (e # es) =
     andthen (to_record s e) (\<lambda>r. andthen (records_of s es) (\<lambda>rs. done_with (r # rs)))"

definition stub_list :: "settings \<Rightarrow> provider_record list act" where
  "stub_list s = andthen read_state (\<lambda>st. records_of s (map snd st))"

definition stub_health :: "(bool \<times> string option) act" where
  "stub_health = done_with (True, Some (''stub provider '' @ em_dash @ '' no upstream certificate authority''))"

definition stub_provider :: "settings \<Rightarrow> provider" where
  "stub_provider s =
     \<lparr>pv_create = stub_create s, pv_get = stub_get s, pv_delete = stub_delete, pv_list = stub_list s,
      pv_health = stub_health\<rparr>"

end
