(* ===== verification/Hostname_Cloudflare.thy ===== *)
theory Hostname_Cloudflare
  imports Hostname_Routing Hostname_Stub
begin

text \<open>
  app/providers/cloudflare.py: the provider that registers custom hostnames with Cloudflare for
  SaaS. The paging loop of \<open>list\<close> takes fuel; \<open>Unfinished\<close> is the value of a loop that has not ended
  within it.
\<close>

section \<open>Status\<close>

definition dns_table :: "(string \<times> dns_status) list" where
  "dns_table =
     [(''pending'', DnsPending), (''pending_migration'', DnsPending), (''pending_provisioned'', DnsPending),
      (''pending_deletion'', DnsPending), (''provisioned'', DnsActive), (''active'', DnsActive),
      (''active_redeploying'', DnsActive), (''moved'', DnsMoved), (''blocked'', DnsBlocked),
      (''pending_blocked'', DnsBlocked), (''deleted'', DnsError), (''test_failed'', DnsError)]"

definition tls_table :: "(string \<times> tls_status) list" where
  "tls_table =
     [(''initializing'', TlsPendingValidation), (''pending_validation'', TlsPendingValidation),
      (''pending_issuance'', TlsPendingIssuance), (''pending_deployment'', TlsPendingDeployment),
      (''holding_deployment'', TlsPendingDeployment), (''active'', TlsActive), (''backup_issued'', TlsActive),
      (''pending_expiration'', TlsExpired), (''expired'', TlsExpired), (''pending_deletion'', TlsFailed),
      (''deactivating'', TlsFailed), (''inactive'', TlsFailed), (''deleted'', TlsFailed)]"

definition dns_status_of :: "string \<Rightarrow> dns_status" where
  "dns_status_of raw = (case map_of dns_table raw of None \<Rightarrow> DnsPending | Some d \<Rightarrow> d)"

definition tls_status_of :: "string \<Rightarrow> tls_status" where
  "tls_status_of raw = (case map_of tls_table raw of None \<Rightarrow> TlsPendingValidation | Some t \<Rightarrow> t)"

definition stamp_of :: "json \<Rightarrow> stamp option" where
  "stamp_of raw =
     (case raw of
        JStr s \<Rightarrow> (if s = [] then None else parse_stamp s)
      | _ \<Rightarrow> None)"

section \<open>Requests\<close>

definition zone_path :: "settings \<Rightarrow> string" where
  "zone_path s = ''/zones/'' @ st_cf_zone s @ ''/custom_hostnames''"

definition cf_error_text :: "json \<Rightarrow> string option" where
  "cf_error_text e =
     do { code \<leftarrow> jget_d e ''code'' (JStr ''?''); m \<leftarrow> jget_d e ''message'' (JStr []);
          Some (py_str code @ '': '' @ py_str m) }"

text \<open>The outer None is an exception other than an ApiError.\<close>

definition cf_payload :: "int \<Rightarrow> json \<Rightarrow> (fault + json) option" where
  "cf_payload status payload =
     do { ok \<leftarrow> jget_d payload ''success'' (JBool False);
          (if truthy ok then Some (Inr payload)
           else do { ev \<leftarrow> jget_or payload ''errors'' (JList []);
                     errors \<leftarrow> jiter ev;
                     texts \<leftarrow> those (map cf_error_text errors);
                     codes \<leftarrow> those (map (\<lambda>e. jget e ''code'') errors);
                     (let joined = str_join ''; '' texts;
                          detail = (if joined = [] then ''HTTP '' @ show_int status else joined)
                      in Some (Inl (if List.member codes (JInt 1414) \<or> List.member codes (JFloat (Fin 1414))
                               then quota_exceeded ''Cloudflare custom hostname quota reached.'' (Some detail)
                               else upstream_error ''Cloudflare rejected the request.'' (Some detail)))) }) }"

definition cf_request ::
  "string \<Rightarrow> string \<Rightarrow> (string \<times> string) list \<Rightarrow> json option \<Rightarrow> json act" where
  "cf_request verb path params body =
     andthen (ask (Cloud verb path params body)) (\<lambda>r.
       case r of
         Unreachable exc \<Rightarrow> fail_with (upstream_error ''Cloudflare API is unreachable.'' (Some exc))
       | Reply status text' \<Rightarrow>
           (if status = 404
            then done_with (JObj [(''success'', JBool False),
                   (''errors'', JList [JObj [(''code'', JInt 404), (''message'', JStr ''not found'')]])])
            else (case loads text' of
                    None \<Rightarrow> fail_with (upstream_error ''Cloudflare returned a non-JSON response.''
                              (Some (''HTTP '' @ show_int status)))
                  | Some payload \<Rightarrow>
                      andthen (or_crash (cf_payload status payload)) (\<lambda>p.
                        case p of Inl e \<Rightarrow> fail_with e | Inr j \<Rightarrow> done_with j))))"

section \<open>Mapping\<close>

definition error_message :: "json \<Rightarrow> string list option" where
  "error_message item =
     (case item of
        JObj kvs \<Rightarrow> (let m = dget kvs ''message'' JNull in Some (if truthy m then [py_str m] else []))
      | j \<Rightarrow> Some (if py_str j = [] then [] else [py_str j]))"

definition errors_at :: "json \<Rightarrow> string \<Rightarrow> string list option" where
  "errors_at j k =
     do { v \<leftarrow> jget_or j k (JList []); items \<leftarrow> jiter v; ms \<leftarrow> those (map error_message items); Some (concat ms) }"

definition ownership_records :: "json \<Rightarrow> verification_record list option" where
  "ownership_records result =
     do { o' \<leftarrow> jget_or result ''ownership_verification'' (JObj []);
          n \<leftarrow> jget o' ''name''; v \<leftarrow> jget o' ''value'';
          Some (if truthy n \<and> truthy v
                then [\<lparr>vr_method = Txt, vr_record = py_str n, vr_value = py_str v, vr_purpose = Ownership\<rparr>]
                else []) }"

definition dcv_record :: "json \<Rightarrow> verification_record list option" where
  "dcv_record entry =
     do { n \<leftarrow> jget entry ''txt_name''; v \<leftarrow> jget entry ''txt_value'';
          Some (if truthy n \<and> truthy v
                then [\<lparr>vr_method = Txt, vr_record = py_str n, vr_value = py_str v,
                       vr_purpose = CertificateProof\<rparr>]
                else []) }"

definition dcv_records :: "json \<Rightarrow> verification_record list option" where
  "dcv_records ssl =
     do { v \<leftarrow> jget_or ssl ''validation_records'' (JList []);
          es \<leftarrow> jiter v; rs \<leftarrow> those (map dcv_record es); Some (concat rs) }"

definition routing_record :: "settings \<Rightarrow> json \<Rightarrow> verification_record option" where
  "routing_record s result =
     do { h \<leftarrow> jget_or result ''hostname'' (JStr []); name \<leftarrow> as_text h;
          Some \<lparr>vr_method = Cname, vr_record = name, vr_value = st_cname_target s,
                vr_purpose = RoutingRecord\<rparr> }"

definition certificate_of :: "json \<Rightarrow> certificate option option" where
  "certificate_of ssl =
     do { v \<leftarrow> jget_or ssl ''certificates'' (JList []);
          (case v of
             JList [] \<Rightarrow> Some None
           | JList (cert # _) \<Rightarrow>
               do { i0 \<leftarrow> jget cert ''issuer''; i \<leftarrow> text_or_null i0;
                    nb \<leftarrow> jget cert ''not_before''; na \<leftarrow> jget cert ''not_after'';
                    n0 \<leftarrow> jget cert ''serial_number''; n \<leftarrow> text_or_null n0;
                    Some (Some \<lparr>c_issuer = i, c_not_before = stamp_of nb, c_not_after = stamp_of na, c_serial = n\<rparr>) }
           | _ \<Rightarrow> None) }"

text \<open>Validation errors are terminal unless the certificate is active or expired.\<close>

definition cf_tls :: "string \<Rightarrow> string list \<Rightarrow> tls_status" where
  "cf_tls raw errors =
     (let t = tls_status_of raw
      in if errors \<noteq> [] \<and> t \<noteq> TlsActive \<and> t \<noteq> TlsExpired then TlsFailed else t)"

definition cf_record :: "settings \<Rightarrow> json \<Rightarrow> stamp \<Rightarrow> provider_record option" where
  "cf_record s result created =
     do { ssl \<leftarrow> jget_or result ''ssl'' (JObj []);
          st \<leftarrow> jget_or result ''status'' (JStr ''pending'');
          sst \<leftarrow> jget_or ssl ''status'' (JStr ''initializing'');
          e1 \<leftarrow> errors_at ssl ''validation_errors'';
          e2 \<leftarrow> errors_at result ''verification_errors'';
          own \<leftarrow> ownership_records result;
          dcv \<leftarrow> dcv_records ssl;
          rt \<leftarrow> routing_record s result;
          cert \<leftarrow> certificate_of ssl;
          host \<leftarrow> jget_or result ''hostname'' (JStr []);
          i0 \<leftarrow> jget result ''id''; i \<leftarrow> text_or_null i0;
          cr \<leftarrow> jget result ''created_at''; up \<leftarrow> jget ssl ''uploaded_on'';
          Some \<lparr>pr_domain = py_str host, pr_dns = dns_status_of (py_str st),
                pr_tls = cf_tls (py_str sst) (e1 @ e2),
                pr_verification = verification_of (own @ dcv @ [rt]),
                pr_provider = \<lparr>pi_name = CloudflareForSaas, pi_id = i, pi_status = py_str st,
                   pi_ssl_status = py_str sst\<rparr>,
                pr_certificate = cert,
                pr_error = (let j = str_join ''; '' (e1 @ e2) in if j = [] then None else Some j),
                pr_created = Some created,
                pr_updated = (case stamp_of up of Some d \<Rightarrow> Some d | None \<Rightarrow> stamp_of cr)\<rparr> }"

text \<open>The clock is read only when Cloudflare names no creation time.\<close>

definition cf_to_record :: "settings \<Rightarrow> json \<Rightarrow> provider_record act" where
  "cf_to_record s result =
     andthen (case Option.bind (jget result ''created_at'') stamp_of of
                Some d \<Rightarrow> done_with d
              | None \<Rightarrow> andthen utc_now (\<lambda>now. done_with (now, Some 0)))
       (\<lambda>created. or_crash (cf_record s result created))"

section \<open>The operations\<close>

text \<open>The first result whose hostname is the domain, whatever its case.\<close>

fun match_host :: "string \<Rightarrow> json list \<Rightarrow> json option option" where
  "match_host domain [] = Some None"
| "match_host domain (r # rs) =
     do { h \<leftarrow> jget_d r ''hostname'' (JStr []);
          (if str_lower (py_str h) = domain then Some (Some r) else match_host domain rs) }"

definition result_list :: "json \<Rightarrow> json list option" where
  "result_list payload = do { v \<leftarrow> jget_or payload ''result'' (JList []); jiter v }"

definition cf_find :: "settings \<Rightarrow> string \<Rightarrow> json option act" where
  "cf_find s domain =
     andthen (cf_request ''GET'' (zone_path s) [(''hostname'', domain)] None) (\<lambda>payload.
       or_crash (do { rs \<leftarrow> result_list payload; match_host domain rs }))"

definition create_body :: "string \<Rightarrow> json" where
  "create_body domain =
     JObj [(''hostname'', JStr domain),
       (''ssl'', JObj [(''method'', JStr ''txt''), (''type'', JStr ''dv''), (''wildcard'', JBool False),
          (''bundle_method'', JStr ''ubiquitous''),
          (''settings'', JObj [(''min_tls_version'', JStr ''1.2'')])])]"

fun cf_records :: "settings \<Rightarrow> json list \<Rightarrow> provider_record list act" where
  "cf_records s [] = done_with []"
| "cf_records s (r # rs) =
     andthen (cf_to_record s r) (\<lambda>x. andthen (cf_records s rs) (\<lambda>xs. done_with (x # xs)))"

text \<open>\<open>int(info.get("total_pages") or 1)\<close>.\<close>

definition total_pages :: "json \<Rightarrow> int option" where
  "total_pages payload =
     do { info \<leftarrow> jget_or payload ''result_info'' (JObj []); n \<leftarrow> jget_or info ''total_pages'' (JInt 1); py_int n }"

fun cf_pages :: "settings \<Rightarrow> nat \<Rightarrow> int \<Rightarrow> provider_record list \<Rightarrow> provider_record list act" where
  "cf_pages s 0 page records = fail_with Unfinished"
| "cf_pages s (Suc fuel) page records =
     andthen (cf_request ''GET'' (zone_path s) [(''page'', show_int page), (''per_page'', ''50'')] None) (\<lambda>payload.
     andthen (or_crash (result_list payload)) (\<lambda>results.
     andthen (cf_records s results) (\<lambda>more'.
     andthen (or_crash (total_pages payload)) (\<lambda>n.
       if n \<le> page \<or> results = [] then done_with (records @ more')
       else cf_pages s fuel (page + 1) (records @ more')))))"

definition cf_list :: "settings \<Rightarrow> nat \<Rightarrow> provider_record list act" where
  "cf_list s fuel = cf_pages s fuel 1 []"

definition cap_reached :: "settings \<Rightarrow> nat \<Rightarrow> fault" where
  "cap_reached s n =
     quota_exceeded ''Custom hostname cap reached for this platform.''
       (Some (show_int (int n) @ ''/'' @ show_int (st_max_hostnames s) @ '' in use; ''
          @ ''raise customHostnameApi.maxCustomHostnames after confirming ''
          @ ''the Cloudflare billing impact.''))"

definition cf_check_cap :: "settings \<Rightarrow> nat \<Rightarrow> unit act" where
  "cf_check_cap s fuel =
     (if st_max_hostnames s = 0 then done_with ()
      else andthen (cf_list s fuel) (\<lambda>current.
        if st_max_hostnames s \<le> int (length current) then fail_with (cap_reached s (length current))
        else done_with ()))"

definition cf_create :: "settings \<Rightarrow> nat \<Rightarrow> string \<Rightarrow> (provider_record \<times> bool) act" where
  "cf_create s fuel domain =
     andthen (cf_find s domain) (\<lambda>existing.
       case existing of
         Some r \<Rightarrow> andthen (cf_to_record s r) (\<lambda>x. done_with (x, False))
       | None \<Rightarrow>
           andthen (cf_check_cap s fuel) (\<lambda>_.
           andthen (cf_request ''POST'' (zone_path s) [] (Some (create_body domain))) (\<lambda>payload.
           andthen (or_crash (jget_or payload ''result'' (JObj []))) (\<lambda>r.
           andthen (cf_to_record s r) (\<lambda>x. done_with (x, True))))))"

definition cf_get :: "settings \<Rightarrow> string \<Rightarrow> provider_record option act" where
  "cf_get s domain =
     andthen (cf_find s domain) (\<lambda>result.
       case result of
         None \<Rightarrow> done_with None
       | Some r \<Rightarrow> (if truthy r then andthen (cf_to_record s r) (\<lambda>x. done_with (Some x)) else done_with None))"

definition cf_delete :: "settings \<Rightarrow> string \<Rightarrow> unit act" where
  "cf_delete s domain =
     andthen (cf_find s domain) (\<lambda>result.
       case result of
         None \<Rightarrow> done_with ()
       | Some r \<Rightarrow>
           andthen (or_crash (jidx r ''id'')) (\<lambda>i.
           andthen (cf_request ''DELETE'' (zone_path s @ ''/'' @ py_str i) [] None) (\<lambda>_. done_with ())))"

definition cf_health :: "settings \<Rightarrow> (bool \<times> string option) act" where
  "cf_health s =
     andthen (attempt (cf_request ''GET'' (zone_path s) [(''per_page'', ''1'')] None)) (\<lambda>r.
       case r of Inl e \<Rightarrow> done_with (False, Some (fault_text e)) | Inr _ \<Rightarrow> done_with (True, None))"

definition cloudflare_provider :: "settings \<Rightarrow> nat \<Rightarrow> provider" where
  "cloudflare_provider s fuel =
     \<lparr>pv_create = cf_create s fuel, pv_get = cf_get s, pv_delete = cf_delete s, pv_list = cf_list s fuel,
      pv_health = cf_health s\<rparr>"

end
