(* ===== verification/Hostname_Service.thy ===== *)
theory Hostname_Service
  imports Hostname_Cloudflare
begin

text \<open>
  app/service.py and app/main.py: the service that joins a provider and the routing into one
  resource, and the handlers of the API over it.
\<close>

section \<open>The service\<close>

definition in_zone :: "string \<Rightarrow> string \<Rightarrow> bool" where
  "in_zone domain zone \<longleftrightarrow> zone \<noteq> [] \<and> (domain = zone \<or> suffix (''.'' @ zone) domain)"

definition managed_zones :: "settings \<Rightarrow> string list" where
  "managed_zones s = st_managed_zone s # st_reserved_zones s"

definition validate_domain :: "settings \<Rightarrow> string \<Rightarrow> unit act" where
  "validate_domain s domain =
     (case List.find (in_zone domain) (managed_zones s) of
        None \<Rightarrow> done_with ()
      | Some zone \<Rightarrow>
          fail_with (validation_error (domain @ '' is inside the platform-managed zone '' @ zone @ ''.'')
            (Some (''Hosts in this zone are already served by the static wildcard ''
               @ ''DNS + certificate; no custom hostname is required.''))))"

definition is_active :: "settings \<Rightarrow> provider_record \<Rightarrow> bool \<Rightarrow> bool" where
  "is_active s record ingress_ready \<longleftrightarrow>
     pr_dns record = DnsActive \<and> pr_tls record = TlsActive \<and> (ingress_ready \<or> \<not> st_routing_enabled s)"

definition compose :: "settings \<Rightarrow> provider_record \<Rightarrow> route_profile \<Rightarrow> bool \<Rightarrow> custom_hostname act" where
  "compose s record profile ingress_ready =
     andthen (case pr_created record of Some d \<Rightarrow> done_with d | None \<Rightarrow> andthen utc_now (\<lambda>d. done_with (d, Some 0)))
       (\<lambda>created.
        done_with \<lparr>ch_domain = pr_domain record, ch_profile = rp_name profile,
          ch_active = is_active s record ingress_ready, ch_dns = pr_dns record, ch_tls = pr_tls record,
          ch_verification = pr_verification record,
          ch_routing = \<lparr>rt_cname_target = st_cname_target s, rt_ingress_ready = ingress_ready,
             rt_ingress_name = (if st_routing_enabled s then Some (ingress_name (pr_domain record)) else None)\<rparr>,
          ch_certificate = pr_certificate record, ch_error = pr_error record,
          ch_provider = pr_provider record, ch_created = created, ch_updated = pr_updated record\<rparr>)"

text \<open>The first profile, in the order of the settings, in whose namespace the Ingress exists.\<close>

fun first_owner :: "settings \<Rightarrow> string \<Rightarrow> route_profile list \<Rightarrow> string option act" where
  "first_owner s domain [] = done_with None"
| "first_owner s domain (c # cs) =
     andthen (ingress_exists s domain c) (\<lambda>found.
       if found then done_with (Some (rp_name c)) else first_owner s domain cs)"

definition owner_of :: "settings \<Rightarrow> string \<Rightarrow> string option act" where
  "owner_of s domain =
     (if \<not> st_routing_enabled s then done_with None else first_owner s domain (st_profiles s))"

definition foreign :: "string option \<Rightarrow> route_profile \<Rightarrow> bool" where
  "foreign owner profile \<longleftrightarrow> owner \<noteq> None \<and> owner \<noteq> Some (rp_name profile)"

definition create_hostname ::
  "settings \<Rightarrow> provider \<Rightarrow> string \<Rightarrow> route_profile \<Rightarrow> (custom_hostname \<times> bool) act" where
  "create_hostname s p domain profile =
     andthen (validate_domain s domain) (\<lambda>_.
     andthen (owner_of s domain) (\<lambda>owner.
       if foreign owner profile
       then fail_with (forbidden (domain @ '' is already attached to a different route profile.'')
              (Some ''Deprovision it from its current owner first.''))
       else andthen (pv_create p domain) (\<lambda>(record, created).
            andthen (ensure s domain profile) (\<lambda>ingress_ready.
            andthen (compose s record profile ingress_ready) (\<lambda>h. done_with (h, created))))))"

definition get_hostname :: "settings \<Rightarrow> provider \<Rightarrow> string \<Rightarrow> route_profile \<Rightarrow> custom_hostname act" where
  "get_hostname s p domain profile =
     andthen (owner_of s domain) (\<lambda>owner.
       if foreign owner profile
       then fail_with (forbidden (domain @ '' belongs to a different route profile.'') None)
       else andthen (pv_get p domain) (\<lambda>found.
         case found of
           None \<Rightarrow> fail_with (not_found (domain @ '' is not provisioned.''))
         | Some record \<Rightarrow>
             andthen (ingress_exists s domain profile) (\<lambda>ingress_ready.
             compose s record profile ingress_ready)))"

definition delete_hostname :: "settings \<Rightarrow> provider \<Rightarrow> string \<Rightarrow> route_profile \<Rightarrow> unit act" where
  "delete_hostname s p domain profile =
     andthen (owner_of s domain) (\<lambda>owner.
       if foreign owner profile
       then fail_with (forbidden (domain @ '' belongs to a different route profile.'') None)
       else andthen (remove_ingress s domain profile) (\<lambda>_. pv_delete p domain))"

fun owned_of ::
  "settings \<Rightarrow> route_profile \<Rightarrow> int \<Rightarrow> provider_record list \<Rightarrow> custom_hostname list \<Rightarrow> custom_hostname list act" where
  "owned_of s profile limit [] owned = done_with owned"
| "owned_of s profile limit (r # rs) owned =
     andthen (owner_of s (pr_domain r)) (\<lambda>owner.
       if foreign owner profile then owned_of s profile limit rs owned
       else andthen (ingress_exists s (pr_domain r) profile) (\<lambda>ingress_ready.
            andthen (compose s r profile ingress_ready) (\<lambda>h.
              if limit \<le> int (length (owned @ [h])) then done_with (owned @ [h])
              else owned_of s profile limit rs (owned @ [h]))))"

definition list_hostnames :: "settings \<Rightarrow> provider \<Rightarrow> route_profile \<Rightarrow> int \<Rightarrow> custom_hostname list act" where
  "list_hostnames s p profile limit =
     andthen (pv_list p) (\<lambda>records. owned_of s profile limit records [])"

section \<open>The handlers\<close>

definition build_provider :: "settings \<Rightarrow> nat \<Rightarrow> provider" where
  "build_provider s fuel = (if st_provider s = ''cloudflare'' then cloudflare_provider s fuel else stub_provider s)"

definition or_fail :: "fault + 'a \<Rightarrow> 'a act" where
  "or_fail r = (case r of Inl e \<Rightarrow> fail_with e | Inr x \<Rightarrow> done_with x)"

text \<open>The body of a request is checked, like the token, before the handler runs: a request that fails
  both is answered with the fault of the token.\<close>

definition invalid_request :: fault where
  "invalid_request = ApiError 422 ''validation_error'' ''request validation'' None"

text \<open>The status of the answer and the resource.\<close>

definition post_hostname ::
  "settings \<Rightarrow> nat \<Rightarrow> string \<Rightarrow> json \<Rightarrow> (int \<times> custom_hostname) act" where
  "post_hostname s fuel header body =
     andthen (or_fail (caller_profile s header)) (\<lambda>granted.
       case create_request body of
         None \<Rightarrow> fail_with invalid_request
       | Some (domain, requested) \<Rightarrow>
           andthen (or_fail (resolve_profile requested granted)) (\<lambda>profile.
           andthen (create_hostname s (build_provider s fuel) domain profile) (\<lambda>(h, created).
             done_with (if created then 201 else 200, h))))"

definition list_request ::
  "settings \<Rightarrow> nat \<Rightarrow> string \<Rightarrow> int option \<Rightarrow> custom_hostname list act" where
  "list_request s fuel header limit =
     andthen (or_fail (caller_profile s header)) (\<lambda>granted.
       let n = (case limit of None \<Rightarrow> 50 | Some n \<Rightarrow> n)
       in if n < 1 \<or> 200 < n then fail_with invalid_request
          else list_hostnames s (build_provider s fuel) granted n)"

definition get_request :: "settings \<Rightarrow> nat \<Rightarrow> string \<Rightarrow> string \<Rightarrow> custom_hostname act" where
  "get_request s fuel header domain =
     andthen (or_fail (caller_profile s header)) (\<lambda>granted.
       get_hostname s (build_provider s fuel) (canonical domain) granted)"

definition delete_request :: "settings \<Rightarrow> nat \<Rightarrow> string \<Rightarrow> string \<Rightarrow> unit act" where
  "delete_request s fuel header domain =
     andthen (or_fail (caller_profile s header)) (\<lambda>granted.
       delete_hostname s (build_provider s fuel) (canonical domain) granted)"

text \<open>The readiness: status, and the problems of a degraded service.\<close>

definition problems_of :: "(bool \<times> string option) list \<Rightarrow> string list" where
  "problems_of rs =
     map (\<lambda>r. case snd r of None \<Rightarrow> ''unavailable'' | Some d \<Rightarrow> (if d = [] then ''unavailable'' else d))
       (filter (\<lambda>r. \<not> fst r) rs)"

definition readyz :: "settings \<Rightarrow> nat \<Rightarrow> (int \<times> string option) act" where
  "readyz s fuel =
     andthen (pv_health (build_provider s fuel)) (\<lambda>a. andthen (router_health s) (\<lambda>b.
       let problems = problems_of [a, b]
             @ (if list_ex has_token (st_profiles s) then [] else [''no route profile has a usable consumer token''])
       in done_with (if problems \<noteq> [] then (503, Some (str_join ''; '' problems)) else (200, None))))"

end
