(* ===== verification/Hostname_Laws.thy ===== *)
theory Hostname_Laws
  imports Hostname_Service "HOL-Library.Multiset"
begin

text \<open>
  The contract of a provider (app/providers/base.py) as a locale: what \<open>create\<close>, \<open>get\<close> and
  \<open>delete\<close> do to the set of registered domains, and that calls to the Kubernetes API do not touch
  it. The service's lemmas are proved once over any such provider; the interpretation discharges the
  contract for the stub.
\<close>

section \<open>The contract\<close>

locale hostname_provider =
  fixes prov :: provider and out :: outside
    and sound :: "world \<Rightarrow> bool" and registered :: "world \<Rightarrow> string set"
  assumes kube_frame: "sound w \<Longrightarrow> sound (w\<lparr>w_calls := w_calls w @ [Kube verb path body]\<rparr>)
      \<and> registered (w\<lparr>w_calls := w_calls w @ [Kube verb path body]\<rparr>) = registered w"
    and clock_frame: "sound w \<Longrightarrow> sound (w\<lparr>w_asked := n\<rparr>) \<and> registered (w\<lparr>w_asked := n\<rparr>) = registered w"
    and create_law: "sound w \<Longrightarrow> pv_create prov d out w = (Inr (r, c), w')
      \<Longrightarrow> sound w' \<and> registered w' = insert d (registered w) \<and> (c \<longleftrightarrow> d \<notin> registered w) \<and> pr_domain r = d"
    and get_law: "sound w \<Longrightarrow> pv_get prov d out w = (Inr x, w')
      \<Longrightarrow> sound w' \<and> registered w' = registered w \<and> (x = None \<longleftrightarrow> d \<notin> registered w)
        \<and> (\<forall>r. x = Some r \<longrightarrow> pr_domain r = d)"
    and delete_law: "sound w \<Longrightarrow> pv_delete prov d out w = (Inr u, w')
      \<Longrightarrow> sound w' \<and> registered w' = registered w - {d}"
begin

text \<open>A computation that leaves the registrations alone.\<close>

definition keeps :: "'a act \<Rightarrow> bool" where
  "keeps m \<longleftrightarrow> (\<forall>w. sound w \<longrightarrow> sound (snd (m out w)) \<and> registered (snd (m out w)) = registered w)"

lemma keepsD: "keeps m \<Longrightarrow> sound w \<Longrightarrow> m out w = (x, w') \<Longrightarrow> sound w' \<and> registered w' = registered w"
  unfolding keeps_def by (metis snd_conv)

lemma keeps_done: "keeps (done_with x)" and keeps_fail: "keeps (fail_with e)"
  by (simp_all add: keeps_def)

lemma keeps_or_crash: "keeps (or_crash x)"
  by (cases x) (simp_all add: keeps_def)

lemma keeps_andthen: "keeps m \<Longrightarrow> (\<And>x. keeps (f x)) \<Longrightarrow> keeps (andthen m f)"
  unfolding keeps_def by (auto split: prod.splits sum.splits)

lemma keeps_now: "keeps utc_now"
  using clock_frame by (simp add: keeps_def)

lemma keeps_kube: "keeps (kube_request verb path body)"
proof -
  have "keeps (ask (Kube verb path body))" using kube_frame by (simp add: keeps_def)
  moreover have "keeps (case r of Unreachable exc \<Rightarrow> fail_with (e exc) | Reply st t \<Rightarrow> done_with (st, t))" for r e
    by (cases r) (simp_all add: keeps_done keeps_fail)
  ultimately show ?thesis unfolding kube_request_def by (intro keeps_andthen)
qed

lemma keeps_if: "keeps m \<Longrightarrow> keeps n \<Longrightarrow> keeps (if b then m else n)"
  by simp

lemma keeps_exists: "keeps (ingress_exists s d p)"
  unfolding ingress_exists_def by (intro keeps_if keeps_andthen keeps_kube keeps_done)

lemma keeps_ensure: "keeps (ensure s d p)"
  unfolding ensure_def replace_ingress_def Let_def
  by (intro keeps_if keeps_andthen keeps_kube keeps_done keeps_fail keeps_or_crash)

lemma keeps_remove: "keeps (remove_ingress s d p)"
  unfolding remove_ingress_def by (intro keeps_if keeps_andthen keeps_kube keeps_done keeps_fail)

lemma keeps_owner: "keeps (owner_of s d)"
proof -
  have "keeps (first_owner s d cs)" for cs
    by (induction cs) (unfold first_owner.simps, intro keeps_done, intro keeps_andthen keeps_exists keeps_if keeps_done)
  then show ?thesis unfolding owner_of_def by (intro keeps_if keeps_done)
qed

lemma keeps_compose: "keeps (compose s r p ready)"
  unfolding compose_def by (cases "pr_created r") (simp_all add: keeps_andthen keeps_done keeps_now)

lemma keeps_validate: "keeps (validate_domain s d)"
  unfolding validate_domain_def
  by (cases "List.find (in_zone d) (managed_zones s)") (simp_all add: keeps_done keeps_fail)

lemma compose_facts: "compose s r p ready out w = (Inr h, w') \<Longrightarrow> ch_domain h = pr_domain r \<and> ch_profile h = rp_name p"
  by (auto simp: compose_def split: option.splits)

text \<open>The service over the provider.\<close>

lemma create_registers:
  assumes "sound w" and "create_hostname s prov d p out w = (Inr (h, created), w')"
  shows "sound w' \<and> registered w' = insert d (registered w) \<and> (created \<longleftrightarrow> d \<notin> registered w)
    \<and> ch_domain h = d \<and> ch_profile h = rp_name p"
proof -
  from assms(2) obtain u w1 ow w2 r w3 ready w4 where
    1: "validate_domain s d out w = (Inr u, w1)" and 2: "owner_of s d out w1 = (Inr ow, w2)"
    and 3: "pv_create prov d out w2 = (Inr (r, created), w3)" and 4: "ensure s d p out w3 = (Inr ready, w4)"
    and 5: "compose s r p ready out w4 = (Inr h, w')"
    by (auto simp: create_hostname_def andthen_Inr simp del: andthen_run split: if_splits)
  note k1 = keepsD [OF keeps_validate assms(1) 1]
  note k2 = keepsD [OF keeps_owner conjunct1 [OF k1] 2]
  note c = create_law [OF conjunct1 [OF k2] 3]
  note k4 = keepsD [OF keeps_ensure conjunct1 [OF c] 4]
  note k5 = keepsD [OF keeps_compose conjunct1 [OF k4] 5]
  from k1 k2 c k4 k5 compose_facts [OF 5] show ?thesis by simp
qed

lemma delete_unregisters:
  assumes "sound w" and "delete_hostname s prov d p out w = (Inr u, w')"
  shows "sound w' \<and> registered w' = registered w - {d}"
proof -
  from assms(2) obtain ow w1 v w2 where
    1: "owner_of s d out w = (Inr ow, w1)" and 2: "remove_ingress s d p out w1 = (Inr v, w2)"
    and 3: "pv_delete prov d out w2 = (Inr u, w')"
    by (auto simp: delete_hostname_def andthen_Inr simp del: andthen_run split: if_splits)
  note k1 = keepsD [OF keeps_owner assms(1) 1]
  note k2 = keepsD [OF keeps_remove conjunct1 [OF k1] 2]
  from k1 k2 delete_law [OF conjunct1 [OF k2] 3] show ?thesis by simp
qed

lemma get_registered:
  assumes "sound w" and "get_hostname s prov d p out w = (Inr h, w')"
  shows "d \<in> registered w \<and> ch_domain h = d \<and> ch_profile h = rp_name p \<and> registered w' = registered w \<and> sound w'"
proof -
  from assms(2) obtain ow w1 r w2 ready w3 where
    1: "owner_of s d out w = (Inr ow, w1)" and 2: "pv_get prov d out w1 = (Inr (Some r), w2)"
    and 3: "ingress_exists s d p out w2 = (Inr ready, w3)" and 4: "compose s r p ready out w3 = (Inr h, w')"
    by (auto simp: get_hostname_def andthen_Inr simp del: andthen_run split: if_splits option.splits)
  note k1 = keepsD [OF keeps_owner assms(1) 1]
  note g = get_law [OF conjunct1 [OF k1] 2]
  note k3 = keepsD [OF keeps_exists conjunct1 [OF g] 3]
  note k4 = keepsD [OF keeps_compose conjunct1 [OF k3] 4]
  from k1 g k3 k4 compose_facts [OF 4] show ?thesis by auto
qed

end

section \<open>The stub keeps the contract\<close>

definition stub_dict :: "world \<Rightarrow> jobj" where
  "stub_dict w = (case w_file w of Some (JObj kvs) \<Rightarrow> kvs | _ \<Rightarrow> [])"

definition stub_registered :: "world \<Rightarrow> string set" where
  "stub_registered w = fst ` set (stub_dict w)"

text \<open>The files the stub writes: a dict with one entry per domain, which names the domain.\<close>

definition entry_of :: "string \<Rightarrow> json \<Rightarrow> bool" where
  "entry_of d entry \<longleftrightarrow>
     (\<exists>kvs. entry = JObj kvs \<and> distinct (map fst kvs)) \<and> text_at entry ''domain'' = Some d"

definition stub_sound :: "world \<Rightarrow> bool" where
  "stub_sound w \<longleftrightarrow> (w_file w = None \<or> (\<exists>kvs. w_file w = Some (JObj kvs)))
     \<and> distinct (map fst (stub_dict w)) \<and> (\<forall>(d, entry) \<in> set (stub_dict w). entry_of d entry)"

lemma read_state_sound: "stub_sound w \<Longrightarrow> read_state out w = (Inr (stub_dict w), w)"
  by (auto simp: stub_sound_def read_state_def stub_dict_def)

lemma to_record_file: "to_record s entry out w = (x, w') \<Longrightarrow> w_file w' = w_file w"
  by (cases "Option.bind (read_entry entry) (\<lambda>e. stub_record s e (o_clock out (w_asked w)) (o_clock out (w_asked w + 1)))")
    (auto simp: to_record_def)

lemma to_record_domain:
  assumes "to_record s entry out w = (Inr r, w')" and "entry_of d entry"
  shows "pr_domain r = d"
proof -
  obtain now later where e: "Option.bind (read_entry entry) (\<lambda>e. stub_record s e now later) = Some r"
    using assms(1) by (auto simp: to_record_def or_crash_def split: option.splits)
  then obtain e where "read_entry entry = Some e" "pr_domain r = se_domain e"
    by (auto simp: stub_record_def Let_def)
  then show ?thesis using assms(2) by (auto simp: read_entry_def entry_of_def)
qed

lemma stub_file_eq:
  assumes "w_file w' = w_file w"
  shows "stub_dict w' = stub_dict w" and "stub_registered w' = stub_registered w" and "stub_sound w' = stub_sound w"
  using assms by (simp_all add: stub_dict_def stub_registered_def stub_sound_def)

text \<open>A written dict is read back in key order, with the members of its entries sorted.\<close>

lemma sorted_members:
  assumes "distinct (map fst kvs)"
  shows "map_of (sort_key fst kvs) = map_of kvs" and "distinct (map fst (sort_key fst kvs))"
proof -
  have m: "mset (map fst (sort_key fst kvs)) = mset (map fst kvs)" by simp
  show d: "distinct (map fst (sort_key fst kvs))" using assms mset_eq_imp_distinct_iff [OF m] by simp
  show "map_of (sort_key fst kvs) = map_of kvs"
    by (rule map_of_eqI) (use d assms in \<open>auto simp: map_of_eq_Some_iff\<close>)
qed

definition jsorted :: "jobj \<Rightarrow> jobj" where
  "jsorted kvs = map (\<lambda>(k, v). (k, jsort v)) kvs"

lemma jsorted_facts: "map fst (jsorted kvs) = map fst kvs" "map_of (jsorted kvs) k = map_option jsort (map_of kvs k)"
  by (induction kvs) (auto simp: jsorted_def)

lemma text_at_jsort: "distinct (map fst kvs) \<Longrightarrow> text_at (jsort (JObj kvs)) k = text_at (JObj kvs) k"
proof -
  assume "distinct (map fst kvs)"
  then have "distinct (map fst (jsorted kvs))" by (simp only: jsorted_facts)
  from sorted_members(1) [OF this] have "map_of (sort_key fst (jsorted kvs)) k = map_option jsort (map_of kvs k)"
    by (simp add: jsorted_facts)
  moreover have "as_text (jsort v) = as_text v" for v by (cases v) simp_all
  ultimately show ?thesis
    by (cases "map_of kvs k") (simp_all add: text_at_def jsorted_def)
qed

lemma entry_of_jsort: "entry_of d entry \<Longrightarrow> entry_of d (jsort entry)"
proof -
  assume "entry_of d entry"
  then obtain kvs where e: "entry = JObj kvs" "distinct (map fst kvs)" "text_at entry ''domain'' = Some d"
    by (auto simp: entry_of_def)
  have "distinct (map fst (jsorted kvs))" using e(2) by (simp only: jsorted_facts)
  from sorted_members(2) [OF this] have "distinct (map fst (sort_key fst (jsorted kvs)))" .
  moreover have "text_at (jsort (JObj kvs)) ''domain'' = Some d"
    using e text_at_jsort [OF e(2)] by simp
  ultimately show ?thesis by (auto simp: entry_of_def e(1) jsorted_def)
qed

lemma written_sound:
  assumes "distinct (map fst kvs)" and "\<forall>(d, entry) \<in> set kvs. entry_of d entry"
    and "w_file w = Some (jsort (JObj kvs))"
  shows "stub_sound w \<and> stub_registered w = fst ` set kvs"
proof -
  have dict: "stub_dict w = sort_key fst (jsorted kvs)" using assms(3) by (simp add: stub_dict_def jsorted_def)
  have d: "distinct (map fst (jsorted kvs))" using assms(1) by (simp only: jsorted_facts)
  have "distinct (map fst (stub_dict w))" unfolding dict by (rule sorted_members(2) [OF d])
  moreover have "\<forall>(d, entry) \<in> set (stub_dict w). entry_of d entry"
    using assms(2) entry_of_jsort by (fastforce simp: dict jsorted_def)
  moreover have "fst ` set (jsorted kvs) = fst ` set kvs"
    using jsorted_facts(1) [of kvs] by (metis list.set_map)
  ultimately show ?thesis using assms(3) by (simp add: stub_sound_def stub_registered_def dict)
qed

lemma set_dict_set: "set (dict_set k v m) \<subseteq> insert (k, v) (set m)"
  unfolding dict_set_def by (induction m) auto

lemma stub_create_law:
  assumes "stub_sound w" and "stub_create s d out w = (Inr (r, c), w')"
  shows "stub_sound w' \<and> stub_registered w' = insert d (stub_registered w) \<and> (c \<longleftrightarrow> d \<notin> stub_registered w)
    \<and> pr_domain r = d"
proof (cases "map_of (stub_dict w) d")
  case (Some entry)
  then have "to_record s entry out w = (Inr r, w')" and c: "\<not> c"
    using assms by (auto simp: stub_create_def read_state_sound split: prod.splits sum.splits)
  moreover have m: "(d, entry) \<in> set (stub_dict w)" using Some by (rule map_of_SomeD)
  moreover have "entry_of d entry" using assms(1) m by (auto simp: stub_sound_def)
  moreover have "d \<in> stub_registered w" using m by (force simp: stub_registered_def)
  ultimately show ?thesis
    using assms(1) c to_record_domain stub_file_eq [OF to_record_file] by (metis insert_absorb)
next
  case None
  define n where "n = w_asked w"
  define i token dcv now where ids: "i = o_uuid out n" "token = o_uuid out (Suc n)" "dcv = o_uuid out (Suc (Suc n))"
    "now = o_clock out (Suc (Suc (Suc n)))"
  define w1 where "w1 = w\<lparr>w_asked := Suc (Suc (Suc (Suc n))),
      w_file := Some (jsort (JObj (dict_set d (new_entry d i token dcv now) (stub_dict w))))\<rparr>"
  have run: "stub_create s d out w = andthen (to_record s (new_entry d i token dcv now)) (\<lambda>r. done_with (r, True)) out w1"
    using None assms(1)
    by (simp add: stub_create_def read_state_sound write_state_def Let_def ids n_def w1_def del: jsort.simps)
  have r: "to_record s (new_entry d i token dcv now) out w1 = (Inr r, w')" and c: c
    using assms(2) [unfolded run] by (auto simp: andthen_Inr simp del: andthen_run)
  have w1: "w_file w1 = Some (jsort (JObj (dict_set d (new_entry d i token dcv now) (stub_dict w))))"
    by (simp add: w1_def del: jsort.simps)
  let ?e = "new_entry d i token dcv now"
  have e: "entry_of d ?e" by (simp add: entry_of_def new_entry_def text_at_def)
  have "distinct (map fst (dict_set d ?e (stub_dict w)))"
    using assms(1) by (intro distinct_dict_set) (simp add: stub_sound_def)
  moreover have "\<forall>(d', entry) \<in> set (dict_set d ?e (stub_dict w)). entry_of d' entry"
    using assms(1) e set_dict_set by (fastforce simp: stub_sound_def)
  ultimately have "stub_sound w1 \<and> stub_registered w1 = insert d (stub_registered w)"
    using written_sound [OF _ _ w1] by (simp add: keys_dict_set stub_registered_def)
  moreover have "d \<notin> stub_registered w"
    using None by (simp add: stub_registered_def map_of_eq_None_iff)
  ultimately show ?thesis
    using c to_record_domain [OF r e] stub_file_eq [OF to_record_file [OF r]] by simp
qed

lemma stub_get_law:
  assumes "stub_sound w" and "stub_get s d out w = (Inr x, w')"
  shows "stub_sound w' \<and> stub_registered w' = stub_registered w \<and> (x = None \<longleftrightarrow> d \<notin> stub_registered w)
    \<and> (\<forall>r. x = Some r \<longrightarrow> pr_domain r = d)"
proof (cases "map_of (stub_dict w) d")
  case None
  with assms show ?thesis
    by (auto simp: stub_get_def read_state_sound stub_registered_def map_of_eq_None_iff)
next
  case (Some entry)
  then have m: "(d, entry) \<in> set (stub_dict w)" by (rule map_of_SomeD)
  then have e: "entry_of d entry" using assms(1) by (auto simp: stub_sound_def)
  then have "truthy entry" by (auto simp: entry_of_def text_at_def)
  with assms Some obtain r where r: "to_record s entry out w = (Inr r, w')" "x = Some r"
    by (auto simp: stub_get_def read_state_sound split: prod.splits sum.splits)
  moreover have "d \<in> stub_registered w" using m by (force simp: stub_registered_def)
  ultimately show ?thesis
    using assms(1) to_record_domain [OF r(1) e] stub_file_eq [OF to_record_file [OF r(1)]] by simp
qed

lemma stub_delete_law:
  assumes "stub_sound w" and "stub_delete d out w = (Inr u, w')"
  shows "stub_sound w' \<and> stub_registered w' = stub_registered w - {d}"
proof (cases "dget (stub_dict w) d JNull \<noteq> JNull")
  case False
  have "map_of (stub_dict w) d = None"
  proof (rule ccontr)
    assume "map_of (stub_dict w) d \<noteq> None"
    then obtain entry where m: "map_of (stub_dict w) d = Some entry" by blast
    then have "entry_of d entry" using assms(1) by (auto simp: stub_sound_def dest: map_of_SomeD)
    with m False show False by (auto simp: dget_def entry_of_def)
  qed
  with False assms show ?thesis
    by (auto simp: stub_delete_def read_state_sound stub_registered_def map_of_eq_None_iff)
next
  case True
  then have w': "w' = w\<lparr>w_file := Some (jsort (JObj (AList.delete d (stub_dict w))))\<rparr>"
    using assms by (simp add: stub_delete_def read_state_sound write_state_def)
  have "distinct (map fst (AList.delete d (stub_dict w)))"
    using assms(1) by (simp add: stub_sound_def distinct_delete)
  moreover have "\<forall>(d', entry) \<in> set (AList.delete d (stub_dict w)). entry_of d' entry"
    using assms(1) by (auto simp: stub_sound_def AList.delete_eq)
  moreover have "w_file w' = Some (jsort (JObj (AList.delete d (stub_dict w))))" by (simp add: w' del: jsort.simps)
  ultimately have "stub_sound w' \<and> stub_registered w' = fst ` set (AList.delete d (stub_dict w))"
    by (rule written_sound)
  then show ?thesis by (auto simp: stub_registered_def AList.delete_eq)
qed

interpretation stub: hostname_provider "stub_provider s" out stub_sound stub_registered for s out
proof
  fix w u d r c x w' verb path body n
  show "stub_sound w \<Longrightarrow> stub_sound (w\<lparr>w_calls := w_calls w @ [Kube verb path body]\<rparr>)
      \<and> stub_registered (w\<lparr>w_calls := w_calls w @ [Kube verb path body]\<rparr>) = stub_registered w"
    "stub_sound w \<Longrightarrow> stub_sound (w\<lparr>w_asked := n\<rparr>) \<and> stub_registered (w\<lparr>w_asked := n\<rparr>) = stub_registered w"
    by (simp_all add: stub_sound_def stub_registered_def stub_dict_def)
  show "stub_sound w \<Longrightarrow> pv_create (stub_provider s) d out w = (Inr (r, c), w')
      \<Longrightarrow> stub_sound w' \<and> stub_registered w' = insert d (stub_registered w)
        \<and> (c \<longleftrightarrow> d \<notin> stub_registered w) \<and> pr_domain r = d"
    using stub_create_law by (simp add: stub_provider_def)
  show "stub_sound w \<Longrightarrow> pv_get (stub_provider s) d out w = (Inr x, w')
      \<Longrightarrow> stub_sound w' \<and> stub_registered w' = stub_registered w \<and> (x = None \<longleftrightarrow> d \<notin> stub_registered w)
        \<and> (\<forall>r. x = Some r \<longrightarrow> pr_domain r = d)"
    using stub_get_law by (simp add: stub_provider_def)
  show "stub_sound w \<Longrightarrow> pv_delete (stub_provider s) d out w = (Inr u, w')
      \<Longrightarrow> stub_sound w' \<and> stub_registered w' = stub_registered w - {d}"
    using stub_delete_law by (simp add: stub_provider_def)
qed

end
