(* ===== verification/Hostname_Properties.thy ===== *)
theory Hostname_Properties
  imports Hostname_Laws
begin

text \<open>
  The properties of the custom hostname API: who may touch which domain, what \<open>active\<close> stands for,
  the lifecycle of a registration, the name and reach of the Ingress, and the bounds and the
  termination of the Cloudflare provider.
\<close>

section \<open>A small installation\<close>

definition demo_profile :: "string \<Rightarrow> string \<Rightarrow> route_profile" where
  "demo_profile name ns = \<lparr>rp_name = name, rp_namespace = ns, rp_service = ''web'', rp_port = 80,
     rp_paths = [''/''], rp_ingress_class = ''traefik'', rp_token = ''t-'' @ name\<rparr>"

definition demo_settings :: "bool \<Rightarrow> route_profile list \<Rightarrow> settings" where
  "demo_settings routed ps = \<lparr>st_provider = ''stub'', st_cf_token = ''k'', st_cf_zone = ''z'', st_cf_base = ''b'',
     st_managed_zone = ''fuzefront.com'', st_reserved_zones = [], st_cname_target = ''connect.fuzefront.com'',
     st_max_hostnames = 1, st_routing_enabled = routed, st_kube_api = ''k'', st_timeout = Fin 15,
     st_activate_after = Fin 20, st_stub_path = ''p'', st_profiles = ps\<rparr>"

definition demo_clock :: "nat \<Rightarrow> datetime" where
  "demo_clock n = \<lparr>dt_year = 2026, dt_month = 1, dt_day = 1, dt_hour = 0, dt_minute = 0, dt_second = int n,
     dt_micro = 0\<rparr>"

definition demo_out :: "(call list \<Rightarrow> call \<Rightarrow> reply) \<Rightarrow> outside" where
  "demo_out http = \<lparr>o_http = http, o_clock = demo_clock, o_uuid = (\<lambda>n. ''u-'' @ show_nat n)\<rparr>"

definition fresh_world :: world where
  "fresh_world = \<lparr>w_calls = [], w_file = None, w_asked = 0\<rparr>"

text \<open>Every call is answered with the same status.\<close>

definition always :: "int \<Rightarrow> call list \<Rightarrow> call \<Rightarrow> reply" where
  "always status cs c = Reply status ''{}''"

section \<open>Tokens\<close>

text \<open>The token is the authorization. A request is served exactly when its bearer token is the token
  of a profile, it gets the first such profile, and a profile whose token is missing from the
  environment serves nobody; every other request is refused with 401.\<close>

theorem token_grants_profile:
  "caller_profile s header =
     (case bearer header of
        None \<Rightarrow> Inl unauthorized
      | Some t \<Rightarrow> (case filter (\<lambda>p. rp_token p = t) (st_profiles s) of [] \<Rightarrow> Inl unauthorized | p # ps \<Rightarrow> Inr p))
   \<and> caller_profile s header \<in> insert (Inl unauthorized) (Inr ` {p \<in> set (st_profiles s). has_token p})"
proof -
  have ne: "t \<noteq> []" if "bearer header = Some t" for t
    using that by (auto simp: bearer_def Let_def split: if_splits)
  have "List.find (\<lambda>p. rp_token p \<noteq> [] \<and> rp_token p = t) ps
      = (case filter (\<lambda>p. rp_token p = t) ps of [] \<Rightarrow> None | p # ps \<Rightarrow> Some p)" if "t \<noteq> []" for t ps
    using that by (induction ps) auto
  then have find: "profile_for_token s t
      = (case filter (\<lambda>p. rp_token p = t) (st_profiles s) of [] \<Rightarrow> None | p # ps \<Rightarrow> Some p)" if "t \<noteq> []" for t
    using that by (simp add: profile_for_token_def)
  have mem: "has_token p \<and> p \<in> set (st_profiles s)" if "profile_for_token s t = Some p" for p t
    using that by (auto simp: profile_for_token_def has_token_def find_Some_iff)
  show ?thesis
  proof (cases "bearer header")
    case (Some t)
    note f = find [OF ne [OF Some]]
    show ?thesis
    proof (cases "filter (\<lambda>p. rp_token p = t) (st_profiles s)")
      case (Cons p ps)
      with f have "profile_for_token s t = Some p" by simp
      with Some Cons mem show ?thesis by (simp add: caller_profile_def)
    qed (use Some f in \<open>simp add: caller_profile_def\<close>)
  qed (simp add: caller_profile_def)
qed

section \<open>Domains of others\<close>












text \<open>The status of a refused request.\<close>

fun refusal :: "fault + 'a \<Rightarrow> int option" where
  "refusal (Inl (ApiError code what message detail)) = Some code"
| "refusal (Inl e) = Some 500"
| "refusal (Inr x) = None"



section \<open>Active\<close>

text \<open>C20: \<open>active\<close> needs both halves. A resource that GET reports as active has active DNS and an active
  certificate, and with routing on the last call of the request found its Ingress in the caller's
  own namespace; the resource carries the caller's profile and no other.\<close>

theorem active_needs_both:
  assumes "get_hostname s prov d p out w = (Inr h, w')"
  shows "ch_profile h = rp_name p
    \<and> (ch_active h \<longleftrightarrow> ch_dns h = DnsActive \<and> ch_tls h = TlsActive
         \<and> (rt_ingress_ready (ch_routing h) \<or> \<not> st_routing_enabled s))
    \<and> (st_routing_enabled s \<and> rt_ingress_ready (ch_routing h) \<longrightarrow>
         (\<exists>cs text'. w_calls w' = cs @ [Kube ''GET'' (kube_path (rp_namespace p) (ingress_name d)) None]
           \<and> o_http out cs (Kube ''GET'' (kube_path (rp_namespace p) (ingress_name d)) None) = Reply 200 text'))"
proof -
  from assms obtain r w2 ready w3 where
    3: "ingress_exists s d p out w2 = (Inr ready, w3)" and 4: "compose s r p ready out w3 = (Inr h, w')"
    by (auto simp: get_hostname_def andthen_Inr simp del: andthen_run split: if_splits option.splits)
  have h: "ch_profile h = rp_name p" "ch_active h \<longleftrightarrow> is_active s r ready" "ch_dns h = pr_dns r" "ch_tls h = pr_tls r"
    "rt_ingress_ready (ch_routing h) = ready" "w_calls w' = w_calls w3"
    using 4 by (auto simp: compose_def split: option.splits)
  have "\<exists>cs text'. w_calls w3 = cs @ [Kube ''GET'' (kube_path (rp_namespace p) (ingress_name d)) None]
      \<and> o_http out cs (Kube ''GET'' (kube_path (rp_namespace p) (ingress_name d)) None) = Reply 200 text'"
    if "st_routing_enabled s" ready
    using 3 that by (auto simp: ingress_exists_def kube_request_def split: reply.splits)
  with h show ?thesis by (auto simp: is_active_def)
qed

text \<open>A domain that was registered long ago.\<close>

definition seeded_world :: world where
  "seeded_world = \<lparr>w_calls = [], w_file = Some (JObj [(''x.corp.com'',
     JObj [(''id'', JStr ''1''), (''domain'', JStr ''x.corp.com''), (''ownership_token'', JStr ''o''),
       (''dcv_token'', JStr ''d''), (''created_at'', JStr ''2025-12-01T00:00:00+00:00'')])]),
     w_asked = 0\<rparr>"

lemma seeded_get:
  "\<exists>r w1. stub_get (demo_settings True ps) ''x.corp.com'' (demo_out http) (seeded_world\<lparr>w_calls := cs\<rparr>) = (Inr (Some r), w1)
    \<and> pr_dns r = DnsActive \<and> pr_tls r = TlsActive \<and> pr_created r \<noteq> None"
proof -
  let ?run = "stub_get (demo_settings True ps) ''x.corp.com'' (demo_out http) (seeded_world\<lparr>w_calls := cs\<rparr>)"
  have "(case fst ?run of Inr (Some r) \<Rightarrow> (pr_dns r, pr_tls r, pr_created r \<noteq> None) | _ \<Rightarrow> (DnsError, TlsFailed, False))
      = (DnsActive, TlsActive, True)"
    by code_simp
  then show ?thesis by (cases ?run) (auto split: sum.splits option.splits)
qed

theorem active_needs_both_witness:
  "let s = demo_settings True [demo_profile ''a'' ''na'']; p = demo_profile ''a'' ''na''
   in \<exists>h w'. get_hostname s (stub_provider s) ''x.corp.com'' p (demo_out (always 200)) seeded_world = (Inr h, w')
     \<and> ch_active h \<and> ch_profile h = ''a''"
proof -
  let ?s = "demo_settings True [demo_profile ''a'' ''na'']" and ?p = "demo_profile ''a'' ''na''"
    and ?out = "demo_out (always 200)"
  let ?get = "Kube ''GET'' (kube_path ''na'' (ingress_name ''x.corp.com'')) None"
  have e: "ingress_exists ?s ''x.corp.com'' ?p ?out w = (Inr True, w\<lparr>w_calls := w_calls w @ [?get]\<rparr>)" for w
    by (simp add: ingress_exists_def kube_request_def demo_settings_def demo_profile_def demo_out_def always_def)
  have o': "owner_of ?s ''x.corp.com'' ?out seeded_world = (Inr (Some ''a''), seeded_world\<lparr>w_calls := [?get]\<rparr>)"
    using e by (simp add: owner_of_def demo_settings_def demo_profile_def seeded_world_def)
  obtain r w1 where r: "stub_get ?s ''x.corp.com'' ?out (seeded_world\<lparr>w_calls := [?get]\<rparr>) = (Inr (Some r), w1)"
    "pr_dns r = DnsActive" "pr_tls r = TlsActive" "pr_created r \<noteq> None" using seeded_get by metis
  have "\<exists>h w'. get_hostname ?s (stub_provider ?s) ''x.corp.com'' ?p ?out seeded_world = (Inr h, w') \<and> ch_active h"
    using o' r e
    by (auto simp: get_hostname_def foreign_def stub_provider_def compose_def is_active_def demo_profile_def)
  then obtain h w' where h: "get_hostname ?s (stub_provider ?s) ''x.corp.com'' ?p ?out seeded_world = (Inr h, w')"
    "ch_active h" by blast
  from active_needs_both [OF h(1)] h show ?thesis by (auto simp: Let_def demo_profile_def)
qed

section \<open>The lifecycle on the stub\<close>

text \<open>POST is idempotent: whoever repeats a POST that succeeded, under whatever profile and whatever the
  cluster answers in between, does not register the domain again; both answers name the domain.\<close>

theorem create_is_idempotent:
  assumes "stub_sound w"
    and "create_hostname s (stub_provider s) d p out w = (Inr (h, c), w1)"
    and "create_hostname s (stub_provider s) d q out w1 = (Inr (h', c'), w2)"
  shows "\<not> c' \<and> (c \<longleftrightarrow> d \<notin> stub_registered w) \<and> ch_domain h = d \<and> ch_domain h' = d
    \<and> stub_registered w2 = insert d (stub_registered w)"
  using stub.create_registers [OF assms(1,2)] stub.create_registers [OF _ assms(3)] by auto

text \<open>A deleted domain is gone: after a DELETE that succeeded no GET returns the domain, for any
  profile, and every other domain is still registered.\<close>

theorem deleted_is_gone:
  assumes "stub_sound w" and "delete_hostname s (stub_provider s) d p out w = (Inr u, w1)"
  shows "fst (get_hostname s (stub_provider s) d q out w1) \<noteq> Inr h
    \<and> stub_registered w1 = stub_registered w - {d} \<and> stub_sound w1"
proof -
  note gone = stub.delete_unregisters [OF assms]
  have "fst (get_hostname s (stub_provider s) d q out w1) \<noteq> Inr h"
  proof
    assume "fst (get_hostname s (stub_provider s) d q out w1) = Inr h"
    then obtain w2 where "get_hostname s (stub_provider s) d q out w1 = (Inr h, w2)" by (metis prod.collapse)
    from stub.get_registered [OF conjunct1 [OF gone] this] gone show False by auto
  qed
  with gone show ?thesis by simp
qed

theorem deleted_is_gone_witness:
  "\<exists>w1. delete_hostname (demo_settings False []) (stub_provider (demo_settings False [])) ''x.corp.com''
     (demo_profile ''a'' ''na'') (demo_out (always 200)) seeded_world = (Inr (), w1)
   \<and> stub_registered seeded_world = {''x.corp.com''} \<and> stub_registered w1 = {}"
proof -
  have "fst (delete_hostname (demo_settings False []) (stub_provider (demo_settings False [])) ''x.corp.com''
     (demo_profile ''a'' ''na'') (demo_out (always 200)) seeded_world) = Inr ()" by code_simp
  then obtain w1 where d: "delete_hostname (demo_settings False []) (stub_provider (demo_settings False []))
     ''x.corp.com'' (demo_profile ''a'' ''na'') (demo_out (always 200)) seeded_world = (Inr (), w1)"
    by (metis prod.collapse)
  have reg: "stub_registered seeded_world = {''x.corp.com''}"
    by (simp add: stub_registered_def stub_dict_def seeded_world_def)
  have "stub_sound seeded_world"
    by (simp add: stub_sound_def stub_dict_def seeded_world_def entry_of_def text_at_def)
  from deleted_is_gone [OF this d] d reg show ?thesis by simp
qed

section \<open>The Ingress\<close>

text \<open>The name of the Ingress is a valid RFC 1123 label for every domain, however long or strange: at
  most 63 characters, lower-case letters, digits and hyphens, and neither end is a hyphen.\<close>

theorem ingress_name_valid:
  "length (ingress_name d) \<le> 63 \<and> list_all safe_char (ingress_name d)
    \<and> hd (ingress_name d) \<noteq> CHR ''-'' \<and> last (ingress_name d) \<noteq> CHR ''-''"
proof -
  let ?digest = "take 8 (sha256_hex (str_lower d))"
  have digest: "is_digit c \<or> is_lower c" if "c \<in> set ?digest" for c
    using that sha256_hex_chars by (auto dest: in_set_takeD)
  have ne: "?digest \<noteq> []" using length_digest [of "str_lower d"] by fastforce
  have "last (ingress_name d) = last ?digest" using ne by (simp add: ingress_name_def)
  moreover have "last ?digest \<noteq> CHR ''-''"
    using digest [OF last_in_set [OF ne]] by (auto simp: is_digit_def is_lower_def)
  moreover have "length (ingress_name d) \<le> 63"
    using length_slug [of d] length_digest [of "str_lower d"] by (simp add: ingress_name_def)
  moreover have "list_all safe_char (ingress_name d)"
  proof -
    have "list_all safe_char ''custom-domain-''" by code_simp
    moreover have "list_all safe_char (ingress_slug d)" using slug_chars by (simp add: list_all_iff)
    moreover have "list_all safe_char ?digest" using digest by (auto simp: list_all_iff safe_char_def)
    moreover have "safe_char (CHR ''-'')" by (simp add: safe_char_def)
    ultimately show ?thesis by (simp only: ingress_name_def list_all_append list.pred_inject simp_thms)
  qed
  ultimately show ?thesis by (simp add: ingress_name_def)
qed

text \<open>A limit of the ownership. The owner of a domain is the first profile in whose namespace its
  Ingress exists, whatever profile the label of the Ingress names. So of two profiles in one namespace
  the later one cannot reach the domains it created itself: after its own POST, when the cluster has
  the Ingress, its GET and its DELETE are refused.\<close>

theorem shared_namespace_locks_out:
  assumes "st_routing_enabled s" and "st_profiles s = q # ps" and "rp_namespace p = rp_namespace q"
    and "rp_name p \<noteq> rp_name q"
    and "\<And>cs. \<exists>t. o_http out cs (Kube ''GET'' (kube_path (rp_namespace p) (ingress_name d)) None) = Reply 200 t"
  shows "refusal (fst (get_hostname s prov d p out w)) = Some 403
    \<and> refusal (fst (delete_hostname s prov d p out w)) = Some 403"
proof -
  obtain t where "o_http out (w_calls w) (Kube ''GET'' (kube_path (rp_namespace q) (ingress_name d)) None) = Reply 200 t"
    using assms(3,5) by metis
  then have "fst (owner_of s d out w) = Inr (Some (rp_name q))"
    using assms(1,2) by (simp add: owner_of_def ingress_exists_def kube_request_def)
  then obtain w1 where "owner_of s d out w = (Inr (Some (rp_name q)), w1)" by (metis prod.collapse)
  moreover have "foreign (Some (rp_name q)) p" using assms(4) by (simp add: foreign_def)
  ultimately show ?thesis by (simp add: get_hostname_def delete_hostname_def forbidden_def)
qed

theorem shared_namespace_locks_out_witness:
  "let s = demo_settings True [demo_profile ''a'' ''n'', demo_profile ''b'' ''n'']
   in refusal (fst (get_hostname s (stub_provider s) ''x.corp.com'' (demo_profile ''b'' ''n'')
        (demo_out (always 200)) seeded_world)) = Some 403"
proof -
  let ?s = "demo_settings True [demo_profile ''a'' ''n'', demo_profile ''b'' ''n'']"
  have "refusal (fst (get_hostname ?s (stub_provider ?s) ''x.corp.com'' (demo_profile ''b'' ''n'')
        (demo_out (always 200)) seeded_world)) = Some 403
    \<and> refusal (fst (delete_hostname ?s (stub_provider ?s) ''x.corp.com'' (demo_profile ''b'' ''n'')
        (demo_out (always 200)) seeded_world)) = Some 403"
    by (rule shared_namespace_locks_out [where q = "demo_profile ''a'' ''n''" and ps = "[demo_profile ''b'' ''n'']"])
      (simp_all add: demo_settings_def demo_profile_def demo_out_def always_def)
  then show ?thesis by (simp add: Let_def)
qed

section \<open>Domains\<close>

lemma upper_lower_char: "\<not> is_upper (lower_char c)"
proof (cases "is_upper c")
  case True
  then have n: "65 \<le> (of_char c :: nat)" "(of_char c :: nat) \<le> 90" by (simp_all add: is_upper_def)
  have "of_char (char_of (of_char c + 32 :: nat) :: char) = (of_char c + 32 :: nat)" using n by simp
  with n True show ?thesis by (simp add: lower_char_def is_upper_def)
qed (simp add: lower_char_def)

lemma canonical_lower: "c \<in> set (canonical s) \<Longrightarrow> \<not> is_upper c"
  using upper_lower_char by (auto simp: canonical_def str_lower_def)

lemma last_dropWhile: "dropWhile p xs \<noteq> [] \<Longrightarrow> last (dropWhile p xs) = last xs"
  by (induction xs) (auto split: if_splits)

text \<open>C39: a domain that is accepted has at least two labels of 1 to 63 letters, digits and inner hyphens, all
  lower case, up to a final newline, which \<open>$\<close> lets through. With the newline the domain that the
  answer names is not the one later requests look up, since they strip it.\<close>

theorem accepted_domains:
  assumes "normalize s = Some d"
  shows "domain_re d \<and> list_all (\<lambda>c. \<not> is_upper c) d
    \<and> (last d \<noteq> CHR 10 \<longrightarrow> 2 \<le> length (split_on (\<lambda>c. c = CHR ''.'') d) \<and> list_all label_ok (split_on (\<lambda>c. c = CHR ''.'') d))
    \<and> (last d = CHR 10 \<longrightarrow> canonical d \<noteq> d)"
proof -
  have d: "d = canonical s" "domain_re d" using assms by (auto simp: normalize_def split: if_splits)
  have low: "list_all (\<lambda>c. \<not> is_upper c) d" unfolding d(1) using canonical_lower by (simp add: list_all_iff)
  have ne: "d \<noteq> []" using d(2) by (auto simp: domain_re_def)
  have "canonical d \<noteq> d" if n: "last d = CHR 10"
  proof
    assume c: "canonical d = d"
    define t where "t = str_strip d"
    have "last d \<in> set d" using ne by simp
    have lt: "t = [] \<or> \<not> is_space (last t)"
      using hd_dropWhile [of is_space "rev (lstrip d)"]
      by (auto simp: t_def str_strip_def rstrip_def last_rev)
    have "str_lower (rstrip_chr CHR ''.'' t) = d" using c by (simp add: canonical_def t_def)
    moreover have "set (rstrip_chr CHR ''.'' t) \<subseteq> set t"
      unfolding rstrip_chr_def by (metis set_dropWhileD set_rev subsetI)
    ultimately have "length t \<ge> length d"
      using length_dropWhile_le [of "\<lambda>x. x = CHR ''.''" "rev t"]
      by (metis length_map length_rev rstrip_chr_def str_lower_def)
    moreover have "length t < length d"
    proof -
      obtain b where b: "d = b @ [CHR 10]" using ne n by (metis append_butlast_last_id)
      have "is_space (CHR 10)" by (simp add: is_space_def)
      have "length (rstrip (lstrip d)) < length d"
      proof (cases "lstrip d = []")
        case True
        then show ?thesis using ne by (simp add: rstrip_def)
      next
        case False
        then have "last (lstrip d) = CHR 10" using n by (simp add: lstrip_def last_dropWhile)
        then obtain e where e: "lstrip d = e @ [CHR 10]" using False by (metis append_butlast_last_id)
        have "length (dropWhile is_space (rev e)) \<le> length e"
          using length_dropWhile_le [of is_space "rev e"] by simp
        moreover have "length (lstrip d) \<le> length d" unfolding lstrip_def by (rule length_dropWhile_le)
        ultimately show ?thesis using e \<open>is_space (CHR 10)\<close> by (simp add: rstrip_def)
      qed
      then show ?thesis by (simp add: t_def str_strip_def)
    qed
    ultimately show False by simp
  qed
  moreover have "last d \<noteq> CHR 10 \<longrightarrow> 2 \<le> length (split_on (\<lambda>c. c = CHR ''.'') d) \<and> list_all label_ok (split_on (\<lambda>c. c = CHR ''.'') d)"
    using d(2) by (auto simp: domain_re_def Let_def)
  ultimately show ?thesis using d(2) low by blast
qed

theorem accepted_domains_witness:
  "normalize (''App.CorpABC.com'' @ [CHR 10, CHR ''.'']) = Some (''app.corpabc.com'' @ [CHR 10])
   \<and> canonical (''app.corpabc.com'' @ [CHR 10]) \<noteq> ''app.corpabc.com'' @ [CHR 10]"
proof -
  have n: "normalize (''App.CorpABC.com'' @ [CHR 10, CHR ''.'']) = Some (''app.corpabc.com'' @ [CHR 10])" by code_simp
  from accepted_domains [OF n] n show ?thesis by simp
qed

section \<open>Cloudflare\<close>

definition cloud_read :: "call \<Rightarrow> bool" where
  "cloud_read c = (case c of Cloud verb path ps body \<Rightarrow> verb = ''GET'' | Kube a b d \<Rightarrow> False)"

definition reads :: "'a act \<Rightarrow> bool" where
  "reads m \<longleftrightarrow> (\<forall>out w. \<exists>cs. w_calls (snd (m out w)) = w_calls w @ cs \<and> list_all cloud_read cs)"

lemma reads_done: "reads (done_with x)" and reads_fail: "reads (fail_with e)" and reads_now: "reads utc_now"
  by (simp_all add: reads_def)

lemma reads_or_crash: "reads (or_crash x)"
  by (cases x) (simp_all add: reads_def)

lemma reads_andthen:
  assumes "reads m" and "\<And>x. reads (f x)"
  shows "reads (andthen m f)"
  unfolding reads_def
proof (intro allI)
  fix out w
  obtain r w1 where m: "m out w = (r, w1)" by fastforce
  obtain cs where 1: "w_calls w1 = w_calls w @ cs" "list_all cloud_read cs"
    using assms(1) m unfolding reads_def by (metis snd_conv)
  show "\<exists>cs. w_calls (snd (andthen m f out w)) = w_calls w @ cs \<and> list_all cloud_read cs"
  proof (cases r)
    case (Inl e)
    with m 1 show ?thesis by simp
  next
    case (Inr x)
    obtain cs' where "w_calls (snd (f x out w1)) = w_calls w1 @ cs'" "list_all cloud_read cs'"
      using assms(2) unfolding reads_def by metis
    with m 1 Inr show ?thesis by simp
  qed
qed

lemma reads_get: "reads (cf_request ''GET'' path ps body)"
proof -
  have "reads (ask (Cloud ''GET'' path ps body))" by (simp add: reads_def cloud_read_def)
  moreover have "reads (case p of Inl e \<Rightarrow> fail_with e | Inr j \<Rightarrow> done_with j)" for p :: "fault + json"
    by (cases p) (simp_all add: reads_done reads_fail)
  ultimately show ?thesis
    unfolding cf_request_def
    by (auto intro!: reads_andthen reads_done reads_fail reads_or_crash simp del: andthen_run
        split: reply.splits option.splits)
qed

lemma reads_to_record: "reads (cf_to_record s r)"
  unfolding cf_to_record_def
  by (intro reads_andthen reads_or_crash)
    (auto intro!: reads_andthen reads_now reads_done simp del: andthen_run split: option.splits)

lemma reads_records: "reads (cf_records s rs)"
  by (induction rs) (unfold cf_records.simps, intro reads_done, intro reads_andthen reads_to_record reads_done)

lemma reads_if: "reads m \<Longrightarrow> reads n \<Longrightarrow> reads (if b then m else n)"
  by simp

lemma reads_pages: "reads (cf_pages s fuel page acc)"
  by (induction fuel arbitrary: page acc)
    (unfold cf_pages.simps, intro reads_fail,
     intro reads_andthen reads_get reads_or_crash reads_records reads_if reads_done)

lemma reads_find: "reads (cf_find s d)"
  unfolding cf_find_def by (intro reads_andthen reads_get reads_or_crash)

lemma reads_check_cap: "reads (cf_check_cap s fuel)"
  unfolding cf_check_cap_def cf_list_def by (intro reads_if reads_done reads_andthen reads_pages reads_fail)

lemma reads_run: "reads m \<Longrightarrow> m out w = (r, w1) \<Longrightarrow> \<exists>cs. w_calls w1 = w_calls w @ cs \<and> list_all cloud_read cs"
  unfolding reads_def by (metis snd_conv)

text \<open>The request itself is the one call of a request, and what follows only reads the clock.\<close>

lemma quiet_calls:
  "w_calls (snd (cf_request verb path ps body out w)) = w_calls w @ [Cloud verb path ps body]"
  "w_calls (snd (cf_to_record s r out w)) = w_calls w"
  by (auto simp: cf_request_def cf_to_record_def or_crash_def split: reply.splits option.splits sum.splits)

lemma to_record_quiet: "cf_to_record s r out w = (x, w1) \<Longrightarrow> w_calls w1 = w_calls w"
  using quiet_calls(2) by (metis snd_conv)

lemma check_cap_passes:
  assumes "cf_check_cap s fuel out w = (Inr u, w1)"
  shows "st_max_hostnames s = 0 \<or> (\<exists>rs. cf_list s fuel out w = (Inr rs, w1) \<and> int (length rs) < st_max_hostnames s)"
  using assms by (auto simp: cf_check_cap_def andthen_Inr cap_reached_def simp del: andthen_run split: if_splits)

text \<open>C21: the cap on billed hostnames holds. Creating a hostname either only reads from Cloudflare, or it
  sends exactly one write, the POST of this domain, after it has found the domain not registered and,
  with a cap, has listed fewer hostnames than the cap.\<close>

theorem registers_under_cap:
  "\<exists>cs. w_calls (snd (cf_create s fuel d out w)) = w_calls w @ cs
    \<and> (list_all cloud_read cs
       \<or> filter (\<lambda>c. \<not> cloud_read c) cs = [Cloud ''POST'' (zone_path s) [] (Some (create_body d))]
         \<and> (\<exists>w1. cf_find s d out w = (Inr None, w1)
              \<and> (st_max_hostnames s = 0
                 \<or> (\<exists>rs w2. cf_list s fuel out w1 = (Inr rs, w2) \<and> int (length rs) < st_max_hostnames s))))"
proof -
  obtain r w1 where f: "cf_find s d out w = (r, w1)" by fastforce
  obtain cs1 where 1: "w_calls w1 = w_calls w @ cs1" "list_all cloud_read cs1" using reads_run [OF reads_find f] by blast
  show ?thesis
  proof (cases "r = Inr None")
    case False
    then have "w_calls (snd (cf_create s fuel d out w)) = w_calls w1"
      using f by (auto simp: cf_create_def dest: to_record_quiet split: sum.splits option.splits prod.splits)
    with 1 show ?thesis by auto
  next
    case True
    obtain u w2 where c: "cf_check_cap s fuel out w1 = (u, w2)" by fastforce
    obtain cs2 where 2: "w_calls w2 = w_calls w1 @ cs2" "list_all cloud_read cs2"
      using reads_run [OF reads_check_cap c] by blast
    show ?thesis
    proof (cases u)
      case (Inl e)
      then have "w_calls (snd (cf_create s fuel d out w)) = w_calls w @ (cs1 @ cs2)"
        using f c True 1 2 by (simp add: cf_create_def)
      with 1 2 show ?thesis by (metis list_all_append)
    next
      case (Inr v)
      let ?post = "Cloud ''POST'' (zone_path s) [] (Some (create_body d))"
      obtain p w3 where p: "cf_request ''POST'' (zone_path s) [] (Some (create_body d)) out w2 = (p, w3)" by fastforce
      then have "w_calls w3 = w_calls w2 @ [?post]" using quiet_calls(1) by (metis snd_conv)
      moreover have "w_calls (snd (cf_create s fuel d out w)) = w_calls w3"
        using f c True Inr p
        by (auto simp: cf_create_def or_crash_def dest: to_record_quiet split: sum.splits option.splits prod.splits)
      ultimately have "w_calls (snd (cf_create s fuel d out w)) = w_calls w @ (cs1 @ cs2 @ [?post])" using 1 2 by simp
      moreover have "filter (\<lambda>c. \<not> cloud_read c) (cs1 @ cs2 @ [?post]) = [?post]"
        using 1(2) 2(2) by (simp add: list_all_iff filter_empty_conv cloud_read_def)
      moreover have "st_max_hostnames s = 0 \<or> (\<exists>rs. cf_list s fuel out w1 = (Inr rs, w2) \<and> int (length rs) < st_max_hostnames s)"
        using check_cap_passes c Inr by blast
      ultimately show ?thesis using f True by blast
    qed
  qed
qed

lemma request_answer:
  assumes "cf_request verb path ps body out w = (Inr payload, w')"
  shows "total_pages payload = Some 1
    \<or> (\<exists>st t. o_http out (w_calls w) (Cloud verb path ps body) = Reply st t \<and> loads t = Some payload)"
proof -
  have same: "j = payload'" if "cf_payload st payload' = Some (Inr j)" for st payload' j
    using that by (auto simp: cf_payload_def Let_def split: option.splits if_splits bind_splits)
  have nf: "total_pages (JObj [(''success'', JBool False), (''errors'', x)]) = Some 1" for x
    by (simp add: total_pages_def jget_or_def jget_def dget_def jor_def)
  show ?thesis
    using assms nf
    by (auto simp: cf_request_def or_crash_def split: reply.splits option.splits sum.splits if_splits dest: same)
qed

lemma request_ends: "fst (cf_request verb path ps body out w) \<noteq> Inl Unfinished"
  by (auto simp: cf_request_def or_crash_def cf_payload_def upstream_error_def quota_exceeded_def Let_def
      split: reply.splits option.splits sum.splits if_splits bind_splits)

lemma to_record_ends: "cf_to_record s r out w \<noteq> (Inl Unfinished, w')"
  by (auto simp: cf_to_record_def or_crash_def split: option.splits)

lemma records_end: "cf_records s rs out w \<noteq> (Inl Unfinished, w')"
proof (induction rs arbitrary: w w')
  case (Cons r rs)
  obtain x w1 where "cf_to_record s r out w = (x, w1)" by fastforce
  then show ?case using Cons to_record_ends [of s r out w w1] by (auto split: sum.splits prod.splits)
qed simp

definition pages_bounded :: "outside \<Rightarrow> nat \<Rightarrow> bool" where
  "pages_bounded out n \<longleftrightarrow> (\<forall>cs c st t payload k. o_http out cs c = Reply st t \<longrightarrow> loads t = Some payload
     \<longrightarrow> total_pages payload = Some k \<longrightarrow> k \<le> int n)"

lemma pages_end:
  assumes "pages_bounded out n" and "1 \<le> page" and "0 < fuel" and "int n < page + int fuel"
  shows "fst (cf_pages s fuel page acc out w) \<noteq> Inl Unfinished"
  using assms(2-)
proof (induction fuel arbitrary: page acc w)
  case (Suc fuel)
  let ?req = "cf_request ''GET'' (zone_path s) [(''page'', show_int page), (''per_page'', ''50'')] None"
  obtain r w1 where q: "?req out w = (r, w1)" by fastforce
  show ?case
  proof (cases r)
    case (Inl e)
    with q request_ends [of "''GET''" "zone_path s" "[(''page'', show_int page), (''per_page'', ''50'')]" None out w]
    show ?thesis by auto
  next
    case (Inr payload)
    have bound: "k \<le> max 1 (int n)" if "total_pages payload = Some k" for k
      using request_answer [OF q [unfolded Inr]] that assms(1) unfolding pages_bounded_def by fastforce
    have next': "fst (cf_pages s fuel (page + 1) acc' out w') \<noteq> Inl Unfinished"
      if "total_pages payload = Some k" "page < k" for k acc' w'
      using bound [OF that(1)] that(2) Suc.prems by (intro Suc.IH) auto
    show ?thesis
      using q Inr next' records_end [of s]
      by (auto simp: or_crash_def split: option.splits prod.splits sum.splits if_splits)
  qed
qed simp

text \<open>C39: listing ends. If no answer of Cloudflare claims more than \<open>n\<close> pages, \<open>n\<close> passes of the paging
  loop (one, if \<open>n\<close> is 0) are enough, whatever the answers are otherwise.\<close>

theorem listing_ends:
  assumes "pages_bounded out n"
  shows "fst (cf_list s (max 1 n) out w) \<noteq> Inl Unfinished"
  unfolding cf_list_def using assms by (intro pages_end) auto

definition two_pages :: "call list \<Rightarrow> call \<Rightarrow> reply" where
  \<open>two_pages cs c = Reply 200
     ''{"success": true, "result": [{"id": "1"}], "result_info": {"total_pages": 2}}''\<close>

theorem listing_ends_witness:
  "fst (cf_list (demo_settings False []) 2 (demo_out two_pages) fresh_world) \<noteq> Inl Unfinished
   \<and> fst (cf_list (demo_settings False []) 1 (demo_out two_pages) fresh_world) = Inl Unfinished"
proof -
  have \<open>Option.bind (loads ''{"success": true, "result": [{"id": "1"}], "result_info": {"total_pages": 2}}'')
      total_pages = Some 2\<close> by code_simp
  then have "pages_bounded (demo_out two_pages) 2"
    by (auto simp: pages_bounded_def demo_out_def two_pages_def)
  from listing_ends [OF this, of "demo_settings False []" fresh_world]
  have "fst (cf_list (demo_settings False []) 2 (demo_out two_pages) fresh_world) \<noteq> Inl Unfinished"
    by (simp only: max_def) simp
  moreover have "fst (cf_list (demo_settings False []) 1 (demo_out two_pages) fresh_world) = Inl Unfinished"
    by code_simp
  ultimately show ?thesis by simp
qed

end
