(* ===== verification/Teardown.thy ===== *)
theory Teardown
  imports JsonText PyTime Effects
begin

text \<open>
  scripts/preflight_node_teardown.py: the check before a node is wiped, which counts the intact
  copies of every Longhorn volume that would be left. None is an exception the check does not
  catch (the program ends with a traceback). The files and the text of a JSON error are parameters.
\<close>

definition DEFAULT_MIN_SURVIVING :: int where
  "DEFAULT_MIN_SURVIVING = 2"

definition DEFAULT_COOLDOWN_MINUTES :: int where
  "DEFAULT_COOLDOWN_MINUTES = 30"

section \<open>Keys\<close>

text \<open>Keys of a dict are compared with \<open>==\<close>: \<open>1\<close>, \<open>1.0\<close> and \<open>True\<close> are one key.\<close>

fun key_num :: "json \<Rightarrow> flt option" where
  "key_num (JStr s) = None"
| "key_num j = py_float j"

definition same_key :: "json \<Rightarrow> json \<Rightarrow> bool" where
  "same_key a b \<longleftrightarrow> a = b \<or> (key_num a \<noteq> None \<and> key_num a = key_num b)"

definition volume_of :: "json \<Rightarrow> json option" where
  "volume_of r =
     do { spec \<leftarrow> jget_or r ''spec'' (JObj []); n \<leftarrow> jget spec ''volumeName''; guard_opt (hashable n) (Some n) }"

definition replicas_of :: "json \<Rightarrow> (json \<times> json) list \<Rightarrow> json list" where
  "replicas_of name by_volume = map snd (filter (\<lambda>kv. same_key (fst kv) name) by_volume)"

section \<open>Replicas\<close>

definition replica_is_intact :: "json \<Rightarrow> bool \<Rightarrow> bool option" where
  "replica_is_intact replica volume_attached =
     do { spec \<leftarrow> jget_or replica ''spec'' (JObj []);
          status \<leftarrow> jget_or replica ''status'' (JObj []);
          failed \<leftarrow> jget spec ''failedAt'';
          (if truthy failed then Some False
           else if volume_attached
           then do { state \<leftarrow> jget status ''currentState''; Some (state = JStr ''running'') }
           else Some True) }"

definition survives :: "string \<Rightarrow> bool \<Rightarrow> json \<Rightarrow> bool option" where
  "survives node attached r =
     do { spec \<leftarrow> jidx r ''spec''; host \<leftarrow> jget spec ''nodeID'';
          (if host = JStr node then Some False else replica_is_intact r attached) }"

section \<open>The cooldown\<close>

text \<open>\<open>(now - ts).total_seconds() / 60\<close>; subtracting a naive time raises.\<close>

definition minutes_since :: "datetime \<Rightarrow> datetime \<times> int option \<Rightarrow> rat option" where
  "minutes_since now ts =
     map_option (\<lambda>off. of_int (to_us now - (to_us (fst ts) - off)) / 60000000) (snd ts)"

definition failure_text :: "json \<Rightarrow> json \<Rightarrow> rat \<Rightarrow> string option" where
  "failure_text r spec age =
     do { meta \<leftarrow> jget_d r ''metadata'' (JObj []);
          name \<leftarrow> jget_d meta ''name'' (JStr ''?'');
          host \<leftarrow> jget spec ''nodeID'';
          Some (py_str name @ '' on '' @ py_str host @ '' ('' @ fmt_rat 1 age @ ''m ago)'') }"

text \<open>The replicas that failed within the cooldown; Inl is a time that cannot be read.\<close>

fun recent_failures :: "datetime \<Rightarrow> int \<Rightarrow> json list \<Rightarrow> (json + string list) option" where
  "recent_failures now cooldown [] = Some (Inr [])"
| "recent_failures now cooldown (r # rs) =
     do { spec \<leftarrow> jget_or r ''spec'' (JObj []);
          failed_at \<leftarrow> jget spec ''failedAt'';
          (if \<not> truthy failed_at then recent_failures now cooldown rs
           else do { v \<leftarrow> as_text failed_at;
             (case parse_stamp v of
                None \<Rightarrow> Some (Inl failed_at)
              | Some ts \<Rightarrow>
                  do { age \<leftarrow> minutes_since now ts;
                       here \<leftarrow> (if age < of_int cooldown then map_option (\<lambda>t. [t]) (failure_text r spec age)
                               else Some []);
                       rest \<leftarrow> recent_failures now cooldown rs;
                       Some (case rest of Inl v \<Rightarrow> Inl v | Inr ts \<Rightarrow> Inr (here @ ts)) }) }) }"

section \<open>The volumes\<close>

record at_risk =
  ar_name :: json
  ar_surviving :: nat
  ar_want :: json
  ar_robustness :: json
  ar_where :: string

definition node_text :: "json \<Rightarrow> string option" where
  "node_text r = do { spec \<leftarrow> jidx r ''spec''; host \<leftarrow> jget_or spec ''nodeID'' (JStr ''?''); as_text host }"

text \<open>The verdict on one volume: whether its copies were counted, and the risk.\<close>

definition check_volume ::
  "string \<Rightarrow> int \<Rightarrow> (json \<times> json) list \<Rightarrow> json \<Rightarrow> (bool \<times> at_risk option) option" where
  "check_volume node min_surviving by_volume v =
     do { meta \<leftarrow> jget_d v ''metadata'' (JObj []);
          name \<leftarrow> jget_d meta ''name'' (JStr ''?'');
          spec \<leftarrow> jget_or v ''spec'' (JObj []);
          status \<leftarrow> jget_or v ''status'' (JObj []);
          guard_opt (hashable name)
            (if replicas_of name by_volume = []
             then do { want \<leftarrow> jget spec ''numberOfReplicas''; rob \<leftarrow> jget status ''robustness'';
                       Some (False, Some \<lparr>ar_name = name, ar_surviving = 0, ar_want = want,
                         ar_robustness = rob, ar_where = ''no replica records''\<rparr>) }
             else do { state \<leftarrow> jget status ''state'';
                       surviving \<leftarrow> filter_opt (survives node (state = JStr ''attached'')) (replicas_of name by_volume);
                       (if int (length surviving) < min_surviving
                        then do { want \<leftarrow> jget spec ''numberOfReplicas''; rob \<leftarrow> jget status ''robustness'';
                                  hosts \<leftarrow> those (map node_text surviving);
                                  Some (True, Some \<lparr>ar_name = name, ar_surviving = length surviving,
                                    ar_want = want, ar_robustness = rob,
                                    ar_where = ''on '' @ str_join '', '' (sort hosts)\<rparr>) }
                        else Some (True, None)) }) }"

definition risk_line :: "at_risk \<Rightarrow> string" where
  "risk_line a =
     ''  '' @ py_str (ar_name a) @ '': '' @ show_int (int (ar_surviving a))
     @ '' intact replica(s) would survive (numberOfReplicas='' @ py_str (ar_want a) @ '', robustness=''
     @ py_str (ar_robustness a) @ '') ['' @ ar_where a @ '']''"

section \<open>The verdict\<close>

definition cooldown_blocker :: "int \<Rightarrow> string list \<Rightarrow> string" where
  "cooldown_blocker cooldown recent =
     show_int (int (length recent)) @ '' replica(s) failed within the last '' @ show_int cooldown @ ''m [''
     @ str_join '', '' (take 4 recent) @ '']. A rebuild from a previous teardown is still in flight; ''
     @ ''its replicas are not yet real redundancy. Wait for every volume to ''
     @ ''report robustness=healthy.''"

definition risk_blocker :: "string \<Rightarrow> int \<Rightarrow> at_risk list \<Rightarrow> string" where
  "risk_blocker node min_surviving risks =
     show_int (int (length risks)) @ '' volume(s) would be left with fewer than '' @ show_int min_surviving
     @ '' intact copies after wiping '' @ node @ '':'' @ newline @ str_join newline (map risk_line risks)"

type_synonym verdict = "bool \<times> string list \<times> jobj"

definition unreadable :: "string \<Rightarrow> verdict" where
  "unreadable why = (False, [why], [])"

definition teardown_summary ::
  "string \<Rightarrow> int \<Rightarrow> int \<Rightarrow> nat \<Rightarrow> nat \<Rightarrow> nat \<Rightarrow> nat \<Rightarrow> jobj" where
  "teardown_summary node min_surviving cooldown all_of checked risks recent =
     [(''node'', JStr node), (''volumes_total'', JInt (int all_of)), (''volumes_checked'', JInt (int checked)),
      (''volumes_at_risk'', JInt (int risks)), (''recent_replica_failures'', JInt (int recent)),
      (''min_surviving_required'', JInt min_surviving), (''cooldown_minutes'', JInt cooldown)]"

definition evaluate_volumes ::
  "string \<Rightarrow> int \<Rightarrow> int \<Rightarrow> json list \<Rightarrow> (json \<times> json) list \<Rightarrow> string list \<Rightarrow> verdict option" where
  "evaluate_volumes node min_surviving cooldown vols by_volume recent =
     do { checks \<leftarrow> those (map (check_volume node min_surviving by_volume) vols);
          (let risks = List.map_filter snd checks;
               blockers = (if recent \<noteq> [] then [cooldown_blocker cooldown recent] else [])
                 @ (if risks \<noteq> [] then [risk_blocker node min_surviving risks] else [])
           in Some (blockers = [], blockers,
                    teardown_summary node min_surviving cooldown (length vols)
                      (length (filter fst checks)) (length risks) (length recent))) }"

definition evaluate_teardown ::
  "string \<Rightarrow> json \<Rightarrow> json \<Rightarrow> int \<Rightarrow> int \<Rightarrow> datetime \<Rightarrow> verdict option" where
  "evaluate_teardown node volumes replicas min_surviving cooldown now =
     do { vi \<leftarrow> jget volumes ''items'';
          ri \<leftarrow> jget replicas ''items'';
          (if vi = JNull \<or> ri = JNull
           then Some (unreadable ''could not read Longhorn volumes/replicas (fail closed)'')
           else if \<not> truthy vi
           then Some (unreadable (''zero Longhorn volumes parsed. Either Longhorn is not installed or the ''
                  @ ''query failed; refusing rather than reporting '' @ quoted ''safe'' @ '' from an empty set''))
           else do { reps \<leftarrow> jiter ri;
                     names \<leftarrow> those (map volume_of reps);
                     failures \<leftarrow> recent_failures now cooldown reps;
                     (case failures of
                        Inl v \<Rightarrow> Some (unreadable (''unparseable failedAt '' @ json_repr v @ '' (fail closed)''))
                      | Inr recent \<Rightarrow>
                          do { vols \<leftarrow> jiter vi;
                               evaluate_volumes node min_surviving cooldown vols (zip names reps) recent }) }) }"

section \<open>The program\<close>

record teardown_args =
  t_node :: string
  t_volumes :: string   \<comment> \<open>a file, or empty\<close>
  t_replicas :: string
  t_min_surviving :: int
  t_cooldown :: int
  t_kubectl :: string

text \<open>The outside of the reading: the text of a file or of the exception, and the text of the exception
  for a text that is not JSON.\<close>

definition decode :: "(string \<Rightarrow> string) \<Rightarrow> string \<Rightarrow> string + json" where
  "decode bad_json text' = (case loads text' of None \<Rightarrow> Inl (bad_json text') | Some j \<Rightarrow> Inr j)"

definition run_cmd :: "string list \<Rightarrow> (string + string) io" where
  "run_cmd cmd =
     bnd (proc cmd None) (\<lambda>r.
       case r of
         NotRun exc \<Rightarrow> ret (Inl exc)
       | Completed code out err \<Rightarrow>
           (if code \<noteq> 0
            then ret (Inl (str_join '' '' cmd @ '' failed: '' @ take_chars 300 (str_strip err)))
            else ret (Inr out)))"

definition load_json ::
  "(string \<Rightarrow> string + string) \<Rightarrow> (string \<Rightarrow> string) \<Rightarrow> string \<Rightarrow> string list \<Rightarrow> (string + json) io" where
  "load_json file bad_json path cmd =
     bnd (if path \<noteq> [] then ret (file path) else run_cmd cmd) (\<lambda>r.
       ret (case r of Inl exc \<Rightarrow> Inl exc | Inr text' \<Rightarrow> decode bad_json text'))"

definition longhorn_cmd :: "string \<Rightarrow> string \<Rightarrow> string list" where
  "longhorn_cmd kubectl kind = [kubectl, ''-n'', ''longhorn-system'', ''get'', kind, ''-o'', ''json'']"

definition refused_unread :: "string \<Rightarrow> int io" where
  "refused_unread exc =
     seq (emit (Print (''REFUSED: cannot read Longhorn state ('' @ exc @ ''). Failing closed.''))) (ret 2)"

definition teardown_head :: "jobj \<Rightarrow> string" where
  "teardown_head s =
     ''preflight-node-teardown: node='' @ py_str (dget s ''node'' JNull)
     @ '' volumes='' @ py_str (dget s ''volumes_total'' JNull)
     @ '' at_risk='' @ py_str (dget s ''volumes_at_risk'' JNull)
     @ '' recent_failures='' @ py_str (dget s ''recent_replica_failures'' JNull)"

definition teardown_advice :: string where
  "teardown_advice =
     newline @ ''This is the check that was missing on 2026-09-07, when the Prometheus TSDB ''
     @ ''was destroyed by two node rebuilds 25 minutes apart.'' @ newline
     @ ''To clear it: wait until every volume reports robustness=healthy (not ''
     @ ''degraded), and raise numberOfReplicas on any single-copy volume BEFORE the ''
     @ ''teardown, not during it.''"

definition report_verdict :: "teardown_args \<Rightarrow> verdict \<Rightarrow> int io" where
  "report_verdict a v =
     (let (ok, blockers, summary) = v
      in seq (emit (Print (teardown_head summary)))
           (if ok
            then seq (emit (Print (''OK: every volume keeps >= '' @ show_int (t_min_surviving a)
                   @ '' intact replicas after wiping '' @ t_node a @ ''.''))) (ret 0)
            else seq (emit (Print (newline @ ''REFUSED: wiping '' @ t_node a
                   @ '' risks destroying the last copy of data.'' @ newline)))
                 (bnd (each (\<lambda>b _. emit (Print (''- '' @ b))) blockers ()) (\<lambda>_.
                  seq (emit (Print teardown_advice)) (ret 1)))))"

definition teardown_main ::
  "(string \<Rightarrow> string + string) \<Rightarrow> (string \<Rightarrow> string) \<Rightarrow> teardown_args \<Rightarrow> datetime \<Rightarrow> int io" where
  "teardown_main file bad_json a now =
     bnd (load_json file bad_json (t_volumes a) (longhorn_cmd (t_kubectl a) ''volumes.longhorn.io'')) (\<lambda>vs.
       case vs of
         Inl exc \<Rightarrow> refused_unread exc
       | Inr volumes \<Rightarrow>
           bnd (load_json file bad_json (t_replicas a) (longhorn_cmd (t_kubectl a) ''replicas.longhorn.io'')) (\<lambda>rs.
             case rs of
               Inl exc \<Rightarrow> refused_unread exc
             | Inr replicas \<Rightarrow>
                 bnd (opt (evaluate_teardown (t_node a) volumes replicas (t_min_surviving a) (t_cooldown a) now))
                   (report_verdict a)))"

end
