(* ===== verification/Teardown_Properties.thy ===== *)
theory Teardown_Properties
  imports Teardown
begin

text \<open>
  What an approval to wipe a node means: the verdict as an exact statement about the replicas, and
  the program's exit code 0.
\<close>

section \<open>The specification\<close>

definition member :: "json \<Rightarrow> string \<Rightarrow> json" where
  "member x k = (case jget x k of Some v \<Rightarrow> v | None \<Rightarrow> JNull)"

definition part :: "json \<Rightarrow> string \<Rightarrow> json" where
  "part x k = jor (member x k) (JObj [])"

definition volume_name :: "json \<Rightarrow> json" where
  "volume_name v =
     (case Option.bind (jget_d v ''metadata'' (JObj [])) (\<lambda>m. jget_d m ''name'' (JStr ''?'')) of
        Some n \<Rightarrow> n | None \<Rightarrow> JNull)"

definition belongs :: "json \<Rightarrow> json \<Rightarrow> bool" where
  "belongs v r \<longleftrightarrow> same_key (member (part r ''spec'') ''volumeName'') (volume_name v)"

text \<open>A copy that is left when the node is wiped: on another node, not failed, and running when the
  volume is attached.\<close>

definition backs :: "string \<Rightarrow> json \<Rightarrow> json \<Rightarrow> bool" where
  "backs node v r \<longleftrightarrow>
     member (part r ''spec'') ''nodeID'' \<noteq> JStr node
     \<and> \<not> truthy (member (part r ''spec'') ''failedAt'')
     \<and> (member (part v ''status'') ''state'' = JStr ''attached''
        \<longrightarrow> member (part r ''status'') ''currentState'' = JStr ''running'')"

definition copies :: "string \<Rightarrow> json list \<Rightarrow> json \<Rightarrow> json list" where
  "copies node reps v = filter (\<lambda>r. belongs v r \<and> backs node v r) reps"

text \<open>A replica that has not failed, or failed at a readable time at least the cooldown ago.\<close>

definition settled :: "datetime \<Rightarrow> int \<Rightarrow> json \<Rightarrow> bool" where
  "settled now cooldown r \<longleftrightarrow>
     (let f = member (part r ''spec'') ''failedAt''
      in \<not> truthy f
         \<or> (\<exists>t ts age. f = JStr t \<and> parse_stamp t = Some ts \<and> minutes_since now ts = Some age
              \<and> of_int cooldown \<le> age))"

definition safe_to_wipe :: "string \<Rightarrow> int \<Rightarrow> int \<Rightarrow> datetime \<Rightarrow> json list \<Rightarrow> json list \<Rightarrow> bool" where
  "safe_to_wipe node m cooldown now vols reps \<longleftrightarrow>
     vols \<noteq> [] \<and> list_all (settled now cooldown) reps
     \<and> list_all (\<lambda>v. list_ex (belongs v) reps \<and> m \<le> int (length (copies node reps v))) vols"

section \<open>The pieces\<close>

lemma jget_or_part: "jget_or x k (JObj []) = Some y \<Longrightarrow> y = part x k"
  by (auto simp: jget_or_def part_def member_def)

lemma jget_member: "jget x k = Some y \<Longrightarrow> y = member x k"
  by (simp add: member_def)

lemma jidx_part: "jidx r k = Some x \<Longrightarrow> jget x j = Some y \<Longrightarrow> y = member (part r k) j"
  by (cases r; cases x) (auto simp: jget_def dget_def part_def member_def jor_def split: option.splits)

lemma intact_exact:
  assumes "replica_is_intact r attached = Some b"
  shows "b \<longleftrightarrow> \<not> truthy (member (part r ''spec'') ''failedAt'')
    \<and> (attached \<longrightarrow> member (part r ''status'') ''currentState'' = JStr ''running'')"
proof -
  from assms obtain spec status f where s: "jget_or r ''spec'' (JObj []) = Some spec"
    "jget_or r ''status'' (JObj []) = Some status" "jget spec ''failedAt'' = Some f"
    and b: "(if truthy f then Some False
      else if attached then do { state \<leftarrow> jget status ''currentState''; Some (state = JStr ''running'') }
      else Some True) = Some b"
    by (auto simp: replica_is_intact_def bind_eq_Some_conv)
  have "f = member (part r ''spec'') ''failedAt''" "status = part r ''status''"
    using jget_member [OF s(3)] jget_or_part [OF s(1)] jget_or_part [OF s(2)] by simp_all
  with b show ?thesis by (auto simp: bind_eq_Some_conv dest: jget_member split: if_splits)
qed

lemma survives_backs:
  assumes "survives node (member (part v ''status'') ''state'' = JStr ''attached'') r = Some b"
  shows "b \<longleftrightarrow> backs node v r"
proof -
  from assms obtain spec host where s: "jidx r ''spec'' = Some spec" "jget spec ''nodeID'' = Some host"
    and b: "(if host = JStr node then Some False
      else replica_is_intact r (member (part v ''status'') ''state'' = JStr ''attached'')) = Some b"
    by (auto simp: survives_def bind_eq_Some_conv)
  have "host = member (part r ''spec'') ''nodeID''" using jidx_part [OF s] .
  with b intact_exact show ?thesis by (auto simp: backs_def split: if_splits)
qed

lemma volume_of_member: "volume_of r = Some n \<Longrightarrow> n = member (part r ''spec'') ''volumeName''"
  by (auto simp: volume_of_def guard_opt_def bind_eq_Some_conv split: if_splits
      dest!: jget_or_part dest: jget_member)

lemma replicas_of_belongs:
  assumes "those (map volume_of reps) = Some names"
  shows "replicas_of (volume_name v) (zip names reps) = filter (belongs v) reps"
proof -
  from assms have "names = map (\<lambda>r. member (part r ''spec'') ''volumeName'') reps"
  proof (induction reps arbitrary: names)
    case (Cons r rs)
    then obtain n ns where "volume_of r = Some n" "those (map volume_of rs) = Some ns" "names = n # ns"
      by (auto split: option.splits)
    with Cons.IH volume_of_member show ?case by auto
  qed simp
  then show ?thesis by (induction reps arbitrary: names) (auto simp: replicas_of_def belongs_def)
qed

lemma check_volume_parts:
  assumes "check_volume node m by_volume v = Some (b, risk)"
  shows "if replicas_of (volume_name v) by_volume = [] then risk \<noteq> None
    else \<exists>surviving. filter_opt (survives node (member (part v ''status'') ''state'' = JStr ''attached''))
           (replicas_of (volume_name v) by_volume) = Some surviving
         \<and> (risk = None \<longleftrightarrow> m \<le> int (length surviving))"
proof -
  from assms obtain meta name status where n: "jget_d v ''metadata'' (JObj []) = Some meta"
    "jget_d meta ''name'' (JStr ''?'') = Some name" and s: "jget_or v ''status'' (JObj []) = Some status"
    by (auto simp: check_volume_def bind_eq_Some_conv)
  have name: "name = volume_name v" using n by (simp add: volume_name_def)
  have status: "status = part v ''status''" using s by (rule jget_or_part)
  show ?thesis
  proof (cases "replicas_of (volume_name v) by_volume = []")
    case True
    with assms n s name show ?thesis
      by (auto simp: check_volume_def guard_opt_def bind_eq_Some_conv split: if_splits)
  next
    case False
    with assms n s name obtain state surviving where "jget status ''state'' = Some state"
      "filter_opt (survives node (state = JStr ''attached'')) (replicas_of (volume_name v) by_volume) = Some surviving"
      "risk = None \<longleftrightarrow> m \<le> int (length surviving)"
      by (auto simp: check_volume_def guard_opt_def bind_eq_Some_conv split: if_splits)
    with status False jget_member show ?thesis by force
  qed
qed

lemma check_volume_exact:
  assumes "check_volume node m (zip names reps) v = Some (b, risk)" and "those (map volume_of reps) = Some names"
  shows "risk = None \<longleftrightarrow> list_ex (belongs v) reps \<and> m \<le> int (length (copies node reps v))"
proof (cases "filter (belongs v) reps = []")
  case True
  with check_volume_parts [OF assms(1)] replicas_of_belongs [OF assms(2), of v] have "risk \<noteq> None" by simp
  with True show ?thesis by (auto simp: filter_empty_conv list_ex_iff)
next
  case False
  with check_volume_parts [OF assms(1)] replicas_of_belongs [OF assms(2), of v] obtain surviving where
    f: "filter_opt (survives node (member (part v ''status'') ''state'' = JStr ''attached'')) (filter (belongs v) reps)
      = Some surviving" and r: "risk = None \<longleftrightarrow> m \<le> int (length surviving)" by auto
  have "surviving = filter (backs node v) (filter (belongs v) reps)"
    using filter_opt_Some [OF f] survives_backs [of node v] by (auto intro!: filter_cong)
  then have "surviving = copies node reps v" by (simp add: copies_def conj_commute)
  with r False show ?thesis by (auto simp: filter_empty_conv list_ex_iff)
qed

lemma recent_failures_settled:
  "recent_failures now c rs = Some x \<Longrightarrow> x = Inr [] \<longleftrightarrow> list_all (settled now c) rs"
proof (induction rs arbitrary: x)
  case (Cons r rs)
  from Cons.prems obtain spec f where s: "jget_or r ''spec'' (JObj []) = Some spec" "jget spec ''failedAt'' = Some f"
    by (auto simp: bind_eq_Some_conv)
  have f: "f = member (part r ''spec'') ''failedAt''" using jget_or_part [OF s(1)] jget_member [OF s(2)] by simp
  show ?case
  proof (cases "truthy f")
    case False
    with Cons s have "x = Inr [] \<longleftrightarrow> list_all (settled now c) rs" by simp
    moreover have "settled now c r" using False f by (simp add: settled_def)
    ultimately show ?thesis by simp
  next
    case True
    with Cons.prems s obtain t where t: "f = JStr t" by (auto simp: as_text_Some bind_eq_Some_conv)
    show ?thesis
    proof (cases "parse_stamp t")
      case None
      with Cons.prems s True t have "\<exists>v. x = Inl v" by auto
      moreover have "\<not> settled now c r" using None True t unfolding settled_def Let_def f [symmetric] by simp
      ultimately show ?thesis by auto
    next
      case (Some ts)
      with Cons.prems s True t obtain age here rest where a: "minutes_since now ts = Some age"
        "(if age < of_int c then map_option (\<lambda>t. [t]) (failure_text r spec age) else Some []) = Some here"
        "recent_failures now c rs = Some rest" "x = (case rest of Inl v \<Rightarrow> Inl v | Inr ts \<Rightarrow> Inr (here @ ts))"
        by (auto simp: bind_eq_Some_conv)
      have "settled now c r \<longleftrightarrow> of_int c \<le> age"
        using a(1) Some True t unfolding settled_def Let_def f [symmetric] by (cases ts) auto
      then have "here = [] \<longleftrightarrow> settled now c r" using a(2) by (auto split: if_splits)
      with Cons.IH [OF a(3)] a(4) show ?thesis by (auto split: sum.splits)
    qed
  qed
qed simp

lemma map_filter_Nil: "List.map_filter f xs = [] \<longleftrightarrow> list_all (\<lambda>x. f x = None) xs"
  by (induction xs) (auto simp: List.map_filter_simps split: option.splits)

lemma evaluate_volumes_ok:
  assumes "evaluate_volumes node m c vols (zip names reps) recent = Some (ok, bs, sm)"
    and "those (map volume_of reps) = Some names"
  shows "ok \<longleftrightarrow> recent = []
    \<and> list_all (\<lambda>v. list_ex (belongs v) reps \<and> m \<le> int (length (copies node reps v))) vols"
proof -
  from assms(1) obtain checks where c: "those (map (check_volume node m (zip names reps)) vols) = Some checks"
    and ok: "ok \<longleftrightarrow> (if recent \<noteq> [] then [cooldown_blocker c recent] else [])
      @ (if List.map_filter snd checks \<noteq> [] then [risk_blocker node m (List.map_filter snd checks)] else []) = []"
    by (auto simp: evaluate_volumes_def Let_def bind_eq_Some_conv)
  have ok: "ok \<longleftrightarrow> recent = [] \<and> List.map_filter snd checks = []"
    unfolding ok by (cases "recent = []"; cases "List.map_filter snd checks = []") simp_all
  from c have "list_all (\<lambda>x. snd x = None) checks
    \<longleftrightarrow> list_all (\<lambda>v. list_ex (belongs v) reps \<and> m \<le> int (length (copies node reps v))) vols"
  proof (induction vols arbitrary: checks)
    case (Cons v vs)
    then obtain b risk cs where v: "check_volume node m (zip names reps) v = Some (b, risk)"
      and cs: "those (map (check_volume node m (zip names reps)) vs) = Some cs" "checks = (b, risk) # cs"
      by (auto split: option.splits)
    from check_volume_exact [OF v assms(2)] Cons.IH [OF cs(1)] cs(2) show ?case by simp
  qed simp
  with ok show ?thesis by (simp add: map_filter_Nil)
qed

section \<open>The verdict\<close>

definition items :: "json \<Rightarrow> json list option" where
  "items j = Option.bind (jget j ''items'') jiter"

lemma not_truthy_items: "jget j ''items'' = Some x \<Longrightarrow> \<not> truthy x \<Longrightarrow> items j = Some xs \<Longrightarrow> xs = []"
  by (cases x) (auto simp: items_def)

lemma verdict_exact:
  assumes "evaluate_teardown node volumes replicas m c now = Some (ok, bs, sm)"
  shows "ok \<longleftrightarrow> (\<exists>vols reps. items volumes = Some vols \<and> items replicas = Some reps \<and> safe_to_wipe node m c now vols reps)"
proof -
  from assms obtain vi ri where i: "jget volumes ''items'' = Some vi" "jget replicas ''items'' = Some ri"
    by (auto simp: evaluate_teardown_def bind_eq_Some_conv)
  consider "vi = JNull \<or> ri = JNull \<or> \<not> truthy vi" | "vi \<noteq> JNull" "ri \<noteq> JNull" "truthy vi" by blast
  then show ?thesis
  proof cases
    case 1
    with assms i have "\<not> ok" by (auto simp: evaluate_teardown_def unreadable_def split: if_splits)
    moreover have "vols = []" if "items volumes = Some vols" "items replicas = Some reps" for vols reps
      using 1 that i not_truthy_items [OF i(1)] by (auto simp: items_def)
    ultimately show ?thesis by (auto simp: safe_to_wipe_def)
  next
    case 2
    with assms i have "do { reps \<leftarrow> jiter ri; names \<leftarrow> those (map volume_of reps);
        failures \<leftarrow> recent_failures now c reps;
        (case failures of
           Inl v \<Rightarrow> Some (unreadable (''unparseable failedAt '' @ json_repr v @ '' (fail closed)''))
         | Inr recent \<Rightarrow> do { vols \<leftarrow> jiter vi; evaluate_volumes node m c vols (zip names reps) recent }) }
      = Some (ok, bs, sm)"
      by (simp add: evaluate_teardown_def)
    then obtain reps names failures where r: "jiter ri = Some reps" "those (map volume_of reps) = Some names"
      "recent_failures now c reps = Some failures"
      and v: "(case failures of
         Inl v \<Rightarrow> Some (unreadable (''unparseable failedAt '' @ json_repr v @ '' (fail closed)''))
       | Inr recent \<Rightarrow> do { vols \<leftarrow> jiter vi; evaluate_volumes node m c vols (zip names reps) recent }) = Some (ok, bs, sm)"
      unfolding bind_eq_Some_conv by blast
    note settled = recent_failures_settled [OF r(3)]
    have reps: "items replicas = Some reps" using i r(1) by (simp add: items_def)
    show ?thesis
    proof (cases failures)
      case (Inl x)
      with v settled have "\<not> ok" "\<not> list_all (settled now c) reps" by (auto simp: unreadable_def)
      with reps show ?thesis by (auto simp: safe_to_wipe_def)
    next
      case (Inr recent)
      with v obtain vols where vols: "jiter vi = Some vols"
        and e: "evaluate_volumes node m c vols (zip names reps) recent = Some (ok, bs, sm)"
        by (auto simp: bind_eq_Some_conv)
      have ne: "vols \<noteq> []" using vols 2 by (cases vi) auto
      have iv: "items volumes = Some vols" using i vols by (simp add: items_def)
      from evaluate_volumes_ok [OF e r(2)] settled Inr ne have "ok \<longleftrightarrow> safe_to_wipe node m c now vols reps"
        by (simp add: safe_to_wipe_def)
      with reps iv show ?thesis by simp
    qed
  qed
qed

text \<open>The verdict is exact. When the check reaches a verdict, it approves precisely when both listings
  could be read, there is at least one volume, every replica that has failed did so at least the
  cooldown ago, and every volume has a replica record and keeps the required number of copies that are
  on other nodes, have not failed and, when the volume is attached, are running.\<close>

theorem teardown_verdict_exact:
  assumes "evaluate_teardown node volumes replicas m c now = Some (ok, bs, sm)"
  shows "ok \<longleftrightarrow> (\<exists>vols reps. items volumes = Some vols \<and> items replicas = Some reps \<and> safe_to_wipe node m c now vols reps)"
  by (rule verdict_exact [OF assms])

text \<open>Two attached volumes with copies on three nodes.\<close>

definition demo_replica :: "string \<Rightarrow> string \<Rightarrow> json \<Rightarrow> json" where
  "demo_replica vol node failed = JObj [(''metadata'', JObj [(''name'', JStr ''r'')]),
     (''spec'', JObj [(''volumeName'', JStr vol), (''nodeID'', JStr node), (''failedAt'', failed)]),
     (''status'', JObj [(''currentState'', JStr ''running'')])]"

definition demo_volumes :: json where
  "demo_volumes = JObj [(''items'', JList [JObj [(''metadata'', JObj [(''name'', JStr ''v'')]),
     (''status'', JObj [(''state'', JStr ''attached'')])]])]"

definition demo_replicas :: json where
  "demo_replicas = JObj [(''items'', JList [demo_replica ''v'' ''a'' (JStr []), demo_replica ''v'' ''b'' (JStr []),
     demo_replica ''v'' ''c'' (JStr ''2026-01-01T00:00:00Z'')])]"

definition demo_now :: datetime where
  "demo_now = \<lparr>dt_year = 2026, dt_month = 1, dt_day = 1, dt_hour = 1, dt_minute = 0, dt_second = 0, dt_micro = 0\<rparr>"

theorem teardown_verdict_exact_witness:
  "\<exists>vols reps. items demo_volumes = Some vols \<and> items demo_replicas = Some reps
     \<and> safe_to_wipe ''c'' 2 30 demo_now vols reps \<and> \<not> safe_to_wipe ''b'' 2 30 demo_now vols reps"
proof -
  obtain bs sm where c: "evaluate_teardown ''c'' demo_volumes demo_replicas 2 30 demo_now = Some (True, bs, sm)"
  proof -
    have "map_option fst (evaluate_teardown ''c'' demo_volumes demo_replicas 2 30 demo_now) = Some True" by code_simp
    then show ?thesis using that by auto
  qed
  obtain bs' sm' where b: "evaluate_teardown ''b'' demo_volumes demo_replicas 2 30 demo_now = Some (False, bs', sm')"
  proof -
    have "map_option fst (evaluate_teardown ''b'' demo_volumes demo_replicas 2 30 demo_now) = Some False" by code_simp
    then show ?thesis using that by auto
  qed
  from teardown_verdict_exact [OF c] teardown_verdict_exact [OF b] show ?thesis by auto
qed

section \<open>The program\<close>

text \<open>C11: exit code 0 is an approval of what the cluster said. The program exits with 0 only if both
  listings were read and parsed, and wiping the node is safe for the volumes and replicas they list.
  Failed commands, unreadable files, text that is not JSON and exceptions never end in 0.\<close>

theorem approval_needs_copies:
  assumes "fst (teardown_main file bad_json a now env tr) = Inr 0"
  shows "\<exists>volumes replicas t1 t2 vols reps.
      load_json file bad_json (t_volumes a) (longhorn_cmd (t_kubectl a) ''volumes.longhorn.io'') env tr
        = (Inr (Inr volumes), t1)
    \<and> load_json file bad_json (t_replicas a) (longhorn_cmd (t_kubectl a) ''replicas.longhorn.io'') env t1
        = (Inr (Inr replicas), t2)
    \<and> items volumes = Some vols \<and> items replicas = Some reps
    \<and> safe_to_wipe (t_node a) (t_min_surviving a) (t_cooldown a) now vols reps"
proof -
  have unread: "refused_unread exc env t \<noteq> (Inr 0, t')" for exc t t'
    by (simp add: refused_unread_def seq_def bnd_def)
  obtain t where run: "teardown_main file bad_json a now env tr = (Inr 0, t)" using assms by (metis prod.collapse)
  then obtain vs t1 where vs: "load_json file bad_json (t_volumes a) (longhorn_cmd (t_kubectl a) ''volumes.longhorn.io'') env tr
      = (Inr vs, t1)" and run: "(case vs of Inl exc \<Rightarrow> refused_unread exc | Inr volumes \<Rightarrow>
        bnd (load_json file bad_json (t_replicas a) (longhorn_cmd (t_kubectl a) ''replicas.longhorn.io'')) (\<lambda>rs.
          case rs of Inl exc \<Rightarrow> refused_unread exc
          | Inr replicas \<Rightarrow> bnd (opt (evaluate_teardown (t_node a) volumes replicas (t_min_surviving a) (t_cooldown a) now))
              (report_verdict a))) env t1 = (Inr 0, t)"
    unfolding teardown_main_def bnd_Inr_iff by blast
  from run unread obtain volumes where v: "vs = Inr volumes" by (cases vs) simp_all
  with run obtain rs t2 where rs: "load_json file bad_json (t_replicas a) (longhorn_cmd (t_kubectl a) ''replicas.longhorn.io'') env t1
      = (Inr rs, t2)" and run: "(case rs of Inl exc \<Rightarrow> refused_unread exc
          | Inr replicas \<Rightarrow> bnd (opt (evaluate_teardown (t_node a) volumes replicas (t_min_surviving a) (t_cooldown a) now))
              (report_verdict a)) env t2 = (Inr 0, t)"
    by (auto simp: bnd_Inr_iff)
  from run unread obtain replicas where r: "rs = Inr replicas" by (cases rs) simp_all
  from run r obtain ok bs sm where e: "evaluate_teardown (t_node a) volumes replicas (t_min_surviving a) (t_cooldown a) now
      = Some (ok, bs, sm)" and rep: "report_verdict a (ok, bs, sm) env t2 = (Inr 0, t)"
    by (auto simp: bnd_Inr_iff opt_def split: option.splits)
  have "ok" using rep by (auto simp: report_verdict_def seq_def bnd_Inr_iff split: if_splits)
  with verdict_exact [OF e] vs rs v r show ?thesis by blast
qed

definition demo_file :: "string \<Rightarrow> string + string" where
  \<open>demo_file path = Inr (if path = ''v''
     then ''{"items":[{"metadata":{"name":"x"}}]}''
     else ''{"items":[{"spec":{"volumeName":"x","nodeID":"a"}},{"spec":{"volumeName":"x","nodeID":"b"}}]}'')\<close>

definition demo_args :: teardown_args where
  "demo_args = \<lparr>t_node = ''c'', t_volumes = ''v'', t_replicas = ''r'', t_min_surviving = DEFAULT_MIN_SURVIVING,
     t_cooldown = DEFAULT_COOLDOWN_MINUTES, t_kubectl = ''kubectl''\<rparr>"

theorem approval_needs_copies_witness:
  "fst (teardown_main demo_file (\<lambda>t. []) demo_args demo_now (\<lambda>tr argv b. NotRun []) []) = Inr 0
   \<and> (\<exists>vols reps. vols \<noteq> [] \<and> safe_to_wipe ''c'' 2 30 demo_now vols reps)"
proof -
  have run: "fst (teardown_main demo_file (\<lambda>t. []) demo_args demo_now (\<lambda>tr argv b. NotRun []) []) = Inr 0"
    by code_simp
  have args: "t_node demo_args = ''c''" "t_min_surviving demo_args = 2" "t_cooldown demo_args = 30"
    by (simp_all add: demo_args_def DEFAULT_MIN_SURVIVING_def DEFAULT_COOLDOWN_MINUTES_def)
  from approval_needs_copies [OF run] run show ?thesis unfolding args safe_to_wipe_def by blast
qed

end
