(* ===== verification/Delegation.thy ===== *)
theory Delegation
  imports Json Effects
begin

text \<open>
  agent-templates/orchestration/capability_delegation.py: the envelope of a delegated turn, the
  registry of capabilities, the callee's authorization, the challenge handshake and the command line.
  Fresh identifiers are a parameter; None is an exception.
\<close>

section \<open>The registry\<close>

definition CAPABILITY_REGISTRY :: "(string \<times> jobj) list" where
  "CAPABILITY_REGISTRY =
    [(''kubectl.read'',
      [(''environment'', JStr ''selfhosted-devops''),
       (''workflow'', JStr ''cluster-query.yml''),
       (''read_only'', JBool True),
       (''notes'', JStr (''prod cluster read (get/logs); prefer the read-only cluster-query.yml for''
        @ '' pure reads''))]),
     (''gitops.edit'',
      [(''environment'', JStr ''cloud-devops''),
       (''read_only'', JBool False),
       (''notes'', JStr (''Helm/Argo/values edit + PR only; FUZE_GITOPS_ONLY, no kubeconfig, never ''
        @ ''direct prod apply''))]),
     (''backend.build'',
      [(''environment'', JStr ''cloud-backend''),
       (''read_only'', JBool False),
       (''notes'', JStr ''backend slice'')]),
     (''frontend.build'',
      [(''environment'', JStr ''cloud-frontend''),
       (''read_only'', JBool False),
       (''notes'', JStr ''frontend slice'')]),
     (''qa.run'',
      [(''environment'', JStr ''cloud-qa''),
       (''read_only'', JBool False),
       (''notes'', JStr ''test/QA slice'')]),
     (''exec.decision'',
      [(''environment'', JStr ''cloud-exec''),
       (''read_only'', JBool False),
       (''notes'', JStr (''tenants Exec-{ceo,cto,cfo,ciso}; governed by the frozen exec A2A card ''
        @ ''contract''))]),
     (''github.secret.provision'',
      [(''environment'', JNull),
       (''workflow'', JStr ''secret-provision.yml''),
       (''read_only'', JBool False),
       (''notes'', JStr (''satisfied by dispatching secret-provision.yml (sources: ''
        @ ''verify|generate|copy). A THIRD-PARTY key (Twilio, Mailjet) cannot be ''
        @ ''injected by any agent path ''
        @ em_dash
        @ '' a human adds the value out of band and the agent confirms it with ''
        @ ''source=verify. For a key bound for the CLUSTER, seal it offline with ''
        @ ''scripts/seal-secret.sh instead (docs/SECRETS_MANAGEMENT.md) ''
        @ em_dash
        @ '' no GitHub secret and no agent plaintext at all.''))]),
     (''database.provision'',
      [(''environment'', JNull),
       (''read_only'', JBool False),
       (''notes'', JStr (''the second half of FuzeInfra''
        @ [CHR 39]
        @ ''s infra-platform A2A tenant (.claude/skills/fuzeinfra-platform-expert) ''
        @ ''-- no handler exists yet that turns a request into an actual data-tier ''
        @ ''reconciliation. Naming this entry is the declared intent, same shape as ''
        @ ''github.secret.provision above; wiring it needs a real owning environment''
        @ '' and a call path into the data-tier reconciler before any delegate may ''
        @ ''honor it as done rather than as UNSUPPORTED.''))])]"

definition capability_environment :: "string \<Rightarrow> json option" where
  "capability_environment cap =
     (case map_of CAPABILITY_REGISTRY cap of
        None \<Rightarrow> Some JNull
      | Some entry \<Rightarrow> (if entry \<noteq> [] then map_of entry ''environment'' else Some JNull))"

definition capability_workflow :: "string \<Rightarrow> json" where
  "capability_workflow cap =
     (case map_of CAPABILITY_REGISTRY cap of
        None \<Rightarrow> JNull
      | Some entry \<Rightarrow> (if entry \<noteq> [] then dget entry ''workflow'' JNull else JNull))"

definition is_satisfiable :: "string \<Rightarrow> bool option" where
  "is_satisfiable cap = map_option (\<lambda>e. truthy (jor e (capability_workflow cap))) (capability_environment cap)"

section \<open>Envelopes\<close>

record envelope =
  e_frm :: string
  e_cap :: string
  e_body :: string
  e_corr :: string
  e_reply_to :: string

definition render :: "envelope \<Rightarrow> string" where
  "render e =
     ''[A2A from='' @ e_frm e @ '' corr='' @ e_corr e @ '' reply_to='' @ e_reply_to e
     @ '' cap='' @ e_cap e @ ''] '' @ e_body e"

text \<open>\<open>reply_to\<close> defaults to the sender, \<open>corr\<close> to a fresh identifier.\<close>

definition make_envelope :: "string \<Rightarrow> string \<Rightarrow> string \<Rightarrow> string \<Rightarrow> string option \<Rightarrow> envelope" where
  "make_envelope frm cap body corr reply_to =
     \<lparr>e_frm = frm, e_cap = cap, e_body = body, e_corr = corr,
      e_reply_to = (case reply_to of None \<Rightarrow> frm | Some r \<Rightarrow> r)\<rparr>"

definition build_envelope ::
  "string \<Rightarrow> string \<Rightarrow> string \<Rightarrow> string \<Rightarrow> string option \<Rightarrow> string option \<Rightarrow> string option" where
  "build_envelope fresh frm cap body corr reply_to =
     (if frm = [] \<or> cap = [] then None
      else let c = (case corr of None \<Rightarrow> fresh | Some c \<Rightarrow> if c = [] then fresh else c)
           in Some (render (make_envelope frm cap body c reply_to)))"

text \<open>The header of \<open>ENVELOPE_RE\<close>. A value is a run of characters that are no blanks and no closing
  bracket. Each field is searched by \<open>[^\]]*\bkey=(value)\<close>: the last place in the header, at the start
  of a word, where the key and a value stand.\<close>

definition word_char :: "char \<Rightarrow> bool" where
  "word_char c \<longleftrightarrow> is_lower c \<or> is_upper c \<or> is_digit c \<or> c = CHR ''_'' \<or> \<not> is_ascii c"

definition val_char :: "char \<Rightarrow> bool" where
  "val_char c \<longleftrightarrow> c \<noteq> CHR '']'' \<and> \<not> is_space c"

definition field_at :: "string \<Rightarrow> string \<Rightarrow> string option" where
  "field_at key s =
     (let v = takeWhile val_char (drop (length key + 1) s)
      in if prefix (key @ ''='') s \<and> v \<noteq> [] then Some v else None)"

fun last_field :: "string \<Rightarrow> bool \<Rightarrow> string \<Rightarrow> string option" where
  "last_field key in_word [] = None"
| "last_field key in_word (c # s) =
     (case last_field key (word_char c) s of
        Some v \<Rightarrow> Some v
      | None \<Rightarrow> (if in_word then None else field_at key (c # s)))"

definition header_field :: "string \<Rightarrow> string \<Rightarrow> string option" where
  "header_field key header = last_field key True header"

text \<open>\<open>\s?(.*)$\<close> after the header.\<close>

definition envelope_body :: "string \<Rightarrow> string" where
  "envelope_body s = (case s of [] \<Rightarrow> [] | c # t \<Rightarrow> if is_space c then t else s)"

definition parse_envelope :: "string \<Rightarrow> envelope option" where
  "parse_envelope text' =
     (let t = str_strip text'; rest = drop 4 t;
          header = takeWhile (\<lambda>c. c \<noteq> CHR '']'') rest
      in guard_opt (prefix ''[A2A'' t \<and> CHR '']'' \<in> set rest)
           (do { frm \<leftarrow> header_field ''from'' header;
                 corr \<leftarrow> header_field ''corr'' header;
                 cap \<leftarrow> header_field ''cap'' header;
                 Some (make_envelope frm cap (envelope_body (drop (Suc (length header)) rest)) corr
                   (header_field ''reply_to'' header)) }))"

section \<open>Authorization\<close>

record verdict_on_turn =
  d_allowed :: bool
  d_reason :: string

text \<open>The two allowlists are sets; \<open>None\<close> counts as empty.\<close>

definition authorize :: "envelope option \<Rightarrow> string list \<Rightarrow> string list \<Rightarrow> verdict_on_turn" where
  "authorize env provides_to allowed_caps =
     (case env of
        None \<Rightarrow> \<lparr>d_allowed = False, d_reason = ''no envelope '' @ em_dash @ '' refusing (fail-closed)''\<rparr>
      | Some e \<Rightarrow>
          (if provides_to = []
           then \<lparr>d_allowed = False, d_reason = ''providesTo is empty '' @ em_dash
                  @ '' accept no callers (fail-closed default)''\<rparr>
           else if \<not> List.member provides_to (e_frm e)
           then \<lparr>d_allowed = False, d_reason = ''sender '' @ quoted (e_frm e)
                  @ '' not on providesTo allowlist '' @ em_dash @ '' refused''\<rparr>
           else if \<not> List.member allowed_caps (e_cap e)
           then \<lparr>d_allowed = False, d_reason = ''capability '' @ quoted (e_cap e)
                  @ '' not in this callee'' @ [CHR 39] @ ''s allowed set '' @ em_dash @ '' refused ''
                  @ ''(capabilities are pre-agreed named operations, not arbitrary commands)''\<rparr>
           else \<lparr>d_allowed = True, d_reason = ''sender allowed and capability '' @ quoted (e_cap e)
                  @ '' is honored''\<rparr>))"

section \<open>The handshake\<close>

definition CHALLENGE_CAP :: string where
  "CHALLENGE_CAP = ''ping''"

definition CHALLENGE_ECHO_CAP :: string where
  "CHALLENGE_ECHO_CAP = ''ping.echo''"

text \<open>The first fresh identifier is the nonce.\<close>

definition make_challenge :: "string \<Rightarrow> string \<Rightarrow> (string \<times> string) option" where
  "make_challenge nonce sender =
     map_option (\<lambda>line. (line, nonce)) (build_envelope nonce sender CHALLENGE_CAP nonce (Some nonce) None)"

text \<open>The outer None is the exception of \<open>build_envelope\<close>.\<close>

definition echo_challenge :: "string \<Rightarrow> envelope option \<Rightarrow> string \<Rightarrow> string option option" where
  "echo_challenge fresh ping responder =
     (case ping of
        None \<Rightarrow> Some None
      | Some e \<Rightarrow>
          (if e_cap e \<noteq> CHALLENGE_CAP then Some None
           else map_option Some (build_envelope fresh responder CHALLENGE_ECHO_CAP (e_corr e)
                  (Some (e_corr e)) (Some (e_reply_to e)))))"

definition verify_echo :: "envelope option \<Rightarrow> string \<Rightarrow> bool" where
  "verify_echo echo expected =
     (case echo of
        None \<Rightarrow> False
      | Some e \<Rightarrow> e_cap e = CHALLENGE_ECHO_CAP \<and> e_corr e = expected \<and> str_strip (e_body e) = expected)"

definition select_path :: "bool \<Rightarrow> jobj" where
  "select_path caller_is_local =
     (if caller_is_local
      then [(''path'', JStr ''claude-code-session''),
            (''how'', JStr (''spawn a Claude Code session in the target environment by name ('' @ [dquote]
               @ ''DevOps'' @ [dquote] @ '') or create_session(environment_id=<owning env>)'')),
            (''billing'', JStr ''subscription/plan usage''),
            (''needs_agent_id'', JBool False)]
      else [(''path'', JStr ''handoff-mcp''),
            (''how'', JStr (''spawn_agent('' @ [dquote] @ ''<role>'' @ [dquote]
               @ '', task, reply_to_session_id=<self>)'')),
            (''billing'', JStr ''Anthropic API credit''),
            (''needs_agent_id'', JBool True)])"

section \<open>The command line\<close>

datatype delegation_cmd =
    EnvelopeCmd string string string "string option" "string option" \<comment> \<open>from, cap, body, corr, reply-to\<close>
  | ParseCmd string
  | RegistryCmd "string option"
  | AuthorizeCmd string string "string list" "string list"
  | ChallengeCmd string

definition envelope_json :: "envelope \<Rightarrow> json" where
  "envelope_json e =
     JObj [(''frm'', JStr (e_frm e)), (''cap'', JStr (e_cap e)), (''body'', JStr (e_body e)),
       (''corr'', JStr (e_corr e)), (''reply_to'', JStr (e_reply_to e))]"

definition say :: "string \<Rightarrow> int \<Rightarrow> int io" where
  "say line code = seq (emit (Print line)) (ret code)"

definition delegation_main :: "string \<Rightarrow> delegation_cmd \<Rightarrow> int io" where
  "delegation_main fresh cmd =
     (case cmd of
        EnvelopeCmd frm cap body corr reply_to \<Rightarrow>
          bnd (opt (build_envelope fresh frm cap body corr reply_to)) (\<lambda>line. say line 0)
      | ParseCmd text' \<Rightarrow>
          (case parse_envelope text' of
             None \<Rightarrow> say ''not an A2A envelope'' 1
           | Some e \<Rightarrow> say (dumps_indent 0 (envelope_json e)) 0)
      | RegistryCmd cap \<Rightarrow>
          (if cap \<noteq> None \<and> cap \<noteq> Some []
           then (case map_of CAPABILITY_REGISTRY (the cap) of
                   None \<Rightarrow> say (''unknown capability '' @ quoted (the cap)) 1
                 | Some entry \<Rightarrow> say (dumps_indent 0 (JObj [(the cap, JObj entry)])) 0)
           else say (dumps_indent 0 (JObj (map (\<lambda>(k, e). (k, JObj e)) CAPABILITY_REGISTRY))) 0)
      | AuthorizeCmd frm cap provides_to allow_caps \<Rightarrow>
          (let d = authorize (Some (make_envelope frm cap [] fresh None)) provides_to allow_caps
           in say (dumps_indent 0 (JObj [(''allowed'', JBool (d_allowed d)), (''reason'', JStr (d_reason d))]))
                (if d_allowed d then 0 else 2))
      | ChallengeCmd frm \<Rightarrow>
          bnd (opt (make_challenge fresh frm)) (\<lambda>(line, nonce).
            say (dumps_indent 0 (JObj [(''envelope'', JStr line), (''nonce'', JStr nonce)])) 0))"

end
