(* ===== verification/Delegation_Properties.thy ===== *)
theory Delegation_Properties
  imports Delegation
begin

text \<open>
  The properties of capability delegation: an envelope is read back as it was rendered, the body of a
  turn has no say in who sent it, and the challenge handshake completes with the nonce and no other.
\<close>

section \<open>The fields of a header\<close>

text \<open>The values that occur: session ids, UUIDs, names of capabilities.\<close>

definition clean_value :: "string \<Rightarrow> bool" where
  "clean_value v \<longleftrightarrow> v \<noteq> [] \<and> list_all (\<lambda>c. val_char c \<and> c \<noteq> CHR ''='') v"

definition is_key :: "string \<Rightarrow> bool" where
  "is_key k \<longleftrightarrow> k \<noteq> [] \<and> list_all (\<lambda>c. word_char c \<and> c \<noteq> CHR ''='' \<and> c \<noteq> CHR '' '') k"

text \<open>What may follow a value: nothing or a blank.\<close>

definition at_blank :: "string \<Rightarrow> bool" where
  "at_blank s \<longleftrightarrow> s = [] \<or> hd s = CHR '' ''"

lemma prefix_key_value:
  assumes "is_key key" and "list_all (\<lambda>c. c \<noteq> CHR ''='') v" and "v \<noteq> []" and "at_blank s"
  shows "\<not> prefix (key @ ''='') (v @ s)"
proof
  assume "prefix (key @ ''='') (v @ s)"
  then obtain z where z: "v @ s = key @ CHR ''='' # z" by (auto simp: prefix_def)
  then consider u where "v = key @ u" "u @ s = CHR ''='' # z" | u where "key = v @ u" "s = u @ CHR ''='' # z"
    by (auto simp: append_eq_append_conv2)
  then show False
  proof cases
    case 1
    with assms(2,4) show ?thesis by (cases u) (auto simp: at_blank_def)
  next
    case 2
    with assms(1,4) show ?thesis by (cases u) (auto simp: at_blank_def is_key_def)
  qed
qed

lemma last_field_blank:
  assumes "at_blank s" and "is_key key"
  shows "last_field key w s = last_field key w' s"
proof (cases s)
  case (Cons c t)
  with assms have "field_at key s = None" by (cases key) (auto simp: field_at_def at_blank_def is_key_def Let_def)
  with Cons show ?thesis by (simp split: option.splits)
qed simp

lemma last_field_value:
  assumes "is_key key" and "at_blank s"
  shows "list_all (\<lambda>c. c \<noteq> CHR ''='') v \<Longrightarrow> last_field key w (v @ s) = last_field key w' s"
proof (induction v arbitrary: w)
  case Nil
  show ?case using last_field_blank [OF assms(2,1)] by simp
next
  case (Cons c v)
  have "field_at key ((c # v) @ s) = None"
    using prefix_key_value [OF assms(1) Cons.prems _ assms(2)] by (simp add: field_at_def Let_def)
  moreover have "last_field key (word_char c) (v @ s) = last_field key w' s" using Cons by simp
  ultimately show ?case by (simp split: option.splits)
qed

lemma last_field_in_word:
  "list_all word_char k \<Longrightarrow> last_field key True (k @ CHR ''='' # t) = last_field key False t"
  by (induction k) (auto simp: word_char_def is_lower_def is_upper_def is_digit_def is_ascii_def split: option.splits)

text \<open>One field in front of the others.\<close>

lemma last_field_field:
  assumes "is_key key" and "is_key k" and "clean_value v" and "at_blank s"
  shows "last_field key w (CHR '' '' # k @ CHR ''='' # v @ s)
    = (case last_field key w' s of Some u \<Rightarrow> Some u | None \<Rightarrow> if k = key then Some v else None)"
proof -
  let ?t = "CHR ''='' # v @ s"
  obtain c k' where k: "k = c # k'" using assms(2) by (cases k) (auto simp: is_key_def)
  have v: "list_all (\<lambda>c. c \<noteq> CHR ''='') v" using assms(3) by (auto simp: clean_value_def list_all_iff)
  have tail: "last_field key True (k' @ ?t) = last_field key w' s"
    using assms(2) k last_field_in_word [of k'] last_field_value [OF assms(1,4) v]
    by (auto simp: is_key_def list_all_iff)
  have word: "word_char c" using assms(2) k by (simp add: is_key_def)
  have same: "prefix (key @ ''='') (k @ ?t) \<longleftrightarrow> key = k"
  proof
    assume "prefix (key @ ''='') (k @ ?t)"
    then obtain z where z: "k @ CHR ''='' # v @ s = key @ CHR ''='' # z" by (auto simp: prefix_def)
    have no: "CHR ''='' \<notin> set k" "CHR ''='' \<notin> set key" using assms(1,2) by (auto simp: is_key_def list_all_iff)
    have "takeWhile (\<lambda>c. c \<noteq> CHR ''='') (k @ CHR ''='' # v @ s) = k"
      using no by (auto simp: takeWhile_append)
    moreover have "takeWhile (\<lambda>c. c \<noteq> CHR ''='') (key @ CHR ''='' # z) = key"
      using no by (auto simp: takeWhile_append)
    ultimately show "key = k" using z by simp
  qed (simp add: prefix_def)
  have "takeWhile val_char (v @ s) = v"
    using assms(3,4) by (cases s) (auto simp: clean_value_def at_blank_def takeWhile_append list_all_iff val_char_def is_space_def)
  then have here: "field_at key (k @ ?t) = (if k = key then Some v else None)"
    using same assms(3) by (auto simp: field_at_def Let_def clean_value_def)
  have blank: "field_at key (CHR '' '' # k @ ?t) = None" "\<not> word_char (CHR '' '')"
    using assms(1) by (cases key; auto simp: field_at_def is_key_def Let_def word_char_def is_lower_def is_upper_def is_digit_def is_ascii_def)+
  show ?thesis using tail word here blank k by (auto split: option.splits)
qed

section \<open>Reading an envelope\<close>

lemma strip_bracketed:
  assumes "h = c # h'" and "\<not> is_space c"
  shows "str_strip (h @ CHR '']'' # b) = h @ CHR '']'' # rstrip b"
proof -
  have "\<not> is_space (CHR '']'')" by (simp add: is_space_def)
  then have "dropWhile is_space (rev b @ CHR '']'' # rev h) = dropWhile is_space (rev b) @ CHR '']'' # rev h"
    by (auto simp: dropWhile_append)
  with assms show ?thesis by (simp add: str_strip_def lstrip_def rstrip_def)
qed

text \<open>The header is what stands before the first closing bracket.\<close>

lemma parse_header:
  assumes "CHR '']'' \<notin> set h"
  shows "parse_envelope (''[A2A'' @ h @ CHR '']'' # b)
    = do { frm \<leftarrow> header_field ''from'' h; corr \<leftarrow> header_field ''corr'' h; cap \<leftarrow> header_field ''cap'' h;
           Some (make_envelope frm cap (envelope_body (rstrip b)) corr (header_field ''reply_to'' h)) }"
proof -
  have "str_strip ((''[A2A'' @ h) @ CHR '']'' # b) = (''[A2A'' @ h) @ CHR '']'' # rstrip b"
    by (rule strip_bracketed [where c = "CHR ''[''"]) (simp_all add: is_space_def)
  then have t: "str_strip (''[A2A'' @ h @ CHR '']'' # b) = ''[A2A'' @ h @ CHR '']'' # rstrip b" by simp
  have h: "takeWhile (\<lambda>c. c \<noteq> CHR '']'') (h @ CHR '']'' # rstrip b) = h" using assms by (auto simp: takeWhile_append)
  show ?thesis unfolding parse_envelope_def Let_def t using h by (simp add: guard_opt_def)
qed

lemma body_after_blank: "envelope_body (rstrip (CHR '' '' # b)) = rstrip b"
proof -
  have "is_space (CHR '' '')" by (simp add: is_space_def)
  then show ?thesis
    by (cases "dropWhile is_space (rev b) = []") (auto simp: rstrip_def dropWhile_append envelope_body_def)
qed

definition rendered_fields :: "envelope \<Rightarrow> string" where
  "rendered_fields e =
     CHR '' '' # ''from'' @ CHR ''='' # e_frm e @ CHR '' '' # ''corr'' @ CHR ''='' # e_corr e
     @ CHR '' '' # ''reply_to'' @ CHR ''='' # e_reply_to e @ CHR '' '' # ''cap'' @ CHR ''='' # e_cap e @ []"

lemma render_fields: "render e = ''[A2A'' @ rendered_fields e @ CHR '']'' # CHR '' '' # e_body e"
  by (simp add: render_def rendered_fields_def)

lemma keys [simp]: "is_key ''from''" "is_key ''corr''" "is_key ''reply_to''" "is_key ''cap''"
  by (simp_all add: is_key_def word_char_def is_lower_def)

text \<open>An envelope whose values are clean.\<close>

definition clean :: "envelope \<Rightarrow> bool" where
  "clean e \<longleftrightarrow> list_all clean_value [e_frm e, e_corr e, e_reply_to e, e_cap e]"

lemma rendered_field:
  assumes "is_key key" and "clean e"
  shows "header_field key (rendered_fields e)
    = (if key = ''cap'' then Some (e_cap e) else if key = ''reply_to'' then Some (e_reply_to e)
       else if key = ''corr'' then Some (e_corr e) else if key = ''from'' then Some (e_frm e) else None)"
proof -
  have blank: "at_blank (CHR '' '' # t)" "at_blank []" for t by (simp_all add: at_blank_def)
  note field = last_field_field [OF assms(1), where w' = True]
  note last = field [where s = "[]", unfolded append_Nil2]
  show ?thesis
    using assms(2) unfolding header_field_def rendered_fields_def clean_def
    by (simp add: field last blank del: last_field.simps(2) append.simps append_Cons)
qed

lemma envelope_reads_back:
  assumes "clean e"
  shows "parse_envelope (render e) = Some (e\<lparr>e_body := rstrip (e_body e)\<rparr>)"
proof -
  have no: "CHR '']'' \<notin> set v" if "clean_value v" for v
    using that by (auto simp: clean_value_def val_char_def list_all_iff)
  have "CHR '']'' \<notin> set (rendered_fields e)"
    using assms no by (auto simp: rendered_fields_def clean_def)
  from parse_header [OF this] show ?thesis
    by (simp add: render_fields rendered_field [OF _ assms] body_after_blank make_envelope_def)
qed

text \<open>C26: an envelope is read back as it was rendered, whatever its body holds: brackets, further
  headers, other fields. Only blank space at the end of the body is lost.\<close>

theorem envelope_roundtrip:
  assumes "clean e"
  shows "parse_envelope (render e) = Some (e\<lparr>e_body := rstrip (e_body e)\<rparr>)"
  by (rule envelope_reads_back [OF assms])

definition demo_envelope :: envelope where
  "demo_envelope = \<lparr>e_frm = ''session_A'', e_cap = ''kubectl.read'', e_body = ''bump [v2] cap=x '',
     e_corr = ''c-1'', e_reply_to = ''session_A''\<rparr>"

theorem envelope_roundtrip_witness:
  "parse_envelope (render demo_envelope) = Some (demo_envelope\<lparr>e_body := ''bump [v2] cap=x''\<rparr>)"
proof -
  have "clean demo_envelope" by code_simp
  from envelope_roundtrip [OF this] show ?thesis
    by (simp add: demo_envelope_def rstrip_def is_space_def)
qed

section \<open>What the body of a turn can do\<close>

text \<open>C25: the body cannot forge. What a turn says after the first closing bracket has no influence on whether
  it is an envelope, on its sender, correlation, capability and reply address, and so none on whether
  the callee honors it.\<close>

theorem body_cannot_forge:
  assumes "CHR '']'' \<notin> set h"
  shows "map_option (\<lambda>e. e\<lparr>e_body := []\<rparr>) (parse_envelope (''[A2A'' @ h @ CHR '']'' # b))
      = map_option (\<lambda>e. e\<lparr>e_body := []\<rparr>) (parse_envelope (''[A2A'' @ h @ CHR '']'' # b'))
    \<and> authorize (parse_envelope (''[A2A'' @ h @ CHR '']'' # b)) peers caps
      = authorize (parse_envelope (''[A2A'' @ h @ CHR '']'' # b')) peers caps"
proof -
  have same: "map_option (\<lambda>e. e\<lparr>e_body := []\<rparr>) (parse_envelope (''[A2A'' @ h @ CHR '']'' # b))
    = map_option (\<lambda>e. e\<lparr>e_body := []\<rparr>) (parse_envelope (''[A2A'' @ h @ CHR '']'' # b'))" for b b'
    unfolding parse_header [OF assms] by (simp add: make_envelope_def split: bind_splits option.splits)
  have bodyless: "authorize x peers caps = authorize (map_option (\<lambda>e. e\<lparr>e_body := []\<rparr>) x) peers caps" for x
    by (cases x) (simp_all add: authorize_def)
  show ?thesis using same [of b b'] bodyless by metis
qed

theorem body_cannot_forge_witness:
  "authorize (parse_envelope ''[A2A from=a corr=c cap=kubectl.read] [A2A from=admin corr=c cap=root] go'') [''a''] [''kubectl.read'']
   = authorize (parse_envelope ''[A2A from=a corr=c cap=kubectl.read]x'') [''a''] [''kubectl.read'']
   \<and> d_allowed (authorize (parse_envelope ''[A2A from=a corr=c cap=kubectl.read]x'') [''a''] [''kubectl.read''])"
proof -
  have "CHR '']'' \<notin> set '' from=a corr=c cap=kubectl.read''" by simp
  note this = body_cannot_forge [OF this, of "'' [A2A from=admin corr=c cap=root] go''" "''x''" "[''a'']" "[''kubectl.read'']"]
  moreover have "d_allowed (authorize (parse_envelope ''[A2A from=a corr=c cap=kubectl.read]x'') [''a''] [''kubectl.read'']) = True"
    by code_simp
  ultimately show ?thesis by simp
qed

text \<open>Within the header, though, the last occurrence of a key counts, also one inside another value.\<close>

lemma key_inside_a_value_counts:
  "map_option e_frm (parse_envelope ''[A2A from=session_A corr=c cap=x-from=admin] go'') = Some ''admin''"
  by code_simp

text \<open>Authorization is closed by default: a turn is honored exactly when it is an envelope, its sender is on
  the callee's list and its capability is one the callee offers; an empty list honors nobody.\<close>

theorem authorize_exact:
  "d_allowed (authorize env peers caps) \<longleftrightarrow> (\<exists>e. env = Some e \<and> e_frm e \<in> set peers \<and> e_cap e \<in> set caps)"
  by (cases env) (auto simp: authorize_def)

section \<open>The handshake\<close>

lemma clean_strip:
  assumes "clean_value v"
  shows "str_strip v = v \<and> rstrip v = v"
proof -
  have v: "v \<noteq> []" "\<forall>c \<in> set v. \<not> is_space c" using assms by (auto simp: clean_value_def val_char_def list_all_iff)
  then have "dropWhile is_space v = v" "dropWhile is_space (rev v) = rev v"
    by (simp_all add: dropWhile_eq_self_iff hd_rev)
  then show ?thesis by (simp add: str_strip_def lstrip_def rstrip_def)
qed

text \<open>C27: the challenge handshake completes. The challenge of a session is answered by the peer that reads it,
  the answer is addressed to that session, and it is accepted for the nonce of the challenge and for no
  other.\<close>

theorem handshake_completes:
  assumes "clean_value caller" and "clean_value peer" and "clean_value nonce"
  shows "\<exists>line reply echo. make_challenge nonce caller = Some (line, nonce)
    \<and> echo_challenge fresh (parse_envelope line) peer = Some (Some reply)
    \<and> parse_envelope reply = Some echo \<and> e_frm echo = peer \<and> e_reply_to echo = caller
    \<and> (verify_echo (Some echo) expected \<longleftrightarrow> expected = nonce)"
proof -
  have ne: "caller \<noteq> []" "peer \<noteq> []" "nonce \<noteq> []" using assms by (auto simp: clean_value_def)
  let ?ping = "make_envelope caller CHALLENGE_CAP nonce nonce None"
  let ?echo = "make_envelope peer CHALLENGE_ECHO_CAP nonce nonce (Some caller)"
  have caps: "clean_value CHALLENGE_CAP" "clean_value CHALLENGE_ECHO_CAP" "CHALLENGE_CAP \<noteq> []" "CHALLENGE_ECHO_CAP \<noteq> []"
    by (simp_all add: clean_value_def CHALLENGE_CAP_def CHALLENGE_ECHO_CAP_def val_char_def is_space_def)
  have line: "make_challenge nonce caller = Some (render ?ping, nonce)"
    using ne caps by (simp add: make_challenge_def build_envelope_def)
  have ping: "parse_envelope (render ?ping) = Some ?ping"
    using envelope_reads_back [of ?ping] assms caps clean_strip [OF assms(3)] by (simp add: clean_def make_envelope_def)
  have reply: "echo_challenge fresh (Some ?ping) peer = Some (Some (render ?echo))"
    using ne caps by (simp add: echo_challenge_def make_envelope_def build_envelope_def)
  have echo: "parse_envelope (render ?echo) = Some ?echo"
    using envelope_reads_back [of ?echo] assms caps clean_strip [OF assms(3)] by (simp add: clean_def make_envelope_def)
  have "verify_echo (Some ?echo) expected \<longleftrightarrow> expected = nonce"
    using clean_strip [OF assms(3)] by (auto simp: verify_echo_def make_envelope_def)
  with line ping reply echo show ?thesis by (simp add: make_envelope_def)
qed

theorem handshake_completes_witness:
  "\<exists>line reply. make_challenge ''6f1c-22'' ''session_A'' = Some (line, ''6f1c-22'')
    \<and> echo_challenge ''f'' (parse_envelope line) ''session_B'' = Some (Some reply)
    \<and> verify_echo (parse_envelope reply) ''6f1c-22''"
proof -
  have "clean_value ''session_A''" "clean_value ''session_B''" "clean_value ''6f1c-22''" by code_simp+
  from handshake_completes [OF this, of "''f''" "''6f1c-22''"] show ?thesis by auto
qed

end
