(* ===== verification/RunnerHealth.thy ===== *)
theory RunnerHealth
  imports JsonText PyTime Effects "HOL-Library.Product_Lexorder"
begin

text \<open>
  scripts/runner_health.py: runner pods that run on the cluster while GitHub sees no runner, pools
  that are starved while jobs wait, and cluster DNS on a single node. kubectl and gh are the outside
  parameter; None is an exception the program does not catch. A name that is no text raises when it
  is read here, and a few steps later in the program.
\<close>

definition DEFAULT_MIN_AGE_SECONDS :: int where
  "DEFAULT_MIN_AGE_SECONDS = 300"

datatype level = Critical | Warning

record health_finding =
  hf_level :: level
  hf_scale_set :: string
  hf_repo :: string
  hf_message :: string
  hf_nodes :: "string list"

fun level_text :: "level \<Rightarrow> string" where
  "level_text Critical = ''CRITICAL''"
| "level_text Warning = ''WARNING''"

definition render_finding :: "health_finding \<Rightarrow> string" where
  "render_finding f =
     ''['' @ level_text (hf_level f) @ ''] '' @ hf_repo f @ '' set='' @ hf_scale_set f @ '': '' @ hf_message f
     @ (if hf_nodes f \<noteq> [] then '' nodes='' @ str_join '','' (hf_nodes f) else [])"

section \<open>Scale sets\<close>

text \<open>\<open>github\.com/([^/]+)/([^/]+?)/?$\<close> at the head of a text, after the host.\<close>

definition owner_repo :: "string \<Rightarrow> (string \<times> string) option" where
  "owner_repo s =
     (let owner = takeWhile (\<lambda>c. c \<noteq> CHR ''/'') s;
          rest = drop (length owner + 1) s;
          repo = takeWhile (\<lambda>c. c \<noteq> CHR ''/'') rest
      in if owner \<noteq> [] \<and> repo \<noteq> [] \<and> (drop (length repo) rest = [] \<or> drop (length repo) rest = ''/'')
         then Some (owner, repo) else None)"

fun search_url :: "string \<Rightarrow> (string \<times> string) option" where
  "search_url [] = None"
| "search_url (c # s) =
     (case (if prefix ''github.com/'' (c # s) then owner_repo (drop 11 (c # s)) else None) of
        Some x \<Rightarrow> Some x
      | None \<Rightarrow> search_url s)"

definition repo_from_config_url :: "json \<Rightarrow> string option option" where
  "repo_from_config_url url =
     (if \<not> truthy url then Some None
      else do { u \<leftarrow> as_text url;
                Some (map_option (\<lambda>(owner, repo). owner @ ''/'' @ repo) (search_url (str_strip u))) })"

definition items_at :: "json \<Rightarrow> string \<Rightarrow> json list option" where
  "items_at payload key = do { v \<leftarrow> jget_d (jor payload (JObj [])) key (JList []); jiter v }"

definition add_scale_set :: "json \<Rightarrow> (string \<times> string) list \<Rightarrow> (string \<times> string) list option" where
  "add_scale_set item out =
     do { meta \<leftarrow> jget_d item ''metadata'' (JObj []);
          name \<leftarrow> jget meta ''name'';
          spec \<leftarrow> jget_d item ''spec'' (JObj []);
          url \<leftarrow> jget spec ''githubConfigUrl'';
          repo \<leftarrow> repo_from_config_url url;
          (case repo of
             Some r \<Rightarrow>
               (if truthy name then do { n \<leftarrow> as_text name; Some (AList.update n r out) } else Some out)
           | None \<Rightarrow> Some out) }"

definition parse_scale_sets :: "json \<Rightarrow> (string \<times> string) list option" where
  "parse_scale_sets payload = do { xs \<leftarrow> items_at payload ''items''; fold_opt add_scale_set xs [] }"

section \<open>Pods and runners\<close>

definition age_seconds :: "json \<Rightarrow> datetime \<Rightarrow> rat option" where
  "age_seconds timestamp now =
     (if \<not> truthy timestamp then Some 0
      else do { t \<leftarrow> as_text timestamp;
                (d, off) \<leftarrow> parse_stamp t;
                off \<leftarrow> off;
                Some (max 0 (of_int (to_us now - (to_us d - off)) / 1000000)) })"

record runner_pod =
  rp_pod :: string
  rp_node :: string
  rp_settled :: bool

definition runner_pod_of :: "datetime \<Rightarrow> int \<Rightarrow> json \<Rightarrow> runner_pod option option" where
  "runner_pod_of now min_age item =
     do { meta \<leftarrow> jget_d item ''metadata'' (JObj []);
          name \<leftarrow> jget meta ''name'';
          (if \<not> truthy name then Some None
           else do { n \<leftarrow> as_text name;
                     status \<leftarrow> jget_d item ''status'' (JObj []);
                     phase \<leftarrow> jget status ''phase'';
                     stamp \<leftarrow> jget meta ''creationTimestamp'';
                     age \<leftarrow> age_seconds stamp now;
                     spec \<leftarrow> jget_d item ''spec'' (JObj []);
                     nv \<leftarrow> jget_or spec ''nodeName'' (JStr ''<unscheduled>'');
                     node \<leftarrow> as_text nv;
                     Some (Some \<lparr>rp_pod = n, rp_node = node,
                       rp_settled = (phase = JStr ''Running'' \<and> of_int min_age \<le> age)\<rparr>) }) }"

definition parse_runner_pods :: "json \<Rightarrow> datetime \<Rightarrow> int \<Rightarrow> runner_pod list option" where
  "parse_runner_pods payload now min_age =
     do { xs \<leftarrow> items_at payload ''items'';
          ps \<leftarrow> those (map (runner_pod_of now min_age) xs);
          Some (List.map_filter id ps) }"

text \<open>\<open>^<scale set>-[^-]+-runner-\<close>.\<close>

definition of_scale_set :: "string \<Rightarrow> string \<Rightarrow> bool" where
  "of_scale_set scale_set name \<longleftrightarrow>
     (let rest = drop (length scale_set + 1) name;
          hash = takeWhile (\<lambda>c. c \<noteq> CHR ''-'') rest
      in prefix (scale_set @ ''-'') name \<and> hash \<noteq> [] \<and> prefix ''-runner-'' (drop (length hash) rest))"

definition pods_for_scale_set :: "runner_pod list \<Rightarrow> string \<Rightarrow> runner_pod list" where
  "pods_for_scale_set pods scale_set = filter (\<lambda>p. of_scale_set scale_set (rp_pod p)) pods"

definition online_name :: "string \<Rightarrow> json \<Rightarrow> string option option" where
  "online_name scale_set runner =
     do { nv \<leftarrow> jget_d runner ''name'' (JStr []);
          name \<leftarrow> as_text nv;
          (if of_scale_set scale_set name
           then do { status \<leftarrow> jget runner ''status''; Some (if status = JStr ''online'' then Some name else None) }
           else Some None) }"

definition online_runner_names :: "json \<Rightarrow> string \<Rightarrow> string list option" where
  "online_runner_names payload scale_set =
     do { rs \<leftarrow> items_at payload ''runners'';
          ns \<leftarrow> those (map (online_name scale_set) rs);
          Some (remdups (List.map_filter id ns)) }"

definition queued_run :: "json \<Rightarrow> string option option" where
  "queued_run r =
     do { status \<leftarrow> jget r ''status'';
          (if status = JStr ''queued''
           then do { n \<leftarrow> jget r ''name''; t \<leftarrow> jget r ''display_title''; i \<leftarrow> jget r ''id'';
                     Some (Some (py_str (jor (jor n t) i))) }
           else Some None) }"

definition parse_queued_runs :: "json \<Rightarrow> string list option" where
  "parse_queued_runs payload =
     do { v \<leftarrow> jget_or (jor payload (JObj [])) ''workflow_runs'' (JList []);
          rs \<leftarrow> jiter v;
          qs \<leftarrow> those (map queued_run rs);
          Some (List.map_filter id qs) }"

section \<open>The findings\<close>

definition distinct_sorted :: "string list \<Rightarrow> string list" where
  "distinct_sorted xs = sort (remdups xs)"

text \<open>What is known about a repository: GitHub's list of runners (None: unreadable) and the queued runs
  (None: unreadable or not asked).\<close>

type_synonym runners_by_repo = "(string \<times> json) list"
type_synonym queued_by_repo = "(string \<times> string list option) list"

definition starved_message :: "nat \<Rightarrow> nat \<Rightarrow> string" where
  "starved_message online queued =
     ''0 runner pod(s) and '' @ show_int (int online) @ '' online runner(s), but '' @ show_int (int queued)
     @ '' queued workflow run(s) are waiting -- the pool is starved and those jobs will never start''"

definition dark_message :: "nat \<Rightarrow> int \<Rightarrow> string" where
  "dark_message settled min_age =
     show_int (int settled) @ '' runner pod(s) Running for >'' @ show_int (min_age div 60)
     @ ''m but GitHub reports 0 online for this set -- jobs will queue forever''"

definition stranded_message :: "nat \<Rightarrow> nat \<Rightarrow> string" where
  "stranded_message stranded settled =
     show_int (int stranded) @ '' of '' @ show_int (int settled)
     @ '' settled runner pod(s) are Running but not online''"

definition queued_of :: "queued_by_repo \<Rightarrow> string \<Rightarrow> string list" where
  "queued_of queued repo = (case map_of queued repo of Some (Some qs) \<Rightarrow> qs | _ \<Rightarrow> [])"

definition set_finding ::
  "runner_pod list \<Rightarrow> int \<Rightarrow> queued_by_repo \<Rightarrow> string \<times> string \<Rightarrow> string list \<Rightarrow> health_finding option" where
  "set_finding pods min_age queued entry online =
     (let (scale_set, repo) = entry;
          settled = filter rp_settled (pods_for_scale_set pods scale_set);
          qs = queued_of queued repo;
          stranded = filter (\<lambda>p. \<not> List.member online (rp_pod p)) settled
      in if settled = []
         then (if qs \<noteq> []
               then Some \<lparr>hf_level = Critical, hf_scale_set = scale_set, hf_repo = repo,
                      hf_message = starved_message (length online) (length qs),
                      hf_nodes = take 5 (distinct_sorted qs)\<rparr>
               else None)
         else if online = []
         then Some \<lparr>hf_level = Critical, hf_scale_set = scale_set, hf_repo = repo,
                hf_message = dark_message (length settled) min_age,
                hf_nodes = distinct_sorted (map rp_node settled)\<rparr>
         else if stranded \<noteq> []
         then Some \<lparr>hf_level = Warning, hf_scale_set = scale_set, hf_repo = repo,
                hf_message = stranded_message (length stranded) (length settled),
                hf_nodes = distinct_sorted (map rp_node stranded)\<rparr>
         else None)"

definition online_of :: "runners_by_repo \<Rightarrow> string \<times> string \<Rightarrow> string list option" where
  "online_of runners entry =
     online_runner_names (case map_of runners (snd entry) of None \<Rightarrow> JNull | Some p \<Rightarrow> p) (fst entry)"

text \<open>The sort key of a finding: not critical, repository, scale set.\<close>

definition finding_key :: "health_finding \<Rightarrow> bool \<times> string \<times> string" where
  "finding_key f = (hf_level f \<noteq> Critical, hf_repo f, hf_scale_set f)"

definition evaluate_health ::
  "(string \<times> string) list \<Rightarrow> runner_pod list \<Rightarrow> runners_by_repo \<Rightarrow> int \<Rightarrow> queued_by_repo \<Rightarrow> health_finding list option" where
  "evaluate_health scale_sets pods runners min_age queued =
     do { fs \<leftarrow> those (map (\<lambda>entry. map_option (set_finding pods min_age queued entry) (online_of runners entry))
                  (sort scale_sets));
          Some (sort_key finding_key (List.map_filter id fs)) }"

section \<open>DNS\<close>

definition ready_address :: "json \<Rightarrow> json option" where
  "ready_address address = jget address ''nodeName''"

definition subset_nodes :: "json \<Rightarrow> json list option" where
  "subset_nodes s =
     do { v \<leftarrow> jget_or s ''addresses'' (JList []); xs \<leftarrow> jiter v; those (map ready_address xs) }"

text \<open>The ready addresses, by node; \<open>get(k, [])\<close> of a null is null, which \<open>or []\<close> replaces.\<close>

definition dns_nodes :: "json \<Rightarrow> json list option" where
  "dns_nodes payload =
     do { v \<leftarrow> jget_or (jor payload (JObj [])) ''subsets'' (JList []); xs \<leftarrow> jiter v;
          ns \<leftarrow> those (map subset_nodes xs);
          Some (concat ns) }"

definition dns_finding :: "level \<Rightarrow> string \<Rightarrow> string list \<Rightarrow> health_finding" where
  "dns_finding l message nodes =
     \<lparr>hf_level = l, hf_scale_set = ''kube-dns'', hf_repo = ''cluster'', hf_message = message, hf_nodes = nodes\<rparr>"

definition dns_endpoint_findings :: "json \<Rightarrow> health_finding list option" where
  "dns_endpoint_findings payload =
     do { addresses \<leftarrow> dns_nodes payload;
          nodes \<leftarrow> those (map as_text (filter truthy addresses));
          (let n = distinct_sorted nodes
           in Some (if addresses = [] then [dns_finding Critical ''kube-dns has NO ready endpoints'' []]
                    else if length n < 2
                    then [dns_finding Warning (''cluster DNS is single-homed: '' @ show_int (int (length addresses))
                            @ '' ready endpoint(s) on '' @ show_int (int (length n))
                            @ '' node(s); one node'' @ [CHR 39] @ ''s network fault takes out all DNS'') n]
                    else [])) }"

section \<open>The program\<close>

record health_args =
  ha_namespace :: string
  ha_dns_namespace :: string
  ha_min_age :: int
  ha_warn_only :: bool
  ha_summary :: bool
  ha_now :: datetime

text \<open>A failed command is the RuntimeError with its text (Inl); a command that cannot be started and output
  that is not JSON raise something else.\<close>

definition run_json :: "string list \<Rightarrow> (string + json) io" where
  "run_json argv =
     bnd (proc argv None) (\<lambda>r.
       case r of
         NotRun exc \<Rightarrow> raise Uncaught
       | Completed code out err \<Rightarrow>
           (if code \<noteq> 0
            then ret (Inl (str_join '' '' (take 3 argv) @ ''... failed: '' @ take_chars 400 (str_strip err)))
            else bnd (opt (loads (if out = [] then ''{}'' else out))) (\<lambda>j. ret (Inr j))))"

definition must_read :: "string list \<Rightarrow> json io" where
  "must_read argv = bnd (run_json argv) (\<lambda>r. case r of Inl exc \<Rightarrow> raise Uncaught | Inr j \<Rightarrow> ret j)"

definition cluster_get :: "string \<Rightarrow> string list \<Rightarrow> string list" where
  "cluster_get namespace what = [''kubectl'', ''-n'', namespace, ''get''] @ what @ [''-o'', ''json'']"

definition runners_argv :: "string \<Rightarrow> string list" where
  "runners_argv repo = [''gh'', ''api'', ''repos/'' @ repo @ ''/actions/runners'', ''--paginate'']"

definition queued_argv :: "string \<Rightarrow> string list" where
  "queued_argv repo = [''gh'', ''api'', ''repos/'' @ repo @ ''/actions/runs?status=queued&per_page=100'']"

definition read_runners :: "string \<Rightarrow> runners_by_repo \<Rightarrow> runners_by_repo io" where
  "read_runners repo acc =
     bnd (run_json (runners_argv repo)) (\<lambda>r.
       case r of
         Inl exc \<Rightarrow> seq (emit (Print (''::warning::could not read runners for '' @ repo @ '': '' @ exc)))
                      (ret (acc @ [(repo, JNull)]))
       | Inr j \<Rightarrow> ret (acc @ [(repo, j)]))"

definition read_queued :: "string \<Rightarrow> queued_by_repo \<Rightarrow> queued_by_repo io" where
  "read_queued repo acc =
     bnd (run_json (queued_argv repo)) (\<lambda>r.
       case r of
         Inl exc \<Rightarrow> seq (emit (Print (''::warning::could not read queued runs for '' @ repo @ '': '' @ exc)))
                      (ret (acc @ [(repo, None)]))
       | Inr j \<Rightarrow> bnd (opt (parse_queued_runs j)) (\<lambda>qs. ret (acc @ [(repo, Some qs)])))"

definition dns_check :: "string \<Rightarrow> health_finding list io" where
  "dns_check namespace =
     bnd (run_json (cluster_get namespace [''endpoints'', ''kube-dns''])) (\<lambda>r.
       case r of
         Inl exc \<Rightarrow> seq (emit (Print (''::warning::could not read kube-dns endpoints: '' @ exc))) (ret [])
       | Inr j \<Rightarrow> opt (dns_endpoint_findings j))"

definition all_well :: "health_args \<Rightarrow> nat \<Rightarrow> int io" where
  "all_well a n =
     seq (emit (Print (''OK: '' @ show_int (int n) @ '' scale set(s) checked, no stranded runners.'')))
     (seq (if ha_summary a
           then emit (Summary (''### Runner health: OK'' @ newline @ newline @ show_int (int n)
                  @ '' scale set(s) checked; every settled runner pod is online and cluster DNS is multi-homed.''
                  @ newline))
           else ret ())
      (ret 0))"

definition report_findings :: "health_args \<Rightarrow> health_finding list \<Rightarrow> int io" where
  "report_findings a findings =
     (let lines = map render_finding findings;
          critical = filter (\<lambda>f. hf_level f = Critical) findings
      in bnd (each (\<lambda>l _. emit (Print l)) lines ()) (\<lambda>_.
         seq (if ha_summary a
              then emit (Summary (''### Runner health: findings'' @ newline @ newline
                     @ ''A runner pod can be `2/2 Running` and still be invisible to GitHub; ''
                     @ ''that gap is what this check watches.'' @ newline @ newline @ ''```text'' @ newline
                     @ str_join newline lines @ newline @ ''```'' @ newline))
              else ret ())
         (bnd (each (\<lambda>f _. emit (Print (''::error title=runner-health::'' @ render_finding f))) critical ()) (\<lambda>_.
          ret (if ha_warn_only a then 0 else if critical \<noteq> [] then 1 else 0)))))"

definition health_main :: "health_args \<Rightarrow> int io" where
  "health_main a =
     bnd (must_read (cluster_get (ha_namespace a) [''autoscalingrunnersets''])) (\<lambda>sets_json.
     bnd (opt (parse_scale_sets sets_json)) (\<lambda>scale_sets.
     bnd (must_read (cluster_get (ha_namespace a) [''pods''])) (\<lambda>pods_json.
     bnd (opt (parse_runner_pods pods_json (ha_now a) (ha_min_age a))) (\<lambda>pods.
     bnd (each read_runners (distinct_sorted (map snd scale_sets)) []) (\<lambda>runners.
     bnd (each read_queued (distinct_sorted (map snd scale_sets)) []) (\<lambda>queued.
     bnd (opt (evaluate_health scale_sets pods runners (ha_min_age a) queued)) (\<lambda>findings.
     bnd (dns_check (ha_dns_namespace a)) (\<lambda>dns.
       if findings @ dns = [] then all_well a (length scale_sets)
       else report_findings a (findings @ dns)))))))))"

end
