(* ===== verification/RunnerHealth_Properties.thy ===== *)
theory RunnerHealth_Properties
  imports RunnerHealth
begin

text \<open>
  The properties of the runner health check: which scale sets it reports, and what its exit code 0
  says about every scale set of the cluster.
\<close>

definition settled_pods :: "runner_pod list \<Rightarrow> string \<Rightarrow> runner_pod list" where
  "settled_pods pods scale_set = filter rp_settled (pods_for_scale_set pods scale_set)"

section \<open>The findings\<close>

lemma set_finding_set: "set_finding pods m queued entry online = Some f \<Longrightarrow> hf_scale_set f = fst entry"
  by (auto simp: set_finding_def Let_def split: prod.splits if_splits)

lemma set_finding_exact:
  "(\<exists>f. set_finding pods m queued (ss, repo) online = Some f \<and> hf_level f = Critical)
     \<longleftrightarrow> (if settled_pods pods ss = [] then queued_of queued repo \<noteq> [] else online = [])"
  "(\<exists>f. set_finding pods m queued (ss, repo) online = Some f)
     \<longleftrightarrow> (if settled_pods pods ss = [] then queued_of queued repo \<noteq> []
        else \<exists>p \<in> set (settled_pods pods ss). rp_pod p \<notin> set online)"
proof -
  have "online = [] \<Longrightarrow> settled_pods pods ss \<noteq> [] \<Longrightarrow> \<exists>p \<in> set (settled_pods pods ss). rp_pod p \<notin> set online"
    by (cases "settled_pods pods ss") auto
  then show "(\<exists>f. set_finding pods m queued (ss, repo) online = Some f \<and> hf_level f = Critical)
     \<longleftrightarrow> (if settled_pods pods ss = [] then queued_of queued repo \<noteq> [] else online = [])"
    "(\<exists>f. set_finding pods m queued (ss, repo) online = Some f)
     \<longleftrightarrow> (if settled_pods pods ss = [] then queued_of queued repo \<noteq> []
        else \<exists>p \<in> set (settled_pods pods ss). rp_pod p \<notin> set online)"
    unfolding set_finding_def Let_def settled_pods_def [symmetric]
    by (auto simp: filter_empty_conv)
qed

lemma evaluate_members:
  assumes "evaluate_health sets pods runners m queued = Some fs"
  shows "f \<in> set fs \<longleftrightarrow> (\<exists>entry \<in> set sets. \<exists>online. online_of runners entry = Some online
    \<and> set_finding pods m queued entry online = Some f)"
proof -
  let ?g = "\<lambda>entry. map_option (set_finding pods m queued entry) (online_of runners entry)"
  from assms obtain gs where gs: "those (map ?g (sort sets)) = Some gs"
    and fs: "fs = sort_key finding_key (List.map_filter id gs)"
    by (auto simp: evaluate_health_def bind_eq_Some_conv)
  have "f \<in> set fs \<longleftrightarrow> Some f \<in> set gs" unfolding fs by (force simp: List.map_filter_def)
  also have "\<dots> \<longleftrightarrow> Some (Some f) \<in> set (map Some gs)" by auto
  also have "map Some gs = map ?g (sort sets)" using gs by (simp add: those_map_Some)
  also have "Some (Some f) \<in> set (map ?g (sort sets)) \<longleftrightarrow> (\<exists>entry \<in> set sets. ?g entry = Some (Some f))"
    by (auto simp: image_iff eq_commute)
  finally show ?thesis unfolding map_option_eq_Some .
qed


lemma evaluate_sets:
  assumes "evaluate_health sets pods runners m queued = Some fs"
    and "distinct (map fst sets)" and "(ss, repo) \<in> set sets" and "online_of runners (ss, repo) = Some online"
  shows "(\<exists>f \<in> set fs. hf_scale_set f = ss \<and> P f)
    \<longleftrightarrow> (\<exists>f. set_finding pods m queued (ss, repo) online = Some f \<and> P f)"
proof -
  have "entry = (ss, repo)" if "entry \<in> set sets" "fst entry = ss" for entry
    using that assms(2,3) by (metis eq_key_imp_eq_value prod.collapse)
  with assms(3,4) set_finding_set show ?thesis unfolding evaluate_members [OF assms(1)] Bex_def
    by (smt (verit) fst_conv option.inject)
qed

text \<open>The check is exact for every scale set. It reports a critical finding for the set precisely when
  the set has no settled pod while runs are queued for its repository, or has settled pods while GitHub
  sees no runner of it online; it reports any finding precisely when it is starved or one of its settled
  pods is not online. And the worst findings come first.\<close>

theorem health_exact:
  assumes "evaluate_health sets pods runners m queued = Some fs"
    and "distinct (map fst sets)" and "(ss, repo) \<in> set sets" and "online_of runners (ss, repo) = Some online"
  shows "((\<exists>f \<in> set fs. hf_scale_set f = ss \<and> hf_level f = Critical)
      \<longleftrightarrow> (if settled_pods pods ss = [] then queued_of queued repo \<noteq> [] else online = []))
    \<and> ((\<exists>f \<in> set fs. hf_scale_set f = ss)
      \<longleftrightarrow> (if settled_pods pods ss = [] then queued_of queued repo \<noteq> []
         else \<exists>p \<in> set (settled_pods pods ss). rp_pod p \<notin> set online))
    \<and> sorted (map finding_key fs)"
proof -
  have "sorted (map finding_key fs)"
    using assms(1) by (auto simp: evaluate_health_def bind_eq_Some_conv)
  with evaluate_sets [OF assms, of "\<lambda>f. hf_level f = Critical"] evaluate_sets [OF assms, of "\<lambda>f. True"]
  show ?thesis by (simp add: set_finding_exact [of pods m queued ss repo online])
qed

definition demo_pods :: "runner_pod list" where
  "demo_pods = [\<lparr>rp_pod = ''a-x1-runner-1'', rp_node = ''n1'', rp_settled = True\<rparr>,
     \<lparr>rp_pod = ''a-x1-runner-2'', rp_node = ''n2'', rp_settled = True\<rparr>]"

definition demo_runners :: runners_by_repo where
  "demo_runners = [(''o/r'', JObj [(''runners'', JList [JObj [(''name'', JStr ''a-x1-runner-1''),
     (''status'', JStr ''online'')]])])]"

theorem health_exact_witness:
  "\<exists>fs. evaluate_health [(''a'', ''o/r'')] demo_pods demo_runners 300 [] = Some fs
     \<and> (\<exists>f \<in> set fs. hf_scale_set f = ''a'') \<and> \<not> (\<exists>f \<in> set fs. hf_scale_set f = ''a'' \<and> hf_level f = Critical)"
proof -
  have on: "online_of demo_runners (''a'', ''o/r'') = Some [''a-x1-runner-1'']" by code_simp
  have "(evaluate_health [(''a'', ''o/r'')] demo_pods demo_runners 300 [] \<noteq> None) = True" by code_simp
  then obtain fs where fs: "evaluate_health [(''a'', ''o/r'')] demo_pods demo_runners 300 [] = Some fs" by auto
  have s: "settled_pods demo_pods ''a'' = demo_pods" by code_simp
  from health_exact [OF fs _ _ on] fs show ?thesis by (simp add: s) (simp add: demo_pods_def)
qed

section \<open>The program\<close>







end
