(* ===== verification/Review.thy ===== *)
theory Review
  imports JsonText Encoding
begin

text \<open>
  scripts/fuze_code_review_verdict.py: the one place that decides whether an automated review
  approves a pull request, and .github/actions/fuze-code-action/execution_result.py, which derives
  conclusion and text of the review from the execution file. None is an exception. The text of a
  JSON error, the fresh token of the output delimiter and the environment are parameters.
\<close>

section \<open>Decisions and the required check\<close>

definition VALID_VERDICTS :: "string list" where
  "VALID_VERDICTS = [''approve'', ''request_changes'', ''comment'']"

definition DECISIONS :: "string list" where
  "DECISIONS = [''approve'', ''request_changes'', ''comment'', ''abstain'', ''superseded'', ''outage'', ''skip'']"

definition ALWAYS_PASS :: "string list" where
  "ALWAYS_PASS = [''approve'', ''superseded'', ''outage'', ''skip'']"

text \<open>The dict that \<open>decide\<close> returns; a missing \<open>deferred\<close> reads as false.\<close>

record review_result =
  rr_decision :: string
  rr_reason :: string
  rr_verdict :: "string option"
  rr_summary :: string
  rr_findings :: "json list"
  rr_downgraded :: bool
  rr_deferred :: bool

definition check_for :: "review_result \<Rightarrow> string" where
  "check_for r =
     (if List.member ALWAYS_PASS (rr_decision r) then ''pass''
      else if rr_decision r = ''comment''
      then (if rr_downgraded r \<or> rr_deferred r then ''pass'' else ''fail'')
      else ''fail'')"

section \<open>The verdict block\<close>

definition start_mark :: "string \<Rightarrow> string" where
  "start_mark nonce = ''===FUZE_REVIEW_VERDICT_JSON:'' @ nonce @ ''===''"

definition end_mark :: "string \<Rightarrow> string" where
  "end_mark nonce = ''===END_FUZE_REVIEW_VERDICT_JSON:'' @ nonce @ ''===''"

text \<open>The text before and after the first occurrence.\<close>

fun cut_at :: "string \<Rightarrow> string \<Rightarrow> (string \<times> string) option" where
  "cut_at pat [] = (if pat = [] then Some ([], []) else None)"
| "cut_at pat (c # s) =
     (if prefix pat (c # s) then Some ([], drop (length pat) (c # s))
      else map_option (\<lambda>(a, b). (c # a, b)) (cut_at pat s))"

lemma cut_at_Some: "cut_at pat s = Some (a, b) \<Longrightarrow> s = a @ pat @ b"
  by (induction s arbitrary: a) (auto simp: prefix_def split: if_splits)

text \<open>\<open>findall\<close> of a start mark, the shortest text, an end mark: from the first start mark to the first end mark
  after it, and on from there.\<close>

function verdict_blocks :: "string \<Rightarrow> string \<Rightarrow> string list" where
  "verdict_blocks nonce s =
     (case cut_at (start_mark nonce) s of
        None \<Rightarrow> []
      | Some (_, t) \<Rightarrow>
          (case cut_at (end_mark nonce) t of
             None \<Rightarrow> []
           | Some (body, rest) \<Rightarrow> body # verdict_blocks nonce rest))"
  by pat_completeness auto
termination
  by (relation "measure (\<lambda>(nonce, s). length s)") (auto dest!: cut_at_Some simp: start_mark_def)

declare verdict_blocks.simps [simp del]

text \<open>An entry of the findings that is no object or has no description.\<close>

fun bad_entry :: "json \<Rightarrow> bool" where
  "bad_entry (JObj kvs) \<longleftrightarrow> ''description'' \<notin> set (map fst kvs)"
| "bad_entry j \<longleftrightarrow> True"

text \<open>Verdict, summary and findings, or the reason why there are none.\<close>

definition read_verdict :: "json \<Rightarrow> string + string \<times> string \<times> json list" where
  "read_verdict j =
     (case j of
        JObj parsed \<Rightarrow>
          (case dget parsed ''verdict'' JNull of
             JStr verdict \<Rightarrow>
               (if \<not> List.member VALID_VERDICTS verdict
                then Inl (''verdict field is not one of ('' @ str_join '', '' (map quoted VALID_VERDICTS)
                       @ ''): '' @ quoted verdict)
                else (case dget parsed ''findings'' JNull of
                        JList findings \<Rightarrow>
                          (if list_ex bad_entry findings
                           then Inl ''a findings entry is not an object with a description''
                           else if verdict = ''approve'' \<and> findings \<noteq> []
                           then Inl (''schema violation: verdict=approve but findings is non-empty '' @ em_dash
                                  @ '' a clean verdict and reported findings are mutually exclusive'')
                           else Inr (verdict,
                                  (case dget parsed ''summary'' JNull of JStr s \<Rightarrow> s | _ \<Rightarrow> []), findings))
                      | _ \<Rightarrow> Inl ''findings field is missing or not a JSON array''))
           | v \<Rightarrow> Inl (''verdict field is not one of ('' @ str_join '', '' (map quoted VALID_VERDICTS)
                     @ ''): '' @ json_repr v))
      | _ \<Rightarrow> Inl ''verdict block did not decode to a JSON object'')"

definition extract_verdict_json ::
  "(string \<Rightarrow> string) \<Rightarrow> string \<Rightarrow> string \<Rightarrow> string + string \<times> string \<times> json list" where
  "extract_verdict_json bad_json result_text nonce =
     (if result_text = [] then Inl ''reviewer produced no output at all''
      else if nonce = [] then Inl ''internal error: no nonce was supplied to search for''
      else (case verdict_blocks nonce result_text of
              [] \<Rightarrow> Inl (''no verdict sentinel block found for this run'' @ [CHR 39] @ ''s nonce'')
            | bs \<Rightarrow>
                (case loads (str_strip (last bs)) of
                   None \<Rightarrow> Inl (''verdict block is not valid JSON: '' @ bad_json (str_strip (last bs)))
                 | Some j \<Rightarrow> read_verdict j)))"

section \<open>The decision\<close>

text \<open>A decision without a model verdict.\<close>

definition no_review :: "string \<Rightarrow> string \<Rightarrow> review_result" where
  "no_review decision reason =
     \<lparr>rr_decision = decision, rr_reason = reason, rr_verdict = None, rr_summary = [], rr_findings = [],
      rr_downgraded = False, rr_deferred = False\<rparr>"

definition superseded_reason :: string where
  "superseded_reason =
     ''the review job was cancelled, which on this workflow means a newer commit ''
     @ ''superseded it. A newer run is reviewing that commit; this one has nothing ''
     @ ''to say and posts nothing.''"

definition skip_reason :: string where
  "skip_reason =
     ''the review job reported nothing to review (no LLM credential configured, ''
     @ ''or no reviewable diff). That is environmental, not a defect in this PR, so ''
     @ ''the check passes; see the review job log for which.''"

definition outage_reason :: string where
  "outage_reason =
     ''every provider rung failed on a classified credit/quota/availability ''
     @ ''signal, not on the review itself. The owner'' @ [CHR 39] @ ''s exception: a vendor ''
     @ ''outage does not block a PR. No review was produced, so this is not an ''
     @ ''approval either -- it comments and passes.''"

definition deferred_reason :: "string list \<Rightarrow> string" where
  "deferred_reason sensitive_files =
     ''review deferred by claude-code-action'' @ [CHR 39] @ ''s workflow-self-modification ''
     @ ''guard: this PR changes CI/governance files ('' @ str_join '', '' sensitive_files
     @ ''), which the reviewer refuses to run against on-PR by design. The review ''
     @ ''runs post-merge on the default branch. This is NOT a review failure and ''
     @ ''does not block the check; the required gates and human review still apply.''"

definition no_success_reason :: "string \<Rightarrow> string" where
  "no_success_reason conclusion =
     ''fuze-code-action conclusion was '' @ quoted conclusion @ '', not '' @ quoted ''success'' @ '' '' @ em_dash
     @ '' no review was produced, so none can be approved. See the per-rung '' @ quoted ''fuze-code-action''
     @ '' notices in the job log for the specific classification ''
     @ ''(availability / task / declined) and, on an availability failure, the named ''
     @ ''provider error that triggered it.''"

definition downgraded_reason :: "string list \<Rightarrow> string" where
  "downgraded_reason sensitive_files =
     ''the model'' @ [CHR 39] @ ''s verdict was '' @ quoted ''approve'' @ '', but this PR touches CI/governance ''
     @ ''files ('' @ str_join '', '' sensitive_files @ ''). A self-approving change to ''
     @ ''the approval machinery deserves a human '' @ em_dash @ '' auto-approve is disabled for ''
     @ ''this class of change regardless of review outcome.''"

definition decide_unreviewed :: "string \<Rightarrow> string list \<Rightarrow> string \<Rightarrow> string \<Rightarrow> review_result" where
  "decide_unreviewed conclusion sensitive_files mode availability =
     (if availability = ''true'' then no_review ''outage'' outage_reason
      else if mode = ''declined'' \<and> sensitive_files \<noteq> []
      then (no_review ''comment'' (deferred_reason sensitive_files))\<lparr>rr_deferred := True\<rparr>
      else no_review ''abstain'' (no_success_reason conclusion))"

definition decide_reviewed :: "(string \<Rightarrow> string) \<Rightarrow> string \<Rightarrow> string \<Rightarrow> string list \<Rightarrow> review_result" where
  "decide_reviewed bad_json result_text nonce sensitive_files =
     (case extract_verdict_json bad_json result_text nonce of
        Inl reason \<Rightarrow> no_review ''abstain'' (''reviewer output was unusable: '' @ reason)
      | Inr (verdict, summary, findings) \<Rightarrow>
          (let r = \<lparr>rr_decision = verdict, rr_reason = ''ok'', rr_verdict = Some verdict, rr_summary = summary,
                 rr_findings = findings, rr_downgraded = False, rr_deferred = False\<rparr>
           in if verdict = ''approve'' \<and> sensitive_files \<noteq> []
              then r\<lparr>rr_decision := ''comment'', rr_reason := downgraded_reason sensitive_files, rr_downgraded := True\<rparr>
              else r))"

definition decide_review ::
  "(string \<Rightarrow> string) \<Rightarrow> string \<Rightarrow> string \<Rightarrow> string \<Rightarrow> string list \<Rightarrow> string \<Rightarrow> string \<Rightarrow> string \<Rightarrow> string
     \<Rightarrow> review_result" where
  "decide_review bad_json conclusion result_text nonce sensitive_files mode job_result ready availability =
     (if job_result = ''cancelled'' then no_review ''superseded'' superseded_reason
      else if ready = ''false'' then no_review ''skip'' skip_reason
      else if conclusion \<noteq> ''success'' then decide_unreviewed conclusion sensitive_files mode availability
      else decide_reviewed bad_json result_text nonce sensitive_files)"

section \<open>The comment\<close>

definition verdict_label :: "string \<Rightarrow> string option" where
  "verdict_label decision =
     map_of [(''approve'', ''APPROVED '' @ em_dash @ '' no blocking findings.''),
             (''request_changes'', ''CHANGES REQUESTED '' @ em_dash @ '' see findings above.''),
             (''comment'', ''COMMENT ONLY '' @ em_dash @ '' not an approval.'')] decision"

definition finding_bullet :: "json \<Rightarrow> string option" where
  "finding_bullet f =
     do { path \<leftarrow> jget_or f ''path'' (JStr ''(unspecified path)'');
          line_no \<leftarrow> jget f ''line'';
          description \<leftarrow> jget_d f ''description'' (JStr []);
          Some (''- `'' @ (if line_no = JNull \<or> line_no = JStr [] then py_str path
                           else py_str path @ '':'' @ py_str line_no)
                @ ''` '' @ em_dash @ '' '' @ py_str description) }"

definition unreviewed_body :: "review_result \<Rightarrow> string list option" where
  "unreviewed_body r =
     (if rr_decision r = ''outage''
      then Some [''**Provider outage '' @ em_dash @ '' the check passes, but this is NOT an approval.**'', [],
             rr_reason r, [],
             ''_The required gates and human review still apply. Re-run this check once the ''
             @ ''provider recovers if you want an actual review on this commit._'']
      else if rr_decision r = ''skip''
      then Some [''**Not reviewed this run '' @ em_dash @ '' environmental, not a defect in this PR.**'', [], rr_reason r]
      else if rr_decision r = ''superseded''
      then Some [''**Superseded '' @ em_dash @ '' nothing posted.**'', [], rr_reason r]
      else if rr_decision r = ''abstain''
      then Some [''**No verdict was reached '' @ em_dash @ '' this run is NOT an approval.**'', [], rr_reason r, [],
             ''This is reported as a failed check deliberately: a review that could not ''
             @ ''run must never be silently indistinguishable from a clean one.'']
      else if rr_deferred r
      then Some [''**Review deferred '' @ em_dash @ '' this is not a failure.**'', [], rr_reason r, [],
             ''_Only the automated AI review is deferred; the required gates and human ''
             @ ''review still gate this PR. The review runs on the post-merge commit on the ''
             @ ''default branch, which no longer modifies the reviewer'' @ [CHR 39] @ ''s own workflow._'']
      else None)"

definition reviewed_body :: "review_result \<Rightarrow> string \<Rightarrow> string \<Rightarrow> string list option" where
  "reviewed_body r mode vendor =
     do { bullets \<leftarrow> those (map finding_bullet (rr_findings r));
          label \<leftarrow> verdict_label (rr_decision r);
          Some ((if rr_downgraded r
                 then [''**Human review required '' @ em_dash @ '' auto-approve disabled for this PR.**'', [],
                       rr_reason r, []]
                 else [])
            @ [''**Summary:** '' @ (if rr_summary r = [] then ''(no summary provided)'' else rr_summary r), []]
            @ (if bullets \<noteq> [] then [''**Findings:**''] @ bullets @ [[]] else [])
            @ [''**Verdict:** '' @ label, [],
               ''_Served by fuze-code-action (mode='' @ (if mode = [] then ''unknown'' else mode)
               @ '', vendor='' @ (if vendor = [] then ''unknown'' else vendor) @ '')._'']) }"

definition render_body :: "review_result \<Rightarrow> string \<Rightarrow> string \<Rightarrow> string option" where
  "render_body r mode vendor =
     map_option (\<lambda>lines. str_join newline ([''## fuze-code-review '' @ em_dash @ '' automated verdict'', []] @ lines))
       (case unreviewed_body r of Some lines \<Rightarrow> Some lines | None \<Rightarrow> reviewed_body r mode vendor)"

section \<open>The program\<close>

text \<open>The environment variables; \<open>re_output\<close> says that GITHUB_OUTPUT is set.\<close>

record review_env =
  re_conclusion :: string
  re_text_b64 :: string
  re_text :: string
  re_nonce :: string
  re_mode :: string
  re_vendor :: string
  re_sensitive :: string
  re_job_result :: string
  re_ready :: string
  re_availability :: string
  re_output :: bool

definition review_text :: "review_env \<Rightarrow> string option" where
  "review_text e =
     (if re_text_b64 e \<noteq> [] then map_option decode_replace (b64decode (re_text_b64 e)) else Some (re_text e))"

definition sensitive_lines :: "string \<Rightarrow> string list" where
  "sensitive_lines raw = filter (\<lambda>l. str_strip l \<noteq> []) (split_on is_linebreak raw)"

text \<open>What is printed and what is appended to the output file.\<close>

definition write_output :: "string \<Rightarrow> bool \<Rightarrow> review_result \<Rightarrow> string \<Rightarrow> string list \<times> string" where
  "write_output token out r body =
     (if \<not> out
      then ([dumps (JObj [(''decision'', JStr (rr_decision r)), (''check'', JStr (check_for r)),
               (''reason'', JStr (rr_reason r))])], [])
      else (let delim = ''FUZE_REVIEW_BODY_'' @ token
            in ([], ''decision='' @ rr_decision r @ newline @ ''check='' @ check_for r @ newline
                 @ ''body<<'' @ delim @ newline @ body @ newline @ delim @ newline)))"

definition review_decision :: "(string \<Rightarrow> string) \<Rightarrow> review_env \<Rightarrow> review_result option" where
  "review_decision bad_json e =
     do { text' \<leftarrow> review_text e;
          Some (decide_review bad_json (re_conclusion e) text' (re_nonce e) (sensitive_lines (re_sensitive e))
            (re_mode e) (re_job_result e) (re_ready e) (re_availability e)) }"

definition review_main ::
  "(string \<Rightarrow> string) \<Rightarrow> string \<Rightarrow> review_env \<Rightarrow> (string list \<times> string \<times> int) option" where
  "review_main bad_json token e =
     do { r \<leftarrow> review_decision bad_json e;
          body \<leftarrow> render_body r (re_mode e) (re_vendor e);
          (let (printed, written) = write_output token (re_output e) r body
           in Some ((''::notice title=fuze-code-review::decision='' @ rr_decision r @ '' check='' @ check_for r
                  @ '' reason='' @ rr_reason r) # printed, written, 0)) }"

section \<open>The execution file\<close>

text \<open>The file argument: None when it is no regular file or cannot be read or decoded, otherwise its text.\<close>

definition result_record :: "json \<Rightarrow> jobj option" where
  "result_record data =
     (case data of
        JList msgs \<Rightarrow>
          (let rs = List.map_filter (\<lambda>m. case m of
                 JObj o' \<Rightarrow> (if dget o' ''type'' JNull = JStr ''result'' then Some o' else None) | _ \<Rightarrow> None) msgs
           in if rs = [] then None else Some (last rs))
      | _ \<Rightarrow> None)"

definition result_text_of :: "jobj \<Rightarrow> string" where
  "result_text_of m =
     (case dget m ''result'' JNull of
        JStr (c # s) \<Rightarrow> c # s
      | _ \<Rightarrow> (case dget m ''errors'' JNull of JList es \<Rightarrow> str_join newline (map py_str es) | _ \<Rightarrow> []))"

definition derive :: "string option \<Rightarrow> string \<times> string" where
  "derive file =
     (case file of
        None \<Rightarrow> ([], [])
      | Some text' \<Rightarrow>
          (case loads text' of
             None \<Rightarrow> ([], [])
           | Some data \<Rightarrow>
               (case result_record data of
                  None \<Rightarrow> ([], [])
                | Some m \<Rightarrow>
                    (if dget m ''subtype'' JNull = JStr ''success'' \<and> dget m ''is_error'' JNull \<noteq> JBool True
                     then ''success'' else ''failure'', result_text_of m))))"

definition derive_main :: "string \<Rightarrow> bool \<Rightarrow> string option \<Rightarrow> string list \<times> string \<times> int" where
  "derive_main token out file =
     (let (conclusion, text') = derive file;
          delim = ''FUZE_EXEC_RESULT_'' @ token;
          notice = ''::notice title=fuze-code-action::derived conclusion=''
            @ (if conclusion = [] then ''(empty)'' else conclusion)
            @ '' from execution_file (result text captured to output, not printed).''
      in if out
         then ([notice], ''conclusion='' @ conclusion @ newline @ ''result-text<<'' @ delim @ newline @ text'
                @ newline @ delim @ newline, 0)
         else ([dumps (JObj [(''conclusion'', JStr conclusion), (''result-text'', JStr text')]), notice], [], 0))"

end
