(* ===== verification/Review_Properties.thy ===== *)
theory Review_Properties
  imports Review
begin

text \<open>
  What the verdict script guarantees: when it approves and when the required check passes, that the
  answer of the model is read whatever surrounds it, that nothing counts without the nonce of the run,
  that every run reports a decision and a check; and what the execution file is taken for.
\<close>

section \<open>Approval and the required check\<close>

text \<open>The last block of the run holds an approval without findings.\<close>

definition clean_approval :: "string \<Rightarrow> string \<Rightarrow> bool" where
  "clean_approval nonce text' \<longleftrightarrow>
     nonce \<noteq> [] \<and> verdict_blocks nonce text' \<noteq> []
     \<and> (\<exists>parsed. loads (str_strip (last (verdict_blocks nonce text'))) = Some (JObj parsed)
          \<and> map_of parsed ''verdict'' = Some (JStr ''approve'') \<and> map_of parsed ''findings'' = Some (JList []))"

lemma dget_value: "v \<noteq> d \<Longrightarrow> dget m k d = v \<longleftrightarrow> map_of m k = Some v"
  by (auto simp: dget_def split: option.splits)

lemma read_verdict_approve:
  "(\<exists>s fs. read_verdict j = Inr (''approve'', s, fs))
     \<longleftrightarrow> (\<exists>parsed. j = JObj parsed \<and> map_of parsed ''verdict'' = Some (JStr ''approve'')
            \<and> map_of parsed ''findings'' = Some (JList []))"
proof (cases j)
  case (JObj parsed)
  have v: "List.member VALID_VERDICTS ''approve''" by (simp add: VALID_VERDICTS_def)
  show ?thesis
  proof
    assume "\<exists>s fs. read_verdict j = Inr (''approve'', s, fs)"
    then have "dget parsed ''verdict'' JNull = JStr ''approve''" "dget parsed ''findings'' JNull = JList []"
      by (auto simp: JObj read_verdict_def split: json.splits if_splits)
    then show "\<exists>parsed. j = JObj parsed \<and> map_of parsed ''verdict'' = Some (JStr ''approve'')
        \<and> map_of parsed ''findings'' = Some (JList [])"
      by (simp add: JObj dget_value)
  next
    assume "\<exists>parsed. j = JObj parsed \<and> map_of parsed ''verdict'' = Some (JStr ''approve'')
        \<and> map_of parsed ''findings'' = Some (JList [])"
    then have "dget parsed ''verdict'' JNull = JStr ''approve''" "dget parsed ''findings'' JNull = JList []"
      by (auto simp: JObj dget_value)
    with v show "\<exists>s fs. read_verdict j = Inr (''approve'', s, fs)" by (simp add: JObj read_verdict_def)
  qed
qed (simp_all add: read_verdict_def)

lemma no_blocks_in_nothing [simp]: "verdict_blocks nonce [] = []"
  by (subst verdict_blocks.simps) (simp add: start_mark_def)

lemma extract_approve:
  "(\<exists>s fs. extract_verdict_json bad text' nonce = Inr (''approve'', s, fs)) \<longleftrightarrow> clean_approval nonce text'"
proof (cases "text' = [] \<or> nonce = [] \<or> verdict_blocks nonce text' = []")
  case True
  then show ?thesis by (auto simp: extract_verdict_json_def clean_approval_def)
next
  case False
  then obtain b bs where bs: "verdict_blocks nonce text' = b # bs" by (cases "verdict_blocks nonce text'") auto
  show ?thesis
  proof (cases "loads (str_strip (last (b # bs)))")
    case None
    then show ?thesis using False by (simp add: extract_verdict_json_def clean_approval_def bs)
  next
    case (Some j)
    then show ?thesis using False read_verdict_approve [of j]
      by (simp add: extract_verdict_json_def clean_approval_def bs)
  qed
qed

lemma read_verdict_valid: "read_verdict j = Inr (v, s, fs) \<Longrightarrow> v \<in> set VALID_VERDICTS"
  by (auto simp: read_verdict_def split: json.splits if_splits)

lemma extract_valid: "extract_verdict_json bad text' nonce = Inr (v, s, fs) \<Longrightarrow> v \<in> set VALID_VERDICTS"
  by (auto simp: extract_verdict_json_def dest: read_verdict_valid split: if_splits list.splits option.splits)

lemma reviewed_approve:
  "rr_decision (decide_reviewed bad text' nonce sens) = ''approve'' \<longleftrightarrow> sens = [] \<and> clean_approval nonce text'"
proof (cases "extract_verdict_json bad text' nonce")
  case (Inl why)
  then show ?thesis using extract_approve [of bad text' nonce] by (simp add: decide_reviewed_def no_review_def)
next
  case (Inr r)
  obtain v s fs where "r = (v, s, fs)" by (cases r)
  then show ?thesis using Inr extract_approve [of bad text' nonce] by (auto simp: decide_reviewed_def Let_def)
qed

lemma reviewed_check:
  "check_for (decide_reviewed bad text' nonce sens) = ''pass'' \<longleftrightarrow> clean_approval nonce text'"
proof (cases "extract_verdict_json bad text' nonce")
  case (Inl why)
  then show ?thesis using extract_approve [of bad text' nonce]
    by (simp add: decide_reviewed_def no_review_def check_for_def ALWAYS_PASS_def)
next
  case (Inr r)
  obtain v s fs where r: "r = (v, s, fs)" by (cases r)
  from Inr extract_valid [of bad text' nonce v s fs] have "v \<in> {''approve'', ''request_changes'', ''comment''}"
    by (simp add: r VALID_VERDICTS_def)
  then show ?thesis using Inr extract_approve [of bad text' nonce]
    by (auto simp: r decide_reviewed_def Let_def check_for_def ALWAYS_PASS_def)
qed

lemma unreviewed_check:
  "check_for (decide_unreviewed conclusion sens mode availability) = ''pass''
     \<longleftrightarrow> availability = ''true'' \<or> (mode = ''declined'' \<and> sens \<noteq> [])"
  "rr_decision (decide_unreviewed conclusion sens mode availability) \<noteq> ''approve''"
  by (simp_all add: decide_unreviewed_def no_review_def check_for_def ALWAYS_PASS_def)

lemma no_review_check: "check_for (no_review d why) = ''pass'' \<longleftrightarrow> d \<in> set ALWAYS_PASS"
  by (auto simp: check_for_def no_review_def)

lemma passing: "''superseded'' \<in> set ALWAYS_PASS" "''skip'' \<in> set ALWAYS_PASS"
  by (simp_all add: ALWAYS_PASS_def)


text \<open>The required check passes in exactly five cases: the run was superseded, there was nothing to
  review, every provider was out, the guard of the action declined a change of the sensitive files, or
  the review is a clean approval (downgraded to a comment or not).\<close>

theorem check_exact:
  "check_for (decide_review bad conclusion text' nonce sens mode job ready availability) = ''pass''
   \<longleftrightarrow> job = ''cancelled'' \<or> ready = ''false''
       \<or> (conclusion \<noteq> ''success'' \<and> (availability = ''true'' \<or> mode = ''declined'' \<and> sens \<noteq> []))
       \<or> (conclusion = ''success'' \<and> clean_approval nonce text')"
  using unreviewed_check(1) [of conclusion sens mode availability]
  by (simp add: decide_review_def reviewed_check no_review_check passing)

section \<open>The nonce\<close>

lemma cut_at_first:
  assumes "\<And>i. i < length pre \<Longrightarrow> \<not> prefix pat (drop i pre @ pat @ post)" and "pat \<noteq> []"
  shows "cut_at pat (pre @ pat @ post) = Some (pre, post)"
  using assms(1)
proof (induction pre)
  case Nil
  then show ?case using assms(2) by (cases pat) simp_all
next
  case (Cons c pre)
  have "\<not> prefix pat ((c # pre) @ pat @ post)" using Cons.prems [of 0] by simp
  moreover have "cut_at pat (pre @ pat @ post) = Some (pre, post)"
    using Cons.prems [of "Suc i" for i] by (intro Cons.IH) auto
  ultimately show ?case by simp
qed

lemma cut_at_None_iff: "pat \<noteq> [] \<Longrightarrow> cut_at pat s = None \<longleftrightarrow> \<not> sublist pat s"
proof (induction s)
  case (Cons c s)
  then show ?case by (auto simp: sublist_Cons_right)
qed simp

text \<open>A mark cannot begin in front of its place without its inner text being there.\<close>

lemma mark_overlap:
  assumes "CHR ''='' \<notin> set w" and "p \<noteq> []" and "prefix (''==='' @ w @ ''==='') (p @ (''==='' @ w @ ''==='') @ post)"
  shows "sublist w p"
proof -
  let ?pat = "''==='' @ w @ ''===''"
  obtain t where t: "p @ ?pat @ post = ?pat @ t" using assms(3) by (auto simp: prefix_def)
  then obtain us where us: "(p = ?pat @ us \<and> us @ ?pat @ post = t) \<or> (p @ us = ?pat \<and> ?pat @ post = us @ t)"
    using iffD1 [OF append_eq_append_conv2 t] by blast
  then show ?thesis
  proof
    assume "p = ?pat @ us \<and> us @ ?pat @ post = t"
    then have "p = ''==='' @ w @ (''==='' @ us)" by simp
    then show ?thesis unfolding sublist_def by blast
  next
    assume eq: "p @ us = ?pat \<and> ?pat @ post = us @ t"
    obtain a b c p' where "p = [a] \<or> p = [a, b] \<or> p = a # b # c # p'"
      using assms(2) by (metis list.exhaust)
    then consider "p = [a]" | "p = [a, b]" | "p = a # b # c # p'" by blast
    then show ?thesis
    proof cases
      case 1
      then show ?thesis using eq assms(1) by (cases w) auto
    next
      case 2
      then show ?thesis using eq assms(1) by (cases w) auto
    next
      case 3
      then have q: "p' @ us = w @ ''===''" and h: "?pat @ post = us @ t" using eq by auto
      from q obtain vs where vs: "(p' = w @ vs \<and> vs @ us = ''==='') \<or> (p' @ vs = w \<and> us = vs @ ''==='')"
        by (auto simp: append_eq_append_conv2)
      then show ?thesis
      proof
        assume "p' = w @ vs \<and> vs @ us = ''===''"
        then show ?thesis using 3 unfolding sublist_def by (metis append_Cons append_Nil)
      next
        assume r: "p' @ vs = w \<and> us = vs @ ''===''"
        show ?thesis
        proof (cases vs)
          case Nil
          then have "p = (a # b # [c]) @ w @ []" using r 3 by simp
          then show ?thesis unfolding sublist_def by blast
        next
          case (Cons v vs')
          then have "v = CHR ''=''" using h r by simp
          then show ?thesis using r Cons assms(1) by auto
        qed
      qed
    qed
  qed
qed

lemma cut_at_mark:
  assumes "CHR ''='' \<notin> set w" and "\<not> sublist w pre"
  shows "cut_at (''==='' @ w @ ''==='') (pre @ (''==='' @ w @ ''==='') @ post) = Some (pre, post)"
proof (rule cut_at_first)
  fix i assume i: "i < length pre"
  then have "drop i pre \<noteq> []" by simp
  with mark_overlap [OF assms(1), of "drop i pre" post] assms(2)
  show "\<not> prefix (''==='' @ w @ ''==='') (drop i pre @ (''==='' @ w @ ''==='') @ post)"
    by (meson sublist_drop sublist_order.order_trans)
qed simp

lemma sublist_suffix: "\<not> sublist nonce s \<Longrightarrow> \<not> sublist (h @ nonce) s"
  by (metis sublist_def append.assoc)

lemma marks:
  "start_mark nonce = ''==='' @ (''FUZE_REVIEW_VERDICT_JSON:'' @ nonce) @ ''===''"
  "end_mark nonce = ''==='' @ (''END_FUZE_REVIEW_VERDICT_JSON:'' @ nonce) @ ''===''"
  by (simp_all add: start_mark_def end_mark_def)

lemma no_nonce_no_blocks:
  assumes "\<not> sublist nonce s"
  shows "verdict_blocks nonce s = []"
proof -
  have "\<not> sublist (start_mark nonce) s"
  proof
    assume "sublist (start_mark nonce) s"
    then obtain ps ss where "s = ps @ start_mark nonce @ ss" by (auto simp: sublist_def)
    then have "s = (ps @ ''===FUZE_REVIEW_VERDICT_JSON:'') @ nonce @ (''==='' @ ss)" by (simp add: start_mark_def)
    then show False using assms unfolding sublist_def by blast
  qed
  then have "cut_at (start_mark nonce) s = None" by (simp add: cut_at_None_iff start_mark_def)
  then show ?thesis by (subst verdict_blocks.simps) simp
qed

lemma one_block:
  assumes "CHR ''='' \<notin> set nonce" and "\<not> sublist nonce pre" and "\<not> sublist nonce body" and "\<not> sublist nonce post"
  shows "verdict_blocks nonce (pre @ start_mark nonce @ body @ end_mark nonce @ post) = [body]"
proof -
  have w: "CHR ''='' \<notin> set (''FUZE_REVIEW_VERDICT_JSON:'' @ nonce)" "CHR ''='' \<notin> set (''END_FUZE_REVIEW_VERDICT_JSON:'' @ nonce)"
    using assms(1) by simp_all
  have "cut_at (start_mark nonce) (pre @ start_mark nonce @ (body @ end_mark nonce @ post))
      = Some (pre, body @ end_mark nonce @ post)"
    unfolding marks(1) by (rule cut_at_mark [OF w(1) sublist_suffix [OF assms(2)]])
  moreover have "cut_at (end_mark nonce) (body @ end_mark nonce @ post) = Some (body, post)"
    unfolding marks(2) by (rule cut_at_mark [OF w(2) sublist_suffix [OF assms(3)]])
  ultimately show ?thesis
    by (subst verdict_blocks.simps) (simp add: no_nonce_no_blocks [OF assms(4)])
qed

text \<open>The object the reviewer is told to emit, between its marks.\<close>

definition verdict_object :: "string \<Rightarrow> string \<Rightarrow> json list \<Rightarrow> json" where
  "verdict_object verdict summary findings =
     JObj [(''verdict'', JStr verdict), (''summary'', JStr summary), (''findings'', JList findings)]"

definition answer :: "string \<Rightarrow> string \<Rightarrow> string" where
  "answer nonce body = start_mark nonce @ body @ end_mark nonce"

lemma read_verdict_object:
  assumes "v \<in> set VALID_VERDICTS" and "list_all (\<lambda>f. \<not> bad_entry f) fs" and "v = ''approve'' \<longrightarrow> fs = []"
  shows "read_verdict (verdict_object v s fs) = Inr (v, s, fs)"
  using assms by (auto simp: read_verdict_def verdict_object_def list_ex_iff list_all_iff)

lemma dumps_object_strip: "str_strip (dumps (JObj kvs)) = dumps (JObj kvs)"
  by (simp add: str_strip_def lstrip_def rstrip_def is_space_def)

lemma answer_read:
  assumes "nonce \<noteq> []" and "CHR ''='' \<notin> set nonce" and "\<not> sublist nonce pre" and "\<not> sublist nonce post"
    and "\<not> sublist nonce (dumps (verdict_object v s fs))" and "JsonText.clean (verdict_object v s fs)"
    and "v \<in> set VALID_VERDICTS" and "list_all (\<lambda>f. \<not> bad_entry f) fs" and "v = ''approve'' \<longrightarrow> fs = []"
  shows "extract_verdict_json bad (pre @ answer nonce (dumps (verdict_object v s fs)) @ post) nonce = Inr (v, s, fs)"
proof -
  let ?body = "dumps (verdict_object v s fs)"
  have blocks: "verdict_blocks nonce (pre @ answer nonce ?body @ post) = [?body]"
    using one_block [OF assms(2,3,5,4)] by (simp add: answer_def)
  have "str_strip ?body = ?body" unfolding verdict_object_def by (rule dumps_object_strip)
  then have "loads (str_strip ?body) = Some (verdict_object v s fs)"
    using loads_dumps [OF assms(6)] by simp
  moreover have "pre @ answer nonce ?body @ post \<noteq> []" by (simp add: answer_def start_mark_def)
  ultimately show ?thesis
    using assms(1) read_verdict_object [OF assms(7-9)] by (simp add: extract_verdict_json_def blocks)
qed

text \<open>The answer of the model is read back whatever surrounds it. When the text around an answer and the
  answer itself do not contain the nonce, the decision of a finished review is the verdict of the answer,
  with its summary and findings; only an approval of sensitive files becomes a comment. A text that
  quotes the contract, or forges blocks with another nonce, changes nothing.\<close>

theorem answer_decides:
  assumes "nonce \<noteq> []" and "CHR ''='' \<notin> set nonce" and "\<not> sublist nonce pre" and "\<not> sublist nonce post"
    and "\<not> sublist nonce (dumps (verdict_object v s fs))" and "JsonText.clean (verdict_object v s fs)"
    and "v \<in> set VALID_VERDICTS" and "list_all (\<lambda>f. \<not> bad_entry f) fs" and "v = ''approve'' \<longrightarrow> fs = []"
    and "job \<noteq> ''cancelled''" and "ready \<noteq> ''false''"
  shows "let r = decide_review bad ''success'' (pre @ answer nonce (dumps (verdict_object v s fs)) @ post) nonce sens
        mode job ready availability
     in rr_decision r = (if v = ''approve'' \<and> sens \<noteq> [] then ''comment'' else v)
        \<and> rr_verdict r = Some v \<and> rr_summary r = s \<and> rr_findings r = fs"
  using answer_read [OF assms(1-9), of bad] assms(10,11)
  by (simp add: decide_review_def decide_reviewed_def Let_def)

theorem answer_decides_witness:
  "rr_decision (decide_review (\<lambda>t. []) ''success''
       (answer ''forged'' (dumps (verdict_object ''comment'' [] []))
        @ answer ''6f1c22d9'' (dumps (verdict_object ''approve'' ''fine'' [])) @ '' done'')
       ''6f1c22d9'' [] [] [] [] []) = ''approve''"
proof -
  have c: "JsonText.clean (verdict_object ''approve'' ''fine'' []) = True" by code_simp
  have v: "(''approve'' \<in> set VALID_VERDICTS) = True" by code_simp
  have n: "sublist ''6f1c22d9'' (dumps (verdict_object ''approve'' ''fine'' [])) = False" by code_simp
  have p: "sublist ''6f1c22d9'' (answer ''forged'' (dumps (verdict_object ''comment'' [] []))) = False"
    by code_simp
  have q: "sublist ''6f1c22d9'' '' done'' = False" by code_simp
  show ?thesis
    using answer_decides [of "''6f1c22d9''" "answer ''forged'' (dumps (verdict_object ''comment'' [] []))"
        "'' done''" "''approve''" "''fine''" "[]" "[]" "[]" "\<lambda>t. []" "[]" "[]" "[]"] c v n p q
    by (simp add: Let_def)
qed

text \<open>C17: without the nonce of the run nothing is approved: a text that does not contain it never leads to an
  approval, and the check of a finished review fails.\<close>

theorem nonce_needed:
  assumes "\<not> sublist nonce text'"
  shows "rr_decision (decide_review bad conclusion text' nonce sens mode job ready availability) \<noteq> ''approve''
    \<and> (job \<noteq> ''cancelled'' \<and> ready \<noteq> ''false''
       \<longrightarrow> check_for (decide_review bad ''success'' text' nonce sens mode job ready availability) = ''fail'')"
proof -
  have no: "\<not> clean_approval nonce text'"
    using no_nonce_no_blocks [OF assms] by (simp add: clean_approval_def)
  have two: "check_for r \<noteq> ''pass'' \<Longrightarrow> check_for r = ''fail''" for r by (auto simp: check_for_def split: if_splits)
  show ?thesis
    using unreviewed_check(2) [of conclusion sens mode availability]
      two [of "decide_reviewed bad text' nonce sens"] no
    by (simp add: decide_review_def reviewed_approve reviewed_check no_review_def)
qed

theorem nonce_needed_witness:
  "rr_decision (decide_review (\<lambda>t. []) ''success'' (answer ''a'' (dumps (verdict_object ''approve'' [] [])))
      ''6f1c22d9'' [] [] [] [] []) \<noteq> ''approve''"
proof -
  have "sublist ''6f1c22d9'' (answer ''a'' (dumps (verdict_object ''approve'' [] []))) = False" by code_simp
  then show ?thesis using nonce_needed by simp
qed

text \<open>Two answers of the same run that contradict each other: the later one counts.\<close>

lemma later_answer_wins:
  "rr_decision (decide_review (\<lambda>t. []) ''success''
      (answer ''n'' (dumps (verdict_object ''request_changes'' [] []))
       @ answer ''n'' (dumps (verdict_object ''approve'' [] []))) ''n'' [] [] [] [] []) = ''approve''"
  by code_simp

section \<open>Every run reports\<close>

lemma unreviewed_known: "rr_decision (decide_unreviewed conclusion sens mode availability) \<in> set DECISIONS"
  by (simp add: decide_unreviewed_def no_review_def DECISIONS_def)

lemma valid_known: "v \<in> set VALID_VERDICTS \<Longrightarrow> v \<in> set DECISIONS"
  by (auto simp: DECISIONS_def VALID_VERDICTS_def)

lemma reviewed_known: "rr_decision (decide_reviewed bad text' nonce sens) \<in> set DECISIONS"
proof (cases "extract_verdict_json bad text' nonce")
  case (Inl why)
  then show ?thesis by (simp add: decide_reviewed_def no_review_def DECISIONS_def)
next
  case (Inr r)
  obtain v s fs where r: "r = (v, s, fs)" by (cases r)
  have c: "''comment'' \<in> set DECISIONS" by (simp add: DECISIONS_def)
  from Inr have "v \<in> set DECISIONS" by (intro valid_known extract_valid [of bad text' nonce v s fs]) (simp add: r)
  then show ?thesis by (simp add: decide_reviewed_def Inr r Let_def c)
qed

lemma decision_known: "rr_decision (decide_review bad conclusion text' nonce sens mode job ready availability) \<in> set DECISIONS"
proof -
  have "''superseded'' \<in> set DECISIONS" "''skip'' \<in> set DECISIONS" by (simp_all add: DECISIONS_def)
  then show ?thesis by (simp add: decide_review_def unreviewed_known reviewed_known) (simp add: no_review_def)
qed

lemma extract_entries:
  "extract_verdict_json bad text' nonce = Inr (v, s, fs) \<Longrightarrow> list_all (\<lambda>f. \<not> bad_entry f) fs"
  by (auto simp: extract_verdict_json_def read_verdict_def list_ex_iff list_all_iff
      split: if_splits list.splits option.splits json.splits)

lemma bullet_Some: "\<not> bad_entry f \<Longrightarrow> finding_bullet f \<noteq> None"
  by (cases f) (simp_all add: finding_bullet_def jget_or_def jget_def)

lemma bullets_Some: "list_all (\<lambda>f. \<not> bad_entry f) fs \<Longrightarrow> those (map finding_bullet fs) \<noteq> None"
  by (induction fs) (auto dest: bullet_Some)

lemma label_Some: "v \<in> set VALID_VERDICTS \<Longrightarrow> verdict_label v \<noteq> None"
  by (auto simp: VALID_VERDICTS_def verdict_label_def)

lemma unreviewed_body_Some:
  "unreviewed_body (decide_unreviewed conclusion sens mode availability) \<noteq> None"
  "unreviewed_body (no_review ''superseded'' why) \<noteq> None" "unreviewed_body (no_review ''skip'' why) \<noteq> None"
  "unreviewed_body (no_review ''abstain'' why) \<noteq> None"
  by (simp_all add: unreviewed_body_def decide_unreviewed_def no_review_def)

lemma reviewed_body_Some:
  assumes "rr_decision r \<in> set VALID_VERDICTS" and "list_all (\<lambda>f. \<not> bad_entry f) (rr_findings r)"
  shows "reviewed_body r mode vendor \<noteq> None"
proof -
  obtain bs l where "those (map finding_bullet (rr_findings r)) = Some bs" "verdict_label (rr_decision r) = Some l"
    using bullets_Some [OF assms(2)] label_Some [OF assms(1)] by auto
  then show ?thesis by (simp add: reviewed_body_def)
qed

lemma body_if_unreviewed: "unreviewed_body r \<noteq> None \<Longrightarrow> render_body r mode vendor \<noteq> None"
  by (auto simp: render_body_def)

lemma body_of_reviewed: "render_body (decide_reviewed bad text' nonce sens) mode vendor \<noteq> None"
proof (cases "extract_verdict_json bad text' nonce")
  case (Inl why)
  then show ?thesis
    by (simp only: decide_reviewed_def sum.case) (rule body_if_unreviewed [OF unreviewed_body_Some(4)])
next
  case (Inr r)
  obtain v s fs where r: "r = (v, s, fs)" by (cases r)
  let ?d = "decide_reviewed bad text' nonce sens"
  have "''comment'' \<in> set VALID_VERDICTS" by (simp add: VALID_VERDICTS_def)
  then have "rr_decision ?d \<in> set VALID_VERDICTS \<and> rr_findings ?d = fs"
    using extract_valid [of bad text' nonce v s fs] by (simp add: decide_reviewed_def Inr r Let_def)
  then have "reviewed_body ?d mode vendor \<noteq> None"
    using extract_entries [of bad text' nonce v s fs] by (intro reviewed_body_Some) (simp_all add: Inr r)
  then show ?thesis by (simp add: render_body_def split: option.splits)
qed

lemma body_of_every_decision:
  "render_body (decide_review bad conclusion text' nonce sens mode job ready availability) mode' vendor \<noteq> None"
  unfolding decide_review_def using body_of_reviewed unreviewed_body_Some(1-3) [THEN body_if_unreviewed]
  by (cases "job = ''cancelled''"; cases "ready = ''false''"; cases "conclusion = ''success''")
    (simp_all only: if_True if_False simp_thms)

text \<open>C40: every run reports. When the review text can be decoded the script ends with 0 and has written one
  of the known decisions and a check that is pass or fail, in the first two lines of the output: no
  branch is without a body, and the workflow never reads an empty check.\<close>

theorem every_run_reports:
  assumes "review_text e = Some text'"
  shows "\<exists>r printed written. review_main bad token e = Some (printed, written, 0)
    \<and> review_decision bad e = Some r \<and> rr_decision r \<in> set DECISIONS \<and> check_for r \<in> {''pass'', ''fail''}
    \<and> (re_output e \<longrightarrow> prefix (''decision='' @ rr_decision r @ newline @ ''check='' @ check_for r @ newline) written)"
proof -
  obtain r where r: "review_decision bad e = Some r"
    and known: "rr_decision r \<in> set DECISIONS" and body: "render_body r (re_mode e) (re_vendor e) \<noteq> None"
    using assms decision_known body_of_every_decision by (simp add: review_decision_def)
  obtain b where b: "render_body r (re_mode e) (re_vendor e) = Some b" using body by auto
  obtain printed written where w: "write_output token (re_output e) r b = (printed, written)" by fastforce
  have "re_output e \<Longrightarrow> prefix (''decision='' @ rr_decision r @ newline @ ''check='' @ check_for r @ newline) written"
    using w by (auto simp: write_output_def Let_def)
  moreover have "check_for r \<in> {''pass'', ''fail''}" by (simp add: check_for_def)
  ultimately show ?thesis using r known b w by (auto simp: review_main_def)
qed

definition demo_review_env :: review_env where
  "demo_review_env = \<lparr>re_conclusion = ''success'', re_text_b64 = ''bm8='', re_text = [], re_nonce = ''n'', re_mode = [],
     re_vendor = [], re_sensitive = [], re_job_result = [], re_ready = ''true'', re_availability = [], re_output = True\<rparr>"

theorem every_run_reports_witness:
  "\<exists>r printed written. review_main (\<lambda>t. []) ''t'' demo_review_env = Some (printed, written, 0)
    \<and> prefix (''decision='' @ rr_decision r @ newline @ ''check='' @ check_for r @ newline) written"
proof -
  have t: "review_text demo_review_env = Some ''no''" by code_simp
  have "re_output demo_review_env" by (simp add: demo_review_env_def)
  with every_run_reports [OF t, of "\<lambda>t. []" "''t''"] show ?thesis by blast
qed

section \<open>The execution file\<close>

fun is_result :: "json \<Rightarrow> bool" where
  "is_result (JObj m) \<longleftrightarrow> map_of m ''type'' = Some (JStr ''result'')"
| "is_result j \<longleftrightarrow> False"

lemma result_record_snoc:
  "result_record (JList (msgs @ [x])) = (if is_result x then (case x of JObj m \<Rightarrow> Some m | _ \<Rightarrow> None) else result_record (JList msgs))"
  by (cases x) (auto simp: result_record_def Let_def map_filter_def dget_value)

lemma result_record_Some:
  "result_record (JList msgs) = Some m
     \<longleftrightarrow> (\<exists>before after. msgs = before @ JObj m # after \<and> is_result (JObj m) \<and> filter is_result after = [])"
proof (induction msgs rule: rev_induct)
  case Nil
  then show ?case by (simp add: result_record_def map_filter_def)
next
  case (snoc x msgs)
  show ?case
  proof (cases "is_result x")
    case True
    then obtain m' where x: "x = JObj m'" by (cases x) auto
    show ?thesis
    proof
      assume "result_record (JList (msgs @ [x])) = Some m"
      then have "x = JObj m" using True by (simp add: result_record_snoc x)
      then show "\<exists>before after. msgs @ [x] = before @ JObj m # after \<and> is_result (JObj m) \<and> filter is_result after = []"
        using True by (intro exI [of _ msgs] exI [of _ "[]"]) simp
    next
      assume "\<exists>before after. msgs @ [x] = before @ JObj m # after \<and> is_result (JObj m) \<and> filter is_result after = []"
      then obtain before after where s: "msgs @ [x] = before @ JObj m # after" "filter is_result after = []" by blast
      have "after = []"
      proof (rule ccontr)
        assume "after \<noteq> []"
        then have "last after = x" using s(1) by (metis last.simps last_appendR last_snoc list.distinct(1))
        then show False using s(2) True \<open>after \<noteq> []\<close> by (metis filter_empty_conv last_in_set)
      qed
      then show "result_record (JList (msgs @ [x])) = Some m" using s(1) True by (simp add: result_record_snoc)
    qed
  next
    case False
    show ?thesis
    proof
      assume "result_record (JList (msgs @ [x])) = Some m"
      then obtain before after where "msgs = before @ JObj m # after" "is_result (JObj m)" "filter is_result after = []"
        using snoc.IH False by (auto simp: result_record_snoc)
      then show "\<exists>before after. msgs @ [x] = before @ JObj m # after \<and> is_result (JObj m) \<and> filter is_result after = []"
        using False by (intro exI [of _ before] exI [of _ "after @ [x]"]) simp
    next
      assume "\<exists>before after. msgs @ [x] = before @ JObj m # after \<and> is_result (JObj m) \<and> filter is_result after = []"
      then obtain before after where s: "msgs @ [x] = before @ JObj m # after" "is_result (JObj m)" "filter is_result after = []"
        by blast
      have ne: "after \<noteq> []" using s False by auto
      then have "msgs = before @ JObj m # butlast after" using s(1) by (metis butlast.simps(2) butlast_append butlast_snoc list.distinct(1))
      moreover have "filter is_result (butlast after) = []"
        using s(3) by (metis filter_empty_conv in_set_butlastD)
      ultimately have "result_record (JList msgs) = Some m" using snoc.IH s(2) by blast
      then show "result_record (JList (msgs @ [x])) = Some m" using False by (simp add: result_record_snoc)
    qed
  qed
qed

text \<open>The derived conclusion is success exactly when the execution file is a JSON array whose last record of
  type result has the subtype success and is not marked as an error. A missing or unreadable file, other
  JSON and a run without such a record are never a success.\<close>

theorem derived_success_exact:
  "fst (derive exec_file) = ''success'' \<longleftrightarrow>
     (\<exists>text' before m after. exec_file = Some text' \<and> loads text' = Some (JList (before @ JObj m # after))
        \<and> is_result (JObj m) \<and> filter is_result after = []
        \<and> map_of m ''subtype'' = Some (JStr ''success'') \<and> map_of m ''is_error'' \<noteq> Some (JBool True))"
proof -
  have err: "dget m ''is_error'' JNull \<noteq> JBool True \<longleftrightarrow> map_of m ''is_error'' \<noteq> Some (JBool True)" for m
    by (simp add: dget_value)
  have "fst (derive exec_file) = ''success'' \<longleftrightarrow>
     (\<exists>text' msgs m. exec_file = Some text' \<and> loads text' = Some (JList msgs) \<and> result_record (JList msgs) = Some m
        \<and> map_of m ''subtype'' = Some (JStr ''success'') \<and> map_of m ''is_error'' \<noteq> Some (JBool True))"
  proof (cases exec_file)
    case (Some t)
    have obj: "result_record j = Some m \<Longrightarrow> \<exists>msgs. j = JList msgs" for j m
      by (cases j) (simp_all add: result_record_def)
    show ?thesis unfolding derive_def Some using obj
      by (auto simp: err dget_value split: option.splits) metis
  qed (simp add: derive_def)
  also have "\<dots> \<longleftrightarrow> (\<exists>text' before m after. exec_file = Some text' \<and> loads text' = Some (JList (before @ JObj m # after))
        \<and> is_result (JObj m) \<and> filter is_result after = []
        \<and> map_of m ''subtype'' = Some (JStr ''success'') \<and> map_of m ''is_error'' \<noteq> Some (JBool True))"
    unfolding result_record_Some by blast
  finally show ?thesis .
qed

end
