(* ===== verification/Dispatcher.thy ===== *)
theory Dispatcher
  imports JsonText PyTime Encoding Sha256 "HOL-Library.Char_ord" "HOL-Library.List_Lexorder"
begin

text \<open>
  helm/fuzeinfra/files/alert-session-dispatcher/dispatcher.py: a critical alert that is on the
  allowlist makes the dispatcher ask for one responder session. Its memory is a state file with the
  number of spawns of a day and one record per fault. None in a pure function is an exception.

  The handling of an alert holds the lock of the state from its decision to its end, so alerts are
  handled one after the other. The state file is the JSON value it holds. Time stamps of log lines
  are not modelled. Counts are whole numbers and times are finite, as the program writes them.
\<close>

section \<open>Character sets\<close>

definition is_alnum :: "char \<Rightarrow> bool" where
  "is_alnum c \<longleftrightarrow> is_lower c \<or> is_upper c \<or> is_digit c"

definition in_class :: "(char \<Rightarrow> bool) \<Rightarrow> (char \<Rightarrow> bool) \<Rightarrow> nat \<Rightarrow> string \<Rightarrow> bool" where
  "in_class hd_ok tl_ok n s = (case s of [] \<Rightarrow> False | c # t \<Rightarrow> hd_ok c \<and> length t \<le> n \<and> list_all tl_ok t)"

text \<open>\<open>$\<close> also matches in front of a final newline.\<close>

definition to_end :: "(string \<Rightarrow> bool) \<Rightarrow> string \<Rightarrow> bool" where
  "to_end p s \<longleftrightarrow> p s \<or> (s \<noteq> [] \<and> last s = CHR 10 \<and> p (butlast s))"

definition alertname_ok :: "string \<Rightarrow> bool" where
  "alertname_ok = to_end (in_class is_alnum (\<lambda>c. is_alnum c \<or> c \<in> set '' ._-'') 63)"

definition label_value_ok :: "string \<Rightarrow> bool" where
  "label_value_ok = to_end (in_class is_alnum (\<lambda>c. is_alnum c \<or> c \<in> set ''._:/-'') 127)"

definition label_key_ok :: "string \<Rightarrow> bool" where
  "label_key_ok = to_end (in_class is_lower (\<lambda>c. is_lower c \<or> is_digit c \<or> c = CHR ''_'') 39)"

definition session_id_ok :: "string \<Rightarrow> bool" where
  "session_id_ok = (let p = (\<lambda>c. is_alnum c \<or> c \<in> set ''_-'') in to_end (in_class p p 127))"

definition session_url_ok :: "string \<Rightarrow> bool" where
  "session_url_ok =
     to_end (\<lambda>s.
       let rest = drop 8 s;
           host = takeWhile (\<lambda>c. is_lower c \<or> is_digit c \<or> c \<in> set ''.-'') rest;
           path = drop (length host) rest
       in prefix ''https://'' s \<and> host \<noteq> []
          \<and> (path = [] \<or> (hd path = CHR ''/'' \<and> list_all (\<lambda>c. is_alnum c \<or> c \<in> set ''._~/-'') (tl path))))"

text \<open>Eats a text by a pattern: \<open>0\<close> stands for a digit, \<open>+\<close> for a sign.\<close>

fun eat :: "string \<Rightarrow> string \<Rightarrow> string option" where
  "eat [] s = Some s"
| "eat (p # ps) [] = None"
| "eat (p # ps) (c # s) =
     (if (if p = CHR ''0'' then is_digit c else if p = CHR ''+'' then c \<in> set ''+-'' else c = p)
      then eat ps s else None)"

definition timestamp_ok :: "string \<Rightarrow> bool" where
  "timestamp_ok =
     to_end (\<lambda>s.
       case eat ''0000-00-00T00:00:00'' s of
         None \<Rightarrow> False
       | Some r \<Rightarrow>
           (let digits = takeWhile is_digit (tl r);
                fraction = r \<noteq> [] \<and> hd r = CHR ''.'' \<and> digits \<noteq> [] \<and> length digits \<le> 9;
                zone = (if fraction then drop (length digits + 1) r else r)
            in zone = ''Z'' \<or> eat ''+00:00'' zone = Some []))"

definition MAX_BODY :: nat where
  "MAX_BODY = 262144"

definition MAX_LABELS :: nat where
  "MAX_LABELS = 12"

definition REQUIRED_LABELS :: "string list" where
  "REQUIRED_LABELS = [''alertname'', ''namespace'']"

section \<open>Configuration\<close>

record alert_config =
  ac_paused :: bool
  ac_dry_run :: bool
  ac_allowlist :: "string list"
  ac_label_keys :: "string list"
  ac_cooldown :: int
  ac_open_ttl :: int
  ac_spawn_cap :: int
  ac_spend_cap :: flt
  ac_cost :: flt
  ac_token_url :: string
  ac_session_url :: string
  ac_token_file :: string
  ac_audit_repo :: string
  ac_state_file :: string

definition texts_at :: "json \<Rightarrow> string \<Rightarrow> string list option" where
  "texts_at cfg k = do { v \<leftarrow> jidx cfg k; xs \<leftarrow> jiter v; Some (map py_str xs) }"

definition config_fields :: "json \<Rightarrow> alert_config option" where
  "config_fields cfg =
     do { paused \<leftarrow> jget_d cfg ''paused'' (JBool False);
          dry \<leftarrow> jget_d cfg ''dryRun'' (JBool True);
          allow \<leftarrow> texts_at cfg ''allowlist'';
          keys \<leftarrow> texts_at cfg ''labelKeys'';
          cd \<leftarrow> jidx cfg ''cooldownSeconds''; cd \<leftarrow> py_int cd;
          ttl \<leftarrow> jidx cfg ''openTtlSeconds''; ttl \<leftarrow> py_int ttl;
          cap \<leftarrow> jidx cfg ''dailySpawnCap''; cap \<leftarrow> py_int cap;
          spend \<leftarrow> jidx cfg ''dailySpendCapUsd''; spend \<leftarrow> py_float spend;
          cost \<leftarrow> jidx cfg ''estimatedSessionCostUsd''; cost \<leftarrow> py_float cost;
          turl \<leftarrow> jidx cfg ''securityTokenUrl'';
          surl \<leftarrow> jidx cfg ''agentSessionUrl'';
          tfile \<leftarrow> jget_d cfg ''projectedTokenFile'' (JStr ''/var/run/secrets/tokens/fuzefront-security'');
          audit \<leftarrow> jget_d cfg ''auditRepo'' (JStr []);
          sfile \<leftarrow> jget_d cfg ''stateFile'' (JStr ''/state/state.json'');
          Some \<lparr>ac_paused = truthy paused, ac_dry_run = truthy dry, ac_allowlist = allow, ac_label_keys = keys,
            ac_cooldown = cd, ac_open_ttl = ttl, ac_spawn_cap = cap, ac_spend_cap = spend, ac_cost = cost,
            ac_token_url = py_str turl, ac_session_url = py_str surl, ac_token_file = py_str tfile,
            ac_audit_repo = py_str audit, ac_state_file = py_str sfile\<rparr> }"

definition http_url :: "string \<Rightarrow> bool" where
  "http_url u \<longleftrightarrow> prefix ''http://'' u \<or> prefix ''https://'' u"

definition config_ok :: "alert_config \<Rightarrow> bool" where
  "config_ok c \<longleftrightarrow>
     ac_allowlist c \<noteq> [] \<and> list_all alertname_ok (ac_allowlist c) \<and> list_all label_key_ok (ac_label_keys c)
     \<and> list_all (List.member (ac_label_keys c)) REQUIRED_LABELS
     \<and> \<not> (ac_spawn_cap c < 0 \<or> ac_cooldown c < 0 \<or> ac_open_ttl c < 1)
     \<and> \<not> (fle (ac_cost c) (Fin 0) \<or> flt_less (ac_spend_cap c) (Fin 0))
     \<and> http_url (ac_token_url c) \<and> http_url (ac_session_url c)"

definition load_config :: "string \<Rightarrow> alert_config option" where
  "load_config raw = do { cfg \<leftarrow> loads raw; c \<leftarrow> config_fields cfg; guard_opt (config_ok c) (Some c) }"

section \<open>Labels\<close>

type_synonym labels = "(string \<times> string) list"

fun sanitize_keys :: "jobj \<Rightarrow> string list \<Rightarrow> string list \<Rightarrow> labels \<Rightarrow> string list \<Rightarrow> labels \<times> string list" where
  "sanitize_keys labels allowed [] kept dropped = (kept, dropped)"
| "sanitize_keys labels allowed (key # keys) kept dropped =
     (if \<not> List.member allowed key
      then sanitize_keys labels allowed keys kept (dropped @ [take_chars 40 key])
      else (case dget labels key JNull of
              JStr value \<Rightarrow>
                (if (if key = ''alertname'' then alertname_ok value else label_value_ok value)
                 then (if MAX_LABELS \<le> length kept + 1 then (kept @ [(key, value)], dropped)
                       else sanitize_keys labels allowed keys (kept @ [(key, value)]) dropped)
                 else sanitize_keys labels allowed keys kept (dropped @ [key]))
            | _ \<Rightarrow> sanitize_keys labels allowed keys kept (dropped @ [key])))"

text \<open>Inl is the ValueError with its text.\<close>

definition sanitize_labels :: "json \<Rightarrow> string list \<Rightarrow> string + labels \<times> string list" where
  "sanitize_labels labels allowed =
     (case labels of
        JObj kvs \<Rightarrow>
          (let (kept, dropped) = sanitize_keys kvs allowed (sort (map fst kvs)) [] []
           in case filter (\<lambda>req. map_of kept req = None) REQUIRED_LABELS of
                [] \<Rightarrow> Inr (kept, dropped)
              | req # _ \<Rightarrow> Inl (''required label '' @ req @ '' missing or failed validation''))
      | _ \<Rightarrow> Inl ''labels is not an object'')"

definition dedup_key :: "string \<Rightarrow> string \<Rightarrow> string" where
  "dedup_key alertname namespace = take 16 (sha256_hex (alertname @ [CHR 0x00] @ namespace))"

section \<open>The state\<close>

text \<open>\<open>datetime.timestamp()\<close> and \<open>strftime("%Y-%m-%d")\<close>.\<close>

definition timestamp :: "datetime \<Rightarrow> rat" where
  "timestamp d = of_int (to_us d - days_before_year 1970 * 86400000000) / 1000000"

definition day_text :: "datetime \<Rightarrow> string" where
  "day_text d = pad_nat 4 (dt_year d) @ ''-'' @ pad_nat 2 (dt_month d) @ ''-'' @ pad_nat 2 (dt_day d)"

definition empty_state :: jobj where
  "empty_state = [(''days'', JObj []), (''faults'', JObj [])]"

text \<open>None: the process stops. The state file: None when there is none.\<close>

definition load_alert_state :: "json option \<Rightarrow> jobj option" where
  "load_alert_state file =
     (case file of
        None \<Rightarrow> Some empty_state
      | Some (JObj kvs) \<Rightarrow>
          (if map_of kvs ''days'' \<noteq> None \<and> map_of kvs ''faults'' \<noteq> None then Some kvs else None)
      | Some j \<Rightarrow> None)"

definition dict_of :: "json \<Rightarrow> jobj option" where
  "dict_of j = (case j of JObj kvs \<Rightarrow> Some kvs | _ \<Rightarrow> None)"

definition member_dict :: "jobj \<Rightarrow> string \<Rightarrow> jobj option" where
  "member_dict data k = do { v \<leftarrow> map_of data k; dict_of v }"

definition whole :: "json \<Rightarrow> int option" where
  "whole j = (case j of JInt i \<Rightarrow> Some i | JBool b \<Rightarrow> Some (if b then 1 else 0) | _ \<Rightarrow> None)"

definition seconds :: "json \<Rightarrow> rat option" where
  "seconds j = (case j of JFloat (Fin q) \<Rightarrow> Some q | JInt i \<Rightarrow> Some (of_int i) | _ \<Rightarrow> None)"

text \<open>The reason of a skip, or None for a spawn.\<close>

definition fault_blocks :: "alert_config \<Rightarrow> jobj \<Rightarrow> rat \<Rightarrow> string option option" where
  "fault_blocks cfg fault epoch =
     do { v \<leftarrow> map_of fault ''spawnedAt''; at' \<leftarrow> seconds v;
          Some (if dget fault ''status'' JNull = JStr ''open'' \<and> epoch - at' < of_int (ac_open_ttl cfg)
                then Some ''open-session-exists''
                else if epoch - at' < of_int (ac_cooldown cfg) then Some ''cooldown''
                else None) }"

definition day_blocks :: "alert_config \<Rightarrow> json \<Rightarrow> string option option" where
  "day_blocks cfg day =
     do { v \<leftarrow> jidx day ''spawns''; n \<leftarrow> whole v;
          Some (if ac_spawn_cap cfg \<le> n then Some ''daily-spawn-cap''
                else if flt_less (ac_spend_cap cfg) (fmul_int (of_int (n + 1)) (ac_cost cfg)) then Some ''daily-spend-cap''
                else None) }"

definition no_spawns :: json where
  "no_spawns = JObj [(''spawns'', JInt 0)]"

definition decide_spawn ::
  "alert_config \<Rightarrow> jobj \<Rightarrow> string \<Rightarrow> string \<Rightarrow> datetime \<Rightarrow> string option option" where
  "decide_spawn cfg data alertname namespace now =
     (if ac_paused cfg then Some (Some ''paused'')
      else if \<not> List.member (ac_allowlist cfg) alertname then Some (Some ''not-allowlisted'')
      else do { faults \<leftarrow> member_dict data ''faults'';
                blocked \<leftarrow> (let fault = dget faults (dedup_key alertname namespace) JNull
                            in if truthy fault
                               then do { f \<leftarrow> dict_of fault; fault_blocks cfg f (timestamp now) }
                               else Some None);
                (if blocked \<noteq> None then Some blocked
                 else do { days \<leftarrow> member_dict data ''days'';
                           day_blocks cfg (dget days (day_text now) no_spawns) }) })"

definition new_fault :: "string \<Rightarrow> string \<Rightarrow> datetime \<Rightarrow> json" where
  "new_fault alertname namespace now =
     JObj [(''status'', JStr ''open''), (''spawnedAt'', JFloat (Fin (timestamp now))), (''alertname'', JStr alertname),
       (''namespace'', JStr namespace), (''sessionId'', JNull), (''sessionUrl'', JNull)]"

definition reserve :: "jobj \<Rightarrow> string \<Rightarrow> string \<Rightarrow> datetime \<Rightarrow> jobj option" where
  "reserve data alertname namespace now =
     do { days \<leftarrow> member_dict data ''days'';
          bucket \<leftarrow> dict_of (dget days (day_text now) no_spawns);
          v \<leftarrow> map_of bucket ''spawns''; n \<leftarrow> whole v;
          faults \<leftarrow> member_dict data ''faults'';
          (let days' = filter (\<lambda>(d, _). day_text now \<le> d)
                 (dict_set (day_text now) (JObj (dict_set ''spawns'' (JInt (n + 1)) bucket)) days);
               faults' = dict_set (dedup_key alertname namespace) (new_fault alertname namespace now) faults
           in Some (dict_set ''faults'' (JObj faults') (dict_set ''days'' (JObj days') data))) }"

text \<open>The new state when an open fault was closed.\<close>

definition close_fault :: "jobj \<Rightarrow> string \<Rightarrow> string \<Rightarrow> jobj option option" where
  "close_fault data alertname namespace =
     do { faults \<leftarrow> member_dict data ''faults'';
          (let key = dedup_key alertname namespace; fault = dget faults key JNull
           in if truthy fault
              then do { f \<leftarrow> dict_of fault;
                        Some (if dget f ''status'' JNull = JStr ''open''
                              then Some (dict_set ''faults''
                                (JObj (dict_set key (JObj (dict_set ''status'' (JStr ''closed'') f)) faults)) data)
                              else None) }
              else Some None) }"

definition record_session :: "jobj \<Rightarrow> string \<Rightarrow> string \<Rightarrow> json \<Rightarrow> jobj option" where
  "record_session data key session_id session_url =
     do { faults \<leftarrow> member_dict data ''faults'';
          v \<leftarrow> map_of faults key; f \<leftarrow> dict_of v;
          Some (dict_set ''faults''
            (JObj (dict_set key (JObj (dict_set ''sessionUrl'' session_url (dict_set ''sessionId'' (JStr session_id) f)))
              faults)) data) }"

section \<open>Effects\<close>

text \<open>An exception by its class and text.\<close>

record dexn =
  x_class :: string
  x_text :: string

datatype devent =
    Post string json "(string \<times> string) list"  \<comment> \<open>URL, body, headers\<close>
  | Saved jobj                                  \<comment> \<open>the state file is replaced\<close>
  | Logged string jobj

text \<open>What a POST meets: the exception of an HTTP status, another exception, or an answer.\<close>

datatype post_reply = HttpStatus int | Broken dexn | Answered int string

text \<open>The outside: replies, whether a state can be saved, the clock, the file with the token of the service
  account, and the text of the exception for an answer that is not UTF-8 or not JSON.\<close>

record doutside =
  do_post :: "devent list \<Rightarrow> string \<Rightarrow> json \<Rightarrow> (string \<times> string) list \<Rightarrow> post_reply"
  do_save :: "devent list \<Rightarrow> jobj \<Rightarrow> dexn option"
  do_clock :: "nat \<Rightarrow> datetime"
  do_token :: "nat \<Rightarrow> dexn + string"
  do_bad_text :: "string \<Rightarrow> string"

text \<open>The process: the state in memory, the state file, the cached workload token with its end, the events so
  far, and how often the outside was asked for a time or the token file.\<close>

record dworld =
  dw_data :: jobj
  dw_file :: jobj
  dw_cached :: "(string \<times> rat) option"
  dw_events :: "devent list"
  dw_asked :: nat

type_synonym 'a dact = "doutside \<Rightarrow> dworld \<Rightarrow> (dexn + 'a) \<times> dworld"

definition dret :: "'a \<Rightarrow> 'a dact" where
  "dret x = (\<lambda>out w. (Inr x, w))"

definition draise :: "dexn \<Rightarrow> 'a dact" where
  "draise e = (\<lambda>out w. (Inl e, w))"

definition dbnd :: "'a dact \<Rightarrow> ('a \<Rightarrow> 'b dact) \<Rightarrow> 'b dact" where
  "dbnd m f = (\<lambda>out w. case m out w of (Inl e, w') \<Rightarrow> (Inl e, w') | (Inr x, w') \<Rightarrow> f x out w')"

definition dseq :: "unit dact \<Rightarrow> 'b dact \<Rightarrow> 'b dact" where
  "dseq m n = dbnd m (\<lambda>_. n)"

definition dexc :: "string \<Rightarrow> string \<Rightarrow> dexn" where
  "dexc c t = \<lparr>x_class = c, x_text = t\<rparr>"

text \<open>An expression on the state that raises (KeyError, AttributeError, TypeError).\<close>

definition dopt :: "'a option \<Rightarrow> 'a dact" where
  "dopt m = (case m of Some x \<Rightarrow> dret x | None \<Rightarrow> draise (dexc ''Exception'' []))"

definition dtry :: "'a dact \<Rightarrow> (dexn + 'a) dact" where
  "dtry m = (\<lambda>out w. case m out w of (r, w') \<Rightarrow> (Inr r, w'))"

definition dlog :: "string \<Rightarrow> jobj \<Rightarrow> unit dact" where
  "dlog event what = (\<lambda>out w. (Inr (), w\<lparr>dw_events := dw_events w @ [Logged event what]\<rparr>))"

definition read_data :: "jobj dact" where
  "read_data = (\<lambda>out w. (Inr (dw_data w), w))"

definition clock :: "datetime dact" where
  "clock = (\<lambda>out w. (Inr (do_clock out (dw_asked w)), w\<lparr>dw_asked := dw_asked w + 1\<rparr>))"

definition token_file :: "string dact" where
  "token_file = (\<lambda>out w. (do_token out (dw_asked w), w\<lparr>dw_asked := dw_asked w + 1\<rparr>))"

text \<open>The state in memory is changed, then saved; a failed save leaves the file as it was.\<close>

definition commit :: "jobj \<Rightarrow> unit dact" where
  "commit data =
     (\<lambda>out w. case do_save out (dw_events w) data of
        Some e \<Rightarrow> (Inl e, w\<lparr>dw_data := data\<rparr>)
      | None \<Rightarrow> (Inr (), w\<lparr>dw_data := data, dw_file := data, dw_events := dw_events w @ [Saved data]\<rparr>))"

section \<open>Outbound calls\<close>

text \<open>The URLs come from the configuration and begin with http:// or https://, whose scheme passes.\<close>

definition http_scheme :: "string \<Rightarrow> bool" where
  "http_scheme url \<longleftrightarrow> prefix ''http:'' (str_lower url) \<or> prefix ''https:'' (str_lower url)"

definition read_answer :: "doutside \<Rightarrow> int \<Rightarrow> string \<Rightarrow> dexn + int \<times> json" where
  "read_answer out status bytes =
     (let raw = take MAX_BODY bytes
      in if \<not> utf8_ok (map of_char raw) then Inl (dexc ''UnicodeDecodeError'' (do_bad_text out raw))
         else if raw = [] then Inr (status, JObj [])
         else (case loads raw of
                 None \<Rightarrow> Inl (dexc ''JSONDecodeError'' (do_bad_text out raw))
               | Some j \<Rightarrow> Inr (status, j)))"

definition post_json :: "string \<Rightarrow> json \<Rightarrow> (string \<times> string) list \<Rightarrow> (int \<times> json) dact" where
  "post_json url body headers =
     (\<lambda>out w.
        if \<not> http_scheme url then (Inl (dexc ''ValueError'' ''refusing non-http(s) URL''), w)
        else (let w' = w\<lparr>dw_events := dw_events w @ [Post url body headers]\<rparr>
              in case do_post out (dw_events w) url body headers of
                   HttpStatus code \<Rightarrow> (Inr (code, JObj []), w')
                 | Broken e \<Rightarrow> (Inl e, w')
                 | Answered status bytes \<Rightarrow> (read_answer out status bytes, w')))"

fun type_name :: "json \<Rightarrow> string" where
  "type_name JNull = ''NoneType''"
| "type_name (JBool b) = ''bool''"
| "type_name (JInt i) = ''int''"
| "type_name (JFloat f) = ''float''"
| "type_name (JStr s) = ''str''"
| "type_name (JList xs) = ''list''"
| "type_name (JObj kvs) = ''dict''"

definition answer_get :: "json \<Rightarrow> string \<Rightarrow> json dact" where
  "answer_get body k =
     (case body of
        JObj kvs \<Rightarrow> dret (dget kvs k JNull)
      | j \<Rightarrow> draise (dexc ''AttributeError''
                (quoted (type_name j) @ '' object has no attribute '' @ quoted ''get'')))"

definition store_token :: "string \<Rightarrow> rat \<Rightarrow> unit dact" where
  "store_token token until' = (\<lambda>out w. (Inr (), w\<lparr>dw_cached := Some (token, until')\<rparr>))"

definition mint_token :: "alert_config \<Rightarrow> string dact" where
  "mint_token cfg =
     dbnd token_file (\<lambda>sa.
     dbnd (post_json (ac_token_url cfg) (JObj [(''serviceAccountToken'', JStr (str_strip sa))]) []) (\<lambda>(status, body).
     dbnd (answer_get body ''accessToken'') (\<lambda>token.
     dbnd (answer_get body ''expiresIn'') (\<lambda>ttl.
       case (token, whole ttl) of
         (JStr t, Some n) \<Rightarrow>
           (if status \<noteq> 200 \<or> n \<le> 0
            then draise (dexc ''RuntimeError'' (''workload token mint failed (http '' @ show_int status @ '')''))
            else dbnd clock (\<lambda>now. dseq (store_token t (timestamp now + of_int (min n 900))) (dret t)))
       | _ \<Rightarrow> draise (dexc ''RuntimeError'' (''workload token mint failed (http '' @ show_int status @ '')''))))))"

text \<open>The clock is read only when there is a cached token.\<close>

definition minter_get :: "alert_config \<Rightarrow> string dact" where
  "minter_get cfg =
     (\<lambda>out w. case dw_cached w of
        None \<Rightarrow> mint_token cfg out w
      | Some (token, until') \<Rightarrow>
          dbnd clock (\<lambda>now. if timestamp now < until' - 30 then dret token else mint_token cfg) out w)"

definition labels_json :: "labels \<Rightarrow> json" where
  "labels_json labels = JObj (map (\<lambda>(k, v). (k, JStr v)) labels)"

definition label :: "labels \<Rightarrow> string \<Rightarrow> string" where
  "label labels k = (case map_of labels k of None \<Rightarrow> [] | Some v \<Rightarrow> v)"

definition build_request :: "string \<Rightarrow> labels \<Rightarrow> json \<Rightarrow> string \<Rightarrow> json" where
  "build_request brief labels starts_at key =
     JObj [(''brief'', JStr brief),
           (''data'', JObj ([(''alertname'', JStr (label labels ''alertname'')), (''namespace'', JStr (label labels ''namespace'')),
              (''labels'', labels_json labels), (''dedupKey'', JStr key)]
              @ (case starts_at of JStr s \<Rightarrow> (if timestamp_ok s then [(''startsAt'', JStr s)] else []) | _ \<Rightarrow> []))),
           (''source'', JStr ''fuzeinfra/alert-session-dispatcher'')]"

text \<open>The session id, and its link or null.\<close>

definition create_session :: "alert_config \<Rightarrow> json \<Rightarrow> (string \<times> json) dact" where
  "create_session cfg request_body =
     dbnd (minter_get cfg) (\<lambda>token.
     dbnd (post_json (ac_session_url cfg) request_body [(''Authorization'', ''Bearer '' @ token)]) (\<lambda>(status, body).
     dbnd (answer_get body ''sessionId'') (\<lambda>session_id.
     dbnd (answer_get body ''sessionUrl'') (\<lambda>url.
       let failed = draise (dexc ''RuntimeError'' (''agent session create failed (http '' @ show_int status @ '')''))
       in case session_id of
            JStr sid \<Rightarrow>
              (if status \<notin> {200, 201, 202} \<or> \<not> session_id_ok sid then failed
               else dret (sid, (case url of JStr u \<Rightarrow> (if session_url_ok u then JStr u else JNull) | _ \<Rightarrow> JNull)))
          | _ \<Rightarrow> failed))))"

definition audit_body :: "labels \<Rightarrow> string \<Rightarrow> string \<Rightarrow> json \<Rightarrow> json" where
  "audit_body labels key session_id session_url =
     (let alert = label labels ''alertname''; ns = label labels ''namespace''
      in JObj [(''title'', JStr (''[alert-session] '' @ alert @ '' / '' @ ns)),
           (''body'', JStr (''Responder session started for dedup key `'' @ key @ ''`.'' @ newline @ newline
              @ ''- session id: `'' @ session_id @ ''`'' @ newline
              @ ''- session link: '' @ (if truthy session_url then py_str session_url else ''not returned'') @ newline
              @ ''- alert: `'' @ alert @ ''` in `'' @ ns @ ''`'' @ newline @ newline
              @ ''Labels were passed to the agent as data. No secrets are recorded here.'')),
           (''labels'', JList [JStr ''alert-session''])])"

definition audit_comment ::
  "alert_config \<Rightarrow> string \<Rightarrow> labels \<Rightarrow> string \<Rightarrow> string \<Rightarrow> json \<Rightarrow> string dact" where
  "audit_comment cfg github_token labels key session_id session_url =
     (if ac_audit_repo cfg = [] \<or> github_token = [] then dret ''skipped''
      else dbnd (dtry (post_json (''https://api.github.com/repos/'' @ ac_audit_repo cfg @ ''/issues'')
              (audit_body labels key session_id session_url)
              [(''Authorization'', ''Bearer '' @ github_token), (''Accept'', ''application/vnd.github+json'')])) (\<lambda>r.
           case r of
             Inl e \<Rightarrow> dret (''error:'' @ x_class e)
           | Inr (status, _) \<Rightarrow> dret (if status = 201 then ''ok'' else ''http-'' @ show_int status)))"

section \<open>The dispatcher\<close>

record dispatcher =
  dp_cfg :: alert_config
  dp_brief :: string
  dp_github :: string

record outcome =
  oc_action :: string
  oc_reason :: string
  oc_session :: "string option"

definition outcome_of :: "string \<Rightarrow> string \<Rightarrow> outcome" where
  "outcome_of action reason = \<lparr>oc_action = action, oc_reason = reason, oc_session = None\<rparr>"

definition named :: "string \<Rightarrow> string \<Rightarrow> jobj" where
  "named name ns = [(''alertname'', JStr name), (''namespace'', JStr ns)]"

definition spawn :: "dispatcher \<Rightarrow> labels \<Rightarrow> string list \<Rightarrow> json \<Rightarrow> string \<Rightarrow> string \<Rightarrow> datetime \<Rightarrow> outcome dact" where
  "spawn d labels dropped starts_at name ns now =
     (let key = dedup_key name ns
      in dbnd read_data (\<lambda>data.
         dbnd (dopt (reserve data name ns now)) (\<lambda>reserved.
         dseq (commit reserved)
        (dbnd (dtry (create_session (dp_cfg d) (build_request (dp_brief d) labels starts_at key))) (\<lambda>r.
           case r of
             Inl e \<Rightarrow>
               dseq (dlog ''spawn-failed'' (named name ns @ [(''key'', JStr key), (''error'', JStr (x_class e)),
                       (''detail'', JStr (take_chars 200 (x_text e)))]))
                 (dret (outcome_of ''error'' ''spawn-failed''))
           | Inr (session_id, session_url) \<Rightarrow>
               dbnd read_data (\<lambda>data'.
               dbnd (dopt (record_session data' key session_id session_url)) (\<lambda>recorded.
               dseq (commit recorded)
              (dbnd (audit_comment (dp_cfg d) (dp_github d) labels key session_id session_url) (\<lambda>audit.
               dseq (dlog ''spawned'' (named name ns @ [(''key'', JStr key), (''sessionId'', JStr session_id),
                       (''sessionUrl'', session_url), (''audit'', JStr audit), (''dropped'', JList (map JStr dropped))]))
                 (dret \<lparr>oc_action = ''spawn'', oc_reason = ''ok'', oc_session = Some session_id\<rparr>)))))))))) "

definition resolve :: "string \<Rightarrow> string \<Rightarrow> outcome dact" where
  "resolve name ns =
     dbnd read_data (\<lambda>data.
     dbnd (dopt (close_fault data name ns)) (\<lambda>closed.
     dseq (case closed of None \<Rightarrow> dret () | Some data' \<Rightarrow> commit data')
    (dseq (dlog ''resolved'' (named name ns @ [(''closed'', JBool (closed \<noteq> None))]))
       (dret (outcome_of ''skip'' ''resolved'')))))"

definition fire :: "dispatcher \<Rightarrow> labels \<Rightarrow> string list \<Rightarrow> json \<Rightarrow> string \<Rightarrow> string \<Rightarrow> datetime \<Rightarrow> outcome dact" where
  "fire d labels dropped starts_at name ns now =
     dbnd read_data (\<lambda>data.
     dbnd (dopt (decide_spawn (dp_cfg d) data name ns now)) (\<lambda>reason.
       case reason of
         Some why \<Rightarrow>
           dseq (dlog ''skipped'' (named name ns @ [(''reason'', JStr why)])) (dret (outcome_of ''skip'' why))
       | None \<Rightarrow>
           (if ac_dry_run (dp_cfg d)
            then dseq (dlog ''dry-run'' (named name ns @ [(''dropped'', JList (map JStr dropped))]))
                   (dret (outcome_of ''skip'' ''dry-run''))
            else spawn d labels dropped starts_at name ns now)))"

definition handle_labels ::
  "dispatcher \<Rightarrow> json \<Rightarrow> json \<Rightarrow> labels \<Rightarrow> string list \<Rightarrow> datetime \<Rightarrow> outcome dact" where
  "handle_labels d status starts_at labels dropped now =
     (let name = label labels ''alertname''; ns = label labels ''namespace''
      in if map_of labels ''severity'' \<noteq> Some ''critical'' then dret (outcome_of ''skip'' ''not-critical'')
         else if status = JStr ''resolved'' then resolve name ns
         else fire d labels dropped starts_at name ns now)"

definition handle_alert :: "dispatcher \<Rightarrow> json \<Rightarrow> outcome dact" where
  "handle_alert d alert =
     dbnd clock (\<lambda>now.
       let kvs = (case alert of JObj kvs \<Rightarrow> kvs | _ \<Rightarrow> [])
       in case sanitize_labels (dget kvs ''labels'' JNull) (ac_label_keys (dp_cfg d)) of
            Inl why \<Rightarrow>
              dseq (dlog ''rejected'' [(''reason'', JStr why)]) (dret (outcome_of ''reject'' ''invalid-labels''))
          | Inr (labels, dropped) \<Rightarrow>
              handle_labels d (dget kvs ''status'' (JStr ''firing'')) (dget kvs ''startsAt'' JNull) labels dropped now)"

text \<open>\<open>alert.setdefault("status", group_status)\<close>.\<close>

definition with_status :: "json \<Rightarrow> json \<Rightarrow> json" where
  "with_status group_status alert =
     (case alert of
        JObj kvs \<Rightarrow> (if map_of kvs ''status'' = None then JObj (kvs @ [(''status'', group_status)]) else alert)
      | _ \<Rightarrow> alert)"

fun handle_each :: "dispatcher \<Rightarrow> json list \<Rightarrow> outcome list dact" where
  "handle_each d [] = dret []"
| "handle_each d (a # as) = dbnd (handle_alert d a) (\<lambda>r. dbnd (handle_each d as) (\<lambda>rs. dret (r # rs)))"

definition handle_payload :: "dispatcher \<Rightarrow> json \<Rightarrow> outcome list option dact" where
  "handle_payload d payload =
     (let kvs = (case payload of JObj kvs \<Rightarrow> kvs | _ \<Rightarrow> [])
      in case dget kvs ''alerts'' JNull of
           JList alerts \<Rightarrow>
             (if 100 < length alerts then dret None
              else dbnd (handle_each d (map (with_status (dget kvs ''status'' (JStr ''firing''))) alerts))
                     (\<lambda>rs. dret (Some rs)))
         | _ \<Rightarrow> dret None)"

section \<open>The HTTP handlers and the start\<close>

definition bearer_ok :: "string option \<Rightarrow> string \<Rightarrow> bool" where
  "bearer_ok header expected \<longleftrightarrow>
     expected \<noteq> [] \<and> (case header of None \<Rightarrow> [] | Some h \<Rightarrow> h) = ''Bearer '' @ expected"

definition outcome_json :: "outcome \<Rightarrow> json" where
  "outcome_json r =
     JObj ([(''action'', JStr (oc_action r)), (''reason'', JStr (oc_reason r))]
       @ (case oc_session r of None \<Rightarrow> [] | Some s \<Rightarrow> [(''sessionId'', JStr s)]))"

record http_request =
  rq_path :: string
  rq_auth :: "string option"
  rq_length :: "string option"
  rq_body :: string

definition error_answer :: "int \<Rightarrow> string \<Rightarrow> int \<times> json" where
  "error_answer code why = (code, JObj [(''error'', JStr why)])"

definition do_GET :: "string \<Rightarrow> int \<times> json" where
  "do_GET path = (if path = ''/healthz'' then 200 else 404, JObj [(''ok'', JBool (path = ''/healthz''))])"

definition content_length :: "http_request \<Rightarrow> int" where
  "content_length rq =
     (case int_of_str (case rq_length rq of None \<Rightarrow> ''0'' | Some l \<Rightarrow> l) of None \<Rightarrow> -1 | Some n \<Rightarrow> n)"

definition read_payload :: "http_request \<Rightarrow> json option" where
  "read_payload rq =
     (let bytes = take (nat (content_length rq)) (rq_body rq)
      in if utf8_ok (map of_char bytes) then loads bytes else None)"

definition do_POST :: "dispatcher \<Rightarrow> string \<Rightarrow> http_request \<Rightarrow> (int \<times> json) dact" where
  "do_POST d inbound_token rq =
     (if rq_path rq \<noteq> ''/alerts'' then dret (error_answer 404 ''not found'')
      else if \<not> bearer_ok (rq_auth rq) inbound_token then dret (error_answer 401 ''unauthorized'')
      else if \<not> (0 < content_length rq \<and> content_length rq \<le> int MAX_BODY) then dret (error_answer 413 ''bad length'')
      else (case read_payload rq of
              None \<Rightarrow> dret (error_answer 400 ''invalid json'')
            | Some payload \<Rightarrow>
                dbnd (handle_payload d payload) (\<lambda>rs.
                  case rs of
                    None \<Rightarrow> dret (error_answer 400 ''invalid payload'')
                  | Some results \<Rightarrow> dret (200, JObj [(''results'', JList (map outcome_json results))]))))"

text \<open>\<open>main\<close>: the dispatcher, the inbound token and the world in which it begins to serve; None when it refuses
  to start. A missing state file is written first, which shows that it can be.\<close>

definition start_dispatcher ::
  "doutside \<Rightarrow> string \<Rightarrow> string \<Rightarrow> string \<Rightarrow> string \<Rightarrow> json option \<Rightarrow> (dispatcher \<times> dworld) option" where
  "start_dispatcher out config_text brief inbound github file =
     do { cfg \<leftarrow> load_config config_text;
          data \<leftarrow> guard_opt (inbound \<noteq> []) (load_alert_state file);
          (let started = Logged ''started'' [(''dryRun'', JBool (ac_dry_run cfg)), (''paused'', JBool (ac_paused cfg)),
                 (''allowlist'', JList (map JStr (ac_allowlist cfg)))];
               events = (if file = None then [Saved data] else [])
           in guard_opt (file \<noteq> None \<or> do_save out [] data = None)
                (Some (\<lparr>dp_cfg = cfg, dp_brief = brief, dp_github = github\<rparr>,
                   \<lparr>dw_data = data, dw_file = data, dw_cached = None, dw_events = events @ [started], dw_asked = 0\<rparr>))) }"

end
