(* ===== verification/Dispatcher_State.thy ===== *)
theory Dispatcher_State
  imports Dispatcher
begin

text \<open>
  The policy of the dispatcher on its state: the abstract view of a state (spawns of a day, time of the
  last spawn of a fault, open faults), the invariant \<open>state_ok\<close>, and what \<open>decide_spawn\<close>, \<open>reserve\<close>,
  \<open>close_fault\<close> and \<open>record_session\<close> are in that view.
\<close>

section \<open>The abstract view\<close>

definition spawns_on :: "jobj \<Rightarrow> string \<Rightarrow> int" where
  "spawns_on data day =
     (case do { days \<leftarrow> member_dict data ''days''; v \<leftarrow> map_of days day; b \<leftarrow> dict_of v;
                n \<leftarrow> map_of b ''spawns''; whole n } of None \<Rightarrow> 0 | Some n \<Rightarrow> n)"

definition fault_at :: "jobj \<Rightarrow> string \<Rightarrow> jobj option" where
  "fault_at data key = do { faults \<leftarrow> member_dict data ''faults''; v \<leftarrow> map_of faults key; dict_of v }"

definition spawned_at :: "jobj \<Rightarrow> string \<Rightarrow> rat option" where
  "spawned_at data key = do { f \<leftarrow> fault_at data key; v \<leftarrow> map_of f ''spawnedAt''; seconds v }"

definition is_open :: "jobj \<Rightarrow> string \<Rightarrow> bool" where
  "is_open data key \<longleftrightarrow> (case fault_at data key of None \<Rightarrow> False | Some f \<Rightarrow> dget f ''status'' JNull = JStr ''open'')"

fun bucket_ok :: "json \<Rightarrow> bool" where
  "bucket_ok (JObj b) \<longleftrightarrow> (\<exists>n. map_of b ''spawns'' = Some (JInt n) \<and> 0 \<le> n)"
| "bucket_ok j \<longleftrightarrow> False"

fun fault_ok :: "json \<Rightarrow> bool" where
  "fault_ok (JObj f) \<longleftrightarrow> (\<exists>q. map_of f ''spawnedAt'' = Some (JFloat (Fin q)))"
| "fault_ok j \<longleftrightarrow> False"

definition state_ok :: "jobj \<Rightarrow> bool" where
  "state_ok data \<longleftrightarrow>
     (\<exists>days faults. map_of data ''days'' = Some (JObj days) \<and> map_of data ''faults'' = Some (JObj faults)
        \<and> (\<forall>k v. map_of days k = Some v \<longrightarrow> bucket_ok v) \<and> (\<forall>k v. map_of faults k = Some v \<longrightarrow> fault_ok v))"

text \<open>Two states with the same view.\<close>

definition same_view :: "jobj \<Rightarrow> jobj \<Rightarrow> bool" where
  "same_view x y \<longleftrightarrow> spawns_on x = spawns_on y \<and> spawned_at x = spawned_at y \<and> is_open x = is_open y"

lemma bucketE:
  assumes "bucket_ok v"
  obtains b n where "v = JObj b" "map_of b ''spawns'' = Some (JInt n)" "0 \<le> n"
  using assms by (cases v) auto

lemma faultE:
  assumes "fault_ok v"
  obtains f q where "v = JObj f" "map_of f ''spawnedAt'' = Some (JFloat (Fin q))" "truthy v"
proof -
  from assms obtain f q where "v = JObj f" "map_of f ''spawnedAt'' = Some (JFloat (Fin q))" by (cases v) auto
  moreover from this have "truthy v" by (cases f) auto
  ultimately show thesis using that by blast
qed

lemma state_okE:
  assumes "state_ok data"
  obtains days faults where "map_of data ''days'' = Some (JObj days)" "map_of data ''faults'' = Some (JObj faults)"
    "\<And>k v. map_of days k = Some v \<Longrightarrow> bucket_ok v" "\<And>k v. map_of faults k = Some v \<Longrightarrow> fault_ok v"
  using assms by (auto simp: state_ok_def)

lemma dget_map_of: "dget m k d = (case map_of m k of None \<Rightarrow> d | Some v \<Rightarrow> v)"
  by (simp add: dget_def)

lemmas view_simps = spawns_on_def fault_at_def spawned_at_def is_open_def member_dict_def dict_of_def

lemma empty_state_ok: "state_ok empty_state" "spawns_on empty_state day = 0" "spawned_at empty_state key = None"
  by (simp_all add: empty_state_def state_ok_def view_simps)

lemma map_of_from: "map_of (filter (\<lambda>(d, _). x \<le> d) m) k = (if x \<le> k then map_of m k else None)" for x :: string
  by (induction m) auto

section \<open>The decision\<close>

text \<open>The policy in the abstract view.\<close>

definition may_spawn :: "alert_config \<Rightarrow> jobj \<Rightarrow> string \<Rightarrow> string \<Rightarrow> datetime \<Rightarrow> bool" where
  "may_spawn cfg data name ns now \<longleftrightarrow>
     \<not> ac_paused cfg \<and> name \<in> set (ac_allowlist cfg)
     \<and> (case spawned_at data (dedup_key name ns) of
          None \<Rightarrow> True
        | Some q \<Rightarrow> of_int (ac_cooldown cfg) \<le> timestamp now - q
            \<and> (is_open data (dedup_key name ns) \<longrightarrow> of_int (ac_open_ttl cfg) \<le> timestamp now - q))
     \<and> spawns_on data (day_text now) < ac_spawn_cap cfg
     \<and> \<not> flt_less (ac_spend_cap cfg) (fmul_int (of_int (spawns_on data (day_text now) + 1)) (ac_cost cfg))"

lemma fault_view:
  assumes "state_ok data" and that: "map_of data ''faults'' = Some (JObj faults)"
  shows "(map_of faults key = None \<and> fault_at data key = None \<and> spawned_at data key = None)
       \<or> (\<exists>f q. map_of faults key = Some (JObj f) \<and> truthy (JObj f) \<and> map_of f ''spawnedAt'' = Some (JFloat (Fin q))
            \<and> fault_at data key = Some f \<and> spawned_at data key = Some q)"
proof (cases "map_of faults key")
  case None
  then show ?thesis using that by (simp add: view_simps)
next
  case (Some v)
  from assms that have "fault_ok v" using Some by (auto elim: state_okE)
  then obtain f q where "v = JObj f" "map_of f ''spawnedAt'' = Some (JFloat (Fin q))" "truthy v" by (rule faultE)
  then show ?thesis using that Some by (auto simp: view_simps seconds_def)
qed

lemma day_view:
  assumes "state_ok data" and "map_of data ''days'' = Some (JObj days)"
  shows "\<exists>b n. dget days day no_spawns = JObj b \<and> map_of b ''spawns'' = Some (JInt n) \<and> spawns_on data day = n \<and> 0 \<le> n"
proof (cases "map_of days day")
  case None
  then show ?thesis using assms(2) by (simp add: view_simps dget_map_of no_spawns_def)
next
  case (Some v)
  from assms have "bucket_ok v" using Some by (auto elim: state_okE)
  then obtain b n where "v = JObj b" "map_of b ''spawns'' = Some (JInt n)" "0 \<le> n" by (rule bucketE)
  then show ?thesis using assms(2) Some by (simp add: view_simps dget_map_of whole_def)
qed

lemma spawns_nonneg:
  assumes "state_ok data"
  shows "0 \<le> spawns_on data day"
proof -
  from assms obtain days where "map_of data ''days'' = Some (JObj days)" by (auto elim: state_okE)
  from day_view [OF assms this, of day] show ?thesis by auto
qed

lemma policy_refines:
  assumes "state_ok data"
  shows "decide_spawn cfg data name ns now \<noteq> None"
    and "decide_spawn cfg data name ns now = Some None \<longleftrightarrow> may_spawn cfg data name ns now"
proof -
  from assms obtain days faults where m: "map_of data ''days'' = Some (JObj days)" "map_of data ''faults'' = Some (JObj faults)"
    by (auto elim: state_okE)
  obtain b n where b: "dget days (day_text now) no_spawns = JObj b" "map_of b ''spawns'' = Some (JInt n)"
      "spawns_on data (day_text now) = n"
    using day_view [OF assms m(1)] by blast
  have day: "day_blocks cfg (JObj b) = Some (if ac_spawn_cap cfg \<le> n then Some ''daily-spawn-cap''
      else if flt_less (ac_spend_cap cfg) (fmul_int (of_int (n + 1)) (ac_cost cfg)) then Some ''daily-spend-cap'' else None)"
    using b(2) by (simp add: day_blocks_def whole_def)
  let ?key = "dedup_key name ns"
  have dicts: "member_dict data ''faults'' = Some faults" "member_dict data ''days'' = Some days"
    using m by (simp_all add: member_dict_def dict_of_def)
  have "decide_spawn cfg data name ns now \<noteq> None
    \<and> (decide_spawn cfg data name ns now = Some None \<longleftrightarrow> may_spawn cfg data name ns now)"
    using fault_view [OF assms m(2), of ?key]
  proof
    assume no: "map_of faults ?key = None \<and> fault_at data ?key = None \<and> spawned_at data ?key = None"
    then have "dget faults ?key JNull = JNull" by (simp add: dget_map_of)
    then show ?thesis
      using b(3) no by (auto simp: decide_spawn_def may_spawn_def dicts b(1) day)
  next
    assume "\<exists>f q. map_of faults ?key = Some (JObj f) \<and> truthy (JObj f) \<and> map_of f ''spawnedAt'' = Some (JFloat (Fin q))
      \<and> fault_at data ?key = Some f \<and> spawned_at data ?key = Some q"
    then obtain f q where f: "map_of faults ?key = Some (JObj f)" "truthy (JObj f)"
      "map_of f ''spawnedAt'' = Some (JFloat (Fin q))" "fault_at data ?key = Some f" "spawned_at data ?key = Some q" by blast
    have blocks: "fault_blocks cfg f (timestamp now) = Some (if is_open data ?key \<and> timestamp now - q < of_int (ac_open_ttl cfg)
        then Some ''open-session-exists'' else if timestamp now - q < of_int (ac_cooldown cfg) then Some ''cooldown'' else None)"
      using f(3,4) by (simp add: fault_blocks_def seconds_def is_open_def)
    have "dget faults ?key JNull = JObj f" using f(1) by (simp add: dget_map_of)
    then show ?thesis
      using b(3) f(2,5) by (auto simp: decide_spawn_def may_spawn_def dicts b(1) day blocks dict_of_def)
  qed
  then show "decide_spawn cfg data name ns now \<noteq> None"
    and "decide_spawn cfg data name ns now = Some None \<longleftrightarrow> may_spawn cfg data name ns now" by blast+
qed

section \<open>The changes of the state\<close>

lemma reserve_view:
  assumes "state_ok data"
  obtains data' where "reserve data name ns now = Some data'" "state_ok data'"
    "spawns_on data' = (\<lambda>d. if d = day_text now then spawns_on data d + 1 else if day_text now \<le> d then spawns_on data d else 0)"
    "spawned_at data' = (spawned_at data)(dedup_key name ns \<mapsto> timestamp now)"
    "is_open data' = (is_open data)(dedup_key name ns := True)"
proof -
  from assms obtain days faults where m: "map_of data ''days'' = Some (JObj days)" "map_of data ''faults'' = Some (JObj faults)"
    and ok: "\<And>k v. map_of days k = Some v \<Longrightarrow> bucket_ok v" "\<And>k v. map_of faults k = Some v \<Longrightarrow> fault_ok v"
    by (auto elim: state_okE)
  let ?d = "day_text now" and ?k = "dedup_key name ns"
  obtain b n where b: "dget days ?d no_spawns = JObj b" "map_of b ''spawns'' = Some (JInt n)" "spawns_on data ?d = n" "0 \<le> n"
    using day_view [OF assms m(1)] by blast
  have dicts: "member_dict data ''faults'' = Some faults" "member_dict data ''days'' = Some days"
    using m by (simp_all add: member_dict_def dict_of_def)
  define b' where "b' = dict_set ''spawns'' (JInt (n + 1)) b"
  define days' where "days' = filter (\<lambda>(d, _). ?d \<le> d) (dict_set ?d (JObj b') days)"
  define faults' where "faults' = dict_set ?k (new_fault name ns now) faults"
  define data' where "data' = dict_set ''faults'' (JObj faults') (dict_set ''days'' (JObj days') data)"
  have days': "map_of days' k = (if k = ?d then Some (JObj b') else if ?d \<le> k then map_of days k else None)" for k
    by (simp add: days'_def map_of_from map_of_dict_set)
  have faults': "map_of faults' k = (if k = ?k then Some (new_fault name ns now) else map_of faults k)" for k
    by (simp add: faults'_def map_of_dict_set)
  have b'n: "map_of b' ''spawns'' = Some (JInt (n + 1))" by (simp add: b'_def map_of_dict_set)
  have data': "map_of data' ''days'' = Some (JObj days')" "map_of data' ''faults'' = Some (JObj faults')"
    by (simp_all add: data'_def map_of_dict_set)
  have "reserve data name ns now = Some data'"
    using b by (simp add: reserve_def dicts dict_of_def whole_def data'_def days'_def faults'_def b'_def Let_def)
  moreover have "state_ok data'"
    unfolding state_ok_def
  proof (intro exI conjI allI impI)
    show "map_of data' ''days'' = Some (JObj days')" "map_of data' ''faults'' = Some (JObj faults')" by (fact data')+
    show "bucket_ok v" if "map_of days' k = Some v" for k v
      using that ok(1) b(4) b'n by (auto simp: days' split: if_splits)
    show "fault_ok v" if "map_of faults' k = Some v" for k v
      using that ok(2) by (auto simp: faults' new_fault_def split: if_splits)
  qed
  moreover have "spawns_on data' = (\<lambda>d. if d = ?d then spawns_on data d + 1 else if ?d \<le> d then spawns_on data d else 0)"
    using b(3) b'n m(1) by (auto simp: spawns_on_def member_dict_def dict_of_def data' days' whole_def)
  moreover have "spawned_at data' = (spawned_at data)(?k \<mapsto> timestamp now)"
    by (rule ext) (simp add: spawned_at_def fault_at_def member_dict_def dict_of_def data' faults' m new_fault_def seconds_def)
  moreover have "is_open data' = (is_open data)(?k := True)"
    by (rule ext) (simp add: is_open_def fault_at_def member_dict_def dict_of_def data' faults' m new_fault_def)
  ultimately show thesis by (rule that)
qed

text \<open>Replacing one fault by another with the same spawn time.\<close>

lemma set_fault_view:
  assumes "state_ok data" and "member_dict data ''faults'' = Some faults" and "map_of faults key = Some (JObj f)"
    and "map_of f' ''spawnedAt'' = map_of f ''spawnedAt''"
  defines "data' \<equiv> dict_set ''faults'' (JObj (dict_set key (JObj f') faults)) data"
  shows "state_ok data'" "spawns_on data' = spawns_on data" "spawned_at data' = spawned_at data"
    "is_open data' = (is_open data)(key := dget f' ''status'' JNull = JStr ''open'')"
proof -
  from assms(1,2) obtain days where m: "map_of data ''days'' = Some (JObj days)" "map_of data ''faults'' = Some (JObj faults)"
    and ok: "\<And>k v. map_of days k = Some v \<Longrightarrow> bucket_ok v" "\<And>k v. map_of faults k = Some v \<Longrightarrow> fault_ok v"
    by (auto simp: member_dict_def dict_of_def elim!: state_okE)
  let ?fs = "dict_set key (JObj f') faults"
  have data': "map_of data' ''days'' = Some (JObj days)" "map_of data' ''faults'' = Some (JObj ?fs)"
    by (simp_all add: data'_def map_of_dict_set m)
  have "fault_ok (JObj f)" using ok(2) assms(3) by blast
  then show "state_ok data'"
    unfolding state_ok_def using data' ok assms(4) by (auto simp: map_of_dict_set split: if_splits)
  show "spawns_on data' = spawns_on data" by (rule ext) (simp add: spawns_on_def member_dict_def data' m)
  show "spawned_at data' = spawned_at data"
    using assms(3,4) by (intro ext) (simp add: spawned_at_def fault_at_def member_dict_def dict_of_def data' m map_of_dict_set)
  show "is_open data' = (is_open data)(key := dget f' ''status'' JNull = JStr ''open'')"
    by (rule ext) (simp add: is_open_def fault_at_def member_dict_def dict_of_def data' m map_of_dict_set)
qed

lemma close_view:
  assumes "state_ok data"
  shows "\<exists>c. close_fault data name ns = Some c
    \<and> (case c of
         None \<Rightarrow> \<not> is_open data (dedup_key name ns)
       | Some data' \<Rightarrow> state_ok data' \<and> spawns_on data' = spawns_on data \<and> spawned_at data' = spawned_at data
           \<and> is_open data' = (is_open data)(dedup_key name ns := False))"
proof -
  from assms obtain faults where m: "map_of data ''faults'' = Some (JObj faults)" by (auto elim: state_okE)
  have dict: "member_dict data ''faults'' = Some faults" using m by (simp add: member_dict_def dict_of_def)
  show ?thesis using fault_view [OF assms m, of "dedup_key name ns"]
  proof
    assume "map_of faults (dedup_key name ns) = None \<and> fault_at data (dedup_key name ns) = None
      \<and> spawned_at data (dedup_key name ns) = None"
    then show ?thesis by (simp add: close_fault_def dict dget_map_of is_open_def)
  next
    assume "\<exists>f q. map_of faults (dedup_key name ns) = Some (JObj f) \<and> truthy (JObj f)
      \<and> map_of f ''spawnedAt'' = Some (JFloat (Fin q)) \<and> fault_at data (dedup_key name ns) = Some f
      \<and> spawned_at data (dedup_key name ns) = Some q"
    then obtain f where f: "map_of faults (dedup_key name ns) = Some (JObj f)" "truthy (JObj f)"
      "fault_at data (dedup_key name ns) = Some f" by blast
    have t: "truthy (dget faults (dedup_key name ns) JNull)" "dget faults (dedup_key name ns) JNull = JObj f"
      using f by (simp_all add: dget_map_of)
    note view = set_fault_view [OF assms dict f(1), of "dict_set ''status'' (JStr ''closed'') f"]
    show ?thesis
      using t view f(3) by (simp add: close_fault_def dict Let_def dict_of_def is_open_def map_of_dict_set)
  qed
qed

lemma record_view:
  assumes "state_ok data" and "spawned_at data key \<noteq> None"
  shows "\<exists>data'. record_session data key sid url = Some data' \<and> state_ok data' \<and> same_view data' data"
proof -
  from assms(1) obtain faults where m: "map_of data ''faults'' = Some (JObj faults)" by (auto elim: state_okE)
  have dict: "member_dict data ''faults'' = Some faults" using m by (simp add: member_dict_def dict_of_def)
  obtain f where f: "map_of faults key = Some (JObj f)" "fault_at data key = Some f"
    using fault_view [OF assms(1) m, of key] assms(2) by auto
  let ?f' = "dict_set ''sessionUrl'' url (dict_set ''sessionId'' (JStr sid) f)"
  have s: "map_of ?f' ''spawnedAt'' = map_of f ''spawnedAt''" "dget ?f' ''status'' JNull = dget f ''status'' JNull"
    by (simp_all add: map_of_dict_set)
  have "(is_open data)(key := dget f ''status'' JNull = JStr ''open'') = is_open data"
    using f(2) by (intro ext) (simp add: is_open_def)
  then show ?thesis
    using set_fault_view [OF assms(1) dict f(1) s(1)] s(2) f(1)
    by (simp add: record_session_def dict dict_of_def same_view_def)
qed

end
