(* ===== verification/Dispatcher_Run.thy ===== *)
theory Dispatcher_Run
  imports Dispatcher_State
begin

text \<open>
  What handling an alert does to the world: which parts of it only add events (\<open>trail\<close>), and the three
  ways an alert can go (\<open>alert_effect\<close>).
\<close>

section \<open>Computations that only add events\<close>

text \<open>The world after: same state in memory and on disk, more events, all of which satisfy P.\<close>

definition extends :: "(devent \<Rightarrow> bool) \<Rightarrow> dworld \<Rightarrow> dworld \<Rightarrow> bool" where
  "extends P w w' \<longleftrightarrow> dw_data w' = dw_data w \<and> dw_file w' = dw_file w \<and> dw_asked w \<le> dw_asked w'
     \<and> (\<exists>es. dw_events w' = dw_events w @ es \<and> list_all P es)"

definition trail :: "(devent \<Rightarrow> bool) \<Rightarrow> 'a dact \<Rightarrow> bool" where
  "trail P m \<longleftrightarrow> (\<forall>out w. extends P w (snd (m out w)))"

named_theorems trail_rules \<open>what the combinators leave alone\<close>

lemma extends_refl [simp]: "extends P w w"
  by (simp add: extends_def)

lemma extends_trans: "extends P w w1 \<Longrightarrow> extends P w1 w2 \<Longrightarrow> extends P w w2"
  unfolding extends_def by (elim conjE exE, intro conjI) (auto intro: exI)

lemma trail_run: "trail P m \<Longrightarrow> m out w = (r, w') \<Longrightarrow> extends P w w'"
  unfolding trail_def by (metis snd_conv)

lemma trail_basic [trail_rules]:
  "trail P (dret x)" "trail P (draise e)" "trail P (dopt q)" "trail P read_data" "trail P clock" "trail P token_file"
  "trail P (store_token t u)" "P (Logged s kvs) \<Longrightarrow> trail P (dlog s kvs)"
  by (auto simp: trail_def extends_def dret_def draise_def dopt_def read_data_def clock_def token_file_def
      store_token_def dlog_def split: option.splits)

lemma trail_dbnd [trail_rules]:
  assumes "trail P m" and "\<And>x. trail P (f x)"
  shows "trail P (dbnd m f)"
  unfolding trail_def
proof (intro allI)
  fix out w
  obtain r w1 where m: "m out w = (r, w1)" by fastforce
  have one: "extends P w w1" by (rule trail_run [OF assms(1) m])
  show "extends P w (snd (dbnd m f out w))"
  proof (cases r)
    case (Inr x)
    have "extends P w1 (snd (f x out w1))" using assms(2) unfolding trail_def by blast
    with one m Inr show ?thesis by (simp add: dbnd_def extends_trans)
  qed (use one m in \<open>simp add: dbnd_def\<close>)
qed

lemma trail_dseq [trail_rules]: "trail P m \<Longrightarrow> trail P n \<Longrightarrow> trail P (dseq m n)"
  unfolding dseq_def by (rule trail_dbnd)

lemma trail_dtry [trail_rules]: "trail P m \<Longrightarrow> trail P (dtry m)"
  unfolding trail_def dtry_def by (auto simp: case_prod_beta)

lemma trail_post [trail_rules]:
  assumes "P (Post url body headers)"
  shows "trail P (post_json url body headers)"
  using assms by (auto simp: trail_def extends_def post_json_def Let_def split: post_reply.splits)

lemma trail_cases [trail_rules]:
  "(b \<Longrightarrow> trail P m) \<Longrightarrow> (\<not> b \<Longrightarrow> trail P n) \<Longrightarrow> trail P (if b then m else n)"
  "(\<And>x y. p = (x, y) \<Longrightarrow> trail P (g x y)) \<Longrightarrow> trail P (case p of (x, y) \<Rightarrow> g x y)"
  "(\<And>e. s = Inl e \<Longrightarrow> trail P (h e)) \<Longrightarrow> (\<And>x. s = Inr x \<Longrightarrow> trail P (k x))
     \<Longrightarrow> trail P (case s of Inl e \<Rightarrow> h e | Inr x \<Rightarrow> k x)"
  by (simp_all split: prod.splits sum.splits)

lemma trail_answer_get [trail_rules]: "trail P (answer_get body k)"
  by (cases body) (simp_all add: answer_get_def trail_rules)

section \<open>The calls to the outside\<close>

text \<open>The events of the minting of a token.\<close>

definition token_call :: "alert_config \<Rightarrow> devent \<Rightarrow> bool" where
  "token_call cfg ev \<longleftrightarrow> (\<exists>t. ev = Post (ac_token_url cfg) (JObj [(''serviceAccountToken'', JStr t)]) [])"

lemma trail_mint [trail_rules]:
  assumes "\<And>ev. token_call cfg ev \<Longrightarrow> P ev"
  shows "trail P (mint_token cfg)"
  unfolding mint_token_def
  by (intro trail_rules assms) (auto simp: token_call_def intro!: trail_rules split: json.splits option.splits)

lemma trail_minter [trail_rules]:
  assumes "\<And>ev. token_call cfg ev \<Longrightarrow> P ev"
  shows "trail P (minter_get cfg)"
proof -
  have "trail P (dbnd clock (\<lambda>now. if timestamp now < u - 30 then dret t else mint_token cfg))" for t u
    by (intro trail_rules assms)
  then show ?thesis
    using trail_mint [OF assms]
    by (auto simp: trail_def minter_get_def split: option.splits)
qed

lemma trail_create [trail_rules]:
  assumes "\<And>ev. token_call cfg ev \<Longrightarrow> P ev" and "\<And>t. P (Post (ac_session_url cfg) body [(''Authorization'', ''Bearer '' @ t)])"
  shows "trail P (create_session cfg body)"
  unfolding create_session_def
  by (intro trail_rules assms) (auto simp: Let_def intro!: trail_rules split: json.splits)

lemma trail_audit [trail_rules]:
  assumes "\<And>url h. P (Post url (audit_body labels key sid surl) h)"
  shows "trail P (audit_comment cfg github labels key sid surl)"
  unfolding audit_comment_def by (intro trail_rules assms)

section \<open>The effect of one alert\<close>

fun is_post :: "devent \<Rightarrow> bool" where
  "is_post (Post url body headers) \<longleftrightarrow> True"
| "is_post ev \<longleftrightarrow> False"

definition clean_labels :: "alert_config \<Rightarrow> labels \<Rightarrow> bool" where
  "clean_labels cfg labels \<longleftrightarrow>
     list_all (\<lambda>(k, v). k \<in> set (ac_label_keys cfg) \<and> (if k = ''alertname'' then alertname_ok v else label_value_ok v)) labels"

text \<open>The calls an alert may lead to: the minting of a token, a session request of the brief and the labels,
  the audit issue.\<close>

definition proper_call :: "dispatcher \<Rightarrow> devent \<Rightarrow> bool" where
  "proper_call d ev \<longleftrightarrow> token_call (dp_cfg d) ev
     \<or> (\<exists>labels starts key t. clean_labels (dp_cfg d) labels
          \<and> ev = Post (ac_session_url (dp_cfg d)) (build_request (dp_brief d) labels starts key)
              [(''Authorization'', ''Bearer '' @ t)])
     \<or> (\<exists>labels key sid surl url h. clean_labels (dp_cfg d) labels \<and> ev = Post url (audit_body labels key sid surl) h)"

definition proper_event :: "dispatcher \<Rightarrow> devent \<Rightarrow> bool" where
  "proper_event d ev \<longleftrightarrow> (is_post ev \<longrightarrow> proper_call d ev)"

text \<open>The labels of an alert that is looked at, and the fault they name.\<close>

definition critical_labels :: "dispatcher \<Rightarrow> json \<Rightarrow> labels option" where
  "critical_labels d alert =
     (case sanitize_labels (dget (case alert of JObj kvs \<Rightarrow> kvs | _ \<Rightarrow> []) ''labels'' JNull) (ac_label_keys (dp_cfg d)) of
        Inl why \<Rightarrow> None
      | Inr (labels, dropped) \<Rightarrow> if map_of labels ''severity'' = Some ''critical'' then Some labels else None)"

definition fault_of :: "dispatcher \<Rightarrow> json \<Rightarrow> string option" where
  "fault_of d alert =
     map_option (\<lambda>labels. dedup_key (label labels ''alertname'') (label labels ''namespace'')) (critical_labels d alert)"

definition resolving :: "json \<Rightarrow> bool" where
  "resolving alert \<longleftrightarrow> dget (case alert of JObj kvs \<Rightarrow> kvs | _ \<Rightarrow> []) ''status'' (JStr ''firing'') = JStr ''resolved''"

lemma dbnd_run:
  "m out w = (Inr x, w1) \<Longrightarrow> dbnd m f out w = f x out w1"
  "m out w = (Inl e, w1) \<Longrightarrow> dbnd m f out w = (Inl e, w1)"
  by (simp_all add: dbnd_def)

lemma dseq_run:
  "m out w = (Inr (), w1) \<Longrightarrow> dseq m n out w = n out w1"
  "m out w = (Inl e, w1) \<Longrightarrow> dseq m n out w = (Inl e, w1)"
  by (simp_all add: dseq_def dbnd_def)

lemma d_runs [simp]:
  "dbnd (dret x) f = f x" "dbnd (dopt (Some x)) f = f x" "dbnd read_data h out w = h (dw_data w) out w"
  "dbnd clock g out w = g (do_clock out (dw_asked w)) out (w\<lparr>dw_asked := dw_asked w + 1\<rparr>)"
  "dret y out w = (Inr y, w)"
  by (simp_all add: dbnd_def dret_def dopt_def read_data_def clock_def)

lemma proper_logged [simp]: "proper_event d (Logged s kvs)" "proper_event d (Saved data)" "\<not> is_post (Logged s kvs)"
  by (simp_all add: proper_event_def)

lemma commit_run:
  "(\<exists>e. commit data out w = (Inl e, w\<lparr>dw_data := data\<rparr>))
   \<or> commit data out w = (Inr (), w\<lparr>dw_data := data, dw_file := data, dw_events := dw_events w @ [Saved data]\<rparr>)"
  by (auto simp: commit_def split: option.splits)

lemma extends_events: "extends P w w' \<Longrightarrow> \<exists>es. dw_events w' = dw_events w @ es \<and> list_all P es"
  by (simp add: extends_def)

lemma extendsE:
  assumes "extends P w w'"
  obtains es where "dw_data w' = dw_data w" "dw_file w' = dw_file w" "dw_asked w \<le> dw_asked w'"
    "dw_events w' = dw_events w @ es" "list_all P es"
  using assms unfolding extends_def by blast

lemma proper_token: "token_call (dp_cfg d) ev \<Longrightarrow> proper_event d ev"
  by (simp add: proper_event_def proper_call_def)

lemma proper_request:
  "clean_labels (dp_cfg d) labels \<Longrightarrow> proper_event d (Post (ac_session_url (dp_cfg d))
     (build_request (dp_brief d) labels starts key) [(''Authorization'', ''Bearer '' @ t)])"
  unfolding proper_event_def proper_call_def by blast

lemma proper_audit:
  "clean_labels (dp_cfg d) labels \<Longrightarrow> proper_event d (Post url (audit_body labels key sid surl) h)"
  unfolding proper_event_def proper_call_def by blast

text \<open>What the rest of a spawn does once the attempt is counted.\<close>

definition after_reserve :: "dispatcher \<Rightarrow> jobj \<Rightarrow> dworld \<Rightarrow> dworld \<Rightarrow> bool" where
  "after_reserve d reserved w w' \<longleftrightarrow>
     state_ok (dw_data w') \<and> same_view (dw_data w') reserved \<and> state_ok (dw_file w') \<and> same_view (dw_file w') reserved
     \<and> dw_asked w \<le> dw_asked w' \<and> (\<exists>es. dw_events w' = dw_events w @ Saved reserved # es \<and> list_all (proper_event d) es)"

lemma same_view_refl [simp]: "same_view x x"
  by (simp add: same_view_def)

lemma spawn_effect:
  assumes run: "spawn d labels dropped starts name ns now out w = (r, w')"
    and ok: "state_ok (dw_data w)" and clean: "clean_labels (dp_cfg d) labels"
  shows "\<exists>reserved. reserve (dw_data w) name ns now = Some reserved
    \<and> (w' = w\<lparr>dw_data := reserved\<rparr> \<or> after_reserve d reserved w w')"
proof -
  let ?key = "dedup_key name ns"
  obtain res where res: "reserve (dw_data w) name ns now = Some res" "state_ok res"
    and at: "spawned_at res ?key \<noteq> None"
    using reserve_view [OF ok, of name ns now] by (metis fun_upd_same option.distinct(1))
  let ?w1 = "w\<lparr>dw_data := res, dw_file := res, dw_events := dw_events w @ [Saved res]\<rparr>"
  let ?create = "create_session (dp_cfg d) (build_request (dp_brief d) labels starts ?key)"
  consider (unsaved) e where "commit res out w = (Inl e, w\<lparr>dw_data := res\<rparr>)" | (saved) "commit res out w = (Inr (), ?w1)"
    using commit_run by blast
  then show ?thesis
  proof cases
    case unsaved
    then have "w' = w\<lparr>dw_data := res\<rparr>" using run res by (simp add: spawn_def Let_def dseq_run dbnd_run)
    with res show ?thesis by blast
  next
    case saved
    obtain c w2 where c: "dtry ?create out ?w1 = (Inr c, w2)"
      by (cases "?create out ?w1") (simp add: dtry_def)
    have "trail (proper_event d) (dtry ?create)"
      by (intro trail_dtry trail_create proper_token proper_request [OF clean]) assumption
    from trail_run [OF this c] have w2: "extends (proper_event d) ?w1 w2" .
    then obtain es2 where es2: "dw_events w2 = dw_events w @ Saved res # es2" "list_all (proper_event d) es2"
      and mem2: "dw_data w2 = res" "dw_file w2 = res" "dw_asked w \<le> dw_asked w2"
      by (auto simp: extends_def)
    let ?rest = "\<lambda>c. case c of
        Inl e \<Rightarrow> dseq (dlog ''spawn-failed'' (named name ns @ [(''key'', JStr ?key), (''error'', JStr (x_class e)),
                   (''detail'', JStr (take_chars 200 (x_text e)))])) (dret (outcome_of ''error'' ''spawn-failed''))
      | Inr (sid, surl) \<Rightarrow> dbnd read_data (\<lambda>data'. dbnd (dopt (record_session data' ?key sid surl)) (\<lambda>recorded.
          dseq (commit recorded) (dbnd (audit_comment (dp_cfg d) (dp_github d) labels ?key sid surl) (\<lambda>audit.
            dseq (dlog ''spawned'' (named name ns @ [(''key'', JStr ?key), (''sessionId'', JStr sid),
              (''sessionUrl'', surl), (''audit'', JStr audit), (''dropped'', JList (map JStr dropped))]))
              (dret \<lparr>oc_action = ''spawn'', oc_reason = ''ok'', oc_session = Some sid\<rparr>)))))"
    define rest where "rest = ?rest c"
    have rest: "rest out w2 = (r, w')"
      unfolding rest_def using run res(1) saved c by (simp add: spawn_def Let_def dseq_run dbnd_run)
    have "after_reserve d res w w'"
    proof (cases c)
      case (Inl e)
      have quiet: "trail (proper_event d) rest" unfolding rest_def Inl sum.case by (intro trail_rules) simp_all
      have "extends (proper_event d) w2 w'" by (rule trail_run [OF quiet rest])
      then obtain es3 where e: "dw_data w' = dw_data w2" "dw_file w' = dw_file w2" "dw_asked w2 \<le> dw_asked w'"
        "dw_events w' = dw_events w2 @ es3" "list_all (proper_event d) es3"
        by (rule extendsE)
      show ?thesis unfolding after_reserve_def using e(3) mem2(3) by (simp add: e(1,2,4,5) es2 mem2(1,2) res(2))
    next
      case (Inr s)
      obtain sid surl where s: "s = (sid, surl)" by (cases s)
      obtain rec where rec: "record_session res ?key sid surl = Some rec" "state_ok rec" "same_view rec res"
        using record_view [OF res(2) at] by blast
      define tail where "tail = dbnd (audit_comment (dp_cfg d) (dp_github d) labels ?key sid surl) (\<lambda>audit.
            dseq (dlog ''spawned'' (named name ns @ [(''key'', JStr ?key), (''sessionId'', JStr sid),
              (''sessionUrl'', surl), (''audit'', JStr audit), (''dropped'', JList (map JStr dropped))]))
              (dret \<lparr>oc_action = ''spawn'', oc_reason = ''ok'', oc_session = Some sid\<rparr>))"
      have rest': "dseq (commit rec) tail out w2 = (r, w')"
        using rest rec(1) mem2(1) by (simp add: rest_def Inr s tail_def)
      let ?w3 = "w2\<lparr>dw_data := rec, dw_file := rec, dw_events := dw_events w2 @ [Saved rec]\<rparr>"
      consider (unsaved2) e where "commit rec out w2 = (Inl e, w2\<lparr>dw_data := rec\<rparr>)" | (saved2) "commit rec out w2 = (Inr (), ?w3)"
        using commit_run by blast
      then show ?thesis
      proof cases
        case unsaved2
        then have "w' = w2\<lparr>dw_data := rec\<rparr>" using rest' by (simp add: dseq_run dbnd_run)
        with es2 mem2 rec res(2) show ?thesis by (simp add: after_reserve_def)
      next
        case saved2
        then have tail: "tail out ?w3 = (r, w')" using rest' by (simp add: dseq_run dbnd_run)
        have quiet: "trail (proper_event d) tail"
          unfolding tail_def by (intro trail_dbnd trail_audit trail_dseq proper_audit [OF clean] trail_basic proper_logged)
        have "extends (proper_event d) ?w3 w'" by (rule trail_run [OF quiet tail])
        then obtain es3 where e: "dw_data w' = rec" "dw_file w' = rec" "dw_asked w2 \<le> dw_asked w'"
          "dw_events w' = (dw_events w2 @ [Saved rec]) @ es3" "list_all (proper_event d) es3"
          by (rule extendsE) simp
        show ?thesis unfolding after_reserve_def using e(3) mem2(3) by (simp add: e(1,2,4,5) es2 rec(2,3))
      qed
    qed
    with res show ?thesis by blast
  qed
qed

text \<open>An alert that changes no state; one that closes a fault; one that is counted as a spawn.\<close>

definition no_change :: "dispatcher \<Rightarrow> json \<Rightarrow> dworld \<Rightarrow> dworld \<Rightarrow> bool" where
  "no_change d alert w w' \<longleftrightarrow>
     extends (\<lambda>ev. \<not> is_post ev) w w'
     \<and> (case fault_of d alert of Some k \<Rightarrow> \<not> (resolving alert \<and> is_open (dw_data w) k) | None \<Rightarrow> True)"

definition closes :: "dispatcher \<Rightarrow> json \<Rightarrow> dworld \<Rightarrow> dworld \<Rightarrow> bool" where
  "closes d alert w w' \<longleftrightarrow>
     (\<exists>k. fault_of d alert = Some k \<and> resolving alert \<and> state_ok (dw_data w')
        \<and> spawns_on (dw_data w') = spawns_on (dw_data w) \<and> spawned_at (dw_data w') = spawned_at (dw_data w)
        \<and> is_open (dw_data w') = (is_open (dw_data w))(k := False)
        \<and> (dw_file w' = dw_file w \<or> dw_file w' = dw_data w') \<and> dw_asked w \<le> dw_asked w'
        \<and> (\<exists>es. dw_events w' = dw_events w @ es \<and> list_all (\<lambda>ev. \<not> is_post ev) es))"

definition spawns :: "dispatcher \<Rightarrow> json \<Rightarrow> datetime \<Rightarrow> dworld \<Rightarrow> dworld \<Rightarrow> bool" where
  "spawns d alert now w w' \<longleftrightarrow>
     (\<exists>name ns reserved. fault_of d alert = Some (dedup_key name ns) \<and> \<not> resolving alert
        \<and> \<not> ac_dry_run (dp_cfg d) \<and> may_spawn (dp_cfg d) (dw_data w) name ns now
        \<and> reserve (dw_data w) name ns now = Some reserved
        \<and> ((dw_data w' = reserved \<and> dw_file w' = dw_file w \<and> dw_events w' = dw_events w \<and> dw_asked w \<le> dw_asked w')
           \<or> after_reserve d reserved w w'))"

lemma clean_snoc:
  "clean_labels cfg (kept @ [(k, v)]) \<longleftrightarrow> clean_labels cfg kept \<and> k \<in> set (ac_label_keys cfg)
     \<and> (if k = ''alertname'' then alertname_ok v else label_value_ok v)"
  by (simp add: clean_labels_def)

lemma sanitize_clean:
  assumes "sanitize_labels raw (ac_label_keys cfg) = Inr (labels, dropped)"
  shows "clean_labels cfg labels"
proof -
  have "clean_labels cfg kept \<Longrightarrow> clean_labels cfg (fst (sanitize_keys kvs (ac_label_keys cfg) keys kept dr))" for kvs keys kept dr
    by (induction keys arbitrary: kept dr) (auto simp: clean_snoc split: json.splits)
  moreover have "clean_labels cfg []" by (simp add: clean_labels_def)
  moreover from assms obtain kvs where "sanitize_keys kvs (ac_label_keys cfg) (sort (map fst kvs)) [] [] = (labels, dropped)"
    by (auto simp: sanitize_labels_def Let_def case_prod_beta split: json.splits list.splits)
  ultimately show ?thesis by (metis fst_conv)
qed

lemma quiet_log:
  assumes "dseq (dlog s kvs) (dret x) out w = (r, w')"
  shows "extends (\<lambda>ev. \<not> is_post ev) w w'"
proof -
  have "trail (\<lambda>ev. \<not> is_post ev) (dseq (dlog s kvs) (dret x))" by (intro trail_rules) simp
  from trail_run [OF this assms] show ?thesis .
qed

lemma resolve_effect:
  assumes run: "resolve name ns out w = (r, w')" and ok: "state_ok (dw_data w)"
    and fault: "fault_of d alert = Some (dedup_key name ns)" and res: "resolving alert"
  shows "no_change d alert w w' \<or> closes d alert w w'"
proof -
  obtain c where c: "close_fault (dw_data w) name ns = Some c" and v: "case c of
         None \<Rightarrow> \<not> is_open (dw_data w) (dedup_key name ns)
       | Some data' \<Rightarrow> state_ok data' \<and> spawns_on data' = spawns_on (dw_data w) \<and> spawned_at data' = spawned_at (dw_data w)
           \<and> is_open data' = (is_open (dw_data w))(dedup_key name ns := False)"
    using close_view [OF ok, of name ns] by blast
  let ?log = "dseq (dlog ''resolved'' (named name ns @ [(''closed'', JBool (c \<noteq> None))])) (dret (outcome_of ''skip'' ''resolved''))"
  show ?thesis
  proof (cases c)
    case None
    have "?log out w = (r, w')" using run c by (simp add: resolve_def None dseq_run)
    from quiet_log [OF this] v show ?thesis by (simp add: no_change_def fault None)
  next
    case (Some data')
    have run': "dseq (commit data') ?log out w = (r, w')" using run c by (simp add: resolve_def Some)
    let ?w1 = "w\<lparr>dw_data := data', dw_file := data', dw_events := dw_events w @ [Saved data']\<rparr>"
    consider e where "commit data' out w = (Inl e, w\<lparr>dw_data := data'\<rparr>)" | "commit data' out w = (Inr (), ?w1)"
      using commit_run by blast
    then show ?thesis
    proof cases
      case 1
      then have "w' = w\<lparr>dw_data := data'\<rparr>" using run' by (simp add: dseq_run)
      then show ?thesis using v res fault by (simp add: closes_def Some)
    next
      case 2
      then have "?log out ?w1 = (r, w')" using run' by (simp add: dseq_run)
      from quiet_log [OF this] obtain es where "dw_data w' = data'" "dw_file w' = data'" "dw_asked w \<le> dw_asked w'"
        "dw_events w' = (dw_events w @ [Saved data']) @ es" "list_all (\<lambda>ev. \<not> is_post ev) es"
        by (rule extendsE) simp
      then show ?thesis using v res fault by (simp add: closes_def Some)
    qed
  qed
qed

lemma fire_effect:
  assumes run: "fire d labels dropped starts name ns now out w = (r, w')" and ok: "state_ok (dw_data w)"
    and clean: "clean_labels (dp_cfg d) labels"
    and fault: "fault_of d alert = Some (dedup_key name ns)" and res: "\<not> resolving alert"
  shows "no_change d alert w w' \<or> spawns d alert now w w'"
proof -
  obtain why where why: "decide_spawn (dp_cfg d) (dw_data w) name ns now = Some why"
    using policy_refines(1) [OF ok, of "dp_cfg d" name ns now] by blast
  have quiet: ?thesis if "extends (\<lambda>ev. \<not> is_post ev) w w'"
    using that res fault by (simp add: no_change_def)
  show ?thesis
  proof (cases why)
    case (Some reason)
    then show ?thesis using run why by (intro quiet) (auto simp: fire_def dest: quiet_log)
  next
    case None
    then have may: "may_spawn (dp_cfg d) (dw_data w) name ns now" using policy_refines(2) [OF ok] why by blast
    show ?thesis
    proof (cases "ac_dry_run (dp_cfg d)")
      case True
      then show ?thesis using run why None by (intro quiet) (auto simp: fire_def dest: quiet_log)
    next
      case False
      then have "spawn d labels dropped starts name ns now out w = (r, w')" using run why None by (simp add: fire_def)
      from spawn_effect [OF this ok clean] obtain reserved where "reserve (dw_data w) name ns now = Some reserved"
        "w' = w\<lparr>dw_data := reserved\<rparr> \<or> after_reserve d reserved w w'" by blast
      moreover from this(2) have "(dw_data w' = reserved \<and> dw_file w' = dw_file w \<and> dw_events w' = dw_events w
          \<and> dw_asked w \<le> dw_asked w') \<or> after_reserve d reserved w w'" by auto
      ultimately show ?thesis using False may fault res unfolding spawns_def by blast
    qed
  qed
qed

lemma alert_effect:
  assumes run: "handle_alert d alert out w = (r, w')" and ok: "state_ok (dw_data w)"
  defines "w0 \<equiv> w\<lparr>dw_asked := dw_asked w + 1\<rparr>"
  shows "no_change d alert w0 w' \<or> closes d alert w0 w' \<or> spawns d alert (do_clock out (dw_asked w)) w0 w'"
proof -
  let ?kvs = "case alert of JObj kvs \<Rightarrow> kvs | _ \<Rightarrow> []"
  let ?s = "sanitize_labels (dget ?kvs ''labels'' JNull) (ac_label_keys (dp_cfg d))"
  have ok0: "state_ok (dw_data w0)" using ok by (simp add: w0_def)
  show ?thesis
  proof (cases ?s)
    case (Inl why)
    then have f: "fault_of d alert = None" by (simp add: fault_of_def critical_labels_def)
    from Inl run have "dseq (dlog ''rejected'' [(''reason'', JStr why)]) (dret (outcome_of ''reject'' ''invalid-labels'')) out w0 = (r, w')"
      by (simp add: handle_alert_def Let_def w0_def)
    from quiet_log [OF this] show ?thesis by (simp add: no_change_def f)
  next
    case (Inr p)
    obtain labels dropped where p: "p = (labels, dropped)" by (cases p)
    let ?name = "label labels ''alertname''" and ?ns = "label labels ''namespace''"
    have h: "handle_labels d (dget ?kvs ''status'' (JStr ''firing'')) (dget ?kvs ''startsAt'' JNull) labels dropped
        (do_clock out (dw_asked w)) out w0 = (r, w')"
      using Inr run by (simp add: handle_alert_def Let_def w0_def p)
    have clean: "clean_labels (dp_cfg d) labels" using sanitize_clean Inr p by blast
    show ?thesis
    proof (cases "map_of labels ''severity'' = Some ''critical''")
      case False
      then have "w' = w0" "fault_of d alert = None"
        using h Inr by (simp_all add: handle_labels_def p fault_of_def critical_labels_def)
      then show ?thesis by (simp add: no_change_def)
    next
      case True
      then have f: "fault_of d alert = Some (dedup_key ?name ?ns)"
        using Inr by (simp add: p fault_of_def critical_labels_def)
      show ?thesis
      proof (cases "resolving alert")
        case res: True
        then have "resolve ?name ?ns out w0 = (r, w')" using h True by (simp add: handle_labels_def resolving_def)
        from resolve_effect [OF this ok0 f res] show ?thesis by blast
      next
        case res: False
        then have "fire d labels dropped (dget ?kvs ''startsAt'' JNull) ?name ?ns (do_clock out (dw_asked w)) out w0 = (r, w')"
          using h True by (simp add: handle_labels_def resolving_def)
        from fire_effect [OF this ok0 clean f res] show ?thesis by blast
      qed
    qed
  qed
qed

end
