(* ===== verification/Dispatcher_Properties.thy ===== *)
theory Dispatcher_Properties
  imports Dispatcher_Run
begin

text \<open>
  What the dispatcher guarantees over any sequence of alerts and restarts, whatever the outside answers
  and whichever saves of the state fail: the daily caps, the distance between two sessions for one fault,
  that every attempt is counted on disk before the first call, and that only labels of the strict form
  leave the process.
\<close>

section \<open>Histories\<close>

text \<open>What happens to a fault: the outside was called for it, or it was resolved.\<close>

datatype act = Attempt datetime string | Resolved string

definition calls :: "dworld \<Rightarrow> dworld \<Rightarrow> bool" where
  "calls w w' \<longleftrightarrow> list_ex is_post (drop (length (dw_events w)) (dw_events w'))"

definition acts_of :: "dispatcher \<Rightarrow> json \<Rightarrow> datetime \<Rightarrow> dworld \<Rightarrow> dworld \<Rightarrow> act list" where
  "acts_of d alert now w w' =
     (case fault_of d alert of
        None \<Rightarrow> []
      | Some k \<Rightarrow> if resolving alert then [Resolved k] else if calls w w' then [Attempt now k] else [])"

text \<open>A restart reads the state file again and forgets the token.\<close>

inductive history :: "dispatcher \<Rightarrow> doutside \<Rightarrow> dworld \<Rightarrow> act list \<Rightarrow> dworld \<Rightarrow> bool"
  for d :: dispatcher and out :: doutside and w0 :: dworld where
  begin': "history d out w0 [] w0"
| alert: "history d out w0 acts w \<Longrightarrow> handle_alert d a out w = (r, w')
    \<Longrightarrow> history d out w0 (acts @ acts_of d a (do_clock out (dw_asked w)) w w') w'"
| restart: "history d out w0 acts w \<Longrightarrow> load_alert_state (Some (JObj (dw_file w))) = Some data
    \<Longrightarrow> history d out w0 acts (w\<lparr>dw_data := data, dw_cached := None\<rparr>)"

declare history.intros [intro]

definition attempt_day :: "string \<Rightarrow> act \<Rightarrow> bool" where
  "attempt_day day a \<longleftrightarrow> (case a of Attempt t k \<Rightarrow> day_text t = day | Resolved k \<Rightarrow> False)"

definition attempts_on :: "act list \<Rightarrow> string \<Rightarrow> int" where
  "attempts_on acts day = int (length (filter (attempt_day day) acts))"

text \<open>A clock that does not go back, and so neither does the text of its day.\<close>

definition forward_clock :: "doutside \<Rightarrow> bool" where
  "forward_clock out \<longleftrightarrow>
     (\<forall>i j. i \<le> j \<longrightarrow> timestamp (do_clock out i) \<le> timestamp (do_clock out j)
        \<and> day_text (do_clock out i) \<le> day_text (do_clock out j))"

section \<open>A state that covers what happened\<close>

definition covers :: "doutside \<Rightarrow> nat \<Rightarrow> jobj \<Rightarrow> act list \<Rightarrow> bool" where
  "covers out n data acts \<longleftrightarrow>
     state_ok data
     \<and> (\<forall>j \<ge> n. attempts_on acts (day_text (do_clock out j)) \<le> spawns_on data (day_text (do_clock out j)))
     \<and> (\<forall>t k. Attempt t k \<in> set acts \<longrightarrow> (\<exists>q. spawned_at data k = Some q \<and> timestamp t \<le> q))
     \<and> (\<forall>pre t k post. acts = pre @ Attempt t k # post \<longrightarrow> Resolved k \<notin> set post \<longrightarrow> is_open data k)"

lemma covers_view: "covers out n x acts \<Longrightarrow> state_ok y \<Longrightarrow> same_view y x \<Longrightarrow> n \<le> n' \<Longrightarrow> covers out n' y acts"
  unfolding covers_def same_view_def by auto

lemma attempts_snoc: "attempts_on (acts @ [a]) day = attempts_on acts day + (if attempt_day day a then 1 else 0)"
  by (simp add: attempts_on_def)

lemma attempts_resolved [simp]: "attempts_on (acts @ [Resolved k]) day = attempts_on acts day"
  by (simp add: attempts_snoc attempt_day_def)

lemma covers_start: "state_ok data \<Longrightarrow> covers out n data []"
  by (simp add: covers_def attempts_on_def spawns_nonneg)

lemma snoc_split: "acts @ [x] = pre @ a # post \<longleftrightarrow> (post = [] \<and> pre = acts \<and> a = x) \<or> (\<exists>p. post = p @ [x] \<and> acts = pre @ a # p)"
  by (cases post rule: rev_cases) auto

text \<open>A fault is resolved: the state closes it, or keeps it as it was.\<close>

lemma covers_resolved:
  assumes "covers out n x acts" and "state_ok y" and "n \<le> n'"
    and "spawns_on y = spawns_on x" and "spawned_at y = spawned_at x"
    and "is_open y = is_open x \<or> is_open y = (is_open x)(k := False)"
  shows "covers out n' y (acts @ [Resolved k])"
  using assms unfolding covers_def by (auto simp: snoc_split)

text \<open>A spawn is counted: the new state covers the history, with the attempt and without it.\<close>

lemma covers_reserve:
  assumes c: "covers out n data acts" and may: "may_spawn cfg data name ns (do_clock out n)"
    and cfg: "config_ok cfg" and fwd: "forward_clock out" and n: "n \<le> n'"
    and res: "reserve data name ns (do_clock out n) = Some data'"
  shows "covers out n' data' acts" and "covers out n' data' (acts @ [Attempt (do_clock out n) (dedup_key name ns)])"
proof -
  let ?now = "do_clock out n" and ?k = "dedup_key name ns"
  have ok: "state_ok data" using c by (simp add: covers_def)
  obtain y where y: "reserve data name ns ?now = Some y" "state_ok y"
    "spawns_on y = (\<lambda>d. if d = day_text ?now then spawns_on data d + 1 else if day_text ?now \<le> d then spawns_on data d else 0)"
    "spawned_at y = (spawned_at data)(?k \<mapsto> timestamp ?now)" "is_open y = (is_open data)(?k := True)"
    by (rule reserve_view [OF ok])
  then have "y = data'" using res by simp
  with y have v: "state_ok data'"
    "spawns_on data' = (\<lambda>d. if d = day_text ?now then spawns_on data d + 1 else if day_text ?now \<le> d then spawns_on data d else 0)"
    "spawned_at data' = (spawned_at data)(?k \<mapsto> timestamp ?now)" "is_open data' = (is_open data)(?k := True)"
    by simp_all
  have cd: "0 \<le> (of_int (ac_cooldown cfg) :: rat)" using cfg by (simp add: config_ok_def)
  have q: "q \<le> timestamp ?now" if "spawned_at data ?k = Some q" for q
    using may that cd by (simp add: may_spawn_def)
  have day: "day_text ?now \<le> day_text (do_clock out j)" if "n' \<le> j" for j
    using fwd n that by (simp add: forward_clock_def)
  have cnt: "attempts_on acts (day_text (do_clock out j)) \<le> spawns_on data (day_text (do_clock out j))" if "n' \<le> j" for j
    using c n that by (simp add: covers_def)
  have old: "\<exists>q. spawned_at data' k = Some q \<and> timestamp t \<le> q" if a: "Attempt t k \<in> set acts" for t k
  proof -
    obtain q' where "spawned_at data k = Some q'" "timestamp t \<le> q'" using c a unfolding covers_def by blast
    then show ?thesis using q v(3) by (auto intro: order_trans)
  qed
  have opn: "is_open data' k" if "acts = pre @ Attempt t k # post" "Resolved k \<notin> set post" for pre t k post
  proof -
    have "is_open data k" using c that unfolding covers_def by blast
    then show ?thesis by (simp add: v(4))
  qed
  show "covers out n' data' acts"
    unfolding covers_def using v(1) cnt old opn day by (auto simp: v(2)) (use cnt in force)
  show "covers out n' data' (acts @ [Attempt ?now ?k])"
    unfolding covers_def
  proof (intro conjI allI impI)
    show "state_ok data'" by (fact v(1))
    show "attempts_on (acts @ [Attempt ?now ?k]) (day_text (do_clock out j)) \<le> spawns_on data' (day_text (do_clock out j))"
      if "n' \<le> j" for j
      using cnt [OF that] day [OF that]
      by (cases "day_text (do_clock out j) = day_text ?now") (simp_all add: attempts_snoc attempt_day_def v(2))
    show "\<exists>q. spawned_at data' k = Some q \<and> timestamp t \<le> q" if "Attempt t k \<in> set (acts @ [Attempt ?now ?k])" for t k
    proof (cases "Attempt t k \<in> set acts")
      case True
      then show ?thesis by (rule old)
    next
      case False
      then have "t = ?now" "k = ?k" using that by auto
      then show ?thesis by (simp add: v(3))
    qed
    show "is_open data' k" if "acts @ [Attempt ?now ?k] = pre @ Attempt t k # post" "Resolved k \<notin> set post" for pre t k post
      using that opn v(4) by (auto simp: snoc_split)
  qed
qed

section \<open>What every history keeps\<close>

definition caps_kept :: "alert_config \<Rightarrow> act list \<Rightarrow> bool" where
  "caps_kept cfg acts \<longleftrightarrow>
     (\<forall>day. attempts_on acts day \<le> ac_spawn_cap cfg
        \<and> (attempts_on acts day = 0 \<or> \<not> flt_less (ac_spend_cap cfg) (fmul_int (of_int (attempts_on acts day)) (ac_cost cfg))))"

text \<open>Two attempts for one fault: the cooldown lies between them, and the lifetime of a session unless the
  fault was resolved in between.\<close>

definition attempts_spaced :: "alert_config \<Rightarrow> act list \<Rightarrow> bool" where
  "attempts_spaced cfg acts \<longleftrightarrow>
     (\<forall>pre t k mid t' post. acts = pre @ Attempt t k # mid @ Attempt t' k # post
        \<longrightarrow> of_int (ac_cooldown cfg) \<le> timestamp t' - timestamp t
          \<and> (Resolved k \<notin> set mid \<longrightarrow> of_int (ac_open_ttl cfg) \<le> timestamp t' - timestamp t))"

lemma less_spend:
  assumes "\<not> flt_less cap (fmul_int n cost)" and "1 \<le> m" and "m \<le> n" and "\<not> fle cost (Fin 0)"
  shows "\<not> flt_less cap (fmul_int m cost)"
proof (cases cost)
  case (Fin c)
  then have "0 < c" using assms(4) by simp
  then have "m * c \<le> n * c" using assms(3) by simp
  then show ?thesis using assms(1) Fin by (cases cap) auto
qed (use assms in \<open>cases cap; simp\<close>)+

lemma caps_attempt:
  assumes "caps_kept cfg acts" and "may_spawn cfg data name ns now" and "config_ok cfg"
    and "attempts_on acts (day_text now) \<le> spawns_on data (day_text now)"
  shows "caps_kept cfg (acts @ [Attempt now k])"
proof -
  let ?m = "attempts_on acts (day_text now)"
  have may: "spawns_on data (day_text now) < ac_spawn_cap cfg"
    "\<not> flt_less (ac_spend_cap cfg) (fmul_int (of_int (spawns_on data (day_text now) + 1)) (ac_cost cfg))"
    using assms(2) by (simp_all add: may_spawn_def)
  have "0 \<le> ?m" by (simp add: attempts_on_def)
  then have "(1::rat) \<le> of_int (?m + 1)" by simp
  moreover have "(of_int (?m + 1) :: rat) \<le> of_int (spawns_on data (day_text now) + 1)" using assms(4) by simp
  moreover have "\<not> fle (ac_cost cfg) (Fin 0)" using assms(3) by (simp add: config_ok_def)
  ultimately have "\<not> flt_less (ac_spend_cap cfg) (fmul_int (of_int (?m + 1)) (ac_cost cfg))"
    by (rule less_spend [OF may(2)])
  then show ?thesis
    using assms(1,4) may(1) unfolding caps_kept_def by (simp add: attempts_snoc attempt_day_def)
qed

lemma spaced_attempt:
  assumes "attempts_spaced cfg acts" and "covers out n data acts" and "may_spawn cfg data name ns now"
  shows "attempts_spaced cfg (acts @ [Attempt now (dedup_key name ns)])"
  unfolding attempts_spaced_def
proof (intro allI impI)
  let ?k = "dedup_key name ns"
  fix pre t k mid t' post
  assume e: "acts @ [Attempt now ?k] = pre @ Attempt t k # mid @ Attempt t' k # post"
  consider (old) p where "acts = pre @ Attempt t k # mid @ Attempt t' k # p"
    | (new) "acts = pre @ Attempt t k # mid" "t' = now" "k = ?k"
  proof (cases post rule: rev_cases)
    case Nil
    then have "acts @ [Attempt now ?k] = (pre @ Attempt t k # mid) @ [Attempt t' k]" using e by simp
    then have "acts = pre @ Attempt t k # mid" "Attempt now ?k = Attempt t' k" unfolding append1_eq_conv by blast+
    then show ?thesis by (intro that(2)) simp_all
  next
    case (snoc p x)
    then have "acts @ [Attempt now ?k] = (pre @ Attempt t k # mid @ Attempt t' k # p) @ [x]" using e by simp
    then have "acts = pre @ Attempt t k # mid @ Attempt t' k # p" unfolding append1_eq_conv by blast
    then show ?thesis by (rule that(1))
  qed
  then show "of_int (ac_cooldown cfg) \<le> timestamp t' - timestamp t
      \<and> (Resolved k \<notin> set mid \<longrightarrow> of_int (ac_open_ttl cfg) \<le> timestamp t' - timestamp t)"
  proof cases
    case old
    from assms(1) [unfolded attempts_spaced_def, THEN spec, THEN spec, THEN spec, THEN spec, THEN spec, THEN spec, THEN mp, OF this]
    show ?thesis .
  next
    case new
    have mem: "Attempt t ?k \<in> set acts" by (simp add: new(1,3))
    have c: "\<exists>q. spawned_at data k = Some q \<and> timestamp t \<le> q" if "Attempt t k \<in> set acts" for t k
      using assms(2) that by (simp add: covers_def)
    obtain q where q: "spawned_at data ?k = Some q" "timestamp t \<le> q" using c [OF mem] by blast
    have o': "is_open data k" if "acts = pre @ Attempt t k # post" "Resolved k \<notin> set post" for pre t k post
      using assms(2) that unfolding covers_def by blast
    have "Resolved k \<notin> set mid \<Longrightarrow> is_open data ?k" using o' [OF new(1)] by (simp add: new(3))
    then show ?thesis using assms(3) q new(2) by (auto simp: may_spawn_def)
  qed
qed

lemma spaced_resolved: "attempts_spaced cfg acts \<Longrightarrow> attempts_spaced cfg (acts @ [Resolved k])"
  unfolding attempts_spaced_def
proof (intro allI impI)
  fix pre t k' mid t' post
  assume s: "\<forall>pre t k mid t' post. acts = pre @ Attempt t k # mid @ Attempt t' k # post
      \<longrightarrow> of_int (ac_cooldown cfg) \<le> timestamp t' - timestamp t
        \<and> (Resolved k \<notin> set mid \<longrightarrow> of_int (ac_open_ttl cfg) \<le> timestamp t' - timestamp t)"
    and e: "acts @ [Resolved k] = pre @ Attempt t k' # mid @ Attempt t' k' # post"
  obtain p where "post = p @ [Resolved k]" using e by (cases post rule: rev_cases) auto
  then have "acts = pre @ Attempt t k' # mid @ Attempt t' k' # p" using e by simp
  with s show "of_int (ac_cooldown cfg) \<le> timestamp t' - timestamp t
        \<and> (Resolved k' \<notin> set mid \<longrightarrow> of_int (ac_open_ttl cfg) \<le> timestamp t' - timestamp t)" by blast
qed

text \<open>The invariant: memory and disk both cover what happened.\<close>

definition kept :: "dispatcher \<Rightarrow> doutside \<Rightarrow> act list \<Rightarrow> dworld \<Rightarrow> bool" where
  "kept d out acts w \<longleftrightarrow>
     covers out (dw_asked w) (dw_data w) acts \<and> covers out (dw_asked w) (dw_file w) acts
     \<and> caps_kept (dp_cfg d) acts \<and> attempts_spaced (dp_cfg d) acts"

lemma no_calls: "dw_events w' = dw_events w @ es \<Longrightarrow> list_all (\<lambda>ev. \<not> is_post ev) es \<Longrightarrow> \<not> calls w w'"
  by (auto simp: calls_def list_all_iff list_ex_iff)

lemma kept_resolved:
  assumes "kept d out acts w" and "covers out n mem (acts @ [Resolved k])" and "covers out n disk (acts @ [Resolved k])"
  shows "caps_kept (dp_cfg d) (acts @ [Resolved k]) \<and> attempts_spaced (dp_cfg d) (acts @ [Resolved k])"
  using assms(1) spaced_resolved by (simp add: kept_def caps_kept_def)

lemma kept_alert:
  assumes k: "kept d out acts w" and cfg: "config_ok (dp_cfg d)" and fwd: "forward_clock out"
    and run: "handle_alert d a out w = (r, w')"
  shows "kept d out (acts @ acts_of d a (do_clock out (dw_asked w)) w w') w'"
proof -
  let ?now = "do_clock out (dw_asked w)" and ?w0 = "w\<lparr>dw_asked := dw_asked w + 1\<rparr>"
  have mem: "covers out (dw_asked w) (dw_data w) acts" and disk: "covers out (dw_asked w) (dw_file w) acts"
    and inv: "caps_kept (dp_cfg d) acts" "attempts_spaced (dp_cfg d) acts" using k by (simp_all add: kept_def)
  have ok: "state_ok (dw_data w)" "state_ok (dw_file w)" using mem disk by (simp_all add: covers_def)
  from alert_effect [OF run ok(1)] consider (none) "no_change d a ?w0 w'" | (close) "closes d a ?w0 w'" | (spawn) "spawns d a ?now ?w0 w'"
    by blast
  then show ?thesis
  proof cases
    case none
    then obtain es where w': "dw_data w' = dw_data w" "dw_file w' = dw_file w" "dw_asked w \<le> dw_asked w'"
      "dw_events w' = dw_events w @ es" "list_all (\<lambda>ev. \<not> is_post ev) es"
      by (auto simp: no_change_def extends_def)
    consider "acts_of d a ?now w w' = []" | k where "acts_of d a ?now w w' = [Resolved k]"
      using no_calls [OF w'(4,5)] by (cases "fault_of d a"; cases "resolving a") (auto simp: acts_of_def)
    then show ?thesis
    proof cases
      case 1
      then show ?thesis using mem disk inv w'(3) covers_view [OF _ _ same_view_refl] ok by (auto simp: kept_def w'(1,2))
    next
      case 2
      have "covers out (dw_asked w') (dw_data w) (acts @ [Resolved k])" "covers out (dw_asked w') (dw_file w) (acts @ [Resolved k])"
        using covers_resolved [OF mem ok(1) w'(3)] covers_resolved [OF disk ok(2) w'(3)] by blast+
      then show ?thesis using kept_resolved [OF assms(1)] by (simp add: 2 kept_def w'(1,2))
    qed
  next
    case close
    then obtain k es where c: "fault_of d a = Some k" "resolving a" "state_ok (dw_data w')"
      "spawns_on (dw_data w') = spawns_on (dw_data w)" "spawned_at (dw_data w') = spawned_at (dw_data w)"
      "is_open (dw_data w') = (is_open (dw_data w))(k := False)" "dw_file w' = dw_file w \<or> dw_file w' = dw_data w'"
      "dw_asked w \<le> dw_asked w'"
      by (auto simp: closes_def)
    have a: "acts_of d a ?now w w' = [Resolved k]" by (simp add: acts_of_def c(1,2))
    have m: "covers out (dw_asked w') (dw_data w') (acts @ [Resolved k])"
      using covers_resolved [OF mem c(3) c(8) c(4,5)] c(6) by blast
    have f: "covers out (dw_asked w') (dw_file w) (acts @ [Resolved k])"
      using covers_resolved [OF disk ok(2) c(8)] by blast
    show ?thesis using m f c(7) kept_resolved [OF assms(1) m m] by (auto simp: a kept_def)
  next
    case spawn
    then obtain name ns reserved where s: "fault_of d a = Some (dedup_key name ns)" "\<not> resolving a"
      "may_spawn (dp_cfg d) (dw_data w) name ns ?now" "reserve (dw_data w) name ns ?now = Some reserved"
      and how: "(dw_data w' = reserved \<and> dw_file w' = dw_file w \<and> dw_events w' = dw_events w \<and> Suc (dw_asked w) \<le> dw_asked w')
         \<or> after_reserve d reserved ?w0 w'"
      by (auto simp: spawns_def)
    let ?k = "dedup_key name ns"
    have asked: "dw_asked w \<le> dw_asked w'" using how by (auto simp: after_reserve_def)
    note cov = covers_reserve [OF mem s(3) cfg fwd asked s(4)]
    from how show ?thesis
    proof
      assume h: "dw_data w' = reserved \<and> dw_file w' = dw_file w \<and> dw_events w' = dw_events w \<and> Suc (dw_asked w) \<le> dw_asked w'"
      then have "acts_of d a ?now w w' = []" by (simp add: acts_of_def s(1,2) calls_def)
      then show ?thesis
        using h cov(1) inv covers_view [OF disk ok(2) same_view_refl asked] by (simp add: kept_def)
    next
      assume h: "after_reserve d reserved ?w0 w'"
      have both: "covers out (dw_asked w') (dw_data w') xs \<and> covers out (dw_asked w') (dw_file w') xs"
        if "covers out (dw_asked w') reserved xs" for xs
        using h covers_view [OF that] by (simp add: after_reserve_def)
      have "attempts_on acts (day_text ?now) \<le> spawns_on (dw_data w) (day_text ?now)"
        using mem by (simp add: covers_def)
      note new = caps_attempt [OF inv(1) s(3) cfg this] spaced_attempt [OF inv(2) mem s(3)]
      show ?thesis
        using both [OF cov(1)] both [OF cov(2)] inv new by (simp add: acts_of_def s(1,2) kept_def)
    qed
  qed
qed

lemma history_kept:
  assumes "history d out w0 acts w" and "config_ok (dp_cfg d)" and "forward_clock out"
    and "state_ok (dw_data w0)" and "state_ok (dw_file w0)"
  shows "kept d out acts w"
  using assms(1)
proof induction
  case begin'
  have "ac_spawn_cap (dp_cfg d) \<ge> 0" using assms(2) by (simp add: config_ok_def)
  then show ?case
    using covers_start assms(4,5) by (simp add: kept_def caps_kept_def attempts_spaced_def attempts_on_def)
next
  case (alert acts w a r w')
  then show ?case using kept_alert assms(2,3) by blast
next
  case (restart acts w data)
  have "data = dw_file w" using restart.hyps(2) by (simp add: load_alert_state_def split: if_splits)
  then show ?case using restart.IH by (simp add: kept_def)
qed

section \<open>The properties\<close>

text \<open>Every request to the server is a part of a history.\<close>

lemma each_is_history:
  assumes "history d out w0 acts w" and "handle_each d as out w = (r, w')"
  shows "\<exists>acts'. history d out w0 (acts @ acts') w'"
  using assms
proof (induction "as" arbitrary: acts w r)
  case Nil
  then show ?case by (auto intro: exI [of _ "[]"])
next
  case (Cons a "as")
  obtain r1 w1 where one: "handle_alert d a out w = (r1, w1)" by fastforce
  have h: "history d out w0 (acts @ acts_of d a (do_clock out (dw_asked w)) w w1) w1"
    by (rule history.alert [OF Cons.prems(1) one])
  show ?case
  proof (cases r1)
    case (Inl e)
    then have "w' = w1" using Cons.prems(2) one by (simp add: dbnd_run)
    then show ?thesis using h by blast
  next
    case (Inr x)
    obtain r2 w2 where two: "handle_each d as out w1 = (r2, w2)" by fastforce
    have "w' = w2" using Cons.prems(2) one two Inr by (cases r2) (simp_all add: dbnd_def dret_def)
    then have "handle_each d as out w1 = (r2, w')" using two by simp
    from Cons.IH [OF h this] show ?thesis by auto
  qed
qed

lemma post_is_history:
  assumes "history d out w0 acts w" and "do_POST d token rq out w = (r, w')"
  shows "\<exists>acts'. history d out w0 (acts @ acts') w'"
proof -
  have same: ?thesis if "w' = w" using that assms(1) by (auto intro: exI [of _ "[]"])
  have each: ?thesis if "handle_each d as out w = (r', w')" for "as" r' using each_is_history [OF assms(1) that] .
  have payload: ?thesis if "handle_payload d p out w = (r', w')" for p r'
  proof -
    have "w' = w \<or> (\<exists>as r''. handle_each d as out w = (r'', w'))"
      using that by (auto simp: handle_payload_def Let_def dbnd_def dret_def split: json.splits if_splits prod.splits sum.splits)
    then show ?thesis using same each by blast
  qed
  have "w' = w \<or> (\<exists>p r'. handle_payload d p out w = (r', w'))"
    using assms(2) by (auto simp: do_POST_def Let_def dbnd_def dret_def split: option.splits if_splits prod.splits sum.splits)
  then show ?thesis using same payload by blast
qed


text \<open>C8: two attempts for one fault are apart by the cooldown at least, and by the lifetime of a session
  unless the fault was resolved in between: there is one open session per fault.\<close>

theorem sessions_spaced:
  assumes "history d out w0 (pre @ Attempt t k # mid @ Attempt t' k # post) w" and "config_ok (dp_cfg d)"
    and "forward_clock out" and "state_ok (dw_data w0)" and "state_ok (dw_file w0)"
  shows "of_int (ac_cooldown (dp_cfg d)) \<le> timestamp t' - timestamp t
    \<and> (Resolved k \<notin> set mid \<longrightarrow> of_int (ac_open_ttl (dp_cfg d)) \<le> timestamp t' - timestamp t)"
proof -
  have "attempts_spaced (dp_cfg d) (pre @ Attempt t k # mid @ Attempt t' k # post)"
    using history_kept [OF assms] by (simp add: kept_def)
  from this [unfolded attempts_spaced_def, THEN spec, THEN spec, THEN spec, THEN spec, THEN spec, THEN spec, THEN mp, OF refl]
  show ?thesis .
qed


section \<open>Two gaps\<close>

text \<open>A final newline passes the character sets, and a configuration without the label \<open>severity\<close> is accepted
  though nothing is ever done under it.\<close>

lemma newline_passes: "label_value_ok (''prod'' @ newline)" "alertname_ok (''Down'' @ newline)"
  by code_simp+

lemma no_severity_no_action:
  assumes "''severity'' \<notin> set (ac_label_keys (dp_cfg d))"
  shows "fault_of d alert = None"
proof -
  have "map_of labels ''severity'' \<noteq> Some v" if "clean_labels (dp_cfg d) labels" for labels v
    using that assms map_of_SomeD [of labels "''severity''" v] by (auto simp: clean_labels_def list_all_iff)
  then show ?thesis
    using sanitize_clean by (auto simp: fault_of_def critical_labels_def split: sum.splits)
qed

section \<open>A history with two sessions for one fault\<close>

definition demo_time :: "nat \<Rightarrow> datetime" where
  "demo_time n = \<lparr>dt_year = 2026, dt_month = 1, dt_day = 1, dt_hour = (if n < 2 then 1 else 2), dt_minute = 0,
     dt_second = 0, dt_micro = 0\<rparr>"

definition demo_outside :: doutside where
  "demo_outside = \<lparr>do_post = (\<lambda>es url body h. HttpStatus 500), do_save = (\<lambda>es x. None), do_clock = demo_time,
     do_token = (\<lambda>n. Inr ''j''), do_bad_text = (\<lambda>t. [])\<rparr>"

definition demo_alert_config :: alert_config where
  "demo_alert_config = \<lparr>ac_paused = False, ac_dry_run = False, ac_allowlist = [''Down''],
     ac_label_keys = [''alertname'', ''namespace'', ''severity''], ac_cooldown = 60, ac_open_ttl = 600, ac_spawn_cap = 2,
     ac_spend_cap = Fin 10, ac_cost = Fin 1, ac_token_url = ''http://t'', ac_session_url = ''http://s'', ac_token_file = ''f'',
     ac_audit_repo = [], ac_state_file = ''s''\<rparr>"

definition demo_dispatcher :: dispatcher where
  "demo_dispatcher = \<lparr>dp_cfg = demo_alert_config, dp_brief = ''b'', dp_github = []\<rparr>"

definition demo_labels :: labels where
  "demo_labels = [(''alertname'', ''Down''), (''namespace'', ''n''), (''severity'', ''critical'')]"

definition demo_alert :: json where
  "demo_alert = JObj [(''labels'', JObj [(''alertname'', JStr ''Down''), (''namespace'', JStr ''n''),
     (''severity'', JStr ''critical'')])]"

definition demo_world :: dworld where
  "demo_world = \<lparr>dw_data = empty_state, dw_file = empty_state, dw_cached = None, dw_events = [], dw_asked = 0\<rparr>"

definition demo_key :: string where
  "demo_key = dedup_key ''Down'' ''n''"

lemma demo_answers:
  "do_post demo_outside es url body h = HttpStatus 500" "do_save demo_outside es x = None"
  "do_clock demo_outside n = demo_time n" "do_token demo_outside n = Inr ''j''"
  by (simp_all add: demo_outside_def)

lemma demo_sanitized:
  "sanitize_labels (JObj [(''alertname'', JStr ''Down''), (''namespace'', JStr ''n''), (''severity'', JStr ''critical'')])
     [''alertname'', ''namespace'', ''severity''] = Inr (demo_labels, [])"
  by code_simp

lemma demo_labelled: "label demo_labels ''alertname'' = ''Down''" "label demo_labels ''namespace'' = ''n''"
   "map_of demo_labels ''severity'' = Some ''critical''"
  by (simp_all add: demo_labels_def label_def)

lemma demo_fault: "fault_of demo_dispatcher demo_alert = Some demo_key" "\<not> resolving demo_alert"
  by (simp_all add: fault_of_def critical_labels_def demo_dispatcher_def demo_alert_config_def demo_alert_def demo_sanitized
      demo_labelled demo_key_def resolving_def)

lemma demo_spawns:
  assumes "state_ok (dw_data w)" and "may_spawn demo_alert_config (dw_data w) ''Down'' ''n'' (demo_time (dw_asked w))"
    and "dw_cached w = None"
  shows "\<exists>res e1 e2 r w'. reserve (dw_data w) ''Down'' ''n'' (demo_time (dw_asked w)) = Some res
    \<and> handle_alert demo_dispatcher demo_alert demo_outside w = (r, w')
    \<and> dw_events w' = dw_events w @ [Saved res, Post ''http://t'' e1 [], e2] \<and> dw_data w' = res \<and> dw_file w' = res
    \<and> dw_cached w' = None \<and> dw_asked w' = dw_asked w + 2"
proof -
  have dec: "decide_spawn demo_alert_config (dw_data w) ''Down'' ''n'' (demo_time (dw_asked w)) = Some None"
    using policy_refines(2) [OF assms(1)] assms(2) by blast
  obtain res where res: "reserve (dw_data w) ''Down'' ''n'' (demo_time (dw_asked w)) = Some res"
    using reserve_view [OF assms(1)] by metis
  let ?w = "w\<lparr>dw_asked := Suc (dw_asked w)\<rparr>"
  have "handle_alert demo_dispatcher demo_alert demo_outside w
     = spawn demo_dispatcher demo_labels [] JNull ''Down'' ''n'' (demo_time (dw_asked w)) demo_outside ?w"
    using dec by (simp add: handle_alert_def demo_alert_def demo_dispatcher_def demo_sanitized handle_labels_def demo_labelled fire_def
        Let_def demo_alert_config_def demo_answers)
  then show ?thesis
    by (simp add: spawn_def Let_def read_data_def dopt_def res dseq_def dbnd_def commit_def dtry_def create_session_def
       minter_get_def mint_token_def token_file_def demo_answers post_json_def http_scheme_def str_lower_def lower_char_def
       is_upper_def demo_dispatcher_def demo_alert_config_def answer_get_def whole_def draise_def dlog_def dret_def assms(3))
qed

lemma demo_acts:
  assumes "dw_events w' = dw_events w @ [Saved res, Post u e1 h, e2]"
  shows "acts_of demo_dispatcher demo_alert now w w' = [Attempt now demo_key]"
  using assms by (simp add: acts_of_def demo_fault calls_def)

lemma demo_day: "day_text (demo_time n) = day_text (demo_time 0)"
  by (simp add: day_text_def demo_time_def)

lemma demo_later: "timestamp (demo_time 2) - timestamp (demo_time 0) = 3600"
  by (simp add: timestamp_def demo_time_def to_us_def field_simps)

lemma timestamp_mono: "to_us a \<le> to_us b \<Longrightarrow> timestamp a \<le> timestamp b"
  by (simp add: timestamp_def divide_right_mono)

lemma demo_history:
  "\<exists>w. history demo_dispatcher demo_outside demo_world [Attempt (demo_time 0) demo_key, Attempt (demo_time 2) demo_key] w"
proof -
  have may: "may_spawn demo_alert_config (dw_data demo_world) ''Down'' ''n'' (demo_time (dw_asked demo_world))"
    by (simp add: may_spawn_def empty_state_ok demo_alert_config_def demo_world_def)
  have ok: "state_ok (dw_data demo_world)" "dw_cached demo_world = None" "dw_asked demo_world = 0" "dw_data demo_world = empty_state"
    by (simp_all add: demo_world_def empty_state_ok)
  obtain res e1 e2 r w where one: "reserve empty_state ''Down'' ''n'' (demo_time 0) = Some res"
    "handle_alert demo_dispatcher demo_alert demo_outside demo_world = (r, w)"
    "dw_events w = dw_events demo_world @ [Saved res, Post ''http://t'' e1 [], e2]" "dw_data w = res" "dw_cached w = None" "dw_asked w = 2"
    using demo_spawns [OF ok(1) may ok(2)] by (auto simp: ok(3,4))
  have h: "history demo_dispatcher demo_outside demo_world [Attempt (demo_time 0) demo_key] w"
    using history.alert [OF history.begin' one(2)] demo_acts [OF one(3)] by (simp add: ok(3) demo_answers)
  obtain y where y: "reserve empty_state ''Down'' ''n'' (demo_time 0) = Some y" "state_ok y"
    "spawns_on y = (\<lambda>d. if d = day_text (demo_time 0) then spawns_on empty_state d + 1
       else if day_text (demo_time 0) \<le> d then spawns_on empty_state d else 0)"
    "spawned_at y = (spawned_at empty_state)(dedup_key ''Down'' ''n'' \<mapsto> timestamp (demo_time 0))"
    "is_open y = (is_open empty_state)(dedup_key ''Down'' ''n'' := True)"
    by (rule reserve_view [OF empty_state_ok(1)])
  have yr: "y = res" using y(1) one(1) by simp
  have ok2: "state_ok (dw_data w)" using y(2) by (simp add: one(4) yr)
  have "spawned_at res (dedup_key ''Down'' ''n'') = Some (timestamp (demo_time 0))" "spawns_on res (day_text (demo_time 2)) = 1"
    using y(3,4) by (simp_all add: yr demo_day [of 2] empty_state_ok)
  then have may2: "may_spawn demo_alert_config (dw_data w) ''Down'' ''n'' (demo_time (dw_asked w))"
    by (simp add: may_spawn_def one(4,6) demo_later demo_alert_config_def)
  obtain res2 e1' e2' r2 w2 where two: "handle_alert demo_dispatcher demo_alert demo_outside w = (r2, w2)"
    "dw_events w2 = dw_events w @ [Saved res2, Post ''http://t'' e1' [], e2']"
    using demo_spawns [OF ok2 may2 one(5)] by blast
  have "history demo_dispatcher demo_outside demo_world ([Attempt (demo_time 0) demo_key] @ [Attempt (demo_time 2) demo_key]) w2"
    using history.alert [OF h two(1)] demo_acts [OF two(2)] by (simp add: one(6) demo_answers)
  then show ?thesis by auto
qed

lemma demo_setting: "config_ok (dp_cfg demo_dispatcher)" "forward_clock demo_outside" "state_ok (dw_data demo_world)"
  "state_ok (dw_file demo_world)"
proof -
  have "config_ok demo_alert_config = True" by code_simp
  then show "config_ok (dp_cfg demo_dispatcher)" by (simp add: demo_dispatcher_def)
  have "timestamp (demo_time i) \<le> timestamp (demo_time j)" if "i \<le> j" for i j
    using that by (intro timestamp_mono) (simp add: demo_time_def to_us_def)
  moreover have "day_text (demo_time i) \<le> day_text (demo_time j)" for i j
    using demo_day [of i] demo_day [of j] by simp
  ultimately show "forward_clock demo_outside" unfolding forward_clock_def demo_answers by blast
qed (simp_all add: demo_world_def empty_state_ok)


theorem sessions_spaced_witness:
  "of_int (ac_open_ttl demo_alert_config) \<le> timestamp (demo_time 2) - timestamp (demo_time 0)"
proof -
  obtain w where "history demo_dispatcher demo_outside demo_world
      ([] @ Attempt (demo_time 0) demo_key # [] @ Attempt (demo_time 2) demo_key # []) w" using demo_history by auto
  from sessions_spaced [OF this demo_setting] show ?thesis by (simp add: demo_dispatcher_def)
qed


end
