(* ===== verification/RequiredChecks.thy ===== *)
theory RequiredChecks
  imports Json Effects
begin

text \<open>
  scripts/gate_required_checks.py: the audit of the required status checks against the workflows of a
  repository. The policy file and the workflow files are parameters; a YAML document is the JSON value
  it holds, with the key \<open>True\<close> (the parsed \<open>on:\<close>) as the text \<open>True\<close>, and the dump of a job is a
  parameter. None is an exception.
\<close>

definition VACUITY :: "string list" where
  "VACUITY = [''|| true'', ''exit 0'', ''set +e'', ''continue-on-error: true'', ''exit-code: '' @ quoted ''0'',
     ''exit-code: '' @ [dquote] @ ''0'' @ [dquote]]"

definition WORKFLOW_DIR :: string where
  "WORKFLOW_DIR = ''.github/workflows''"

definition has_text :: "string \<Rightarrow> string \<Rightarrow> bool" where
  "has_text part s \<longleftrightarrow> sublist part s"

section \<open>Runners\<close>

definition hosted :: "string \<Rightarrow> bool" where
  "hosted r \<longleftrightarrow> list_ex (\<lambda>p. prefix p (str_lower r)) [''ubuntu-'', ''windows-'', ''macos-'']"

definition job_char :: "char \<Rightarrow> bool" where
  "job_char c \<longleftrightarrow> is_lower c \<or> is_upper c \<or> is_digit c \<or> c \<in> set ''_-''"

text \<open>\<open>needs\.([A-Za-z0-9_-]+)\.outputs\.\<close>.\<close>

fun needs_output :: "string \<Rightarrow> string option" where
  "needs_output [] = None"
| "needs_output (c # s) =
     (let rest = drop 6 (c # s); job = takeWhile job_char rest
      in if prefix ''needs.'' (c # s) \<and> job \<noteq> [] \<and> prefix ''.outputs.'' (drop (length job) rest) then Some job
         else needs_output s)"

record emitted =
  em_workflow :: string
  em_job_id :: string
  em_path_filtered :: bool
  em_on_pull_request :: bool
  em_runs_on :: json
  em_body :: string

type_synonym contexts = "(string \<times> emitted) list"

definition chooser_missing :: "string \<Rightarrow> string \<Rightarrow> string \<Rightarrow> string" where
  "chooser_missing code name chooser =
     code @ '': '' @ [CHR 39] @ name @ [CHR 39] @ '' selects its runner from needs.'' @ chooser @ ''.outputs, but ''
     @ ''no job '' @ [CHR 39] @ chooser @ [CHR 39] @ '' emits it (a `name:` override, or a missing job). The ''
     @ ''budget-fallback chooser must be a real job in the same workflow, its id ''
     @ ''un-renamed.''"

definition chooser_unfit :: "string \<Rightarrow> string \<Rightarrow> string \<Rightarrow> string \<Rightarrow> string list \<Rightarrow> string" where
  "chooser_unfit code name chooser crun allowed =
     code @ '': '' @ [CHR 39] @ name @ [CHR 39] @ '' falls back through chooser '' @ [CHR 39] @ chooser @ [CHR 39]
     @ '', which itself ''
     @ ''runs on '' @ [CHR 39] @ crun @ [CHR 39] @ '' '' @ em_dash @ '' not GitHub-hosted and not in ''
     @ ''allowed_self_hosted_runners ['' @ str_join '', '' (map quoted (sort allowed)) @ '']. A fallback behind an ''
     @ ''unlisted self-hosted pool can queue forever. Allowlist the pool, or run ''
     @ ''the chooser on a hosted runner.''"

definition hardcoded :: "string \<Rightarrow> string \<Rightarrow> string \<Rightarrow> string" where
  "hardcoded code name runner =
     code @ '': '' @ [CHR 39] @ name @ [CHR 39] @ '' runs on a hardcoded self-hosted runner ''
     @ [CHR 39] @ runner @ [CHR 39] @ ''. It does not ''
     @ ''fail when the pool is down '' @ em_dash @ '' it QUEUES FOREVER, which blocks merges with no ''
     @ ''error. Use a GitHub-hosted runner, or a budget-fallback runner-selection ''
     @ ''expression that keeps a hosted default (governance/required-checks.md '' @ [CHR 0xC2, CHR 0xA7] @ ''2.2).''"

definition chooser_finding :: "string \<Rightarrow> string \<Rightarrow> contexts \<Rightarrow> string list \<Rightarrow> string \<Rightarrow> string option" where
  "chooser_finding name chooser contexts allowed code =
     (case map_of contexts chooser of
        None \<Rightarrow> Some (chooser_missing code name chooser)
      | Some info \<Rightarrow>
          (case em_runs_on info of
             JStr crun \<Rightarrow>
               (if \<not> hosted crun \<and> \<not> has_text ''${{'' crun \<and> \<not> List.member allowed crun
                then Some (chooser_unfit code name chooser crun allowed) else None)
           | _ \<Rightarrow> None))"

definition runner_finding :: "string \<Rightarrow> json \<Rightarrow> contexts \<Rightarrow> string list \<Rightarrow> string \<Rightarrow> string option" where
  "runner_finding name runner contexts allowed code =
     (case runner of
        JStr r \<Rightarrow>
          (if hosted r then None
           else if has_text ''${{'' r
           then (case needs_output r of
                   None \<Rightarrow> None
                 | Some chooser \<Rightarrow> chooser_finding name chooser contexts allowed code)
           else Some (hardcoded code name r))
      | _ \<Rightarrow> None)"

section \<open>The workflows\<close>

text \<open>A workflow file: PyYAML's error with its text, or the document.\<close>

datatype parsed = BadYaml string | Doc json

definition is_workflow :: "string \<Rightarrow> bool" where
  "is_workflow fn \<longleftrightarrow> suffix ''.yml'' fn \<or> suffix ''.yaml'' fn"

definition has_key :: "json \<Rightarrow> string \<Rightarrow> bool" where
  "has_key j k = (case j of JObj kvs \<Rightarrow> map_of kvs k \<noteq> None | _ \<Rightarrow> False)"

text \<open>\<open>doc.get("on", doc.get(True)) or {}\<close>.\<close>

definition triggers_of :: "jobj \<Rightarrow> json" where
  "triggers_of doc = jor (dget doc ''on'' (dget doc ''True'' JNull)) (JObj [])"

definition pull_request_of :: "json \<Rightarrow> json" where
  "pull_request_of triggers = (case triggers of JObj kvs \<Rightarrow> dget kvs ''pull_request'' JNull | _ \<Rightarrow> JNull)"

definition first_label :: "json \<Rightarrow> json" where
  "first_label runner = (case runner of JList [] \<Rightarrow> JNull | JList (r # rs) \<Rightarrow> r | _ \<Rightarrow> runner)"

definition add_job ::
  "(json \<Rightarrow> string) \<Rightarrow> string \<Rightarrow> bool \<Rightarrow> bool \<Rightarrow> string \<times> json \<Rightarrow> contexts \<Rightarrow> contexts" where
  "add_job dump fn path_filtered on_pr entry ctx =
     (case snd entry of
        JObj job \<Rightarrow>
          AList.update (py_str (jor (dget job ''name'' JNull) (JStr (fst entry))))
            \<lparr>em_workflow = fn, em_job_id = fst entry, em_path_filtered = path_filtered, em_on_pull_request = on_pr,
             em_runs_on = first_label (dget job ''runs-on'' JNull), em_body = dump (JObj job)\<rparr> ctx
      | _ \<Rightarrow> ctx)"

definition add_workflow ::
  "(json \<Rightarrow> string) \<Rightarrow> string \<times> parsed \<Rightarrow> contexts \<Rightarrow> contexts io" where
  "add_workflow dump file ctx =
     (case snd file of
        BadYaml exc \<Rightarrow>
          seq (emit (Print (''::warning title=gate-required-checks::'' @ fst file @ '' is not parseable YAML ('' @ exc
            @ ''); skipped''))) (ret ctx)
      | Doc doc \<Rightarrow>
          (case jor doc (JObj []) of
             JObj kvs \<Rightarrow>
               (let triggers = triggers_of kvs; pr = pull_request_of triggers;
                    filtered = has_key pr ''paths'' \<or> has_key pr ''paths-ignore'';
                    on_pr = has_key triggers ''pull_request'' \<or> has_key triggers ''pull_request_target''
                in case jor (dget kvs ''jobs'' JNull) (JObj []) of
                     JObj jobs \<Rightarrow> ret (fold (add_job dump (fst file) filtered on_pr) jobs ctx)
                   | _ \<Rightarrow> raise Uncaught)
           | _ \<Rightarrow> ret ctx))"

definition load_workflows :: "(json \<Rightarrow> string) \<Rightarrow> (string \<times> parsed) list \<Rightarrow> contexts io" where
  "load_workflows dump files = each (add_workflow dump) (sort_key fst (filter (\<lambda>f. is_workflow (fst f)) files)) []"

section \<open>The policy\<close>

text \<open>A list of names; the code also iterates over a text or the keys of a dict, which no policy has.\<close>

definition names :: "json \<Rightarrow> string list option" where
  "names j = (case j of JList xs \<Rightarrow> those (map as_text xs) | _ \<Rightarrow> None)"

definition stage_names :: "json \<Rightarrow> string list option" where
  "stage_names stage =
     (case stage of
        JObj kvs \<Rightarrow>
          do { a \<leftarrow> names (jor (dget kvs ''promote'' JNull) (JList []));
               b \<leftarrow> names (jor (dget kvs ''promote_fuzesdlc_only'' JNull) (JList []));
               Some (a @ b) }
      | _ \<Rightarrow> Some [])"

definition items_of_dict :: "json \<Rightarrow> jobj option" where
  "items_of_dict j = (case j of JObj kvs \<Rightarrow> Some kvs | _ \<Rightarrow> None)"

record policy_view =
  pv_never :: jobj
  pv_allowed :: "string list"
  pv_required :: "string list"
  pv_audits :: jobj
  pv_promotions :: "string list"

definition read_policy :: "json \<Rightarrow> string \<Rightarrow> policy_view option" where
  "read_policy policy repo =
     do { never \<leftarrow> jget_d policy ''never_require'' (JObj []); never \<leftarrow> items_of_dict never;
          repos \<leftarrow> jget_d policy ''repos'' (JObj []);
          fleet \<leftarrow> jget_d policy ''fleet'' (JObj []);
          allowed \<leftarrow> jget_or policy ''allowed_self_hosted_runners'' (JList []); allowed \<leftarrow> names allowed;
          repo_cfg \<leftarrow> jget_d repos repo (JObj []);
          r \<leftarrow> jget repo_cfg ''required_now''; f \<leftarrow> jget fleet ''required_now'';
          required \<leftarrow> names (jor (jor r f) (JList []));
          fa \<leftarrow> jget_d fleet ''audit'' (JObj []); fa \<leftarrow> items_of_dict fa;
          ra \<leftarrow> jget_d repo_cfg ''audit'' (JObj []); ra \<leftarrow> items_of_dict ra;
          stages \<leftarrow> jget_or policy ''stages'' (JObj []); stages \<leftarrow> items_of_dict stages;
          promotions \<leftarrow> those (map (\<lambda>s. stage_names (snd s)) stages);
          Some \<lparr>pv_never = never, pv_allowed = remdups allowed, pv_required = required,
            pv_audits = dict_update fa ra, pv_promotions = concat promotions\<rparr> }"

section \<open>The audit\<close>

definition never_error :: "string \<Rightarrow> string \<Rightarrow> json \<Rightarrow> string" where
  "never_error name where' reason =
     ''C4 never_require: '' @ [CHR 39] @ name @ [CHR 39] @ '' appears in '' @ where' @ ''. It is excluded on ''
     @ ''purpose: '' @ py_str reason"

definition never_errors :: "policy_view \<Rightarrow> string list" where
  "never_errors p =
     concat (map (\<lambda>(name, reason).
         (if List.member (pv_required p) name then [never_error name ''required_now'' reason] else [])
         @ (if List.member (pv_promotions p) name then [never_error name ''a stage promote list'' reason] else []))
       (pv_never p))"

definition phantom_error :: "string \<Rightarrow> string" where
  "phantom_error name =
     ''C1 no_phantom_required: '' @ [CHR 39] @ name @ [CHR 39] @ '' is required but no job in ''
     @ WORKFLOW_DIR @ '' emits it. A required context that never reports ''
     @ ''blocks every PR at '' @ [CHR 39] @ ''Expected '' @ em_dash @ '' waiting for status to be reported'' @ [CHR 39] @ '', ''
     @ ''with no red to look at. Ship the job first, confirm it green, ''
     @ ''then list it (hardening-convention.md '' @ [CHR 0xC2, CHR 0xA7] @ ''6).''"

definition filtered_error :: "string \<Rightarrow> emitted \<Rightarrow> string" where
  "filtered_error name info =
     ''C2 no_path_filtered_required: '' @ [CHR 39] @ name @ [CHR 39] @ '' is required, but ''
     @ em_workflow info @ '' filters its pull_request trigger on paths. On a ''
     @ ''PR touching none of them the workflow does not run and the context ''
     @ ''is never created. Delete the `paths:` block and early-exit INSIDE ''
     @ ''the job instead.''"

definition untriggered_error :: "string \<Rightarrow> emitted \<Rightarrow> string" where
  "untriggered_error name info =
     ''C2 no_path_filtered_required: '' @ [CHR 39] @ name @ [CHR 39] @ '' is required, but ''
     @ em_workflow info @ '' has no pull_request trigger, so it cannot report ''
     @ ''on a PR at all.''"

definition vacuity_hits :: "emitted \<Rightarrow> string list" where
  "vacuity_hits info = filter (\<lambda>m. has_text m (em_body info)) VACUITY"

definition list_repr :: "string list \<Rightarrow> string" where
  "list_repr xs = ''['' @ str_join '', '' (map quoted xs) @ '']''"

definition missing_claim :: json where
  "missing_claim = JStr ''__missing__''"

definition unaudited_error :: "string \<Rightarrow> string" where
  "unaudited_error name =
     ''C5 honest_audit: '' @ [CHR 39] @ name @ [CHR 39] @ '' is required but has no `audit` entry in ''
     @ ''the policy. Unclassified is not the same as fine '' @ em_dash @ '' state its ''
     @ ''can_fail with a note, so the next reader inherits the evidence ''
     @ ''rather than re-deriving it.''"

definition dishonest_error :: "string \<Rightarrow> string list \<Rightarrow> string" where
  "dishonest_error name hits =
     ''C5 honest_audit: '' @ [CHR 39] @ name @ [CHR 39] @ '' is claimed `can_fail: true` but its job ''
     @ ''carries '' @ list_repr hits @ ''. Either the marker is on a non-decisive step '' @ em_dash @ '' then ''
     @ ''say so in the audit note and narrow the step '' @ em_dash @ '' or the claim is ''
     @ ''false. A policy that overstates enforcement is worse than the ''
     @ ''vacuity it hides.''"

definition vacuous_warning :: "string \<Rightarrow> string list \<Rightarrow> string" where
  "vacuous_warning name hits =
     ''C5 worklist: '' @ [CHR 39] @ name @ [CHR 39] @ '' is REQUIRED and cannot fail ''
     @ ''('' @ (if hits \<noteq> [] then list_repr hits else ''report-only by construction'') @ ''). It is listed, so people ''
     @ ''rely on it; it is vacuous, so it enforces nothing. De-vacuum it ''
     @ ''(governance/required-checks.md '' @ [CHR 0xC2, CHR 0xA7] @ ''4, Stage 0) '' @ em_dash @ '' do not de-list it.''"

definition partial_warning :: "string \<Rightarrow> json \<Rightarrow> string" where
  "partial_warning name note =
     ''C5 worklist: '' @ [CHR 39] @ name @ [CHR 39] @ '' is REQUIRED and only conditionally able to ''
     @ ''fail '' @ em_dash @ '' '' @ py_str note"

text \<open>The errors and warnings of the claim about a job.\<close>

definition claim_findings :: "policy_view \<Rightarrow> string \<Rightarrow> emitted \<Rightarrow> (string list \<times> string list) option" where
  "claim_findings p name info =
     do { claim \<leftarrow> jget_d (dget (pv_audits p) name (JObj [])) ''can_fail'' missing_claim;
          note \<leftarrow> jget_d (dget (pv_audits p) name (JObj [])) ''note'' (JStr ''see policy'');
          (let hits = vacuity_hits info
           in Some (if claim = missing_claim then ([unaudited_error name], [])
                    else if claim = JBool True \<and> hits \<noteq> [] then ([dishonest_error name hits], [])
                    else if claim = JBool False then ([], [vacuous_warning name hits])
                    else if claim = JStr ''partial'' then ([], [partial_warning name note])
                    else ([], []))) }"

definition check_required ::
  "policy_view \<Rightarrow> contexts \<Rightarrow> string \<Rightarrow> (string list \<times> string list) option" where
  "check_required p contexts name =
     (case map_of contexts name of
        None \<Rightarrow> Some ([phantom_error name], [])
      | Some info \<Rightarrow>
          do { (es, ws) \<leftarrow> claim_findings p name info;
               Some ((if em_path_filtered info then [filtered_error name info] else [])
                 @ (if \<not> em_on_pull_request info then [untriggered_error name info] else [])
                 @ (case runner_finding name (em_runs_on info) contexts (pv_allowed p) ''C3 no_self_hosted_required'' of
                      None \<Rightarrow> [] | Some e \<Rightarrow> [e])
                 @ es, ws) })"

definition unready_error :: "string \<Rightarrow> emitted \<Rightarrow> string" where
  "unready_error name info =
     ''C6 promotion_ready: '' @ [CHR 39] @ name @ [CHR 39] @ '' is scheduled for promotion but ''
     @ em_workflow info @ '' does not report on every PR ''
     @ ''('' @ (if em_path_filtered info then ''paths-filtered'' else ''no pull_request trigger'') @ ''). ''
     @ ''Listing it would deadlock any PR the filter excludes. Fix the ''
     @ ''trigger before the stage, not after.''"

definition vacuous_promotion :: "string \<Rightarrow> string list \<Rightarrow> string" where
  "vacuous_promotion name hits =
     ''C6 promotion_ready: '' @ [CHR 39] @ name @ [CHR 39] @ '' is scheduled for promotion but its ''
     @ ''job carries '' @ list_repr hits @ '', so listing it would add another required ''
     @ ''context that cannot fail. De-vacuum it first -- promotion is the ''
     @ ''LAST of the four properties, never the first.''"

definition check_promotion :: "policy_view \<Rightarrow> contexts \<Rightarrow> string \<Rightarrow> string list" where
  "check_promotion p contexts name =
     (if List.member (pv_required p) name then []
      else (case map_of contexts name of
              None \<Rightarrow> []
            | Some info \<Rightarrow>
                (if em_path_filtered info \<or> \<not> em_on_pull_request info then [unready_error name info] else [])
                @ (case runner_finding name (em_runs_on info) contexts (pv_allowed p) ''C6 promotion_ready'' of
                     None \<Rightarrow> [] | Some e \<Rightarrow> [e])
                @ (if vacuity_hits info \<noteq> [] then [vacuous_promotion name (vacuity_hits info)] else [])))"

text \<open>\<open>dict.fromkeys\<close> keeps the first of equal names.\<close>

definition distinct_names :: "string list \<Rightarrow> string list" where
  "distinct_names xs = rev (remdups (rev xs))"

definition audit_view :: "policy_view \<Rightarrow> contexts \<Rightarrow> (string list \<times> string list) option" where
  "audit_view p contexts =
     do { rs \<leftarrow> those (map (check_required p contexts) (pv_required p));
          Some (never_errors p @ concat (map fst rs)
                  @ concat (map (check_promotion p contexts) (distinct_names (pv_promotions p))),
                concat (map snd rs)) }"

definition audit :: "json \<Rightarrow> contexts \<Rightarrow> string \<Rightarrow> (string list \<times> string list) option" where
  "audit policy contexts repo = do { p \<leftarrow> read_policy policy repo; audit_view p contexts }"

section \<open>The program\<close>

definition POLICY_PATHS :: "string list" where
  "POLICY_PATHS = [''governance/required-checks.json'', ''.fuze/required-checks.json'']"

text \<open>The first policy file there is; the process ends when there is none. The files are given by name.\<close>

definition load_required_policy :: "(string \<Rightarrow> json option) \<Rightarrow> (json \<times> string) option" where
  "load_required_policy file =
     (case List.find (\<lambda>rel. file rel \<noteq> None) POLICY_PATHS of
        None \<Rightarrow> None | Some rel \<Rightarrow> map_option (\<lambda>j. (j, rel)) (file rel))"

definition no_policy_message :: string where
  "no_policy_message =
     ''::error title=gate-required-checks::no required-checks.json found ''
     @ ''(looked in '' @ str_join '', '' POLICY_PATHS @ ''). It is installed by sdlc-bootstrap ''
     @ ''together with this job. Do NOT '' @ quoted ''fix'' @ '' this by skipping '' @ em_dash @ '' a repo with this ''
     @ ''gate and no policy is a repo whose required set is unaudited.''"

definition enforcing_of :: "json \<Rightarrow> string \<Rightarrow> (json \<times> bool) option" where
  "enforcing_of policy repo =
     do { enf \<leftarrow> jget_or policy ''enforce'' (JObj []);
          repos \<leftarrow> jget_or enf ''repos'' (JObj []);
          dflt \<leftarrow> jget_d enf ''default'' (JBool True);
          v \<leftarrow> jget_d repos repo dflt;
          Some (enf, truthy v) }"

definition ramp_message :: "string \<Rightarrow> nat \<Rightarrow> json \<Rightarrow> string option" where
  "ramp_message repo errors enf =
     do { owner \<leftarrow> jget_d enf ''owner'' (JStr ''unset'');
          flip \<leftarrow> jget_d enf ''flip_criterion'' (JStr []);
          Some (newline @ ''gate-required-checks: RAMP '' @ em_dash @ '' '' @ show_int (int errors) @ '' error(s) reported and NOT ''
            @ ''failing the job, because governance/required-checks.json sets ''
            @ ''enforce.repos['' @ [CHR 39] @ repo @ [CHR 39] @ ''] (or enforce.default) to false. ''
            @ ''Owner: '' @ py_str owner @ ''. '' @ py_str flip) }"

definition report_audit :: "json \<Rightarrow> string \<Rightarrow> string list \<Rightarrow> string list \<Rightarrow> int io" where
  "report_audit policy repo errors warnings =
     bnd (each (\<lambda>w _. emit (Print (''::warning title=gate-required-checks::'' @ w))) warnings ()) (\<lambda>_.
     bnd (each (\<lambda>e _. emit (Print (''::error title=gate-required-checks::'' @ e))) errors ()) (\<lambda>_.
     bnd (opt (enforcing_of policy repo)) (\<lambda>(enf, enforcing).
       let worklist = show_int (int (length warnings)) @ '' tracked worklist item(s)''
       in if errors \<noteq> [] \<and> enforcing
          then seq (emit (Print (newline @ ''gate-required-checks: FAIL '' @ em_dash @ '' '' @ show_int (int (length errors))
                 @ '' error(s), '' @ show_int (int (length warnings)) @ '' warning(s)''))) (ret 1)
          else if errors \<noteq> []
          then bnd (opt (ramp_message repo (length errors) enf)) (\<lambda>m.
               seq (emit (Print m)) (seq (emit (Print (''gate-required-checks: '' @ worklist))) (ret 0)))
          else seq (emit (Print (newline @ ''gate-required-checks: PASS ('' @ (if enforcing then ''enforcing'' else ''ramp'')
                 @ '') '' @ em_dash @ '' '' @ worklist))) (ret 0))))"

text \<open>The repository's name: the last part of GITHUB_REPOSITORY, or the name of the directory.\<close>

definition repo_name :: "string \<Rightarrow> string \<Rightarrow> string" where
  "repo_name github_repository directory =
     (let last' = last (split_on (\<lambda>c. c = CHR ''/'') github_repository) in if last' = [] then directory else last')"

definition gate_main ::
  "(string \<Rightarrow> json option) \<Rightarrow> (json \<Rightarrow> string) \<Rightarrow> (string \<times> parsed) list \<Rightarrow> string \<Rightarrow> string \<Rightarrow> int io" where
  "gate_main file dump workflows github_repository directory =
     (let repo = repo_name github_repository directory
      in case load_required_policy file of
           None \<Rightarrow> seq (emit (Print no_policy_message)) (ret 1)
         | Some (policy, rel) \<Rightarrow>
             bnd (load_workflows dump workflows) (\<lambda>contexts.
             bnd (opt (audit policy contexts repo)) (\<lambda>(errors, warnings).
             seq (emit (Print (''gate-required-checks: repo='' @ repo @ '' policy='' @ rel @ '' contexts_emitted=''
                   @ show_int (int (length contexts)))))
               (report_audit policy repo errors warnings))))"

end
