(* ===== verification/RequiredChecks_Properties.thy ===== *)
theory RequiredChecks_Properties
  imports RequiredChecks
begin

text \<open>
  The audit of the required checks is exact: it has no error precisely when every required context is
  fit, nothing excluded is required or promoted, and every promotion that is already emitted is fit; and
  a gate that enforces passes only then.
\<close>

definition fit_chooser :: "string list \<Rightarrow> json \<Rightarrow> bool" where
  "fit_chooser allowed crun \<longleftrightarrow> (case crun of JStr c \<Rightarrow> hosted c \<or> has_text ''${{'' c \<or> c \<in> set allowed | _ \<Rightarrow> True)"

definition fit_runner :: "contexts \<Rightarrow> string list \<Rightarrow> json \<Rightarrow> bool" where
  "fit_runner contexts allowed runner \<longleftrightarrow>
     (case runner of
        JStr r \<Rightarrow>
          hosted r
          \<or> (has_text ''${{'' r
             \<and> (case needs_output r of
                  None \<Rightarrow> True
                | Some chooser \<Rightarrow>
                    (case map_of contexts chooser of None \<Rightarrow> False | Some info \<Rightarrow> fit_chooser allowed (em_runs_on info))))
      | _ \<Rightarrow> True)"

definition reports :: "emitted \<Rightarrow> bool" where
  "reports info \<longleftrightarrow> \<not> em_path_filtered info \<and> em_on_pull_request info"

text \<open>The claim of the policy about a job, and that it is honest.\<close>

definition claim_of :: "policy_view \<Rightarrow> string \<Rightarrow> json option" where
  "claim_of p name = jget_d (dget (pv_audits p) name (JObj [])) ''can_fail'' missing_claim"

definition honest :: "policy_view \<Rightarrow> string \<Rightarrow> emitted \<Rightarrow> bool" where
  "honest p name info \<longleftrightarrow>
     claim_of p name \<noteq> Some missing_claim \<and> (claim_of p name = Some (JBool True) \<longrightarrow> vacuity_hits info = [])"

definition fit_required :: "policy_view \<Rightarrow> contexts \<Rightarrow> string \<Rightarrow> bool" where
  "fit_required p contexts name \<longleftrightarrow>
     (\<exists>info. map_of contexts name = Some info \<and> reports info \<and> fit_runner contexts (pv_allowed p) (em_runs_on info)
        \<and> honest p name info)"

definition fit_promotion :: "policy_view \<Rightarrow> contexts \<Rightarrow> string \<Rightarrow> bool" where
  "fit_promotion p contexts name \<longleftrightarrow>
     (case map_of contexts name of
        None \<Rightarrow> True
      | Some info \<Rightarrow> reports info \<and> fit_runner contexts (pv_allowed p) (em_runs_on info) \<and> vacuity_hits info = [])"

definition excluded_nowhere :: "policy_view \<Rightarrow> bool" where
  "excluded_nowhere p \<longleftrightarrow> fst ` set (pv_never p) \<inter> (set (pv_required p) \<union> set (pv_promotions p)) = {}"

lemma runner_finding_None: "runner_finding name runner contexts allowed code = None \<longleftrightarrow> fit_runner contexts allowed runner"
  by (auto simp: runner_finding_def fit_runner_def chooser_finding_def fit_chooser_def split: json.splits option.splits)

lemma never_errors_Nil: "never_errors p = [] \<longleftrightarrow> excluded_nowhere p"
  by (auto simp: never_errors_def excluded_nowhere_def split: if_splits)

lemma check_required_Nil:
  assumes "check_required p contexts name = Some (es, ws)"
  shows "es = [] \<longleftrightarrow> fit_required p contexts name"
proof (cases "map_of contexts name")
  case None
  then show ?thesis using assms by (auto simp: check_required_def fit_required_def)
next
  case (Some info)
  then obtain ces where c: "claim_findings p name info = Some (ces, ws)"
    and es: "es = (if em_path_filtered info then [filtered_error name info] else [])
                 @ (if \<not> em_on_pull_request info then [untriggered_error name info] else [])
                 @ (case runner_finding name (em_runs_on info) contexts (pv_allowed p) ''C3 no_self_hosted_required'' of
                      None \<Rightarrow> [] | Some e \<Rightarrow> [e]) @ ces"
    using assms unfolding check_required_def by (auto simp del: append_assoc)
  have "ces = [] \<longleftrightarrow> honest p name info"
    using c by (auto simp: claim_findings_def honest_def claim_of_def Let_def split: if_splits)
  moreover have "(case runner_finding name (em_runs_on info) contexts (pv_allowed p) ''C3 no_self_hosted_required'' of
                      None \<Rightarrow> [] | Some e \<Rightarrow> [e]) = [] \<longleftrightarrow> fit_runner contexts (pv_allowed p) (em_runs_on info)"
    by (simp add: runner_finding_None [symmetric, of _ _ _ name "''C3 no_self_hosted_required''"] split: option.splits)
  ultimately show ?thesis using Some by (simp add: es fit_required_def reports_def)
qed

lemma check_promotion_Nil:
  "check_promotion p contexts name = [] \<longleftrightarrow> name \<in> set (pv_required p) \<or> fit_promotion p contexts name"
proof (cases "map_of contexts name")
  case (Some info)
  have "(case runner_finding name (em_runs_on info) contexts (pv_allowed p) ''C6 promotion_ready'' of
                      None \<Rightarrow> [] | Some e \<Rightarrow> [e]) = [] \<longleftrightarrow> fit_runner contexts (pv_allowed p) (em_runs_on info)"
    by (simp add: runner_finding_None [symmetric, of _ _ _ name "''C6 promotion_ready''"] split: option.splits)
  then show ?thesis using Some by (auto simp: check_promotion_def fit_promotion_def reports_def)
qed (simp add: check_promotion_def fit_promotion_def)

lemma those_zip: "those (map f xs) = Some ys \<Longrightarrow> (\<forall>y \<in> set ys. P y) \<longleftrightarrow> (\<forall>x \<in> set xs. \<exists>y. f x = Some y \<and> P y)"
proof (induction xs arbitrary: ys)
  case (Cons x xs)
  then obtain z zs where "f x = Some z" "those (map f xs) = Some zs" "ys = z # zs"
    by (auto split: option.splits)
  with Cons.IH show ?case by simp
qed simp

lemma audit_view_exact:
  assumes "audit_view p contexts = Some (errors, warnings)"
  shows "errors = [] \<longleftrightarrow> excluded_nowhere p \<and> list_all (fit_required p contexts) (pv_required p)
    \<and> list_all (fit_promotion p contexts) (filter (\<lambda>n. n \<notin> set (pv_required p)) (pv_promotions p))"
proof -
  obtain rs where rs: "those (map (check_required p contexts) (pv_required p)) = Some rs"
    and e: "errors = never_errors p @ concat (map fst rs) @ concat (map (check_promotion p contexts) (distinct_names (pv_promotions p)))"
    using assms by (auto simp: audit_view_def)
  have "concat (map fst rs) = [] \<longleftrightarrow> (\<forall>r \<in> set rs. fst r = [])" by auto
  also have "\<dots> \<longleftrightarrow> (\<forall>n \<in> set (pv_required p). \<exists>y. check_required p contexts n = Some y \<and> fst y = [])"
    by (rule those_zip [OF rs])
  also have "\<dots> \<longleftrightarrow> list_all (fit_required p contexts) (pv_required p)"
  proof -
    have "\<exists>y. check_required p contexts n = Some y" if "n \<in> set (pv_required p)" for n
      using rs that by (metis (no_types, lifting) image_eqI in_set_conv_nth length_map list.set_map nth_map those_map_Some)
    then show ?thesis using check_required_Nil by (fastforce simp: list_all_iff)
  qed
  finally have "concat (map fst rs) = [] \<longleftrightarrow> list_all (fit_required p contexts) (pv_required p)" .
  moreover have "concat (map (check_promotion p contexts) (distinct_names (pv_promotions p))) = []
      \<longleftrightarrow> list_all (fit_promotion p contexts) (filter (\<lambda>n. n \<notin> set (pv_required p)) (pv_promotions p))"
    by (auto simp: distinct_names_def list_all_iff check_promotion_Nil)
  ultimately show ?thesis by (simp add: e never_errors_Nil)
qed

text \<open>The audit is exact. When it ends it has no error precisely when no excluded context is required or
  promoted, every required context is emitted by a job, reports on every pull request, runs on a runner
  that cannot queue forever and is audited honestly, and every promotion that is emitted already
  reports, runs and can fail.\<close>

theorem audit_exact:
  assumes "read_policy policy repo = Some p" and "audit policy contexts repo = Some (errors, warnings)"
  shows "errors = [] \<longleftrightarrow> excluded_nowhere p \<and> list_all (fit_required p contexts) (pv_required p)
    \<and> list_all (fit_promotion p contexts) (filter (\<lambda>n. n \<notin> set (pv_required p)) (pv_promotions p))"
  using assms by (intro audit_view_exact) (simp add: audit_def)

definition demo_policy :: json where
  "demo_policy = JObj [(''fleet'', JObj [(''required_now'', JList [JStr ''lint'']),
     (''audit'', JObj [(''lint'', JObj [(''can_fail'', JBool True)])])])]"

definition demo_contexts :: contexts where
  "demo_contexts = [(''lint'', \<lparr>em_workflow = ''ci.yml'', em_job_id = ''lint'', em_path_filtered = False, em_on_pull_request = True,
     em_runs_on = JStr ''ubuntu-latest'', em_body = ''run: make''\<rparr>)]"

definition demo_view :: policy_view where
  "demo_view = \<lparr>pv_never = [], pv_allowed = [], pv_required = [''lint''],
     pv_audits = [(''lint'', JObj [(''can_fail'', JBool True)])], pv_promotions = []\<rparr>"

theorem audit_exact_witness:
  "fit_required demo_view demo_contexts ''lint'' \<and> audit demo_policy demo_contexts ''r'' = Some ([], [])"
proof -
  have p: "read_policy demo_policy ''r'' = Some demo_view" by code_simp
  have a: "audit demo_policy demo_contexts ''r'' = Some ([], [])" by code_simp
  from audit_exact [OF p a] a show ?thesis by (simp add: demo_view_def)
qed





end
