(* ===== verification/Script.thy ===== *)
theory Script
  imports Json
begin

text \<open>
  Scripts that keep a state of their own: a step maps the state to a failure or a result and the next
  state; what a failed step has changed stays changed.
\<close>

type_synonym ('w, 'e, 'a) script = "'w \<Rightarrow> ('e + 'a) \<times> 'w"

definition yield :: "'a \<Rightarrow> ('w, 'e, 'a) script" where
  "yield x = (\<lambda>w. (Inr x, w))"

definition fail :: "'e \<Rightarrow> ('w, 'e, 'a) script" where
  "fail e = (\<lambda>w. (Inl e, w))"

definition step :: "('w, 'e, 'a) script \<Rightarrow> ('a \<Rightarrow> ('w, 'e, 'b) script) \<Rightarrow> ('w, 'e, 'b) script" where
  "step m f = (\<lambda>w. case m w of (Inl e, w') \<Rightarrow> (Inl e, w') | (Inr x, w') \<Rightarrow> f x w')"

definition next_to :: "('w, 'e, unit) script \<Rightarrow> ('w, 'e, 'b) script \<Rightarrow> ('w, 'e, 'b) script" where
  "next_to m n = step m (\<lambda>_. n)"

definition change :: "('w \<Rightarrow> 'w) \<Rightarrow> ('w, 'e, unit) script" where
  "change f = (\<lambda>w. (Inr (), f w))"

definition looking :: "('w \<Rightarrow> 'a) \<Rightarrow> ('w, 'e, 'a) script" where
  "looking f = (\<lambda>w. (Inr (f w), w))"

text \<open>\<open>try: m  except: h\<close>.\<close>

definition try_act :: "('w, 'e, 'a) script \<Rightarrow> ('e \<Rightarrow> ('w, 'e, 'a) script) \<Rightarrow> ('w, 'e, 'a) script" where
  "try_act m h = (\<lambda>w. case m w of (Inl e, w') \<Rightarrow> h e w' | (Inr x, w') \<Rightarrow> (Inr x, w'))"

fun for_each :: "('x \<Rightarrow> ('w, 'e, unit) script) \<Rightarrow> 'x list \<Rightarrow> ('w, 'e, unit) script" where
  "for_each f [] = yield ()"
| "for_each f (x # xs) = next_to (f x) (for_each f xs)"

text \<open>A value that the script cannot compute fails with a given failure.\<close>

definition need :: "'e \<Rightarrow> 'a option \<Rightarrow> ('w, 'e, 'a) script" where
  "need e m = (case m of None \<Rightarrow> fail e | Some x \<Rightarrow> yield x)"

lemma script_simps [simp]:
  "yield x w = (Inr x, w)" "fail e w1 = (Inl e, w1)" "change f w2 = (Inr (), f w2)" "looking g w3 = (Inr (g w3), w3)"
  "need e1 (Some y) = yield y" "need e2 None = fail e2"
  by (simp_all add: yield_def fail_def change_def looking_def need_def)

lemma step_simps [simp]:
  "step (yield x) f = f x" "step (fail e) f' = fail e" "step (change g) f1 w = f1 () (g w)" "step (looking h) f2 v = f2 (h v) v"
  by (simp_all add: step_def yield_def fail_def change_def looking_def)

lemma next_to_simps [simp]:
  "next_to (yield u) n = n" "next_to (fail e) n = fail e" "next_to (change g) n v = n (g v)"
  by (simp_all add: next_to_def)

lemma try_act_simps [simp]: "try_act (yield x) h = yield x" "try_act (fail e) h' = h' e"
  by (simp_all add: try_act_def fun_eq_iff)

lemma step_Inr: "step m f w = (Inr y, w') \<longleftrightarrow> (\<exists>x v. m w = (Inr x, v) \<and> f x v = (Inr y, w'))"
  by (auto simp: step_def split: prod.splits sum.splits)

lemma step_run: "m w = (Inr x, w') \<Longrightarrow> step m f w = f x w'" "m w = (Inl e, w') \<Longrightarrow> step m f w = (Inl e, w')"
  by (simp_all add: step_def)

lemma need_Inr: "need e m w = (Inr x, w') \<longleftrightarrow> m = Some x \<and> w' = w"
  by (cases m) auto

section \<open>What a step leaves as it was\<close>

definition leaves :: "('w \<Rightarrow> 'v) \<Rightarrow> ('w, 'e, 'a) script \<Rightarrow> bool" where
  "leaves v m \<longleftrightarrow> (\<forall>w. v (snd (m w)) = v w)"

named_theorems leaves_rules \<open>which steps leave a view of the state as it was\<close>

lemma leaves_basic [leaves_rules]:
  "leaves v (yield x)" "leaves v1 (fail e)" "leaves v2 (looking g)" "leaves v3 (need e' m)"
  by (auto simp: leaves_def need_def split: option.splits)

lemma leaves_change [leaves_rules]: "(\<And>w. v (f w) = v w) \<Longrightarrow> leaves v (change f)"
  by (simp add: leaves_def)

lemma leaves_step [leaves_rules]: "leaves v m \<Longrightarrow> (\<And>x. leaves v (f x)) \<Longrightarrow> leaves v (step m f)"
  by (auto simp: leaves_def step_def split: prod.splits sum.splits) (metis snd_conv)+

lemma leaves_next_to [leaves_rules]: "leaves v m \<Longrightarrow> leaves v n \<Longrightarrow> leaves v (next_to m n)"
  unfolding next_to_def by (intro leaves_step) simp_all

lemma leaves_try_act [leaves_rules]: "leaves v m \<Longrightarrow> (\<And>e. leaves v (h e)) \<Longrightarrow> leaves v (try_act m h)"
  by (auto simp: leaves_def try_act_def split: prod.splits sum.splits) (metis snd_conv)+

lemma leaves_for_each [leaves_rules]: "(\<And>x. leaves v (f x)) \<Longrightarrow> leaves v (for_each f xs)"
  by (induction xs) (auto intro: leaves_rules)

lemma leaves_if [leaves_rules]: "leaves v m \<Longrightarrow> leaves v n \<Longrightarrow> leaves v (if b then m else n)"
  by simp

lemma leavesD: "leaves v m \<Longrightarrow> m w = (r, w') \<Longrightarrow> v w' = v w"
  unfolding leaves_def by (metis snd_conv)

section \<open>How a step fails\<close>

definition fails_with :: "('e \<Rightarrow> bool) \<Rightarrow> ('w, 'e, 'a) script \<Rightarrow> bool" where
  "fails_with Q m \<longleftrightarrow> (\<forall>w e w'. m w = (Inl e, w') \<longrightarrow> Q e)"

named_theorems fails_rules \<open>which failures a step can end with\<close>

lemma fails_basic [fails_rules]:
  "fails_with Q (yield x)" "fails_with Q1 (looking g)" "fails_with Q2 (change h)" "Q3 e \<Longrightarrow> fails_with Q3 (fail e)"
  "Q4 e' \<Longrightarrow> fails_with Q4 (need e' m)"
  by (auto simp: fails_with_def need_def split: option.splits)

lemma fails_step [fails_rules]: "fails_with Q m \<Longrightarrow> (\<And>x. fails_with Q (f x)) \<Longrightarrow> fails_with Q (step m f)"
  by (auto simp: fails_with_def step_def split: prod.splits sum.splits)

lemma fails_next_to [fails_rules]: "fails_with Q m \<Longrightarrow> fails_with Q n \<Longrightarrow> fails_with Q (next_to m n)"
  unfolding next_to_def by (intro fails_step) simp_all

lemma fails_if [fails_rules]: "fails_with Q m \<Longrightarrow> fails_with Q n \<Longrightarrow> fails_with Q (if b then m else n)"
  by simp

lemma fails_try_act: "(\<And>e. fails_with Q (h e)) \<Longrightarrow> fails_with Q (try_act m h)"
  by (auto simp: fails_with_def try_act_def split: prod.splits sum.splits)

end
