(* ===== verification/Version.thy ===== *)
theory Version
  imports Script "HOL-Library.List_Lexorder" "HOL-Library.Char_ord"
begin

text \<open>
  scripts-tools/version_manager.py: versions (printing, parsing, comparison), and the version manager on
  its file. The answers of git, the clock, the arguments and the texts of the interpreter's exceptions are
  parameters; the file is the JSON value it holds, and writing it succeeds or leaves it as it was.
\<close>

section \<open>Versions\<close>

record version =
  v_major :: int
  v_minor :: int
  v_patch :: int
  v_pre_release :: "string option"
  v_pre_release_number :: "int option"
  v_build_metadata :: "string option"

text \<open>A text that is neither None nor empty.\<close>

definition given :: "string option \<Rightarrow> bool" where
  "given s \<longleftrightarrow> s \<noteq> None \<and> s \<noteq> Some []"

definition base_version :: "version \<Rightarrow> string" where
  "base_version v = show_int (v_major v) @ ''.'' @ show_int (v_minor v) @ ''.'' @ show_int (v_patch v)"

definition version_str :: "version \<Rightarrow> string" where
  "version_str v =
     base_version v
     @ (if given (v_pre_release v)
        then ''-'' @ the (v_pre_release v)
             @ (case v_pre_release_number v of None \<Rightarrow> [] | Some n \<Rightarrow> ''.'' @ show_int n)
        else [])
     @ (if given (v_build_metadata v) then ''+'' @ the (v_build_metadata v) else [])"

section \<open>Parsing\<close>

text \<open>
  The regular expression
  \<open>^(\d+)\.(\d+)\.(\d+)(?:-([a-zA-Z]+)(?:\.(\d+))?)?(?:\+(.+))?$\<close> from left to right: every part is followed
  by a character it does not contain, so that there is one way to match. A dollar also matches before a
  final newline. Digits beyond ASCII are not modelled.
\<close>

definition is_letter :: "char \<Rightarrow> bool" where
  "is_letter c \<longleftrightarrow> is_lower c \<or> is_upper c"

definition digits1 :: "string \<Rightarrow> (int \<times> string) option" where
  "digits1 s = (let (ds, rest) = span_digits s in if ds = [] then None else Some (digits_val ds, rest))"

fun literal :: "char \<Rightarrow> string \<Rightarrow> string option" where
  "literal c [] = None"
| "literal c (d # s) = (if d = c then Some s else None)"

definition pre_part :: "string \<Rightarrow> string option \<times> int option \<times> string" where
  "pre_part s =
     (case literal CHR ''-'' s of
        None \<Rightarrow> (None, None, s)
      | Some t \<Rightarrow>
          (let name = takeWhile is_letter t; rest = dropWhile is_letter t
           in if name = [] then (None, None, s)
              else case do { u \<leftarrow> literal CHR ''.'' rest; digits1 u } of
                     None \<Rightarrow> (Some name, None, rest)
                   | Some (n, u) \<Rightarrow> (Some name, Some n, u)))"

definition build_part :: "string \<Rightarrow> string option \<times> string" where
  "build_part s =
     (case literal CHR ''+'' s of
        None \<Rightarrow> (None, s)
      | Some t \<Rightarrow>
          (let line = takeWhile (\<lambda>c. c \<noteq> CHR 10) t
           in if line = [] then (None, s) else (Some line, drop (length line) t)))"

definition read_suffix :: "string \<Rightarrow> (string option \<times> int option \<times> string option) option" where
  "read_suffix s =
     (let (pre, num, rest) = pre_part s; (build, end') = build_part rest
      in if end' = [] \<or> end' = newline then Some (pre, num, build) else None)"

text \<open>None is the ValueError.\<close>

definition version_parse :: "string \<Rightarrow> version option" where
  "version_parse s =
     do { (major, s) \<leftarrow> digits1 s; s \<leftarrow> literal CHR ''.'' s;
          (minor, s) \<leftarrow> digits1 s; s \<leftarrow> literal CHR ''.'' s;
          (patch, s) \<leftarrow> digits1 s; (pre, num, build) \<leftarrow> read_suffix s;
          Some \<lparr>v_major = major, v_minor = minor, v_patch = patch, v_pre_release = pre,
            v_pre_release_number = num, v_build_metadata = build\<rparr> }"

section \<open>Comparison\<close>

definition pre_release_order :: "string \<Rightarrow> int" where
  "pre_release_order s = (if s = ''alpha'' then 1 else if s = ''beta'' then 2 else if s = ''rc'' then 3 else 0)"

definition number_or_0 :: "int option \<Rightarrow> int" where
  "number_or_0 n = (case n of None \<Rightarrow> 0 | Some k \<Rightarrow> k)"

fun compare_pairs :: "(int \<times> int) list \<Rightarrow> int option" where
  "compare_pairs [] = None"
| "compare_pairs ((x, y) # r) = (if x < y then Some (- 1) else if x > y then Some 1 else compare_pairs r)"

definition compare_pre :: "version \<Rightarrow> version \<Rightarrow> int" where
  "compare_pre a b =
     (case (v_pre_release a, v_pre_release b) of
        (None, None) \<Rightarrow> 0
      | (None, Some q) \<Rightarrow> 1
      | (Some p, None) \<Rightarrow> - 1
      | (Some p, Some q) \<Rightarrow>
          (let x = pre_release_order p; y = pre_release_order q
           in if x \<noteq> y then (if x < y then - 1 else 1)
              else (let m = number_or_0 (v_pre_release_number a); n = number_or_0 (v_pre_release_number b)
                    in if m < n then - 1 else if m > n then 1 else 0)))"

definition version_compare :: "version \<Rightarrow> version \<Rightarrow> int" where
  "version_compare a b =
     (case compare_pairs [(v_major a, v_major b), (v_minor a, v_minor b), (v_patch a, v_patch b)] of
        Some r \<Rightarrow> r | None \<Rightarrow> compare_pre a b)"

section \<open>Bumping\<close>

definition bump_from :: "version \<Rightarrow> string \<Rightarrow> string option \<Rightarrow> string option \<Rightarrow> version option" where
  "bump_from current bump_type pre build =
     (let first = (if given pre then Some 1 else None)
      in if bump_type = ''major''
         then Some \<lparr>v_major = v_major current + 1, v_minor = 0, v_patch = 0, v_pre_release = pre,
                v_pre_release_number = first, v_build_metadata = build\<rparr>
         else if bump_type = ''minor''
         then Some \<lparr>v_major = v_major current, v_minor = v_minor current + 1, v_patch = 0, v_pre_release = pre,
                v_pre_release_number = first, v_build_metadata = build\<rparr>
         else if bump_type = ''patch''
         then Some \<lparr>v_major = v_major current, v_minor = v_minor current, v_patch = v_patch current + 1,
                v_pre_release = pre, v_pre_release_number = first, v_build_metadata = build\<rparr>
         else if bump_type = ''pre-release''
         then Some \<lparr>v_major = v_major current, v_minor = v_minor current, v_patch = v_patch current,
                v_pre_release = (if given pre then pre else v_pre_release current),
                v_pre_release_number = Some (if v_pre_release current = pre
                  then number_or_0 (v_pre_release_number current) + 1 else 1),
                v_build_metadata = build\<rparr>
         else None)"

end
