(* ===== verification/Version_Manager.thy ===== *)
theory Version_Manager
  imports Version
begin

text \<open>The version manager: its file, git, and the actions of the command line.\<close>

section \<open>The outside\<close>

text \<open>A run of git: exit code and output, no such program, or another exception with its text.\<close>

datatype git_result = Ran int string | NoGit | GitFailed string

datatype stored = Missing | Broken string | Holds json

record version_env =
  ve_git :: "string list \<Rightarrow> git_result"
  ve_stamp :: string
  ve_today :: string
  ve_path :: string
  ve_write_error :: "string option"
  ve_exception :: string

datatype vfailure = Refused string | Raised string | ExitCode int

fun vfailure_text :: "vfailure \<Rightarrow> string" where
  "vfailure_text (Refused s) = s"
| "vfailure_text (Raised s) = s"
| "vfailure_text (ExitCode n) = []"

record vworld =
  vw_file :: stored
  vw_out :: "string list"

type_synonym 'a vact = "(vworld, vfailure, 'a) script"

definition vsay :: "string \<Rightarrow> unit vact" where
  "vsay s = change (\<lambda>w. w\<lparr>vw_out := vw_out w @ [s]\<rparr>)"

definition tick_mark :: string where
  "tick_mark = [CHR 0xE2, CHR 0x9C, CHR 0x85, CHR '' '']"

definition cross :: string where
  "cross = [CHR 0xE2, CHR 0x9D, CHR 0x8C, CHR '' '']"

definition warn :: string where
  "warn = [CHR 0xE2, CHR 0x9A, CHR 0xA0, CHR 0xEF, CHR 0xB8, CHR 0x8F, CHR '' '', CHR '' '']"

section \<open>The file\<close>

definition default_data :: "version_env \<Rightarrow> json" where
  "default_data E = JObj
     [(''version'', JStr ''0.1.0''), (''name'', JStr ''FuzeInfra Platform''),
      (''description'', JStr ''Generic shared infrastructure platform for microservices development''),
      (''build'', JObj [(''number'', JInt 1), (''date'', JStr (ve_stamp E @ ''Z'')), (''commit'', JStr []),
         (''branch'', JStr ''main'')]),
      (''components'', JObj [(''backend'', JStr ''0.1.0''), (''frontend'', JStr ''0.1.0''),
         (''infrastructure'', JStr ''0.1.0''), (''monitoring'', JStr ''0.1.0''), (''database'', JStr ''0.1.0'')]),
      (''metadata'', JObj [(''release_date'', JStr (ve_today E)),
         (''compatibility'', JObj [(''python'', JStr ''>=3.9''), (''node'', JStr ''>=16.0.0''), (''docker'', JStr ''>=20.0.0'')]),
         (''database_schema_version'', JStr ''0.1.0''), (''api_version'', JStr ''v1'')])]"

definition save_version_data :: "version_env \<Rightarrow> json \<Rightarrow> unit vact" where
  "save_version_data E data =
     (case ve_write_error E of
        None \<Rightarrow> next_to (change (\<lambda>w. w\<lparr>vw_file := Holds data\<rparr>)) (vsay (tick_mark @ ''Version file updated: '' @ ve_path E))
      | Some e \<Rightarrow> next_to (vsay (cross @ ''Error saving version file: '' @ e)) (fail (ExitCode 1)))"

definition load_version_data :: "version_env \<Rightarrow> json vact" where
  "load_version_data E =
     step (looking vw_file) (\<lambda>f. case f of
       Missing \<Rightarrow> next_to (save_version_data E (default_data E)) (yield (default_data E))
     | Broken e \<Rightarrow> next_to (vsay (cross @ ''Error loading version file: '' @ e)) (fail (ExitCode 1))
     | Holds data \<Rightarrow> yield data)"

text \<open>An expression that fails with an exception of the interpreter.\<close>

definition pure :: "version_env \<Rightarrow> 'a option \<Rightarrow> 'a vact" where
  "pure E m = need (Raised (ve_exception E)) m"

definition parse_or_refuse :: "string \<Rightarrow> version vact" where
  "parse_or_refuse s = need (Refused (''Invalid version string: '' @ s)) (version_parse s)"

definition get_current_version :: "version_env \<Rightarrow> json \<Rightarrow> version vact" where
  "get_current_version E data =
     step (pure E (do { v \<leftarrow> jidx data ''version''; as_text v })) parse_or_refuse"

section \<open>Git\<close>

record git_info =
  gi_commit :: string
  gi_branch :: string
  gi_dirty :: bool

fun read_git :: "version_env \<Rightarrow> (string list \<times> (string \<Rightarrow> git_info \<Rightarrow> git_info)) list \<Rightarrow> git_info \<Rightarrow> git_info vact" where
  "read_git E [] info = yield info"
| "read_git E ((argv, store) # rest) info =
     (case ve_git E argv of
        Ran code out \<Rightarrow> read_git E rest (if code = 0 then store (str_strip out) info else info)
      | NoGit \<Rightarrow> next_to (vsay (warn @ ''Git not found - Git integration disabled'')) (yield info)
      | GitFailed e \<Rightarrow> next_to (vsay (warn @ ''Git error: '' @ e)) (yield info))"

definition get_git_info :: "version_env \<Rightarrow> git_info vact" where
  "get_git_info E =
     read_git E
       [([''git'', ''rev-parse'', ''--abbrev-ref'', ''HEAD''], \<lambda>out info. info\<lparr>gi_branch := out\<rparr>),
        ([''git'', ''rev-parse'', ''--short'', ''HEAD''], \<lambda>out info. info\<lparr>gi_commit := out\<rparr>),
        ([''git'', ''status'', ''--porcelain''], \<lambda>out info. info\<lparr>gi_dirty := out \<noteq> []\<rparr>)]
       \<lparr>gi_commit = [], gi_branch = ''main'', gi_dirty = False\<rparr>"

section \<open>Updating\<close>

definition bump_version :: "version_env \<Rightarrow> json \<Rightarrow> string \<Rightarrow> string option \<Rightarrow> string option \<Rightarrow> version vact" where
  "bump_version E data bump_type pre build =
     step (get_current_version E data) (\<lambda>current.
       need (Refused (''Invalid bump type: '' @ bump_type)) (bump_from current bump_type pre build))"

definition entries :: "json \<Rightarrow> jobj option" where
  "entries j = (case j of JObj kvs \<Rightarrow> Some kvs | _ \<Rightarrow> None)"

text \<open>\<open>x + 1\<close>.\<close>

fun plus_one :: "json \<Rightarrow> json option" where
  "plus_one (JInt n) = Some (JInt (n + 1))"
| "plus_one (JBool b) = Some (JInt (if b then 2 else 1))"
| "plus_one (JFloat (Fin q)) = Some (JFloat (Fin (q + 1)))"
| "plus_one (JFloat f) = Some (JFloat f)"
| "plus_one _ = None"

text \<open>A change of the dict under a key.\<close>

definition within_key :: "string \<Rightarrow> (jobj \<Rightarrow> jobj option) \<Rightarrow> jobj \<Rightarrow> jobj option" where
  "within_key k f m = do { v \<leftarrow> map_of m k; d \<leftarrow> entries v; d \<leftarrow> f d; Some (dict_set k (JObj d) m) }"

definition COMPONENTS :: "string list" where
  "COMPONENTS = [''backend'', ''frontend'', ''infrastructure'', ''monitoring'', ''database'']"

definition new_build :: "version_env \<Rightarrow> git_info \<Rightarrow> jobj \<Rightarrow> jobj option" where
  "new_build E info b =
     do { n \<leftarrow> map_of b ''number''; n \<leftarrow> plus_one n;
          Some (dict_set ''branch'' (JStr (gi_branch info)) (dict_set ''commit'' (JStr (gi_commit info))
            (dict_set ''date'' (JStr (ve_stamp E @ ''Z'')) (dict_set ''number'' n b)))) }"

definition updated_data :: "version_env \<Rightarrow> git_info \<Rightarrow> json \<Rightarrow> version \<Rightarrow> bool \<Rightarrow> json option" where
  "updated_data E info data new update_components =
     do { m \<leftarrow> entries data;
          m \<leftarrow> within_key ''build'' (new_build E info) (dict_set ''version'' (JStr (version_str new)) m);
          m \<leftarrow> within_key ''metadata'' (\<lambda>d. Some (dict_set ''release_date'' (JStr (ve_today E)) d)) m;
          m \<leftarrow> (if update_components
                then within_key ''components''
                       (\<lambda>d. Some (fold (\<lambda>c. dict_set c (JStr (base_version new))) COMPONENTS d)) m
                else Some m);
          Some (JObj m) }"

definition update_version :: "version_env \<Rightarrow> json \<Rightarrow> version \<Rightarrow> bool \<Rightarrow> unit vact" where
  "update_version E data new update_components =
     step (get_git_info E) (\<lambda>info.
     step (pure E (updated_data E info data new update_components)) (\<lambda>data.
     next_to (save_version_data E data)
       (next_to (vsay ([CHR 0xF0, CHR 0x9F, CHR 0x8E, CHR 0xAF] @ '' Version updated: '' @ version_str new))
         (if gi_dirty info then vsay (warn @ ''Working directory has uncommitted changes'') else yield ()))))"

section \<open>Tags\<close>

text \<open>The text of \<open>CalledProcessError\<close>.\<close>

definition called_error :: "string list \<Rightarrow> int \<Rightarrow> string" where
  "called_error argv code =
     ''Command '' @ [CHR 39] @ json_repr (JList (map JStr argv)) @ [CHR 39] @ '' returned non-zero exit status ''
     @ show_int code @ ''.''"

text \<open>\<open>subprocess.run(argv, check=True)\<close> and what follows; the two exceptions that are caught end with False.\<close>

definition git_checked :: "version_env \<Rightarrow> string list \<Rightarrow> bool vact \<Rightarrow> bool vact" where
  "git_checked E argv rest =
     (case ve_git E argv of
        Ran code out \<Rightarrow>
          (if code = 0 then rest
           else next_to (vsay (cross @ ''Git tag creation failed: '' @ called_error argv code)) (yield False))
      | NoGit \<Rightarrow> next_to (vsay (cross @ ''Git not found - cannot create tag'')) (yield False)
      | GitFailed e \<Rightarrow> fail (Raised e))"

definition create_git_tag :: "version_env \<Rightarrow> json \<Rightarrow> bool \<Rightarrow> bool vact" where
  "create_git_tag E data push =
     step (get_current_version E data) (\<lambda>v.
       let tag_name = ''v'' @ version_str v
       in step (pure E (jidx data ''description'')) (\<lambda>description.
          git_checked E [''git'', ''tag'', ''-a'', tag_name, ''-m'', ''Release '' @ tag_name @ '' - '' @ py_str description]
            (next_to (vsay (tick_mark @ ''Git tag created: '' @ tag_name))
              (if push
               then git_checked E [''git'', ''push'', ''origin'', tag_name]
                      (next_to (vsay (tick_mark @ ''Git tag pushed: '' @ tag_name)) (yield True))
               else yield True))))"

text \<open>The tags that begin with v; \<open>list_git_tags\<close> is empty after any failure.\<close>

definition list_git_tags :: "version_env \<Rightarrow> string list" where
  "list_git_tags E =
     (case ve_git E [''git'', ''tag'', ''-l'', ''v*''] of
        Ran code out \<Rightarrow>
          (if code = 0 then filter (prefix ''v'') (split_on (\<lambda>c. c = CHR 10) (str_strip out)) else [])
      | _ \<Rightarrow> [])"

section \<open>Validation\<close>

fun validate_components :: "version_env \<Rightarrow> jobj \<Rightarrow> bool vact" where
  "validate_components E [] = yield True"
| "validate_components E ((component, v) # rest) =
     step (pure E (as_text v)) (\<lambda>s.
       case version_parse s of
         Some version \<Rightarrow>
           next_to (vsay (''  '' @ tick_mark @ component @ '': '' @ version_str version)) (validate_components E rest)
       | None \<Rightarrow>
           next_to (vsay (''  '' @ cross @ component @ '': Invalid version string: '' @ s)) (yield False))"

text \<open>\<open>if 'api_version' in metadata\<close> and \<open>metadata['api_version']\<close>: a text or a list can hold the key as a
  part or an element, but not be indexed with it.\<close>

definition api_version_line :: "version_env \<Rightarrow> json \<Rightarrow> unit vact" where
  "api_version_line E metadata =
     (case metadata of
        JObj kvs \<Rightarrow>
          (case map_of kvs ''api_version'' of
             None \<Rightarrow> yield () | Some v \<Rightarrow> vsay (''  '' @ tick_mark @ ''API version: '' @ py_str v))
      | JStr s \<Rightarrow> if sublist ''api_version'' s then pure E None else yield ()
      | JList xs \<Rightarrow> if List.member xs (JStr ''api_version'') then pure E None else yield ()
      | _ \<Rightarrow> pure E None)"

definition validate_version :: "version_env \<Rightarrow> json \<Rightarrow> bool vact" where
  "validate_version E data =
     try_act
       (step (get_current_version E data) (\<lambda>current.
        next_to (vsay (tick_mark @ ''Version format valid: '' @ version_str current))
       (step (pure E (do { c \<leftarrow> jidx data ''components''; entries c })) (\<lambda>components.
        step (validate_components E components) (\<lambda>ok.
          if \<not> ok then yield False
          else step (pure E (jget_d data ''metadata'' (JObj []))) (\<lambda>metadata.
               next_to (api_version_line E metadata) (yield True)))))))
       (\<lambda>e. next_to (vsay (cross @ ''Version validation failed: '' @ vfailure_text e)) (yield False))"

section \<open>Information\<close>

definition vtext_or_null :: "string option \<Rightarrow> json" where
  "vtext_or_null s = (case s of None \<Rightarrow> JNull | Some t \<Rightarrow> JStr t)"

definition number_or_null :: "int option \<Rightarrow> json" where
  "number_or_null n = (case n of None \<Rightarrow> JNull | Some k \<Rightarrow> JInt k)"

definition get_version_info :: "version_env \<Rightarrow> json \<Rightarrow> json vact" where
  "get_version_info E data =
     step (get_current_version E data) (\<lambda>v.
     step (get_git_info E) (\<lambda>git.
     pure E (do { build \<leftarrow> jidx data ''build''; components \<leftarrow> jidx data ''components'';
                  metadata \<leftarrow> jidx data ''metadata'';
       Some (JObj
         [(''version'', JStr (version_str v)),
          (''parsed'', JObj [(''major'', JInt (v_major v)), (''minor'', JInt (v_minor v)), (''patch'', JInt (v_patch v)),
             (''pre_release'', vtext_or_null (v_pre_release v)),
             (''pre_release_number'', number_or_null (v_pre_release_number v)),
             (''build_metadata'', vtext_or_null (v_build_metadata v))]),
          (''build'', build),
          (''git'', JObj [(''commit'', JStr (gi_commit git)), (''branch'', JStr (gi_branch git)),
             (''dirty'', JBool (gi_dirty git))]),
          (''components'', components), (''metadata'', metadata)]) })))"

definition say_of :: "version_env \<Rightarrow> string option \<Rightarrow> unit vact" where
  "say_of E line = step (pure E line) vsay"

text \<open>Two members of a member.\<close>

definition idx2 :: "json \<Rightarrow> string \<Rightarrow> string \<Rightarrow> json option" where
  "idx2 j a b = do { x \<leftarrow> jidx j a; jidx x b }"

definition print_info :: "version_env \<Rightarrow> json \<Rightarrow> json \<Rightarrow> unit vact" where
  "print_info E data info =
     step (get_current_version E data) (\<lambda>current.
     next_to (say_of E (do { name \<leftarrow> jidx data ''name''; Some ([CHR 0xF0, CHR 0x9F, CHR 0x93, CHR 0xA6, CHR '' ''] @ py_str name) }))
    (next_to (vsay ([CHR 0xF0, CHR 0x9F, CHR 0x8F, CHR 0xB7, CHR 0xEF, CHR 0xB8, CHR 0x8F] @ ''  Version: '' @ version_str current))
    (next_to (say_of E (do { number \<leftarrow> idx2 info ''build'' ''number''; date \<leftarrow> idx2 info ''build'' ''date'';
                Some ([CHR 0xF0, CHR 0x9F, CHR 0x94, CHR 0xA8] @ '' Build: #'' @ py_str number @ '' ('' @ py_str date @ '')'') }))
    (next_to (say_of E (do { commit \<leftarrow> idx2 info ''git'' ''commit''; branch \<leftarrow> idx2 info ''git'' ''branch'';
                Some ([CHR 0xF0, CHR 0x9F, CHR 0x8C, CHR 0xBF] @ '' Git: '' @ py_str commit @ '' ('' @ py_str branch @ '')'') }))
    (next_to (vsay ([CHR 0xF0, CHR 0x9F, CHR 0xA7, CHR 0xA9] @ '' Components:''))
       (step (pure E (do { c \<leftarrow> jidx info ''components''; entries c }))
         (for_each (\<lambda>(comp, ver). vsay (''   '' @ [CHR 0xE2, CHR 0x80, CHR 0xA2] @ '' '' @ comp @ '': '' @ py_str ver)))))))))"

definition changelog_entry :: "version_env \<Rightarrow> version \<Rightarrow> string list \<Rightarrow> string vact" where
  "changelog_entry E v changes =
     step (get_git_info E) (\<lambda>git. yield
       (''## ['' @ version_str v @ ''] - '' @ ve_today E @ newline @ newline
        @ (if gi_commit git \<noteq> []
           then ''**Build:** '' @ gi_commit git @ '' ('' @ gi_branch git @ '')'' @ newline @ newline else [])
        @ ''### Changes'' @ newline
        @ (if changes \<noteq> [] then concat (map (\<lambda>c. ''- '' @ c @ newline) changes) @ newline
           else ''- Version bump'' @ newline @ newline)))"

section \<open>The program\<close>

record version_args =
  va_action :: string
  va_bump_type :: "string option"
  va_pre_release :: "string option"
  va_build_metadata :: "string option"
  va_push :: bool
  va_json :: bool

definition exit_unless :: "bool \<Rightarrow> unit vact" where
  "exit_unless ok = fail (ExitCode (if ok then 0 else 1))"

definition run_action :: "version_env \<Rightarrow> version_args \<Rightarrow> json \<Rightarrow> unit vact" where
  "run_action E a data =
     (if va_action a = ''current''
      then step (get_current_version E data) (\<lambda>v. vsay (''Current version: '' @ version_str v))
      else if va_action a = ''bump''
      then (case va_bump_type a of
              None \<Rightarrow> next_to (vsay (cross @ ''Error: bump requires bump_type (major, minor, patch, pre-release)''))
                        (fail (ExitCode 1))
            | Some t \<Rightarrow> step (bump_version E data t (va_pre_release a) (va_build_metadata a)) (\<lambda>new.
                        update_version E data new True))
      else if va_action a = ''tag'' then step (create_git_tag E data (va_push a)) exit_unless
      else if va_action a = ''info''
      then step (get_version_info E data) (\<lambda>info.
             if va_json a then vsay (dumps_indent 0 info) else print_info E data info)
      else if va_action a = ''validate'' then step (validate_version E data) exit_unless
      else if va_action a = ''changelog''
      then step (get_current_version E data) (\<lambda>v. step (changelog_entry E v []) vsay)
      else if va_action a = ''list-tags''
      then (let tags = list_git_tags E
            in if tags \<noteq> []
               then next_to (vsay ([CHR 0xF0, CHR 0x9F, CHR 0x93, CHR 0x8B] @ '' Git version tags:''))
                      (for_each (\<lambda>tag. vsay (''  '' @ tag)) (rev (sort tags)))
               else vsay ([CHR 0xF0, CHR 0x9F, CHR 0x93, CHR 0x9D] @ '' No version tags found''))
      else yield ())"

definition catch_all :: "unit vact \<Rightarrow> unit vact" where
  "catch_all m =
     try_act m (\<lambda>e. case e of
       ExitCode n \<Rightarrow> fail (ExitCode n)
     | _ \<Rightarrow> next_to (vsay (cross @ ''Error: '' @ vfailure_text e)) (fail (ExitCode 1)))"

text \<open>The exit code; only the constructor, outside the \<open>try\<close>, may end with one of its own.\<close>

definition vexit_code :: "vfailure + unit \<Rightarrow> int" where
  "vexit_code r = (case r of Inr _ \<Rightarrow> 0 | Inl (ExitCode n) \<Rightarrow> n | Inl _ \<Rightarrow> 1)"

definition version_main :: "version_env \<Rightarrow> version_args \<Rightarrow> vworld \<Rightarrow> int \<times> vworld" where
  "version_main E a w =
     (case step (load_version_data E) (\<lambda>data. catch_all (run_action E a data)) w of (r, w') \<Rightarrow> (vexit_code r, w'))"

end
