(* ===== verification/Version_Properties.thy ===== *)
theory Version_Properties
  imports Version_Manager "HOL-Library.Product_Lexorder"
begin

text \<open>
  Versions are read back as they were printed, the comparison is the lexicographic order of a key, a bump
  is newer except in the listed cases, and what a run of the version manager does to its file.
\<close>

section \<open>Printing and parsing\<close>

definition valid_version :: "version \<Rightarrow> bool" where
  "valid_version v \<longleftrightarrow>
     0 \<le> v_major v \<and> 0 \<le> v_minor v \<and> 0 \<le> v_patch v
     \<and> (case v_pre_release v of
          None \<Rightarrow> v_pre_release_number v = None
        | Some p \<Rightarrow> p \<noteq> [] \<and> list_all is_letter p \<and> (\<forall>n. v_pre_release_number v = Some n \<longrightarrow> 0 \<le> n))
     \<and> (\<forall>b. v_build_metadata v = Some b \<longrightarrow> b \<noteq> [] \<and> CHR 10 \<notin> set b)"

definition no_digit :: "string \<Rightarrow> bool" where
  "no_digit rest \<longleftrightarrow> rest = [] \<or> \<not> is_digit (hd rest)"

lemma digits1_show:
  assumes "0 \<le> n" and "no_digit rest" shows "digits1 (show_int n @ rest) = Some (n, rest)"
proof -
  have "span_digits (show_nat n @ rest) = (show_nat n, rest)"
    using assms show_nat_digits [OF assms(1)] by (intro span_digits_append) (auto simp: no_digit_def)
  then show ?thesis using assms(1) by (simp add: digits1_def show_int_def)
qed

lemma digits_val_nonneg: "list_all is_digit ds \<Longrightarrow> 0 \<le> digits_val ds"
proof (induction ds rule: rev_induct)
  case (snoc c ds)
  then show ?case by (simp add: digit_val_def is_digit_def)
qed simp

lemma digits1_nonneg: "digits1 s = Some (n, rest) \<Longrightarrow> 0 \<le> n"
  by (auto simp: digits1_def span_digits_def list_all_iff Let_def dest: set_takeWhileD intro!: digits_val_nonneg
      split: if_splits)

lemma no_digit_simps [simp]: "no_digit []" "no_digit (CHR ''.'' # s)" "no_digit (CHR ''-'' # s)" "no_digit (CHR ''+'' # s)"
  by (simp_all add: no_digit_def is_digit_def)

lemma span_letters:
  assumes "list_all is_letter p" and "rest = [] \<or> \<not> is_letter (hd rest)"
  shows "takeWhile is_letter (p @ rest) = p" "dropWhile is_letter (p @ rest) = rest"
  using assms by (cases rest; force simp: list_all_iff takeWhile_append dropWhile_append)+

definition build_text :: "string option \<Rightarrow> string" where
  "build_text b = (if given b then ''+'' @ the b else [])"

lemma build_text_start: "build_text b = [] \<or> hd (build_text b) = CHR ''+''"
  by (simp add: build_text_def)

lemma build_part_text:
  assumes "\<forall>x. b = Some x \<longrightarrow> x \<noteq> [] \<and> CHR 10 \<notin> set x" shows "build_part (build_text b) = (b, [])"
proof (cases b)
  case None
  then show ?thesis by (simp add: build_part_def build_text_def given_def)
next
  case (Some x)
  with assms have x: "x \<noteq> []" "CHR 10 \<notin> set x" by simp_all
  then have line: "takeWhile (\<lambda>c. c \<noteq> CHR 10) x = x" by (auto simp: takeWhile_eq_all_conv)
  then show ?thesis using Some x(1) by (simp add: build_part_def build_text_def given_def Let_def line)
qed

lemma pre_part_text:
  assumes "valid_version v"
  shows "pre_part ((if given (v_pre_release v)
        then ''-'' @ the (v_pre_release v)
             @ (case v_pre_release_number v of None \<Rightarrow> [] | Some n \<Rightarrow> ''.'' @ show_int n)
        else []) @ build_text b) = (v_pre_release v, v_pre_release_number v, build_text b)"
proof (cases "v_pre_release v")
  case None
  with assms have "v_pre_release_number v = None" by (simp add: valid_version_def)
  then show ?thesis using None build_text_start [of b]
    by (cases "build_text b") (auto simp: pre_part_def given_def)
next
  case (Some p)
  with assms have p: "p \<noteq> []" "list_all is_letter p" by (simp_all add: valid_version_def)
  have b: "no_digit (build_text b)" "build_text b = [] \<or> \<not> is_letter (hd (build_text b))"
    using build_text_start [of b] by (auto simp: no_digit_def is_digit_def is_letter_def is_lower_def is_upper_def)
  have dot: "\<not> is_letter CHR ''.''" by (simp add: is_letter_def is_lower_def is_upper_def)
  show ?thesis
  proof (cases "v_pre_release_number v")
    case None
    have "literal CHR ''.'' (build_text b) = None" using build_text_start [of b] by (cases "build_text b") auto
    then show ?thesis using Some None p span_letters [OF p(2) b(2)] by (simp add: pre_part_def given_def)
  next
    case (Some n)
    with assms \<open>v_pre_release v = Some p\<close> have "0 \<le> n" by (simp add: valid_version_def)
    from digits1_show [OF this b(1)] show ?thesis
      using Some \<open>v_pre_release v = Some p\<close> p dot span_letters [OF p(2), of "CHR ''.'' # show_int n @ build_text b"]
      by (simp add: pre_part_def given_def)
  qed
qed

lemma no_digit_build: "no_digit (build_text b)"
  using build_text_start [of b] by (auto simp: no_digit_def is_digit_def)

lemma parse_printed:
  assumes "valid_version v" shows "version_parse (version_str v) = Some v"
proof -
  have b: "build_part (build_text (v_build_metadata v)) = (v_build_metadata v, [])"
    using assms by (intro build_part_text) (simp add: valid_version_def)
  have n: "0 \<le> v_major v" "0 \<le> v_minor v" "0 \<le> v_patch v" using assms by (simp_all add: valid_version_def)
  define rest where "rest = (if given (v_pre_release v)
        then ''-'' @ the (v_pre_release v)
             @ (case v_pre_release_number v of None \<Rightarrow> [] | Some n \<Rightarrow> ''.'' @ show_int n)
        else []) @ build_text (v_build_metadata v)"
  have "no_digit rest" unfolding rest_def by (simp add: no_digit_build)
  moreover have "pre_part rest = (v_pre_release v, v_pre_release_number v, build_text (v_build_metadata v))"
    unfolding rest_def by (rule pre_part_text [OF assms])
  moreover have "version_str v = show_int (v_major v) @ CHR ''.'' # show_int (v_minor v) @ CHR ''.'' # show_int (v_patch v) @ rest"
    by (simp add: version_str_def base_version_def rest_def build_text_def)
  ultimately show ?thesis using n b by (simp add: version_parse_def digits1_show read_suffix_def)
qed

lemma pre_part_valid:
  assumes "pre_part s = (pre, num, rest)"
  shows "case pre of None \<Rightarrow> num = None | Some p \<Rightarrow> p \<noteq> [] \<and> list_all is_letter p \<and> (\<forall>n. num = Some n \<longrightarrow> 0 \<le> n)"
  using assms
  by (auto simp: pre_part_def Let_def list_all_iff split: option.splits if_splits dest: set_takeWhileD digits1_nonneg)

lemma build_part_valid:
  assumes "build_part s = (b, rest)" shows "\<forall>x. b = Some x \<longrightarrow> x \<noteq> [] \<and> CHR 10 \<notin> set x"
  using assms by (auto simp: build_part_def Let_def split: option.splits if_splits dest: set_takeWhileD)

lemma read_suffix_parts:
  assumes "read_suffix s = Some (pre, num, build)"
  obtains rest end' where "pre_part s = (pre, num, rest)" "build_part rest = (build, end')"
  using assms by (auto simp: read_suffix_def split: prod.split_asm if_split_asm)

lemma parsed_valid:
  assumes "version_parse s = Some v" shows "valid_version v"
proof -
  from assms have n: "0 \<le> v_major v" "0 \<le> v_minor v" "0 \<le> v_patch v"
    and r: "\<exists>u. read_suffix u = Some (v_pre_release v, v_pre_release_number v, v_build_metadata v)"
    by (auto simp: version_parse_def intro: digits1_nonneg)
  from r obtain rest end' u where "pre_part u = (v_pre_release v, v_pre_release_number v, rest)"
    "build_part rest = (v_build_metadata v, end')" by (auto elim: read_suffix_parts)
  from pre_part_valid [OF this(1)] build_part_valid [OF this(2)] n
  show ?thesis by (simp add: valid_version_def)
qed

text \<open>C37: a version is read back as it was printed exactly when it is well formed, and what is read is well
  formed.\<close>

theorem printed_version_parses: "version_parse (version_str v) = Some v \<longleftrightarrow> valid_version v"
  using parse_printed parsed_valid by blast

section \<open>The order\<close>

definition version_key :: "version \<Rightarrow> int \<times> int \<times> int \<times> int \<times> int" where
  "version_key v =
     (v_major v, v_minor v, v_patch v,
      (case v_pre_release v of None \<Rightarrow> 4 | Some p \<Rightarrow> pre_release_order p),
      (case v_pre_release v of None \<Rightarrow> 0 | Some p \<Rightarrow> number_or_0 (v_pre_release_number v)))"

lemma pre_release_order_less [simp]: "pre_release_order p \<le> 4" "\<not> 4 \<le> pre_release_order p" "pre_release_order p \<noteq> 4"
  by (simp_all add: pre_release_order_def)

text \<open>The comparison of versions is the lexicographic order of their keys (numbers, then the pre-release
  with a release after all of them, then its number), hence a total preorder; build metadata do not count.\<close>

theorem compare_is_lexicographic:
  "version_compare a b =
     (if version_key a < version_key b then - 1 else if version_key b < version_key a then 1 else 0)"
  by (auto simp: version_compare_def compare_pre_def version_key_def Let_def less_le_not_le split: option.splits)

section \<open>Bumping\<close>

text \<open>The cases in which a pre-release bump is newer: the same pre-release again, a later one, or one without
  a number that gets its first.\<close>

definition newer_pre_release :: "version \<Rightarrow> string option \<Rightarrow> bool" where
  "newer_pre_release current pre \<longleftrightarrow>
     (case v_pre_release current of
        None \<Rightarrow> False
      | Some q \<Rightarrow>
          (case pre of
             None \<Rightarrow> number_or_0 (v_pre_release_number current) < 1
           | Some p \<Rightarrow> p = q \<or> pre_release_order q < pre_release_order p))"

definition pre_release_choices :: "string option set" where
  "pre_release_choices = {None, Some ''alpha'', Some ''beta'', Some ''rc''}"

lemma order_inj:
  assumes "p \<in> {''alpha'', ''beta'', ''rc''}" shows "pre_release_order q = pre_release_order p \<longleftrightarrow> q = p"
  using assms by (auto simp: pre_release_order_def)

text \<open>A major, minor or patch bump is always newer than the version it started from; a pre-release bump is
  newer exactly when the current version is a pre-release and the new one is the same with the next
  number, a later one, or its first number. From a release it goes back.\<close>

theorem bump_newer:
  assumes "bump_from current bump_type pre build = Some new" and "pre \<in> pre_release_choices"
  shows "version_compare current new = - 1 \<longleftrightarrow> bump_type \<noteq> ''pre-release'' \<or> newer_pre_release current pre"
proof (cases "bump_type = ''pre-release''")
  case True
  show ?thesis
  proof (cases pre)
    case None
    then show ?thesis using assms True
      by (cases "v_pre_release current")
        (auto simp: bump_from_def version_compare_def compare_pre_def newer_pre_release_def given_def number_or_0_def
          Let_def split: if_splits)
  next
    case (Some p)
    with assms(2) have p: "p \<in> {''alpha'', ''beta'', ''rc''}" by (auto simp: pre_release_choices_def)
    then have "p \<noteq> []" by auto
    with Some True assms(1) have new: "v_major new = v_major current" "v_minor new = v_minor current"
        "v_patch new = v_patch current" "v_pre_release new = Some p"
        "v_pre_release_number new = Some (if v_pre_release current = Some p
           then number_or_0 (v_pre_release_number current) + 1 else 1)"
      by (auto simp: bump_from_def given_def)
    show ?thesis
    proof (cases "v_pre_release current")
      case None
      then show ?thesis using new True by (simp add: version_compare_def compare_pre_def newer_pre_release_def)
    next
      case (Some q)
      have "number_or_0 (Some n) = n" for n by (simp add: number_or_0_def)
      with Some \<open>pre = Some p\<close> new True order_inj [OF p, of q] show ?thesis
        by (auto simp: version_compare_def compare_pre_def newer_pre_release_def Let_def)
    qed
  qed
next
  case False
  then show ?thesis using assms(1)
    by (auto simp: bump_from_def version_compare_def Let_def split: if_split_asm)
qed

definition demo_version :: version where
  "demo_version = \<lparr>v_major = 1, v_minor = 2, v_patch = 3, v_pre_release = None, v_pre_release_number = None,
     v_build_metadata = None\<rparr>"

theorem bump_newer_witness:
  "version_compare demo_version (the (bump_from demo_version ''pre-release'' (Some ''rc'') None)) \<noteq> - 1
   \<and> version_compare demo_version (the (bump_from demo_version ''minor'' (Some ''rc'') None)) = - 1"
proof -
  have c: "Some ''rc'' \<in> pre_release_choices" by (simp add: pre_release_choices_def)
  obtain n where n: "bump_from demo_version ''pre-release'' (Some ''rc'') None = Some n" by (simp add: bump_from_def)
  obtain m where m: "bump_from demo_version ''minor'' (Some ''rc'') None = Some m" by (simp add: bump_from_def)
  from bump_newer [OF n c] bump_newer [OF m c] n m show ?thesis
    by (simp add: newer_pre_release_def demo_version_def)
qed

section \<open>Runs\<close>

lemma leaves_say [leaves_rules]: "leaves vw_file (vsay s)"
  unfolding vsay_def by (rule leaves_change) simp

lemma leaves_read_git [leaves_rules]: "leaves vw_file (read_git E steps info)"
  by (induction steps arbitrary: info) (auto simp del: script_simps intro!: leaves_rules split: git_result.splits)

lemma leaves_git_checked [leaves_rules]: "leaves vw_file m \<Longrightarrow> leaves vw_file (git_checked E argv m)"
  by (auto simp del: script_simps simp: git_checked_def intro!: leaves_rules split: git_result.splits)

lemma leaves_parts [leaves_rules]:
  "leaves vw_file (get_git_info E)" "leaves vw_file (pure E m)" "leaves vw_file (get_current_version E data)"
  by (auto simp del: script_simps read_git.simps simp: get_git_info_def pure_def get_current_version_def parse_or_refuse_def intro!: leaves_rules)

lemma leaves_validate [leaves_rules]: "leaves vw_file (validate_components E cs)"
proof (induction cs)
  case (Cons c cs)
  then show ?case by (cases c) (auto simp del: script_simps intro!: leaves_rules split: option.splits)
qed (auto simp del: script_simps intro: leaves_rules)

lemma leaves_reports [leaves_rules]:
  "leaves vw_file (create_git_tag E data push)" "leaves vw_file (validate_version E data)"
  "leaves vw_file (get_version_info E data)" "leaves vw_file (print_info E data info)"
  "leaves vw_file (changelog_entry E v cs)" "leaves vw_file (exit_unless ok)"
  by (auto simp del: script_simps simp: create_git_tag_def validate_version_def api_version_line_def get_version_info_def print_info_def
      say_of_def changelog_entry_def exit_unless_def Let_def intro!: leaves_rules split: json.splits option.splits)



text \<open>What a bump does to the data.\<close>

definition bumped :: "json \<Rightarrow> version \<Rightarrow> json \<Rightarrow> bool" where
  "bumped data new data' \<longleftrightarrow>
     jidx data' ''version'' = Some (JStr (version_str new))
     \<and> idx2 data' ''build'' ''number'' = do { n \<leftarrow> idx2 data ''build'' ''number''; plus_one n }
     \<and> list_all (\<lambda>c. idx2 data' ''components'' c = Some (JStr (base_version new))) COMPONENTS
     \<and> (\<forall>k. k \<in> {''version'', ''build'', ''components'', ''metadata''} \<or> jidx data' k = jidx data k)"

lemma map_of_dict_upd: "map_of (dict_set k v m) = (map_of m)(k \<mapsto> v)"
  by (simp add: dict_set_def update_conv')

lemma entries_Some [simp]: "entries j = Some kvs \<longleftrightarrow> j = JObj kvs"
  by (cases j) (auto simp: entries_def)

lemma within_keyE:
  assumes "within_key k f m = Some m'"
  obtains d d' where "map_of m k = Some (JObj d)" "f d = Some d'" "map_of m' = (map_of m)(k \<mapsto> JObj d')"
  using assms by (auto simp: within_key_def map_of_dict_upd)

lemma map_of_components: "map_of (fold (\<lambda>c. dict_set c v) cs d) c = (if c \<in> set cs then Some v else map_of d c)"
  by (induction cs arbitrary: d) (auto simp: map_of_dict_upd)

lemma new_build_number:
  "new_build E info b = Some b' \<Longrightarrow> map_of b' ''number'' = do { n \<leftarrow> map_of b ''number''; plus_one n }"
  by (auto simp: new_build_def map_of_dict_upd)

lemma updated_data_bumped:
  assumes "updated_data E info data new True = Some data'" shows "bumped data new data'"
proof -
  from assms obtain m m1 m2 m3 where m: "data = JObj m" and data': "data' = JObj m3"
    and b: "within_key ''build'' (new_build E info) (dict_set ''version'' (JStr (version_str new)) m) = Some m1"
    and r: "within_key ''metadata'' (\<lambda>d. Some (dict_set ''release_date'' (JStr (ve_today E)) d)) m1 = Some m2"
    and c: "within_key ''components''
              (\<lambda>d. Some (fold (\<lambda>c. dict_set c (JStr (base_version new))) COMPONENTS d)) m2 = Some m3"
    by (auto simp: updated_data_def)
  from b obtain bd bd' where b: "map_of m ''build'' = Some (JObj bd)" "new_build E info bd = Some bd'"
    "map_of m1 = (map_of m)(''version'' \<mapsto> JStr (version_str new), ''build'' \<mapsto> JObj bd')"
    by (auto elim!: within_keyE simp: map_of_dict_upd)
  from r obtain rd where r: "map_of m2 = (map_of m1)(''metadata'' \<mapsto> JObj rd)" by (auto elim!: within_keyE)
  from c obtain cd where c: "map_of m3 = (map_of m2)(''components'' \<mapsto>
      JObj (fold (\<lambda>c. dict_set c (JStr (base_version new))) COMPONENTS cd))" by (auto elim!: within_keyE)
  show ?thesis
    using b new_build_number [OF b(2)]
    by (auto simp: bumped_def m data' c r idx2_def list_all_iff map_of_components)
qed

lemma save_version_data_Inr:
  "save_version_data E data w = (Inr u, w') \<Longrightarrow> vw_file w' = Holds data"
  "save_version_data E data w = (Inl e, w') \<Longrightarrow> vw_file w' = vw_file w"
  by (auto simp: save_version_data_def vsay_def split: option.splits)

text \<open>A step that fails leaves the file as it was, and one that succeeds leaves it as P says.\<close>

definition saves_file :: "(json \<Rightarrow> bool) \<Rightarrow> 'a vact \<Rightarrow> bool" where
  "saves_file P m \<longleftrightarrow>
     (\<forall>w. case m w of (Inl e, w') \<Rightarrow> vw_file w' = vw_file w | (Inr x, w') \<Rightarrow> \<exists>data. vw_file w' = Holds data \<and> P data)"

lemma saves_step:
  assumes "leaves vw_file m" and "\<And>w x w'. m w = (Inr x, w') \<Longrightarrow> saves_file P (f x)"
  shows "saves_file P (step m f)"
  unfolding saves_file_def
proof
  fix w
  obtain r v where m: "m w = (r, v)" by (cases "m w")
  with leavesD [OF assms(1)] have v: "vw_file v = vw_file w" by blast
  show "case step m f w of (Inl e, w') \<Rightarrow> vw_file w' = vw_file w | (Inr x, w') \<Rightarrow> \<exists>data. vw_file w' = Holds data \<and> P data"
  proof (cases r)
    case (Inl e)
    with m v show ?thesis by (simp add: step_def)
  next
    case (Inr x)
    with m assms(2) have "saves_file P (f x)" by blast
    then have "case f x v of (Inl e, w') \<Rightarrow> vw_file w' = vw_file v | (Inr x, w') \<Rightarrow> \<exists>data. vw_file w' = Holds data \<and> P data"
      unfolding saves_file_def by (rule spec)
    from this [unfolded v] m Inr show ?thesis by (simp add: step_def)
  qed
qed

lemma saves_fail: "saves_file P (fail e)"
  by (simp add: saves_file_def)

lemma saves_update:
  assumes "\<And>info data'. updated_data E info data new True = Some data' \<Longrightarrow> P data'"
  shows "saves_file P (update_version E data new True)"
  unfolding update_version_def
proof (rule saves_step)
  fix info :: git_info
  show "saves_file P (step (pure E (updated_data E info data new True)) (\<lambda>data. next_to (save_version_data E data)
       (next_to (vsay ([CHR 0xF0, CHR 0x9F, CHR 0x8E, CHR 0xAF] @ '' Version updated: '' @ version_str new))
         (if gi_dirty info then vsay (warn @ ''Working directory has uncommitted changes'') else yield ()))))"
  proof (rule saves_step)
    fix w x w' assume "pure E (updated_data E info data new True) w = (Inr x, w')"
    then have "P x" using assms by (auto simp: pure_def need_Inr)
    then show "saves_file P (next_to (save_version_data E x)
       (next_to (vsay ([CHR 0xF0, CHR 0x9F, CHR 0x8E, CHR 0xAF] @ '' Version updated: '' @ version_str new))
         (if gi_dirty info then vsay (warn @ ''Working directory has uncommitted changes'') else yield ())))"
      by (auto simp: saves_file_def next_to_def step_def save_version_data_def vsay_def split: option.splits)
  qed (rule leaves_rules)
qed (rule leaves_rules)

lemma saves_bump:
  assumes "va_action a = ''bump''"
  shows "saves_file (\<lambda>data'. \<exists>s current t new. jidx data ''version'' = Some (JStr s) \<and> version_parse s = Some current
      \<and> va_bump_type a = Some t \<and> bump_from current t (va_pre_release a) (va_build_metadata a) = Some new
      \<and> bumped data new data') (run_action E a data)"
proof (cases "va_bump_type a")
  case None
  then show ?thesis using assms by (simp add: run_action_def saves_file_def vsay_def)
next
  case (Some t)
  show ?thesis
    unfolding run_action_def assms
  proof (simp add: Some del: script_simps, rule saves_step)
    show "leaves vw_file (bump_version E data t (va_pre_release a) (va_build_metadata a))"
      unfolding bump_version_def by (intro leaves_rules)
    fix w new w'
    assume "bump_version E data t (va_pre_release a) (va_build_metadata a) w = (Inr new, w')"
    then obtain s current where "jidx data ''version'' = Some (JStr s)" "version_parse s = Some current"
      "bump_from current t (va_pre_release a) (va_build_metadata a) = Some new"
      by (auto simp: bump_version_def get_current_version_def parse_or_refuse_def pure_def step_Inr need_Inr as_text_Some)
    then show "saves_file (\<lambda>data'. \<exists>s. jidx data ''version'' = Some (JStr s) \<and> (\<exists>current. version_parse s = Some current
      \<and> (\<exists>new. bump_from current t (va_pre_release a) (va_build_metadata a) = Some new
      \<and> bumped data new data'))) (update_version E data new True)"
      using updated_data_bumped by (intro saves_update) blast
  qed
qed

text \<open>A bump that fails does not end with code 0.\<close>

abbreviation nonzero :: "vfailure \<Rightarrow> bool" where
  "nonzero e \<equiv> e \<noteq> ExitCode 0"

lemma fails_read_git [fails_rules]: "fails_with nonzero (read_git E steps info)"
  by (induction steps arbitrary: info)
    (auto simp del: script_simps simp: vsay_def intro!: fails_rules split: git_result.splits)

lemma fails_bump:
  assumes "va_action a = ''bump''" shows "fails_with nonzero (run_action E a data)"
  using assms
  by (auto simp del: script_simps read_git.simps simp: run_action_def bump_version_def get_current_version_def pure_def
      parse_or_refuse_def update_version_def get_git_info_def save_version_data_def vsay_def
      intro!: fails_rules split: option.splits)

lemma fails_catch_all: "fails_with nonzero m \<Longrightarrow> fails_with nonzero (catch_all m)"
  by (auto simp: fails_with_def catch_all_def try_act_def vsay_def split: prod.splits sum.splits vfailure.splits)

lemma run_held:
  assumes "version_main E a w = (code, w')" and "vw_file w = Holds data"
  obtains r where "catch_all (run_action E a data) w = (r, w')" "code = vexit_code r"
proof -
  have "load_version_data E w = (Inr data, w)" using assms(2) by (simp add: load_version_data_def)
  then have "step (load_version_data E) (\<lambda>data. catch_all (run_action E a data)) w = catch_all (run_action E a data) w"
    by (simp add: step_def)
  with assms(1) that show thesis by (auto simp: version_main_def split: prod.split_asm)
qed

lemma saves_catch_all: "saves_file P m \<Longrightarrow> saves_file P (catch_all m)"
  by (fastforce simp: saves_file_def catch_all_def try_act_def vsay_def split: prod.splits sum.splits vfailure.splits)

definition bump_done :: "version_args \<Rightarrow> json \<Rightarrow> json \<Rightarrow> bool" where
  "bump_done a data data' \<longleftrightarrow>
     (\<exists>s current t new. jidx data ''version'' = Some (JStr s) \<and> version_parse s = Some current
        \<and> va_bump_type a = Some t \<and> bump_from current t (va_pre_release a) (va_build_metadata a) = Some new
        \<and> bumped data new data')"

lemma bump_outcome:
  assumes "version_main E a w = (code, w')" and "vw_file w = Holds data" and "va_action a = ''bump''"
  shows "if code = 0 then \<exists>data'. vw_file w' = Holds data' \<and> bump_done a data data' else vw_file w' = vw_file w"
proof -
  from assms(1,2) obtain r where r: "catch_all (run_action E a data) w = (r, w')" "code = vexit_code r"
    by (rule run_held)
  note s = saves_catch_all [OF saves_bump [OF assms(3)], of data E, unfolded saves_file_def, THEN spec, of w, unfolded r(1)]
  show ?thesis
  proof (cases r)
    case (Inl e)
    with r fails_catch_all [OF fails_bump [OF assms(3)], of E data] have "nonzero e" by (auto simp: fails_with_def)
    with Inl r(2) have "code \<noteq> 0" by (cases e) (simp_all add: vexit_code_def)
    with s Inl show ?thesis by simp
  next
    case (Inr u)
    with r(2) have "code = 0" by (simp add: vexit_code_def)
    with s Inr show ?thesis by (simp add: bump_done_def)
  qed
qed

text \<open>A bump ends with code 0 only when the file holds a version that can be read and bumped; then the file
  holds the same data with the new version, the next build number and the components at the new version.
  With any other code the file is unchanged.\<close>

theorem bump_run:
  assumes "version_main E a w = (code, w')" and "vw_file w = Holds data" and "va_action a = ''bump''"
  shows "if code = 0 then \<exists>data'. vw_file w' = Holds data' \<and> bump_done a data data' else vw_file w' = vw_file w"
  using assms by (rule bump_outcome)







definition demo_env :: version_env where
  "demo_env = \<lparr>ve_git = (\<lambda>argv. Ran 0 ''main''), ve_stamp = ''2025-06-13T10:34:33'', ve_today = ''2025-06-13'',
     ve_path = ''version.json'', ve_write_error = None, ve_exception = ''error''\<rparr>"

definition demo_bump :: version_args where
  "demo_bump = \<lparr>va_action = ''bump'', va_bump_type = Some ''minor'', va_pre_release = None, va_build_metadata = None,
     va_push = False, va_json = False\<rparr>"

definition demo_vworld :: vworld where
  "demo_vworld = \<lparr>vw_file = Holds (default_data demo_env), vw_out = []\<rparr>"

theorem bump_run_witness:
  "fst (version_main demo_env demo_bump demo_vworld) = 0
   \<and> (\<exists>data'. vw_file (snd (version_main demo_env demo_bump demo_vworld)) = Holds data'
      \<and> bump_done demo_bump (default_data demo_env) data')"
proof -
  obtain code w' where run: "version_main demo_env demo_bump demo_vworld = (code, w')"
    by (cases "version_main demo_env demo_bump demo_vworld")
  have f: "vw_file demo_vworld = Holds (default_data demo_env)" by (simp add: demo_vworld_def)
  have b: "va_action demo_bump = ''bump''" by (simp add: demo_bump_def)
  have "fst (version_main demo_env demo_bump demo_vworld) = 0" by code_simp
  with bump_run [OF run f b] run show ?thesis by simp
qed


end
