(* ===== verification/Ports.thy ===== *)
theory Ports
  imports Json "HOL-Library.List_Lexorder" "HOL-Library.Char_ord"
begin

text \<open>
  tools/port-allocator/port-allocator.py without its verbose output: the ports a compose file asks for, and
  the search for free ports. The parameters are the two YAML documents, which ports can be bound, the
  clock, the order in which a set is iterated, the texts of the interpreter's exceptions, and the patterns
  of a configuration that replaces those of the code.
\<close>

section \<open>The outside\<close>

datatype yaml_file = NoFile | Unreadable string | Document json

record port_env =
  pe_config :: yaml_file
  pe_patterns :: "(string \<Rightarrow> string list) list option"
  pe_compose :: "string \<Rightarrow> yaml_file"
  pe_free :: "int \<Rightarrow> bool"
  pe_now :: string
  pe_set_order :: "string list \<Rightarrow> string list"
  pe_exception :: string

section \<open>Configuration\<close>

definition port_range :: "int \<Rightarrow> int \<Rightarrow> string \<Rightarrow> json" where
  "port_range s e d = JObj [(''start'', JInt s), (''end'', JInt e), (''description'', JStr d)]"

definition default_config :: jobj where
  "default_config =
     [(''port_ranges'', JList
        [port_range 3000 3999 ''Frontend applications'', port_range 5000 5999 ''Backend APIs'',
         port_range 6000 6999 ''Database services'', port_range 7000 7999 ''Cache services'']),
      (''consecutive_block_size'', JInt 5),
      (''excluded_ports'', JList (map JInt [5432, 6379, 3306, 27017, 3000, 8080, 9090, 9093]))]"

text \<open>The configuration and the lines printed when the file cannot be used.\<close>

definition load_port_config :: "port_env \<Rightarrow> string \<Rightarrow> jobj \<times> string list" where
  "load_port_config E config_file =
     (let failed = (\<lambda>e. (default_config,
            [''Warning: Could not load config file '' @ config_file @ '': '' @ e, ''Using default configuration'']))
      in case pe_config E of
           NoFile \<Rightarrow> (default_config, [])
         | Unreadable e \<Rightarrow> failed e
         | Document (JObj config) \<Rightarrow> (dict_update default_config config, [])
         | Document j \<Rightarrow> failed (pe_exception E))"

section \<open>Variables and embedded ports\<close>

definition var_char :: "char \<Rightarrow> bool" where
  "var_char c \<longleftrightarrow> is_upper c \<or> c = CHR ''_''"

text \<open>The names between dollar-brace and brace that satisfy ok: \<open>re.findall\<close> of a pattern whose name part is a run
  of capitals and underscores. A name has no dollar, so that no match begins inside another.\<close>

fun braced :: "(string \<Rightarrow> bool) \<Rightarrow> string \<Rightarrow> string list" where
  "braced ok [] = []"
| "braced ok (c # s) =
     (let rest = drop 1 s; name = takeWhile var_char rest
      in (if c = CHR ''$'' \<and> prefix ''{'' s \<and> ok name \<and> prefix ''}'' (drop (length name) rest) then [name] else [])
         @ braced ok s)"

definition default_patterns :: "(string \<Rightarrow> string list) list" where
  "default_patterns =
     [braced (\<lambda>w. sublist ''PORT'' w), braced (\<lambda>w. suffix ''_PORT'' w \<and> length w > 5),
      braced (\<lambda>w. prefix ''PORT_'' w \<and> length w > 5)]"

definition extract_port_variables :: "port_env \<Rightarrow> string \<Rightarrow> string list" where
  "extract_port_variables E text =
     concat (map (\<lambda>findall. findall text) (case pe_patterns E of None \<Rightarrow> default_patterns | Some ps \<Rightarrow> ps))"

text \<open>A match of \<open>(scheme://[^:]+:(\d+))\<close> at the beginning: the URL and its port.\<close>

definition url_at :: "string list \<Rightarrow> string \<Rightarrow> (string \<times> string) option" where
  "url_at schemes s =
     (case List.find (\<lambda>p. prefix p s) schemes of
        None \<Rightarrow> None
      | Some p \<Rightarrow>
          (let host = takeWhile (\<lambda>c. c \<noteq> CHR '':'') (drop (length p) s);
               rest = drop (length p + length host) s;
               port = takeWhile is_digit (drop 1 rest)
           in if host \<noteq> [] \<and> rest \<noteq> [] \<and> port \<noteq> [] then Some (p @ host @ '':'' @ port, port) else None))"

function find_urls :: "string list \<Rightarrow> string \<Rightarrow> (string \<times> string) list" where
  "find_urls schemes s =
     (case s of
        [] \<Rightarrow> []
      | c # t \<Rightarrow>
          (case url_at schemes s of
             None \<Rightarrow> find_urls schemes t
           | Some (url, port) \<Rightarrow> (url, port) # find_urls schemes (drop (max 1 (length url)) s)))"
  by pat_completeness auto
termination
  by (relation "measure (\<lambda>(schemes, s). length s)") auto

definition suggested_var :: "string \<times> string \<Rightarrow> string" where
  "suggested_var m =
     (let url = fst m; port = snd m; low = str_lower url
      in if sublist ''redis'' low then ''REDIS_PORT''
         else if sublist ''postgresql'' low \<or> sublist ''postgres'' low then ''DATABASE_PORT''
         else if sublist ''mongodb'' low \<or> sublist ''mongo'' low then ''MONGODB_PORT''
         else if sublist ''localhost'' url \<and> List.member [''3000'', ''3001'', ''3002''] port then ''FRONTEND_PORT''
         else if sublist ''localhost'' url \<and> List.member [''5000'', ''5001'', ''5002''] port then ''BACKEND_PORT''
         else ''SERVICE_PORT_'' @ port)"

definition find_embedded_ports :: "string \<Rightarrow> (string \<times> string) list" where
  "find_embedded_ports text =
     concat (map (\<lambda>schemes. map (\<lambda>m. (fst m, suggested_var m)) (find_urls schemes text))
       [[''https://'', ''http://''], [''redis://''], [''postgresql://''], [''mongodb://'']])"

section \<open>Categories\<close>

definition category_of :: "string \<Rightarrow> string" where
  "category_of var =
     (let low = str_lower var; has = list_ex (\<lambda>k. sublist k low)
      in if has [''frontend'', ''web'', ''ui'', ''client'', ''react'', ''vue'', ''angular''] then ''frontend''
         else if has [''backend'', ''api'', ''server'', ''app''] then ''backend''
         else if has [''db'', ''database'', ''postgres'', ''mysql'', ''mongo''] then ''database''
         else if has [''redis'', ''cache'', ''memcache''] then ''cache''
         else if has [''prometheus'', ''grafana'', ''monitor''] then ''monitoring''
         else ''other'')"

definition categorize :: "string list \<Rightarrow> json" where
  "categorize vars =
     JObj (map (\<lambda>c. (c, JList (map JStr (filter (\<lambda>v. category_of v = c) vars))))
       [''frontend'', ''backend'', ''database'', ''cache'', ''monitoring'', ''other''])"

section \<open>Compose files\<close>

definition to_upper :: "char \<Rightarrow> char" where
  "to_upper c = (if is_lower c then char_of (of_char c - 32 :: nat) else c)"

definition dollar_brace :: "string \<Rightarrow> string" where
  "dollar_brace v = ''${'' @ v @ ''}''"

text \<open>A port mapping: its variables and its warnings.\<close>

definition mapping_ports :: "port_env \<Rightarrow> string \<Rightarrow> json \<Rightarrow> string list \<times> string list" where
  "mapping_ports E service mapping =
     (case mapping of
        JStr m \<Rightarrow>
          (if CHR ''-'' \<in> set m
           then ([], [''Port range detected in '' @ service @ '': '' @ m @ '' - skipping range allocation''])
           else (let external = hd (split_on (\<lambda>c. c = CHR '':'') m)
                 in (extract_port_variables E external,
                     if external \<noteq> [] \<and> list_all is_digit external
                     then [''Hardcoded port '' @ external @ '' in '' @ service @ '' - suggest using ''
                           @ dollar_brace (map to_upper service @ ''_PORT'')]
                     else [])))
      | _ \<Rightarrow> ([], []))"

definition embedded_warning :: "string \<Rightarrow> string \<Rightarrow> string \<Rightarrow> string \<Rightarrow> string" where
  "embedded_warning service key shown var =
     ''Embedded port in '' @ service @ ''.'' @ key @ '': '' @ [CHR 39] @ shown @ [CHR 39] @ '' - suggest using '' @ dollar_brace var"

text \<open>An environment entry as a list item, or as a member of a dict: the embedded ports and the warnings.\<close>

definition env_item :: "string \<Rightarrow> json \<Rightarrow> (string \<times> string) list \<times> string list" where
  "env_item service item =
     (case item of
        JStr s \<Rightarrow>
          (let key = takeWhile (\<lambda>c. c \<noteq> CHR ''='') s; found = find_embedded_ports (drop (length key + 1) s)
           in if CHR ''='' \<in> set s
              then (found, map (\<lambda>(url, var). embedded_warning service key url var) found) else ([], []))
      | _ \<Rightarrow> ([], []))"

definition env_member :: "string \<Rightarrow> string \<times> json \<Rightarrow> (string \<times> string) list \<times> string list" where
  "env_member service member =
     (case snd member of
        JStr s \<Rightarrow>
          (let found = find_embedded_ports s
           in (found, map (\<lambda>(url, var). embedded_warning service (fst member) s var) found))
      | _ \<Rightarrow> ([], []))"

record service_analysis =
  sa_name :: string
  sa_vars :: "string list"
  sa_urls :: "(string \<times> string) list"
  sa_warnings :: "string list"

definition analyze_service :: "port_env \<Rightarrow> string \<times> json \<Rightarrow> service_analysis option" where
  "analyze_service E service =
     do { ports \<leftarrow> jget_d (snd service) ''ports'' (JList []); mappings \<leftarrow> jiter ports;
          environment \<leftarrow> jget_d (snd service) ''environment'' (JList []);
          (let ps = map (mapping_ports E (fst service)) mappings;
               es = (case environment of
                       JList items \<Rightarrow> map (env_item (fst service)) items
                     | JObj members \<Rightarrow> map (env_member (fst service)) members
                     | _ \<Rightarrow> [])
           in Some \<lparr>sa_name = fst service, sa_vars = concat (map fst ps), sa_urls = concat (map fst es),
                sa_warnings = concat (map snd ps) @ concat (map snd es)\<rparr>) }"

definition service_json :: "service_analysis \<Rightarrow> string \<times> json" where
  "service_json a =
     (sa_name a, JObj [(''port_variables'', JList (map JStr (sa_vars a))),
        (''embedded_urls'', JList (map (\<lambda>(url, var). JObj [(''original'', JStr url), (''suggested_var'', JStr var)]) (sa_urls a)))])"

definition failure_json :: "string \<Rightarrow> json" where
  "failure_json e = JObj [(''success'', JBool False), (''error'', JStr e)]"

definition analyze_services :: "port_env \<Rightarrow> json \<Rightarrow> service_analysis list option" where
  "analyze_services E compose =
     do { services \<leftarrow> jget_d compose ''services'' (JObj []);
          (case services of JObj members \<Rightarrow> those (map (analyze_service E) members) | _ \<Rightarrow> None) }"

definition port_vars_of :: "service_analysis list \<Rightarrow> string list" where
  "port_vars_of as = remdups (concat (map sa_vars as))"

definition analysis_json :: "port_env \<Rightarrow> string \<Rightarrow> service_analysis list \<Rightarrow> json" where
  "analysis_json E compose_file as =
     (let vars = port_vars_of as
      in JObj [(''success'', JBool True), (''compose_file'', JStr compose_file),
           (''total_ports_needed'', JInt (int (length vars))), (''port_variables'', JList (map JStr (sort vars))),
           (''categorized_ports'', categorize (pe_set_order E vars)),
           (''service_info'', JObj (map service_json as)),
           (''warnings'', JList (map JStr (concat (map sa_warnings as)))),
           (''analysis_timestamp'', JStr (pe_now E))])"

definition analyze_docker_compose :: "port_env \<Rightarrow> string \<Rightarrow> string + service_analysis list" where
  "analyze_docker_compose E compose_file =
     (case pe_compose E compose_file of
        Document compose \<Rightarrow>
          (case analyze_services E compose of None \<Rightarrow> Inl (pe_exception E) | Some as \<Rightarrow> Inr as)
      | Unreadable e \<Rightarrow> Inl e
      | NoFile \<Rightarrow> Inl (pe_exception E))"

section \<open>Searching ports\<close>

text \<open>Binding a port beyond 16 bits raises OverflowError, which \<open>_is_port_available\<close> does not catch.\<close>

definition is_port_available :: "port_env \<Rightarrow> int \<Rightarrow> string + bool" where
  "is_port_available E port =
     (if 0 \<le> port \<and> port \<le> 65535 then Inr (pe_free E port) else Inl ''bind(): port must be 0-65535.'')"

fun equals_int :: "json \<Rightarrow> int \<Rightarrow> bool" where
  "equals_int (JInt n) p = (n = p)"
| "equals_int (JBool b) p = ((if b then 1 else 0) = p)"
| "equals_int (JFloat (Fin q)) p = (q = of_int p)"
| "equals_int _ p = False"

text \<open>The loop over the ports: the ports found so far, up to the first moment there are enough of them.\<close>

fun search_ports :: "port_env \<Rightarrow> (int \<Rightarrow> bool) \<Rightarrow> int \<Rightarrow> int list \<Rightarrow> int list \<Rightarrow> string + int list" where
  "search_ports E excluded num [] acc = Inr acc"
| "search_ports E excluded num (port # ports) acc =
     (if excluded port then search_ports E excluded num ports acc
      else (case is_port_available E port of
              Inl e \<Rightarrow> Inl e
            | Inr available \<Rightarrow>
                (let acc' = (if available then acc @ [port] else acc)
                 in if int (length acc') \<ge> num then Inr acc' else search_ports E excluded num ports acc')))"

fun as_int :: "json \<Rightarrow> int option" where
  "as_int (JInt n) = Some n"
| "as_int (JBool b) = Some (if b then 1 else 0)"
| "as_int _ = None"

definition read_range :: "json \<Rightarrow> (int \<times> int) option" where
  "read_range r = do { s \<leftarrow> jidx r ''start''; e \<leftarrow> jidx r ''end''; s \<leftarrow> as_int s; e \<leftarrow> as_int e; Some (s, e) }"

definition search_ranges :: "int option \<Rightarrow> (int \<times> int) list \<Rightarrow> (int \<times> int) list" where
  "search_ranges start_port ranges =
     (case start_port of
        None \<Rightarrow> ranges
      | Some p \<Rightarrow> filter (\<lambda>(s, e). s \<le> e) (map (\<lambda>(s, e). (max p s, e)) ranges))"

definition range_ports :: "(int \<times> int) list \<Rightarrow> int list" where
  "range_ports ranges = concat (map (\<lambda>(s, e). [s..e]) ranges)"

definition read_ranges :: "jobj \<Rightarrow> (int \<times> int) list option" where
  "read_ranges config =
     do { ranges \<leftarrow> map_of config ''port_ranges''; ranges \<leftarrow> jiter ranges; those (map read_range ranges) }"

definition read_excluded :: "jobj \<Rightarrow> (int \<Rightarrow> bool) option" where
  "read_excluded config =
     do { x \<leftarrow> map_of config ''excluded_ports''; xs \<leftarrow> jiter x;
          guard_opt (list_all hashable xs) (Some (\<lambda>port. list_ex (\<lambda>j. equals_int j port) xs)) }"

definition find_available_ports :: "port_env \<Rightarrow> jobj \<Rightarrow> int \<Rightarrow> int option \<Rightarrow> string + int list" where
  "find_available_ports E config num start_port =
     (case (read_excluded config, read_ranges config) of
        (Some excluded, Some ranges) \<Rightarrow> search_ports E excluded num (range_ports (search_ranges start_port ranges)) []
      | _ \<Rightarrow> Inl (pe_exception E))"

section \<open>Allocation\<close>

text \<open>\<open>xs[:n]\<close>.\<close>

definition first_ports :: "int \<Rightarrow> 'a list \<Rightarrow> 'a list" where
  "first_ports n xs = (if n \<ge> 0 then take (nat n) xs else take (length xs - nat (- n)) xs)"

definition generic_name :: "nat \<Rightarrow> string" where
  "generic_name i =
     (if i < 5 then [''frontend'', ''backend'', ''database'', ''cache'', ''monitoring''] ! i
      else ''service_'' @ show_int (int i + 1))"

definition port_names :: "string list \<Rightarrow> int \<Rightarrow> string list" where
  "port_names vars num = (if vars \<noteq> [] then vars else map generic_name [0..<nat num])"

text \<open>A success: the mapping and the ports.\<close>

definition allocate_ports ::
  "port_env \<Rightarrow> jobj \<Rightarrow> string list option \<Rightarrow> int option \<Rightarrow> int option \<Rightarrow> string + (string \<times> int) list \<times> int list" where
  "allocate_ports E config port_vars num_ports start_port =
     (let vars = (case port_vars of None \<Rightarrow> [] | Some vs \<Rightarrow> vs);
          num = (if vars \<noteq> [] then int (length vars) else case num_ports of None \<Rightarrow> 5 | Some n \<Rightarrow> n)
      in case find_available_ports E config num start_port of
           Inl e \<Rightarrow> Inl (''Failed to allocate ports: '' @ e)
         | Inr available \<Rightarrow>
             (if int (length available) < num
              then Inl (''Could not find '' @ show_int num @ '' available ports. Found only ''
                        @ show_int (int (length available)))
              else Inr (fold (\<lambda>(k, v). AList.update k v) (zip (port_names vars num) available) [], first_ports num available)))"

definition allocation_json :: "port_env \<Rightarrow> string \<Rightarrow> string + (string \<times> int) list \<times> int list \<Rightarrow> json" where
  "allocation_json E project_name result =
     (case result of
        Inl e \<Rightarrow> failure_json e
      | Inr (mapping, ports) \<Rightarrow>
          JObj [(''success'', JBool True), (''project_name'', JStr project_name),
            (''port_mapping'', JObj (map (\<lambda>(k, v). (k, JInt v)) mapping)),
            (''allocated_ports'', JList (map JInt ports)), (''allocation_timestamp'', JStr (pe_now E))])"

text \<open>An exception of the scan is not caught.\<close>

definition scan_ports :: "port_env \<Rightarrow> int \<Rightarrow> int \<Rightarrow> json option" where
  "scan_ports E s e =
     do { found \<leftarrow> those (map (\<lambda>p. case is_port_available E p of Inl _ \<Rightarrow> None | Inr b \<Rightarrow> Some (p, b)) [s..e]);
          (let ports = map fst (filter snd found)
           in Some (JObj [(''success'', JBool True), (''range'', JStr (show_int s @ ''-'' @ show_int e)),
                (''available_ports'', JList (map JInt ports)), (''total_available'', JInt (int (length ports))),
                (''scan_timestamp'', JStr (pe_now E))])) }"

section \<open>The program\<close>

record port_args =
  pa_action :: string
  pa_project_name :: "string option"
  pa_compose_file :: "string option"
  pa_num_ports :: "int option"
  pa_start_port :: int
  pa_end_port :: "int option"

definition given_text :: "string option \<Rightarrow> bool" where
  "given_text s \<longleftrightarrow> s \<noteq> None \<and> s \<noteq> Some []"

definition given_int :: "int option \<Rightarrow> bool" where
  "given_int n \<longleftrightarrow> n \<noteq> None \<and> n \<noteq> Some 0"

definition no_compose :: "string \<Rightarrow> json" where
  "no_compose path = failure_json (''Docker compose file not found: '' @ path)"

definition analyze_action :: "port_env \<Rightarrow> port_args \<Rightarrow> int \<times> json" where
  "analyze_action E a =
     (if \<not> given_text (pa_compose_file a) then (1, failure_json ''analyze action requires --compose-file'')
      else (let path = the (pa_compose_file a)
            in if pe_compose E path = NoFile then (1, no_compose path)
               else (0, case analyze_docker_compose E path of
                          Inl e \<Rightarrow> failure_json (''Failed to analyze docker-compose file: '' @ e)
                        | Inr as \<Rightarrow> analysis_json E path as)))"

definition allocate_action :: "port_env \<Rightarrow> jobj \<Rightarrow> port_args \<Rightarrow> int \<times> json" where
  "allocate_action E config a =
     (if \<not> given_text (pa_project_name a) then (1, failure_json ''allocate action requires project_name'')
      else if given_text (pa_compose_file a) \<and> given_int (pa_num_ports a)
      then (1, failure_json (''Cannot specify both --compose-file and --num-ports. When using compose file, ''
              @ ''port count is determined automatically.''))
      else if given_int (pa_num_ports a) \<and> given_int (pa_end_port a)
      then (1, failure_json (''Cannot specify both --num-ports and --end-port. Use --num-ports for allocation ''
              @ ''or --end-port for scanning.''))
      else if given_text (pa_compose_file a) \<and> pe_compose E (the (pa_compose_file a)) = NoFile
      then (1, no_compose (the (pa_compose_file a)))
      else (let vars = (if given_text (pa_compose_file a)
                        then (case analyze_docker_compose E (the (pa_compose_file a)) of
                                Inl e \<Rightarrow> None | Inr as \<Rightarrow> Some (sort (port_vars_of as)))
                        else None)
            in (0, allocation_json E (the (pa_project_name a))
                     (allocate_ports E config vars (pa_num_ports a) (Some (pa_start_port a))))))"

definition scan_end :: "port_args \<Rightarrow> int" where
  "scan_end a = (if given_int (pa_end_port a) then the (pa_end_port a) else 9999)"

text \<open>The exit code and the lines of the output; an exception nobody catches ends with code 1.\<close>

definition port_main :: "port_env \<Rightarrow> string \<Rightarrow> port_args \<Rightarrow> int \<times> string list" where
  "port_main E config_file a =
     (let (config, warnings) = load_port_config E config_file;
          shown = (\<lambda>(code, j). (code, warnings @ [dumps_indent 0 j]));
          refused = (\<lambda>(code, j). (code, warnings @ [if code = 1 then dumps j else dumps_indent 0 j]))
      in if pa_action a = ''analyze'' then refused (analyze_action E a)
         else if pa_action a = ''allocate'' then refused (allocate_action E config a)
         else if pa_action a = ''scan''
         then (case scan_ports E (pa_start_port a) (scan_end a) of
                 None \<Rightarrow> (1, warnings) | Some j \<Rightarrow> shown (0, j))
         else (0, warnings))"

end
