(* ===== verification/Ports_Properties.thy ===== *)
theory Ports_Properties
  imports Ports
begin










definition demo_port_env :: port_env where
  "demo_port_env = \<lparr>pe_config = NoFile, pe_patterns = None, pe_compose = (\<lambda>p. NoFile), pe_free = (\<lambda>p. p \<noteq> 3001),
     pe_now = ''2025-06-13'', pe_set_order = (\<lambda>vs. vs), pe_exception = ''error''\<rparr>"



section \<open>The variables of a text\<close>

lemma single_if: "w \<in> set (if a \<and> b \<and> p n \<and> d n then [n] else []) \<longleftrightarrow> p w \<and> w = n \<and> a \<and> b \<and> d w"
  by auto

lemma braced_Cons:
  "set (braced ok (c # s)) =
     {w. ok w \<and> list_all var_char w \<and> prefix (dollar_brace w) (c # s)} \<union> set (braced ok s)"
proof -
  have key: "w = takeWhile var_char (drop 1 s) \<and> c = CHR ''$'' \<and> prefix ''{'' s \<and> prefix ''}'' (drop (length w) (drop 1 s))
      \<longleftrightarrow> list_all var_char w \<and> prefix (dollar_brace w) (c # s)" (is "?l \<longleftrightarrow> ?r") for w
  proof
    assume l: ?l
    then obtain t where s: "s = CHR ''{'' # t" by (auto simp: prefix_def)
    from l s have w: "w = takeWhile var_char t" by simp
    from l s obtain u where "drop (length w) t = CHR ''}'' # u" by (auto simp: prefix_def)
    moreover have "t = w @ drop (length w) t" unfolding w by (metis append_take_drop_id takeWhile_eq_take)
    ultimately have "prefix (w @ ''}'') t" by (metis append.assoc append_Cons append_Nil prefixI)
    then show ?r using l s w by (auto simp: dollar_brace_def list_all_iff dest: set_takeWhileD)
  next
    assume r: ?r
    then obtain u where t: "c # s = CHR ''$'' # CHR ''{'' # w @ CHR ''}'' # u" by (auto simp: dollar_brace_def prefix_def)
    have "\<not> var_char CHR ''}''" by (simp add: var_char_def is_upper_def)
    with r t show ?l by (auto simp: takeWhile_append list_all_iff)
  qed
  show ?thesis
  proof (rule set_eqI)
    fix w
    have "w \<in> set (braced ok (c # s)) \<longleftrightarrow>
        ok w \<and> (w = takeWhile var_char (drop 1 s) \<and> c = CHR ''$'' \<and> prefix ''{'' s
                  \<and> prefix ''}'' (drop (length w) (drop 1 s))) \<or> w \<in> set (braced ok s)"
      using single_if [of w "c = CHR ''$''" "prefix ''{'' s" ok "takeWhile var_char (drop 1 s)"
          "\<lambda>x. prefix ''}'' (drop (length x) (drop 1 s))"]
      by (simp only: braced.simps Let_def set_append Un_iff)
    then show "w \<in> set (braced ok (c # s)) \<longleftrightarrow>
        w \<in> {w. ok w \<and> list_all var_char w \<and> prefix (dollar_brace w) (c # s)} \<union> set (braced ok s)"
      unfolding key by simp
  qed
qed

lemma braced_exact: "w \<in> set (braced ok s) \<longleftrightarrow> ok w \<and> list_all var_char w \<and> sublist (dollar_brace w) s"
proof (induction s)
  case Nil
  then show ?case by (simp add: dollar_brace_def)
next
  case (Cons c s)
  then show ?case unfolding braced_Cons by (auto simp: sublist_Cons_right)
qed

text \<open>With the patterns of the code the variables of a text are exactly the names of capitals and
  underscores that contain PORT and stand between dollar-brace and brace: the second and the third
  pattern add nothing.\<close>

theorem variables_exact:
  assumes "pe_patterns E = None"
  shows "w \<in> set (extract_port_variables E text)
    \<longleftrightarrow> list_all var_char w \<and> sublist ''PORT'' w \<and> sublist (dollar_brace w) text"
proof -
  have "sublist ''PORT'' w" if "suffix ''_PORT'' w"
    using that by (metis sublist_appendI suffix_def append_Cons append_Nil append_assoc)
  moreover have "sublist ''PORT'' w" if "prefix ''PORT_'' w"
    using that by (auto simp: prefix_def sublist_def)
  ultimately show ?thesis
    using assms by (auto simp: extract_port_variables_def default_patterns_def braced_exact)
qed

theorem variables_exact_witness:
  "''DB_PORT'' \<in> set (extract_port_variables demo_port_env ''${DB_PORT}:5432'')"
proof -
  have "sublist (dollar_brace ''DB_PORT'') ''${DB_PORT}:5432''" by code_simp
  moreover have "list_all var_char ''DB_PORT''" "sublist ''PORT'' ''DB_PORT''" by code_simp+
  moreover have "pe_patterns demo_port_env = None" by (simp add: demo_port_env_def)
  ultimately show ?thesis using variables_exact by blast
qed

end
