(* ===== verification/AppProject.thy ===== *)
theory AppProject
  imports Json
begin

text \<open>
  scripts/validate_consumer_appproject.py: the gate that a consumer's AppProjects pass before they are
  applied. The files are the lists of documents they hold; None is an exception, which ends the program
  before anything is applied.
\<close>

section \<open>Constants\<close>

definition RESERVED_PROJECTS :: "string list" where
  "RESERVED_PROJECTS = [''fuzeinfra'', ''default'']"

definition FORBIDDEN_NAMESPACES :: "string list" where
  "FORBIDDEN_NAMESPACES = [''fuzeinfra'', ''kube-system'']"

definition IN_CLUSTER_SERVER :: string where
  "IN_CLUSTER_SERVER = ''https://kubernetes.default.svc''"

definition IN_CLUSTER_NAME :: string where
  "IN_CLUSTER_NAME = ''in-cluster''"

section \<open>What FuzeInfra holds\<close>

definition named_doc :: "json \<Rightarrow> string option" where
  "named_doc doc = do { metadata \<leftarrow> jidx doc ''metadata''; name \<leftarrow> jidx metadata ''name''; as_text name }"

text \<open>\<open>doc and doc.get("kind") == kind\<close>.\<close>

definition of_kind :: "string \<Rightarrow> json \<Rightarrow> bool option" where
  "of_kind kind doc = (if truthy doc then map_option (\<lambda>k. k = JStr kind) (jget doc ''kind'') else Some False)"

fun held_names :: "json list \<Rightarrow> string list option" where
  "held_names [] = Some []"
| "held_names (doc # docs) =
     do { b \<leftarrow> of_kind ''AppProject'' doc;
          if b then do { name \<leftarrow> named_doc doc; names \<leftarrow> held_names docs; Some (name # names) } else held_names docs }"

fun held_specs :: "json list \<Rightarrow> jobj \<Rightarrow> jobj option" where
  "held_specs [] held = Some held"
| "held_specs (doc # docs) held =
     do { b \<leftarrow> of_kind ''Application'' doc;
          if b then do { name \<leftarrow> named_doc doc; spec \<leftarrow> jget_or doc ''spec'' (JObj []);
                         held_specs docs (dict_set name spec held) }
          else held_specs docs held }"

section \<open>Applications\<close>

definition doc_name :: "json \<Rightarrow> json option" where
  "doc_name doc =
     do { metadata \<leftarrow> jget_or doc ''metadata'' (JObj []); jget_d metadata ''name'' (JStr ''<unnamed>'') }"

definition divergence_error :: "json \<Rightarrow> string" where
  "divergence_error name =
     ''Application '' @ [CHR 39] @ py_str name @ [CHR 39] @ '': R6 app-divergence: FuzeInfra also applies ''
     @ ''Application '' @ [CHR 39] @ py_str name @ [CHR 39] @ '' from argocd/applications/ on every deploy, with a ''
     @ ''DIFFERENT spec. Two writers with different content flap last-write-wins ''
     @ ''(the #1278 failure mode). Change it in one place: make the specs match, ''
     @ ''or remove one copy''"

definition held_spec :: "jobj \<Rightarrow> json \<Rightarrow> json option" where
  "held_spec held name = (case name of JStr s \<Rightarrow> map_of held s | _ \<Rightarrow> None)"

definition check_application :: "json \<Rightarrow> jobj \<Rightarrow> string list option" where
  "check_application doc held =
     do { name \<leftarrow> doc_name doc;
          guard_opt (hashable name)
            (case held_spec held name of
               None \<Rightarrow> Some []
             | Some spec' \<Rightarrow>
                 do { spec \<leftarrow> jget_or doc ''spec'' (JObj []);
                      Some (if py_eq spec spec' then [] else [divergence_error name]) }) }"

section \<open>Projects\<close>

definition reserved_error :: "json \<Rightarrow> string" where
  "reserved_error name =
     ''R1 not-reserved: a consumer may not define AppProject '' @ [CHR 39] @ py_str name @ [CHR 39] @ '' '' @ em_dash @ '' ''
     @ ''that would replace FuzeInfra'' @ [CHR 39] @ ''s own boundary''"

definition two_writers_error :: "json \<Rightarrow> string" where
  "two_writers_error name =
     ''R2 single-writer: AppProject '' @ [CHR 39] @ py_str name @ [CHR 39] @ '' is also held by FuzeInfra in ''
     @ ''argocd/projects/'' @ py_str name @ ''.yaml, which deploy-prod re-applies on every ''
     @ ''deploy. Two writers is last-write-wins and froze FuzeFront deploys ''
     @ ''(#1278). Delete one copy first '' @ em_dash @ '' FuzeInfra'' @ [CHR 39] @ ''s, if the product owns ''
     @ ''this project (#639)''"

definition cluster_scope_error :: "json \<Rightarrow> json \<Rightarrow> string" where
  "cluster_scope_error grp kind =
     ''R3 cluster-scope: clusterResourceWhitelist may contain only ''
     @ ''core/Namespace (#629, kept by #639); found '' @ py_str (jor grp (JStr ''core'')) @ ''/'' @ py_str kind @ ''. Argo ''
     @ ''whitelists by kind, not name '' @ em_dash @ '' with the argocd destination that ''
     @ ''is cluster-admin. Ask FuzeInfra to provision the cluster-scoped ''
     @ ''grant instead (see helm/fuzeinfra/templates/workload-identity-rbac.yaml)''"

definition check_whitelist_entry :: "json \<Rightarrow> string list option" where
  "check_whitelist_entry entry =
     do { grp \<leftarrow> jget_d entry ''group'' (JStr []); kind \<leftarrow> jget_d entry ''kind'' (JStr []);
          guard_opt (hashable grp \<and> hashable kind)
            (Some (if grp = JStr [] \<and> kind = JStr ''Namespace'' then [] else [cluster_scope_error grp kind])) }"

definition infrastructure_error :: "string \<Rightarrow> string" where
  "infrastructure_error ns =
     ''R4 destinations: '' @ [CHR 39] @ ns @ [CHR 39] @ '' is an infrastructure namespace and is ''
     @ ''never a consumer destination (#99). Reach infra services over ''
     @ ''in-cluster DNS instead''"

definition wildcard_error :: "string \<Rightarrow> string" where
  "wildcard_error ns =
     ''R4 destinations: wildcard/empty namespace '' @ quoted ns @ '' would include ''
     @ ''fuzeinfra and kube-system (#99)''"

definition server_error :: "json \<Rightarrow> string" where
  "server_error server =
     ''R4 destinations: server '' @ json_repr server @ '' '' @ em_dash @ '' only '' @ IN_CLUSTER_SERVER @ '' is allowed''"

definition cluster_error :: "json \<Rightarrow> string" where
  "cluster_error cluster =
     ''R4 destinations: cluster name '' @ json_repr cluster @ '' '' @ em_dash @ '' only '' @ quoted IN_CLUSTER_NAME
     @ '' is allowed''"

text \<open>A namespace that is no text raises, in one of the two membership tests.\<close>

definition check_destination :: "json \<Rightarrow> string list option" where
  "check_destination dest =
     do { ns \<leftarrow> jget_d dest ''namespace'' (JStr []); ns \<leftarrow> as_text ns;
          server \<leftarrow> jget dest ''server''; cluster \<leftarrow> jget dest ''name'';
          Some ((if List.member FORBIDDEN_NAMESPACES ns then [infrastructure_error ns] else [])
            @ (if CHR ''*'' \<in> set ns \<or> ns = [] then [wildcard_error ns] else [])
            @ (if server \<noteq> JNull \<and> server \<noteq> JStr IN_CLUSTER_SERVER then [server_error server] else [])
            @ (if cluster \<noteq> JNull \<and> cluster \<noteq> JStr IN_CLUSTER_NAME then [cluster_error cluster] else [])
            @ (if server = JNull \<and> cluster = JNull
               then [''R4 destinations: destination names neither server nor cluster''] else [])) }"

definition check_source :: "json \<Rightarrow> string list option" where
  "check_source repo =
     do { star \<leftarrow> star_in repo;
          Some (if star then [''R5 source-repos: wildcard source repo '' @ json_repr repo @ '' is not allowed''] else []) }"

text \<open>The errors of the elements of a list in the spec.\<close>

definition check_each :: "(json \<Rightarrow> string list option) \<Rightarrow> json \<Rightarrow> string \<Rightarrow> string list option" where
  "check_each check spec key =
     do { entries \<leftarrow> jget_or spec key (JList []); entries \<leftarrow> jiter entries; map_option concat (those (map check entries)) }"

definition check_project :: "json \<Rightarrow> string list \<Rightarrow> bool \<Rightarrow> string list option" where
  "check_project doc infra_held consumer =
     do { name \<leftarrow> doc_name doc; spec \<leftarrow> jget_or doc ''spec'' (JObj []);
          guard_opt (consumer \<longrightarrow> hashable name)
            (do { e3 \<leftarrow> check_each check_whitelist_entry spec ''clusterResourceWhitelist'';
                  e4 \<leftarrow> check_each check_destination spec ''destinations'';
                  e5 \<leftarrow> check_each check_source spec ''sourceRepos'';
                  (let r1 = consumer \<and> List.member (map JStr RESERVED_PROJECTS) name;
                       r2 = consumer \<and> List.member (map JStr infra_held) name
                   in Some (map (\<lambda>e. ''AppProject '' @ [CHR 39] @ py_str name @ [CHR 39] @ '': '' @ e)
                        ((if r1 then [reserved_error name] else []) @ (if r2 then [two_writers_error name] else [])
                         @ e3 @ e4 @ e5))) }) }"

section \<open>The program\<close>

text \<open>The violations of a document, with the path of its file.\<close>

definition check_doc :: "string list \<Rightarrow> jobj \<Rightarrow> string \<times> json \<Rightarrow> string list option" where
  "check_doc infra_held held_apps entry =
     (case snd entry of
        JObj kvs \<Rightarrow>
          (let doc = JObj kvs; kind = dget kvs ''kind'' JNull
           in map_option (map (\<lambda>v. fst entry @ '': '' @ v))
                (if kind = JStr ''AppProject'' then check_project doc infra_held True
                 else if kind = JStr ''Application'' \<and> held_apps \<noteq> [] then check_application doc held_apps
                 else Some []))
      | _ \<Rightarrow> Some [])"

definition projects_seen :: "(string \<times> json) list \<Rightarrow> nat" where
  "projects_seen docs =
     length (filter (\<lambda>d. case snd d of JObj kvs \<Rightarrow> dget kvs ''kind'' JNull = JStr ''AppProject'' | _ \<Rightarrow> False) docs)"

text \<open>The exit code and the lines printed, from FuzeInfra's own documents (the applications only when their
  directory is given) and the documents of the paths with their files.\<close>

definition appproject_main ::
  "json list \<Rightarrow> json list option \<Rightarrow> (string \<times> json) list \<Rightarrow> (int \<times> string list) option" where
  "appproject_main projects applications docs =
     do { infra_held \<leftarrow> held_names projects;
          held_apps \<leftarrow> (case applications of None \<Rightarrow> Some [] | Some as \<Rightarrow> held_specs as []);
          vs \<leftarrow> those (map (check_doc infra_held held_apps) docs);
          (let violations = concat vs
           in Some (if violations \<noteq> []
                    then (1, map (\<lambda>v. ''::error::'' @ v) violations
                             @ [''REJECTED: '' @ show_int (int (length violations)) @ '' policy violation(s); nothing was applied.''])
                    else (0, [''OK: '' @ show_int (int (projects_seen docs))
                              @ '' AppProject(s) checked against R1-R5; Applications checked against R6.'']))) }"

end
