(* ===== verification/AppProject_Properties.thy ===== *)
theory AppProject_Properties
  imports AppProject
begin

text \<open>
  The gate is exact: a project has no violation precisely when it lies within the boundary, and exit code 0
  means that every AppProject document it looked at does.
\<close>

definition fit_whitelist_entry :: "json \<Rightarrow> bool" where
  "fit_whitelist_entry entry \<longleftrightarrow>
     jget_d entry ''group'' (JStr []) = Some (JStr []) \<and> jget_d entry ''kind'' (JStr []) = Some (JStr ''Namespace'')"

definition fit_destination :: "json \<Rightarrow> bool" where
  "fit_destination dest \<longleftrightarrow>
     (\<exists>ns server cluster. jget_d dest ''namespace'' (JStr []) = Some (JStr ns) \<and> jget dest ''server'' = Some server
        \<and> jget dest ''name'' = Some cluster
        \<and> ns \<noteq> [] \<and> ns \<noteq> ''fuzeinfra'' \<and> ns \<noteq> ''kube-system'' \<and> CHR ''*'' \<notin> set ns
        \<and> server \<in> {JNull, JStr IN_CLUSTER_SERVER} \<and> cluster \<in> {JNull, JStr IN_CLUSTER_NAME}
        \<and> \<not> (server = JNull \<and> cluster = JNull))"

definition fit_source :: "json \<Rightarrow> bool" where
  "fit_source repo \<longleftrightarrow> star_in repo = Some False"

text \<open>The elements of a list of the spec.\<close>

definition entries_of :: "json \<Rightarrow> string \<Rightarrow> json list" where
  "entries_of spec key = (case do { e \<leftarrow> jget_or spec key (JList []); jiter e } of None \<Rightarrow> [] | Some es \<Rightarrow> es)"

definition within_boundary :: "string list \<Rightarrow> json \<Rightarrow> bool" where
  "within_boundary infra_held doc \<longleftrightarrow>
     (\<exists>name spec. doc_name doc = Some name \<and> jget_or doc ''spec'' (JObj []) = Some spec
        \<and> name \<notin> JStr ` set (RESERVED_PROJECTS @ infra_held)
        \<and> list_all fit_whitelist_entry (entries_of spec ''clusterResourceWhitelist'')
        \<and> list_all fit_destination (entries_of spec ''destinations'')
        \<and> list_all fit_source (entries_of spec ''sourceRepos''))"

lemma check_whitelist_Nil: "check_whitelist_entry e = Some [] \<longleftrightarrow> fit_whitelist_entry e"
  by (auto simp: check_whitelist_entry_def fit_whitelist_entry_def guard_opt_def split: if_splits)

lemma check_destination_Nil: "check_destination d = Some [] \<longleftrightarrow> fit_destination d"
  by (auto simp: check_destination_def fit_destination_def FORBIDDEN_NAMESPACES_def as_text_Some split: if_splits)

lemma check_source_Nil: "check_source r = Some [] \<longleftrightarrow> fit_source r"
  by (auto simp: check_source_def fit_source_def split: if_splits)

lemma check_each_Nil:
  assumes "check_each check spec key = Some es" and "\<And>e. check e = Some [] \<longleftrightarrow> fit e"
  shows "es = [] \<longleftrightarrow> list_all fit (entries_of spec key)"
proof -
  from assms(1) obtain xs rs where x: "entries_of spec key = xs" and rs: "those (map check xs) = Some rs"
    and es: "es = concat rs"
    by (auto simp: check_each_def entries_of_def)
  have m: "map check xs = map Some rs" using rs by (simp add: those_map_Some)
  have "es = [] \<longleftrightarrow> (\<forall>r \<in> set rs. r = [])" by (simp add: es)
  also have "\<dots> \<longleftrightarrow> (\<forall>o' \<in> set (map Some rs). o' = Some [])" by simp
  also have "\<dots> \<longleftrightarrow> list_all fit xs" unfolding m [symmetric] by (simp add: assms(2) list_all_iff)
  finally show ?thesis by (simp add: x)
qed

lemma check_project_Nil:
  assumes "check_project doc infra_held True = Some es"
  shows "es = [] \<longleftrightarrow> within_boundary infra_held doc"
proof -
  from assms obtain name spec e3 e4 e5 where n: "doc_name doc = Some name" and s: "jget_or doc ''spec'' (JObj []) = Some spec"
    and e: "check_each check_whitelist_entry spec ''clusterResourceWhitelist'' = Some e3"
      "check_each check_destination spec ''destinations'' = Some e4" "check_each check_source spec ''sourceRepos'' = Some e5"
    and es: "es = map (\<lambda>e. ''AppProject '' @ [CHR 39] @ py_str name @ [CHR 39] @ '': '' @ e)
        ((if List.member (map JStr RESERVED_PROJECTS) name then [reserved_error name] else [])
         @ (if List.member (map JStr infra_held) name then [two_writers_error name] else []) @ e3 @ e4 @ e5)"
    by (auto simp: check_project_def guard_opt_def Let_def split: if_split_asm)
  have "es = [] \<longleftrightarrow> name \<notin> JStr ` set (RESERVED_PROJECTS @ infra_held) \<and> e3 = [] \<and> e4 = [] \<and> e5 = []"
    by (auto simp: es)
  then show ?thesis
    using check_each_Nil [OF e(1) check_whitelist_Nil] check_each_Nil [OF e(2) check_destination_Nil]
      check_each_Nil [OF e(3) check_source_Nil] n s
    by (simp add: within_boundary_def)
qed

text \<open>A consumer's AppProject has no violation exactly when it lies within the boundary: a name of its own,
  no cluster-scoped kind but Namespace, only destinations in this cluster outside the namespaces of the
  infrastructure, no wildcard source.\<close>

theorem project_check_exact:
  assumes "check_project doc infra_held True = Some es"
  shows "es = [] \<longleftrightarrow> within_boundary infra_held doc"
  using assms by (rule check_project_Nil)

definition demo_project :: json where
  "demo_project = JObj [(''kind'', JStr ''AppProject''), (''metadata'', JObj [(''name'', JStr ''shop'')]),
     (''spec'', JObj [(''destinations'', JList [JObj [(''namespace'', JStr ''shop''), (''name'', JStr ''in-cluster'')]])])]"

theorem project_check_exact_witness:
  "within_boundary [''mendys''] demo_project \<and> check_project demo_project [''mendys''] True = Some []"
proof -
  have "check_project demo_project [''mendys''] True = Some []" by code_simp
  with project_check_exact [OF this] show ?thesis by simp
qed

section \<open>The run\<close>




text \<open>A document of another kind is not looked into: a List with any AppProject inside passes, and applying the
  file applies the items of the list.\<close>

theorem list_of_projects_passes:
  assumes "held_names projects = Some infra_held"
  shows "\<exists>out. appproject_main projects None [(path, JObj [(''kind'', JStr ''List''), (''items'', JList items)])] = Some (0, out)"
  using assms by (simp add: appproject_main_def check_doc_def Let_def dget_def)

end
