(* ===== verification/CfHosts.thy ===== *)
theory CfHosts
  imports Json "HOL-Library.List_Lexorder" "HOL-Library.Char_ord"
begin

text \<open>
  scripts-tools/check_consumer_host_collisions.py: the registry of the public hosts of the consumers, the
  hosts the infrastructure owns, and the guard against collisions. The files are parameters.
\<close>

section \<open>Text\<close>

text \<open>The text before and from the first occurrence of a part.\<close>

fun split_before :: "string \<Rightarrow> string \<Rightarrow> (string \<times> string) option" where
  "split_before part [] = (if part = [] then Some ([], []) else None)"
| "split_before part (c # s) =
     (if prefix part (c # s) then Some ([], c # s)
      else map_option (\<lambda>(a, b). (c # a, b)) (split_before part s))"

definition text_lines :: "string \<Rightarrow> string list" where
  "text_lines s = split_on is_linebreak s"

text \<open>A quoted non-empty text without quotes at the beginning, and the rest.\<close>

definition quoted_part :: "(char \<Rightarrow> bool) \<Rightarrow> string \<Rightarrow> (string \<times> string) option" where
  "quoted_part ok s =
     (case s of
        [] \<Rightarrow> None
      | c # t \<Rightarrow>
          (let word = takeWhile ok t; rest = dropWhile ok t
           in if c = dquote \<and> word \<noteq> [] \<and> prefix [dquote] rest then Some (word, tl rest) else None))"

section \<open>The registry\<close>

text \<open>\<open>^"([^"]+)"\s*=\s*"([^"]+)"\<close>.\<close>

definition label_line :: "string \<Rightarrow> (string \<times> string) option" where
  "label_line line =
     do { (label, rest) \<leftarrow> quoted_part (\<lambda>c. c \<noteq> dquote) line;
          (case lstrip rest of
             [] \<Rightarrow> None
           | c # t \<Rightarrow>
               (if c = CHR ''='' then map_option (\<lambda>(repo, _). (label, repo)) (quoted_part (\<lambda>c. c \<noteq> dquote) (lstrip t))
                else None)) }"

definition add_line :: "(string \<times> string) list \<Rightarrow> string \<Rightarrow> (string \<times> string) list" where
  "add_line registry line =
     (case label_line (str_strip line) of None \<Rightarrow> registry | Some (label, repo) \<Rightarrow> AList.update label repo registry)"

definition parse_consumer_labels :: "string option \<Rightarrow> (string \<times> string) list" where
  "parse_consumer_labels file =
     (case file of None \<Rightarrow> [] | Some text \<Rightarrow> foldl add_line [] (text_lines text))"

section \<open>Hosts of the infrastructure\<close>

definition key_char :: "char \<Rightarrow> bool" where
  "key_char c \<longleftrightarrow> is_lower c \<or> is_upper c \<or> is_digit c \<or> c \<in> set ''._-''"

text \<open>\<open>^\s*"([a-zA-Z0-9._-]+)"\<close>.\<close>

definition quoted_key :: "string \<Rightarrow> string option" where
  "quoted_key line = map_option fst (quoted_part key_char (lstrip line))"

definition lower_keys :: "string list \<Rightarrow> string list" where
  "lower_keys lines = map str_lower (List.map_filter quoted_key lines)"

text \<open>A source that has moved (ValueError with its text), or an exception of the interpreter.\<close>

datatype guard_error = Moved string | Crashed

definition need_source :: "string \<Rightarrow> string \<Rightarrow> string option \<Rightarrow> guard_error + string" where
  "need_source path moved file =
     (case file of None \<Rightarrow> Inl (Moved (path @ '': does not exist '' @ em_dash @ '' has '' @ moved @ '' moved?'')) | Some t \<Rightarrow> Inr t)"

definition some_keys :: "string \<Rightarrow> string list \<Rightarrow> guard_error + string list" where
  "some_keys message keys = (if keys = [] then Inl (Moved message) else Inr keys)"

fun and_then :: "'e + 'a \<Rightarrow> ('a \<Rightarrow> 'e + 'b) \<Rightarrow> 'e + 'b" where
  "and_then (Inl e) f = Inl e"
| "and_then (Inr x) f = f x"

definition extract_ingress_routes_keys :: "string \<Rightarrow> string option \<Rightarrow> guard_error + string list" where
  "extract_ingress_routes_keys path file =
     and_then (need_source path ''ingress.yaml'' file) (\<lambda>text.
       case split_before ''$routes := dict'' text of
         None \<Rightarrow> Inl (Moved (path @ '': '' @ [CHR 39] @ ''$routes := dict'' @ [CHR 39] @ '' not found '' @ em_dash
                   @ '' has the Ingress template moved?''))
       | Some (_, from_start) \<Rightarrow>
           (case split_before (newline @ ''-}}'') from_start of
              None \<Rightarrow> Inl (Moved (path @ '': could not find the closing '' @ [CHR 39] @ ''-}}'' @ [CHR 39] @ '' of the $routes dict''))
            | Some (block, _) \<Rightarrow>
                some_keys (path @ '': parsed zero keys out of the $routes dict '' @ em_dash @ '' parser is broken'')
                  (lower_keys (drop 1 (text_lines block)))))"

definition sub_mark :: string where
  "sub_mark = [dquote] @ ''sub'' @ [dquote]"

text \<open>\<open>"sub"\s+"([a-zA-Z0-9._-]+)"\<close> at the beginning: the name and the text after the match.\<close>

definition sub_at :: "string \<Rightarrow> (string \<times> string) option" where
  "sub_at s =
     (let rest = drop (length sub_mark) s
      in if prefix sub_mark s \<and> lstrip rest \<noteq> rest then quoted_part key_char (lstrip rest) else None)"

lemma quoted_part_shorter: "quoted_part ok s = Some (w, r) \<Longrightarrow> length r < length s"
  using length_dropWhile_le [of ok "tl s"]
  by (auto simp: quoted_part_def Let_def split: list.split_asm if_split_asm)

lemma lstrip_shorter: "length (lstrip s) \<le> length s"
  by (simp add: lstrip_def length_dropWhile_le)

lemma sub_at_shorter: "sub_at s = Some (w, r) \<Longrightarrow> length r < length s"
  using quoted_part_shorter [of key_char "lstrip (drop (length sub_mark) s)" w r] lstrip_shorter [of "drop (length sub_mark) s"]
  by (auto simp: sub_at_def Let_def split: if_split_asm)

function sub_hosts :: "string \<Rightarrow> string list" where
  "sub_hosts s =
     (case sub_at s of
        Some (name, rest) \<Rightarrow> str_lower name # sub_hosts rest
      | None \<Rightarrow> (case s of [] \<Rightarrow> [] | _ # t \<Rightarrow> sub_hosts t))"
  by pat_completeness auto
termination
  by (relation "measure length") (auto dest: sub_at_shorter)

declare sub_hosts.simps [simp del]

definition extract_neo4j_hosts :: "string \<Rightarrow> string option \<Rightarrow> guard_error + string list" where
  "extract_neo4j_hosts path file =
     and_then (need_source path ''neo4j-ingress.yaml'' file) (\<lambda>text.
       some_keys (path @ '': parsed zero '' @ [CHR 39] @ ''sub'' @ [CHR 39] @ '' hosts '' @ em_dash @ '' has neo4j-ingress.yaml moved?'')
         (sub_hosts text))"

text \<open>\<open>^\s*launcher_services\s*=\s*\{\s*$\<close>.\<close>

definition opens_launcher :: "string \<Rightarrow> bool" where
  "opens_launcher line =
     (let s = lstrip line; r = lstrip (drop (length ''launcher_services'') s)
      in prefix ''launcher_services'' s \<and> prefix ''='' r
         \<and> (let b = lstrip (drop 1 r) in prefix ''{'' b \<and> lstrip (drop 1 b) = []))"

definition extract_launcher_service_keys :: "string \<Rightarrow> string option \<Rightarrow> guard_error + string list" where
  "extract_launcher_service_keys path file =
     and_then (need_source path ''cloudflare.tf'' file) (\<lambda>text.
       case dropWhile (\<lambda>l. \<not> opens_launcher l) (text_lines text) of
         [] \<Rightarrow> Inl (Moved (path @ '': '' @ [CHR 39] @ ''launcher_services = {'' @ [CHR 39] @ '' not found '' @ em_dash
                 @ '' has it moved/renamed?''))
       | opener # lines \<Rightarrow>
           (let closer = takeWhile (\<lambda>c. c = CHR '' '') opener @ ''}''
            in if \<not> List.member lines closer
               then Inl (Moved (path @ '': could not find the closing brace of launcher_services''))
               else some_keys (path @ '': parsed zero keys out of launcher_services '' @ em_dash @ '' parser is broken'')
                      (lower_keys (filter (\<lambda>l. \<not> prefix ''#'' (str_strip l)) (takeWhile (\<lambda>l. l \<noteq> closer) lines)))))"

text \<open>The suffix of a file name: after the last dot, unless the dot is its first character.\<close>

definition file_suffix :: "string \<Rightarrow> string" where
  "file_suffix path =
     (let name = last (split_on (\<lambda>c. c = CHR ''/'') path); ext = takeWhile (\<lambda>c. c \<noteq> CHR ''.'') (rev name)
      in if length ext + 1 < length name then ''.'' @ rev ext else [])"

definition extract_template_sub_hosts :: "string \<Rightarrow> (string \<times> string) list option \<Rightarrow> guard_error + string list" where
  "extract_template_sub_hosts dir templates =
     (case templates of
        None \<Rightarrow> Inl (Moved (dir @ '': not a directory '' @ em_dash @ '' has the chart moved?''))
      | Some files \<Rightarrow>
          some_keys (dir @ '': parsed zero '' @ [CHR 39] @ ''sub'' @ [CHR 39] @ '' hosts across all templates '' @ em_dash
                     @ '' parser is broken'')
            (concat (map (\<lambda>f. sub_hosts (snd f))
              (filter (\<lambda>f. List.member [''.yaml'', ''.yml'', ''.tpl''] (file_suffix (fst f))) files))))"

fun kebab :: "string \<Rightarrow> string" where
  "kebab [] = []"
| "kebab (c # s) = (if is_upper c then ''-'' else []) @ c # kebab s"

definition camel_to_kebab :: "string \<Rightarrow> string" where
  "camel_to_kebab name = str_lower (case name of [] \<Rightarrow> [] | c # s \<Rightarrow> c # kebab s)"

text \<open>The values file: not there, unreadable, or its document.\<close>

datatype values_file = NoValues | BadValues | Values json

definition gated :: "json \<Rightarrow> bool" where
  "gated v = (case v of JObj kvs \<Rightarrow> map_of kvs ''enabled'' \<noteq> None | _ \<Rightarrow> False)"

definition extract_chart_service_names :: "string \<Rightarrow> values_file \<Rightarrow> guard_error + string list" where
  "extract_chart_service_names path file =
     (case file of
        NoValues \<Rightarrow> Inl (Moved (path @ '': does not exist '' @ em_dash @ '' has values.yaml moved?''))
      | BadValues \<Rightarrow> Inl Crashed
      | Values doc \<Rightarrow>
          (case jor doc (JObj []) of
             JObj kvs \<Rightarrow>
               some_keys (path @ '': parsed zero gated services '' @ em_dash @ '' parser is broken'')
                 (concat (map (\<lambda>(k, v). if gated v then [str_lower k, camel_to_kebab k] else []) kvs))
           | _ \<Rightarrow> Inl Crashed))"

section \<open>The guard\<close>

record infra_sources =
  is_ingress :: "string \<times> string option"
  is_neo4j :: "string \<times> string option"
  is_cloudflare :: "string \<times> string option"
  is_templates :: "string \<times> (string \<times> string) list option"
  is_values :: "string \<times> values_file"

text \<open>\<open>setdefault\<close> for every host.\<close>

definition reserve_hosts :: "string \<Rightarrow> string list \<Rightarrow> (string \<times> string) list \<Rightarrow> (string \<times> string) list" where
  "reserve_hosts source hosts owned =
     fold (\<lambda>h m. if map_of m h = None then m @ [(h, source)] else m) hosts owned"

definition base_name :: "string \<Rightarrow> string" where
  "base_name path = last (split_on (\<lambda>c. c = CHR ''/'') path)"

definition derive_infra_owned_hosts :: "infra_sources \<Rightarrow> guard_error + (string \<times> string) list" where
  "derive_infra_owned_hosts S =
     and_then (extract_ingress_routes_keys (fst (is_ingress S)) (snd (is_ingress S))) (\<lambda>routes.
     and_then (extract_neo4j_hosts (fst (is_neo4j S)) (snd (is_neo4j S))) (\<lambda>neo4j.
     and_then (extract_template_sub_hosts (fst (is_templates S)) (snd (is_templates S))) (\<lambda>templates.
     and_then (extract_launcher_service_keys (fst (is_cloudflare S)) (snd (is_cloudflare S))) (\<lambda>launcher.
     and_then (extract_chart_service_names (fst (is_values S)) (snd (is_values S))) (\<lambda>services.
       Inr (reserve_hosts ''values.yaml (reserved: a chart service, published or not)'' services
             (reserve_hosts ''cloudflare.tf launcher_services'' launcher
               (reserve_hosts (''a chart template'' @ [CHR 39] @ ''s own Ingress'') templates
                 (reserve_hosts (base_name (fst (is_neo4j S))) neo4j
                   (reserve_hosts (base_name (fst (is_ingress S)) @ '' $routes'') routes [])))))))))) "

definition wildcard_violation :: "string \<Rightarrow> string \<Rightarrow> string" where
  "wildcard_violation label repo =
     ''POLICY: label '' @ [CHR 39] @ label @ [CHR 39] @ '' (declared by '' @ repo @ '') is a wildcard '' @ em_dash @ '' ''
     @ ''consumers.tfvars policy forbids wildcard labels.''"

definition collision_violation :: "string \<Rightarrow> string \<Rightarrow> string \<Rightarrow> string" where
  "collision_violation label repo source =
     ''COLLISION: label '' @ [CHR 39] @ label @ [CHR 39] @ '' (declared by '' @ repo @ '') collides with the ''
     @ ''infra-owned host '' @ [CHR 39] @ str_lower label @ ''.prod.fuzefront.com'' @ [CHR 39] @ '' (owned via '' @ source @ ''). ''
     @ ''Publishing this label would give a consumer'' @ [CHR 39] @ ''s un-gated ('' @ quoted ''bypass'' @ '') ''
     @ ''Cloudflare Access app the same public hostname as an infra service.''"

definition label_violations :: "(string \<times> string) list \<Rightarrow> string \<times> string \<Rightarrow> string list" where
  "label_violations owned entry =
     (case entry of (label, repo) \<Rightarrow>
        if CHR ''*'' \<in> set label then [wildcard_violation label repo]
        else (case map_of owned (str_lower label) of
                None \<Rightarrow> [] | Some source \<Rightarrow> [collision_violation label repo source]))"

definition check_hosts :: "infra_sources \<Rightarrow> string option \<Rightarrow> guard_error + string list" where
  "check_hosts S consumers =
     and_then (derive_infra_owned_hosts S) (\<lambda>owned.
       Inr (concat (map (label_violations owned) (parse_consumer_labels consumers))))"

text \<open>The exit code and the lines printed; an exception of the interpreter ends with code 1.\<close>

definition guard_main :: "infra_sources \<Rightarrow> string option \<Rightarrow> int \<times> string list" where
  "guard_main S consumers =
     (case check_hosts S consumers of
        Inl (Moved message) \<Rightarrow> (1, [''ERROR: '' @ message])
      | Inl Crashed \<Rightarrow> (1, [])
      | Inr violations \<Rightarrow>
          (if violations \<noteq> []
           then (1, [''Consumer host collision guard: FAILED'' @ newline] @ map (\<lambda>v. ''  - '' @ v) violations
                  @ [newline @ ''Fix: remove/rename the offending label in the declaring repo'' @ [CHR 39] @ ''s ''
                     @ ''deploy/cf/hosts.yaml and re-trigger the cf-hosts-declare dispatch. ''
                     @ ''See governance/cf-host-declaration.md.''])
           else (0, [''Consumer host collision guard: OK '' @ em_dash @ '' no collisions, no wildcard labels.''])))"

end
