(* ===== verification/CfMaterialize.thy ===== *)
theory CfMaterialize
  imports CfHosts
begin

text \<open>
  scripts-tools/materialize_cf_hosts.py: the declaration of a consumer is checked against the policy and
  written into the registry. The declaration that GitHub answers with and the sources of the guard are
  parameters.
\<close>

section \<open>Policy\<close>

definition NON_CHART_RESERVED :: "string list" where
  "NON_CHART_RESERVED = [''app'', ''auth'', ''plan'', ''fuzehub'', ''argocd'', ''www'']"

text \<open>When the derivation fails, for whatever reason, the fixed names remain (and a warning is printed when the
  module is loaded, which is not part of the run).\<close>

definition reserved_labels :: "infra_sources \<Rightarrow> string list" where
  "reserved_labels S =
     (case derive_infra_owned_hosts S of Inl _ \<Rightarrow> NON_CHART_RESERVED | Inr owned \<Rightarrow> NON_CHART_RESERVED @ map fst owned)"

definition ALLOWED_ORG :: string where
  "ALLOWED_ORG = ''izzywdev''"

definition dns_char :: "char \<Rightarrow> bool" where
  "dns_char c \<longleftrightarrow> is_lower c \<or> is_digit c \<or> c = CHR ''-''"

text \<open>\<open>^[a-z0-9]([a-z0-9\-]*[a-z0-9])?(\.[a-z0-9]([a-z0-9\-]*[a-z0-9])?)*$\<close>; the dollar also matches before a
  final newline.\<close>

definition dns_part :: "string \<Rightarrow> bool" where
  "dns_part p \<longleftrightarrow> p \<noteq> [] \<and> list_all dns_char p \<and> hd p \<noteq> CHR ''-'' \<and> last p \<noteq> CHR ''-''"

definition dns_label :: "string \<Rightarrow> bool" where
  "dns_label s \<longleftrightarrow> list_all dns_part (split_on (\<lambda>c. c = CHR ''.'') s)"

definition valid_label :: "string \<Rightarrow> bool" where
  "valid_label s \<longleftrightarrow> dns_label s \<or> (suffix newline s \<and> dns_label (butlast s))"

definition wildcard_label_error :: "json \<Rightarrow> string" where
  "wildcard_label_error label =
     ''POLICY: wildcards not allowed '' @ em_dash @ '' label '' @ [CHR 39] @ py_str label @ [CHR 39] @ '' contains ''
     @ quoted ''*''"

definition invalid_label_error :: "string \<Rightarrow> string" where
  "invalid_label_error label =
     ''POLICY: label '' @ [CHR 39] @ label @ [CHR 39] @ '' is not a valid DNS label ''
     @ ''(lowercase alphanumeric + hyphens, dots for nesting, no leading/trailing hyphens)''"

definition reserved_label_error :: "string \<Rightarrow> string" where
  "reserved_label_error label =
     ''POLICY: label '' @ [CHR 39] @ label @ [CHR 39] @ '' is reserved by FuzeInfra bare terraform''"

definition access_error :: "json \<Rightarrow> string \<Rightarrow> string" where
  "access_error access label =
     ''POLICY: access '' @ [CHR 39] @ py_str access @ [CHR 39] @ '' for label '' @ [CHR 39] @ label @ [CHR 39] @ '' is not allowed ''
     @ ''(only: bypass). Admin UIs must be declared manually in cloudflare.tf.''"

definition owned_error :: "string \<Rightarrow> string \<Rightarrow> string \<Rightarrow> string" where
  "owned_error label owner repo =
     ''POLICY: label '' @ [CHR 39] @ label @ [CHR 39] @ '' is already owned by '' @ [CHR 39] @ owner @ [CHR 39] @ '' '' @ em_dash
     @ '' cannot be claimed by '' @ [CHR 39] @ repo @ [CHR 39]"

text \<open>None is an exception.\<close>

definition validate_label :: "string list \<Rightarrow> string \<Rightarrow> (string \<times> string) list \<Rightarrow> string \<Rightarrow> json \<Rightarrow> string list option" where
  "validate_label reserved repo registry label access =
     guard_opt (hashable access)
       (Some ((if valid_label label then [] else [invalid_label_error label])
          @ (if List.member reserved label then [reserved_label_error label] else [])
          @ (if access = JStr ''bypass'' then [] else [access_error access label])
          @ (case map_of registry label of
               None \<Rightarrow> []
             | Some owner \<Rightarrow> if owner \<noteq> [] \<and> owner \<noteq> repo then [owned_error label owner repo] else [])))"

definition validate_host :: "string list \<Rightarrow> string \<Rightarrow> (string \<times> string) list \<Rightarrow> json \<Rightarrow> string list option" where
  "validate_host reserved repo registry entry =
     do { label \<leftarrow> jget_d entry ''label'' (JStr []); access \<leftarrow> jget_d entry ''access'' (JStr []);
          if \<not> truthy label then Some [''POLICY: entry missing required '' @ quoted ''label'' @ '' field'']
          else do { star \<leftarrow> star_in label;
                    if star then Some [wildcard_label_error label]
                    else do { label \<leftarrow> as_text label; validate_label reserved repo registry label access } } }"

definition org_of :: "string \<Rightarrow> string" where
  "org_of repo = hd (split_on (\<lambda>c. c = CHR ''/'') repo)"

definition validate_hosts ::
  "string list \<Rightarrow> string \<Rightarrow> json \<Rightarrow> (string \<times> string) list \<Rightarrow> string list option" where
  "validate_hosts reserved repo manifest registry =
     (if org_of repo \<noteq> ALLOWED_ORG
      then Some [''POLICY: declaring repo '' @ [CHR 39] @ repo @ [CHR 39] @ '' is not under org '' @ quoted ALLOWED_ORG]
      else do { app \<leftarrow> jget_d manifest ''app'' (JStr []);
                hosts \<leftarrow> jget_d manifest ''hosts'' (JList []);
                (let missing = (if truthy app then [] else [''POLICY: manifest missing required '' @ quoted ''app'' @ '' field''])
                 in if \<not> truthy hosts then Some (missing @ [''POLICY: manifest declares no hosts''])
                    else do { entries \<leftarrow> jiter hosts; es \<leftarrow> those (map (validate_host reserved repo registry) entries);
                              Some (missing @ concat es) }) })"

section \<open>The registry and its file\<close>

text \<open>The materializer has its own copy of the guard's parser.\<close>

definition parse_consumers_tfvars :: "string option \<Rightarrow> (string \<times> string) list" where
  parse_consumers_tfvars_eq [simp]: "parse_consumers_tfvars content = parse_consumer_labels content"

definition declared_labels :: "json \<Rightarrow> string list option" where
  "declared_labels manifest =
     do { hosts \<leftarrow> jget_d manifest ''hosts'' (JList []); entries \<leftarrow> jiter hosts;
          those (map (\<lambda>e. do { label \<leftarrow> jidx e ''label''; as_text label }) entries) }"

definition build_registry :: "string \<Rightarrow> string list \<Rightarrow> (string \<times> string) list \<Rightarrow> (string \<times> string) list" where
  "build_registry repo labels registry =
     fold (\<lambda>label m. AList.update label repo m) labels (filter (\<lambda>e. snd e \<noteq> repo) registry)"

definition rule :: string where
  "rule = ''# '' @ replicate 77 CHR ''=''"

definition TFVARS_HEADER :: string where
  "TFVARS_HEADER = concat (map (\<lambda>l. l @ newline)
     [rule,
      ''# GENERATED '' @ em_dash @ '' materialized consumer declarations. DO NOT HAND-EDIT.'',
      ''#'',
      ''# This file is the ONLY place consumer-specific data enters FuzeInfra'' @ [CHR 39] @ ''s'',
      ''# terraform. The bare setup (../*.tf) is consumer-free by invariant; CI loads'',
      ''# this file via -var-file. Source of truth is each consumer repo'' @ [CHR 39] @ ''s own'',
      ''# declaration (deploy/cf/hosts.yaml); entries are materialized here by the'',
      ''# consumer-dispatch flow (repository_dispatch -> validate against policy ->'',
      ''# auto-PR -> saved-plan gate -> deliberate merge applies).'',
      ''#'',
      ''# Policy reminders: labels must not collide, no wildcards, bypass only for'',
      ''# hosts whose app owns its own auth '' @ em_dash @ '' admin UIs get gated Access apps in'',
      ''# cloudflare.tf instead.'',
      rule])"

definition quoted_label :: "string \<Rightarrow> string" where
  "quoted_label label = [dquote] @ label @ [dquote]"

definition label_row :: "nat \<Rightarrow> string \<Rightarrow> string \<Rightarrow> string" where
  "label_row pad repo label =
     (let key = quoted_label label
      in ''  '' @ key @ replicate (pad - text_len key) CHR '' '' @ ''= '' @ [dquote] @ repo @ [dquote] @ '' # ''
         @ label @ ''.prod.fuzefront.com'')"

definition repo_block :: "nat \<Rightarrow> (string \<times> string) list \<Rightarrow> string \<Rightarrow> string list" where
  "repo_block pad registry repo =
     (''  # '' @ repo) # map (label_row pad repo) (sort (map fst (filter (\<lambda>e. snd e = repo) registry))) @ [[]]"

definition render_tfvars :: "(string \<times> string) list \<Rightarrow> string" where
  "render_tfvars registry =
     (if registry = [] then TFVARS_HEADER @ newline @ ''public_app_hosts = {}'' @ newline
      else (let pad = Max (set (map (\<lambda>e. text_len (quoted_label (fst e))) registry)) + 2;
                repos = sort (remdups (map snd registry))
            in str_join newline ([TFVARS_HEADER, ''public_app_hosts = {''] @ concat (map (repo_block pad registry) repos) @ [''}''])
               @ newline))"

section \<open>The program\<close>

definition name_list :: "string list \<Rightarrow> string" where
  "name_list xs = json_repr (JList (map JStr (sort xs)))"

definition change_lines :: "(string \<times> string) list \<Rightarrow> (string \<times> string) list \<Rightarrow> string list" where
  "change_lines old new =
     (let added = filter (\<lambda>k. map_of old k = None) (map fst new);
          removed = filter (\<lambda>k. map_of new k = None) (map fst old);
          changed = filter (\<lambda>k. map_of old k \<noteq> None \<and> map_of old k \<noteq> map_of new k) (map fst new)
      in (if added \<noteq> [] then [''  + Added:   '' @ name_list added] else [])
         @ (if removed \<noteq> [] then [''  - Removed: '' @ name_list removed] else [])
         @ (if changed \<noteq> [] then [''  ~ Changed: '' @ name_list changed] else [])
         @ (if added = [] \<and> removed = [] \<and> changed = [] then [''  (no label changes, content reformatted)''] else []))"

record cf_args =
  ca_repo :: string
  ca_ref :: string
  ca_dry_run :: bool
  ca_token :: bool

text \<open>The exit code, the lines printed and the registry file after the run.\<close>

type_synonym cf_outcome = "int \<times> string list \<times> string option"

definition write_registry ::
  "cf_args \<Rightarrow> json \<Rightarrow> (string \<times> string) list \<Rightarrow> string option \<Rightarrow> cf_outcome option" where
  "write_registry a manifest registry file =
     do { labels \<leftarrow> declared_labels manifest;
          (let new = build_registry (ca_repo a) labels registry; content = render_tfvars new
           in if content = (case file of None \<Rightarrow> [] | Some t \<Rightarrow> t)
              then Some (0, [newline @ ''No change '' @ em_dash @ '' consumers.tfvars already matches the declaration.'',
                             ''RESULT: NO_CHANGE''], file)
              else if ca_dry_run a
              then Some (0, [newline @ ''--- consumers.tfvars would become ---'', content,
                             ''-------------------------------------'',
                             ''RESULT: WOULD_CHANGE (dry-run, not written)''], file)
              else Some (0, [newline @ ''Materialized '' @ ca_repo a @ '':''] @ change_lines registry new
                            @ [''RESULT: CHANGED''], Some content)) }"

definition loaded_line :: "json \<Rightarrow> string option" where
  "loaded_line manifest =
     do { app \<leftarrow> jget manifest ''app''; hosts \<leftarrow> jget_d manifest ''hosts'' (JList []); n \<leftarrow> json_len hosts;
          Some (''  Loaded: app='' @ py_str app @ '', '' @ show_int (int n) @ '' host(s)'') }"

text \<open>\<open>fetched\<close> is None when the repository has no declaration; None as a result is an exception, which leaves
  the file as it was.\<close>

definition materialize_main :: "infra_sources \<Rightarrow> cf_args \<Rightarrow> json option \<Rightarrow> string option \<Rightarrow> cf_outcome option" where
  "materialize_main S a fetched file =
     (if \<not> ca_token a then Some (2, [''ERROR: set GH_TOKEN or GITHUB_TOKEN''], file)
      else (let fetching = ''Fetching deploy/cf/hosts.yaml from '' @ ca_repo a @ ''@'' @ ca_ref a @ ''...''
        in case fetched of
             None \<Rightarrow>
               Some (0, [fetching, ''ERROR: '' @ ca_repo a @ '' has no deploy/cf/hosts.yaml at '' @ ca_ref a @ '' '' @ em_dash
                     @ '' nothing to do.'', ''RESULT: NO_MANIFEST''], file)
           | Some manifest \<Rightarrow>
               do { loaded \<leftarrow> loaded_line manifest;
                    (let registry = parse_consumers_tfvars file;
                         start = [fetching, loaded, ''  Current registry: '' @ show_int (int (length registry)) @ '' entries across ''
                                  @ show_int (int (length (remdups (map snd registry)))) @ '' repo(s)'']
                     in do { errors \<leftarrow> validate_hosts (reserved_labels S) (ca_repo a) manifest registry;
                             if errors \<noteq> []
                             then Some (1, start @ [newline @ ''POLICY VIOLATIONS:''] @ map (\<lambda>e. ''  '' @ e) errors
                                        @ [newline @ ''REJECTED '' @ em_dash @ '' fix violations before re-declaring.'',
                                           ''RESULT: REJECTED''], file)
                             else do { (code, lines, file') \<leftarrow> write_registry a manifest registry file;
                                       Some (code, start @ lines, file') } }) }))"

end
