(* ===== verification/CfHosts_Properties.thy ===== *)
theory CfHosts_Properties
  imports CfMaterialize
begin

text \<open>
  The file of the registry is read back as it was written; a run changes only the labels of its own
  repository; and what the materializer writes passes the collision guard.
\<close>

section \<open>Reading the rendered file\<close>

text \<open>A text that stands between quotes on one line.\<close>

definition plain :: "string \<Rightarrow> bool" where
  "plain s \<longleftrightarrow> s \<noteq> [] \<and> list_all (\<lambda>c. c \<noteq> dquote \<and> \<not> is_linebreak c) s"

definition plain_registry :: "(string \<times> string) list \<Rightarrow> bool" where
  "plain_registry registry \<longleftrightarrow> distinct (map fst registry) \<and> list_all (\<lambda>(l, r). plain l \<and> plain r) registry"

lemma quoted_part_word:
  assumes "list_all (\<lambda>c. c \<noteq> dquote) w" and "w \<noteq> []"
  shows "quoted_part (\<lambda>c. c \<noteq> dquote) (dquote # w @ dquote # rest) = Some (w, rest)"
proof -
  have "takeWhile (\<lambda>c. c \<noteq> dquote) (w @ dquote # rest) = w" "dropWhile (\<lambda>c. c \<noteq> dquote) (w @ dquote # rest) = dquote # rest"
    using assms(1) by (induction w) auto
  then show ?thesis using assms(2) by (simp add: quoted_part_def Let_def)
qed

lemma lstrip_blanks: "lstrip (replicate n CHR '' '' @ s) = lstrip s"
  by (induction n) (simp_all add: lstrip_def is_space_def)

lemma lstrip_id: "s = [] \<or> \<not> is_space (hd s) \<Longrightarrow> lstrip s = s"
  by (cases s) (auto simp: lstrip_def)

lemma rstrip_snoc: "\<not> is_space c \<Longrightarrow> rstrip (s @ [c]) = s @ [c]"
  by (simp add: rstrip_def)

lemma quote_facts [simp]: "\<not> is_space dquote" "\<not> is_linebreak dquote" "\<not> is_space CHR ''=''" "is_space CHR '' ''"
  by (simp_all add: dquote_def is_space_def is_linebreak_def)

lemma label_line_row:
  assumes "plain label" and "plain repo"
  shows "label_line (str_strip (label_row pad repo label)) = Some (label, repo)"
proof -
  have q: "list_all (\<lambda>c. c \<noteq> dquote) label" "label \<noteq> []" "list_all (\<lambda>c. c \<noteq> dquote) repo" "repo \<noteq> []"
    using assms by (auto simp: plain_def list_all_iff)
  define blanks where "blanks = replicate (pad - text_len (quoted_label label)) CHR '' ''"
  define tail' where "tail' = '' # '' @ label @ ''.prod.fuzefront.com''"
  have row: "label_row pad repo label = ''  '' @ (dquote # label @ dquote # blanks @ ''= '' @ dquote # repo @ dquote # tail')"
    by (simp add: label_row_def Let_def quoted_label_def blanks_def tail'_def)
  have "lstrip (label_row pad repo label) = dquote # label @ dquote # blanks @ ''= '' @ dquote # repo @ dquote # tail'"
    unfolding row by (simp add: lstrip_def)
  moreover have "rstrip (x @ tail') = x @ tail'" for x
  proof -
    have "x @ tail' = (x @ '' # '' @ label @ ''.prod.fuzefront.co'') @ [CHR ''m'']" by (simp add: tail'_def)
    moreover have "\<not> is_space CHR ''m''" by (simp add: is_space_def)
    ultimately show ?thesis using rstrip_snoc by metis
  qed
  ultimately have "str_strip (label_row pad repo label) = dquote # label @ dquote # blanks @ ''= '' @ dquote # repo @ dquote # tail'"
    by (metis str_strip_def append_Cons append_assoc append_Nil)
  moreover have "lstrip (blanks @ ''= '' @ dquote # repo @ dquote # tail') = ''= '' @ dquote # repo @ dquote # tail'"
    unfolding blanks_def lstrip_blanks by (simp add: lstrip_def)
  moreover have "lstrip ('' '' @ dquote # repo @ dquote # tail') = dquote # repo @ dquote # tail'"
    by (simp add: lstrip_def)
  ultimately show ?thesis
    using quoted_part_word [OF q(1,2)] quoted_part_word [OF q(3,4)] by (simp add: label_line_def)
qed

definition line_entry :: "string \<Rightarrow> (string \<times> string) option" where
  "line_entry line = label_line (str_strip line)"

definition file_entries :: "string \<Rightarrow> (string \<times> string) list" where
  "file_entries text = List.map_filter line_entry (text_lines text)"

lemma split_on_sep: "p c \<Longrightarrow> split_on p (a @ c # b) = split_on p a @ split_on p b"
  by (induction a) (auto split: list.splits)

lemma split_on_none: "list_all (\<lambda>c. \<not> p c) s \<Longrightarrow> split_on p s = [s]"
  by (induction s) auto

lemma file_entries_newline: "file_entries (a @ newline @ b) = file_entries a @ file_entries b"
  using split_on_sep [of is_linebreak "CHR 10" a b]
  by (simp add: file_entries_def text_lines_def newline_def is_linebreak_def map_filter_def)

lemma file_entries_join: "ls \<noteq> [] \<Longrightarrow> file_entries (str_join newline ls) = concat (map file_entries ls)"
  by (induction newline ls rule: str_join.induct) (simp_all add: file_entries_newline)

lemma file_entries_line: "list_all (\<lambda>c. \<not> is_linebreak c) s \<Longrightarrow> file_entries s = (case line_entry s of None \<Rightarrow> [] | Some e \<Rightarrow> [e])"
  by (simp add: file_entries_def text_lines_def split_on_none map_filter_def split: option.splits)

lemma file_entries_fixed:
  "file_entries ''public_app_hosts = {'' = []" "file_entries ''public_app_hosts = {}'' = []" "file_entries ''}'' = []" "file_entries [] = []"
  by code_simp+

lemma file_entries_hash: "list_all (\<lambda>c. \<not> is_linebreak c) s \<Longrightarrow> file_entries (CHR ''#'' # s) = []"
proof -
  have "rstrip (CHR ''#'' # s) = CHR ''#'' # rstrip s" for s
    by (auto simp: rstrip_def dropWhile_append is_space_def)
  moreover assume "list_all (\<lambda>c. \<not> is_linebreak c) s"
  ultimately show ?thesis
    by (simp add: file_entries_line line_entry_def is_linebreak_def str_strip_def lstrip_def is_space_def label_line_def
        quoted_part_def dquote_def)
qed

lemma file_entries_ended: "file_entries (concat (map (\<lambda>l. l @ newline) ls)) = concat (map file_entries ls)"
  by (induction ls) (simp_all add: file_entries_newline file_entries_fixed)

definition comment_line :: "string \<Rightarrow> bool" where
  "comment_line l \<longleftrightarrow> l \<noteq> [] \<and> hd l = CHR ''#'' \<and> list_all (\<lambda>c. \<not> is_linebreak c) (tl l)"

definition header_lines :: "string list" where
  "header_lines = butlast (split_on (\<lambda>c. c = CHR 10) TFVARS_HEADER)"

lemma file_entries_header: "file_entries TFVARS_HEADER = []"
proof -
  have h: "TFVARS_HEADER = concat (map (\<lambda>l. l @ newline) header_lines) \<and> list_all comment_line header_lines"
    by code_simp
  have "file_entries l = []" if "l \<in> set header_lines" for l
    using h that file_entries_hash [of "tl l"] by (cases l) (auto simp: list_all_iff comment_line_def)
  then show ?thesis using h file_entries_ended [of header_lines] by simp
qed

lemma file_entries_row: "plain label \<Longrightarrow> plain repo \<Longrightarrow> file_entries (label_row pad repo label) = [(label, repo)]"
proof -
  assume p: "plain label" "plain repo"
  have q: "list_all (\<lambda>c. \<not> is_linebreak c) label" "list_all (\<lambda>c. \<not> is_linebreak c) repo"
    using p by (simp_all add: plain_def list_all_iff)
  have c: "list_all (\<lambda>c. \<not> is_linebreak c) ''  ''" "list_all (\<lambda>c. \<not> is_linebreak c) ''= ''"
      "list_all (\<lambda>c. \<not> is_linebreak c) '' # ''" "list_all (\<lambda>c. \<not> is_linebreak c) ''.prod.fuzefront.com''"
      "\<not> is_linebreak CHR '' ''"
    by code_simp+
  have "list_all (\<lambda>c. \<not> is_linebreak c) (label_row pad repo label)"
    unfolding label_row_def Let_def quoted_label_def list_all_append
    using q c by (auto simp: list_all_length)
  from file_entries_line [OF this] label_line_row [OF p] show ?thesis by (simp add: line_entry_def)
qed

lemma file_entries_comment: "plain repo \<Longrightarrow> file_entries (''  # '' @ repo) = []"
proof -
  assume p: "plain repo"
  have "list_all (\<lambda>c. \<not> is_linebreak c) ''  # ''" by code_simp
  then have "list_all (\<lambda>c. \<not> is_linebreak c) (''  # '' @ repo)"
    using p unfolding list_all_append by (simp add: plain_def list_all_iff)
  moreover have "label_line (str_strip (''  # '' @ repo)) = None"
  proof -
    have "lstrip (''  # '' @ repo) = CHR ''#'' # CHR '' '' # repo" by (simp add: lstrip_def is_space_def)
    moreover have "rstrip (CHR ''#'' # s) = CHR ''#'' # rstrip s" for s
      by (auto simp: rstrip_def dropWhile_append is_space_def)
    ultimately show ?thesis by (simp add: str_strip_def label_line_def quoted_part_def dquote_def)
  qed
  ultimately show ?thesis by (simp add: file_entries_line line_entry_def)
qed

lemma set_file_entries_block:
  assumes "plain_registry registry" and "plain repo"
  shows "set (concat (map file_entries (repo_block pad registry repo))) = {e \<in> set registry. snd e = repo}"
proof -
  have p: "plain l" if "(l, r) \<in> set registry" for l r using assms(1) that by (auto simp: plain_registry_def list_all_iff)
  have "concat (map file_entries (map (label_row pad repo) ls)) = map (\<lambda>l. (l, repo)) ls" if "list_all plain ls" for ls
    using that by (induction ls) (simp_all add: file_entries_row assms(2))
  moreover have "list_all plain (sort (map fst (filter (\<lambda>e. snd e = repo) registry)))"
    using p by (auto simp: list_all_iff)
  ultimately have "concat (map file_entries (repo_block pad registry repo))
      = map (\<lambda>l. (l, repo)) (sort (map fst (filter (\<lambda>e. snd e = repo) registry)))"
    using file_entries_comment [OF assms(2)] by (simp add: repo_block_def file_entries_fixed)
  then show ?thesis by (auto simp: image_iff)
qed

lemma set_file_entries:
  assumes "plain_registry registry" shows "set (file_entries (render_tfvars registry)) = set registry"
proof (cases "registry = []")
  case True
  then show ?thesis
    using file_entries_newline [of TFVARS_HEADER "''public_app_hosts = {}'' @ newline"]
      file_entries_newline [of "''public_app_hosts = {}''" "[]"]
    by (simp add: render_tfvars_def file_entries_fixed file_entries_header)
next
  case False
  define pad where "pad = Max (set (map (\<lambda>e. text_len (quoted_label (fst e))) registry)) + 2"
  define repos where "repos = sort (remdups (map snd registry))"
  have p: "plain r" if "r \<in> set repos" for r
    using assms that by (auto simp: repos_def plain_registry_def list_all_iff)
  have "render_tfvars registry
      = str_join newline ([TFVARS_HEADER, ''public_app_hosts = {''] @ concat (map (repo_block pad registry) repos) @ [''}'']) @ newline @ []"
    using False by (simp add: render_tfvars_def Let_def pad_def repos_def)
  then have "file_entries (render_tfvars registry)
      = file_entries (str_join newline ([TFVARS_HEADER, ''public_app_hosts = {''] @ concat (map (repo_block pad registry) repos) @ [''}'']))
        @ file_entries []"
    by (simp only: file_entries_newline)
  also have "\<dots> = concat (map file_entries (concat (map (repo_block pad registry) repos)))"
    using file_entries_fixed file_entries_header by (subst file_entries_join) (simp_all del: str_join.simps)
  finally have "file_entries (render_tfvars registry)
      = concat (map file_entries (concat (map (repo_block pad registry) repos)))" .
  also have "\<dots> = concat (map (\<lambda>r. concat (map file_entries (repo_block pad registry r))) repos)"
    by (induction repos) simp_all
  finally have "set (file_entries (render_tfvars registry))
      = (\<Union>r \<in> set repos. set (concat (map file_entries (repo_block pad registry r))))" by simp
  also have "\<dots> = (\<Union>r \<in> set repos. {e \<in> set registry. snd e = r})"
    using set_file_entries_block [OF assms p] by simp
  also have "\<dots> = set registry" by (auto simp: repos_def)
  finally show ?thesis .
qed

lemma parse_entries:
  "parse_consumer_labels (Some text) = foldl (\<lambda>m (l, r). AList.update l r m) [] (file_entries text)"
proof -
  have "foldl add_line m lines = foldl (\<lambda>m (l, r). AList.update l r m) m (List.map_filter line_entry lines)" for m lines
    by (induction lines arbitrary: m) (auto simp: add_line_def line_entry_def map_filter_def split: option.splits)
  then show ?thesis by (simp add: parse_consumer_labels_def file_entries_def)
qed

lemma map_of_updates:
  assumes "\<forall>(k, v) \<in> set es. g k = Some v"
  shows "map_of (foldl (\<lambda>m (l, r). AList.update l r m) m es) k = (if k \<in> fst ` set es then g k else map_of m k)"
  using assms by (induction es arbitrary: m) (auto simp: update_conv')

lemma parse_rendered:
  assumes "plain_registry registry"
  shows "map_of (parse_consumer_labels (Some (render_tfvars registry))) = map_of registry"
proof
  fix k
  have g: "\<forall>(k, v) \<in> set (file_entries (render_tfvars registry)). map_of registry k = Some v"
    using assms by (auto simp: set_file_entries [OF assms] plain_registry_def)
  show "map_of (parse_consumer_labels (Some (render_tfvars registry))) k = map_of registry k"
    unfolding parse_entries map_of_updates [OF g] set_file_entries [OF assms]
    using map_of_eq_None_iff [of registry k] by (cases "k \<in> fst ` set registry") simp_all
qed

text \<open>C23: the file that the materializer writes for a registry of plain labels and repositories is read back,
  by itself and by the collision guard, as that registry.\<close>

theorem tfvars_roundtrip:
  assumes "plain_registry registry"
  shows "map_of (parse_consumer_labels (Some (render_tfvars registry))) = map_of registry"
  using assms by (rule parse_rendered)

definition demo_registry :: "(string \<times> string) list" where
  "demo_registry = [(''keys'', ''izzywdev/FuzeKeys''), (''api.keys'', ''izzywdev/FuzeKeys''), (''picker'', ''izzywdev/FuzePicker'')]"

theorem tfvars_roundtrip_witness:
  "map_of (parse_consumer_labels (Some (render_tfvars demo_registry))) ''picker'' = Some ''izzywdev/FuzePicker''"
proof -
  have "plain_registry demo_registry" by code_simp
  from tfvars_roundtrip [OF this] show ?thesis by (simp add: demo_registry_def)
qed

section \<open>What is read is plain\<close>

lemma quoted_part_plain:
  assumes "quoted_part (\<lambda>c. c \<noteq> dquote) s = Some (w, rest)" and "list_all (\<lambda>c. \<not> is_linebreak c) s"
  shows "plain w \<and> list_all (\<lambda>c. \<not> is_linebreak c) rest"
proof -
  obtain t where s: "s = dquote # t" and w: "w = takeWhile (\<lambda>c. c \<noteq> dquote) t" "w \<noteq> []"
    and r: "rest = tl (dropWhile (\<lambda>c. c \<noteq> dquote) t)"
    using assms(1) by (auto simp: quoted_part_def Let_def split: list.split_asm if_split_asm)
  have "set w \<subseteq> set t" by (auto simp: w dest: set_takeWhileD)
  moreover have "set rest \<subseteq> set t"
    by (auto simp: r) (metis list.set_sel(2) set_dropWhileD tl_Nil)
  ultimately show ?thesis using assms(2) w by (auto simp: s plain_def list_all_iff dest: set_takeWhileD)
qed

lemma lstrip_no_break: "list_all p s \<Longrightarrow> list_all p (lstrip s)"
  by (auto simp: lstrip_def list_all_iff dest: set_dropWhileD)

lemma strip_no_break: "list_all p s \<Longrightarrow> list_all p (str_strip s)"
  by (auto simp: str_strip_def rstrip_def lstrip_def list_all_iff) (metis set_dropWhileD set_rev)

lemma label_line_plain:
  assumes "label_line line = Some (label, repo)" and "list_all (\<lambda>c. \<not> is_linebreak c) line"
  shows "plain label \<and> plain repo"
proof -
  from assms(1) obtain label' rest where l: "quoted_part (\<lambda>c. c \<noteq> dquote) line = Some (label', rest)"
    and c: "(case lstrip rest of [] \<Rightarrow> None
      | c # t \<Rightarrow> if c = CHR ''='' then map_option (\<lambda>(repo, _). (label', repo)) (quoted_part (\<lambda>c. c \<noteq> dquote) (lstrip t)) else None)
      = Some (label, repo)"
    unfolding label_line_def by (cases "quoted_part (\<lambda>c. c \<noteq> dquote) line") auto
  from c obtain t rest' where r: "lstrip rest = CHR ''='' # t"
    "quoted_part (\<lambda>c. c \<noteq> dquote) (lstrip t) = Some (repo, rest')" and l': "label' = label"
    by (cases "lstrip rest") (auto split: if_split_asm)
  from quoted_part_plain [OF l assms(2)] have p: "plain label'" and "list_all (\<lambda>c. \<not> is_linebreak c) (lstrip rest)"
    using lstrip_no_break by auto
  then have "list_all (\<lambda>c. \<not> is_linebreak c) (lstrip t)" using lstrip_no_break by (simp add: r(1))
  from quoted_part_plain [OF r(2) this] p show ?thesis by (simp add: l')
qed

lemma parsed_plain: "plain_registry (parse_consumer_labels content)"
proof (cases content)
  case (Some s)
  have step: "plain_registry (add_line m line)" if "plain_registry m" "list_all (\<lambda>c. \<not> is_linebreak c) line" for m line
  proof (cases "label_line (str_strip line)")
    case (Some e)
    obtain l r where e: "e = (l, r)" by (cases e)
    from label_line_plain [of "str_strip line" l r] Some e strip_no_break [OF that(2)] have "plain l" "plain r" by auto
    then have "list_all (\<lambda>(l, r). plain l \<and> plain r) (AList.update l r m)" if "list_all (\<lambda>(l, r). plain l \<and> plain r) m"
      using that by (induction m) auto
    then show ?thesis using that(1) Some e by (simp add: add_line_def plain_registry_def distinct_update)
  qed (simp add: add_line_def that(1))
  have "plain_registry (foldl add_line m lines)"
    if "plain_registry m" "\<forall>l \<in> set lines. list_all (\<lambda>c. \<not> is_linebreak c) l" for m lines
    using that by (induction lines arbitrary: m) (simp_all add: step)
  moreover have "\<forall>l \<in> set (text_lines s). list_all (\<lambda>c. \<not> is_linebreak c) l"
    using split_on_no_sep [of is_linebreak s] by (simp add: text_lines_def list_all_iff)
  ultimately show ?thesis by (simp add: Some parse_consumer_labels_def plain_registry_def)
qed (simp add: parse_consumer_labels_def plain_registry_def)

section \<open>A run changes its own labels only\<close>

lemma map_of_build:
  "map_of (build_registry repo labels registry) l
    = (if l \<in> set labels then Some repo else map_of (filter (\<lambda>e. snd e \<noteq> repo) registry) l)"
proof -
  have "map_of (fold (\<lambda>label m. AList.update label repo m) labels m) l = (if l \<in> set labels then Some repo else map_of m l)" for m
    by (induction labels arbitrary: m) (auto simp: update_conv')
  then show ?thesis by (simp add: build_registry_def)
qed

lemma map_of_others:
  assumes "distinct (map fst registry)"
  shows "map_of (filter (\<lambda>e. snd e \<noteq> repo) registry) l = (if map_of registry l = Some repo then None else map_of registry l)"
proof -
  have d: "distinct (map fst (filter (\<lambda>e. snd e \<noteq> repo) registry))" by (rule distinct_map_filter [OF assms])
  have "map_of (filter (\<lambda>e. snd e \<noteq> repo) registry) l = Some v \<longleftrightarrow> map_of registry l = Some v \<and> v \<noteq> repo" for v
    by (auto simp: map_of_eq_Some_iff [OF d] map_of_eq_Some_iff [OF assms])
  then show ?thesis by (metis not_None_eq)
qed

lemma plain_build:
  assumes "plain_registry registry" and "list_all plain labels" and "plain repo"
  shows "plain_registry (build_registry repo labels registry)"
proof -
  have "plain_registry (fold (\<lambda>label m. AList.update label repo m) labels m)" if "plain_registry m" for m
    using assms(2) that
  proof (induction labels arbitrary: m)
    case (Cons l ls)
    have "list_all (\<lambda>(l, r). plain l \<and> plain r) (AList.update l repo m)"
      using Cons.prems assms(3) by (induction m) (auto simp: plain_registry_def)
    then show ?case using Cons by (simp add: plain_registry_def distinct_update)
  qed simp
  moreover have "plain_registry (filter (\<lambda>e. snd e \<noteq> repo) registry)"
    using assms(1) by (auto simp: plain_registry_def list_all_iff intro: distinct_map_filter)
  ultimately show ?thesis by (simp add: build_registry_def)
qed

lemma split_on_covers: "c \<in> set s \<Longrightarrow> p c \<or> (\<exists>w \<in> set (split_on p s). c \<in> set w)"
  by (induction s) (auto split: list.splits)

lemma dns_label_char: "dns_label s \<Longrightarrow> c \<in> set s \<Longrightarrow> c = CHR ''.'' \<or> dns_char c"
  using split_on_covers [of c s "\<lambda>c. c = CHR ''.''"] by (auto simp: dns_label_def dns_part_def list_all_iff)

lemma dns_char_facts:
  assumes "c = CHR ''.'' \<or> dns_char c"
  shows "c \<noteq> dquote" "\<not> is_linebreak c" "c \<noteq> CHR ''*''" "lower_char c = c"
proof -
  have "of_char c = (46 :: nat) \<or> 97 \<le> (of_char c :: nat) \<and> of_char c \<le> (122 :: nat)
      \<or> 48 \<le> (of_char c :: nat) \<and> of_char c \<le> (57 :: nat) \<or> of_char c = (45 :: nat)"
    using assms by (auto simp: dns_char_def is_lower_def is_digit_def)
  then show "c \<noteq> dquote" "\<not> is_linebreak c" "c \<noteq> CHR ''*''" "lower_char c = c"
    by (auto simp: dquote_def is_linebreak_def lower_char_def is_upper_def)
qed

lemma dns_label_plain:
  assumes "dns_label s" shows "plain s" "CHR ''*'' \<notin> set s" "str_lower s = s"
proof -
  have c: "c = CHR ''.'' \<or> dns_char c" if "c \<in> set s" for c by (rule dns_label_char [OF assms that])
  have "s \<noteq> []" using assms by (auto simp: dns_label_def dns_part_def)
  then show "plain s" using dns_char_facts(1,2) c by (auto simp: plain_def list_all_iff)
  show "CHR ''*'' \<notin> set s" using dns_char_facts(3) c by blast
  show "str_lower s = s" using dns_char_facts(4) c by (simp add: str_lower_def map_idI)
qed

lemma valid_label_dns: "valid_label s \<Longrightarrow> CHR 10 \<notin> set s \<Longrightarrow> dns_label s"
  by (auto simp: valid_label_def newline_def suffix_def)

lemma validated_label:
  assumes "validate_hosts reserved repo manifest registry = Some []" and "declared_labels manifest = Some labels"
    and "l \<in> set labels"
  shows "valid_label l \<and> l \<notin> set reserved \<and> (\<forall>owner. map_of registry l = Some owner \<longrightarrow> owner = [] \<or> owner = repo)"
proof -
  from assms(2) obtain hosts entries where h: "jget_d manifest ''hosts'' (JList []) = Some hosts" "jiter hosts = Some entries"
    and ls: "those (map (\<lambda>e. do { label \<leftarrow> jidx e ''label''; as_text label }) entries) = Some labels"
    by (auto simp: declared_labels_def)
  from assms(1) h have v: "\<exists>es. those (map (validate_host reserved repo registry) entries) = Some es \<and> (\<forall>e \<in> set es. e = [])"
    by (auto simp: validate_hosts_def Let_def split: if_split_asm)
  from those_map_SomeD [OF ls assms(3)] obtain e where e: "e \<in> set entries" "jidx e ''label'' = Some (JStr l)"
    by (auto simp: as_text_Some)
  from v e(1) have ve: "validate_host reserved repo registry e = Some []"
    unfolding those_map_Some by (metis (no_types, lifting) image_eqI image_iff list.set_map)
  from e(2) have "jget_d e ''label'' (JStr []) = Some (JStr l)" by (cases e) (simp_all add: dget_def)
  with ve obtain access where "validate_label reserved repo registry l access = Some []"
    by (auto split: if_split_asm simp: validate_host_def)
  then show ?thesis by (auto simp: validate_label_def guard_opt_def split: if_split_asm)
qed

lemma TFVARS_HEADER_not_Nil: "TFVARS_HEADER \<noteq> []"
  by (simp add: TFVARS_HEADER_def rule_def newline_def)

lemma render_not_Nil: "render_tfvars registry \<noteq> []"
  using TFVARS_HEADER_not_Nil by (simp add: render_tfvars_def Let_def newline_def)

lemma run_outcome:
  assumes "materialize_main S a (Some manifest) content = Some (0, out, content')" and "ca_token a" and "\<not> ca_dry_run a"
  obtains labels where "declared_labels manifest = Some labels"
    "validate_hosts (reserved_labels S) (ca_repo a) manifest (parse_consumer_labels content) = Some []"
    "content' = Some (render_tfvars (build_registry (ca_repo a) labels (parse_consumer_labels content)))"
proof -
  define registry where "registry = parse_consumer_labels content"
  from assms obtain lines where v: "validate_hosts (reserved_labels S) (ca_repo a) manifest registry = Some []"
    and w: "write_registry a manifest registry content = Some (0, lines, content')"
    by (auto simp: materialize_main_def Let_def registry_def split: if_split_asm)
  from w obtain labels where l: "declared_labels manifest = Some labels"
    and c: "(if render_tfvars (build_registry (ca_repo a) labels registry) = (case content of None \<Rightarrow> [] | Some t \<Rightarrow> t)
        then content' = content else content' = Some (render_tfvars (build_registry (ca_repo a) labels registry)))"
    using assms(3) by (auto simp: write_registry_def Let_def split: if_split_asm)
  have "content' = Some (render_tfvars (build_registry (ca_repo a) labels registry))"
    using c render_not_Nil by (cases content) (auto split: if_split_asm)
  with v l that show thesis by (simp add: registry_def)
qed

text \<open>A run as the workflow makes it: for a repository without quotes and line breaks in its name, with labels
  that have no line break.\<close>

definition orderly :: "cf_args \<Rightarrow> json \<Rightarrow> bool" where
  "orderly a manifest \<longleftrightarrow> ca_token a \<and> \<not> ca_dry_run a \<and> plain (ca_repo a)
     \<and> (\<forall>labels. declared_labels manifest = Some labels \<longrightarrow> list_all (\<lambda>l. CHR 10 \<notin> set l) labels)"

lemma run_registry:
  assumes "materialize_main S a (Some manifest) content = Some (0, out, content')" and "orderly a manifest"
  obtains labels where "declared_labels manifest = Some labels"
    "map_of (parse_consumer_labels content') l
      = (if l \<in> set labels then Some (ca_repo a)
         else if map_of (parse_consumer_labels content) l = Some (ca_repo a) then None
         else map_of (parse_consumer_labels content) l)"
    "\<forall>l \<in> set labels. dns_label l \<and> l \<notin> set (reserved_labels S)
       \<and> map_of (parse_consumer_labels content) l \<in> {None, Some (ca_repo a)}"
proof -
  define registry where "registry = parse_consumer_labels content"
  have p: "plain_registry registry" by (simp add: registry_def parsed_plain)
  from assms obtain labels where l: "declared_labels manifest = Some labels"
    and v: "validate_hosts (reserved_labels S) (ca_repo a) manifest registry = Some []"
    and c: "content' = Some (render_tfvars (build_registry (ca_repo a) labels registry))"
    by (auto simp: orderly_def registry_def elim: run_outcome)
  have n: "CHR 10 \<notin> set x" if "x \<in> set labels" for x using assms(2) l that by (auto simp: orderly_def list_all_iff)
  have d: "dns_label x \<and> x \<notin> set (reserved_labels S) \<and> map_of registry x \<in> {None, Some (ca_repo a)}"
    if "x \<in> set labels" for x
  proof -
    have "owner \<noteq> []" if "map_of registry x = Some owner" for owner
      using p map_of_SomeD [OF that] by (auto simp: plain_registry_def plain_def list_all_iff)
    with validated_label [OF v l \<open>x \<in> set labels\<close>] valid_label_dns n [OF \<open>x \<in> set labels\<close>] show ?thesis
      by (cases "map_of registry x") auto
  qed
  have "plain_registry (build_registry (ca_repo a) labels registry)"
    using d dns_label_plain(1) assms(2) by (intro plain_build [OF p]) (auto simp: list_all_iff orderly_def)
  then have "map_of (parse_consumer_labels content') l = map_of (build_registry (ca_repo a) labels registry) l"
    by (simp add: c parse_rendered)
  also have "\<dots> = (if l \<in> set labels then Some (ca_repo a)
         else if map_of registry l = Some (ca_repo a) then None else map_of registry l)"
    using p by (simp add: map_of_build map_of_others plain_registry_def)
  finally show thesis using that l d by (simp add: registry_def)
qed


definition demo_sources :: infra_sources where
  "demo_sources = \<lparr>is_ingress = (''ingress.yaml'', None), is_neo4j = (''n'', None), is_cloudflare = (''c'', None),
     is_templates = (''t'', None), is_values = (''v'', NoValues)\<rparr>"

definition demo_cf_args :: cf_args where
  "demo_cf_args = \<lparr>ca_repo = ''izzywdev/Shop'', ca_ref = ''main'', ca_dry_run = False, ca_token = True\<rparr>"

definition demo_manifest :: json where
  "demo_manifest = JObj [(''app'', JStr ''shop''),
     (''hosts'', JList [JObj [(''label'', JStr ''shop''), (''access'', JStr ''bypass'')]])]"


section \<open>Sequences of runs\<close>

text \<open>The file after a sequence of runs; a run that raises leaves it as it was.\<close>

fun cf_runs :: "(infra_sources \<times> cf_args \<times> json option) list \<Rightarrow> string option \<Rightarrow> string option" where
  "cf_runs [] content = content"
| "cf_runs ((S, a, fetched) # runs) content =
     cf_runs runs (case materialize_main S a fetched content of None \<Rightarrow> content | Some (code, out, content') \<Rightarrow> content')"

lemma failed_run_keeps:
  assumes "materialize_main S a fetched content = Some (code, out, content')" and "code \<noteq> 0 \<or> fetched = None \<or> \<not> ca_token a"
  shows "content' = content"
  using assms
  by (auto simp: materialize_main_def write_registry_def Let_def split: option.split_asm if_split_asm)

text \<open>C16: over any sequence of runs for other repositories, whatever they declare and whatever the sources of
  the guard hold, a repository keeps each label it has.\<close>

theorem labels_never_taken:
  assumes "map_of (parse_consumer_labels content) label = Some repo"
    and "\<forall>(S, a, fetched) \<in> set runs. ca_repo a \<noteq> repo \<and> (\<forall>manifest. fetched = Some manifest \<longrightarrow> orderly a manifest)"
  shows "map_of (parse_consumer_labels (cf_runs runs content)) label = Some repo"
  using assms
proof (induction runs arbitrary: content)
  case (Cons run runs)
  obtain S a fetched where run: "run = (S, a, fetched)" by (cases run)
  define next' where "next' = (case materialize_main S a fetched content of None \<Rightarrow> content | Some (code, out, content') \<Rightarrow> content')"
  have "map_of (parse_consumer_labels next') label = Some repo"
  proof (cases "materialize_main S a fetched content")
    case None
    then show ?thesis using Cons.prems(1) by (simp add: next'_def)
  next
    case (Some r)
    obtain code out content' where r: "r = (code, out, content')" by (cases r)
    show ?thesis
    proof (cases "code = 0 \<and> fetched \<noteq> None")
      case True
      then obtain manifest where f: "fetched = Some manifest" by auto
      from Cons.prems(2) have o: "orderly a manifest" "ca_repo a \<noteq> repo" by (auto simp: run f)
      from Some True have m: "materialize_main S a (Some manifest) content = Some (0, out, content')" by (simp add: r f)
      obtain labels where "map_of (parse_consumer_labels content') label
          = (if label \<in> set labels then Some (ca_repo a)
             else if map_of (parse_consumer_labels content) label = Some (ca_repo a) then None
             else map_of (parse_consumer_labels content) label)"
        and "\<forall>l \<in> set labels. dns_label l \<and> l \<notin> set (reserved_labels S)
             \<and> map_of (parse_consumer_labels content) l \<in> {None, Some (ca_repo a)}"
        by (rule run_registry [OF m o(1), of label])
      with o(2) Cons.prems(1) show ?thesis using Some by (auto simp: next'_def r)
    next
      case False
      with Some failed_run_keeps [of S a fetched content code out content'] have "content' = content" by (auto simp: r)
      then show ?thesis using Some Cons.prems(1) by (simp add: next'_def r)
    qed
  qed
  moreover have "\<forall>(S, a, fetched) \<in> set runs. ca_repo a \<noteq> repo \<and> (\<forall>manifest. fetched = Some manifest \<longrightarrow> orderly a manifest)"
    using Cons.prems(2) by auto
  ultimately have "map_of (parse_consumer_labels (cf_runs runs next')) label = Some repo" by (rule Cons.IH)
  then show ?case by (simp add: run next'_def)
qed simp

section \<open>The guard\<close>

lemma label_violations_Nil:
  "label_violations owned (l, r) = [] \<longleftrightarrow> CHR ''*'' \<notin> set l \<and> map_of owned (str_lower l) = None"
  by (simp add: label_violations_def split: option.splits)

lemma guard_accepts:
  assumes "derive_infra_owned_hosts S = Inr owned"
  shows "check_hosts S content = Inr [] \<longleftrightarrow>
    (\<forall>l r. map_of (parse_consumer_labels content) l = Some r \<longrightarrow> CHR ''*'' \<notin> set l \<and> map_of owned (str_lower l) = None)"
proof -
  have "plain_registry (parse_consumer_labels content)" by (rule parsed_plain)
  then have d: "distinct (map fst (parse_consumer_labels content))" by (simp add: plain_registry_def)
  have "check_hosts S content = Inr [] \<longleftrightarrow> (\<forall>(l, r) \<in> set (parse_consumer_labels content). label_violations owned (l, r) = [])"
    by (auto simp: check_hosts_def assms)
  then show ?thesis by (auto simp: label_violations_Nil map_of_eq_Some_iff [OF d])
qed

text \<open>What the materializer writes passes the collision guard: when the hosts of the infrastructure can be
  derived and the registry passed before, it passes after every run that ends with 0.\<close>

theorem materialized_passes_guard:
  assumes "materialize_main S a (Some manifest) content = Some (0, out, content')" and "orderly a manifest"
    and "derive_infra_owned_hosts S = Inr owned" and "check_hosts S content = Inr []"
  shows "check_hosts S content' = Inr []"
  unfolding guard_accepts [OF assms(3)]
proof (intro allI impI)
  fix l r assume r: "map_of (parse_consumer_labels content') l = Some r"
  obtain labels where m: "map_of (parse_consumer_labels content') l
      = (if l \<in> set labels then Some (ca_repo a)
         else if map_of (parse_consumer_labels content) l = Some (ca_repo a) then None
         else map_of (parse_consumer_labels content) l)"
    and d: "\<forall>l \<in> set labels. dns_label l \<and> l \<notin> set (reserved_labels S)
       \<and> map_of (parse_consumer_labels content) l \<in> {None, Some (ca_repo a)}"
    by (rule run_registry [OF assms(1,2), of l])
  show "CHR ''*'' \<notin> set l \<and> map_of owned (str_lower l) = None"
  proof (cases "l \<in> set labels")
    case True
    with d have "dns_label l" and "l \<notin> fst ` set owned" by (auto simp: reserved_labels_def assms(3))
    then show ?thesis using dns_label_plain(2,3) by (auto simp: map_of_eq_None_iff)
  next
    case False
    with m r have "map_of (parse_consumer_labels content) l = Some r" by (auto split: if_split_asm)
    with assms(4) show ?thesis unfolding guard_accepts [OF assms(3)] by blast
  qed
qed

lemma set_reserve_hosts: "fst ` set (reserve_hosts source hosts owned) = set hosts \<union> fst ` set owned"
proof -
  have "fst ` set (fold (\<lambda>h m. if map_of m h = None then m @ [(h, source)] else m) hosts owned) = set hosts \<union> fst ` set owned"
    by (induction hosts arbitrary: owned) (auto simp: map_of_eq_None_iff)
  then show ?thesis by (simp add: reserve_hosts_def)
qed

lemma and_then_Inr: "and_then m f = Inr y \<longleftrightarrow> (\<exists>x. m = Inr x \<and> f x = Inr y)"
  by (cases m) auto

lemma services_owned:
  assumes "derive_infra_owned_hosts S = Inr owned" and "snd (is_values S) = Values (JObj kvs)"
    and "(k, v) \<in> set kvs" and "gated v"
  shows "str_lower k \<in> fst ` set owned" "camel_to_kebab k \<in> fst ` set owned"
proof -
  from assms(1) obtain services owned' where s: "extract_chart_service_names (fst (is_values S)) (snd (is_values S)) = Inr services"
    and o: "owned = reserve_hosts ''values.yaml (reserved: a chart service, published or not)'' services owned'"
    unfolding derive_infra_owned_hosts_def and_then_Inr by blast
  have "jor (JObj kvs) (JObj []) = JObj kvs" by (simp add: jor_def)
  with s have "services = concat (map (\<lambda>(k, v). if gated v then [str_lower k, camel_to_kebab k] else []) kvs)"
    by (auto simp: extract_chart_service_names_def assms(2) some_keys_def split: if_split_asm)
  with assms(3,4) have "str_lower k \<in> set services" "camel_to_kebab k \<in> set services" by force+
  then show "str_lower k \<in> fst ` set owned" "camel_to_kebab k \<in> fst ` set owned" unfolding o set_reserve_hosts by blast+
qed

text \<open>When the guard ends with 0 no consumer has a wildcard, and none has the name of a service of the
  chart, in either spelling, whether the service is published or not.\<close>

theorem services_stay_reserved:
  assumes "guard_main S content = (0, out)" and "snd (is_values S) = Values (JObj kvs)"
    and "(k, v) \<in> set kvs" and "gated v" and "map_of (parse_consumer_labels content) l = Some r"
  shows "CHR ''*'' \<notin> set l \<and> str_lower l \<noteq> str_lower k \<and> str_lower l \<noteq> camel_to_kebab k"
proof -
  from assms(1) have c: "check_hosts S content = Inr []"
    by (auto simp: guard_main_def split: sum.split_asm guard_error.split_asm if_split_asm)
  then obtain owned where o: "derive_infra_owned_hosts S = Inr owned" by (auto simp: check_hosts_def and_then_Inr)
  from c assms(5) have "CHR ''*'' \<notin> set l" "str_lower l \<notin> fst ` set owned"
    unfolding guard_accepts [OF o] by (auto simp: map_of_eq_None_iff)
  with services_owned [OF o assms(2-4)] show ?thesis by metis
qed

definition demo_q :: string where
  "demo_q = [dquote]"

definition demo_live_sources :: infra_sources where
  "demo_live_sources = \<lparr>is_ingress = (''ingress.yaml'', Some (''$routes := dict'' @ newline @ demo_q @ ''grafana'' @ demo_q @ newline @ ''-}}'')),
     is_neo4j = (''neo4j-ingress.yaml'', Some (sub_mark @ '' '' @ demo_q @ ''neo4j'' @ demo_q)),
     is_cloudflare = (''cloudflare.tf'', Some (''launcher_services = {'' @ newline @ demo_q @ ''litellm'' @ demo_q @ newline @ ''}'')),
     is_templates = (''templates'', Some [(''a/relay.yaml'', sub_mark @ '' '' @ demo_q @ ''relay'' @ demo_q)]),
     is_values = (''values.yaml'', Values (JObj [(''kafkaUi'', JObj [(''enabled'', JBool False)])]))\<rparr>"

definition demo_file_text :: string where
  "demo_file_text = render_tfvars [(''keys'', ''izzywdev/FuzeKeys'')]"

lemma demo_file_labels: "map_of (parse_consumer_labels (Some demo_file_text)) = [''keys'' \<mapsto> ''izzywdev/FuzeKeys'']"
proof -
  have "plain_registry [(''keys'', ''izzywdev/FuzeKeys'')]" by code_simp
  from parse_rendered [OF this] show ?thesis by (simp add: demo_file_text_def)
qed

lemma demo_orderly: "orderly demo_cf_args demo_manifest"
proof -
  have "plain ''izzywdev/Shop''" by code_simp
  moreover have "declared_labels demo_manifest = Some [''shop'']" by code_simp
  ultimately show ?thesis by (simp add: orderly_def demo_cf_args_def)
qed

theorem labels_never_taken_witness:
  "map_of (parse_consumer_labels (cf_runs [(demo_live_sources, demo_cf_args, Some demo_manifest), (demo_sources, demo_cf_args, None)]
     (Some demo_file_text))) ''keys'' = Some ''izzywdev/FuzeKeys''"
  by (rule labels_never_taken) (use demo_orderly in \<open>simp_all add: demo_file_labels demo_cf_args_def\<close>)

end
