(* ===== verification/ArgoAlert.thy ===== *)
theory ArgoAlert
  imports Json
begin

text \<open>
  scripts/argo_alert.py: the alert about an Argo application, from the payload of a dispatch. The payload is
  the JSON value of the text, or the text of the decoder's error.
\<close>

section \<open>Untrusted text\<close>

definition FENCE :: string where
  "FENCE = ''~~~''"

definition PERMISSION_MARK :: string where
  "PERMISSION_MARK = ''not permitted in project''"

definition MAX_LINES :: nat where
  "MAX_LINES = 15"

definition MAX_MSG :: nat where
  "MAX_MSG = 400"

text \<open>\<open>s.replace("~~~", "~ ~ ~")\<close>.\<close>

fun fence_safe :: "string \<Rightarrow> string" where
  "fence_safe (a # b # c # s) =
     (if a = CHR ''~'' \<and> b = CHR ''~'' \<and> c = CHR ''~'' then ''~ ~ ~'' @ fence_safe s else a # fence_safe (b # c # s))"
| "fence_safe s = s"

definition ellipsis :: string where
  "ellipsis = [CHR 0xE2, CHR 0x80, CHR 0xA6]"

definition bounded_text :: "json \<Rightarrow> nat \<Rightarrow> string" where
  "bounded_text value limit =
     (let s = (if value = JNull then [] else py_str value); s = fence_safe (str_join '' '' (split_ws s))
      in if text_len s \<le> limit then s else take_chars (limit - 1) s @ ellipsis)"

section \<open>The payload\<close>

definition app_char :: "char \<Rightarrow> bool" where
  "app_char c \<longleftrightarrow> is_lower c \<or> is_digit c"

text \<open>\<open>^[a-z0-9][a-z0-9-]{0,62}$\<close>, where the dollar also matches before a final newline.\<close>

definition app_ok :: "string \<Rightarrow> bool" where
  "app_ok s =
     (let t = (if suffix newline s then butlast s else s)
      in t \<noteq> [] \<and> length t \<le> 63 \<and> app_char (hd t) \<and> list_all (\<lambda>c. app_char c \<or> c = CHR ''-'') t)"

record alert =
  al_app :: string
  al_sync :: string
  al_health :: string
  al_phase :: string
  al_message :: string
  al_revision :: string
  al_failed :: "jobj list"
  al_conditions :: "jobj list"

definition dicts_of :: "json \<Rightarrow> jobj list" where
  "dicts_of j =
     (case j of JList xs \<Rightarrow> List.map_filter (\<lambda>x. case x of JObj kvs \<Rightarrow> Some kvs | _ \<Rightarrow> None) xs | _ \<Rightarrow> [])"

text \<open>The error texts of the two refusals are those of the code.\<close>

definition load_alert :: "string + json \<Rightarrow> string + alert" where
  "load_alert payload =
     (case payload of
        Inl e \<Rightarrow> Inl e
      | Inr (JObj m) \<Rightarrow>
          (let app = dget m ''app'' (JStr [])
           in case app of
                JStr s \<Rightarrow>
                  (if app_ok s
                   then Inr \<lparr>al_app = s, al_sync = bounded_text (dget m ''sync'' JNull) 40,
                          al_health = bounded_text (dget m ''health'' JNull) 40,
                          al_phase = bounded_text (dget m ''phase'' JNull) 40,
                          al_message = bounded_text (dget m ''message'' JNull) MAX_MSG,
                          al_revision = bounded_text (dget m ''revision'' JNull) 64,
                          al_failed = dicts_of (dget m ''failed_resources'' JNull),
                          al_conditions = dicts_of (dget m ''conditions'' JNull)\<rparr>
                   else Inl (''rejected app name: '' @ quoted s))
              | _ \<Rightarrow> Inl (''rejected app name: '' @ json_repr app))
      | Inr _ \<Rightarrow> Inl ''payload must be a JSON object'')"

section \<open>What failed\<close>

definition get_text :: "jobj \<Rightarrow> string \<Rightarrow> nat \<Rightarrow> string" where
  "get_text m key limit = bounded_text (dget m key JNull) limit"

definition resource_line :: "jobj \<Rightarrow> string" where
  "resource_line r =
     (let where' = str_join ''/'' (filter (\<lambda>x. x \<noteq> []) [get_text r ''namespace'' 63, get_text r ''name'' 253])
      in get_text r ''kind'' 63 @ '' '' @ where' @ '': '' @ get_text r ''status'' 30 @ '' '' @ em_dash @ '' ''
         @ get_text r ''message'' MAX_MSG)"

definition condition_line :: "jobj \<Rightarrow> string" where
  "condition_line c = ''condition '' @ get_text c ''type'' 63 @ '': '' @ get_text c ''message'' MAX_MSG"

definition failed_lines :: "alert \<Rightarrow> string list" where
  "failed_lines p =
     (let lines = map resource_line (al_failed p) @ map condition_line (al_conditions p)
      in if length lines > MAX_LINES
         then take MAX_LINES lines @ [ellipsis @ '' '' @ show_int (int (length lines - MAX_LINES)) @ '' more'']
         else lines)"

definition classify_alert :: "alert \<Rightarrow> string" where
  "classify_alert p =
     (if sublist PERMISSION_MARK (str_join '' '' (al_message p # failed_lines p)) then ''project-permission''
      else if al_phase p = ''Failed'' \<or> al_phase p = ''Error'' then ''sync-failed''
      else if al_sync p = ''Unknown'' then ''render-error''
      else if al_health p = ''Degraded'' then ''degraded''
      else ''out-of-sync'')"

section \<open>The alert\<close>

definition or_text :: "string \<Rightarrow> string \<Rightarrow> string" where
  "or_text s d = (if s = [] then d else s)"

definition alert_marker :: "alert \<Rightarrow> string" where
  "alert_marker p =
     ''<!-- argo-autofix:'' @ str_join ''|'' [al_app p, or_text (al_revision p) ''-'', or_text (al_phase p) ''-'', al_sync p, al_health p]
     @ '' -->''"

definition alert_title :: "alert \<Rightarrow> string \<Rightarrow> string" where
  "alert_title p audience =
     (if audience = ''boundary'' then ''ArgoCD AppProject blocks: '' @ al_app p
      else ''ArgoCD unhealthy: '' @ al_app p @ '' ('' @ al_health p @ ''/'' @ al_sync p @ '')'')"

definition title_prefix :: "alert \<Rightarrow> string \<Rightarrow> string" where
  "title_prefix p audience =
     (if audience = ''boundary'' then ''ArgoCD AppProject blocks: '' @ al_app p
      else ''ArgoCD unhealthy: '' @ al_app p @ '' ('')"

definition ASKS :: "(string \<times> string) list" where
  "ASKS =
     [(''project-permission'',
       ''Argo refused the sync because a rendered object is **not permitted by the app'' @ [CHR 39]
       @ ''s AppProject** (a cluster-scoped kind outside the whitelist, or a namespace outside its ''
       @ ''destinations). One invalid task fails the whole sync, so nothing in this app is deploying.'' @ newline
       @ newline
       @ ''Fix it by removing the object from the chart, or by rendering it into an allowed namespace. Do ''
       @ ''**not** widen the AppProject: consumer projects may whitelist only `Namespace` among ''
       @ ''cluster-scoped kinds (#629) and never target `fuzeinfra` (#99) '' @ em_dash
       @ '' `argocd-register` rejects anything wider (`scripts/validate_consumer_appproject.py`). If the ''
       @ ''workload genuinely needs a cluster-scoped grant, FuzeInfra provisions it (see ''
       @ ''`helm/fuzeinfra/templates/workload-identity-rbac.yaml`).''),
      (''sync-failed'',
       ''The manifests rendered but the apply was **rejected**, so the desired state was never reached ''
       @ ''and Argo will not retry this revision. Typical causes: an invalid manifest, an immutable-field ''
       @ ''change (Jobs need `argocd.argoproj.io/sync-options: Force=true,Replace=true`), a failed hook.''),
      (''render-error'',
       ''Manifest generation failed (`Unknown`/ComparisonError): a values or kustomize render error.''),
      (''degraded'',
       ''Applied, but the running workload is unhealthy (ImagePullBackOff, CrashLoopBackOff, unready ''
       @ ''pods, failed hooks).''),
      (''out-of-sync'',
       ''Live state drifted from a renderable desired state.'')]"

definition boundary_intro :: "alert \<Rightarrow> string \<Rightarrow> string" where
  "boundary_intro p owner_repo =
     ''Consumer app **`'' @ al_app p @ ''`** (`'' @ owner_repo
     @ ''`) is blocked by its AppProject. Raised here as well because the project boundary is FuzeInfra''
     @ [CHR 39] @ ''s policy, and the consumer cannot resolve it by widening the project.''"

definition boundary_handler :: "alert \<Rightarrow> string" where
  "boundary_handler p =
     ''@fuze please confirm which object is denied and whether the right fix is in the consumer chart ''
     @ ''or a FuzeInfra-provisioned grant. Read-only: `cluster-query.yml` with `-n argocd describe ''
     @ ''application '' @ al_app p @ ''`. Never widen a consumer project past R3/R4.''"

definition owner_intro :: "alert \<Rightarrow> string" where
  "owner_intro p =
     ''ArgoCD reports app **`'' @ al_app p @ ''`** unhealthy on the shared FuzeInfra cluster.''"

definition self_handler :: "alert \<Rightarrow> string" where
  "self_handler p =
     ''@fuze please diagnose with prod cluster reads (`kubectl get application '' @ al_app p
     @ '' -n argocd -o json`; compare live vs the Helm-rendered desired) and FIX the chart under ''
     @ ''`helm/fuzeinfra/` so it converges, then open a PR. If the state is transient, say so and make ''
     @ ''no change. Never kubectl-patch chart-managed resources '' @ em_dash @ '' reconcile via chart + PR.''"

definition consumer_handler :: "string" where
  "consumer_handler =
     ''FuzeInfra runs the Argo instance but does not edit consumer charts. @fuze please diagnose from ''
     @ ''this repo'' @ [CHR 39] @ ''s deploy manifests (Helm/kustomize/Argo Application) and open a fix PR.''"

definition alert_body :: "alert \<Rightarrow> string \<Rightarrow> string \<Rightarrow> bool \<Rightarrow> string" where
  "alert_body p audience owner_repo is_self =
     (let cls = classify_alert p;
          lines = (if failed_lines p = []
                   then [''(the payload named no failing resource '' @ em_dash @ '' read the Application directly)'']
                   else failed_lines p);
          intro = (if audience = ''boundary'' then boundary_intro p owner_repo else owner_intro p);
          handler = (if audience = ''boundary'' then boundary_handler p
                     else if is_self then self_handler p else consumer_handler)
      in str_join newline
           ([intro, [], ''- class: `'' @ cls @ ''`'',
             ''- sync: `'' @ al_sync p @ ''` '' @ [CHR 0xC2, CHR 0xB7] @ '' health: `'' @ al_health p @ ''` '' @ [CHR 0xC2, CHR 0xB7]
               @ '' last operation: `'' @ or_text (al_phase p) ''n/a'' @ ''`'',
             ''- revision: `'' @ or_text (al_revision p) ''n/a'' @ ''`'',
             ''- operation message: '' @ or_text (al_message p) ''n/a'', [],
             ''Failing resources (the actual reason):'', FENCE]
            @ lines @ [FENCE, [], the (map_of ASKS cls), [], handler, [], alert_marker p]))"

definition alert_telegram :: "alert \<Rightarrow> string \<Rightarrow> string" where
  "alert_telegram p owner_repo =
     (let first = (case failed_lines p of [] \<Rightarrow> or_text (al_message p) ''no reason in payload'' | l # _ \<Rightarrow> l)
      in [CHR 0xF0, CHR 0x9F, CHR 0x94, CHR 0xB4] @ '' ArgoCD '' @ classify_alert p @ '': '' @ al_app p @ newline
         @ ''sync='' @ al_sync p @ '' health='' @ al_health p @ '' op='' @ or_text (al_phase p) ''n/a'' @ newline
         @ ''repo='' @ owner_repo @ newline
         @ ''why: '' @ bounded_text (JStr first) 300 @ newline
         @ ''Review: https://argocd.prod.fuzefront.com/applications/'' @ al_app p)"

section \<open>The program\<close>

record alert_args =
  aa_command :: string
  aa_audience :: string
  aa_owner_repo :: string
  aa_is_self :: bool

definition alert_output :: "alert \<Rightarrow> alert_args \<Rightarrow> string" where
  "alert_output p a =
     (if aa_command a = ''classify'' then classify_alert p
      else if aa_command a = ''marker'' then alert_marker p
      else if aa_command a = ''title'' then alert_title p (aa_audience a)
      else if aa_command a = ''title-prefix'' then title_prefix p (aa_audience a)
      else if aa_command a = ''body'' then alert_body p (aa_audience a) (aa_owner_repo a) (aa_is_self a)
      else alert_telegram p (aa_owner_repo a))"

text \<open>The exit code and what is printed.\<close>

definition alert_main :: "string + json \<Rightarrow> alert_args \<Rightarrow> int \<times> string" where
  "alert_main payload a =
     (case load_alert payload of
        Inl e \<Rightarrow> (1, ''::error::'' @ e)
      | Inr p \<Rightarrow> (0, alert_output p a))"

end
