(* ===== verification/ArgoAlert_Properties.thy ===== *)
theory ArgoAlert_Properties
  imports ArgoAlert
begin

text \<open>
  Untrusted text stays on one line, is bounded and cannot close the code block it stands in; an alert to the
  owner is matched by the issue of its own application only, while one to the boundary is not.
\<close>

section \<open>Lines\<close>

definition one_line :: "string \<Rightarrow> bool" where
  "one_line s \<longleftrightarrow> CHR 10 \<notin> set s"

lemma fence_safe_set: "set (fence_safe s) \<subseteq> insert CHR '' '' (set s)"
  by (induction s rule: fence_safe.induct) auto

lemma set_str_join: "set (str_join sep xs) \<subseteq> set sep \<union> \<Union> (set ` set xs)"
  by (induction sep xs rule: str_join.induct) auto

lemma set_take_chars: "set (take_chars n s) \<subseteq> set s"
  by (induction n s rule: take_chars.induct) (auto split: nat.splits)

lemma split_ws_no_space: "w \<in> set (split_ws s) \<Longrightarrow> c \<in> set w \<Longrightarrow> \<not> is_space c"
  using split_on_no_sep [of is_space s] by (auto simp: split_ws_def)

lemma one_line_words: "CHR 10 \<notin> set (str_join '' '' (split_ws s))"
proof
  assume "CHR 10 \<in> set (str_join '' '' (split_ws s))"
  with set_str_join [of "'' ''" "split_ws s"] obtain w where "w \<in> set (split_ws s)" "CHR 10 \<in> set w" by auto
  from split_ws_no_space [OF this] show False by (simp add: is_space_def)
qed

lemma one_line_bounded: "one_line (bounded_text v limit)"
proof -
  have "CHR 10 \<notin> set (fence_safe (str_join '' '' (split_ws s)))" for s
    using fence_safe_set [of "str_join '' '' (split_ws s)"] one_line_words [of s] by auto
  moreover from this have "CHR 10 \<notin> set (take_chars (limit - 1) (fence_safe (str_join '' '' (split_ws s))))" for s
    using set_take_chars by blast
  ultimately show ?thesis by (simp add: bounded_text_def one_line_def Let_def ellipsis_def)
qed

lemma text_len_take: "text_len (take_chars n s) \<le> n"
  by (induction n s rule: take_chars.induct) (auto simp: text_len_def split: nat.splits)

lemma text_len_append: "text_len (a @ b) = text_len a + text_len b"
  by (simp add: text_len_def)

text \<open>An untrusted value becomes one line of at most the given number of characters.\<close>

theorem untrusted_text_bounded:
  assumes "0 < limit"
  shows "CHR 10 \<notin> set (bounded_text v limit) \<and> text_len (bounded_text v limit) \<le> limit"
proof -
  have "text_len ellipsis = 1" by (simp add: ellipsis_def text_len_def)
  with text_len_take [of "limit - 1"] assms have "text_len (take_chars (limit - 1) s @ ellipsis) \<le> limit" for s
    by (simp add: text_len_append le_diff_conv2)
  with one_line_bounded [of v limit] show ?thesis by (simp add: bounded_text_def one_line_def Let_def)
qed

theorem untrusted_text_bounded_witness:
  "text_len (bounded_text (JStr (''denied'' @ newline @ ''ClusterRole'')) 10) \<le> 10"
  using untrusted_text_bounded [of 10 "JStr (''denied'' @ newline @ ''ClusterRole'')"] by simp

text \<open>The replacement of the fence is not complete: five tildes leave three in a row.\<close>

theorem fence_survives: "sublist FENCE (bounded_text (JStr ''~~~~~'') 400)"
proof -
  have w: "str_join '' '' (split_ws ''~~~~~'') = ''~~~~~''" by code_simp
  have f: "fence_safe ''~~~~~'' = ''~ ~ ~~~''" by simp
  have "text_len ''~ ~ ~~~'' \<le> 400" by code_simp
  with f have "bounded_text (JStr ''~~~~~'') 400 = ''~ ~ ~~~''"
    by (simp only: bounded_text_def Let_def py_str.simps w f json.distinct if_True if_False)
  moreover have "sublist FENCE ''~ ~ ~~~''" by code_simp
  ultimately show ?thesis by (simp only:)
qed

text \<open>A line that would close the block has nothing but tildes and blanks.\<close>

definition closes_fence :: "string \<Rightarrow> bool" where
  "closes_fence l \<longleftrightarrow> list_all (\<lambda>c. c = CHR ''~'' \<or> is_space c) l"

lemma colon_not_space: "\<not> is_space (CHR '':'')"
  by code_simp

lemma colon_line: "CHR '':'' \<in> set l \<Longrightarrow> \<not> closes_fence l"
proof
  assume c: "CHR '':'' \<in> set l" and "closes_fence l"
  then have "\<forall>c\<in>set l. c = CHR ''~'' \<or> is_space c" by (simp only: closes_fence_def list_all_iff)
  from bspec [OF this c] colon_not_space show False by simp
qed

text \<open>C38: the failing resources of a payload cannot break out of the block they are shown in: every line is a
  single line, none of them closes the block, and there are at most sixteen.\<close>

theorem block_holds:
  "list_all (\<lambda>l. CHR 10 \<notin> set l \<and> \<not> closes_fence l) (failed_lines p) \<and> length (failed_lines p) \<le> 16"
proof -
  have b: "CHR 10 \<notin> set (get_text m k n)" for m k n
    using one_line_bounded by (simp add: get_text_def one_line_def)
  have r: "CHR 10 \<notin> set (resource_line r) \<and> \<not> closes_fence (resource_line r)" for r
  proof -
    have "CHR 10 \<notin> set (str_join ''/'' (filter (\<lambda>x. x \<noteq> []) [get_text r ''namespace'' 63, get_text r ''name'' 253]))"
      using set_str_join [of "''/''" "filter (\<lambda>x. x \<noteq> []) [get_text r ''namespace'' 63, get_text r ''name'' 253]"] b
      by (auto split: if_split_asm)
    then show ?thesis using b by (auto simp: resource_line_def Let_def em_dash_def intro!: colon_line)
  qed
  have c: "CHR 10 \<notin> set (condition_line c) \<and> \<not> closes_fence (condition_line c)" for c
    using b by (auto simp: condition_line_def intro!: colon_line)
  have d: "\<forall>ch \<in> set (show_int (int n)). is_digit ch" for n
    using show_nat_digits [of "int n"] by (simp add: show_int_def)
  have m: "CHR 10 \<notin> set (ellipsis @ '' '' @ show_int (int n) @ '' more'')
      \<and> \<not> closes_fence (ellipsis @ '' '' @ show_int (int n) @ '' more'')" for n
    using d [of n] by (auto simp: ellipsis_def closes_fence_def is_digit_def is_space_def)
  define lines where "lines = map resource_line (al_failed p) @ map condition_line (al_conditions p)"
  have "list_all (\<lambda>l. CHR 10 \<notin> set l \<and> \<not> closes_fence l) lines"
    using r c by (auto simp: lines_def list_all_iff)
  moreover from this have "list_all (\<lambda>l. CHR 10 \<notin> set l \<and> \<not> closes_fence l) (take MAX_LINES lines)"
    by (auto simp: list_all_iff dest: in_set_takeD)
  moreover have "length (take MAX_LINES lines) \<le> 15" "MAX_LINES = 15" by (simp_all add: MAX_LINES_def)
  ultimately show ?thesis
    using m [of "length lines - MAX_LINES"]
    by (auto simp: failed_lines_def lines_def [symmetric] Let_def list_all_append
        simp del: of_nat_diff append_assoc length_take split: if_split)
qed

section \<open>Matching issues\<close>

definition no_blank :: "string \<Rightarrow> bool" where
  "no_blank s \<longleftrightarrow> CHR '' '' \<notin> set s"

lemma app_ok_no_blank: "app_ok s \<Longrightarrow> no_blank s"
proof -
  assume a: "app_ok s"
  define t where "t = (if suffix newline s then butlast s else s)"
  have "list_all (\<lambda>c. app_char c \<or> c = CHR ''-'') t" using a by (simp add: app_ok_def t_def Let_def)
  then have t: "CHR '' '' \<notin> set t" by (auto simp: list_all_iff app_char_def is_lower_def is_digit_def)
  have "s = t \<or> s = t @ newline" by (auto simp: t_def suffix_def newline_def)
  with t show ?thesis by (auto simp: no_blank_def newline_def)
qed

lemma word_prefix:
  assumes "no_blank a" and "no_blank b"
  shows "prefix (a @ '' ('') (b @ '' ('' @ r) \<longleftrightarrow> a = b"
proof
  assume "prefix (a @ '' ('') (b @ '' ('' @ r)"
  then obtain u where e: "a @ CHR '' '' # ''('' @ u = b @ CHR '' '' # ''('' @ r" by (auto simp: prefix_def)
  have "takeWhile (\<lambda>c. c \<noteq> CHR '' '') (w @ CHR '' '' # v) = w" if "no_blank w" for w v
    using that by (induction w) (auto simp: no_blank_def)
  from this [OF assms(1)] this [OF assms(2)] show "a = b" using e by metis
qed simp

text \<open>An alert to the owner is matched by the issue of its own application and by no other, while the state
  of the application does not matter.\<close>

theorem owner_issue_exact:
  assumes "load_alert payload = Inr p" and "load_alert payload' = Inr p'"
  shows "prefix (title_prefix p ''owner'') (alert_title p' ''owner'') \<longleftrightarrow> al_app p = al_app p'"
proof -
  have "no_blank (al_app q)" if "load_alert x = Inr q" for x q
    using that app_ok_no_blank
    by (auto simp: load_alert_def Let_def split: sum.split_asm json.split_asm if_split_asm)
  from word_prefix [OF this [OF assms(1)] this [OF assms(2)], of "al_health p' @ ''/'' @ al_sync p' @ '')''"]
  show ?thesis by (simp add: title_prefix_def alert_title_def)
qed

definition demo_payload :: "string \<Rightarrow> string + json" where
  "demo_payload app = Inr (JObj [(''app'', JStr app), (''health'', JStr ''Degraded'')])"

theorem owner_issue_exact_witness:
  "\<exists>p q. load_alert (demo_payload ''fuzefront'') = Inr p \<and> load_alert (demo_payload ''fuzefront-sealed'') = Inr q
     \<and> \<not> prefix (title_prefix p ''owner'') (alert_title q ''owner'')"
proof -
  have "case load_alert (demo_payload ''fuzefront'') of Inr p \<Rightarrow> al_app p = ''fuzefront'' | _ \<Rightarrow> False"
    "case load_alert (demo_payload ''fuzefront-sealed'') of Inr p \<Rightarrow> al_app p = ''fuzefront-sealed'' | _ \<Rightarrow> False"
    by code_simp+
  then obtain p q where l: "load_alert (demo_payload ''fuzefront'') = Inr p" "load_alert (demo_payload ''fuzefront-sealed'') = Inr q"
    and n: "al_app p = ''fuzefront''" "al_app q = ''fuzefront-sealed''"
    by (auto split: sum.split_asm)
  from owner_issue_exact [OF l] l n show ?thesis by auto
qed

text \<open>An alert to the boundary is also matched by the issue of an application whose name begins with its own.\<close>

theorem boundary_issue_of_another:
  "prefix (title_prefix p ''boundary'') (alert_title (p\<lparr>al_app := al_app p @ ''-sealed''\<rparr>) ''boundary'')"
  by (simp add: title_prefix_def alert_title_def)

end
