(* ===== verification/DataTier.thy ===== *)
theory DataTier
  imports Script JsonText "HOL-Library.Product_Lexorder"
begin

text \<open>
  scripts-tools/reconcile_datatier.py: the databases that the repositories declare, against those the chart
  provisions. The texts of the values file and of the list of repositories, the YAML parser and the answers
  of GitHub are parameters; None is an exception, which ends the program.
\<close>

section \<open>GitHub\<close>

datatype gh_reply = GhBody string | GhStatus int | GhFailed

definition gh_value :: "gh_reply \<Rightarrow> json option" where
  "gh_value reply =
     (case reply of
        GhBody body \<Rightarrow> loads body
      | GhStatus code \<Rightarrow> (if code = 404 then Some JNull else None)
      | GhFailed \<Rightarrow> None)"

definition manifest_url :: "json \<Rightarrow> string" where
  "manifest_url repo = ''https://api.github.com/repos/'' @ py_str repo @ ''/contents/.fuze/manifest.json''"

section \<open>Indexes of the values\<close>

definition load_values :: "(string \<Rightarrow> json option) \<Rightarrow> string \<Rightarrow> json option" where
  "load_values yaml file = map_option (\<lambda>v. jor v (JObj [])) (yaml file)"

definition index_key :: "json \<Rightarrow> json \<Rightarrow> jobj \<Rightarrow> jobj option" where
  "index_key e key idx = do { t \<leftarrow> as_text key; Some (dict_set (str_lower t) e idx) }"

definition index_entry :: "string list \<Rightarrow> json \<Rightarrow> jobj \<Rightarrow> jobj option" where
  "index_entry names e idx =
     do { keys \<leftarrow> those (map (jget e) names); fold_opt (index_key e) (filter truthy keys) idx }"

definition section_index :: "string \<Rightarrow> string list \<Rightarrow> json \<Rightarrow> jobj option" where
  "section_index section' names values =
     do { entries \<leftarrow> jget_d values section' (JList []); entries \<leftarrow> jiter entries; fold_opt (index_entry names) entries [] }"

definition pg_index :: "json \<Rightarrow> jobj option" where
  "pg_index = section_index ''serviceDatabases'' [''role'', ''name'']"

definition mariadb_index :: "json \<Rightarrow> jobj option" where
  "mariadb_index = section_index ''serviceMariadbDatabases'' [''user'', ''name'']"

definition mongo_index :: "json \<Rightarrow> jobj option" where
  "mongo_index = section_index ''serviceMongoDatabases'' [''user'', ''name'']"

definition neo4j_index :: "json \<Rightarrow> jobj option" where
  "neo4j_index = section_index ''serviceNeo4jInstances'' [''name'']"

section \<open>Gaps\<close>

datatype gap_status = MISSING | DISABLED | DB_MISMATCH | GRANT_MISSING

fun status_name :: "gap_status \<Rightarrow> string" where
  "status_name MISSING = ''MISSING''"
| "status_name DISABLED = ''DISABLED''"
| "status_name DB_MISMATCH = ''DB_MISMATCH''"
| "status_name GRANT_MISSING = ''GRANT_MISSING''"

text \<open>A gap is a dict with these keys; None is a key it does not have.\<close>

record gap =
  gp_repo :: json
  gp_store :: string
  gp_status :: gap_status
  gp_detail :: string
  gp_role :: "string option"
  gp_database :: "json option"
  gp_privileges :: "json option"
  gp_auth_source :: "json option"
  gp_instance :: "string option"
  gp_current_database :: "json option"
  gp_current_grants :: "json list option"

definition role_gap :: "json \<Rightarrow> string \<Rightarrow> gap_status \<Rightarrow> string \<Rightarrow> json \<Rightarrow> string \<Rightarrow> gap" where
  "role_gap repo store status role db detail =
     \<lparr>gp_repo = repo, gp_store = store, gp_status = status, gp_detail = detail, gp_role = Some role,
      gp_database = Some db, gp_privileges = None, gp_auth_source = None, gp_instance = None,
      gp_current_database = None, gp_current_grants = None\<rparr>"

definition instance_gap :: "json \<Rightarrow> gap_status \<Rightarrow> string \<Rightarrow> string \<Rightarrow> gap" where
  "instance_gap repo status name detail =
     \<lparr>gp_repo = repo, gp_store = ''neo4j'', gp_status = status, gp_detail = detail, gp_role = None,
      gp_database = None, gp_privileges = None, gp_auth_source = None, gp_instance = Some name,
      gp_current_database = None, gp_current_grants = None\<rparr>"

text \<open>\<open>s.replace(part, "")\<close> for a part of four characters.\<close>

fun without_part :: "string \<Rightarrow> string \<Rightarrow> string" where
  "without_part part (a # b # c # d # s) =
     (if [a, b, c, d] = part then without_part part s else a # without_part part (b # c # d # s))"
| "without_part part s = s"

text \<open>\<open>idx.get(a) or idx.get(b) or idx.get(c)\<close>.\<close>

fun first_entry :: "jobj \<Rightarrow> string list \<Rightarrow> json" where
  "first_entry idx [] = JNull"
| "first_entry idx (key # keys) = jor (dget idx key JNull) (first_entry idx keys)"

definition disabled_gaps :: "json \<Rightarrow> string \<Rightarrow> string \<Rightarrow> string \<Rightarrow> json \<Rightarrow> json \<Rightarrow> gap list option" where
  "disabled_gaps repo store section' role db existing =
     do { enabled \<leftarrow> jget_d existing ''enabled'' (JBool True); name \<leftarrow> jget existing ''name'';
          Some (if truthy enabled then []
                else [role_gap repo store DISABLED role db
                        (section' @ '' entry '' @ [CHR 39] @ py_str name @ [CHR 39] @ '' is disabled'')]) }"

definition mismatch_gaps :: "json \<Rightarrow> string \<Rightarrow> string \<Rightarrow> json \<Rightarrow> json \<Rightarrow> gap list option" where
  "mismatch_gaps repo store role db existing =
     do { current \<leftarrow> jget existing ''database'';
          Some (if py_eq current db then []
                else [(role_gap repo store DB_MISMATCH role db
                         (''Entry provisions db='' @ [CHR 39] @ py_str current @ [CHR 39] @ '' but manifest declares db=''
                          @ [CHR 39] @ py_str db @ [CHR 39]))\<lparr>gp_current_database := Some current\<rparr>]) }"

definition postgres_names :: "string \<Rightarrow> string list" where
  "postgres_names role = [str_lower role, str_lower (without_part ''_svc'' role), str_lower (without_part ''_app'' role)]"

definition check_postgres :: "json \<Rightarrow> json \<Rightarrow> jobj \<Rightarrow> gap list option" where
  "check_postgres repo dt idx =
     do { role \<leftarrow> jidx dt ''role''; db \<leftarrow> jidx dt ''database''; privs \<leftarrow> jget_d dt ''privileges'' (JStr ''readWrite'');
          role \<leftarrow> as_text role;
          (let existing = first_entry idx (postgres_names role)
           in if \<not> truthy existing
              then Some [(role_gap repo ''postgres'' MISSING role db
                            (''No serviceDatabases entry with role='' @ [CHR 39] @ role @ [CHR 39]))\<lparr>gp_privileges := Some privs\<rparr>]
              else do { off \<leftarrow> disabled_gaps repo ''postgres'' ''serviceDatabases'' role db existing;
                        other \<leftarrow> mismatch_gaps repo ''postgres'' role db existing;
                        Some (off @ other) }) }"

definition check_mariadb :: "json \<Rightarrow> json \<Rightarrow> jobj \<Rightarrow> gap list option" where
  "check_mariadb repo dt idx =
     do { role \<leftarrow> jidx dt ''role''; db \<leftarrow> jidx dt ''database''; role \<leftarrow> as_text role;
          (let existing = first_entry idx (postgres_names role)
           in if \<not> truthy existing
              then Some [role_gap repo ''mariadb'' MISSING role db
                           (''No serviceMariadbDatabases entry with user='' @ [CHR 39] @ role @ [CHR 39])]
              else do { off \<leftarrow> disabled_gaps repo ''mariadb'' ''serviceMariadbDatabases'' role db existing;
                        other \<leftarrow> mismatch_gaps repo ''mariadb'' role db existing;
                        Some (off @ other) }) }"

section \<open>Grants\<close>

text \<open>A set of values, and \<open>sorted\<close> of it: texts, or numbers, or a single value; None is a TypeError. A NaN
  has no place among numbers; it is put last.\<close>

definition set_add :: "json \<Rightarrow> json list \<Rightarrow> json list" where
  "set_add x xs = (if list_ex (py_eq x) xs then xs else xs @ [x])"

fun number_place :: "flt \<Rightarrow> nat \<times> rat" where
  "number_place NInf = (0, 0)"
| "number_place (Fin q) = (1, q)"
| "number_place PInf = (2, 0)"
| "number_place NaN = (3, 0)"

instantiation flt :: linorder
begin

definition less_eq_flt :: "flt \<Rightarrow> flt \<Rightarrow> bool" where
  "less_eq_flt x y \<longleftrightarrow> number_place x \<le> number_place y"

definition less_flt :: "flt \<Rightarrow> flt \<Rightarrow> bool" where
  "less_flt x y \<longleftrightarrow> number_place x < number_place y"

instance
proof
  fix x y z :: flt
  show "(x < y) = (x \<le> y \<and> \<not> y \<le> x)" by (simp add: less_eq_flt_def less_flt_def less_le_not_le)
  show "x \<le> x" by (simp add: less_eq_flt_def)
  show "x \<le> y \<Longrightarrow> y \<le> z \<Longrightarrow> x \<le> z" unfolding less_eq_flt_def by (rule order_trans)
  show "x \<le> y \<or> y \<le> x" unfolding less_eq_flt_def by (rule linear)
  assume "x \<le> y" "y \<le> x"
  then have "number_place x = number_place y" unfolding less_eq_flt_def by (rule antisym)
  then show "x = y" by (cases x; cases y) auto
qed

end

definition sorted_values :: "json list \<Rightarrow> json list option" where
  "sorted_values xs =
     (if length xs \<le> 1 then Some xs
      else case those (map as_text xs) of
             Some ts \<Rightarrow> Some (map JStr (sort ts))
           | None \<Rightarrow> map_option (map fst \<circ> sort_key snd) (those (map (\<lambda>x. map_option (Pair x) (number_of x)) xs)))"

definition granted_dbs :: "json \<Rightarrow> json list option" where
  "granted_dbs existing =
     do { roles \<leftarrow> jget_d existing ''roles'' (JList []); roles \<leftarrow> jiter roles; dbs \<leftarrow> those (map (\<lambda>r. jidx r ''db'') roles);
          guard_opt (list_all hashable dbs) (Some (foldl (\<lambda>s x. set_add x s) [] dbs)) }"

definition grant_gaps :: "json \<Rightarrow> string \<Rightarrow> json \<Rightarrow> json \<Rightarrow> gap list option" where
  "grant_gaps repo role db existing =
     do { granted \<leftarrow> granted_dbs existing;
          guard_opt (hashable db)
            (if list_ex (py_eq db) granted then Some []
             else do { grants \<leftarrow> sorted_values granted;
                       Some [(role_gap repo ''mongo'' GRANT_MISSING role db
                                (''Role '' @ [CHR 39] @ role @ [CHR 39] @ '' not granted on '' @ [CHR 39] @ py_str db @ [CHR 39]
                                 @ ''; current grants: '' @ json_repr (JList grants)))\<lparr>gp_current_grants := Some grants\<rparr>] }) }"

definition mongo_names :: "string \<Rightarrow> string list" where
  "mongo_names role = [str_lower role, str_lower (without_part ''_app'' role), str_lower (without_part ''_svc'' role)]"

definition check_mongo :: "json \<Rightarrow> json \<Rightarrow> jobj \<Rightarrow> gap list option" where
  "check_mongo repo dt idx =
     do { role \<leftarrow> jidx dt ''role''; db \<leftarrow> jidx dt ''database''; auth_src \<leftarrow> jget_d dt ''authSource'' (JStr ''admin'');
          privs \<leftarrow> jget_d dt ''privileges'' (JStr ''readWrite''); role \<leftarrow> as_text role;
          (let existing = first_entry idx (mongo_names role)
           in if \<not> truthy existing
              then Some [(role_gap repo ''mongo'' MISSING role db
                            (''No serviceMongoDatabases entry with user='' @ [CHR 39] @ role @ [CHR 39]))
                           \<lparr>gp_privileges := Some privs, gp_auth_source := Some auth_src\<rparr>]
              else do { off \<leftarrow> disabled_gaps repo ''mongo'' ''serviceMongoDatabases'' role db existing;
                        other \<leftarrow> grant_gaps repo role db existing;
                        Some (off @ other) }) }"

section \<open>Instances\<close>

definition sealed_name :: "json \<Rightarrow> json option" where
  "sealed_name existing =
     do { secret \<leftarrow> jget_d existing ''passwordSecret'' (JObj []); jget_d secret ''name'' (JStr ''credentials'') }"

definition check_neo4j :: "json \<Rightarrow> json \<Rightarrow> jobj \<Rightarrow> gap list option" where
  "check_neo4j repo dt idx =
     do { store \<leftarrow> jget_d dt ''store'' (JStr []); name \<leftarrow> jget_d dt ''instance'' store; name \<leftarrow> as_text name;
          (let existing = dget idx (str_lower name) JNull
           in if \<not> truthy existing
              then Some [instance_gap repo MISSING name
                           (''No serviceNeo4jInstances entry with name='' @ [CHR 39] @ name @ [CHR 39])]
              else do { enabled \<leftarrow> jget_d existing ''enabled'' (JBool True);
                        if truthy enabled then Some []
                        else do { secret \<leftarrow> sealed_name existing;
                                  Some [instance_gap repo DISABLED name
                                          (''serviceNeo4jInstances entry '' @ [CHR 39] @ name @ [CHR 39]
                                           @ '' exists but is disabled (flip enabled:true after sealing '' @ py_str secret @ '')'')] } }) }"

section \<open>The state of the program\<close>

text \<open>What is printed, and the text of the values file, None where there is no file.\<close>

record dt_world =
  dw_out :: string
  dw_errors :: string
  dw_values :: "string option"

type_synonym 'a dt_script = "(dt_world, unit, 'a) script"

definition dt_put :: "string \<Rightarrow> unit dt_script" where
  "dt_put s = change (dw_out_update (\<lambda>out. out @ s))"

definition dt_say :: "string \<Rightarrow> unit dt_script" where
  "dt_say s = dt_put (s @ newline)"

definition dt_error :: "string \<Rightarrow> unit dt_script" where
  "dt_error s = change (dw_errors_update (\<lambda>err. err @ s @ newline))"

section \<open>Declarations\<close>

definition SUPPORTED_STORES :: "string list" where
  "SUPPORTED_STORES = [''postgres'', ''mariadb'', ''mongo'', ''neo4j'']"

record db_indexes =
  ix_postgres :: jobj
  ix_mariadb :: jobj
  ix_mongo :: jobj
  ix_neo4j :: jobj

definition indexes_of :: "json \<Rightarrow> db_indexes option" where
  "indexes_of values =
     do { p \<leftarrow> pg_index values; m \<leftarrow> mariadb_index values; o' \<leftarrow> mongo_index values; n \<leftarrow> neo4j_index values;
          Some \<lparr>ix_postgres = p, ix_mariadb = m, ix_mongo = o', ix_neo4j = n\<rparr> }"

definition store_of :: "json \<Rightarrow> string option" where
  "store_of dt = do { store \<leftarrow> jget_d dt ''store'' (JStr []); store \<leftarrow> as_text store; Some (str_lower store) }"

definition check_store :: "string \<Rightarrow> json \<Rightarrow> json \<Rightarrow> db_indexes \<Rightarrow> gap list option" where
  "check_store store repo dt ix =
     (if store = ''postgres'' then check_postgres repo dt (ix_postgres ix)
      else if store = ''mariadb'' then check_mariadb repo dt (ix_mariadb ix)
      else if store = ''mongo'' then check_mongo repo dt (ix_mongo ix)
      else check_neo4j repo dt (ix_neo4j ix))"

definition skip_line :: "json \<Rightarrow> string \<Rightarrow> string" where
  "skip_line repo store =
     ''  [SKIP] '' @ py_str repo @ '': store '' @ [CHR 39] @ store @ [CHR 39] @ '' not yet supported by reconciler''"

definition declared_gaps :: "json \<Rightarrow> db_indexes \<Rightarrow> json \<Rightarrow> gap list dt_script" where
  "declared_gaps repo ix dt =
     step (need () (store_of dt)) (\<lambda>store.
       if \<not> List.member SUPPORTED_STORES store then next_to (dt_say (skip_line repo store)) (yield [])
       else need () (check_store store repo dt ix))"

fun collect_gaps :: "('x \<Rightarrow> gap list dt_script) \<Rightarrow> 'x list \<Rightarrow> gap list dt_script" where
  "collect_gaps f [] = yield []"
| "collect_gaps f (x # xs) = step (f x) (\<lambda>gaps. step (collect_gaps f xs) (\<lambda>others. yield (gaps @ others)))"

definition declared_tiers :: "json \<Rightarrow> json list option" where
  "declared_tiers manifest = do { tiers \<leftarrow> jget_d manifest ''dataTier'' (JList []); jiter tiers }"

definition detect_gaps :: "json \<Rightarrow> json \<Rightarrow> json \<Rightarrow> gap list dt_script" where
  "detect_gaps manifest repo values =
     step (need () (indexes_of values)) (\<lambda>ix.
     step (need () (declared_tiers manifest)) (collect_gaps (declared_gaps repo ix)))"

section \<open>Stubs\<close>

text \<open>\<open>repo.split("/", 1)[-1].lower()\<close>.\<close>

definition short_name :: "json \<Rightarrow> string option" where
  "short_name repo =
     map_option (\<lambda>s. str_lower (if CHR ''/'' \<in> set s then tl (dropWhile (\<lambda>c. c \<noteq> CHR ''/'') s) else s)) (as_text repo)"

definition text_or :: "string \<Rightarrow> json option \<Rightarrow> string" where
  "text_or d v = (case v of None \<Rightarrow> d | Some j \<Rightarrow> py_str j)"

definition pg_snippet :: "gap \<Rightarrow> json \<Rightarrow> string option" where
  "pg_snippet g repo =
     do { role \<leftarrow> gp_role g; db \<leftarrow> gp_database g; name \<leftarrow> short_name repo;
          (let secret = name @ ''-db-credentials''
           in Some
          (''  # Auto-generated by reconcile_datatier.py from '' @ py_str repo @ ''/.fuze/manifest.json'' @ newline
           @ ''  # REVIEW: add the sealed-secret '' @ [CHR 39] @ secret @ [CHR 39] @ '' (key: password)'' @ newline
           @ ''  # to the fuzeinfra namespace before enabling.'' @ newline @ ''  - name: '' @ name @ newline
           @ ''    enabled: false  # flip to true once the sealed secret is present'' @ newline @ ''    role: ''
           @ role @ newline @ ''    database: '' @ py_str db @ newline @ ''    passwordSecret:'' @ newline
           @ ''      name: '' @ secret @ newline @ ''      key: password'' @ newline)) }"

definition mariadb_snippet :: "gap \<Rightarrow> json \<Rightarrow> string option" where
  "mariadb_snippet g repo =
     do { role \<leftarrow> gp_role g; db \<leftarrow> gp_database g; name \<leftarrow> short_name repo;
          (let secret = name @ ''-db-credentials''
           in Some
          (''  # Auto-generated by reconcile_datatier.py from '' @ py_str repo @ ''/.fuze/manifest.json'' @ newline
           @ ''  # REVIEW: add the sealed-secret '' @ [CHR 39] @ secret @ [CHR 39] @ '' (key: password)'' @ newline
           @ ''  # to the fuzeinfra namespace before enabling. See'' @ newline
           @ ''  # docs/consuming-repos/MARIADB_PROVISIONING.md'' @ newline @ ''  - name: '' @ name @ newline
           @ ''    enabled: false  # flip to true once the sealed secret is present'' @ newline @ ''    user: ''
           @ role @ newline @ ''    database: '' @ py_str db @ newline @ ''    passwordSecret:'' @ newline
           @ ''      name: '' @ secret @ newline @ ''      key: password'' @ newline)) }"

definition mongo_snippet :: "gap \<Rightarrow> json \<Rightarrow> string option" where
  "mongo_snippet g repo =
     do { role \<leftarrow> gp_role g; db \<leftarrow> gp_database g; name \<leftarrow> short_name repo;
          (let secret = name @ ''-mongo-credentials''
           in Some
          (''  # Auto-generated by reconcile_datatier.py from '' @ py_str repo @ ''/.fuze/manifest.json'' @ newline
           @ ''  # REVIEW: add the sealed-secret '' @ [CHR 39] @ secret @ [CHR 39] @ '' (key: password)'' @ newline
           @ ''  # to the fuzeinfra namespace before enabling.'' @ newline @ ''  - name: '' @ name @ newline
           @ ''    enabled: false  # flip to true once the sealed secret is present'' @ newline @ ''    user: ''
           @ role @ newline @ ''    authDatabase: '' @ text_or ''admin'' (gp_auth_source g) @ newline
           @ ''    managePassword: true'' @ newline @ ''    database: '' @ py_str db @ newline @ ''    roles:''
           @ newline @ ''      - '' @ ''{'' @ ''role: '' @ text_or ''readWrite'' (gp_privileges g) @ '', db: ''
           @ py_str db @ ''}'' @ newline @ ''    passwordSecret:'' @ newline @ ''      name: '' @ secret @ newline
           @ ''      key: password'' @ newline)) }"

text \<open>The stubs for the missing entries of a store, with what is said of the gaps that need a person. A gap of
  another status is skipped; a missing instance has no stub.\<close>

record stubs =
  sb_postgres :: "string list"
  sb_mariadb :: "string list"
  sb_mongo :: "string list"

definition no_stubs :: stubs where
  "no_stubs = \<lparr>sb_postgres = [], sb_mariadb = [], sb_mongo = []\<rparr>"

definition skip_apply :: "gap \<Rightarrow> string" where
  "skip_apply g =
     ''  [SKIP apply] '' @ status_name (gp_status g) @ '' gaps require manual review: '' @ gp_detail g"

definition add_stub :: "gap \<Rightarrow> stubs \<Rightarrow> stubs option" where
  "add_stub g s =
     (if gp_store g = ''postgres''
      then map_option (\<lambda>t. s\<lparr>sb_postgres := sb_postgres s @ [t]\<rparr>) (pg_snippet g (gp_repo g))
      else if gp_store g = ''mariadb''
      then map_option (\<lambda>t. s\<lparr>sb_mariadb := sb_mariadb s @ [t]\<rparr>) (mariadb_snippet g (gp_repo g))
      else if gp_store g = ''mongo''
      then map_option (\<lambda>t. s\<lparr>sb_mongo := sb_mongo s @ [t]\<rparr>) (mongo_snippet g (gp_repo g))
      else Some s)"

fun make_stubs :: "gap list \<Rightarrow> stubs \<Rightarrow> stubs dt_script" where
  "make_stubs [] s = yield s"
| "make_stubs (g # gs) s =
     (if gp_status g \<noteq> MISSING then next_to (dt_say (skip_apply g)) (make_stubs gs s)
      else step (need () (add_stub g s)) (make_stubs gs))"

section \<open>The patch\<close>

text \<open>The text up to and after the first match of \<open>^key:\s*\n\<close>: the header at the beginning of a line, and the
  blank space after it up to its last newline.\<close>

definition upto_newline :: "string \<Rightarrow> string" where
  "upto_newline s = rev (dropWhile (\<lambda>c. c \<noteq> CHR 10) (rev (takeWhile is_space s)))"

definition header_at :: "string \<Rightarrow> string \<Rightarrow> (string \<times> string) option" where
  "header_at header s =
     (let rest = drop (length header) s; blank = upto_newline rest
      in if prefix header s \<and> blank \<noteq> [] then Some (header @ blank, drop (length blank) rest) else None)"

fun split_after :: "string \<Rightarrow> bool \<Rightarrow> string \<Rightarrow> (string \<times> string) option" where
  "split_after header at_start [] = None"
| "split_after header at_start (c # s) =
     (case (if at_start then header_at header (c # s) else None) of
        Some (a, b) \<Rightarrow> Some (a, b)
      | None \<Rightarrow> map_option (\<lambda>(a, b). (c # a, b)) (split_after header (c = CHR 10) s))"

definition add_stubs :: "string \<Rightarrow> string list \<Rightarrow> string \<Rightarrow> string" where
  "add_stubs section' additions content =
     (if additions = [] then content
      else let block = str_join newline additions @ newline
           in case split_after (section' @ '':'') True content of
                Some (before, after) \<Rightarrow> before @ block @ after
              | None \<Rightarrow> content @ newline @ section' @ '':'' @ newline @ block)"

definition patched :: "stubs \<Rightarrow> string \<Rightarrow> string" where
  "patched s content =
     add_stubs ''serviceMongoDatabases'' (sb_mongo s)
       (add_stubs ''serviceMariadbDatabases'' (sb_mariadb s)
         (add_stubs ''serviceDatabases'' (sb_postgres s) content))"

definition patched_line :: "stubs \<Rightarrow> string \<Rightarrow> string" where
  "patched_line s path =
     ''Patched '' @ path @ '' with '' @ show_int (int (length (sb_postgres s))) @ '' Postgres + ''
     @ show_int (int (length (sb_mariadb s))) @ '' MariaDB + '' @ show_int (int (length (sb_mongo s)))
     @ '' Mongo stub(s).''"

definition apply_gaps :: "gap list \<Rightarrow> string \<Rightarrow> unit dt_script" where
  "apply_gaps gaps path =
     step (make_stubs gaps no_stubs) (\<lambda>s.
       if sb_postgres s = [] \<and> sb_mariadb s = [] \<and> sb_mongo s = []
       then dt_say (''Nothing to apply (only DB_MISMATCH/DISABLED/GRANT_MISSING gaps '' @ em_dash @ '' fix manually).'')
       else step (looking dw_values) (\<lambda>values.
            step (need () values) (\<lambda>content.
            next_to (change (dw_values_update (\<lambda>_. Some (patched s content))))
            (next_to (dt_say (patched_line s path))
            (dt_say (''Review the additions, flip enabled: true, and commit to trigger ArgoCD provisioning.''))))))"

section \<open>Egress\<close>

definition egress_line :: "json \<Rightarrow> string option" where
  "egress_line e =
     do { host \<leftarrow> jidx e ''host''; port \<leftarrow> jget_d e ''port'' (JInt 443); reason \<leftarrow> jget_d e ''reason'' (JStr []);
          Some (''    '' @ py_str host @ '':'' @ py_str port @ ''  '' @ em_dash @ '' '' @ py_str reason) }"

definition egress_note :: string where
  "egress_note =
     ''    '' @ [CHR 0xE2, CHR 0x86, CHR 0x92]
     @ '' Route LLM providers (openai/anthropic) through litellm.fuzeinfra.svc.cluster.local:4000. ''
     @ ''Other hosts may need a NetworkPolicy (future reconciler scope).''"

definition summarise_egress :: "json \<Rightarrow> json \<Rightarrow> unit dt_script" where
  "summarise_egress manifest repo =
     step (need () (jget_d manifest ''egress'' (JList []))) (\<lambda>egress.
       if \<not> truthy egress then yield ()
       else step (need () (json_len egress)) (\<lambda>n.
            next_to (dt_say (''  [EGRESS] '' @ py_str repo @ '' declares '' @ show_int (int n) @ '' egress host(s):''))
            (step (need () (jiter egress)) (\<lambda>hosts.
            next_to (for_each (\<lambda>e. step (need () (egress_line e)) dt_say) hosts)
            (dt_say egress_note)))))"

section \<open>The report\<close>

definition place_of :: "gap \<Rightarrow> string" where
  "place_of g =
     (if gp_store g = ''neo4j'' then '' instance='' @ (case gp_instance g of None \<Rightarrow> ''?'' | Some i \<Rightarrow> i)
      else '' role='' @ (case gp_role g of None \<Rightarrow> ''?'' | Some r \<Rightarrow> r) @ '' db='' @ text_or ''?'' (gp_database g))"

definition gap_line :: "gap \<Rightarrow> string" where
  "gap_line g = ''    ['' @ status_name (gp_status g) @ ''] '' @ gp_store g @ place_of g"

definition gap_line_of_repo :: "gap \<Rightarrow> string" where
  "gap_line_of_repo g = ''    ['' @ status_name (gp_status g) @ ''] '' @ gp_store g @ '' '' @ py_str (gp_repo g) @ place_of g"

definition detail_line :: "gap \<Rightarrow> string" where
  "detail_line g = ''    '' @ [CHR 0xE2, CHR 0x86, CHR 0x92] @ '' '' @ gp_detail g"

definition tip_lines :: "gap \<Rightarrow> string list" where
  "tip_lines g =
     (if gp_status g = DB_MISMATCH
      then [''    TIP: If the platform uses a service-named DB (e.g. '' @ [CHR 39] @ ''mendys'' @ [CHR 39]
            @ ''), update the manifest to match (database: '' @ [CHR 39] @ text_or ''None'' (gp_current_database g)
            @ [CHR 39] @ ''), or ask FuzeInfra to provision the declared name.'']
      else [])"

definition dt_says :: "string list \<Rightarrow> unit dt_script" where
  "dt_says = for_each dt_say"

section \<open>The program\<close>

record dt_args =
  da_apply :: bool
  da_values :: string
  da_repos_config :: string

record dt_env =
  de_gh_token :: string
  de_github_token :: string
  de_repos :: "string option"
  de_yaml :: "string \<Rightarrow> json option"
  de_answer :: "string \<Rightarrow> string \<Rightarrow> gh_reply"

definition dt_token :: "dt_env \<Rightarrow> string" where
  "dt_token E = (if de_gh_token E = [] then de_github_token E else de_gh_token E)"

definition fetch_manifest :: "dt_env \<Rightarrow> json \<Rightarrow> json option" where
  "fetch_manifest E repo = gh_value (de_answer E (manifest_url repo) (dt_token E))"

definition report_gaps :: "gap list \<Rightarrow> unit dt_script" where
  "report_gaps gaps =
     (if gaps = [] then dt_say ''OK''
      else next_to (dt_say (show_int (int (length gaps)) @ '' gap(s)'')) (dt_says (concat (map (\<lambda>g. [gap_line g, detail_line g]) gaps))))"

definition reconcile_repo :: "dt_env \<Rightarrow> json \<Rightarrow> json \<Rightarrow> gap list dt_script" where
  "reconcile_repo E values repo =
     next_to (dt_put (''  Checking '' @ py_str repo @ ''... ''))
     (step (need () (fetch_manifest E repo)) (\<lambda>manifest.
        if manifest = JNull then next_to (dt_say (''no .fuze/manifest.json '' @ em_dash @ '' skipping'')) (yield [])
        else step (need () (jget manifest ''dataTier'')) (\<lambda>tiers.
          if \<not> truthy tiers then next_to (dt_say (''no dataTier declared '' @ em_dash @ '' skipping'')) (yield [])
          else step (detect_gaps manifest repo values) (\<lambda>gaps.
               next_to (report_gaps gaps) (next_to (summarise_egress manifest repo) (yield gaps))))))"

definition is_blocking :: "gap \<Rightarrow> bool" where
  "is_blocking g \<longleftrightarrow> gp_status g = MISSING \<or> gp_status g = GRANT_MISSING"

definition advisory_lines :: "gap list \<Rightarrow> string list" where
  "advisory_lines gaps =
     (if gaps = [] then []
      else ([CHR 0xE2, CHR 0x84, CHR 0xB9] @ [CHR 0xEF, CHR 0xB8, CHR 0x8F] @ ''   '' @ show_int (int (length gaps))
            @ '' advisory gap(s) (require manual review '' @ em_dash @ '' do not fail CI):'')
           # concat (map (\<lambda>g. [gap_line_of_repo g, detail_line g] @ tip_lines g) gaps))"

definition blocking_lines :: "gap list \<Rightarrow> string list" where
  "blocking_lines gaps =
     (newline @ [CHR 0xE2, CHR 0x9D, CHR 0x8C] @ ''  '' @ show_int (int (length gaps)) @ '' blocking gap(s) ''
      @ em_dash @ '' provisions are MISSING and must be added:'' @ newline)
     # concat (map (\<lambda>g. [gap_line_of_repo g, detail_line g]) gaps)"

definition settled_lines :: "string list" where
  "settled_lines =
     [newline @ [CHR 0xE2, CHR 0x9C, CHR 0x85] @ ''  No blocking gaps '' @ em_dash
      @ '' all declared dataTier provisions exist.'',
      ''    (Advisory gaps above may need manifest updates '' @ em_dash @ '' see TIP lines.)'']"

definition finish_run :: "dt_args \<Rightarrow> gap list \<Rightarrow> int dt_script" where
  "finish_run a gaps =
     next_to (dt_say [])
     (if gaps = [] then next_to (dt_say ([CHR 0xE2, CHR 0x9C, CHR 0x85] @ ''  All dataTier declarations are provisioned.'')) (yield 0)
      else let blocking = filter is_blocking gaps; advisory = filter (\<lambda>g. \<not> is_blocking g) gaps
        in next_to (dt_says (advisory_lines advisory))
           (if blocking = [] then next_to (dt_says settled_lines) (yield 0)
            else next_to (dt_says (blocking_lines blocking))
              (next_to (if da_apply a
                        then next_to (dt_say (newline @ ''Applying stub entries for MISSING provisions...'')) (apply_gaps blocking (da_values a))
                        else yield ())
              (yield 1))))"

definition repos_listed :: "dt_env \<Rightarrow> string \<Rightarrow> json option" where
  "repos_listed E config = do { doc \<leftarrow> de_yaml E config; jget_d doc ''repos'' (JList []) }"

definition reconcile_main :: "dt_env \<Rightarrow> dt_args \<Rightarrow> int dt_script" where
  "reconcile_main E a =
     (if dt_token E = [] then next_to (dt_error ''ERROR: set GH_TOKEN or GITHUB_TOKEN'') (yield 2)
      else step (looking dw_values) (\<lambda>values.
       case (values, de_repos E) of
         (None, _) \<Rightarrow> next_to (dt_error (''ERROR: values file not found: '' @ da_values a)) (yield 2)
       | (Some _, None) \<Rightarrow> next_to (dt_error (''ERROR: repos config not found: '' @ da_repos_config a)) (yield 2)
       | (Some file, Some config) \<Rightarrow>
           step (need () (repos_listed E config)) (\<lambda>repos.
           step (need () (load_values (de_yaml E) file)) (\<lambda>values.
           step (need () (json_len repos)) (\<lambda>n.
           next_to (dt_say (''Reconciling dataTier declarations for '' @ show_int (int n) @ '' consuming repo(s)...'' @ newline))
           (step (need () (jiter repos)) (\<lambda>repos.
           step (collect_gaps (reconcile_repo E values) repos) (finish_run a))))))))"

text \<open>The exit code; an exception ends the interpreter with 1.\<close>

definition reconcile_exit :: "unit + int \<Rightarrow> int" where
  "reconcile_exit r = (case r of Inl _ \<Rightarrow> 1 | Inr code \<Rightarrow> code)"

end
