(* ===== verification/DataTier_Properties.thy ===== *)
theory DataTier_Properties
  imports DataTier
begin

text \<open>
  The run ends with 0 exactly when everything declared is provisioned, and the values file only grows.
\<close>

section \<open>What the indexes find\<close>

text \<open>The entry bears the key under one of the members.\<close>

definition bears :: "string list \<Rightarrow> string \<Rightarrow> json \<Rightarrow> bool" where
  "bears names key e \<longleftrightarrow> (\<exists>f \<in> set names. \<exists>t. jget e f = Some (JStr t) \<and> t \<noteq> [] \<and> str_lower t = key)"

text \<open>The last entry of a section that bears a key.\<close>

definition entry_named :: "json list \<Rightarrow> string list \<Rightarrow> string \<Rightarrow> json option" where
  "entry_named entries names key = find (bears names key) (rev entries)"

lemma index_key_Some: "index_key e key idx = Some idx' \<longleftrightarrow> (\<exists>t. key = JStr t \<and> idx' = dict_set (str_lower t) e idx)"
  by (auto simp: index_key_def bind_eq_Some_conv as_text_Some)

lemma fold_index_key:
  "fold_opt (index_key e) keys idx = Some idx' \<Longrightarrow>
     map_of idx' k = (if \<exists>t. JStr t \<in> set keys \<and> str_lower t = k then Some e else map_of idx k)"
proof (induction keys arbitrary: idx)
  case (Cons key keys)
  then obtain t where "key = JStr t" "fold_opt (index_key e) keys (dict_set (str_lower t) e idx) = Some idx'"
    by (auto simp: bind_eq_Some_conv index_key_Some)
  with Cons.IH [of "dict_set (str_lower t) e idx"] show ?case by (auto simp: map_of_dict_set)
qed simp

lemma index_entry_map:
  assumes "index_entry names e idx = Some idx'"
  shows "map_of idx' k = (if bears names k e then Some e else map_of idx k)"
proof -
  from assms obtain keys where k: "those (map (jget e) names) = Some keys" "fold_opt (index_key e) (filter truthy keys) idx = Some idx'"
    by (auto simp: index_entry_def bind_eq_Some_conv)
  from k(1) have m: "map (jget e) names = map Some keys" by (simp add: those_map_Some)
  have "(\<exists>t. JStr t \<in> set (filter truthy keys) \<and> str_lower t = k) \<longleftrightarrow> bears names k e"
  proof -
    have "jget e ` set names = Some ` set keys" using arg_cong [OF m, of set] by simp
    then have "JStr t \<in> set keys \<longleftrightarrow> (\<exists>f \<in> set names. jget e f = Some (JStr t))" for t
      by (metis (no_types, lifting) image_iff option.inject)
    then show ?thesis by (auto simp: bears_def)
  qed
  with fold_index_key [OF k(2), of k] show ?thesis by simp
qed

lemma find_append_opt: "find P (xs @ ys) = (case find P xs of Some x \<Rightarrow> Some x | None \<Rightarrow> find P ys)"
  by (induction xs) auto

lemma fold_index_entry:
  "fold_opt (index_entry names) entries idx = Some idx' \<Longrightarrow>
     map_of idx' k = (case entry_named entries names k of Some e \<Rightarrow> Some e | None \<Rightarrow> map_of idx k)"
proof (induction entries arbitrary: idx)
  case (Cons e entries)
  then obtain idx1 where i: "index_entry names e idx = Some idx1" "fold_opt (index_entry names) entries idx1 = Some idx'"
    by (auto simp: bind_eq_Some_conv)
  from Cons.IH [OF i(2)] index_entry_map [OF i(1), of k] show ?case
    by (auto simp: entry_named_def find_append_opt split: option.splits)
qed (simp add: entry_named_def)

definition section_entries :: "json \<Rightarrow> string \<Rightarrow> json list" where
  "section_entries values section' = (case jget_d values section' (JList []) of None \<Rightarrow> [] | Some j \<Rightarrow> (case jiter j of None \<Rightarrow> [] | Some es \<Rightarrow> es))"

lemma section_index_map: "section_index section' names values = Some idx \<Longrightarrow> map_of idx k = entry_named (section_entries values section') names k"
  by (auto simp: section_index_def section_entries_def bind_eq_Some_conv fold_index_entry split: option.splits)

lemma bears_truthy: "bears names k e \<Longrightarrow> truthy e"
  by (cases e) (auto simp: bears_def jget_def dget_def split: option.split_asm)

lemma entry_named_truthy: "entry_named es names k = Some e \<Longrightarrow> truthy e"
  unfolding entry_named_def by (auto simp: find_Some_iff bears_truthy)

fun first_of :: "('k \<Rightarrow> 'v option) \<Rightarrow> 'k list \<Rightarrow> 'v option" where
  "first_of f [] = None"
| "first_of f (k # ks) = (case f k of Some v \<Rightarrow> Some v | None \<Rightarrow> first_of f ks)"

lemma first_entry_exact:
  assumes "\<And>k. map_of idx k = entry_named es names k"
  shows "first_entry idx keys = (case first_of (entry_named es names) keys of Some e \<Rightarrow> e | None \<Rightarrow> JNull)"
  by (induction keys) (auto simp: jor_def dget_def assms entry_named_truthy split: option.splits)

lemma first_of_truthy: "first_of (entry_named es names) keys = Some e \<Longrightarrow> truthy e"
  by (induction keys) (auto simp: entry_named_truthy split: option.split_asm)

section \<open>What is provisioned\<close>

definition role_of :: "json \<Rightarrow> string" where
  "role_of dt = (case jidx dt ''role'' of Some (JStr r) \<Rightarrow> r | _ \<Rightarrow> [])"

definition instance_of :: "json \<Rightarrow> string" where
  "instance_of dt =
     (case jget_d dt ''store'' (JStr []) of
        Some store \<Rightarrow> (case jget_d dt ''instance'' store of Some (JStr n) \<Rightarrow> n | _ \<Rightarrow> [])
      | None \<Rightarrow> [])"

text \<open>The entry that a declaration is matched with.\<close>

definition entry_for :: "json \<Rightarrow> string \<Rightarrow> json \<Rightarrow> json option" where
  "entry_for values store dt =
     (if store = ''postgres''
      then first_of (entry_named (section_entries values ''serviceDatabases'') [''role'', ''name'']) (postgres_names (role_of dt))
      else if store = ''mariadb''
      then first_of (entry_named (section_entries values ''serviceMariadbDatabases'') [''user'', ''name'']) (postgres_names (role_of dt))
      else if store = ''mongo''
      then first_of (entry_named (section_entries values ''serviceMongoDatabases'') [''user'', ''name'']) (mongo_names (role_of dt))
      else entry_named (section_entries values ''serviceNeo4jInstances'') [''name''] (str_lower (instance_of dt)))"

definition granted_on :: "json \<Rightarrow> json \<Rightarrow> bool" where
  "granted_on e db \<longleftrightarrow> (\<exists>dbs. granted_dbs e = Some dbs \<and> list_ex (py_eq db) dbs)"

text \<open>There is an entry, and on Mongo it has a role on the declared database.\<close>

definition provisioned :: "json \<Rightarrow> string \<Rightarrow> json \<Rightarrow> bool" where
  "provisioned values store dt \<longleftrightarrow>
     (case entry_for values store dt of
        None \<Rightarrow> False
      | Some e \<Rightarrow> store = ''mongo'' \<longrightarrow> (\<exists>db. jidx dt ''database'' = Some db \<and> granted_on e db))"

definition lets_fail :: "gap list \<Rightarrow> bool" where
  "lets_fail gs \<longleftrightarrow> list_ex is_blocking gs"

lemma lets_fail_simps [simp]: "lets_fail [] = False" "lets_fail (g # gs) \<longleftrightarrow> is_blocking g \<or> lets_fail gs" "lets_fail (gs @ hs) \<longleftrightarrow> lets_fail gs \<or> lets_fail hs"
  by (auto simp: lets_fail_def)

lemma disabled_blocks: "disabled_gaps repo store section' role db e = Some gs \<Longrightarrow> \<not> lets_fail gs"
  by (auto simp: disabled_gaps_def bind_eq_Some_conv role_gap_def is_blocking_def split: if_split_asm)

lemma mismatch_blocks: "mismatch_gaps repo store role db e = Some gs \<Longrightarrow> \<not> lets_fail gs"
  by (auto simp: mismatch_gaps_def bind_eq_Some_conv role_gap_def is_blocking_def split: if_split_asm)

lemma grant_blocks: "grant_gaps repo role db e = Some gs \<Longrightarrow> lets_fail gs \<longleftrightarrow> \<not> granted_on e db"
  by (auto simp: grant_gaps_def guard_opt_def bind_eq_Some_conv role_gap_def is_blocking_def granted_on_def split: if_split_asm)

lemma role_gap_blocking: "is_blocking ((role_gap repo store MISSING role db detail)\<lparr>gp_privileges := p, gp_auth_source := q\<rparr>)"
    "is_blocking ((role_gap repo store MISSING role db detail)\<lparr>gp_privileges := p\<rparr>)" "is_blocking (role_gap repo store MISSING role db detail)"
    "is_blocking (instance_gap repo MISSING name detail)" "\<not> is_blocking (instance_gap repo DISABLED name detail)"
  by (simp_all add: is_blocking_def role_gap_def instance_gap_def)

lemmas gap_kinds = disabled_blocks mismatch_blocks grant_blocks role_gap_blocking

lemma check_postgres_blocks:
  assumes "check_postgres repo dt idx = Some gs"
  shows "lets_fail gs \<longleftrightarrow> \<not> truthy (first_entry idx (postgres_names (role_of dt)))"
  using assms
  by (cases "truthy (first_entry idx (postgres_names (role_of dt)))")
    (auto simp: check_postgres_def role_of_def bind_eq_Some_conv as_text_Some Let_def gap_kinds)

lemma check_mariadb_blocks:
  assumes "check_mariadb repo dt idx = Some gs"
  shows "lets_fail gs \<longleftrightarrow> \<not> truthy (first_entry idx (postgres_names (role_of dt)))"
  using assms
  by (cases "truthy (first_entry idx (postgres_names (role_of dt)))")
    (auto simp: check_mariadb_def role_of_def bind_eq_Some_conv as_text_Some Let_def gap_kinds)

lemma check_mongo_blocks:
  assumes "check_mongo repo dt idx = Some gs"
  shows "lets_fail gs \<longleftrightarrow>
    \<not> (truthy (first_entry idx (mongo_names (role_of dt)))
       \<and> (\<exists>db. jidx dt ''database'' = Some db \<and> granted_on (first_entry idx (mongo_names (role_of dt))) db))"
  using assms
  by (cases "truthy (first_entry idx (mongo_names (role_of dt)))")
    (auto simp: check_mongo_def role_of_def bind_eq_Some_conv as_text_Some Let_def gap_kinds)

lemma check_neo4j_blocks:
  assumes "check_neo4j repo dt idx = Some gs"
  shows "lets_fail gs \<longleftrightarrow> \<not> truthy (dget idx (str_lower (instance_of dt)) JNull)"
proof -
  from assms obtain name where n: "do { store \<leftarrow> jget_d dt ''store'' (JStr []); jget_d dt ''instance'' store } = Some (JStr name)"
    by (auto simp: check_neo4j_def bind_eq_Some_conv as_text_Some)
  then have i: "instance_of dt = name" by (auto simp: instance_of_def bind_eq_Some_conv)
  show ?thesis
  proof (cases "truthy (dget idx (str_lower name) JNull)")
    case True
    with assms n obtain enabled where "jget_d (dget idx (str_lower name) JNull) ''enabled'' (JBool True) = Some enabled"
      by (auto simp: check_neo4j_def bind_eq_Some_conv Let_def)
    with assms n i True show ?thesis
      by (cases "truthy enabled") (auto simp: check_neo4j_def bind_eq_Some_conv Let_def gap_kinds)
  next
    case False
    with assms n i show ?thesis by (auto simp: check_neo4j_def bind_eq_Some_conv Let_def gap_kinds)
  qed
qed

lemma check_store_blocks:
  assumes "indexes_of values = Some ix" and "check_store store repo dt ix = Some gs" and "List.member SUPPORTED_STORES store"
  shows "lets_fail gs \<longleftrightarrow> \<not> provisioned values store dt"
proof -
  from assms(1) have ix: "pg_index values = Some (ix_postgres ix)" "mariadb_index values = Some (ix_mariadb ix)"
      "mongo_index values = Some (ix_mongo ix)" "neo4j_index values = Some (ix_neo4j ix)"
    by (auto simp: indexes_of_def bind_eq_Some_conv)
  note m = ix [unfolded pg_index_def mariadb_index_def mongo_index_def neo4j_index_def, THEN section_index_map]
  from assms(3) consider "store = ''postgres''" | "store = ''mariadb''" | "store = ''mongo''" | "store = ''neo4j''"
    by (auto simp: SUPPORTED_STORES_def List.member_iff)
  then show ?thesis
  proof cases
    case 1
    with assms(2) check_postgres_blocks first_entry_exact [OF m(1)] show ?thesis
      by (auto simp: check_store_def provisioned_def entry_for_def first_of_truthy split: option.splits)
  next
    case 2
    with assms(2) check_mariadb_blocks first_entry_exact [OF m(2)] show ?thesis
      by (auto simp: check_store_def provisioned_def entry_for_def first_of_truthy split: option.splits)
  next
    case 3
    with assms(2) check_mongo_blocks first_entry_exact [OF m(3)] show ?thesis
      by (auto simp: check_store_def provisioned_def entry_for_def first_of_truthy split: option.splits)
  next
    case 4
    with assms(2) check_neo4j_blocks m(4) show ?thesis
      by (auto simp: check_store_def provisioned_def entry_for_def dget_def entry_named_truthy split: option.splits)
  qed
qed

section \<open>The run\<close>

lemma next_to_Inr: "next_to m n w = (Inr y, w') \<longleftrightarrow> (\<exists>v. m w = (Inr (), v) \<and> n v = (Inr y, w'))"
  by (simp add: next_to_def step_Inr)

lemma collect_gaps_blocks:
  "collect_gaps f xs w = (Inr gs, w') \<Longrightarrow> (\<And>x g v v'. f x v = (Inr g, v') \<Longrightarrow> lets_fail g \<longleftrightarrow> bad x) \<Longrightarrow>
     lets_fail gs \<longleftrightarrow> list_ex bad xs"
proof (induction xs arbitrary: gs w)
  case (Cons x xs)
  from Cons.prems(1) obtain g v h where "f x w = (Inr g, v)" "collect_gaps f xs v = (Inr h, w')" "gs = g @ h"
    by (auto simp: step_Inr)
  with Cons.IH [OF _ Cons.prems(2)] Cons.prems(2) show ?case by simp
qed simp

definition unprovisioned :: "json \<Rightarrow> json \<Rightarrow> bool" where
  "unprovisioned values dt \<longleftrightarrow> (\<exists>store. store_of dt = Some store \<and> List.member SUPPORTED_STORES store \<and> \<not> provisioned values store dt)"

lemma declared_gaps_blocks:
  assumes "indexes_of values = Some ix" and "declared_gaps repo ix dt v = (Inr gs, v')"
  shows "lets_fail gs \<longleftrightarrow> unprovisioned values dt"
proof -
  from assms(2) obtain store where st: "store_of dt = Some store"
    by (auto simp: declared_gaps_def step_Inr need_Inr)
  show ?thesis
  proof (cases "List.member SUPPORTED_STORES store")
    case True
    with assms(2) st have "check_store store repo dt ix = Some gs" by (simp add: declared_gaps_def step_Inr need_Inr)
    from check_store_blocks [OF assms(1) this True] st True show ?thesis by (simp add: unprovisioned_def)
  next
    case False
    with assms(2) st show ?thesis by (simp add: declared_gaps_def step_Inr need_Inr next_to_Inr unprovisioned_def)
  qed
qed

definition lacking :: "dt_env \<Rightarrow> json \<Rightarrow> json \<Rightarrow> bool" where
  "lacking E values repo \<longleftrightarrow>
     (\<exists>manifest tiers. fetch_manifest E repo = Some manifest \<and> declared_tiers manifest = Some tiers
        \<and> list_ex (unprovisioned values) tiers)"

lemma detect_gaps_blocks:
  assumes "detect_gaps manifest repo values v = (Inr gs, v')"
  shows "\<exists>tiers. declared_tiers manifest = Some tiers \<and> (lets_fail gs \<longleftrightarrow> list_ex (unprovisioned values) tiers)"
proof -
  from assms obtain ix tiers where i: "indexes_of values = Some ix" and t: "declared_tiers manifest = Some tiers"
      and c: "collect_gaps (declared_gaps repo ix) tiers v = (Inr gs, v')"
    by (auto simp: detect_gaps_def step_Inr need_Inr)
  from collect_gaps_blocks [OF c, of "unprovisioned values"] declared_gaps_blocks [OF i] t show ?thesis by blast
qed

lemma no_tiers: "jget manifest ''dataTier'' = Some t \<Longrightarrow> \<not> truthy t \<Longrightarrow> declared_tiers manifest = Some tiers \<Longrightarrow> tiers = []"
  by (cases manifest) (auto simp: declared_tiers_def jget_def dget_def split: option.split_asm, (case_tac t, auto)+)

lemma reconcile_repo_blocks:
  assumes "reconcile_repo E values repo v = (Inr gs, v')"
  shows "lets_fail gs \<longleftrightarrow> lacking E values repo"
proof -
  from assms obtain manifest where m: "fetch_manifest E repo = Some manifest"
    by (auto simp: reconcile_repo_def next_to_Inr step_Inr need_Inr)
  show ?thesis
  proof (cases "manifest = JNull")
    case True
    with assms m show ?thesis
      by (auto simp: reconcile_repo_def next_to_Inr step_Inr need_Inr lacking_def declared_tiers_def)
  next
    case False
    with assms m obtain tiers where t: "jget manifest ''dataTier'' = Some tiers"
      by (auto simp: reconcile_repo_def next_to_Inr step_Inr need_Inr)
    show ?thesis
    proof (cases "truthy tiers")
      case True
      with assms m False t obtain w w' where "detect_gaps manifest repo values w = (Inr gs, w')"
        by (auto simp: reconcile_repo_def next_to_Inr step_Inr need_Inr)
      from detect_gaps_blocks [OF this] m show ?thesis by (auto simp: lacking_def)
    next
      case no: False
      with assms m False t have "gs = []"
        by (auto simp: reconcile_repo_def next_to_Inr step_Inr need_Inr)
      with no_tiers [OF t no] m show ?thesis by (auto simp: lacking_def)
    qed
  qed
qed

lemma finish_run_code:
  assumes "finish_run a gaps w = (Inr code, w')"
  shows "code = (if lets_fail gaps then 1 else 0)"
proof -
  have "filter is_blocking gaps = [] \<longleftrightarrow> \<not> lets_fail gaps" by (simp add: lets_fail_def list_ex_iff filter_empty_conv)
  with assms show ?thesis by (auto simp: finish_run_def Let_def next_to_Inr split: if_split_asm)
qed

text \<open>C15: a run that ends has exit code 0 exactly when every supported declaration of every listed repository
  has an entry, on Mongo with a role on the declared database; otherwise 1.\<close>

theorem exit_code_exact:
  assumes "reconcile_main E a w = (Inr code, w')" and "dt_token E \<noteq> []"
    and "dw_values w = Some file" and "load_values (de_yaml E) file = Some values"
    and "de_repos E = Some config" and "repos_listed E config = Some listed" and "jiter listed = Some repos"
  shows "code = (if list_ex (lacking E values) repos then 1 else 0)"
proof -
  from assms obtain gaps v v' where "collect_gaps (reconcile_repo E values) repos v = (Inr gaps, v')"
      "finish_run a gaps v' = (Inr code, w')"
    by (auto simp: reconcile_main_def step_Inr next_to_Inr need_Inr)
  from finish_run_code [OF this(2)] collect_gaps_blocks [OF this(1) reconcile_repo_blocks] show ?thesis by simp
qed

section \<open>The values file\<close>

lemma printing_leaves [leaves_rules]: "leaves dw_values (dt_put s)" "leaves dw_values (dt_say s)" "leaves dw_values (dt_error s)"
    "leaves dw_values (dt_says ls)"
  by (auto simp: dt_say_def dt_put_def dt_error_def dt_says_def intro!: leaves_rules)

lemma collect_leaves [leaves_rules]: "(\<And>x. leaves v (f x)) \<Longrightarrow> leaves v (collect_gaps f xs)"
  by (induction xs) (auto simp del: script_simps intro!: leaves_rules)


lemma reconcile_leaves [leaves_rules]: "leaves dw_values (reconcile_repo E values repo)"
  by (auto simp: reconcile_repo_def detect_gaps_def declared_gaps_def report_gaps_def summarise_egress_def intro!: leaves_rules)
















section \<open>What a stub may hold\<close>

lemma sub_here: "sublist x (x @ y)" and sub_later: "sublist x y \<Longrightarrow> sublist x (z @ y)"
  by (auto intro: sublist_append_rightI sublist_order.order.trans [OF _ sublist_append_leftI])

text \<open>The role stands in the stub as the repository declares it, also when it is more than one line.\<close>

theorem role_stands_verbatim:
  assumes "pg_snippet g repo = Some stub" and "gp_role g = Some role"
  shows "sublist role stub"
proof -
  from assms obtain db name where "gp_database g = Some db" "short_name repo = Some name"
    unfolding pg_snippet_def by (cases "gp_database g"; cases "short_name repo") simp_all
  from assms(1) [unfolded pg_snippet_def Let_def assms(2) this bind.bind_lunit option.inject] show ?thesis
    by (elim subst) (rule sub_here | rule sub_later)+
qed

text \<open>A missing instance lets_fail, and \<open>--apply\<close> adds nothing for it.\<close>

theorem instance_not_added:
  assumes "gp_store g = ''neo4j''"
  shows "dw_values (snd (apply_gaps [g] path w)) = dw_values w"
proof (cases "gp_status g = MISSING")
  case True
  with assms have "make_stubs [g] no_stubs w = (Inr no_stubs, w)" for w by (simp add: add_stub_def)
  then have "apply_gaps [g] path w = dt_say (''Nothing to apply (only DB_MISMATCH/DISABLED/GRANT_MISSING gaps '' @ em_dash
        @ '' fix manually).'') w"
    by (simp add: apply_gaps_def step_run no_stubs_def del: make_stubs.simps)
  then show ?thesis using printing_leaves(2) by (simp add: leaves_def)
next
  case False
  then have "make_stubs [g] no_stubs w = (Inr no_stubs, w\<lparr>dw_out := dw_out w @ skip_apply g @ newline\<rparr>)" for w
    by (simp add: dt_say_def dt_put_def)
  then show ?thesis using printing_leaves(2) by (simp add: apply_gaps_def step_run no_stubs_def leaves_def del: make_stubs.simps)
qed

text \<open>A section that is written as an empty list gets a second header.\<close>

theorem second_header:
  "add_stubs ''serviceDatabases'' [stub] (''serviceDatabases: []'' @ newline)
   = ''serviceDatabases: []'' @ newline @ newline @ ''serviceDatabases:'' @ newline @ stub @ newline"
proof -
  have "split_after ''serviceDatabases:'' True (''serviceDatabases: []'' @ newline) = None" by code_simp
  then show ?thesis by (simp add: add_stubs_def)
qed

section \<open>Examples\<close>

definition tier_values :: json where
  "tier_values =
     JObj [(''serviceMongoDatabases'', JList [JObj [(''user'', JStr ''shop_svc''), (''roles'', JList [JObj [(''db'', JStr ''shop'')]])]])]"

definition tier_manifest :: json where
  "tier_manifest =
     JObj [(''dataTier'', JList [JObj [(''store'', JStr ''mongo''), (''role'', JStr ''shop_svc''), (''database'', JStr ''orders'')],
       JObj [(''store'', JStr ''postgres''), (''role'', JStr ''shop''), (''database'', JStr ''shop'')]])]"

definition tier_env :: dt_env where
  "tier_env = \<lparr>de_gh_token = ''t'', de_github_token = [], de_repos = Some ''R'',
     de_yaml = (\<lambda>s. Some (if s = ''R'' then JObj [(''repos'', JList [JStr ''o/shop''])] else tier_values)),
     de_answer = (\<lambda>_ _. GhBody (dumps tier_manifest))\<rparr>"

definition tier_args :: dt_args where
  "tier_args = \<lparr>da_apply = True, da_values = ''values.yaml'', da_repos_config = ''repos.yaml''\<rparr>"

definition tier_world :: dt_world where
  "tier_world = \<lparr>dw_out = [], dw_errors = [], dw_values = Some ''V''\<rparr>"

lemma tier_run: "case reconcile_main tier_env tier_args tier_world of (Inr code, w') \<Rightarrow> True | _ \<Rightarrow> False"
  by code_simp

theorem exit_code_exact_witness:
  "\<exists>code w'. reconcile_main tier_env tier_args tier_world = (Inr code, w')
     \<and> code = (if list_ex (lacking tier_env tier_values) [JStr ''o/shop''] then 1 else 0)"
proof -
  from tier_run obtain code w' where r: "reconcile_main tier_env tier_args tier_world = (Inr code, w')"
    by (auto split: prod.split_asm sum.split_asm)
  have "load_values (de_yaml tier_env) ''V'' = Some tier_values" "repos_listed tier_env ''R'' = Some (JList [JStr ''o/shop''])"
      "dt_token tier_env \<noteq> []" "dw_values tier_world = Some ''V''" "de_repos tier_env = Some ''R''"
    by (simp_all add: load_values_def tier_env_def jor_def tier_values_def repos_listed_def dget_def dt_token_def tier_world_def)
  from exit_code_exact [OF r this(3) this(4) this(1) this(5) this(2)] r show ?thesis by simp
qed


end
