(* ===== verification/AgentPr.thy ===== *)
theory AgentPr
  imports Json JsonText
begin

text \<open>
  .github/detect-agent-pr-ci.py: the pull requests of agents whose checks are held back or were never
  started. None is an exception, which ends the program.
\<close>

section \<open>Which pull requests are examined\<close>

fun starts_with_any :: "json \<Rightarrow> json list \<Rightarrow> bool option" where
  "starts_with_any ref [] = Some False"
| "starts_with_any ref (p # ps) =
     do { r \<leftarrow> as_text ref; t \<leftarrow> as_text p; if prefix t r then Some True else starts_with_any ref ps }"

definition is_agent_pr :: "json \<Rightarrow> json \<Rightarrow> json list \<Rightarrow> bool option" where
  "is_agent_pr pr marks authors =
     do { ref \<leftarrow> jget_or pr ''head_ref'' (JStr []); ps \<leftarrow> jiter marks; by_branch \<leftarrow> starts_with_any ref ps;
          if by_branch then Some True
          else do { author \<leftarrow> jget_or pr ''author'' (JStr []); guard_opt (hashable author) (Some (list_ex (py_eq author) authors)) } }"

section \<open>Findings\<close>

datatype pr_kind = Gated | MissingRuns

fun kind_name :: "pr_kind \<Rightarrow> string" where
  "kind_name Gated = ''gated''"
| "kind_name MissingRuns = ''missing''"

record pr_finding =
  pf_number :: json
  pf_head_ref :: json
  pf_kind :: pr_kind
  pf_detail :: string

definition pull_request_run :: "json \<Rightarrow> bool option" where
  "pull_request_run r = map_option (\<lambda>e. e = JStr ''pull_request'') (jget r ''event'')"

definition is_held :: "json \<Rightarrow> bool option" where
  "is_held r =
     do { conclusion \<leftarrow> jget r ''conclusion''; status \<leftarrow> jget r ''status'';
          Some (jor conclusion status = JStr ''action_required'') }"

definition run_names :: "json list \<Rightarrow> string list option" where
  "run_names runs =
     map_option (\<lambda>ns. sort (remdups ns)) (those (map (\<lambda>r. do { n \<leftarrow> jget_d r ''name'' (JStr ''?''); as_text n }) runs))"

fun first_actor :: "json list \<Rightarrow> json option" where
  "first_actor [] = Some (JStr ''unknown'')"
| "first_actor (r # rs) = do { a \<leftarrow> jget r ''triggering_actor''; if truthy a then Some a else first_actor rs }"

definition finding_for :: "json \<Rightarrow> pr_kind \<Rightarrow> string \<Rightarrow> pr_finding option" where
  "finding_for pr kind detail =
     do { number \<leftarrow> jget pr ''number''; ref \<leftarrow> jget pr ''head_ref'';
          Some \<lparr>pf_number = number, pf_head_ref = ref, pf_kind = kind, pf_detail = detail\<rparr> }"

definition gated_finding :: "json \<Rightarrow> json list \<Rightarrow> pr_finding option" where
  "gated_finding pr held =
     do { names \<leftarrow> run_names held; actor \<leftarrow> first_actor held;
          finding_for pr Gated
            (show_int (int (length held)) @ '' run(s) action_required (triggering_actor='' @ py_str actor @ ''): ''
             @ str_join '', '' names) }"

text \<open>The age of a head: two numbers; None is a TypeError.\<close>

fun flt_minus :: "flt \<Rightarrow> flt \<Rightarrow> flt" where
  "flt_minus (Fin a) (Fin b) = Fin (a - b)"
| "flt_minus NaN y = NaN"
| "flt_minus x NaN = NaN"
| "flt_minus PInf PInf = NaN"
| "flt_minus NInf NInf = NaN"
| "flt_minus PInf y = PInf"
| "flt_minus NInf y = NInf"
| "flt_minus x PInf = NInf"
| "flt_minus x NInf = PInf"

definition head_age :: "json \<Rightarrow> json \<Rightarrow> flt option" where
  "head_age now committed = do { a \<leftarrow> number_of now; b \<leftarrow> number_of committed; Some (flt_minus a b) }"

definition missing_finding :: "json \<Rightarrow> int \<Rightarrow> json \<Rightarrow> pr_finding list option" where
  "missing_finding now grace pr =
     do { committed \<leftarrow> jget pr ''head_committed_at'';
          if committed = JNull then Some []
          else do { age \<leftarrow> head_age now committed;
                    if \<not> fle (Fin (of_int grace)) age then Some []
                    else (case age of
                            Fin q \<Rightarrow>
                              map_option (\<lambda>f. [f]) (finding_for pr MissingRuns
                                (''0 pull_request runs on head '' @ show_int (rat_trunc (q / 60)) @ ''m after it was pushed '' @ em_dash
                                 @ '' CI never triggered (GITHUB_TOKEN recursion guard?)''))
                          | _ \<Rightarrow> None) } }"

definition pr_findings :: "json \<Rightarrow> int \<Rightarrow> json \<Rightarrow> json list \<Rightarrow> json \<Rightarrow> pr_finding list option" where
  "pr_findings now grace marks authors pr =
     do { agent \<leftarrow> is_agent_pr pr marks authors;
          if \<not> agent then Some []
          else do { runs \<leftarrow> jget_or pr ''runs'' (JList []); runs \<leftarrow> jiter runs; runs \<leftarrow> filter_opt pull_request_run runs;
                    held \<leftarrow> filter_opt is_held runs;
                    if held \<noteq> [] then map_option (\<lambda>f. [f]) (gated_finding pr held)
                    else if runs = [] then missing_finding now grace pr
                    else Some [] } }"

definition evaluate_prs :: "json \<Rightarrow> pr_finding list option" where
  "evaluate_prs payload =
     do { now \<leftarrow> jget_or payload ''now'' (JInt 0); minutes \<leftarrow> jget_d payload ''grace_minutes'' (JInt 20);
          minutes \<leftarrow> py_int minutes;
          marks \<leftarrow> jget_or payload ''agent_branch_prefixes'' (JList [JStr ''claude/'']);
          authors \<leftarrow> jget_or payload ''agent_authors'' (JList [JStr ''github-actions[bot]'']);
          authors \<leftarrow> jiter authors;
          guard_opt (list_all hashable authors)
            (do { prs \<leftarrow> jget_d payload ''prs'' (JList []); prs \<leftarrow> jiter prs;
                  map_option concat (those (map (pr_findings now (minutes * 60) marks authors) prs)) }) }"

section \<open>The report\<close>

definition finding_row :: "pr_finding \<Rightarrow> string" where
  "finding_row f =
     ''| #'' @ py_str (pf_number f) @ '' | `'' @ py_str (pf_head_ref f) @ ''` | **'' @ kind_name (pf_kind f) @ ''** | ''
     @ pf_detail f @ '' |''"

definition unreachable_lines :: "pr_finding list \<Rightarrow> string list" where
  "unreachable_lines fs =
     [''## '' @ [CHR 0xE2, CHR 0x9D, CHR 0x8C] @ '' Agent PRs with unreachable CI'' @ newline,
      ''| PR | branch | kind | detail |'',
      ''|----|--------|------|--------|'']
     @ map finding_row fs
     @ [[],
        ''Agent PRs must be pushed/opened under a collaborator-backed identity (GitHub App installation ''
        @ ''token or dedicated bot PAT), never `github-actions[bot]` / GITHUB_TOKEN. See ''
        @ ''`docs/agent-pr-ci-reachability.md`.'']"

definition reachable_lines :: "string list" where
  "reachable_lines =
     [''## '' @ [CHR 0xE2, CHR 0x9C, CHR 0x85] @ '' All agent PRs have reachable CI'', [],
      ''No `action_required`-gated runs and no agent PR head missing its `pull_request` runs.'']"

definition pr_report :: "pr_finding list \<Rightarrow> string" where
  "pr_report fs = str_join newline (if fs = [] then reachable_lines else unreachable_lines fs) @ newline"

definition count_kind :: "pr_kind \<Rightarrow> pr_finding list \<Rightarrow> int" where
  "count_kind k fs = int (length (filter (\<lambda>f. pf_kind f = k) fs))"

definition pr_outputs :: "pr_finding list \<Rightarrow> string" where
  "pr_outputs fs =
     ''found='' @ (if fs = [] then ''false'' else ''true'') @ newline
     @ ''gated='' @ show_int (count_kind Gated fs) @ newline @ ''missing='' @ show_int (count_kind MissingRuns fs) @ newline"

section \<open>The program\<close>

text \<open>What is printed, and what is appended to the summary and the outputs where these files are set.\<close>

record pr_result =
  pm_code :: int
  pm_out :: string
  pm_error :: string
  pm_summary :: string
  pm_outputs :: string

text \<open>\<open>decode_error\<close> is the text of the error of the decoder.\<close>

definition detect_main :: "bool \<Rightarrow> bool \<Rightarrow> (string \<Rightarrow> string) \<Rightarrow> string \<Rightarrow> pr_result option" where
  "detect_main has_summary has_output decode_error raw =
     (case (if str_strip raw = [] then Some (JObj []) else loads raw) of
        None \<Rightarrow>
          Some \<lparr>pm_code = 2, pm_out = [], pm_error = ''::error::could not parse input JSON: '' @ decode_error raw @ newline,
                pm_summary = [], pm_outputs = []\<rparr>
      | Some payload \<Rightarrow>
          do { fs \<leftarrow> evaluate_prs payload;
               Some \<lparr>pm_code = (if fs = [] then 0 else 1), pm_out = pr_report fs @ newline, pm_error = [],
                     pm_summary = (if has_summary then pr_report fs else []),
                     pm_outputs = (if has_output then pr_outputs fs else [])\<rparr> })"

end
