(* ===== verification/AgentPr_Properties.thy ===== *)
theory AgentPr_Properties
  imports AgentPr
begin

text \<open>
  The detection fails exactly when some pull request of an agent has a run that is held back, or an old head
  without runs; an empty input passes.
\<close>

section \<open>What is unreachable\<close>

definition pr_runs :: "json \<Rightarrow> json list" where
  "pr_runs pr =
     (case jget_or pr ''runs'' (JList []) of
        Some j \<Rightarrow> (case jiter j of Some runs \<Rightarrow> filter (\<lambda>r. jget r ''event'' = Some (JStr ''pull_request'')) runs | None \<Rightarrow> [])
      | None \<Rightarrow> [])"

definition held_back :: "json \<Rightarrow> bool" where
  "held_back r \<longleftrightarrow>
     (\<exists>c s. jget r ''conclusion'' = Some c \<and> jget r ''status'' = Some s \<and> jor c s = JStr ''action_required'')"

definition overdue :: "json \<Rightarrow> int \<Rightarrow> json \<Rightarrow> bool" where
  "overdue now grace pr \<longleftrightarrow>
     (\<exists>c age. jget pr ''head_committed_at'' = Some c \<and> c \<noteq> JNull \<and> head_age now c = Some age \<and> fle (Fin (of_int grace)) age)"

definition unreachable :: "json \<Rightarrow> int \<Rightarrow> json \<Rightarrow> json list \<Rightarrow> json \<Rightarrow> bool" where
  "unreachable now grace marks authors pr \<longleftrightarrow>
     is_agent_pr pr marks authors = Some True
     \<and> (list_ex held_back (pr_runs pr) \<or> pr_runs pr = [] \<and> overdue now grace pr)"

lemma filter_runs: "filter_opt pull_request_run runs = Some ys \<Longrightarrow> ys = filter (\<lambda>r. jget r ''event'' = Some (JStr ''pull_request'')) runs"
  by (auto dest!: filter_opt_Some simp: pull_request_run_def)

lemma filter_held: "filter_opt is_held runs = Some ys \<Longrightarrow> ys = [] \<longleftrightarrow> \<not> list_ex held_back runs"
  by (auto dest!: filter_opt_Some simp: is_held_def held_back_def bind_eq_Some_conv filter_empty_conv list_ex_iff)

lemma missing_exact:
  assumes "missing_finding now grace pr = Some fs"
  shows "fs = [] \<longleftrightarrow> \<not> overdue now grace pr"
proof -
  from assms obtain c where c: "jget pr ''head_committed_at'' = Some c" by (auto simp: missing_finding_def bind_eq_Some_conv)
  show ?thesis
  proof (cases "c = JNull")
    case True
    with assms c show ?thesis by (simp add: missing_finding_def overdue_def)
  next
    case False
    with assms c obtain age where g: "head_age now c = Some age" by (auto simp: missing_finding_def bind_eq_Some_conv)
    show ?thesis
    proof (cases "fle (Fin (of_int grace)) age")
      case True
      with assms c False g have "fs \<noteq> []" by (cases age) (auto simp: missing_finding_def)
      with True c False g show ?thesis by (simp add: overdue_def)
    next
      case no: False
      with assms c False g show ?thesis by (simp add: missing_finding_def overdue_def)
    qed
  qed
qed

lemma pr_findings_exact:
  assumes "pr_findings now grace marks authors pr = Some fs"
  shows "fs = [] \<longleftrightarrow> \<not> unreachable now grace marks authors pr"
proof -
  from assms obtain agent where a: "is_agent_pr pr marks authors = Some agent"
    by (auto simp: pr_findings_def bind_eq_Some_conv)
  show ?thesis
  proof (cases agent)
    case False
    with assms a show ?thesis by (auto simp: pr_findings_def unreachable_def)
  next
    case True
    with assms a obtain j runs rs held where r: "jget_or pr ''runs'' (JList []) = Some j" "jiter j = Some runs"
        "filter_opt pull_request_run runs = Some rs" and h: "filter_opt is_held rs = Some held"
      by (auto simp: pr_findings_def bind_eq_Some_conv)
    have rs: "pr_runs pr = rs" using r filter_runs [OF r(3)] by (simp add: pr_runs_def)
    from filter_held [OF h] have e: "held = [] \<longleftrightarrow> \<not> list_ex held_back rs" .
    show ?thesis
    proof (cases "held = []")
      case no: True
      with assms a True r h have m: "(if rs = [] then missing_finding now grace pr else Some []) = Some fs"
        by (simp add: pr_findings_def)
      show ?thesis using m missing_exact [of now grace pr fs] no e a True rs
        by (cases "rs = []") (auto simp: unreachable_def)
    next
      case some: False
      with assms a True r h have "fs \<noteq> []" by (auto simp: pr_findings_def)
      with some e a True rs show ?thesis by (simp add: unreachable_def)
    qed
  qed
qed

section \<open>The exit code\<close>

text \<open>What the detection reads from its input: the time, the grace in seconds, the marks of branches, the
  authors and the pull requests.\<close>

definition inputs_of :: "json \<Rightarrow> (json \<times> int \<times> json \<times> json list \<times> json list) option" where
  "inputs_of payload =
     do { now \<leftarrow> jget_or payload ''now'' (JInt 0); minutes \<leftarrow> jget_d payload ''grace_minutes'' (JInt 20);
          minutes \<leftarrow> py_int minutes;
          marks \<leftarrow> jget_or payload ''agent_branch_prefixes'' (JList [JStr ''claude/'']);
          authors \<leftarrow> jget_or payload ''agent_authors'' (JList [JStr ''github-actions[bot]'']);
          authors \<leftarrow> jiter authors; prs \<leftarrow> jget_d payload ''prs'' (JList []); prs \<leftarrow> jiter prs;
          Some (now, minutes * 60, marks, authors, prs) }"

lemma evaluate_exact:
  assumes "evaluate_prs payload = Some fs" and "inputs_of payload = Some (now, grace, marks, authors, prs)"
  shows "fs = [] \<longleftrightarrow> \<not> list_ex (unreachable now grace marks authors) prs"
proof -
  from assms obtain fss where f: "those (map (pr_findings now grace marks authors) prs) = Some fss" and fs: "fs = concat fss"
    by (auto simp: evaluate_prs_def inputs_of_def bind_eq_Some_conv guard_opt_def split: if_split_asm)
  have "those (map (pr_findings now grace marks authors) ps) = Some gss \<Longrightarrow>
      concat gss = [] \<longleftrightarrow> \<not> list_ex (unreachable now grace marks authors) ps" for ps gss
    by (induction ps arbitrary: gss) (auto dest: pr_findings_exact split: option.split_asm)
  from this [OF f] fs show ?thesis by simp
qed

text \<open>C34: a detection that reads its input and ends exits with 1 exactly when some pull request of an agent has
  a run that waits for approval, or no run at all and a head older than the grace; otherwise with 0.\<close>

theorem unreachable_exact:
  assumes "detect_main has_summary has_output decode_error raw = Some r" and "str_strip raw \<noteq> []"
    and "loads raw = Some payload" and "inputs_of payload = Some (now, grace, marks, authors, prs)"
  shows "pm_code r = (if list_ex (unreachable now grace marks authors) prs then 1 else 0)"
proof -
  from assms(1-3) obtain fs where e: "evaluate_prs payload = Some fs" and "pm_code r = (if fs = [] then 0 else 1)"
    by (cases "evaluate_prs payload") (simp_all add: detect_main_def, force)
  with evaluate_exact [OF e assms(4)] show ?thesis by simp
qed

text \<open>Without any input the detection reports that all pull requests are reachable.\<close>

theorem no_input_passes:
  "\<exists>r. detect_main has_summary has_output decode_error [] = Some r \<and> pm_code r = 0 \<and> pm_out r = pr_report [] @ newline"
proof -
  have "str_strip [] = []" "evaluate_prs (JObj []) = Some []" by code_simp+
  then show ?thesis by (simp add: detect_main_def)
qed

section \<open>Example\<close>

definition held_pr :: json where
  "held_pr = JObj [(''number'', JInt 7), (''head_ref'', JStr ''claude/x''),
     (''runs'', JList [JObj [(''event'', JStr ''pull_request''), (''conclusion'', JStr ''action_required''), (''name'', JStr ''tests'')]])]"

definition held_payload :: json where
  "held_payload = JObj [(''now'', JInt 1000), (''prs'', JList [held_pr])]"

theorem unreachable_exact_witness:
  "\<exists>r. detect_main True True id (dumps held_payload) = Some r \<and> pm_code r = 1"
proof -
  have i: "inputs_of held_payload = Some (JInt 1000, 1200, JList [JStr ''claude/''], [JStr ''github-actions[bot]''], [held_pr])"
    by code_simp
  have "clean held_payload" by (simp add: held_payload_def held_pr_def ascii_def is_ascii_def)
  then have l: "loads (dumps held_payload) = Some held_payload" by (rule loads_dumps)
  have n: "str_strip (dumps held_payload) \<noteq> []" by code_simp
  have "case evaluate_prs held_payload of Some fs \<Rightarrow> True | None \<Rightarrow> False" by code_simp
  then obtain fs where "evaluate_prs held_payload = Some fs" by (auto split: option.split_asm)
  with l n obtain r where r: "detect_main True True id (dumps held_payload) = Some r" by (simp add: detect_main_def)
  have "unreachable (JInt 1000) 1200 (JList [JStr ''claude/'']) [JStr ''github-actions[bot]''] held_pr"
  proof -
    have "is_agent_pr held_pr (JList [JStr ''claude/'']) [JStr ''github-actions[bot]''] = Some True" by code_simp
    moreover have "pr_runs held_pr = [JObj [(''event'', JStr ''pull_request''), (''conclusion'', JStr ''action_required''),
        (''name'', JStr ''tests'')]]"
      by (simp add: pr_runs_def held_pr_def jget_or_def jget_def dget_def jor_def)
    ultimately show ?thesis by (simp add: unreachable_def held_back_def jget_def dget_def jor_def)
  qed
  with unreachable_exact [OF r n l i] r show ?thesis by simp
qed

end
