(* ===== verification/GateManifest.thy ===== *)
theory GateManifest
  imports Json "HOL-Library.Product_Lexorder"
begin

text \<open>
  scripts/gate_manifest.py: the gate that a repository's manifest passes, against the schema beside it. The
  files, the validator of the jsonschema library and \<open>os.path.relpath\<close> are parameters; None is an exception,
  which ends the program with 1.
\<close>

section \<open>Files\<close>

text \<open>\<open>os.path.join\<close> of two parts.\<close>

definition path_join :: "string \<Rightarrow> string \<Rightarrow> string" where
  "path_join a b =
     (if prefix ''/'' b then b else if a = [] \<or> suffix ''/'' a then a @ b else a @ ''/'' @ b)"

definition SCHEMA_CANDIDATES :: "string list" where
  "SCHEMA_CANDIDATES = [''.fuze/repo-manifest.schema.json'', ''governance/repo-manifest.schema.json'']"

definition MANIFEST_REL :: string where
  "MANIFEST_REL = ''.fuze/manifest.json''"

text \<open>A file is its JSON value or the text of the error of reading it. An error of the validator has the path of
  the value and a message.\<close>

record schema_env =
  sc_file :: "string \<Rightarrow> (string + json) option"
  sc_validator :: "(json \<Rightarrow> json \<Rightarrow> (json list \<times> string) list option) option"
  sc_relpath :: "string \<Rightarrow> string \<Rightarrow> string"

definition is_file :: "schema_env \<Rightarrow> string \<Rightarrow> bool" where
  "is_file E p \<longleftrightarrow> sc_file E p \<noteq> None"

definition find_schema :: "schema_env \<Rightarrow> string \<Rightarrow> string option \<Rightarrow> string option" where
  "find_schema E base override =
     (case override of
        Some p \<Rightarrow>
          (if p \<noteq> [] then (if is_file E (path_join base p) then Some (path_join base p) else None)
           else find (is_file E) (map (path_join base) SCHEMA_CANDIDATES))
      | None \<Rightarrow> find (is_file E) (map (path_join base) SCHEMA_CANDIDATES))"

section \<open>Validation with the library\<close>

text \<open>A path as a key of sorting: its elements are texts and indexes.\<close>

definition path_key :: "json list \<Rightarrow> (nat \<times> int \<times> string) list" where
  "path_key path = map (\<lambda>x. case x of JInt i \<Rightarrow> (0, i, []) | _ \<Rightarrow> (1, 0, py_str x)) path"

definition full_line :: "json list \<times> string \<Rightarrow> string" where
  "full_line e =
     (let where' = str_join ''/'' (map py_str (fst e))
      in (if where' = [] then ''(root)'' else where') @ '' '' @ em_dash @ '' '' @ snd e)"

definition validate_full ::
  "(json \<Rightarrow> json \<Rightarrow> (json list \<times> string) list option) \<Rightarrow> json \<Rightarrow> json \<Rightarrow> string list option" where
  "validate_full validator manifest schema =
     map_option (\<lambda>es. map full_line (sort_key (\<lambda>e. path_key (fst e)) es)) (validator schema manifest)"

section \<open>Validation without it\<close>

text \<open>\<open>x in y\<close>.\<close>

fun json_in :: "json \<Rightarrow> json \<Rightarrow> bool option" where
  "json_in x (JList ys) = Some (list_ex (py_eq x) ys)"
| "json_in x (JObj kvs) = guard_opt (hashable x) (Some (case x of JStr k \<Rightarrow> map_of kvs k \<noteq> None | _ \<Rightarrow> False))"
| "json_in x (JStr s) = map_option (\<lambda>t. sublist t s) (as_text x)"
| "json_in x _ = None"

definition required_violations :: "json \<Rightarrow> json \<Rightarrow> string list option" where
  "required_violations manifest schema =
     do { keys \<leftarrow> jget_d schema ''required'' (JList []); keys \<leftarrow> jiter keys;
          map_option concat (those (map (\<lambda>key.
            do { present \<leftarrow> json_in key manifest;
                 Some (if present then []
                       else [''(root) '' @ em_dash @ '' '' @ [CHR 39] @ py_str key @ [CHR 39] @ '' is a required property'']) }) keys)) }"

definition additional_violations :: "json \<Rightarrow> json \<Rightarrow> json \<Rightarrow> string list option" where
  "additional_violations manifest schema props =
     do { additional \<leftarrow> jget schema ''additionalProperties'';
          if additional \<noteq> JBool False then Some []
          else do { keys \<leftarrow> jiter manifest;
                    map_option concat (those (map (\<lambda>key.
                      do { known \<leftarrow> json_in key props;
                           Some (if known then []
                                 else [''(root) '' @ em_dash @ '' additional property '' @ [CHR 39] @ py_str key @ [CHR 39]
                                       @ '' is not allowed'']) }) keys)) } }"

definition not_one_of :: "string \<Rightarrow> json \<Rightarrow> json \<Rightarrow> string" where
  "not_one_of place value' allowed =
     place @ '' '' @ em_dash @ '' '' @ json_repr value' @ '' is not one of '' @ py_str allowed"

definition value_violations :: "string \<Rightarrow> json \<Rightarrow> json \<Rightarrow> string list option" where
  "value_violations key spec value' =
     do { closed \<leftarrow> json_in (JStr ''enum'') spec;
          if \<not> closed then Some []
          else do { allowed \<leftarrow> jidx spec ''enum''; known \<leftarrow> json_in value' allowed;
                    Some (if known then [] else [not_one_of key value' allowed]) } }"

definition item_enum :: "json \<Rightarrow> json option" where
  "item_enum spec =
     do { kind \<leftarrow> jget spec ''type'';
          if kind = JStr ''array'' then do { items \<leftarrow> jget_or spec ''items'' (JObj []); jget items ''enum'' }
          else Some JNull }"

definition item_violations :: "string \<Rightarrow> json \<Rightarrow> json \<Rightarrow> string list option" where
  "item_violations key spec value' =
     do { allowed \<leftarrow> item_enum spec;
          (case value' of
             JList items \<Rightarrow>
               (if \<not> truthy allowed then Some []
                else map_option concat (those (map (\<lambda>(i, item).
                       do { known \<leftarrow> json_in item allowed;
                            Some (if known then [] else [not_one_of (key @ ''/'' @ show_int (int i)) item allowed]) })
                     (enumerate 0 items))))
           | _ \<Rightarrow> Some []) }"

definition enum_violations :: "json \<Rightarrow> string \<times> json \<Rightarrow> string list option" where
  "enum_violations manifest prop =
     (case prop of (key, spec) \<Rightarrow>
        do { present \<leftarrow> json_in (JStr key) manifest;
             if \<not> present then Some []
             else do { value' \<leftarrow> jidx manifest key; vs \<leftarrow> value_violations key spec value';
                       ws \<leftarrow> item_violations key spec value'; Some (vs @ ws) } })"

text \<open>\<open>props.items()\<close>.\<close>

definition members_of :: "json \<Rightarrow> jobj option" where
  "members_of j = (case j of JObj kvs \<Rightarrow> Some kvs | _ \<Rightarrow> None)"

definition validate_structural :: "json \<Rightarrow> json \<Rightarrow> string list option" where
  "validate_structural manifest schema =
     do { props \<leftarrow> jget_d schema ''properties'' (JObj []);
          missing \<leftarrow> required_violations manifest schema;
          unknown \<leftarrow> additional_violations manifest schema props;
          members \<leftarrow> members_of props;
          enums \<leftarrow> those (map (enum_violations manifest) members);
          Some (missing @ unknown @ concat enums) }"

section \<open>The program\<close>

record gate_output =
  go_code :: int
  go_out :: "string list"
  go_errors :: "string list"

text \<open>The value of the last \<open>--schema\<close>: the argument after it.\<close>

fun schema_override :: "string list \<Rightarrow> string option \<Rightarrow> string option" where
  "schema_override [] o' = o'"
| "schema_override (a # as) o' =
     schema_override as (if a = ''--schema'' then (case as of [] \<Rightarrow> None | b # _ \<Rightarrow> Some b) else o')"

definition gate_flags :: "string list \<Rightarrow> string list" where
  "gate_flags args = filter (prefix ''--'') args"

definition gate_root :: "string list \<Rightarrow> string" where
  "gate_root args = (case filter (\<lambda>a. \<not> prefix ''--'' a) args of [] \<Rightarrow> ''.'' | a # _ \<Rightarrow> a)"

definition gate_refused :: "string \<Rightarrow> gate_output" where
  "gate_refused line = \<lparr>go_code = 2, go_out = [], go_errors = [line]\<rparr>"

definition no_schema_line :: string where
  "no_schema_line =
     ''gate-manifest: ERROR '' @ em_dash @ '' no repo-manifest.schema.json found in ''
     @ str_join '' or '' SCHEMA_CANDIDATES
     @ ''. It is vendored by sdlc-bootstrap alongside this gate; if you have the gate you must have the ''
     @ ''schema.''"

definition fallback_note :: string where
  "fallback_note =
     ''gate-manifest: NOTE '' @ em_dash
     @ '' this run checked required keys, closed enums and unknown top-level properties only. Nested ''
     @ ''shapes, patterns and formats were NOT checked. Install jsonschema (pip install -q jsonschema) ''
     @ ''for full validation.''"

definition violation_lines :: "string list \<Rightarrow> string list" where
  "violation_lines vs =
     [newline @ ''gate-manifest: '' @ show_int (int (length vs)) @ '' violation(s)'' @ newline]
     @ map (\<lambda>v. ''  '' @ [CHR 0xE2, CHR 0x9C, CHR 0x97] @ '' '' @ v) vs
     @ [newline @ ''See governance/repo-manifest.schema.json. Declare the typed block (mcp/mobile/a2a/...) rather ''
        @ ''than only naming it in `channels` '' @ em_dash @ '' `channels` is deprecated and installs nothing.'']"

definition mode_lines :: "schema_env \<Rightarrow> string \<Rightarrow> string \<Rightarrow> string list" where
  "mode_lines E schema_path base =
     (let full = sc_validator E \<noteq> None
      in [''gate-manifest: schema='' @ sc_relpath E schema_path base @ '' mode=''
        @ (if full then ''full (jsonschema)'' else ''STRUCTURAL FALLBACK '' @ em_dash @ '' jsonschema not installed'')]
         @ (if full then [] else [fallback_note]))"

definition find_violations :: "schema_env \<Rightarrow> json \<Rightarrow> json \<Rightarrow> string list option" where
  "find_violations E manifest schema =
     (case sc_validator E of Some validator \<Rightarrow> validate_full validator manifest schema
      | None \<Rightarrow> validate_structural manifest schema)"

definition checked_output :: "schema_env \<Rightarrow> string \<Rightarrow> string \<Rightarrow> string list \<Rightarrow> gate_output" where
  "checked_output E schema_path base violations =
     \<lparr>go_code = (if violations = [] then 0 else 1),
      go_out = mode_lines E schema_path base @ (if violations = [] then [''gate-manifest: OK''] else violation_lines violations),
      go_errors = []\<rparr>"

definition check_manifest :: "schema_env \<Rightarrow> string \<Rightarrow> string \<Rightarrow> string + json \<Rightarrow> gate_output option" where
  "check_manifest E base schema_path manifest =
     (case manifest of
        Inl err \<Rightarrow> Some \<lparr>go_code = 1, go_out = [], go_errors = [''gate-manifest: '' @ MANIFEST_REL @ '' is not valid JSON: '' @ err]\<rparr>
      | Inr manifest \<Rightarrow>
          (case sc_file E schema_path of
             Some (Inr schema) \<Rightarrow> map_option (checked_output E schema_path base) (find_violations E manifest schema)
           | Some (Inl err) \<Rightarrow> Some (gate_refused (''gate-manifest: schema at '' @ schema_path @ '' is not readable: '' @ err))
           | None \<Rightarrow> None))"

definition manifest_main :: "schema_env \<Rightarrow> string list \<Rightarrow> gate_output option" where
  "manifest_main E args =
     (let unknown = filter (\<lambda>f. f \<noteq> ''--schema'') (gate_flags args); base = gate_root args
      in if unknown \<noteq> [] then Some (gate_refused (''gate-manifest: unknown flag(s): '' @ str_join '' '' unknown))
         else (case sc_file E (path_join base MANIFEST_REL) of
                 None \<Rightarrow>
                   Some \<lparr>go_code = 0, go_out = [''gate-manifest: no '' @ MANIFEST_REL @ '' '' @ em_dash @ '' nothing to check.''],
                         go_errors = []\<rparr>
               | Some manifest \<Rightarrow>
                   (case find_schema E base (schema_override args None) of
                      None \<Rightarrow> Some (gate_refused no_schema_line)
                    | Some schema_path \<Rightarrow> check_manifest E base schema_path manifest)))"

end
