(* ===== verification/GateManifest_Properties.thy ===== *)
theory GateManifest_Properties
  imports GateManifest
begin

text \<open>
  A manifest that the gate lets pass was checked against a schema, and what the check without the library
  looks for; a schema given without a root is taken for the root.
\<close>

section \<open>Passing\<close>

text \<open>When the gate exits with 0 and the repository has a manifest, no flag was unknown, the schema was found
  and read, and the check found no violation.\<close>

theorem gate_zero_means_checked:
  assumes "manifest_main E args = Some r" and "go_code r = 0"
    and "is_file E (path_join (gate_root args) MANIFEST_REL)"
  shows "set (gate_flags args) \<subseteq> {''--schema''}
    \<and> (\<exists>path manifest schema. find_schema E (gate_root args) (schema_override args None) = Some path
         \<and> sc_file E (path_join (gate_root args) MANIFEST_REL) = Some (Inr manifest) \<and> sc_file E path = Some (Inr schema)
         \<and> find_violations E manifest schema = Some [])"
  using assms
  by (auto simp: manifest_main_def check_manifest_def checked_output_def gate_refused_def is_file_def Let_def filter_empty_conv
      split: if_split_asm option.split_asm sum.split_asm)

text \<open>The path given with \<open>--schema\<close> alone is taken for the root of the repository: nothing is checked.\<close>

theorem schema_taken_for_root:
  assumes "\<not> prefix ''--'' path" and "\<not> is_file E (path_join path MANIFEST_REL)"
  shows "\<exists>r. manifest_main E [''--schema'', path] = Some r \<and> go_code r = 0"
  using assms by (auto simp: manifest_main_def gate_flags_def gate_root_def is_file_def Let_def)

section \<open>The check without the library\<close>

lemma those_concat_empty:
  "map_option concat (those (map f xs)) = Some ys \<Longrightarrow> ys = [] \<longleftrightarrow> (\<forall>x \<in> set xs. f x = Some [])"
  by (induction xs arbitrary: ys) (auto split: option.split_asm)

definition allowed_value :: "json \<Rightarrow> json \<Rightarrow> bool" where
  "allowed_value spec v \<longleftrightarrow> (\<forall>allowed. jidx spec ''enum'' = Some allowed \<longrightarrow> json_in v allowed = Some True)"

definition allowed_items :: "json \<Rightarrow> json \<Rightarrow> bool" where
  "allowed_items spec v \<longleftrightarrow>
     (\<forall>allowed items. item_enum spec = Some allowed \<longrightarrow> truthy allowed \<longrightarrow> v = JList items \<longrightarrow>
        (\<forall>item \<in> set items. json_in item allowed = Some True))"

lemma value_violations_empty:
  assumes "value_violations key (JObj spec) v = Some vs"
  shows "vs = [] \<longleftrightarrow> allowed_value (JObj spec) v"
  using assms
  by (auto simp: value_violations_def allowed_value_def bind_eq_Some_conv guard_opt_def split: if_split_asm)

lemma item_violations_empty:
  assumes "item_violations key spec v = Some vs"
  shows "vs = [] \<longleftrightarrow> allowed_items spec v"
proof -
  from assms obtain allowed where a: "item_enum spec = Some allowed" by (auto simp: item_violations_def bind_eq_Some_conv)
  show ?thesis
  proof (cases "\<exists>items. v = JList items \<and> truthy allowed")
    case False
    with assms a show ?thesis
      by (cases v) (auto simp: item_violations_def allowed_items_def)
  next
    case True
    then obtain items where v: "v = JList items" "truthy allowed" by blast
    define f where "f = (\<lambda>(i, item). do { known \<leftarrow> json_in item allowed;
        Some (if known then [] else [not_one_of (key @ ''/'' @ show_int (int i)) item allowed]) })"
    from assms a v have m: "map_option concat (those (map f (enumerate 0 items))) = Some vs"
      by (simp add: item_violations_def f_def)
    have "f x = Some [] \<longleftrightarrow> json_in (snd x) allowed = Some True" for x
      by (cases x) (auto simp: f_def bind_eq_Some_conv)
    moreover have "set items = snd ` set (enumerate 0 items)" by (metis map_snd_enumerate set_map)
    ultimately have "(\<forall>x \<in> set (enumerate 0 items). f x = Some []) \<longleftrightarrow> (\<forall>item \<in> set items. json_in item allowed = Some True)"
      by simp
    with those_concat_empty [OF m] a v show ?thesis by (auto simp: allowed_items_def)
  qed
qed

lemma enum_violations_empty:
  assumes "enum_violations (JObj m) (key, JObj spec) = Some vs"
  shows "vs = [] \<longleftrightarrow> (\<forall>v. map_of m key = Some v \<longrightarrow> allowed_value (JObj spec) v \<and> allowed_items (JObj spec) v)"
  using assms value_violations_empty item_violations_empty
  by (fastforce simp: enum_violations_def bind_eq_Some_conv guard_opt_def split: if_split_asm)

text \<open>C35: over a manifest and a schema that are dicts the check without the library, when it ends, finds nothing
  exactly when every required key is there, a closed schema knows every key, and every value and every item
  with a closed list of values is one of them.\<close>

theorem structural_exact:
  assumes "validate_structural (JObj m) (JObj schema) = Some vs"
    and "dget schema ''properties'' (JObj []) = JObj props" and "\<forall>p \<in> set props. \<exists>spec. snd p = JObj spec"
    and "dget schema ''required'' (JList []) = JList (map JStr required)"
  shows "vs = [] \<longleftrightarrow>
    (\<forall>key \<in> set required. map_of m key \<noteq> None)
    \<and> (dget schema ''additionalProperties'' JNull = JBool False \<longrightarrow> (\<forall>kv \<in> set m. map_of props (fst kv) \<noteq> None))
    \<and> (\<forall>(key, spec) \<in> set props. \<forall>v. map_of m key = Some v \<longrightarrow> allowed_value spec v \<and> allowed_items spec v)"
proof -
  from assms obtain ms us es where r: "required_violations (JObj m) (JObj schema) = Some ms"
      and a: "additional_violations (JObj m) (JObj schema) (JObj props) = Some us"
      and e: "those (map (enum_violations (JObj m)) props) = Some es" and vs: "vs = ms @ us @ concat es"
    by (auto simp: validate_structural_def bind_eq_Some_conv members_of_def)
  have "ms = [] \<longleftrightarrow> (\<forall>key \<in> set required. map_of m key \<noteq> None)"
  proof -
    from r assms(4) have "map_option concat (those (map (\<lambda>key. do { present \<leftarrow> json_in key (JObj m);
        Some (if present then [] else [''(root) '' @ em_dash @ '' '' @ [CHR 39] @ py_str key @ [CHR 39] @ '' is a required property'']) })
          (map JStr required))) = Some ms"
      by (simp add: required_violations_def)
    from those_concat_empty [OF this] show ?thesis by (auto simp: guard_opt_def)
  qed
  moreover have "us = [] \<longleftrightarrow> (dget schema ''additionalProperties'' JNull = JBool False \<longrightarrow> (\<forall>kv \<in> set m. map_of props (fst kv) \<noteq> None))"
  proof (cases "dget schema ''additionalProperties'' JNull = JBool False")
    case True
    with a have "map_option concat (those (map (\<lambda>key. do { known \<leftarrow> json_in key (JObj props);
        Some (if known then [] else [''(root) '' @ em_dash @ '' additional property '' @ [CHR 39] @ py_str key @ [CHR 39] @ '' is not allowed'']) })
          (map (\<lambda>kv. JStr (fst kv)) m))) = Some us"
      by (simp add: additional_violations_def jget_def)
    from those_concat_empty [OF this] True show ?thesis by (auto simp: guard_opt_def)
  next
    case False
    with a show ?thesis by (simp add: additional_violations_def jget_def)
  qed
  moreover have "concat es = [] \<longleftrightarrow> (\<forall>(key, spec) \<in> set props. \<forall>v. map_of m key = Some v \<longrightarrow> allowed_value spec v \<and> allowed_items spec v)"
  proof -
    have s: "map_option concat (those (map (enum_violations (JObj m)) props)) = Some (concat es)" using e by simp
    have "enum_violations (JObj m) p = Some [] \<longleftrightarrow>
        (\<forall>v. map_of m (fst p) = Some v \<longrightarrow> allowed_value (snd p) v \<and> allowed_items (snd p) v)" if "p \<in> set props" for p
    proof -
      from e that obtain ws where w: "enum_violations (JObj m) p = Some ws"
        by (induction props arbitrary: es) (auto split: option.split_asm)
      moreover from assms(3) that obtain spec where "p = (fst p, JObj spec)" by (metis prod.collapse)
      ultimately show ?thesis using enum_violations_empty [of m "fst p" spec ws] by (metis option.inject snd_conv)
    qed
    with those_concat_empty [OF s] show ?thesis by (auto simp: case_prod_beta)
  qed
  ultimately show ?thesis using vs by simp
qed

section \<open>Examples\<close>

definition channel_schema :: json where
  "channel_schema = JObj [(''required'', JList [JStr ''app'']), (''additionalProperties'', JBool False),
     (''properties'', JObj [(''app'', JObj []), (''channels'', JObj [(''type'', JStr ''array''),
        (''items'', JObj [(''enum'', JList [JStr ''mcp'', JStr ''mobile-app''])])])])]"

definition channel_env :: schema_env where
  "channel_env = \<lparr>sc_file = (\<lambda>p. if p = ''./.fuze/manifest.json'' then Some (Inr (JObj [(''app'', JStr ''x''), (''channels'', JList [JStr ''mcp''])]))
       else if p = ''./.fuze/repo-manifest.schema.json'' then Some (Inr channel_schema) else None),
     sc_validator = None, sc_relpath = (\<lambda>p _. p)\<rparr>"

theorem gate_zero_means_checked_witness:
  "\<exists>path manifest schema. find_schema channel_env ''.'' None = Some path \<and> sc_file channel_env path = Some (Inr schema)
     \<and> find_violations channel_env manifest schema = Some []"
proof -
  have "case manifest_main channel_env [] of Some r \<Rightarrow> go_code r = 0 | None \<Rightarrow> False" by code_simp
  then obtain r where "manifest_main channel_env [] = Some r" "go_code r = 0" by (auto split: option.split_asm)
  moreover have "is_file channel_env (path_join (gate_root []) MANIFEST_REL)" "gate_root [] = ''.''" "schema_override [] None = None"
    by code_simp+
  ultimately show ?thesis using gate_zero_means_checked [of channel_env "[]" r] by auto
qed

theorem structural_exact_witness:
  "\<exists>vs. validate_structural (JObj [(''channels'', JList [JStr ''mobile''])]) channel_schema = Some vs \<and> vs \<noteq> []"
proof -
  define schema where "schema = [(''required'', JList [JStr ''app'']), (''additionalProperties'', JBool False),
     (''properties'', JObj [(''app'', JObj []), (''channels'', JObj [(''type'', JStr ''array''),
        (''items'', JObj [(''enum'', JList [JStr ''mcp'', JStr ''mobile-app''])])])])]"
  have "case validate_structural (JObj [(''channels'', JList [JStr ''mobile''])]) channel_schema of Some vs \<Rightarrow> True | None \<Rightarrow> False"
    by code_simp
  then obtain vs where v: "validate_structural (JObj [(''channels'', JList [JStr ''mobile''])]) (JObj schema) = Some vs"
    by (auto simp: channel_schema_def schema_def split: option.split_asm)
  have "vs \<noteq> []"
    using structural_exact [OF v, where required = "[''app'']"]
    by (simp add: schema_def dget_def)
  with v show ?thesis by (simp add: channel_schema_def schema_def)
qed

end
