(* ===== verification/Spec2Isabelle.thy ===== *)
theory Spec2Isabelle
  imports Watchdog_Properties Watchdog_Findings Runner_Properties Runner_Fleet Hostname_Properties
    Teardown_Properties Delegation_Properties RunnerHealth_Properties
    Review_Properties Dispatcher_Properties RequiredChecks_Properties Version_Properties
    Ports_Properties AppProject_Properties CfHosts_Properties ArgoAlert_Properties
    DataTier_Properties AgentPr_Properties GateManifest_Properties
begin

text \<open>
  The verification development of FuzeInfra's operational Python programs. FuzeInfra is the shared
  platform of a fleet of repositories; the programs that run it unattended are modelled here.

  \<^bold>\<open>Programs\<close>

  \<^item> The deployment watchdog, scripts-tools/deployment_watchdog.py: a scheduled job that reads the
    cluster through kubectl, detects deployments that are frozen (stuck Argo operations, dark nodes,
    crash loops, containers that never start, full volumes), files GitHub issues about them, and takes
    the few actions it may take: terminating a stuck operation, and the escalation ladder for dark nodes
    (reboot, then reinstall). Its only memory is the issues and their comments.
  \<^item> The runner watcher, scripts/runner_watch.py: a scheduled job that decides for every repository of
    the fleet which CI runner it uses, writes the decision into a repository variable once it has been
    stable, and cancels and restarts runs that no runner picks up. Its memory is two repository
    variables.
  \<^item> The custom hostname API, services/custom-hostname-api/app: a service that attaches customer domains
    to workloads, by registering them with Cloudflare (or with a stub) and writing an Ingress. Its memory
    is the provider and the cluster.
  \<^item> The dispatcher of alert sessions, helm/fuzeinfra/files/alert-session-dispatcher/dispatcher.py: a
    webhook that starts a repair session for a critical alert, within the caps of a day and the cooldown
    of a fault. Its memory is a state file.
  \<^item> The checks in front of risky steps: scripts/preflight_node_teardown.py (may a node be wiped),
    scripts/runner_health.py (are the runners served), scripts/fuze_code_review_verdict.py (does a review by
    a model approve a change), scripts/gate_required_checks.py (can a required check be green without
    having looked), scripts/gate_manifest.py (the manifest of a repository), .github/detect-agent-pr-ci.py
    (pull requests whose checks never ran), scripts/validate_consumer_appproject.py (the boundary of the
    projects of consumers), scripts-tools/check_consumer_host_collisions.py (public hosts).
  \<^item> The programs that write what others declare: scripts-tools/materialize_cf_hosts.py (the registry of
    public hosts), scripts-tools/reconcile_datatier.py (databases), scripts-tools/version_manager.py (the
    version file), tools/port-allocator/port-allocator.py (ports), scripts/argo_alert.py (an alert from a
    payload).
  \<^item> The capability envelope that agents exchange,
    agent-templates/orchestration/capability_delegation.py.

  \<^bold>\<open>Foundations\<close>

  \<^item> Prelude: text (a list of bytes, the UTF-8 of the Python string), its operations, and the option type
    as "the Python code raises". PyNum: decimal text, floats as exact rationals with the IEEE specials,
    rounding and formatting. PyTime: datetimes, the calendar, \<open>isoformat\<close> and \<open>fromisoformat\<close>. Json and
    JsonText: the values \<open>json.loads\<close> returns, Python's operations on them, \<open>str\<close> and \<open>repr\<close>, \<open>dumps\<close>,
    the decoder \<open>loads\<close>, and the round trip between them. Sha256: the digest in the name of an Ingress.
  \<^item> Effects: a script as a function from the outside (which answers every process it starts from
    everything that happened before) and the trace so far to a result or an exception and the longer
    trace; the rules \<open>emits_rules\<close> that say what a composed script can emit.
  \<^item> Script: a script that keeps a state of its own as a function from the state to a failure or a result
    and the next state, with the rules \<open>leaves_rules\<close> (which views of the state a script leaves alone) and
    \<open>fails_rules\<close> (how it can fail). Encoding: Base64 and UTF-8 with replacement.
  \<^item> Durable: the locales \<open>durable_state\<close> and \<open>durable_machine\<close>, state that survives between runs as text;
    interpreted on the comments of an issue (Watchdog_Ladder_Durable) and on a repository variable
    (Runner_Durable).

  \<^bold>\<open>Watchdog\<close>

  \<^item> Watchdog_Detect, Watchdog_Pods: the five detections, the keys and markers of findings, the workload
    identity that survives the replacement of pods. Watchdog_Issues: deduplication against open issues
    and the text of an issue. Watchdog_Cluster, Watchdog_Usage: the guard in front of kubectl, and volume
    usage from Prometheus or df. Watchdog_Github: every gh call. Watchdog_Ladder: the escalation decision
    and its state. Watchdog_Main: \<open>main\<close> and \<open>run\<close>.
  \<^item> Watchdog_Ladder_Spec: the abstract ladder over typed states and the refinement of the decision to it.
    Watchdog_Ladder_Durable: the ladder over runs that keep their state in comments. Watchdog_Safety: what
    every piece of a run can emit. Ladder_Properties, Watchdog_Properties, Watchdog_Findings: the
    properties: a run that could not look never reports all clear, only allowed commands run, reboots are
    bounded and spaced, a reinstall needs its guards, the detections are exact, filing is bounded.

  \<^bold>\<open>Runner watcher\<close>

  \<^item> Runner_Decide: \<open>decide_runner\<close>, \<open>hysteresis\<close>, \<open>stranded_runs\<close>. Runner_State: the two variables, the
    fleet and the policy. Runner_Main: the gh layer, the two drivers and the command line.
  \<^item> Runner_Durable: the variables keep what they are given. Runner_Safety: what the drivers emit.
    Runner_Recovery: what one sweep cancels. Runner_Properties, Runner_Fleet: a write needs consecutive
    equal answers, the decision depends on liveness exactly when it says so, no run is cancelled twice
    within a sweep or over a chain of sweeps that finish (the relation \<open>chain\<close>), check mode only reads, the
    probe token stays where it belongs.

  \<^bold>\<open>Custom hostname API\<close>

  \<^item> Hostname_Models: effects (HTTP calls, the state file, clock, identifiers), errors, data, domains.
    Hostname_Config: settings, profiles, tokens. Hostname_Routing: the Ingress and the Kubernetes client.
    Hostname_Stub, Hostname_Cloudflare: the two providers. Hostname_Service: the service and the handlers.
  \<^item> Hostname_Laws: the contract of a provider as the locale \<open>hostname_provider\<close>, what the service makes of
    it, and its interpretation on the stub. Hostname_Properties: the domain of another profile is out of
    reach, \<open>active\<close> needs both halves, POST is idempotent and DELETE final, the cap on billed hostnames, the
    end of paging, names and domains.

  \<^bold>\<open>Dispatcher of alert sessions\<close>

  \<^item> Dispatcher: labels, faults, the decision \<open>decide_spawn\<close> and the reservation of an attempt.
    Dispatcher_State: what a state file means. Dispatcher_Run: the handling of an alert, over the outside and
    a disk whose writes may fail, and the relation \<open>history\<close> of alerts and restarts. Dispatcher_Properties: the
    attempts of a day and their cost stay within the caps, two attempts for one fault are spaced, and an
    attempt is saved as counted before anything leaves the process.

  \<^bold>\<open>Checks\<close>

  \<^item> Teardown, Teardown_Properties: the listing of volumes and replicas and the verdict; exit code 0 means
    that every volume keeps enough intact copies off the node.
  \<^item> RunnerHealth, RunnerHealth_Properties: the findings on scale sets, DNS and queues; exit code 0 means that
    every scale set is served.
  \<^item> Review, Review_Properties: blocks of a review, the verdict, the check and the outputs; an approval needs
    the nonce of the run, and the cases in which the check passes are exact.
  \<^item> RequiredChecks, RequiredChecks_Properties: jobs of workflows, contexts and the audit of a policy; a gate
    that passes has every required context emitted by a job that reports on every pull request.
  \<^item> GateManifest, GateManifest_Properties: both validations of a manifest; the one without the library is
    characterised exactly. AgentPr, AgentPr_Properties: the exit code is 1 exactly when some pull request of
    an agent is held back or has no runs.
  \<^item> AppProject, AppProject_Properties: the rules R1 to R6; every project that passes lies within the boundary
    \<open>within_boundary\<close>. CfHosts: the registry, the hosts of the infrastructure read from five sources, the guard.

  \<^bold>\<open>Writers\<close>

  \<^item> CfMaterialize, CfHosts_Properties: the policy for declared hosts and the file of the registry, which is
    read back as it was written; a label stays with its repository over any sequence of runs.
  \<^item> DataTier, DataTier_Properties: the indexes of provisioned databases, the gaps, the stubs and the patch;
    the exit code tells exactly whether everything declared is provisioned, and the file only grows.
  \<^item> Version, Version_Manager, Version_Properties: versions are read back as printed exactly when well formed,
    a bump is newer, and the build number counts the bumps.
  \<^item> Ports, Ports_Properties: the variables of a compose file and the search; the allocation is exact.
  \<^item> ArgoAlert, ArgoAlert_Properties: untrusted text becomes one bounded line, the block of failing resources
    cannot be left, and an alert to an owner matches the issue of its own application only.
  \<^item> Delegation, Delegation_Properties: the header of an envelope, the list of a callee and the handshake; the
    body cannot forge the header, an envelope is read back as rendered, and the handshake completes.

  \<^bold>\<open>Loops and fuel\<close>

  All loops of the scripts run over data and are structural recursions. The scanners of the decoder and
  of the regular expressions consume their text. The one loop whose end depends on the outside is the
  paging of Cloudflare's listing: \<open>cf_pages\<close> takes fuel and answers \<open>Unfinished\<close> without it, and
  \<open>listing_ends\<close> shows that the number of pages the answers claim is enough. \<open>repr\<close> of a float searches at
  most 17 decimal places.

  \<^bold>\<open>Not modelled\<close>

  \<^item> kubectl, gh, Kubernetes and Cloudflare themselves: parameters that may answer anything. The file
    system, the environment, the clock, the YAML parser and argument parsing are parameters too.
  \<^item> Upper and lower case, blank space and digits beyond ASCII; \<open>repr\<close> of characters that are not printable;
    rounding of floats (they are exact rationals); \<open>now - timedelta\<close> at the ends of the calendar; NaN inside
    JSON is kept as a value and never compared as a number.
  \<^item> Timeouts and signals; concurrent requests to the API (requests run one after the other); the text of
    the stub's state file (the JSON value it holds is the state); the framework that validates requests,
    beyond the rules of the model classes; the text of exceptions other than the programs' own.
  \<^item> The YAML parser and printer, the validator of the jsonschema library, GitHub's answers and the decoding of
    the files it sends, the ports that can be bound, the order in which a set is iterated: parameters of the
    definitions that use them. The texts of decoding errors and of the interpreter's exceptions are
    parameters, too; an exception that the code does not catch is None or a failure of the script.
  \<^item> Bodies in UTF-16 or with a byte order mark; the limit of digits in \<open>int()\<close>; time stamps of log lines; the
    verbose output of the port allocator; interruption from the keyboard.
  \<^item> The static gates that read source code of other repositories by regular expressions (federation contract,
    platform authentication, identifiers, agent to agent, API version, design system, pagination, vacuous
    checks), the inventory of secrets, the probes of live services, the command line tools over Docker and host
    files, the agent templates, the dashboards, and the code that is not Python: they are not modelled, and the
    manifest lists them with the reason.
\<close>

end
